(* ===== verification/Prelude.thy ===== *)
theory Prelude
  imports Main "HOL-Library.Char_ord" "HOL-Library.List_Lexorder" "HOL-Library.Product_Lexorder"
begin

text \<open>
  Shared vocabulary of the development.
  \<^item> Go errors as values (\<open>go_error\<close>): sentinels, plain texts, RPC errors, the
    errors the SQL driver reports, and wrapping by \<^verbatim>\<open>fmt.Errorf("...: %w", err)\<close>.
  \<^item> Go's 64-bit signed integers, as \<open>int\<close> with the wrap-around written out (\<open>wrap64\<close>).
  \<^item> Stateful code as \<open>('s, 'a) prog\<close>: explicit state passing with an error result, run in an
    environment \<open>env\<close> that decides the outcome of everything outside the program: which
    statements the SQL driver fails, what the clock reads, which identifiers the generator
    returns, when the context is cancelled. A counter says how many such events have
    happened, so every one of them may turn out differently.
  \<^item> SQL tables as lists of rows with generic statements on them.
  The lemmas reduce a successful run of a program to the run of its statements
  (\<open>run_simps\<close>) and give the composition rules for the three generic judgements
  on programs: \<open>readonly\<close>, \<open>atomic\<close> and \<open>keeps\<close>.
\<close>

section \<open>Errors\<close>

datatype rpc_code =
    CodeInvalidArgument | CodeNotFound | CodeAlreadyExists | CodePermissionDenied
  | CodeFailedPrecondition | CodeInternal | CodeUnauthenticated

datatype go_error =
    EDriver \<comment> \<open>an I/O failure of the SQL driver, or a cancelled statement\<close>
  | ENoRows \<comment> \<open>\<^verbatim>\<open>sql.ErrNoRows\<close>\<close>
  | EUnique \<comment> \<open>\<^verbatim>\<open>SQLITE_CONSTRAINT_UNIQUE\<close> or \<^verbatim>\<open>SQLITE_CONSTRAINT_PRIMARYKEY\<close>\<close>
  | EConstraint \<comment> \<open>a CHECK or FOREIGN KEY constraint\<close>
  | ESentinel string \<comment> \<open>a package-level \<^verbatim>\<open>var Err... = errors.New(...)\<close>\<close>
  | EText string
  | ERpc rpc_code string
  | ECommand string int string \<comment> \<open>\<^verbatim>\<open>*exec.CommandError\<close>: name, exit code, stderr\<close>
  | EWrap string go_error \<comment> \<open>\<^verbatim>\<open>fmt.Errorf("text: %w", err)\<close>\<close>
  | EDetail go_error string \<comment> \<open>\<^verbatim>\<open>fmt.Errorf("%w: text", err)\<close>\<close>

text \<open>\<open>errors.Is\<close> and \<open>errors.As\<close> look through wrapping.\<close>

fun unwrap :: "go_error \<Rightarrow> go_error" where
  "unwrap (EWrap t e) = unwrap e"
| "unwrap (EDetail e t) = unwrap e"
| "unwrap e = e"

definition errors_is :: "go_error \<Rightarrow> go_error \<Rightarrow> bool" where
  "errors_is e target \<longleftrightarrow> unwrap e = target"

lemma errors_is_simps [simp]:
  "errors_is (EWrap t e) x = errors_is e x"
  "errors_is (EDetail e t) x = errors_is e x"
  "errors_is EDriver x = (x = EDriver)"
  "errors_is ENoRows x = (x = ENoRows)"
  "errors_is EUnique x = (x = EUnique)"
  "errors_is EConstraint x = (x = EConstraint)"
  "errors_is (EText t) x = (x = EText t)"
  "errors_is (ESentinel t) x = (x = ESentinel t)"
  "errors_is (ERpc c t) x = (x = ERpc c t)"
  "errors_is (ECommand n k t) x = (x = ECommand n k t)"
  by (auto simp: errors_is_def)

section \<open>Machine integers\<close>

definition wrap64 :: "int \<Rightarrow> int" where
  "wrap64 i = (i + 2 ^ 63) mod 2 ^ 64 - 2 ^ 63"

definition wrap32 :: "int \<Rightarrow> int" where
  "wrap32 i = (i + 2 ^ 31) mod 2 ^ 32 - 2 ^ 31"

lemma wrap64_id [simp]: "- (2 ^ 63) \<le> i \<Longrightarrow> i < 2 ^ 63 \<Longrightarrow> wrap64 i = i"
  by (simp add: wrap64_def)

lemma wrap32_id [simp]: "- (2 ^ 31) \<le> i \<Longrightarrow> i < 2 ^ 31 \<Longrightarrow> wrap32 i = i"
  by (simp add: wrap32_def)

lemma wrap64_range: "- (2 ^ 63) \<le> wrap64 i \<and> wrap64 i < 2 ^ 63"
proof -
  have "0 \<le> (i + 2 ^ 63) mod 2 ^ 64" "(i + 2 ^ 63) mod 2 ^ 64 < (2 ^ 64 :: int)"
    by simp_all
  then show ?thesis by (simp add: wrap64_def)
qed

section \<open>Programs\<close>

record env =
  fault :: "nat \<Rightarrow> bool"      \<comment> \<open>the SQL driver fails this statement\<close>
  clock :: "nat \<Rightarrow> int"       \<comment> \<open>\<^verbatim>\<open>time.Now()\<close>, in nanoseconds\<close>
  ulid :: "nat \<Rightarrow> string"     \<comment> \<open>\<^verbatim>\<open>ulid.Make().String()\<close>\<close>
  cancelled :: "nat \<Rightarrow> bool"  \<comment> \<open>\<^verbatim>\<open>ctx.Err() != nil\<close>\<close>

type_synonym ('s, 'a) prog = "env \<Rightarrow> nat \<Rightarrow> 's \<Rightarrow> (go_error + 'a) \<times> nat \<times> 's"

definition ret :: "'a \<Rightarrow> ('s, 'a) prog" where
  "ret x = (\<lambda>E n s. (Inr x, n, s))"

definition throw :: "go_error \<Rightarrow> ('s, 'a) prog" where
  "throw e = (\<lambda>E n s. (Inl e, n, s))"

definition bnd :: "('s, 'a) prog \<Rightarrow> ('a \<Rightarrow> ('s, 'b) prog) \<Rightarrow> ('s, 'b) prog" where
  "bnd m f = (\<lambda>E n s. case m E n s of (r, n', s') \<Rightarrow>
     (case r of Inl e \<Rightarrow> (Inl e, n', s') | Inr x \<Rightarrow> f x E n' s'))"

text \<open>The handler of \<open>if err != nil { ... }\<close>: sees the error and the state it left.\<close>

definition handle :: "('s, 'a) prog \<Rightarrow> (go_error \<Rightarrow> ('s, 'a) prog) \<Rightarrow> ('s, 'a) prog" where
  "handle m h = (\<lambda>E n s. case m E n s of (r, n', s') \<Rightarrow>
     (case r of Inl e \<Rightarrow> h e E n' s' | Inr x \<Rightarrow> (Inr x, n', s')))"

text \<open>\<open>if err != nil { return f(err) }\<close>\<close>

definition map_err :: "(go_error \<Rightarrow> go_error) \<Rightarrow> ('s, 'a) prog \<Rightarrow> ('s, 'a) prog" where
  "map_err f m = handle m (\<lambda>e. throw (f e))"

definition require :: "bool \<Rightarrow> go_error \<Rightarrow> ('s, unit) prog" where
  "require b e = (if b then ret () else throw e)"

definition lift_sum :: "go_error + 'a \<Rightarrow> ('s, 'a) prog" where
  "lift_sum r = (case r of Inl e \<Rightarrow> throw e | Inr x \<Rightarrow> ret x)"

definition now :: "('s, int) prog" where
  "now = (\<lambda>E n s. (Inr (clock E n), Suc n, s))"

definition ulid_make :: "('s, string) prog" where
  "ulid_make = (\<lambda>E n s. (Inr (ulid E n), Suc n, s))"

definition ctx_done :: "('s, bool) prog" where
  "ctx_done = (\<lambda>E n s. (Inr (cancelled E n), Suc n, s))"

text \<open>One SQL statement: it takes effect as a whole or, when the driver or a constraint
  refuses it, not at all.\<close>

definition sql :: "('s \<Rightarrow> (go_error + 'a \<times> 's)) \<Rightarrow> ('s, 'a) prog" where
  "sql f = (\<lambda>E n s. if fault E n then (Inl EDriver, Suc n, s)
     else (case f s of Inl e \<Rightarrow> (Inl e, Suc n, s) | Inr (x, s') \<Rightarrow> (Inr x, Suc n, s')))"

definition query :: "('s \<Rightarrow> 'a) \<Rightarrow> ('s, 'a) prog" where
  "query f = sql (\<lambda>s. Inr (f s, s))"

text \<open>A \<^verbatim>\<open>:one\<close> query: no row is \<^verbatim>\<open>sql.ErrNoRows\<close>.\<close>

definition query_one :: "('s \<Rightarrow> 'a option) \<Rightarrow> ('s, 'a) prog" where
  "query_one f = sql (\<lambda>s. case f s of None \<Rightarrow> Inl ENoRows | Some x \<Rightarrow> Inr (x, s))"

text \<open>\<open>BeginTx\<close>, the body, \<open>Commit\<close>, with the deferred \<open>Rollback\<close>; \<open>b\<close> is the error the
  caller makes of a failed \<open>BeginTx\<close>.\<close>

definition transaction :: "go_error \<Rightarrow> ('s, 'a) prog \<Rightarrow> ('s, 'a) prog" where
  "transaction b m = (\<lambda>E n s. if fault E n then (Inl b, Suc n, s)
     else (case m E (Suc n) s of (r, n', s') \<Rightarrow>
       (case r of Inl e \<Rightarrow> (Inl e, n', s)
        | Inr x \<Rightarrow> (if fault E n' then (Inl EDriver, Suc n', s) else (Inr x, Suc n', s')))))"

text \<open>\<open>for _, x := range xs { if err := f(x); err != nil { return err } }\<close>\<close>

primrec for_each :: "('a \<Rightarrow> ('s, unit) prog) \<Rightarrow> 'a list \<Rightarrow> ('s, unit) prog" where
  "for_each f [] = ret ()"
| "for_each f (x # xs) = bnd (f x) (\<lambda>_. for_each f xs)"

text \<open>The same with a value appended per iteration.\<close>

primrec map_prog :: "('a \<Rightarrow> ('s, 'b) prog) \<Rightarrow> 'a list \<Rightarrow> ('s, 'b list) prog" where
  "map_prog f [] = ret []"
| "map_prog f (x # xs) = bnd (f x) (\<lambda>y. bnd (map_prog f xs) (\<lambda>ys. ret (y # ys)))"

text \<open>The same over a pure fallible function.\<close>

primrec map_sum :: "('a \<Rightarrow> go_error + 'b) \<Rightarrow> 'a list \<Rightarrow> go_error + 'b list" where
  "map_sum f [] = Inr []"
| "map_sum f (x # xs) = (case f x of Inl e \<Rightarrow> Inl e
     | Inr y \<Rightarrow> (case map_sum f xs of Inl e \<Rightarrow> Inl e | Inr ys \<Rightarrow> Inr (y # ys)))"

section \<open>Successful and failing runs\<close>

named_theorems run_simps "what a run of a composed program says about its parts"

lemma ret_run [run_simps]: "ret x E n s = (r, n', s') \<longleftrightarrow> r = Inr x \<and> n' = n \<and> s' = s"
  by (auto simp: ret_def)

lemma throw_run [run_simps]: "throw e E n s = (r, n', s') \<longleftrightarrow> r = Inl e \<and> n' = n \<and> s' = s"
  by (auto simp: throw_def)

lemma bnd_Inr [run_simps]:
  "bnd m f E n s = (Inr y, n', s') \<longleftrightarrow>
    (\<exists>x n1 s1. m E n s = (Inr x, n1, s1) \<and> f x E n1 s1 = (Inr y, n', s'))"
  by (cases "m E n s") (auto simp: bnd_def split: sum.splits)

lemma bnd_Inl [run_simps]:
  "bnd m f E n s = (Inl e, n', s') \<longleftrightarrow>
    m E n s = (Inl e, n', s') \<or>
    (\<exists>x n1 s1. m E n s = (Inr x, n1, s1) \<and> f x E n1 s1 = (Inl e, n', s'))"
  by (cases "m E n s") (auto simp: bnd_def split: sum.splits)

lemma bnd_run:
  "bnd m f E n s = (r, n', s') \<longleftrightarrow>
    (\<exists>e. r = Inl e \<and> m E n s = (Inl e, n', s')) \<or>
    (\<exists>x n1 s1. m E n s = (Inr x, n1, s1) \<and> f x E n1 s1 = (r, n', s'))"
  by (cases "m E n s") (auto simp: bnd_def split: sum.splits)

lemma handle_run:
  "handle m h E n s = (r, n', s') \<longleftrightarrow>
    (\<exists>x. r = Inr x \<and> m E n s = (Inr x, n', s')) \<or>
    (\<exists>e n1 s1. m E n s = (Inl e, n1, s1) \<and> h e E n1 s1 = (r, n', s'))"
  by (cases "m E n s") (auto simp: handle_def split: sum.splits)

lemma handle_Inr [run_simps]:
  "handle m h E n s = (Inr y, n', s') \<longleftrightarrow>
    m E n s = (Inr y, n', s') \<or>
    (\<exists>e n1 s1. m E n s = (Inl e, n1, s1) \<and> h e E n1 s1 = (Inr y, n', s'))"
  by (cases "m E n s") (auto simp: handle_def split: sum.splits)

lemma handle_Inl [run_simps]:
  "handle m h E n s = (Inl e, n', s') \<longleftrightarrow>
    (\<exists>e1 n1 s1. m E n s = (Inl e1, n1, s1) \<and> h e1 E n1 s1 = (Inl e, n', s'))"
  by (cases "m E n s") (auto simp: handle_def split: sum.splits)

lemma map_err_Inr [run_simps]:
  "map_err g m E n s = (Inr y, n', s') \<longleftrightarrow> m E n s = (Inr y, n', s')"
  by (simp add: map_err_def run_simps)

lemma map_err_Inl [run_simps]:
  "map_err g m E n s = (Inl e, n', s') \<longleftrightarrow> (\<exists>e1. m E n s = (Inl e1, n', s') \<and> e = g e1)"
  by (auto simp: map_err_def run_simps)

lemma require_Inr [run_simps]:
  "require b e E n s = (Inr u, n', s') \<longleftrightarrow> b \<and> n' = n \<and> s' = s"
  by (auto simp: require_def run_simps)

lemma require_Inl [run_simps]:
  "require b e E n s = (Inl e', n', s') \<longleftrightarrow> \<not> b \<and> e' = e \<and> n' = n \<and> s' = s"
  by (auto simp: require_def run_simps)

lemma lift_sum_run [run_simps]:
  "lift_sum x E n s = (r, n', s') \<longleftrightarrow> x = r \<and> n' = n \<and> s' = s"
  by (auto simp: lift_sum_def run_simps split: sum.splits)

lemma now_run [run_simps]:
  "now E n s = (r, n', s') \<longleftrightarrow> r = Inr (clock E n) \<and> n' = Suc n \<and> s' = s"
  by (auto simp: now_def)

lemma ulid_make_run [run_simps]:
  "ulid_make E n s = (r, n', s') \<longleftrightarrow> r = Inr (ulid E n) \<and> n' = Suc n \<and> s' = s"
  by (auto simp: ulid_make_def)

lemma ctx_done_run [run_simps]:
  "ctx_done E n s = (r, n', s') \<longleftrightarrow> r = Inr (cancelled E n) \<and> n' = Suc n \<and> s' = s"
  by (auto simp: ctx_done_def)

lemma sql_Inr [run_simps]:
  "sql f E n s = (Inr x, n', s') \<longleftrightarrow> \<not> fault E n \<and> f s = Inr (x, s') \<and> n' = Suc n"
  by (auto simp: sql_def split: sum.splits)

lemma sql_Inl [run_simps]:
  "sql f E n s = (Inl e, n', s') \<longleftrightarrow>
    n' = Suc n \<and> s' = s \<and> (if fault E n then e = EDriver else f s = Inl e)"
  by (auto simp: sql_def split: sum.splits)

lemma query_Inr [run_simps]:
  "query f E n s = (Inr x, n', s') \<longleftrightarrow> \<not> fault E n \<and> x = f s \<and> n' = Suc n \<and> s' = s"
  by (auto simp: query_def run_simps)

lemma query_Inl [run_simps]:
  "query f E n s = (Inl e, n', s') \<longleftrightarrow> fault E n \<and> e = EDriver \<and> n' = Suc n \<and> s' = s"
  by (auto simp: query_def run_simps)

lemma query_one_Inr [run_simps]:
  "query_one f E n s = (Inr x, n', s') \<longleftrightarrow> \<not> fault E n \<and> f s = Some x \<and> n' = Suc n \<and> s' = s"
  by (auto simp: query_one_def run_simps split: option.splits)

lemma query_one_Inl [run_simps]:
  "query_one f E n s = (Inl e, n', s') \<longleftrightarrow>
    n' = Suc n \<and> s' = s \<and> (if fault E n then e = EDriver else f s = None \<and> e = ENoRows)"
  by (auto simp: query_one_def run_simps split: option.splits)

lemma transaction_Inr [run_simps]:
  "transaction b m E n s = (Inr x, n', s') \<longleftrightarrow>
    \<not> fault E n \<and> (\<exists>n1. m E (Suc n) s = (Inr x, n1, s') \<and> \<not> fault E n1 \<and> n' = Suc n1)"
  by (cases "m E (Suc n) s") (auto simp: transaction_def split: sum.splits)

lemma transaction_Inl [run_simps]:
  "transaction b m E n s = (Inl e, n', s') \<longleftrightarrow> s' = s \<and>
    (if fault E n then e = b \<and> n' = Suc n
     else (\<exists>s1. m E (Suc n) s = (Inl e, n', s1)) \<or>
          (\<exists>x n1 s1. m E (Suc n) s = (Inr x, n1, s1) \<and> fault E n1 \<and> e = EDriver \<and> n' = Suc n1))"
  by (cases "m E (Suc n) s") (auto simp: transaction_def split: sum.splits)

section \<open>Judgements on programs\<close>

named_theorems prog_rules "composition rules for readonly, atomic and keeps"

text \<open>No run changes the state.\<close>

definition readonly :: "('s, 'a) prog \<Rightarrow> bool" where
  "readonly m \<longleftrightarrow> (\<forall>E n s r n' s'. m E n s = (r, n', s') \<longrightarrow> s' = s)"

text \<open>A run that returns an error leaves the state as it was.\<close>

definition atomic :: "('s, 'a) prog \<Rightarrow> bool" where
  "atomic m \<longleftrightarrow> (\<forall>E n s e n' s'. m E n s = (Inl e, n', s') \<longrightarrow> s' = s)"

text \<open>Every run keeps the invariant; \<open>keeps_ok\<close>: every successful run.\<close>

definition keeps :: "('s \<Rightarrow> bool) \<Rightarrow> ('s, 'a) prog \<Rightarrow> bool" where
  "keeps I m \<longleftrightarrow> (\<forall>E n s r n' s'. I s \<longrightarrow> m E n s = (r, n', s') \<longrightarrow> I s')"

definition keeps_ok :: "('s \<Rightarrow> bool) \<Rightarrow> ('s, 'a) prog \<Rightarrow> bool" where
  "keeps_ok I m \<longleftrightarrow> (\<forall>E n s x n' s'. I s \<longrightarrow> m E n s = (Inr x, n', s') \<longrightarrow> I s')"

lemma readonlyD: "readonly m \<Longrightarrow> m E n s = (r, n', s') \<Longrightarrow> s' = s"
  by (simp add: readonly_def)

lemma atomicI: "(\<And>E n s e n' s'. m E n s = (Inl e, n', s') \<Longrightarrow> s' = s) \<Longrightarrow> atomic m"
  by (auto simp: atomic_def)

lemma keepsD: "keeps I m \<Longrightarrow> I s \<Longrightarrow> m E n s = (r, n', s') \<Longrightarrow> I s'"
  unfolding keeps_def by blast

lemma keeps_okI:
  "(\<And>E n s x n' s'. I s \<Longrightarrow> m E n s = (Inr x, n', s') \<Longrightarrow> I s') \<Longrightarrow> keeps_ok I m"
  by (auto simp: keeps_ok_def)

lemma keeps_okD: "keeps_ok I m \<Longrightarrow> I s \<Longrightarrow> m E n s = (Inr x, n', s') \<Longrightarrow> I s'"
  by (auto simp: keeps_ok_def)

lemma readonly_basic [prog_rules]:
  "readonly (ret x)" "readonly (throw e)" "readonly now" "readonly ulid_make"
  "readonly ctx_done" "readonly (require b e)" "readonly (lift_sum r)"
  "readonly (query f)" "readonly (query_one g)"
  by (simp_all add: readonly_def ret_def throw_def now_def ulid_make_def ctx_done_def require_def
      lift_sum_def query_def query_one_def sql_def split: sum.splits option.splits)

lemma readonly_bnd [prog_rules]:
  "readonly m \<Longrightarrow> (\<And>x. readonly (f x)) \<Longrightarrow> readonly (bnd m f)"
  unfolding readonly_def bnd_run by blast

lemma readonly_handle [prog_rules]:
  "readonly m \<Longrightarrow> (\<And>e. readonly (h e)) \<Longrightarrow> readonly (handle m h)"
  unfolding readonly_def handle_run by blast

lemma readonly_map_err [prog_rules]: "readonly m \<Longrightarrow> readonly (map_err g m)"
  by (simp add: map_err_def readonly_handle readonly_basic)

lemma readonly_for_each [prog_rules]: "(\<And>x. readonly (f x)) \<Longrightarrow> readonly (for_each f xs)"
  by (induction xs) (auto intro: readonly_bnd readonly_basic)

lemma readonly_map_prog [prog_rules]: "(\<And>x. readonly (f x)) \<Longrightarrow> readonly (map_prog f xs)"
  by (induction xs) (auto intro!: readonly_bnd readonly_basic)

lemma readonly_case [prog_rules]:
  "(\<And>x. readonly (f x)) \<Longrightarrow> (\<And>y. readonly (g y)) \<Longrightarrow> readonly (case r of Inl x \<Rightarrow> f x | Inr y \<Rightarrow> g y)"
  "readonly m \<Longrightarrow> (\<And>x. readonly (f x)) \<Longrightarrow> readonly (case z of None \<Rightarrow> m | Some x \<Rightarrow> f x)"
  "readonly m \<Longrightarrow> readonly m' \<Longrightarrow> readonly (if b then m else m')"
  by (auto split: sum.splits option.splits)

lemma atomic_readonly: "readonly m \<Longrightarrow> atomic m"
  by (auto simp: atomic_def dest: readonlyD)

lemma atomic_sql [prog_rules]: "atomic (sql f)"
  by (auto simp: atomic_def run_simps)

lemma atomic_transaction [prog_rules]: "atomic (transaction b m)"
  by (auto simp: atomic_def run_simps)

lemma atomic_map_err [prog_rules]: "atomic m \<Longrightarrow> atomic (map_err g m)"
  by (auto simp: atomic_def run_simps)

text \<open>A read-only prefix does not disturb atomicity; neither does a suffix that cannot fail.\<close>

lemma atomic_bnd_readonly [prog_rules]:
  "readonly m \<Longrightarrow> (\<And>x. atomic (f x)) \<Longrightarrow> atomic (bnd m f)"
proof (rule atomicI)
  fix E n s e n' s'
  assume m: "readonly m" and f: "\<And>x. atomic (f x)" and run: "bnd m f E n s = (Inl e, n', s')"
  from run consider "m E n s = (Inl e, n', s')"
    | x n1 s1 where "m E n s = (Inr x, n1, s1)" "f x E n1 s1 = (Inl e, n', s')"
    by (auto simp: run_simps)
  then show "s' = s"
    using m f by cases (auto dest: readonlyD simp: atomic_def)
qed

lemma atomic_bnd_ret [prog_rules]: "atomic m \<Longrightarrow> atomic (bnd m (\<lambda>x. ret (f x)))"
  by (auto simp: atomic_def run_simps)

lemma atomic_branch [prog_rules]:
  "atomic m \<Longrightarrow> atomic m' \<Longrightarrow> atomic (if b then m else m')"
  "atomic m \<Longrightarrow> (\<And>x. atomic (f x)) \<Longrightarrow> atomic (case z of None \<Rightarrow> m | Some x \<Rightarrow> f x)"
  "(\<And>e. atomic (g e)) \<Longrightarrow> (\<And>x. atomic (f x)) \<Longrightarrow> atomic (case r of Inl e \<Rightarrow> g e | Inr x \<Rightarrow> f x)"
  by (auto split: option.splits sum.splits)

text \<open>\<open>keeps\<close> composes; a transaction needs the invariant of its successful runs only.\<close>

lemma keeps_readonly: "readonly m \<Longrightarrow> keeps I m"
  unfolding keeps_def readonly_def by blast

lemma keeps_ok_keeps: "keeps I m \<Longrightarrow> keeps_ok I m"
  by (auto simp: keeps_ok_def dest: keepsD)

lemma keeps_atomic: "atomic m \<Longrightarrow> keeps_ok I m \<Longrightarrow> keeps I m"
  unfolding keeps_def
proof (intro allI impI)
  fix E n s r n' s'
  assume a: "atomic m" and k: "keeps_ok I m" and I: "I s" and run: "m E n s = (r, n', s')"
  show "I s'"
  proof (cases r)
    case (Inl e)
    then have "s' = s" using a run unfolding atomic_def by blast
    then show ?thesis using I by simp
  next
    case (Inr x)
    then show ?thesis using k I run unfolding keeps_ok_def by blast
  qed
qed

lemma keeps_bnd [prog_rules]: "keeps I m \<Longrightarrow> (\<And>x. keeps I (f x)) \<Longrightarrow> keeps I (bnd m f)"
  unfolding keeps_def bnd_run by blast

lemma keeps_handle [prog_rules]: "keeps I m \<Longrightarrow> (\<And>e. keeps I (h e)) \<Longrightarrow> keeps I (handle m h)"
  unfolding keeps_def handle_run by blast

lemma keeps_map_err [prog_rules]: "keeps I m \<Longrightarrow> keeps I (map_err g m)"
  by (simp add: map_err_def keeps_handle keeps_readonly readonly_basic)

lemma keeps_branch [prog_rules]:
  "keeps I m \<Longrightarrow> keeps I m' \<Longrightarrow> keeps I (if b then m else m')"
  "keeps I m \<Longrightarrow> (\<And>x. keeps I (f x)) \<Longrightarrow> keeps I (case z of None \<Rightarrow> m | Some x \<Rightarrow> f x)"
  "(\<And>e. keeps I (g e)) \<Longrightarrow> (\<And>x. keeps I (f x)) \<Longrightarrow> keeps I (case r of Inl e \<Rightarrow> g e | Inr x \<Rightarrow> f x)"
  by (auto split: option.splits sum.splits)

lemma keeps_for_each [prog_rules]: "(\<And>x. keeps I (f x)) \<Longrightarrow> keeps I (for_each f xs)"
  by (induction xs) (auto intro: keeps_bnd keeps_readonly readonly_basic)

lemma keeps_ok_bnd [prog_rules]:
  "keeps_ok I m \<Longrightarrow> (\<And>x. keeps_ok I (f x)) \<Longrightarrow> keeps_ok I (bnd m f)"
  unfolding keeps_ok_def bnd_Inr by blast

lemma keeps_ok_basic [prog_rules]: "readonly m \<Longrightarrow> keeps_ok I m"
  by (simp add: keeps_ok_keeps keeps_readonly)

lemma keeps_ok_branch [prog_rules]:
  "keeps_ok I m \<Longrightarrow> keeps_ok I m' \<Longrightarrow> keeps_ok I (if b then m else m')"
  "keeps_ok I m \<Longrightarrow> (\<And>x. keeps_ok I (f x)) \<Longrightarrow> keeps_ok I (case z of None \<Rightarrow> m | Some x \<Rightarrow> f x)"
  "(\<And>e. keeps_ok I (g e)) \<Longrightarrow> (\<And>x. keeps_ok I (f x)) \<Longrightarrow> keeps_ok I (case r of Inl e \<Rightarrow> g e | Inr x \<Rightarrow> f x)"
  by (auto split: option.splits sum.splits)

lemma keeps_ok_map_err [prog_rules]: "keeps_ok I m \<Longrightarrow> keeps_ok I (map_err g m)"
  by (auto simp: keeps_ok_def run_simps)

lemma keeps_ok_for_each [prog_rules]: "(\<And>x. keeps_ok I (f x)) \<Longrightarrow> keeps_ok I (for_each f xs)"
  by (induction xs) (auto intro: keeps_ok_bnd keeps_ok_basic readonly_basic)

lemma keeps_transaction [prog_rules]: "keeps_ok I m \<Longrightarrow> keeps I (transaction b m)"
  by (rule keeps_atomic [OF atomic_transaction]) (auto simp: keeps_ok_def run_simps)

lemma keeps_ok_transaction [prog_rules]: "keeps_ok I m \<Longrightarrow> keeps_ok I (transaction b m)"
  by (rule keeps_ok_keeps) (rule keeps_transaction)

lemma prod_rules [prog_rules]:
  "(\<And>x y. readonly (rf x y)) \<Longrightarrow> readonly (case p of (x, y) \<Rightarrow> rf x y)"
  "(\<And>x y. atomic (rf x y)) \<Longrightarrow> atomic (case p of (x, y) \<Rightarrow> rf x y)"
  "(\<And>x y. keeps I (rf x y)) \<Longrightarrow> keeps I (case p of (x, y) \<Rightarrow> rf x y)"
  "(\<And>x y. keeps_ok I (rf x y)) \<Longrightarrow> keeps_ok I (case p of (x, y) \<Rightarrow> rf x y)"
  by (auto split: prod.splits)

section \<open>Tables\<close>

definition upd_rows :: "('r \<Rightarrow> bool) \<Rightarrow> ('r \<Rightarrow> 'r) \<Rightarrow> 'r list \<Rightarrow> 'r list" where
  "upd_rows p f rs = map (\<lambda>r. if p r then f r else r) rs"

definition del_rows :: "('r \<Rightarrow> bool) \<Rightarrow> 'r list \<Rightarrow> 'r list" where
  "del_rows p rs = filter (\<lambda>r. \<not> p r) rs"

definition count_rows :: "('r \<Rightarrow> bool) \<Rightarrow> 'r list \<Rightarrow> nat" where
  "count_rows p rs = length (filter p rs)"

lemma upd_rows_simps [simp]:
  "upd_rows p f [] = []"
  "upd_rows p f (r # rs) = (if p r then f r else r) # upd_rows p f rs"
  by (simp_all add: upd_rows_def)

lemma del_rows_simps [simp]:
  "del_rows p [] = []"
  "del_rows p (r # rs) = (if p r then del_rows p rs else r # del_rows p rs)"
  by (simp_all add: del_rows_def)

lemma set_upd_rows: "set (upd_rows p f rs) = {r. \<exists>q\<in>set rs. r = (if p q then f q else q)}"
  by (auto simp: upd_rows_def)

lemma set_del_rows [simp]: "set (del_rows p rs) = {r \<in> set rs. \<not> p r}"
  by (auto simp: del_rows_def)

lemma length_upd_rows [simp]: "length (upd_rows p f rs) = length rs"
  by (simp add: upd_rows_def)

text \<open>Rows looked up by a key that is unique in the table (a primary key).\<close>

locale keyed =
  fixes key :: "'r \<Rightarrow> 'k"
begin

definition unique :: "'r list \<Rightarrow> bool" where
  "unique rs \<longleftrightarrow> distinct (map key rs)"

definition lookup :: "'k \<Rightarrow> 'r list \<Rightarrow> 'r option" where
  "lookup k rs = List.find (\<lambda>r. key r = k) rs"

lemma lookup_in: "lookup k rs = Some r \<Longrightarrow> r \<in> set rs \<and> key r = k"
  by (auto simp: lookup_def find_Some_iff)

lemma lookup_None: "lookup k rs = None \<longleftrightarrow> (\<forall>r\<in>set rs. key r \<noteq> k)"
  by (auto simp: lookup_def find_None_iff)

lemma unique_eq: "unique rs \<Longrightarrow> r \<in> set rs \<Longrightarrow> r' \<in> set rs \<Longrightarrow> key r = key r' \<Longrightarrow> r = r'"
  by (auto simp: unique_def distinct_map inj_on_def)

lemma lookup_unique: "unique rs \<Longrightarrow> r \<in> set rs \<Longrightarrow> lookup (key r) rs = Some r"
  by (cases "lookup (key r) rs") (auto simp: lookup_None dest: lookup_in unique_eq)

lemma find_key:
  assumes "unique rs" and "r \<in> set rs" and "p r" and "\<And>x. p x \<Longrightarrow> key x = key r"
  shows "List.find p rs = Some r"
proof (cases "List.find p rs")
  case None
  then show ?thesis using assms by (auto simp: find_None_iff)
next
  case (Some x)
  then have "x \<in> set rs" "key x = key r" using assms(4) by (auto simp: find_Some_iff)
  then show ?thesis using Some unique_eq [OF assms(1)] assms(2) by simp
qed

lemma unique_del: "unique rs \<Longrightarrow> unique (del_rows p rs)"
  by (simp add: unique_def del_rows_def distinct_map_filter)

lemma unique_upd: "(\<And>r. key (f r) = key r) \<Longrightarrow> unique rs \<Longrightarrow> unique (upd_rows p f rs)"
proof -
  assume k: "\<And>r. key (f r) = key r" and u: "unique rs"
  have "map key (upd_rows p f rs) = map key rs"
    using k by (simp add: upd_rows_def)
  then show ?thesis using u by (simp add: unique_def)
qed

lemma unique_insert: "unique rs \<Longrightarrow> \<forall>q\<in>set rs. key q \<noteq> key r \<Longrightarrow> unique (rs @ [r])"
  by (auto simp: unique_def)

lemma unique_split:
  "unique (pre @ r # rem) \<Longrightarrow> x \<in> set pre \<union> set rem \<Longrightarrow> key x \<noteq> key r"
  by (auto simp: unique_def image_iff)

lemma upd_split:
  assumes "unique (pre @ r # rem)" and "p r" and "\<And>x. p x \<Longrightarrow> key x = key r"
  shows "upd_rows p f (pre @ r # rem) = pre @ f r # rem"
proof -
  have "\<not> p x" if "x \<in> set pre \<union> set rem" for x
    using unique_split [OF assms(1) that] assms(3) by blast
  then show ?thesis using assms(2) by (simp add: upd_rows_def map_idI)
qed

lemma del_split:
  assumes "unique (pre @ r # rem)" and "p r" and "\<And>x. p x \<Longrightarrow> key x = key r"
  shows "del_rows p (pre @ r # rem) = pre @ rem"
proof -
  have "\<not> p x" if "x \<in> set pre \<union> set rem" for x
    using unique_split [OF assms(1) that] assms(3) by blast
  then show ?thesis using assms(2) by (simp add: del_rows_def filter_id_conv)
qed

lemma upd_key_split:
  "unique (pre @ r # rem) \<Longrightarrow>
    upd_rows (\<lambda>x. key x = key r) f (pre @ r # rem) = pre @ f r # rem"
  by (rule upd_split) auto

lemma del_key_split:
  "unique (pre @ r # rem) \<Longrightarrow> del_rows (\<lambda>x. key x = key r) (pre @ r # rem) = pre @ rem"
  by (rule del_split) auto

lemma lookup_del: "lookup k (del_rows (\<lambda>r. key r = k) rs) = None"
  by (simp add: lookup_None)

lemma lookup_insert: "\<forall>q\<in>set rs. key q \<noteq> key r \<Longrightarrow> lookup (key r) (rs @ [r]) = Some r"
  by (induction rs) (auto simp: lookup_def)

lemma count_key: "unique rs \<Longrightarrow> count_rows (\<lambda>r. key r = k) rs = (if lookup k rs = None then 0 else 1)"
proof (induction rs)
  case Nil
  then show ?case by (simp add: count_rows_def lookup_def)
next
  case (Cons a rs)
  then have u: "unique rs" and a: "key a \<notin> key ` set rs"
    by (auto simp: unique_def)
  show ?case
  proof (cases "key a = k")
    case True
    then have "filter (\<lambda>r. key r = k) rs = []"
      using a by (auto simp: filter_empty_conv intro: rev_image_eqI)
    then show ?thesis using True by (simp add: count_rows_def lookup_def)
  next
    case False
    then show ?thesis using Cons.IH [OF u] by (simp add: count_rows_def lookup_def)
  qed
qed

end

end
