(* ===== verification/Contract.thy ===== *)
theory Contract
  imports Prelude
begin

text \<open>
  The protocol messages (\<^verbatim>\<open>contract/gen/go/cadestro/v1\<close>) that the agent and the server
  exchange and store, and \<^verbatim>\<open>contract/action.go\<close>. A message-typed field is an \<open>option\<close>
  (a nil pointer in Go); a getter on a nil message returns the field's zero value. Enums are
  open in proto3, so each has a constructor for unrecognised numbers.

  Protobuf serialisation and SHA-256 are library code: they are the fields of the record
  \<open>codec\<close>, an argument of every definition that uses them. What the code relies on is
  \<open>codec_laws\<close>: a message that was serialised deserialises to itself, and a SHA-256 digest
  has 32 bytes.
\<close>

section \<open>Messages\<close>

type_synonym bytes = string

datatype desired_state =
    DESIRED_STATE_UNSPECIFIED | DESIRED_STATE_PRESENT | DESIRED_STATE_ABSENT
  | DESIRED_STATE_UNRECOGNIZED int

datatype execution_status =
    EXECUTION_STATUS_UNSPECIFIED | EXECUTION_STATUS_SUCCESS | EXECUTION_STATUS_FAILED
  | EXECUTION_STATUS_TIMEOUT | EXECUTION_STATUS_INDETERMINATE
  | EXECUTION_STATUS_UNRECOGNIZED int

datatype compliance_status =
    COMPLIANCE_STATUS_UNSPECIFIED | COMPLIANCE_STATUS_COMPLIANT
  | COMPLIANCE_STATUS_NON_COMPLIANT | COMPLIANCE_STATUS_PENDING

datatype assignment_target_type =
    ASSIGNMENT_TARGET_TYPE_UNSPECIFIED | ASSIGNMENT_TARGET_TYPE_DEVICE
  | ASSIGNMENT_TARGET_TYPE_DEVICE_GROUP | ASSIGNMENT_TARGET_TYPE_UNRECOGNIZED int

record package_params =
  pkg_name :: string
  pkg_version :: string

text \<open>The environment map as its entries; the code that reads it sorts the keys.\<close>

record shell_params =
  sh_script :: string
  sh_interpreter :: string
  sh_working_directory :: string
  sh_environment :: "(string \<times> string) list"
  sh_detection_script :: string
  sh_is_compliance :: bool

text \<open>The \<^verbatim>\<open>params\<close> oneof: the inner message of a wrapper may be nil.\<close>

datatype action_params =
    ActionPackage "package_params option"
  | ActionUpdate
  | ActionShell "shell_params option"

record action =
  act_id :: "string option"
  act_desired_state :: desired_state
  act_timeout_seconds :: int
  act_schedule :: "int option" \<comment> \<open>\<^verbatim>\<open>ActionSchedule.interval_hours\<close>\<close>
  act_params :: "action_params option"

record command_output =
  exit_code :: int
  out_stdout :: string
  out_stderr :: string

record action_result =
  res_action_id :: "string option"
  res_status :: execution_status
  res_output :: "command_output option"
  res_detection_output :: "command_output option"
  res_completed_at :: "int option"
  res_run_id :: "string option"
  res_action_digest :: bytes

record desired_policy =
  refresh_interval_minutes :: int
  policy_actions :: "action option list"

text \<open>\<^verbatim>\<open>x.GetId().GetValue()\<close>: nil-safe.\<close>

definition id_value :: "string option \<Rightarrow> string" where
  "id_value m = (case m of None \<Rightarrow> '''' | Some v \<Rightarrow> v)"

lemma id_value_simps [simp]: "id_value None = ''''" "id_value (Some v) = v"
  by (simp_all add: id_value_def)

text \<open>\<^verbatim>\<open>schedule.GetIntervalHours()\<close>, \<^verbatim>\<open>output.GetStderr()\<close>, \<^verbatim>\<open>output.GetExitCode()\<close>.\<close>

definition interval_hours :: "int option \<Rightarrow> int" where
  "interval_hours sch = (case sch of None \<Rightarrow> 0 | Some h \<Rightarrow> h)"

definition get_stderr :: "command_output option \<Rightarrow> string" where
  "get_stderr m = (case m of None \<Rightarrow> '''' | Some c \<Rightarrow> out_stderr c)"

definition get_exit_code :: "command_output option \<Rightarrow> int" where
  "get_exit_code m = (case m of None \<Rightarrow> 0 | Some c \<Rightarrow> exit_code c)"

definition empty_output :: command_output where
  "empty_output = \<lparr>exit_code = 0, out_stdout = '''', out_stderr = ''''\<rparr>"

section \<open>Library code the messages rely on\<close>

record codec =
  marshal_action :: "action \<Rightarrow> bytes option"     \<comment> \<open>\<^verbatim>\<open>proto.Marshal\<close>; None is its error\<close>
  unmarshal_action :: "bytes \<Rightarrow> action option"
  marshal_result :: "action_result \<Rightarrow> bytes option"
  unmarshal_result :: "bytes \<Rightarrow> action_result option"
  marshal_deterministic :: "action \<Rightarrow> bytes option"
  sha256 :: "bytes \<Rightarrow> bytes"

definition codec_laws :: "codec \<Rightarrow> bool" where
  "codec_laws C \<longleftrightarrow>
     (\<forall>a b. marshal_action C a = Some b \<longrightarrow> unmarshal_action C b = Some a) \<and>
     (\<forall>r b. marshal_result C r = Some b \<longrightarrow> unmarshal_result C b = Some r) \<and>
     (\<forall>b. length (sha256 C b) = 32)"

lemma codec_action: "codec_laws C \<Longrightarrow> marshal_action C a = Some b \<Longrightarrow> unmarshal_action C b = Some a"
  by (simp add: codec_laws_def)

lemma codec_result: "codec_laws C \<Longrightarrow> marshal_result C r = Some b \<Longrightarrow> unmarshal_result C b = Some r"
  by (simp add: codec_laws_def)

lemma codec_sha256: "codec_laws C \<Longrightarrow> length (sha256 C b) = 32"
  by (simp add: codec_laws_def)

section \<open>The digest of an action\<close>

definition ActionDigest :: "codec \<Rightarrow> action option \<Rightarrow> go_error + bytes" where
  "ActionDigest C act = (case act of
     None \<Rightarrow> Inl (EText ''action digest: action is required'')
   | Some a \<Rightarrow> (case marshal_deterministic C a of
       None \<Rightarrow> Inl (EWrap ''action digest: marshal action'' (EText ''proto''))
     | Some payload \<Rightarrow> Inr (sha256 C payload)))"

lemma ActionDigest_length: "codec_laws C \<Longrightarrow> ActionDigest C act = Inr d \<Longrightarrow> length d = 32"
  by (auto simp: ActionDigest_def codec_sha256 split: option.splits)

text \<open>A concrete codec for closed examples: it serialises the listed messages, one byte string
  each, and rejects every other message.\<close>

definition table_codec :: "(action \<times> bytes) list \<Rightarrow> (action_result \<times> bytes) list \<Rightarrow> codec" where
  "table_codec as rs = \<lparr>
     marshal_action = map_of as,
     unmarshal_action = map_of (map (\<lambda>(a, b). (b, a)) as),
     marshal_result = map_of rs,
     unmarshal_result = map_of (map (\<lambda>(r, b). (b, r)) rs),
     marshal_deterministic = map_of as,
     sha256 = (\<lambda>b. take 32 (b @ replicate 32 (CHR ''0'')))\<rparr>"

lemma map_of_swap:
  "distinct (map snd xs) \<Longrightarrow> map_of xs a = Some b \<Longrightarrow> map_of (map (\<lambda>(a, b). (b, a)) xs) b = Some a"
proof (induction xs)
  case Nil
  then show ?case by simp
next
  case (Cons p xs)
  obtain x y where p: "p = (x, y)" by (cases p)
  show ?case
  proof (cases "x = a")
    case True
    then show ?thesis using Cons.prems p by simp
  next
    case False
    then have m: "map_of xs a = Some b" using Cons.prems p by simp
    then have "b \<in> set (map snd xs)" by (force dest: map_of_SomeD)
    then have "b \<noteq> y" using Cons.prems(1) p by auto
    then show ?thesis using Cons.IH Cons.prems(1) m p by simp
  qed
qed

lemma table_codec_laws:
  "distinct (map snd as) \<Longrightarrow> distinct (map snd rs) \<Longrightarrow> codec_laws (table_codec as rs)"
  by (auto simp: codec_laws_def table_codec_def intro: map_of_swap)

end
