(* ===== verification/Agent_Store.thy ===== *)
theory Agent_Store
  imports Contract "HOL-Library.Multiset"
begin

text \<open>
  The agent's durable store: \<^verbatim>\<open>agent/internal/store\<close> with the two tables of its migration
  and the statements of \<^verbatim>\<open>queries/action.sql\<close> (\<^verbatim>\<open>generated/action.sql.go\<close>). Columns that
  no statement reads (\<^verbatim>\<open>created_at\<close>, \<^verbatim>\<open>updated_at\<close>) are left out. Timestamps are
  nanoseconds. \<open>ReconcilePolicy\<close>, \<open>BeginActionRun\<close>, \<open>RecordActionResult\<close>,
  \<open>RecoverInterruptedActions\<close> and the reads are programs over \<open>agent_db\<close>.
\<close>

section \<open>State\<close>

record scheduled_work =
  work_id :: string
  run_id :: "string option"
  action_blob :: bytes
  run_action_digest :: "bytes option"
  retired :: bool
  received_at :: int
  last_executed_at :: "int option"
  next_execute_at :: int
  run_started_at :: "int option"
  run_in_progress :: bool

record outbox_row =
  sequence :: nat
  payload :: bytes

text \<open>\<open>outbox_seq\<close> is SQLite's AUTOINCREMENT counter of \<^verbatim>\<open>result_outbox\<close>.\<close>

record agent_db =
  works :: "scheduled_work list"
  outbox :: "outbox_row list"
  outbox_seq :: nat

interpretation work: keyed work_id .

interpretation box: keyed sequence .

section \<open>Schedule arithmetic\<close>

definition nanos_per_hour :: int where
  "nanos_per_hour = 3600000000000"

definition defaultInterval :: int where
  "defaultInterval = 8 * nanos_per_hour"

definition clampInterval :: "int \<Rightarrow> int \<Rightarrow> int \<Rightarrow> int" where
  "clampInterval computed nw interval =
     (let ceiling = nw + interval in if computed > ceiling then ceiling else computed)"

text \<open>\<^verbatim>\<open>time.Duration(hours) * time.Hour\<close> is a 64-bit product.\<close>

definition schedule_interval :: "int option \<Rightarrow> int" where
  "schedule_interval sch = (if interval_hours sch > 0
     then wrap64 (interval_hours sch * nanos_per_hour) else defaultInterval)"

definition calculateNextExecuteFromSchedule :: "int option \<Rightarrow> int option \<Rightarrow> int \<Rightarrow> int" where
  "calculateNextExecuteFromSchedule sch lastExecuted nw =
     (let interval = schedule_interval sch in
      case lastExecuted of None \<Rightarrow> nw
      | Some l \<Rightarrow> clampInterval (l + interval) nw interval)"

section \<open>Statements\<close>

definition ListAllWork :: "(agent_db, scheduled_work list) prog" where
  "ListAllWork = query works"

definition RetireWork :: "string \<Rightarrow> (agent_db, unit) prog" where
  "RetireWork wid = sql (\<lambda>s. Inr ((), s\<lparr>works :=
     upd_rows (\<lambda>w. work_id w = wid) (\<lambda>w. w\<lparr>retired := True\<rparr>) (works s)\<rparr>))"

definition DeleteWork :: "string \<Rightarrow> (agent_db, unit) prog" where
  "DeleteWork wid = sql (\<lambda>s. Inr ((), s\<lparr>works := del_rows (\<lambda>w. work_id w = wid) (works s)\<rparr>))"

definition UpdateScheduledWork :: "bytes \<Rightarrow> int \<Rightarrow> string \<Rightarrow> (agent_db, unit) prog" where
  "UpdateScheduledWork blob nxt wid = sql (\<lambda>s. Inr ((), s\<lparr>works :=
     upd_rows (\<lambda>w. work_id w = wid)
       (\<lambda>w. w\<lparr>action_blob := blob, retired := False, next_execute_at := nxt\<rparr>) (works s)\<rparr>))"

definition new_work :: "string \<Rightarrow> bytes \<Rightarrow> int \<Rightarrow> int \<Rightarrow> scheduled_work" where
  "new_work wid blob received nxt = \<lparr>work_id = wid, run_id = None, action_blob = blob,
     run_action_digest = None, retired = False, received_at = received, last_executed_at = None,
     next_execute_at = nxt, run_started_at = None, run_in_progress = False\<rparr>"

definition InsertScheduledWork :: "string \<Rightarrow> bytes \<Rightarrow> int \<Rightarrow> int \<Rightarrow> (agent_db, unit) prog" where
  "InsertScheduledWork wid blob received nxt = sql (\<lambda>s.
     if \<exists>w\<in>set (works s). work_id w = wid then Inl EUnique
     else Inr ((), s\<lparr>works := works s @ [new_work wid blob received nxt]\<rparr>))"

definition runnable :: "int \<Rightarrow> scheduled_work \<Rightarrow> bool" where
  "runnable nw w \<longleftrightarrow> \<not> retired w \<and> \<not> run_in_progress w \<and> next_execute_at w \<le> nw"

definition GetDueScheduledWork_rows :: "int \<Rightarrow> (agent_db, scheduled_work list) prog" where
  "GetDueScheduledWork_rows nw = query (\<lambda>s.
     sort_key (\<lambda>w. (next_execute_at w, work_id w)) (filter (runnable nw) (works s)))"

definition GetRunnableWork :: "string \<Rightarrow> int \<Rightarrow> (agent_db, scheduled_work) prog" where
  "GetRunnableWork wid nw = query_one (\<lambda>s.
     List.find (\<lambda>w. work_id w = wid \<and> runnable nw w) (works s))"

text \<open>\<open>run_id\<close> is a UNIQUE column; NULLs do not collide.\<close>

definition begin_work :: "string \<Rightarrow> bytes \<Rightarrow> int \<Rightarrow> int \<Rightarrow> scheduled_work \<Rightarrow> scheduled_work" where
  "begin_work rid digest started nxt w = w\<lparr>run_id := Some rid, run_action_digest := Some digest,
     last_executed_at := Some started, next_execute_at := nxt, run_started_at := Some started,
     run_in_progress := True\<rparr>"

definition BeginScheduledRun ::
  "string \<Rightarrow> bytes \<Rightarrow> int \<Rightarrow> int \<Rightarrow> string \<Rightarrow> int \<Rightarrow> (agent_db, nat) prog" where
  "BeginScheduledRun rid digest started nxt wid nw = sql (\<lambda>s.
     let hit = (\<lambda>w. work_id w = wid \<and> runnable nw w) in
     if (\<exists>w\<in>set (works s). hit w) \<and> (\<exists>w\<in>set (works s). \<not> hit w \<and> run_id w = Some rid)
     then Inl EUnique
     else Inr (count_rows hit (works s),
       s\<lparr>works := upd_rows hit (begin_work rid digest started nxt) (works s)\<rparr>))"

text \<open>\<^verbatim>\<open>run_action_digest = ?\<close> never matches NULL, on either side.\<close>

definition finish_match :: "string \<Rightarrow> string \<Rightarrow> bytes option \<Rightarrow> scheduled_work \<Rightarrow> bool" where
  "finish_match wid rid digest w \<longleftrightarrow> work_id w = wid \<and> run_id w = Some rid \<and>
     digest \<noteq> None \<and> run_action_digest w = digest \<and> run_in_progress w"

definition finish_work :: "scheduled_work \<Rightarrow> scheduled_work" where
  "finish_work w = w\<lparr>run_in_progress := False, run_started_at := None, run_action_digest := None,
     run_id := (if retired w then run_id w else None)\<rparr>"

definition FinishScheduledRun :: "string \<Rightarrow> string \<Rightarrow> bytes option \<Rightarrow> (agent_db, bool) prog" where
  "FinishScheduledRun wid rid digest = sql (\<lambda>s.
     case List.find (finish_match wid rid digest) (works s) of
       None \<Rightarrow> Inl ENoRows
     | Some w \<Rightarrow> Inr (retired w,
         s\<lparr>works := upd_rows (finish_match wid rid digest) finish_work (works s)\<rparr>))"

definition DeleteRetiredWork :: "string \<Rightarrow> string \<Rightarrow> (agent_db, unit) prog" where
  "DeleteRetiredWork wid rid = sql (\<lambda>s. Inr ((), s\<lparr>works :=
     del_rows (\<lambda>w. work_id w = wid \<and> run_id w = Some rid \<and> retired w) (works s)\<rparr>))"

definition InsertResultOutbox :: "bytes \<Rightarrow> (agent_db, nat) prog" where
  "InsertResultOutbox pl = sql (\<lambda>s. let q = Suc (outbox_seq s) in
     Inr (q, s\<lparr>outbox := outbox s @ [\<lparr>sequence = q, payload = pl\<rparr>], outbox_seq := q\<rparr>))"

definition GetPendingResults_rows :: "(agent_db, outbox_row list) prog" where
  "GetPendingResults_rows = query (\<lambda>s. sort_key sequence (outbox s))"

definition DeletePendingResult :: "nat \<Rightarrow> (agent_db, unit) prog" where
  "DeletePendingResult q = sql (\<lambda>s. Inr ((), s\<lparr>outbox := del_rows (\<lambda>b. sequence b = q) (outbox s)\<rparr>))"

definition ListInterruptedWork :: "(agent_db, scheduled_work list) prog" where
  "ListInterruptedWork = query (\<lambda>s. sort_key work_id (filter run_in_progress (works s)))"

section \<open>Operations\<close>

text \<open>\<^verbatim>\<open>decodeAction\<close>\<close>

definition decodeAction :: "codec \<Rightarrow> bytes \<Rightarrow> go_error + action" where
  "decodeAction C blob = (case unmarshal_action C blob of
     None \<Rightarrow> Inl (EText ''proto: cannot parse'') | Some a \<Rightarrow> Inr a)"

definition marshalAction :: "codec \<Rightarrow> action \<Rightarrow> go_error + bytes" where
  "marshalAction C a = (case marshal_action C a of
     None \<Rightarrow> Inl (EText ''proto: cannot marshal'') | Some b \<Rightarrow> Inr b)"

definition marshalResult :: "codec \<Rightarrow> action_result \<Rightarrow> go_error + bytes" where
  "marshalResult C r = (case marshal_result C r of
     None \<Rightarrow> Inl (EText ''proto: cannot marshal'') | Some b \<Rightarrow> Inr b)"

text \<open>The loop that turns the snapshot into the map \<open>current\<close>; its entries are kept in the
  order of the policy.\<close>

fun current_actions :: "action option list \<Rightarrow> (string \<times> action) list \<Rightarrow> go_error + (string \<times> action) list" where
  "current_actions [] cur = Inr cur"
| "current_actions (None # as) cur = Inl (EText ''reconcile policy: malformed action'')"
| "current_actions (Some a # as) cur =
     (if id_value (act_id a) = '''' then Inl (EText ''reconcile policy: malformed action'')
      else if map_of cur (id_value (act_id a)) \<noteq> None
      then Inl (EText (''reconcile policy: duplicate action '' @ id_value (act_id a)))
      else current_actions as (cur @ [(id_value (act_id a), a)]))"

definition reconcile_existing :: "codec \<Rightarrow> (string \<times> action) list \<Rightarrow> int \<Rightarrow> scheduled_work \<Rightarrow> (agent_db, unit) prog" where
  "reconcile_existing C current nw row =
     (case map_of current (work_id row) of
        None \<Rightarrow> (if run_in_progress row then RetireWork (work_id row) else DeleteWork (work_id row))
      | Some a \<Rightarrow>
          if \<not> retired row then
            bnd (map_err (EWrap (''reconcile policy: decode '' @ work_id row))
                   (lift_sum (decodeAction C (action_blob row)))) (\<lambda>stored.
            if stored \<noteq> a then
              bnd (map_err (EWrap (''reconcile policy: marshal '' @ work_id row))
                     (lift_sum (marshalAction C a))) (\<lambda>blob.
              map_err (EWrap (''reconcile policy: update '' @ work_id row))
                (UpdateScheduledWork blob nw (work_id row)))
            else ret ())
          else
            bnd (map_err (EWrap (''reconcile policy: marshal '' @ work_id row))
                   (lift_sum (marshalAction C a))) (\<lambda>blob.
            map_err (EWrap (''reconcile policy: revive '' @ work_id row))
              (UpdateScheduledWork blob nw (work_id row))))"

definition reconcile_insert :: "codec \<Rightarrow> scheduled_work list \<Rightarrow> int \<Rightarrow> string \<times> action \<Rightarrow> (agent_db, unit) prog" where
  "reconcile_insert C inventory nw ia = (case ia of (i, a) \<Rightarrow>
     if i \<in> work_id ` set inventory then ret ()
     else bnd (map_err (EWrap (''reconcile policy: marshal '' @ i)) (lift_sum (marshalAction C a))) (\<lambda>blob.
       map_err (EWrap (''reconcile policy: insert '' @ i))
         (InsertScheduledWork i blob nw (calculateNextExecuteFromSchedule (act_schedule a) None nw))))"

definition ReconcilePolicy :: "codec \<Rightarrow> desired_policy option \<Rightarrow> (agent_db, unit) prog" where
  "ReconcilePolicy C policy = (case policy of
     None \<Rightarrow> throw (EText ''reconcile policy: malformed snapshot'')
   | Some p \<Rightarrow>
     bnd (lift_sum (current_actions (policy_actions p) [])) (\<lambda>current.
     transaction EDriver (
       bnd ListAllWork (\<lambda>rows.
       bnd now (\<lambda>nw.
       bnd (for_each (reconcile_existing C current nw) rows) (\<lambda>_.
       for_each (reconcile_insert C rows nw) current))))))"

text \<open>\<^verbatim>\<open>ScheduledWork\<close>: the action, the work id and the run id.\<close>

record due_work =
  dw_action :: action
  dw_work_id :: string
  dw_run_id :: string

definition GetDueScheduledWork :: "codec \<Rightarrow> (agent_db, due_work list) prog" where
  "GetDueScheduledWork C =
     bnd now (\<lambda>nw.
     bnd (GetDueScheduledWork_rows nw) (\<lambda>rows.
     map_prog (\<lambda>row.
       bnd (map_err (EWrap (''decode action '' @ work_id row))
              (lift_sum (decodeAction C (action_blob row)))) (\<lambda>a.
       ret \<lparr>dw_action = a, dw_work_id = work_id row, dw_run_id = ''''\<rparr>)) rows))"

definition BeginActionRun :: "codec \<Rightarrow> due_work option \<Rightarrow> int \<Rightarrow> (agent_db, due_work) prog" where
  "BeginActionRun C ow started = (case ow of
     None \<Rightarrow> throw (EText ''begin action run: missing work'')
   | Some w \<Rightarrow>
     if dw_work_id w = '''' then throw (EText ''begin action run: missing work'')
     else transaction EDriver (
       bnd now (\<lambda>nw.
       bnd (GetRunnableWork (dw_work_id w) nw) (\<lambda>run.
       bnd (map_err (EWrap ''begin action run: decode current action'')
              (lift_sum (decodeAction C (action_blob run)))) (\<lambda>a.
       bnd (lift_sum (ActionDigest C (Some a))) (\<lambda>digest.
       bnd ulid_make (\<lambda>rid.
       bnd (BeginScheduledRun rid digest started
              (calculateNextExecuteFromSchedule (act_schedule a) (Some started) nw)
              (dw_work_id w) nw) (\<lambda>k.
       bnd (require (k = 1) (EText ''begin action run: already running'')) (\<lambda>_.
       ret (w\<lparr>dw_action := a, dw_run_id := rid\<rparr>))))))))))"

definition RecordActionResult :: "codec \<Rightarrow> action_result option \<Rightarrow> (agent_db, nat) prog" where
  "RecordActionResult C res = (case res of
     None \<Rightarrow> throw (EText ''record action result: malformed result'')
   | Some r \<Rightarrow>
     if id_value (res_action_id r) = '''' \<or> id_value (res_run_id r) = '''' \<or>
        res_completed_at r = None \<or> length (res_action_digest r) \<noteq> 32
     then throw (EText ''record action result: malformed result'')
     else bnd (lift_sum (marshalResult C r)) (\<lambda>pl.
       transaction EDriver (
       bnd (FinishScheduledRun (id_value (res_action_id r)) (id_value (res_run_id r))
              (Some (res_action_digest r))) (\<lambda>ret_work.
       bnd (InsertResultOutbox pl) (\<lambda>q.
       bnd (if ret_work then DeleteRetiredWork (id_value (res_action_id r)) (id_value (res_run_id r))
            else ret ()) (\<lambda>_.
       ret q))))))"

definition GetPendingResults :: "codec \<Rightarrow> (agent_db, (nat \<times> action_result) list) prog" where
  "GetPendingResults C =
     bnd GetPendingResults_rows (\<lambda>rows.
     map_prog (\<lambda>row. case unmarshal_result C (payload row) of
       None \<Rightarrow> throw (EText ''proto: cannot parse'')
     | Some r \<Rightarrow> ret (sequence row, r)) rows)"

definition interrupted_result :: "scheduled_work \<Rightarrow> int \<Rightarrow> action_result" where
  "interrupted_result row nw = \<lparr>res_action_id = Some (work_id row), res_status = EXECUTION_STATUS_INDETERMINATE,
     res_output = Some (empty_output\<lparr>out_stderr := ''interrupted action run''\<rparr>),
     res_detection_output = None, res_completed_at = Some nw,
     res_run_id = Some (id_value (run_id row)),
     res_action_digest = (case run_action_digest row of None \<Rightarrow> [] | Some d \<Rightarrow> d)\<rparr>"

definition recover_one :: "codec \<Rightarrow> scheduled_work \<Rightarrow> (agent_db, unit) prog" where
  "recover_one C row =
     bnd now (\<lambda>nw.
     bnd (lift_sum (marshalResult C (interrupted_result row nw))) (\<lambda>pl.
     bnd (FinishScheduledRun (work_id row) (id_value (run_id row)) (run_action_digest row)) (\<lambda>ret_work.
     bnd (InsertResultOutbox pl) (\<lambda>_.
     if ret_work then
       map_err (EWrap ''recover interrupted action: delete retired work'')
         (DeleteRetiredWork (work_id row) (id_value (run_id row)))
     else ret ()))))"

definition RecoverInterruptedActions :: "codec \<Rightarrow> (agent_db, nat) prog" where
  "RecoverInterruptedActions C = transaction EDriver (
     bnd ListInterruptedWork (\<lambda>rows.
     bnd (for_each (recover_one C) rows) (\<lambda>_.
     ret (length rows))))"

lemmas agent_statement_defs =
  ListAllWork_def RetireWork_def DeleteWork_def UpdateScheduledWork_def InsertScheduledWork_def
  GetDueScheduledWork_rows_def GetRunnableWork_def BeginScheduledRun_def FinishScheduledRun_def
  DeleteRetiredWork_def InsertResultOutbox_def GetPendingResults_rows_def DeletePendingResult_def
  ListInterruptedWork_def

end
