(* ===== verification/Agent_Runs.thy ===== *)
theory Agent_Runs
  imports Agent_Reconcile
begin

text \<open>
  The life of an action run in the agent's store. \<open>agent_inv\<close> is the type invariant of the
  two tables; \<open>agent_step\<close> is one store operation of the scheduler, the policy refresh or the
  result sender, in any order and with any driver failures. Two ghost lists record the run
  identifiers handed out and the results the server has acknowledged. The invariant of the
  reachable systems is a conservation law: every run begun is in progress, or waits in the
  outbox, or was acknowledged, and exactly once.
\<close>

section \<open>The invariant of the tables\<close>

definition decodes :: "codec \<Rightarrow> scheduled_work \<Rightarrow> bool" where
  "decodes C w \<longleftrightarrow> (case unmarshal_action C (action_blob w) of
     None \<Rightarrow> False | Some a \<Rightarrow> id_value (act_id a) = work_id w)"

definition work_ok :: "codec \<Rightarrow> scheduled_work \<Rightarrow> bool" where
  "work_ok C w \<longleftrightarrow> work_id w \<noteq> '''' \<and> decodes C w \<and>
     (if run_in_progress w
      then run_id w \<noteq> None \<and> run_action_digest w \<noteq> None \<and> run_started_at w \<noteq> None
      else run_id w = None \<and> run_action_digest w = None \<and> run_started_at w = None \<and> \<not> retired w)"

definition box_ok :: "codec \<Rightarrow> nat \<Rightarrow> outbox_row \<Rightarrow> bool" where
  "box_ok C q b \<longleftrightarrow> sequence b \<le> q \<and> unmarshal_result C (payload b) \<noteq> None"

definition agent_inv :: "codec \<Rightarrow> agent_db \<Rightarrow> bool" where
  "agent_inv C s \<longleftrightarrow> work.unique (works s) \<and> (\<forall>w\<in>set (works s). work_ok C w) \<and>
     sorted_wrt (<) (map sequence (outbox s)) \<and> (\<forall>b\<in>set (outbox s). box_ok C (outbox_seq s) b)"

definition empty_db :: agent_db where
  "empty_db = \<lparr>works = [], outbox = [], outbox_seq = 0\<rparr>"

lemma agent_inv_empty: "agent_inv C empty_db"
  by (simp add: agent_inv_def empty_db_def work.unique_def)

lemma agent_inv_unique [dest]: "agent_inv C s \<Longrightarrow> work.unique (works s)"
  by (simp add: agent_inv_def)

lemma agent_inv_works:
  "agent_inv C s \<Longrightarrow> work.unique ws \<Longrightarrow> (\<And>w. w \<in> set ws \<Longrightarrow> work_ok C w) \<Longrightarrow> agent_inv C (s\<lparr>works := ws\<rparr>)"
  by (simp add: agent_inv_def)

section \<open>Run identifiers in the tables\<close>

definition work_run :: "scheduled_work \<Rightarrow> string option" where
  "work_run w = (if run_in_progress w then run_id w else None)"

definition runs_in_progress :: "agent_db \<Rightarrow> string list" where
  "runs_in_progress s = List.map_filter work_run (works s)"

definition box_run :: "codec \<Rightarrow> outbox_row \<Rightarrow> string" where
  "box_run C b = (case unmarshal_result C (payload b) of
     None \<Rightarrow> '''' | Some r \<Rightarrow> id_value (res_run_id r))"

definition runs_in_outbox :: "codec \<Rightarrow> agent_db \<Rightarrow> string list" where
  "runs_in_outbox C s = map (box_run C) (outbox s)"

lemma map_filter_append: "List.map_filter f (xs @ ys) = List.map_filter f xs @ List.map_filter f ys"
  by (simp add: List.map_filter_def)

lemmas map_filter_rules = map_filter_simps map_filter_append

lemma set_map_filter: "y \<in> set (List.map_filter f xs) \<longleftrightarrow> (\<exists>x\<in>set xs. f x = Some y)"
  by (induction xs) (auto simp: map_filter_simps split: option.splits)

section \<open>What each operation does to the tables\<close>

lemma reconcile_row_ok:
  assumes laws: "codec_laws C" and cur: "current_actions as [] = Inr cur"
    and w: "work_ok C w" and r: "reconcile_row C cur nw w = Some w'"
  shows "work_ok C w' \<and> work_run w' = work_run w"
proof (cases "map_of cur (work_id w)")
  case None
  then show ?thesis
    using w r by (auto simp: reconcile_row_def work_ok_def work_run_def decodes_def split: if_splits option.splits)
next
  case (Some a)
  then have "(work_id w, a) \<in> set cur" by (rule map_of_SomeD)
  then have aid: "id_value (act_id a) = work_id w"
    using current_actions_ok(2) [OF cur] by fastforce
  then show ?thesis
    using Some w r codec_action [OF laws, of a]
    by (auto simp: reconcile_row_def work_ok_def work_run_def decodes_def split: if_splits option.splits)
qed

lemma inserted_row_ok:
  assumes laws: "codec_laws C" and cur: "current_actions as [] = Inr cur"
    and ia: "ia \<in> set cur" and r: "inserted_row C ws nw ia = Some w"
  shows "work_ok C w \<and> work_run w = None"
proof -
  obtain i a where ia': "ia = (i, a)" by (cases ia)
  have "i = id_value (act_id a) \<and> i \<noteq> ''''"
    using current_actions_ok(2) [OF cur] ia ia' by blast
  then show ?thesis
    using r ia' codec_action [OF laws, of a]
    by (auto simp: inserted_row_def new_work_def work_ok_def work_run_def decodes_def split: if_splits)
qed

lemma reconciled_unique:
  assumes u: "work.unique ws" and d: "distinct (map fst cur)"
  shows "work.unique (reconciled C cur nw ws)"
proof -
  have old: "work.unique (List.map_filter (reconcile_row C cur nw) ws)"
    using u
  proof (induction ws)
    case (Cons w ws)
    then have "work_id w \<notin> work_id ` set ws" by (simp add: work.unique_def)
    then have "work_id w \<notin> work_id ` set (List.map_filter (reconcile_row C cur nw) ws)"
      by (auto simp: set_map_filter dest!: reconcile_row_id)
    then show ?case
      using Cons by (auto simp: map_filter_simps work.unique_def dest: reconcile_row_id split: option.splits)
  qed (simp add: map_filter_simps work.unique_def)
  have new: "work.unique (List.map_filter (inserted_row C ws nw) cur)"
    using d
  proof (induction cur)
    case (Cons c cur)
    then have "fst c \<notin> work_id ` set (List.map_filter (inserted_row C ws nw) cur)"
      by (auto simp: set_map_filter dest!: inserted_row_id)
    then show ?case
      using Cons by (auto simp: map_filter_simps work.unique_def dest: inserted_row_id split: option.splits)
  qed (simp add: map_filter_simps work.unique_def)
  have "work_id w \<noteq> work_id w'"
    if "w \<in> set (List.map_filter (reconcile_row C cur nw) ws)"
      and "w' \<in> set (List.map_filter (inserted_row C ws nw) cur)" for w w'
    using that by (fastforce simp: set_map_filter inserted_row_def new_work_def
        dest: reconcile_row_id split: if_splits)
  then show ?thesis
    using old new by (auto simp: reconciled_def work.unique_def)
qed

lemma reconciled_runs:
  assumes laws: "codec_laws C" and cur: "current_actions as [] = Inr cur"
    and ws: "\<forall>w\<in>set ws. work_ok C w"
  shows "List.map_filter work_run (reconciled C cur nw ws) = List.map_filter work_run ws"
proof -
  have gone: "work_run w = None" if "reconcile_row C cur nw w = None" for w
    using that by (auto simp: reconcile_row_def work_run_def split: option.splits if_splits)
  have old: "List.map_filter work_run (List.map_filter (reconcile_row C cur nw) ws) = List.map_filter work_run ws"
    using ws
    by (induction ws) (auto simp: map_filter_simps gone split: option.splits
        dest: reconcile_row_ok [OF laws cur])
  have "\<forall>w\<in>set (List.map_filter (inserted_row C ws nw) cur). work_run w = None"
    by (auto simp: set_map_filter dest: inserted_row_ok [OF laws cur])
  then have "List.map_filter work_run (List.map_filter (inserted_row C ws nw) cur) = []"
    by (auto simp: List.map_filter_def filter_empty_conv)
  then show ?thesis using old by (simp add: reconciled_def map_filter_append)
qed

lemma reconciled_inv:
  assumes laws: "codec_laws C" and cur: "current_actions as [] = Inr cur" and inv: "agent_inv C s"
  shows "agent_inv C (s\<lparr>works := reconciled C cur nw (works s)\<rparr>)"
proof (rule agent_inv_works [OF inv])
  show "work.unique (reconciled C cur nw (works s))"
    using inv current_actions_ok(1) [OF cur] by (intro reconciled_unique) auto
  fix w assume "w \<in> set (reconciled C cur nw (works s))"
  then show "work_ok C w"
    using inv by (auto simp: reconciled_def set_map_filter agent_inv_def
        dest: reconcile_row_ok [OF laws cur] inserted_row_ok [OF laws cur])
qed


section \<open>Starting and finishing a run\<close>

lemma BeginActionRun_run:
  assumes run: "BeginActionRun C (Some w) started E n s = (Inr w', n', s')" and u: "work.unique (works s)"
  obtains pre row rem a digest nw nxt where
    "works s = pre @ row # rem" and "work_id row = dw_work_id w" and "runnable nw row"
    and "unmarshal_action C (action_blob row) = Some a" and "ActionDigest C (Some a) = Inr digest"
    and "nw = clock E (Suc n)"
    and "nxt = calculateNextExecuteFromSchedule (act_schedule a) (Some started) nw"
    and "w' = w\<lparr>dw_action := a, dw_run_id := dw_run_id w'\<rparr>"
    and "\<forall>x\<in>set pre \<union> set rem. run_id x \<noteq> Some (dw_run_id w')"
    and "s' = s\<lparr>works := pre @ begin_work (dw_run_id w') digest started nxt row # rem\<rparr>"
proof -
  let ?nw = "clock E (Suc n)"
  let ?hit = "\<lambda>x. work_id x = dw_work_id w \<and> runnable ?nw x"
  obtain row a digest rid k n1 n2 where
    row: "List.find ?hit (works s) = Some row" and
    a: "unmarshal_action C (action_blob row) = Some a" and d: "ActionDigest C (Some a) = Inr digest" and
    w': "w' = w\<lparr>dw_action := a, dw_run_id := rid\<rparr>" and
    b: "BeginScheduledRun rid digest started
      (calculateNextExecuteFromSchedule (act_schedule a) (Some started) ?nw) (dw_work_id w) ?nw E n1 s = (Inr k, n2, s')"
    using run
    by (simp add: BeginActionRun_def GetRunnableWork_def run_simps split: if_splits) blast
  have free: "\<not> ((\<exists>x\<in>set (works s). ?hit x) \<and> (\<exists>x\<in>set (works s). \<not> ?hit x \<and> run_id x = Some rid))"
    and s': "s' = s\<lparr>works := upd_rows ?hit (begin_work rid digest started
      (calculateNextExecuteFromSchedule (act_schedule a) (Some started) ?nw)) (works s)\<rparr>"
    using b by (auto simp: BeginScheduledRun_def run_simps Let_def split: if_splits)
  from row have hit: "?hit row" "row \<in> set (works s)"
    by (auto simp: find_Some_iff)
  then obtain pre rem where ws: "works s = pre @ row # rem"
    by (meson split_list)
  have others: "\<not> ?hit x" if "x \<in> set pre \<union> set rem" for x
    using work.unique_split [OF u [unfolded ws] that] hit by simp
  have "s' = s\<lparr>works := pre @ begin_work rid digest started
      (calculateNextExecuteFromSchedule (act_schedule a) (Some started) ?nw) row # rem\<rparr>"
    using s' work.upd_split [OF u [unfolded ws], of ?hit] hit ws by simp
  moreover have "\<forall>x\<in>set pre \<union> set rem. run_id x \<noteq> Some rid"
    using free hit ws others by auto
  ultimately show thesis
    using that [of pre row rem ?nw a digest] ws hit a d w' by simp
qed

lemma finish_run:
  assumes run: "FinishScheduledRun wid rid digest E n s = (Inr b, n', s')" and u: "work.unique (works s)"
  obtains pre row rem where "works s = pre @ row # rem" and "finish_match wid rid digest row"
    and "b = retired row" and "s' = s\<lparr>works := pre @ finish_work row # rem\<rparr>"
proof -
  let ?p = "finish_match wid rid digest"
  from run obtain row where row: "List.find ?p (works s) = Some row" and b: "b = retired row"
    and s': "s' = s\<lparr>works := upd_rows ?p finish_work (works s)\<rparr>"
    by (auto simp: FinishScheduledRun_def run_simps split: option.splits)
  from row have p: "?p row" "row \<in> set (works s)" by (auto simp: find_Some_iff)
  then obtain pre rem where ws: "works s = pre @ row # rem" by (meson split_list)
  have "upd_rows ?p finish_work (pre @ row # rem) = pre @ finish_work row # rem"
    using p by (intro work.upd_split [OF u [unfolded ws]]) (auto simp: finish_match_def)
  then have "upd_rows ?p finish_work (works s) = pre @ finish_work row # rem"
    using ws by simp
  then have "s' = s\<lparr>works := pre @ finish_work row # rem\<rparr>" using s' by simp
  with ws p(1) b show thesis by (rule that)
qed

text \<open>Finishing, queueing the payload, and dropping the row if it was retired meanwhile.\<close>

definition finished :: "scheduled_work \<Rightarrow> scheduled_work list" where
  "finished row = (if retired row then [] else [finish_work row])"

lemma finish_store_run:
  assumes fin: "FinishScheduledRun wid rid digest E n s = (Inr b, n1, s1)"
    and ins: "InsertResultOutbox pl E n1 s1 = (Inr q, n2, s2)"
    and del: "if b then DeleteRetiredWork wid rid E n2 s2 = (Inr u, n3, s3) else s3 = s2"
    and u: "work.unique (works s)"
  obtains pre row rem where "works s = pre @ row # rem" and "finish_match wid rid digest row"
    and "q = Suc (outbox_seq s)"
    and "s3 = s\<lparr>works := pre @ finished row @ rem, outbox := outbox s @ [\<lparr>sequence = q, payload = pl\<rparr>],
           outbox_seq := q\<rparr>"
proof -
  from finish_run [OF fin u] obtain pre row rem where ws: "works s = pre @ row # rem"
    and m: "finish_match wid rid digest row" and b: "b = retired row"
    and s1: "s1 = s\<lparr>works := pre @ finish_work row # rem\<rparr>" by metis
  let ?box = "outbox s @ [\<lparr>sequence = Suc (outbox_seq s), payload = pl\<rparr>]"
  have q: "q = Suc (outbox_seq s)" and s2: "s2 = s1\<lparr>outbox := ?box, outbox_seq := q\<rparr>"
    using ins s1 by (auto simp: InsertResultOutbox_def run_simps Let_def)
  have "works s3 = pre @ finished row @ rem \<and> outbox s3 = ?box \<and> outbox_seq s3 = q \<and> s3 = s\<lparr>works := works s3, outbox := ?box, outbox_seq := q\<rparr>"
  proof (cases b)
    case False
    then show ?thesis using del s1 s2 b by (simp add: finished_def)
  next
    case True
    let ?p = "\<lambda>w. work_id w = wid \<and> run_id w = Some rid \<and> retired w"
    have pm: "?p (finish_work row)" using m b True by (simp add: finish_match_def finish_work_def)
    have "work.unique (pre @ finish_work row # rem)"
      using u ws by (auto simp: work.unique_def finish_work_def)
    then have "del_rows ?p (pre @ finish_work row # rem) = pre @ rem"
      using pm by (intro work.del_split) auto
    then show ?thesis
      using True del s1 s2 b by (auto simp: DeleteRetiredWork_def run_simps finished_def)
  qed
  then show thesis using that ws m q by metis
qed

lemma work_run_finished:
  assumes "work_ok C row" and "finish_match wid rid digest row"
  shows "work_run row = Some rid" and "List.map_filter work_run (finished row) = []"
    and "\<forall>w\<in>set (finished row). work_ok C w \<and> work_id w = work_id row"
  using assms
  by (auto simp: work_run_def finish_match_def finished_def finish_work_def map_filter_simps work_ok_def
      decodes_def split: option.splits)

lemma finish_store_inv:
  assumes inv: "agent_inv C s" and ws: "works s = pre @ row # rem"
    and m: "finish_match wid rid digest row" and pl: "unmarshal_result C pl = Some r"
    and s3: "s3 = s\<lparr>works := pre @ finished row @ rem,
      outbox := outbox s @ [\<lparr>sequence = Suc (outbox_seq s), payload = pl\<rparr>], outbox_seq := Suc (outbox_seq s)\<rparr>"
  shows "agent_inv C s3"
    and "runs_in_progress s = List.map_filter work_run pre @ rid # List.map_filter work_run rem"
    and "runs_in_progress s3 = List.map_filter work_run pre @ List.map_filter work_run rem"
    and "runs_in_outbox C s3 = runs_in_outbox C s @ [id_value (res_run_id r)]"
proof -
  have row: "work_ok C row" using inv ws by (simp add: agent_inv_def)
  note fin = work_run_finished [OF row m]
  have "work.unique (pre @ row # rem)"
    using inv ws by (simp add: agent_inv_def)
  then have "work.unique (pre @ finished row @ rem)"
    by (simp add: work.unique_def finished_def finish_work_def)
  moreover have "work_ok C w" if "w \<in> set (pre @ finished row @ rem)" for w
    using that inv ws fin(3) by (auto simp: agent_inv_def)
  moreover have "sorted_wrt (<) (map sequence (outbox s3)) \<and> (\<forall>b\<in>set (outbox s3). box_ok C (outbox_seq s3) b)"
    using inv pl by (auto simp: s3 agent_inv_def box_ok_def sorted_wrt_append less_Suc_eq_le)
  ultimately show "agent_inv C s3"
    by (simp add: s3 agent_inv_def)
  show "runs_in_progress s = List.map_filter work_run pre @ rid # List.map_filter work_run rem"
    using ws fin(1) by (simp add: runs_in_progress_def map_filter_rules)
  show "runs_in_progress s3 = List.map_filter work_run pre @ List.map_filter work_run rem"
    using s3 fin(2) by (simp add: runs_in_progress_def map_filter_rules)
  show "runs_in_outbox C s3 = runs_in_outbox C s @ [id_value (res_run_id r)]"
    using s3 pl by (simp add: runs_in_outbox_def box_run_def)
qed

section \<open>The run ledger\<close>

text \<open>In progress and in the outbox together, with multiplicity.\<close>

definition ledger :: "codec \<Rightarrow> agent_db \<Rightarrow> string multiset" where
  "ledger C s = mset (runs_in_progress s) + mset (runs_in_outbox C s)"

lemma finish_store_ledger:
  assumes "agent_inv C s" and "works s = pre @ row # rem"
    and "finish_match wid rid digest row" and "unmarshal_result C pl = Some r"
    and "s3 = s\<lparr>works := pre @ finished row @ rem,
      outbox := outbox s @ [\<lparr>sequence = Suc (outbox_seq s), payload = pl\<rparr>], outbox_seq := Suc (outbox_seq s)\<rparr>"
    and "id_value (res_run_id r) = rid"
  shows "agent_inv C s3 \<and> ledger C s3 = ledger C s"
  using finish_store_inv [OF assms(1-5)] assms(6) by (simp add: ledger_def)

lemma ReconcilePolicy_ledger:
  assumes laws: "codec_laws C" and inv: "agent_inv C s"
    and run: "ReconcilePolicy C p E n s = (r, n', s')"
  shows "agent_inv C s' \<and> ledger C s' = ledger C s"
proof (cases r)
  case (Inl e)
  have "atomic (ReconcilePolicy C p)"
    unfolding ReconcilePolicy_def by (intro prog_rules atomic_readonly)
  then have "s' = s" using run Inl unfolding atomic_def by blast
  then show ?thesis using inv by simp
next
  case (Inr u)
  then obtain pol where p: "p = Some pol"
    using run by (cases p) (auto simp: ReconcilePolicy_def run_simps)
  from ReconcilePolicy_run [OF run [unfolded p Inr]] inv obtain cur nw where
    cur: "current_actions (policy_actions pol) [] = Inr cur" and
    s': "s' = s\<lparr>works := reconciled C cur nw (works s)\<rparr>"
    by auto
  then show ?thesis
    using reconciled_inv [OF laws cur inv] reconciled_runs [OF laws cur] inv
    by (auto simp: ledger_def runs_in_progress_def runs_in_outbox_def agent_inv_def)
qed

lemma RecordActionResult_run:
  assumes run: "RecordActionResult C (Some res) E n s = (Inr q, n', s')" and u: "work.unique (works s)"
  obtains pl pre row rem where "marshal_result C res = Some pl" and "works s = pre @ row # rem"
    and "finish_match (id_value (res_action_id res)) (id_value (res_run_id res)) (Some (res_action_digest res)) row"
    and "q = Suc (outbox_seq s)"
    and "s' = s\<lparr>works := pre @ finished row @ rem, outbox := outbox s @ [\<lparr>sequence = Suc (outbox_seq s), payload = pl\<rparr>],
       outbox_seq := Suc (outbox_seq s)\<rparr>"
proof -
  from run obtain pl b n0 n1 s1 n2 s2 n3 v where
    pl: "marshal_result C res = Some pl" and
    fin: "FinishScheduledRun (id_value (res_action_id res)) (id_value (res_run_id res))
      (Some (res_action_digest res)) E n0 s = (Inr b, n1, s1)" and
    ins: "InsertResultOutbox pl E n1 s1 = (Inr q, n2, s2)" and
    del: "if b then DeleteRetiredWork (id_value (res_action_id res)) (id_value (res_run_id res)) E n2 s2
      = (Inr v, n3, s') else s' = s2"
    by (auto simp: RecordActionResult_def run_simps split: if_splits)
  from finish_store_run [OF fin ins del u] show thesis
    using that [OF pl] by metis
qed

lemma RecordActionResult_ledger:
  assumes laws: "codec_laws C" and inv: "agent_inv C s"
    and run: "RecordActionResult C ores E n s = (r, n', s')"
  shows "agent_inv C s' \<and> ledger C s' = ledger C s"
proof (cases r)
  case (Inl e)
  have "atomic (RecordActionResult C ores)"
    unfolding RecordActionResult_def by (intro prog_rules atomic_readonly)
  then have "s' = s" using run Inl unfolding atomic_def by blast
  then show ?thesis using inv by simp
next
  case (Inr q)
  obtain res where res: "ores = Some res"
    using run Inr by (cases ores) (auto simp: RecordActionResult_def run_simps)
  have u: "work.unique (works s)" using inv by (rule agent_inv_unique)
  from RecordActionResult_run [OF run [unfolded res Inr] u] obtain pl pre row rem where
    pl: "marshal_result C res = Some pl" and "works s = pre @ row # rem"
    "finish_match (id_value (res_action_id res)) (id_value (res_run_id res)) (Some (res_action_digest res)) row"
    "s' = s\<lparr>works := pre @ finished row @ rem, outbox := outbox s @ [\<lparr>sequence = Suc (outbox_seq s), payload = pl\<rparr>],
       outbox_seq := Suc (outbox_seq s)\<rparr>"
    by metis
  then show ?thesis
    by (intro finish_store_ledger [OF inv _ _ codec_result [OF laws pl]]) simp_all
qed

lemma recover_one_ledger:
  assumes laws: "codec_laws C" and inv: "agent_inv C s"
    and run: "recover_one C row E n s = (Inr u, n', s')"
  shows "agent_inv C s'" and "ledger C s' = ledger C s"
    and "length (runs_in_progress s) = Suc (length (runs_in_progress s'))"
    and "outbox_seq s' = Suc (outbox_seq s)"
proof -
  let ?r = "interrupted_result row (clock E n)"
  from run obtain pl b n1 s1 q n2 s2 where
    pl: "marshal_result C ?r = Some pl" and
    fin: "FinishScheduledRun (work_id row) (id_value (run_id row)) (run_action_digest row) E (Suc n) s = (Inr b, n1, s1)" and
    ins: "InsertResultOutbox pl E n1 s1 = (Inr q, n2, s2)" and
    del: "if b then DeleteRetiredWork (work_id row) (id_value (run_id row)) E n2 s2 = (Inr (), n', s') else s' = s2"
    by (auto simp: recover_one_def run_simps split: if_splits)
  have u: "work.unique (works s)" using inv by (rule agent_inv_unique)
  from finish_store_run [OF fin ins del u] obtain pre rw rem where
    ws: "works s = pre @ rw # rem"
    and m: "finish_match (work_id row) (id_value (run_id row)) (run_action_digest row) rw"
    and s': "s' = s\<lparr>works := pre @ finished rw @ rem, outbox := outbox s @ [\<lparr>sequence = Suc (outbox_seq s), payload = pl\<rparr>],
       outbox_seq := Suc (outbox_seq s)\<rparr>"
    by metis
  note pl' = codec_result [OF laws pl]
  have "id_value (res_run_id ?r) = id_value (run_id row)" by (simp add: interrupted_result_def)
  then show "agent_inv C s'" and "ledger C s' = ledger C s"
    using finish_store_ledger [OF inv ws m pl' s'] by auto
  show "length (runs_in_progress s) = Suc (length (runs_in_progress s'))"
    using finish_store_inv(2,3) [OF inv ws m pl' s'] by simp
  show "outbox_seq s' = Suc (outbox_seq s)" by (simp add: s')
qed

lemma recover_loop:
  assumes laws: "codec_laws C"
  shows "for_each (recover_one C) rows E n s = (Inr u, n', s') \<Longrightarrow> agent_inv C s \<Longrightarrow>
    agent_inv C s' \<and> ledger C s' = ledger C s \<and>
    length (runs_in_progress s) = length rows + length (runs_in_progress s') \<and>
    outbox_seq s' = outbox_seq s + length rows"
proof (induction rows arbitrary: s n)
  case Nil
  then show ?case by (simp add: run_simps)
next
  case (Cons row rows)
  from Cons.prems(1) obtain u1 n1 s1 where one: "recover_one C row E n s = (Inr u1, n1, s1)"
    and rest: "for_each (recover_one C) rows E n1 s1 = (Inr u, n', s')"
    by (auto simp: run_simps)
  note first = recover_one_ledger [OF laws Cons.prems(2) one]
  show ?case using Cons.IH [OF rest first(1)] first(2-4) by auto
qed

lemma runs_in_progress_length:
  assumes "agent_inv C s"
  shows "length (runs_in_progress s) = length (filter run_in_progress (works s))"
proof -
  have "length (List.map_filter work_run ws) = length (filter run_in_progress ws)"
    if "\<forall>w\<in>set ws. work_ok C w" for ws
    using that by (induction ws) (auto simp: map_filter_simps work_run_def work_ok_def split: option.splits)
  then show ?thesis using assms by (simp add: runs_in_progress_def agent_inv_def)
qed

lemma RecoverInterruptedActions_run:
  assumes laws: "codec_laws C" and inv: "agent_inv C s"
    and run: "RecoverInterruptedActions C E n s = (Inr k, n', s')"
  shows "agent_inv C s' \<and> ledger C s' = ledger C s \<and> k = length (runs_in_progress s) \<and>
    runs_in_progress s' = [] \<and> outbox_seq s' = outbox_seq s + k"
proof -
  let ?rows = "sort_key work_id (filter run_in_progress (works s))"
  from run obtain n1 n2 u where k: "k = length ?rows"
    and loop: "for_each (recover_one C) ?rows E n1 s = (Inr u, n2, s')"
    by (auto simp: RecoverInterruptedActions_def ListInterruptedWork_def run_simps)
  have "length ?rows = length (runs_in_progress s)"
    using runs_in_progress_length [OF inv] by simp
  then show ?thesis using recover_loop [OF laws loop inv] k by auto
qed

lemma RecoverInterruptedActions_ledger:
  assumes "codec_laws C" and "agent_inv C s" and run: "RecoverInterruptedActions C E n s = (r, n', s')"
  shows "agent_inv C s' \<and> ledger C s' = ledger C s"
proof (cases r)
  case (Inl e)
  have "atomic (RecoverInterruptedActions C)"
    unfolding RecoverInterruptedActions_def by (intro prog_rules)
  then have "s' = s" using run Inl unfolding atomic_def by blast
  then show ?thesis using assms by simp
next
  case (Inr k)
  then show ?thesis using RecoverInterruptedActions_run assms by blast
qed

lemma begin_ledger:
  assumes laws: "codec_laws C" and inv: "agent_inv C s"
    and run: "BeginActionRun C ow started E n s = (Inr w', n', s')"
  shows "agent_inv C s'" and "ledger C s' = add_mset (dw_run_id w') (ledger C s)"
proof -
  obtain w where w: "ow = Some w"
    using run by (cases ow) (auto simp: BeginActionRun_def run_simps)
  have u: "work.unique (works s)" using inv by (rule agent_inv_unique)
  from BeginActionRun_run [OF run [unfolded w] u] obtain pre row rem digest nw nxt where
    ws: "works s = pre @ row # rem" and r: "runnable nw row" and
    s': "s' = s\<lparr>works := pre @ begin_work (dw_run_id w') digest started nxt row # rem\<rparr>"
    by metis
  have row: "work_ok C row" using inv ws by (simp add: agent_inv_def)
  then have b: "work_ok C (begin_work (dw_run_id w') digest started nxt row)"
    using r by (auto simp: work_ok_def begin_work_def runnable_def decodes_def split: option.splits)
  have "work.unique (pre @ begin_work (dw_run_id w') digest started nxt row # rem)"
    using u ws by (simp add: work.unique_def begin_work_def)
  then show "agent_inv C s'"
    unfolding s' using inv ws b by (intro agent_inv_works [OF inv]) (auto simp: agent_inv_def)
  have "work_run row = None" using r by (simp add: work_run_def runnable_def)
  moreover have "work_run (begin_work (dw_run_id w') digest started nxt row) = Some (dw_run_id w')"
    by (simp add: work_run_def begin_work_def)
  ultimately show "ledger C s' = add_mset (dw_run_id w') (ledger C s)"
    using ws s' by (simp add: ledger_def runs_in_progress_def runs_in_outbox_def map_filter_rules)
qed

lemma delete_pending_run:
  assumes inv: "agent_inv C s" and run: "DeletePendingResult q E n s = (Inr u, n', s')"
  shows "agent_inv C s'"
    and "ledger C s = ledger C s' + mset (map (box_run C) (filter (\<lambda>b. sequence b = q) (outbox s)))"
proof -
  have s': "s' = s\<lparr>outbox := filter (\<lambda>b. sequence b \<noteq> q) (outbox s)\<rparr>"
    using run by (auto simp: DeletePendingResult_def run_simps del_rows_def)
  show "agent_inv C s'"
    using inv by (auto simp: s' agent_inv_def sorted_wrt_map intro: sorted_wrt_filter)
  have "mset (map (box_run C) bs) = mset (map (box_run C) (filter (\<lambda>b. sequence b \<noteq> q) bs)) +
      mset (map (box_run C) (filter (\<lambda>b. sequence b = q) bs))" for bs
    by (induction bs) auto
  then show "ledger C s = ledger C s' + mset (map (box_run C) (filter (\<lambda>b. sequence b = q) (outbox s)))"
    by (simp add: s' ledger_def runs_in_outbox_def runs_in_progress_def)
qed

section \<open>The agent's store under any interleaving\<close>

record agent_sys =
  store :: agent_db
  begun :: "string list"
  acked :: "string list"

definition init_sys :: agent_sys where
  "init_sys = \<lparr>store = empty_db, begun = [], acked = []\<rparr>"

text \<open>One operation of the store. The guard of \<open>begin_ok\<close> is what the identifier generator
  promises: \<^verbatim>\<open>ulid.Make\<close> does not return the same identifier twice.\<close>

inductive agent_step :: "codec \<Rightarrow> agent_sys \<Rightarrow> agent_sys \<Rightarrow> bool" for C where
  reconcile: "ReconcilePolicy C p E n (store s) = (r, n', st) \<Longrightarrow> agent_step C s (s\<lparr>store := st\<rparr>)"
| begin_ok: "BeginActionRun C w started E n (store s) = (Inr w', n', st) \<Longrightarrow> dw_run_id w' \<notin> set (begun s) \<Longrightarrow>
    agent_step C s (s\<lparr>store := st, begun := dw_run_id w' # begun s\<rparr>)"
| begin_err: "BeginActionRun C w started E n (store s) = (Inl e, n', st) \<Longrightarrow> agent_step C s (s\<lparr>store := st\<rparr>)"
| record_result: "RecordActionResult C ores E n (store s) = (r, n', st) \<Longrightarrow> agent_step C s (s\<lparr>store := st\<rparr>)"
| recover: "RecoverInterruptedActions C E n (store s) = (r, n', st) \<Longrightarrow> agent_step C s (s\<lparr>store := st\<rparr>)"
| ack_ok: "DeletePendingResult q E n (store s) = (Inr u, n', st) \<Longrightarrow>
    agent_step C s (s\<lparr>store := st,
      acked := map (box_run C) (filter (\<lambda>b. sequence b = q) (outbox (store s))) @ acked s\<rparr>)"
| ack_err: "DeletePendingResult q E n (store s) = (Inl e, n', st) \<Longrightarrow> agent_step C s (s\<lparr>store := st\<rparr>)"

inductive agent_reachable :: "codec \<Rightarrow> agent_sys \<Rightarrow> bool" for C where
  start: "agent_reachable C init_sys"
| step: "agent_reachable C s \<Longrightarrow> agent_step C s t \<Longrightarrow> agent_reachable C t"

definition sys_inv :: "codec \<Rightarrow> agent_sys \<Rightarrow> bool" where
  "sys_inv C s \<longleftrightarrow> agent_inv C (store s) \<and> distinct (begun s) \<and>
     mset (begun s) = ledger C (store s) + mset (acked s)"

lemma BeginActionRun_atomic: "atomic (BeginActionRun C w started)"
  unfolding BeginActionRun_def by (intro prog_rules atomic_readonly)

lemma DeletePendingResult_atomic: "atomic (DeletePendingResult q)"
  unfolding DeletePendingResult_def by (intro prog_rules)

lemma atomicD: "atomic m \<Longrightarrow> m E n s = (Inl e, n', s') \<Longrightarrow> s' = s"
  unfolding atomic_def by blast

lemma agent_step_inv:
  assumes laws: "codec_laws C" and "agent_step C s t" and "sys_inv C s"
  shows "sys_inv C t"
  using assms(2,3)
proof (induction rule: agent_step.induct)
  case (reconcile p E n s r n' st)
  then show ?case using ReconcilePolicy_ledger [OF laws _ reconcile(1)] by (auto simp: sys_inv_def)
next
  case (begin_ok w started E n s w' n' st)
  then show ?case using begin_ledger [OF laws _ begin_ok(1)] by (auto simp: sys_inv_def)
next
  case (begin_err w started E n s e n' st)
  then show ?case using atomicD [OF BeginActionRun_atomic begin_err(1)] by (simp add: sys_inv_def)
next
  case (record_result ores E n s r n' st)
  then show ?case using RecordActionResult_ledger [OF laws _ record_result(1)] by (auto simp: sys_inv_def)
next
  case (recover E n s r n' st)
  then show ?case using RecoverInterruptedActions_ledger [OF laws _ recover(1)] by (auto simp: sys_inv_def)
next
  case (ack_ok q E n s u n' st)
  then show ?case using delete_pending_run [OF _ ack_ok(1)] by (auto simp: sys_inv_def)
next
  case (ack_err q E n s e n' st)
  then show ?case using atomicD [OF DeletePendingResult_atomic ack_err(1)] by (simp add: sys_inv_def)
qed

lemma agent_reachable_inv:
  assumes laws: "codec_laws C" and "agent_reachable C s"
  shows "sys_inv C s"
  using assms(2)
proof (induction rule: agent_reachable.induct)
  case start
  show ?case
    using agent_inv_empty
    by (simp add: sys_inv_def init_sys_def ledger_def runs_in_progress_def runs_in_outbox_def
        empty_db_def map_filter_simps)
next
  case (step s t)
  then show ?case by (blast intro: agent_step_inv [OF laws])
qed

end
