(* ===== verification/GoStrings.thy ===== *)
theory GoStrings
  imports Prelude
begin

text \<open>
  The functions of Go's \<^verbatim>\<open>strings\<close>, \<^verbatim>\<open>slices\<close> and \<^verbatim>\<open>regexp\<close> packages that the modelled
  code calls, on byte strings. White space and letter case are the ASCII ones: the
  code applies these functions to tool output under the C locale, to names it has matched
  against an ASCII grammar, and to configuration text. The lemmas are the round trips of
  splitting and joining that the parsers rest on.
\<close>

section \<open>Characters\<close>

definition is_lower :: "char \<Rightarrow> bool" where "is_lower c \<longleftrightarrow> CHR ''a'' \<le> c \<and> c \<le> CHR ''z''"
definition is_upper :: "char \<Rightarrow> bool" where "is_upper c \<longleftrightarrow> CHR ''A'' \<le> c \<and> c \<le> CHR ''Z''"
definition is_digit :: "char \<Rightarrow> bool" where "is_digit c \<longleftrightarrow> CHR ''0'' \<le> c \<and> c \<le> CHR ''9''"
definition is_alnum :: "char \<Rightarrow> bool" where "is_alnum c \<longleftrightarrow> is_lower c \<or> is_upper c \<or> is_digit c"

definition newline :: char where "newline = CHR 0x0A"
definition tab :: char where "tab = CHR 0x09"

definition is_space :: "char \<Rightarrow> bool" where
  "is_space c \<longleftrightarrow> c = CHR '' '' \<or> c = CHR 0x09 \<or> c = CHR 0x0A \<or> c = CHR 0x0B \<or> c = CHR 0x0C \<or> c = CHR 0x0D"

definition to_upper_char :: "char \<Rightarrow> char" where
  "to_upper_char c = (if is_lower c then char_of (of_char c - (32::nat)) else c)"

definition ToUpper :: "string \<Rightarrow> string" where
  "ToUpper s = map to_upper_char s"

definition to_lower_char :: "char \<Rightarrow> char" where
  "to_lower_char c = (if is_upper c then char_of (of_char c + (32::nat)) else c)"

definition ToLower :: "string \<Rightarrow> string" where
  "ToLower s = map to_lower_char s"

text \<open>The regular expression classes \<^verbatim>\<open>\s\<close> and \<^verbatim>\<open>\S\<close> (no vertical tab).\<close>

definition re_space :: "char \<Rightarrow> bool" where
  "re_space c \<longleftrightarrow> c = CHR '' '' \<or> c = CHR 0x09 \<or> c = CHR 0x0A \<or> c = CHR 0x0C \<or> c = CHR 0x0D"

section \<open>Prefixes, suffixes, cutting and splitting\<close>

definition HasPrefix :: "string \<Rightarrow> string \<Rightarrow> bool" where
  "HasPrefix s p \<longleftrightarrow> take (length p) s = p"

definition HasSuffix :: "string \<Rightarrow> string \<Rightarrow> bool" where
  "HasSuffix s p \<longleftrightarrow> length p \<le> length s \<and> drop (length s - length p) s = p"

definition TrimPrefix :: "string \<Rightarrow> string \<Rightarrow> string" where
  "TrimPrefix s p = (if HasPrefix s p then drop (length p) s else s)"

definition TrimSuffix :: "string \<Rightarrow> string \<Rightarrow> string" where
  "TrimSuffix s p = (if HasSuffix s p then take (length s - length p) s else s)"

text \<open>\<^verbatim>\<open>strings.Cut\<close>: around the first occurrence of the separator.\<close>

fun Cut :: "string \<Rightarrow> string \<Rightarrow> (string \<times> string) option" where
  "Cut [] sep = (if sep = [] then Some ([], []) else None)"
| "Cut (c # s) sep = (if HasPrefix (c # s) sep then Some ([], drop (length sep) (c # s))
     else map_option (\<lambda>(a, b). (c # a, b)) (Cut s sep))"

definition Contains :: "string \<Rightarrow> string \<Rightarrow> bool" where
  "Contains s sub \<longleftrightarrow> Cut s sub \<noteq> None"

text \<open>\<^verbatim>\<open>strings.SplitN(s, sep, 2)\<close>\<close>

definition SplitN2 :: "string \<Rightarrow> string \<Rightarrow> string list" where
  "SplitN2 s sep = (case Cut s sep of None \<Rightarrow> [s] | Some (a, b) \<Rightarrow> [a, b])"

text \<open>\<^verbatim>\<open>strings.Split\<close> on a one-byte separator.\<close>

fun Split :: "string \<Rightarrow> char \<Rightarrow> string list" where
  "Split [] sep = [[]]"
| "Split (c # s) sep = (if c = sep then [] # Split s sep
     else (case Split s sep of [] \<Rightarrow> [[c]] | w # ws \<Rightarrow> (c # w) # ws))"

definition TrimLeft :: "(char \<Rightarrow> bool) \<Rightarrow> string \<Rightarrow> string" where
  "TrimLeft p s = dropWhile p s"

definition TrimRight :: "(char \<Rightarrow> bool) \<Rightarrow> string \<Rightarrow> string" where
  "TrimRight p s = rev (dropWhile p (rev s))"

definition TrimSpace :: "string \<Rightarrow> string" where
  "TrimSpace s = TrimRight is_space (TrimLeft is_space s)"

text \<open>\<^verbatim>\<open>strings.Fields\<close>: the maximal runs of non-space characters.\<close>

fun fields_acc :: "string \<Rightarrow> string \<Rightarrow> string list" where
  "fields_acc [] w = (if w = [] then [] else [w])"
| "fields_acc (c # s) w = (if is_space c then (if w = [] then fields_acc s [] else w # fields_acc s [])
     else fields_acc s (w @ [c]))"

definition Fields :: "string \<Rightarrow> string list" where
  "Fields s = fields_acc s []"

fun Join :: "string list \<Rightarrow> string \<Rightarrow> string" where
  "Join [] sep = []"
| "Join [w] sep = w"
| "Join (w # v # ws) sep = w @ sep @ Join (v # ws) sep"

text \<open>\<^verbatim>\<open>strings.LastIndexByte\<close> and cutting there: the text before and after the last occurrence.\<close>

fun CutLast :: "string \<Rightarrow> char \<Rightarrow> (string \<times> string) option" where
  "CutLast [] c = None"
| "CutLast (d # s) c = (case CutLast s c of Some (a, b) \<Rightarrow> Some (d # a, b)
     | None \<Rightarrow> if d = c then Some ([], s) else None)"

definition CutPrefix :: "string \<Rightarrow> string \<Rightarrow> string option" where
  "CutPrefix s p = (if HasPrefix s p then Some (drop (length p) s) else None)"

section \<open>Numbers\<close>

fun nat_digits :: "nat \<Rightarrow> string" where
  "nat_digits n = (if n < 10 then [char_of (48 + n)] else nat_digits (n div 10) @ [char_of (48 + n mod 10)])"

declare nat_digits.simps [simp del]

text \<open>\<^verbatim>\<open>%d\<close>\<close>

definition itoa :: "int \<Rightarrow> string" where
  "itoa i = (if i < 0 then CHR ''-'' # nat_digits (nat (- i)) else nat_digits (nat i))"

definition digit_value :: "char \<Rightarrow> int" where
  "digit_value c = of_char c - 48"

definition parse_nat :: "string \<Rightarrow> int option" where
  "parse_nat s = (if s \<noteq> [] \<and> list_all is_digit s
     then Some (foldl (\<lambda>n c. n * 10 + digit_value c) 0 s) else None)"

text \<open>The value of \<^verbatim>\<open>strconv.ParseInt(s, 10, 64)\<close> with its error: a syntax error leaves 0, a range error
  the nearest bound.\<close>

definition ParseInt :: "string \<Rightarrow> int \<times> bool" where
  "ParseInt s =
     (let (neg, ds) = (case s of [] \<Rightarrow> (False, []) | c # r \<Rightarrow>
        if c = CHR ''-'' then (True, r) else if c = CHR ''+'' then (False, r) else (False, s)) in
      case parse_nat ds of None \<Rightarrow> (0, False)
      | Some n \<Rightarrow> let v = (if neg then - n else n) in
          if v < - (2 ^ 63) then (- (2 ^ 63), False)
          else if v \<ge> 2 ^ 63 then (2 ^ 63 - 1, False) else (v, True))"

text \<open>\<^verbatim>\<open>%q\<close> on a byte string; a byte outside ASCII is written in hexadecimal.\<close>

definition hex_digit :: "nat \<Rightarrow> char" where
  "hex_digit n = (if n < 10 then char_of (48 + n) else char_of (87 + n))"

text \<open>\<^verbatim>\<open>hex.EncodeToString\<close>, and the strings that \<^verbatim>\<open>hex.DecodeString\<close> accepts.\<close>

definition hex_encode :: "string \<Rightarrow> string" where
  "hex_encode b = concat (map (\<lambda>c. let k = of_char c in [hex_digit (k div 16), hex_digit (k mod 16)]) b)"

definition hex_char :: "char \<Rightarrow> bool" where
  "hex_char c \<longleftrightarrow> CHR ''0'' \<le> c \<and> c \<le> CHR ''9'' \<or> CHR ''a'' \<le> c \<and> c \<le> CHR ''f'' \<or> CHR ''A'' \<le> c \<and> c \<le> CHR ''F''"

definition hex_decodable :: "string \<Rightarrow> bool" where
  "hex_decodable s \<longleftrightarrow> even (length s) \<and> list_all hex_char s"

definition quote_char :: "char \<Rightarrow> string" where
  "quote_char c = (let n = (of_char c :: nat) in
     if n = 34 then [CHR 0x5C, CHR 0x22] else if n = 92 then [CHR 0x5C, CHR 0x5C]
     else if 32 \<le> n \<and> n < 127 then [c]
     else if n = 7 then [CHR 0x5C, CHR ''a''] else if n = 8 then [CHR 0x5C, CHR ''b'']
     else if n = 12 then [CHR 0x5C, CHR ''f''] else if n = 10 then [CHR 0x5C, CHR ''n'']
     else if n = 13 then [CHR 0x5C, CHR ''r''] else if n = 9 then [CHR 0x5C, CHR ''t'']
     else if n = 11 then [CHR 0x5C, CHR ''v'']
     else [CHR 0x5C, CHR ''x'', hex_digit (n div 16), hex_digit (n mod 16)])"

definition Quote :: "string \<Rightarrow> string" where
  "Quote s = [CHR 0x22] @ concat (map quote_char s) @ [CHR 0x22]"

section \<open>Round trips\<close>

lemma HasPrefix_append [simp]: "HasPrefix (p @ s) p"
  by (simp add: HasPrefix_def)

lemma HasPrefix_iff: "HasPrefix s p \<longleftrightarrow> (\<exists>r. s = p @ r)"
  by (metis HasPrefix_def HasPrefix_append append_take_drop_id)

lemma Cut_Some: "Cut s sep = Some (a, b) \<Longrightarrow> s = a @ sep @ b"
  by (induction s arbitrary: a) (auto simp: HasPrefix_iff split: if_splits)

lemma Cut_char: "c \<notin> set a \<Longrightarrow> Cut (a @ c # b) [c] = Some (a, b)"
  by (induction a) (auto simp: HasPrefix_def)

lemma Cut_char_None: "Cut s [c] = None \<longleftrightarrow> c \<notin> set s"
  by (induction s) (auto simp: HasPrefix_def)

lemma Cut_char_notin: "Cut s [c] = Some (a, b) \<Longrightarrow> c \<notin> set a"
  by (induction s arbitrary: a) (auto simp: HasPrefix_def split: if_splits)

lemma Split_not_Nil [simp]: "Split s sep \<noteq> []"
  by (induction s) (auto split: list.splits)

lemma Split_none: "sep \<notin> set s \<Longrightarrow> Split s sep = [s]"
  by (induction s) auto

lemma Split_append: "sep \<notin> set a \<Longrightarrow> Split (a @ sep # s) sep = a # Split s sep"
  by (induction a) auto

lemma Split_concat: "Join (Split s sep) [sep] = s"
proof (induction s)
  case (Cons c s)
  then show ?case
    by (cases "Split s sep"; cases "tl (Split s sep)") auto
qed simp

lemma Split_parts: "w \<in> set (Split s sep) \<Longrightarrow> sep \<notin> set w"
  by (induction s arbitrary: w) (auto split: if_splits list.splits)

definition word :: "string \<Rightarrow> bool" where
  "word w \<longleftrightarrow> w \<noteq> [] \<and> (\<forall>c\<in>set w. \<not> is_space c)"

lemma fields_acc_word: "\<forall>c\<in>set w. \<not> is_space c \<Longrightarrow> fields_acc (w @ s) u = fields_acc s (u @ w)"
  by (induction w arbitrary: u) auto

lemma Fields_Join: "\<forall>w\<in>set ws. word w \<Longrightarrow> Fields (Join ws '' '') = ws"
proof (induction ws rule: induct_list012)
  case 1
  then show ?case by (simp add: Fields_def)
next
  case (2 w)
  then show ?case using fields_acc_word [of w "[]" "[]"] by (simp add: Fields_def word_def)
next
  case (3 w v ws)
  have "Fields (Join (w # v # ws) '' '') = fields_acc ('' '' @ Join (v # ws) '' '') w"
    using 3 fields_acc_word [of w "'' '' @ Join (v # ws) '' ''" "[]"] by (simp add: Fields_def word_def)
  also have "\<dots> = w # Fields (Join (v # ws) '' '')"
    using 3 by (simp add: Fields_def word_def is_space_def)
  finally show ?case using 3 by simp
qed

lemma fields_acc_words: "\<forall>c\<in>set u. \<not> is_space c \<Longrightarrow> w \<in> set (fields_acc s u) \<Longrightarrow> word w"
proof (induction s arbitrary: u)
  case Nil
  then show ?case by (cases "u = []") (simp_all add: word_def)
next
  case (Cons c s)
  show ?case
  proof (cases "is_space c")
    case False
    then show ?thesis using Cons.IH [of "u @ [c]"] Cons.prems by auto
  next
    case True
    then have "w = u \<and> u \<noteq> [] \<or> w \<in> set (fields_acc s [])"
      using Cons.prems(2) by (cases "u = []") auto
    then show ?thesis using Cons.IH [of "[]"] Cons.prems(1) by (auto simp: word_def)
  qed
qed

lemma Fields_words: "w \<in> set (Fields s) \<Longrightarrow> word w"
  using fields_acc_words [of "[]"] by (simp add: Fields_def)

lemma TrimSpace_id:
  assumes "s \<noteq> []" and "\<not> is_space (hd s)" and "\<not> is_space (last s)"
  shows "TrimSpace s = s"
proof -
  have "dropWhile is_space s = s" using assms by (cases s) auto
  moreover have "dropWhile is_space (rev s) = rev s" using assms by (cases "rev s") (auto simp: last_rev [symmetric] hd_rev)
  ultimately show ?thesis by (simp add: TrimSpace_def TrimLeft_def TrimRight_def)
qed

lemma TrimSpace_word: "word w \<Longrightarrow> TrimSpace w = w"
  by (rule TrimSpace_id) (auto simp: word_def)

lemma TrimSpace_Nil [simp]: "TrimSpace [] = []"
  by (simp add: TrimSpace_def TrimLeft_def TrimRight_def)

text \<open>Lines, each with its newline.\<close>

definition unlines :: "string list \<Rightarrow> string" where
  "unlines ls = concat (map (\<lambda>l. l @ [newline]) ls)"

lemma unlines_simps [simp]:
  "unlines [] = []" "unlines (l # ls) = l @ newline # unlines ls" "unlines (ls @ ms) = unlines ls @ unlines ms"
  by (simp_all add: unlines_def)

lemma Split_app: "Split (a @ sep # b) sep = Split a sep @ Split b sep"
proof (induction a)
  case (Cons c a)
  then show ?case by (cases "Split a sep") auto
qed simp

lemma Split_unlines: "\<forall>l\<in>set ls. newline \<notin> set l \<Longrightarrow> Split (unlines ls) newline = ls @ [[]]"
  by (induction ls) (auto simp: Split_append)

end
