(* ===== verification/Sys_Exec.thy ===== *)
theory Sys_Exec
  imports GoStrings
begin

text \<open>
  \<^verbatim>\<open>sdk/sys/exec\<close>: the environment gate (\<^verbatim>\<open>env.go\<close>, \<^verbatim>\<open>ValidateCommandEnv\<close>), argument
  separation (\<^verbatim>\<open>argv.go\<close>), secrets (\<^verbatim>\<open>secret.go\<close>), the capture of a child's output with its
  limit (\<^verbatim>\<open>runStreamingWithStdin\<close>) and the Runner (\<^verbatim>\<open>runner.go\<close>): escalation, the child
  environment, and the order of its checks.

  The machine a command runs on is a function of the context and of everything spawned so
  far, so a command may behave differently every time: it gives what \<^verbatim>\<open>exec.LookPath\<close>,
  \<^verbatim>\<open>os.Environ\<close> and \<^verbatim>\<open>ctx.Err()\<close> return and what the spawned child writes. The state of a program
  that runs commands is the list of the processes spawned.

  The interface \<open>runner_iface\<close> is what the package managers and the executor rely on: a run
  spawns at most one process, which is the command it was given, possibly under the
  escalation tool, and whose environment has passed the gate. The judgement \<open>issues\<close> lifts it
  to whole programs. The Runner's model interprets it.
\<close>

section \<open>Commands\<close>

record command =
  cmd_name :: string
  cmd_args :: "string list"
  cmd_dir :: string
  cmd_env :: "string list"
  cmd_stdin :: "string option"
  cmd_child_path :: string
  cmd_escalate :: bool

record exec_result =
  xr_exit :: int
  xr_stdout :: string
  xr_stderr :: string

definition zero_result :: exec_result where
  "zero_result = \<lparr>xr_exit = 0, xr_stdout = '''', xr_stderr = ''''\<rparr>"

definition ErrInvalidEnvVar :: go_error where
  "ErrInvalidEnvVar = ESentinel ''invalid env entry''"
definition ErrBlockedEnvVar :: go_error where
  "ErrBlockedEnvVar = ESentinel ''env var blocked by hijack-prevention allowlist''"
definition ErrReservedEnvVar :: go_error where
  "ErrReservedEnvVar = ESentinel ''env var reserved by the SDK for deterministic output''"
definition ErrUnknownBackend :: go_error where
  "ErrUnknownBackend = ESentinel ''unknown privilege backend''"
definition ErrEscalationUnavailable :: go_error where
  "ErrEscalationUnavailable = ESentinel ''escalation tool not installed''"
definition ErrEscalationDenied :: go_error where
  "ErrEscalationDenied = ESentinel ''escalation requires a password''"
definition ErrRunnerRequired :: go_error where
  "ErrRunnerRequired = ESentinel ''runner is required''"
definition ErrBackendUnavailable :: go_error where
  "ErrBackendUnavailable = ESentinel ''backend unavailable''"

lemmas exec_errors = ErrInvalidEnvVar_def ErrBlockedEnvVar_def ErrReservedEnvVar_def ErrUnknownBackend_def
  ErrEscalationUnavailable_def ErrEscalationDenied_def ErrRunnerRequired_def ErrBackendUnavailable_def

section \<open>Environment variables\<close>

definition isReservedEnvVar :: "string \<Rightarrow> bool" where
  "isReservedEnvVar name = (let upper = ToUpper name in
     if upper \<in> {''LANG'', ''LANGUAGE'', ''NO_COLOR''} then True else HasPrefix upper ''LC_'')"

text \<open>\<^verbatim>\<open>^[a-zA-Z_][a-zA-Z0-9_]*$\<close>\<close>

definition ValidEnvVarName :: "string \<Rightarrow> bool" where
  "ValidEnvVarName s = (case s of [] \<Rightarrow> False
     | c # cs \<Rightarrow> (is_lower c \<or> is_upper c \<or> c = CHR ''_'') \<and> list_all (\<lambda>d. is_alnum d \<or> d = CHR ''_'') cs)"

definition BlockedEnvVars :: "string list" where
  "BlockedEnvVars = [''GCONV_PATH'', ''HOSTALIASES'', ''RESOLV_HOST_CONF'', ''GETCONF_DIR'', ''NODE_OPTIONS'',
     ''PYTHONPATH'', ''PERL5OPT'', ''PERL5LIB'', ''RUBYLIB'', ''PATH'', ''IFS'', ''ENV'', ''BASH_ENV'', ''CDPATH'',
     ''GLOBIGNORE'']"

definition IsAllowedEnvVar :: "string \<Rightarrow> bool" where
  "IsAllowedEnvVar name =
     (if \<not> ValidEnvVarName name then False
      else (let upper = ToUpper name in
        if upper \<in> set BlockedEnvVars then False
        else if HasPrefix upper ''LD_'' \<or> HasPrefix upper ''BASH_FUNC_'' \<or> HasPrefix upper ''DYLD_'' then False
        else True))"

text \<open>The two loops of \<^verbatim>\<open>ValidateCommandEnv\<close>; None is a nil error.\<close>

fun env_names_error :: "string list \<Rightarrow> go_error option" where
  "env_names_error [] = None"
| "env_names_error (e # es) = (case Cut e ''='' of
     None \<Rightarrow> Some (EDetail ErrInvalidEnvVar (''env entry must be KEY=VALUE, got '' @ Quote e))
   | Some (key, v) \<Rightarrow> if \<not> IsAllowedEnvVar key
       then Some (EDetail ErrBlockedEnvVar (''refusing to forward env var '' @ Quote key @
           '' to child (hijack-prone names like LD_PRELOAD, PATH, BASH_ENV are refused at this boundary)''))
       else env_names_error es)"

fun env_reserved_error :: "string list \<Rightarrow> go_error option" where
  "env_reserved_error [] = None"
| "env_reserved_error (e # es) =
     (let key = (case Cut e ''='' of None \<Rightarrow> e | Some (k, v) \<Rightarrow> k) in
      if isReservedEnvVar key then Some (EDetail ErrReservedEnvVar (Quote key @
        '' is forced by the Runner (LC_ALL=C/LANG=C/NO_COLOR=1) and may not be set via Command.Env''))
      else env_reserved_error es)"

definition ValidateCommandEnv :: "string list \<Rightarrow> go_error option" where
  "ValidateCommandEnv env = (case env_names_error env of Some e \<Rightarrow> Some e | None \<Rightarrow> env_reserved_error env)"

definition composeEnv :: "string \<Rightarrow> string list \<Rightarrow> string list" where
  "composeEnv childPath envVars = (if childPath \<noteq> '''' then [''PATH='' @ childPath] else []) @ envVars"

definition SeparatePositionals :: "string list \<Rightarrow> string list \<Rightarrow> string list" where
  "SeparatePositionals flags positionals = flags @ [''--''] @ positionals"

section \<open>Secrets\<close>

definition NewSecret :: "string \<Rightarrow> go_error + string" where
  "NewSecret v = (if CHR 0x0A \<in> set v \<or> CHR 0x0D \<in> set v
     then Inl (ESentinel ''secret contains a newline or carriage return'') else Inr v)"

section \<open>The Runner\<close>

datatype privilege_backend = Sudo | Doas | Direct

text \<open>A spawned process, and what is known of a child when it is awaited: the lines read from its two
  streams, its exit status and the run error (the status' own error, or the context's after the
  child was stopped).\<close>

record process =
  proc_name :: string
  proc_argv :: "string list"
  proc_stdin :: "string option"
  proc_env :: "string list"
  proc_dir :: string

record child =
  ch_stdout :: "string list"
  ch_stderr :: "string list"
  ch_exit :: int
  ch_err :: "go_error option"

type_synonym world = "process list"

text \<open>A context, by the timeout it was derived with.\<close>

type_synonym ctx = "int option"

record host =
  h_ctx_err :: "go_error option"
  h_look_path :: "string \<Rightarrow> string option"
  h_abs :: "string \<Rightarrow> string option"
  h_path :: string
  h_environ :: "string list"
  h_spawn :: "process \<Rightarrow> child"

type_synonym machine = "ctx \<Rightarrow> world \<Rightarrow> host"

text \<open>\<^verbatim>\<open>recordLine\<close> over the lines of one stream: the bytes seen so far and the buffer.\<close>

definition MaxOutputBytes :: nat where
  "MaxOutputBytes = 1048576"

fun recordLines :: "nat \<Rightarrow> string \<Rightarrow> string list \<Rightarrow> nat \<times> string" where
  "recordLines seen buf [] = (seen, buf)"
| "recordLines seen buf (line # ls) =
     (let seen' = seen + (length line + 1) in
      recordLines seen' (if seen' \<le> MaxOutputBytes then buf @ line @ [newline] else buf) ls)"

definition captured :: "string list \<Rightarrow> string" where
  "captured ls = (case recordLines 0 '''' ls of (seen, buf) \<Rightarrow>
     if seen > MaxOutputBytes then buf @ newline # ''[output truncated]'' else buf)"

definition runStreamingWithStdin :: "host \<Rightarrow> process \<Rightarrow> exec_result \<times> go_error option" where
  "runStreamingWithStdin H p = (let s = h_spawn H p in
     (\<lparr>xr_exit = ch_exit s, xr_stdout = captured (ch_stdout s), xr_stderr = captured (ch_stderr s)\<rparr>, ch_err s))"

definition resolveAbsolute :: "host \<Rightarrow> string \<Rightarrow> string option" where
  "resolveAbsolute H name = (case h_look_path H name of None \<Rightarrow> None | Some p \<Rightarrow> h_abs H p)"

definition escalationTool :: "privilege_backend \<Rightarrow> string" where
  "escalationTool b = (case b of Sudo \<Rightarrow> ''sudo'' | Doas \<Rightarrow> ''doas'' | Direct \<Rightarrow> '''')"

definition wrapEscalation :: "privilege_backend \<Rightarrow> bool \<Rightarrow> string \<Rightarrow> string list \<Rightarrow> string \<times> string list" where
  "wrapEscalation b escalate absPath args =
     (let tool = escalationTool b in
      if \<not> escalate \<or> tool = '''' then (absPath, args) else (tool, [''-n'', absPath] @ args))"

definition detectEscalationDenied :: "privilege_backend \<Rightarrow> exec_result \<Rightarrow> go_error option" where
  "detectEscalationDenied b res =
     (let s = xr_stderr res in
      if xr_exit res = 0 then None
      else case b of
        Sudo \<Rightarrow> if Contains s ''a password is required'' \<or> Contains s ''a terminal is required'' \<or>
                  Contains s ''no askpass program''
               then Some (EDetail ErrEscalationDenied (TrimSpace s)) else None
      | Doas \<Rightarrow> if Contains s ''Authorization required'' \<or> Contains s ''Authentication failed''
               then Some (EDetail ErrEscalationDenied (TrimSpace s)) else None
      | Direct \<Rightarrow> None)"

definition forcedEnv :: "string list" where
  "forcedEnv = [''LC_ALL=C'', ''LANG=C'', ''NO_COLOR=1'']"

definition inherited :: "string list \<Rightarrow> string list" where
  "inherited environ = filter (\<lambda>e. case Cut e ''='' of None \<Rightarrow> False | Some (k, v) \<Rightarrow> IsAllowedEnvVar k) environ"

definition buildChildEnv :: "host \<Rightarrow> command \<Rightarrow> go_error + string list" where
  "buildChildEnv H c = (case ValidateCommandEnv (cmd_env c) of
     Some e \<Rightarrow> Inl e
   | None \<Rightarrow> Inr (
       if cmd_child_path c \<noteq> '''' then composeEnv (cmd_child_path c) (cmd_env c) @ forcedEnv
       else if length (cmd_env c) > 0 then composeEnv (h_path H) (cmd_env c) @ forcedEnv
       else composeEnv (h_path H) (inherited (h_environ H)) @ forcedEnv))"

text \<open>\<^verbatim>\<open>runner.exec\<close>: the result, the error, and the process that was spawned, if any.\<close>

definition runner_exec :: "host \<Rightarrow> privilege_backend \<Rightarrow> command \<Rightarrow> exec_result \<times> go_error option \<times> process option" where
  "runner_exec H b c =
     (case h_ctx_err H of Some e \<Rightarrow> (zero_result, Some e, None) | None \<Rightarrow>
      if cmd_name c = '''' then (zero_result, Some (EText ''exec: command name is required''), None) else
      case buildChildEnv H c of Inl e \<Rightarrow> (zero_result, Some e, None) | Inr env \<Rightarrow>
      case resolveAbsolute H (cmd_name c) of
        None \<Rightarrow> (zero_result, Some (EDetail ErrBackendUnavailable (''command not found: '' @ cmd_name c)), None)
      | Some absPath \<Rightarrow>
        if cmd_escalate c \<and> escalationTool b \<noteq> '''' \<and> h_look_path H (escalationTool b) = None
        then (zero_result, Some (EDetail ErrEscalationUnavailable (escalationTool b)), None)
        else (case wrapEscalation b (cmd_escalate c) absPath (cmd_args c) of (name, argv) \<Rightarrow>
          let p = \<lparr>proc_name = name, proc_argv = argv, proc_stdin = cmd_stdin c, proc_env = env, proc_dir = cmd_dir c\<rparr> in
          (case runStreamingWithStdin H p of (result, runErr) \<Rightarrow>
            (case runErr of Some e \<Rightarrow> (result, Some e, Some p)
             | None \<Rightarrow> (result, if cmd_escalate c then detectEscalationDenied b result else None, Some p)))))"

type_synonym runner = "command \<Rightarrow> (world, exec_result \<times> go_error option) prog"

definition runner_run :: "machine \<Rightarrow> privilege_backend \<Rightarrow> ctx \<Rightarrow> runner" where
  "runner_run M b ctx c = (\<lambda>E n w. case runner_exec (M ctx w) b c of (res, e, p) \<Rightarrow>
     (Inr (res, e), n, w @ (case p of None \<Rightarrow> [] | Some q \<Rightarrow> [q])))"

definition Detect_privilege :: "host \<Rightarrow> privilege_backend list" where
  "Detect_privilege H = (if h_look_path H ''sudo'' \<noteq> None then [Sudo] else []) @
     (if h_look_path H ''doas'' \<noteq> None then [Doas] else [])"

text \<open>\<^verbatim>\<open>err.Error()\<close>. The texts of the SQL driver are not modelled; they never reach a result.\<close>

fun error_text :: "go_error \<Rightarrow> string" where
  "error_text EDriver = ''''"
| "error_text ENoRows = ''sql: no rows in result set''"
| "error_text EUnique = ''''"
| "error_text EConstraint = ''''"
| "error_text (ESentinel t) = t"
| "error_text (EText t) = t"
| "error_text (ERpc c t) = t"
| "error_text (ECommand name code stderr) =
     (if TrimSpace stderr \<noteq> '''' then name @ '': exit '' @ itoa code @ '': '' @ TrimSpace stderr
      else name @ '': exit '' @ itoa code)"
| "error_text (EWrap t e) = t @ '': '' @ error_text e"
| "error_text (EDetail e t) = error_text e @ '': '' @ t"

section \<open>What is captured\<close>

lemma recordLines_total: "fst (recordLines seen buf ls) = seen + length (unlines ls)"
  by (induction ls arbitrary: seen buf) (simp_all add: Let_def)

text \<open>Once the limit is passed no later line is kept: the buffer is a prefix of the lines.\<close>

lemma recordLines_over: "seen > MaxOutputBytes \<Longrightarrow> snd (recordLines seen buf ls) = buf"
  by (induction ls arbitrary: seen buf) (simp_all add: Let_def)

lemma recordLines_prefix:
  "seen \<le> MaxOutputBytes \<Longrightarrow> \<exists>k \<le> length ls. snd (recordLines seen buf ls) = buf @ unlines (take k ls) \<and>
    seen + length (unlines (take k ls)) \<le> MaxOutputBytes \<and>
    (seen + length (unlines ls) \<le> MaxOutputBytes \<longrightarrow> k = length ls)"
proof (induction ls arbitrary: seen buf)
  case Nil
  then show ?case by simp
next
  case (Cons l ls)
  show ?case
  proof (cases "seen + (length l + 1) \<le> MaxOutputBytes")
    case True
    from Cons.IH [OF True, of "buf @ l @ [newline]"] obtain k where
      "k \<le> length ls" "snd (recordLines (seen + (length l + 1)) (buf @ l @ [newline]) ls) = (buf @ l @ [newline]) @ unlines (take k ls)"
      "seen + (length l + 1) + length (unlines (take k ls)) \<le> MaxOutputBytes"
      "seen + (length l + 1) + length (unlines ls) \<le> MaxOutputBytes \<longrightarrow> k = length ls"
      by blast
    then show ?thesis using True by (intro exI [of _ "Suc k"]) (simp add: Let_def)
  next
    case False
    then show ?thesis using Cons.prems recordLines_over [of "seen + (length l + 1)"]
      by (intro exI [of _ 0]) (simp add: Let_def)
  qed
qed

section \<open>What the gate lets through\<close>

lemma env_names_ok:
  "env_names_error es = None \<Longrightarrow> e \<in> set es \<Longrightarrow> \<exists>k v. Cut e ''='' = Some (k, v) \<and> IsAllowedEnvVar k"
  by (induction es) (auto split: option.splits if_splits)

lemma env_reserved_ok:
  "env_reserved_error es = None \<Longrightarrow> e \<in> set es \<Longrightarrow> Cut e ''='' = Some (k, v) \<Longrightarrow> \<not> isReservedEnvVar k"
  by (induction es) (auto simp: Let_def split: option.splits if_splits)

lemma ValidateCommandEnv_entry:
  assumes "ValidateCommandEnv env = None" and "e \<in> set env"
  obtains k v where "e = k @ ''='' @ v" and "IsAllowedEnvVar k" and "\<not> isReservedEnvVar k"
proof -
  from assms have n: "env_names_error env = None" and r: "env_reserved_error env = None"
    by (auto simp: ValidateCommandEnv_def split: option.splits)
  from env_names_ok [OF n assms(2)] obtain k v where kv: "Cut e ''='' = Some (k, v)" "IsAllowedEnvVar k"
    by blast
  then show thesis using that [of k v] Cut_Some [OF kv(1)] env_reserved_ok [OF r assms(2) kv(1)] by simp
qed

text \<open>The keys a child's environment may have: \<^verbatim>\<open>PATH\<close>, the forced ones, and keys the gate allows.\<close>

definition env_entry_safe :: "string \<Rightarrow> bool" where
  "env_entry_safe e \<longleftrightarrow> e \<in> set forcedEnv \<or> HasPrefix e ''PATH='' \<or>
     (case Cut e ''='' of None \<Rightarrow> False | Some (k, v) \<Rightarrow> IsAllowedEnvVar k)"

lemma composeEnv_safe:
  "\<forall>e\<in>set es. env_entry_safe e \<Longrightarrow> e \<in> set (composeEnv p es @ forcedEnv) \<Longrightarrow> env_entry_safe e"
  by (auto simp: composeEnv_def env_entry_safe_def HasPrefix_def split: if_splits)

lemma validated_safe: "ValidateCommandEnv env = None \<Longrightarrow> \<forall>e\<in>set env. env_entry_safe e"
  by (auto simp: env_entry_safe_def ValidateCommandEnv_def split: option.splits dest: env_names_ok)

lemma inherited_safe: "\<forall>e\<in>set (inherited es). env_entry_safe e"
  by (simp add: inherited_def env_entry_safe_def)

lemma buildChildEnv_safe: "buildChildEnv H c = Inr env \<Longrightarrow> e \<in> set env \<Longrightarrow> env_entry_safe e"
proof -
  assume b: "buildChildEnv H c = Inr env" and e: "e \<in> set env"
  then have v: "\<forall>x\<in>set (cmd_env c). env_entry_safe x"
    by (intro validated_safe) (simp add: buildChildEnv_def split: option.splits)
  consider "env = composeEnv (cmd_child_path c) (cmd_env c) @ forcedEnv"
    | "env = composeEnv (h_path H) (cmd_env c) @ forcedEnv"
    | "env = composeEnv (h_path H) (inherited (h_environ H)) @ forcedEnv"
    using b by (auto simp: buildChildEnv_def split: option.splits if_splits)
  then show ?thesis using composeEnv_safe e v inherited_safe by cases blast+
qed

section \<open>The interface of a runner\<close>

text \<open>The process is the command: its arguments, bare or behind \<^verbatim>\<open>tool -n path\<close>, and a safe environment.\<close>

definition spawn_of :: "command \<Rightarrow> process \<Rightarrow> bool" where
  "spawn_of c p \<longleftrightarrow>
     (proc_argv p = cmd_args c \<or> cmd_escalate c \<and> (\<exists>path. proc_argv p = [''-n'', path] @ cmd_args c)) \<and>
     proc_stdin p = cmd_stdin c \<and> proc_dir p = cmd_dir c \<and>
     ValidateCommandEnv (cmd_env c) = None \<and> (\<forall>e\<in>set (proc_env p). env_entry_safe e)"

text \<open>Every process a program spawns is one of the commands.\<close>

definition issues :: "(command \<Rightarrow> bool) \<Rightarrow> (world, 'a) prog \<Rightarrow> bool" where
  "issues Q m \<longleftrightarrow> (\<forall>E n w r n' w'. m E n w = (r, n', w') \<longrightarrow>
     (\<exists>ps. w' = w @ ps \<and> (\<forall>p\<in>set ps. \<exists>c. Q c \<and> spawn_of c p)))"

named_theorems issues_rules "composition rules for issues"

lemma issues_readonly: "readonly m \<Longrightarrow> issues Q m"
  unfolding issues_def readonly_def by fastforce

lemma issues_bnd [issues_rules]:
  assumes "issues Q m" and "\<And>x. issues Q (f x)"
  shows "issues Q (bnd m f)"
  unfolding issues_def
proof (intro allI impI)
  fix E n w r n' w'
  assume run: "bnd m f E n w = (r, n', w')"
  consider (stop) "\<exists>r'. m E n w = (r', n', w')"
    | (go) x n1 w1 where "m E n w = (Inr x, n1, w1)" and "f x E n1 w1 = (r, n', w')"
    using run unfolding bnd_run by blast
  then show "\<exists>ps. w' = w @ ps \<and> (\<forall>p\<in>set ps. \<exists>c. Q c \<and> spawn_of c p)"
  proof cases
    case stop
    then show ?thesis using assms(1) unfolding issues_def by blast
  next
    case go
    obtain ps where ps: "w1 = w @ ps" "\<forall>p\<in>set ps. \<exists>c. Q c \<and> spawn_of c p"
      using go(1) assms(1) unfolding issues_def by blast
    obtain qs where qs: "w' = w1 @ qs" "\<forall>p\<in>set qs. \<exists>c. Q c \<and> spawn_of c p"
      using go(2) assms(2) unfolding issues_def by blast
    show ?thesis using ps qs by (intro exI [of _ "ps @ qs"]) auto
  qed
qed

lemma issues_branch [issues_rules]:
  "(b \<Longrightarrow> issues Q m) \<Longrightarrow> (\<not> b \<Longrightarrow> issues Q m') \<Longrightarrow> issues Q (if b then m else m')"
  "(z = None \<Longrightarrow> issues Q m) \<Longrightarrow> (\<And>x. z = Some x \<Longrightarrow> issues Q (f x)) \<Longrightarrow> issues Q (case z of None \<Rightarrow> m | Some x \<Rightarrow> f x)"
  "(\<And>e. y = Inl e \<Longrightarrow> issues Q (g e)) \<Longrightarrow> (\<And>x. y = Inr x \<Longrightarrow> issues Q (h x)) \<Longrightarrow>
     issues Q (case y of Inl e \<Rightarrow> g e | Inr x \<Rightarrow> h x)"
  "(\<And>u v. pr = (u, v) \<Longrightarrow> issues Q (k u v)) \<Longrightarrow> issues Q (case pr of (u, v) \<Rightarrow> k u v)"
  by (auto split: option.splits sum.splits prod.splits)

lemma issues_let [issues_rules]: "issues Q (f x) \<Longrightarrow> issues Q (Let x f)"
  by (simp add: Let_def)

lemma issues_map_prog [issues_rules]: "(\<And>x. x \<in> set xs \<Longrightarrow> issues Q (f x)) \<Longrightarrow> issues Q (map_prog f xs)"
  by (induction xs) (auto intro!: issues_bnd intro: issues_readonly readonly_basic)

lemma issues_mono: "issues Q m \<Longrightarrow> (\<And>c. Q c \<Longrightarrow> R c) \<Longrightarrow> issues R m"
  unfolding issues_def by meson

locale runner_iface =
  fixes run :: runner
  assumes run_total: "run c E n w = (r, n', w') \<Longrightarrow> \<exists>res e. r = Inr (res, e)"
    and run_spawn: "run c E n w = (r, n', w') \<Longrightarrow> w' = w \<or> (\<exists>p. w' = w @ [p] \<and> spawn_of c p)"
    and run_spawned: "run c E n w = (Inr (res, None), n', w') \<Longrightarrow> w' \<noteq> w"
begin

lemma issues_run: "Q c \<Longrightarrow> issues Q (run c)"
  unfolding issues_def using run_spawn by fastforce

text \<open>A command with an environment the gate refuses is not spawned, and the run reports an error.\<close>

lemma rejected_env:
  assumes "ValidateCommandEnv (cmd_env c) = Some e" and "run c E n w = (r, n', w')"
  shows "w' = w \<and> (\<exists>res e'. r = Inr (res, Some e'))"
proof -
  have w: "w' = w" using run_spawn [OF assms(2)] assms(1) by (auto simp: spawn_of_def)
  obtain res x where r: "r = Inr (res, x)" using run_total [OF assms(2)] by blast
  have "x \<noteq> None" using run_spawned [of c E n w res n' w'] assms(2) w r by auto
  then show ?thesis using w r by auto
qed

end

lemma runner_exec_spawn: "runner_exec H b c = (res, e, Some p) \<Longrightarrow> spawn_of c p"
  using buildChildEnv_safe [of H c]
  by (auto simp: runner_exec_def spawn_of_def wrapEscalation_def Let_def buildChildEnv_def [of H c]
      split: option.splits sum.splits if_splits prod.splits)

lemma runner_exec_ok: "runner_exec H b c = (res, None, p) \<Longrightarrow> p \<noteq> None"
  by (auto simp: runner_exec_def Let_def split: option.splits sum.splits if_splits prod.splits)

interpretation os_runner: runner_iface "runner_run M b ctx"
  by unfold_locales
    (auto simp: runner_run_def dest: runner_exec_spawn runner_exec_ok split: prod.splits option.splits)

end
