(* ===== verification/Pkg_Base.thy ===== *)
theory Pkg_Base
  imports Sys_Exec
begin

text \<open>
  \<^verbatim>\<open>sdk/pkg\<close> without its backends: the types (\<^verbatim>\<open>types.go\<close>), the argument validation
  (\<^verbatim>\<open>validate.go\<close>), the helpers that run commands and read their output (\<^verbatim>\<open>exec.go\<close>), the
  \<^verbatim>\<open>Manager\<close> interface as a record of its methods (\<^verbatim>\<open>pkg.go\<close>), and the contract the backends promise
  to their clients as the locale \<open>pkg_manager\<close>: no argument that starts with a dash reaches a
  command line unless it is one of the backend's literals, queries run without
  privilege, and a mutation always returns a result.

  A query returns its value or an error; a mutation returns the command's result and
  an optional error, both at once, as the Go methods do. \<^verbatim>\<open>Show\<close>, which reads sizes as floating-point numbers,
  is not part of the record.
\<close>

section \<open>Types\<close>

datatype pkg_backend = Apt | Dnf | Dnf5 | Pacman | Zypper

datatype package_status = PackageStatusInstalled | PackageStatusAvailable

record package =
  pk_Name :: string
  pk_Version :: string
  pk_Architecture :: string
  pk_Description :: string
  pk_Status :: package_status
  pk_Size :: int
  pk_Repository :: string

record local_package =
  lp_Name :: string
  lp_Version :: string
  lp_Arch :: string

record package_update =
  pu_Name :: string
  pu_CurrentVersion :: string
  pu_NewVersion :: string
  pu_Architecture :: string
  pu_Repository :: string

record search_result =
  sr_Name :: string
  sr_Version :: string
  sr_Description :: string
  sr_Repository :: string

record available_version =
  av_Version :: string
  av_Repository :: string
  av_Size :: int

record version_info =
  vi_Name :: string
  vi_Versions :: "available_version list"
  vi_Installed :: string

record install_spec =
  is_Name :: string
  is_Version :: string

record install_local_options =
  ilo_AllowDowngrade :: bool
  ilo_AllowUnsigned :: bool

definition installed_package :: "string \<Rightarrow> string \<Rightarrow> package" where
  "installed_package name version = \<lparr>pk_Name = name, pk_Version = version, pk_Architecture = '''',
     pk_Description = '''', pk_Status = PackageStatusInstalled, pk_Size = 0, pk_Repository = ''''\<rparr>"

definition ErrNotFound :: go_error where "ErrNotFound = ESentinel ''package not found''"
definition ErrUnsupported :: go_error where "ErrUnsupported = ESentinel ''package operation unsupported''"
definition ErrInvalidArgument :: go_error where "ErrInvalidArgument = ESentinel ''invalid package argument''"

section \<open>Validation\<close>

text \<open>A grammar \<^verbatim>\<open>^[a-zA-Z0-9][a-zA-Z0-9<extra>]{0,n}$\<close>.\<close>

definition grammar :: "string \<Rightarrow> nat \<Rightarrow> string \<Rightarrow> bool" where
  "grammar extra n s = (case s of [] \<Rightarrow> False
     | c # cs \<Rightarrow> is_alnum c \<and> length cs \<le> n \<and> list_all (\<lambda>d. is_alnum d \<or> d \<in> set extra) cs)"

definition validPackageName :: "string \<Rightarrow> bool" where
  "validPackageName = grammar ''._+:/@~-'' 255"

definition validPackageVersion :: "string \<Rightarrow> bool" where
  "validPackageVersion = grammar ''._+:~^-'' 127"

definition validRpmPackageName :: "string \<Rightarrow> bool" where
  "validRpmPackageName = grammar ''._+-'' 255"

definition ValidatePackageName :: "string \<Rightarrow> go_error option" where
  "ValidatePackageName name =
     (if name = '''' then Some (EDetail ErrInvalidArgument ''package name is empty'')
      else if \<not> validPackageName name then Some (EDetail ErrInvalidArgument (''invalid package name '' @ Quote name @
        '': must start with [a-zA-Z0-9] and contain only [a-zA-Z0-9._+:/@~-]''))
      else None)"

fun ValidatePackageNames :: "string list \<Rightarrow> go_error option" where
  "ValidatePackageNames [] = None"
| "ValidatePackageNames (n # ns) = (case ValidatePackageName n of Some e \<Rightarrow> Some e | None \<Rightarrow> ValidatePackageNames ns)"

definition ValidatePackageVersion :: "string \<Rightarrow> go_error option" where
  "ValidatePackageVersion version =
     (if version = '''' then None
      else if \<not> validPackageVersion version then Some (EDetail ErrInvalidArgument (''invalid package version '' @
        Quote version @ '': must start with [a-zA-Z0-9] and contain only [a-zA-Z0-9._+:~^-]''))
      else None)"

definition ValidateRpmPackageName :: "string \<Rightarrow> go_error option" where
  "ValidateRpmPackageName name =
     (if name = '''' then Some (EDetail ErrInvalidArgument ''rpm package name is empty'')
      else if \<not> validRpmPackageName name then Some (EDetail ErrInvalidArgument (''invalid rpm package name '' @
        Quote name @ '': must start with [a-zA-Z0-9] and contain only [a-zA-Z0-9._+-]''))
      else None)"

definition hasControlChar :: "string \<Rightarrow> bool" where
  "hasControlChar s = list_ex (\<lambda>c. c < CHR '' '' \<or> c = CHR 0x7F) s"

definition hasCtrlOrSpace :: "string \<Rightarrow> bool" where
  "hasCtrlOrSpace s = list_ex (\<lambda>c. c \<le> CHR '' '' \<or> c = CHR 0x7F) s"

definition ValidateLocalPackagePath :: "string \<Rightarrow> go_error option" where
  "ValidateLocalPackagePath path =
     (if path = '''' then Some (EDetail ErrInvalidArgument ''local package path is empty'')
      else if hasControlChar path then Some (EDetail ErrInvalidArgument ''local package path contains control characters'')
      else if \<not> HasPrefix path ''/'' then Some (EDetail ErrInvalidArgument (''local package path '' @ Quote path @
        '' must be an absolute path''))
      else if Contains path ''..'' then Some (EDetail ErrInvalidArgument (''local package path '' @ Quote path @
        '' must not contain '' @ [CHR 0x27] @ ''..'' @ [CHR 0x27]))
      else None)"

definition ValidateSearchQuery :: "string \<Rightarrow> go_error option" where
  "ValidateSearchQuery q =
     (if HasPrefix q ''-'' then Some (EDetail ErrInvalidArgument (''invalid search query '' @ Quote q @
        '': must not start with '' @ [CHR 0x27] @ ''-'' @ [CHR 0x27]))
      else if hasControlChar q then Some (EDetail ErrInvalidArgument ''search query contains control characters'')
      else None)"

text \<open>\<^verbatim>\<open>net/url\<close> is library code: \<open>parse\<close> gives the host and path of a reference, or the text of its error.\<close>

definition ValidateGpgKeyRef :: "(string \<Rightarrow> string + string \<times> string) \<Rightarrow> string \<Rightarrow> go_error option" where
  "ValidateGpgKeyRef parse ref =
     (if ref = '''' then Some (EDetail ErrInvalidArgument ''gpg key ref is empty'')
      else if hasCtrlOrSpace ref then Some (EDetail ErrInvalidArgument ''gpg key ref contains whitespace or control characters'')
      else if HasPrefix ref ''-'' then Some (EDetail ErrInvalidArgument (''gpg key ref '' @ Quote ref @
        '' is flag-shaped (leading '' @ [CHR 0x27] @ ''-'' @ [CHR 0x27] @ '')''))
      else if HasPrefix ref ''https://'' then (case parse ref of
          Inl err \<Rightarrow> Some (EDetail ErrInvalidArgument (''gpg key ref is not a valid URL: '' @ err))
        | Inr (host, path) \<Rightarrow> if host = '''' then Some (EDetail ErrInvalidArgument ''gpg key https ref has no host'') else None)
      else if HasPrefix ref ''file://'' then (case parse ref of
          Inl err \<Rightarrow> Some (EDetail ErrInvalidArgument (''gpg key ref is not a valid URL: '' @ err))
        | Inr (host, path) \<Rightarrow>
            if host \<noteq> '''' then Some (EDetail ErrInvalidArgument ''gpg key file ref must be file:///absolute/path (no host)'')
            else if \<not> HasPrefix path ''/'' \<or> Contains path ''..''
            then Some (EDetail ErrInvalidArgument (''gpg key file ref must be an absolute path with no '' @
              [CHR 0x27] @ ''..'' @ [CHR 0x27])) else None)
      else if HasPrefix ref ''/'' then
        (if Contains ref ''..'' then Some (EDetail ErrInvalidArgument (''gpg key path ref must not contain '' @
           [CHR 0x27] @ ''..'' @ [CHR 0x27])) else None)
      else Some (EDetail ErrInvalidArgument (''gpg key ref '' @ Quote ref @
        '' must be an https URL, a file:// absolute path, or an absolute filesystem path'')))"

section \<open>Running commands\<close>

type_synonym 'a read_op = "(world, 'a) prog"
type_synonym write_op = "(world, exec_result \<times> go_error option) prog"

text \<open>\<^verbatim>\<open>if err := validate(...); err != nil { return ..., err }\<close> in a query and in a mutation.\<close>

definition check :: "go_error option \<Rightarrow> (world, unit) prog" where
  "check v = (case v of None \<Rightarrow> ret () | Some e \<Rightarrow> throw e)"

definition guarded :: "go_error option \<Rightarrow> write_op \<Rightarrow> write_op" where
  "guarded v m = (case v of None \<Rightarrow> m | Some e \<Rightarrow> ret (zero_result, Some e))"

definition read_command :: "string \<Rightarrow> string list \<Rightarrow> command" where
  "read_command name args = \<lparr>cmd_name = name, cmd_args = args, cmd_dir = '''', cmd_env = [], cmd_stdin = None,
     cmd_child_path = '''', cmd_escalate = False\<rparr>"

definition runRead :: "runner \<Rightarrow> string \<Rightarrow> string list \<Rightarrow> exec_result read_op" where
  "runRead r name args = bnd (r (read_command name args)) (\<lambda>(res, err). case err of Some e \<Rightarrow> throw e | None \<Rightarrow> ret res)"

definition probe :: "runner \<Rightarrow> string \<Rightarrow> string list \<Rightarrow> (string \<times> bool) read_op" where
  "probe r name args = bnd (runRead r name args) (\<lambda>res. ret (xr_stdout res, xr_exit res = 0))"

definition priv_command :: "bool \<Rightarrow> string list \<Rightarrow> string option \<Rightarrow> string \<Rightarrow> string list \<Rightarrow> command" where
  "priv_command escalate env stdin name args = \<lparr>cmd_name = name, cmd_args = args, cmd_dir = '''', cmd_env = env,
     cmd_stdin = stdin, cmd_child_path = '''', cmd_escalate = escalate\<rparr>"

definition runPriv :: "runner \<Rightarrow> bool \<Rightarrow> string list \<Rightarrow> string \<Rightarrow> string list \<Rightarrow> write_op" where
  "runPriv r escalate env name args = r (priv_command escalate env None name args)"

definition runPrivStdin :: "runner \<Rightarrow> bool \<Rightarrow> string list \<Rightarrow> string \<Rightarrow> string \<Rightarrow> string list \<Rightarrow> write_op" where
  "runPrivStdin r escalate env stdin name args =
     r (priv_command escalate env (if stdin \<noteq> '''' then Some stdin else None) name args)"

definition asCommandError :: "string \<Rightarrow> exec_result \<Rightarrow> go_error option" where
  "asCommandError name res = (if xr_exit res = 0 then None else Some (ECommand name (xr_exit res) (xr_stderr res)))"

definition readOut :: "runner \<Rightarrow> string \<Rightarrow> string list \<Rightarrow> string read_op" where
  "readOut r name args = bnd (runRead r name args) (\<lambda>res.
     if xr_exit res \<noteq> 0 then throw (ECommand name (xr_exit res) (xr_stderr res)) else ret (xr_stdout res))"

text \<open>\<^verbatim>\<open>return nil, asCommandError(name, res)\<close> where the exit code is known not to be 0.\<close>

definition throw_exit :: "string \<Rightarrow> exec_result \<Rightarrow> 'a read_op" where
  "throw_exit name res = throw (ECommand name (xr_exit res) (xr_stderr res))"

text \<open>The body of every backend's \<^verbatim>\<open>write\<close>: a run error loses the result, a non-zero exit keeps it.\<close>

definition write_result :: "(exec_result \<Rightarrow> go_error option) \<Rightarrow> write_op \<Rightarrow> write_op" where
  "write_result f m = bnd m (\<lambda>(res, err). case err of Some e \<Rightarrow> ret (zero_result, Some e) | None \<Rightarrow> ret (res, f res))"

text \<open>The loop of \<^verbatim>\<open>Install\<close>: every specification is validated before it becomes an argument.\<close>

fun spec_args :: "string \<Rightarrow> install_spec list \<Rightarrow> go_error + string list" where
  "spec_args sep [] = Inr []"
| "spec_args sep (spec # specs) = (case ValidatePackageName (is_Name spec) of Some e \<Rightarrow> Inl e | None \<Rightarrow>
     (case ValidatePackageVersion (is_Version spec) of Some e \<Rightarrow> Inl e | None \<Rightarrow>
       (case spec_args sep specs of Inl e \<Rightarrow> Inl e
        | Inr args \<Rightarrow> Inr ((if is_Version spec = '''' then is_Name spec else is_Name spec @ sep @ is_Version spec) # args))))"

section \<open>Reading tool output\<close>

definition output_lines :: "string \<Rightarrow> string list" where
  "output_lines s = Split s newline"

definition parseColonValue :: "string \<Rightarrow> string" where
  "parseColonValue line = (case SplitN2 line '':'' of [k, v] \<Rightarrow> TrimSpace v | _ \<Rightarrow> '''')"

definition splitPositionalFields :: "string \<Rightarrow> string list" where
  "splitPositionalFields data = map TrimSpace (Split (TrimRight (\<lambda>c. c = newline) data) newline)"

definition countNonEmptyLines :: "string \<Rightarrow> int" where
  "countNonEmptyLines data = int (length (filter (\<lambda>l. TrimSpace l \<noteq> '''') (output_lines data)))"

definition rpmLocalPackageInfo :: "runner \<Rightarrow> string \<Rightarrow> local_package read_op" where
  "rpmLocalPackageInfo r path =
     bnd (check (ValidateLocalPackagePath path)) (\<lambda>_.
     bnd (readOut r ''rpm'' [''-qp'', ''--qf'', ''%{NAME}'' @ newline # ''%{VERSION}-%{RELEASE}'' @ newline # ''%{ARCH}'', path]) (\<lambda>out.
     (case splitPositionalFields out of
        [] \<Rightarrow> throw (EText (''pkg: rpm -qp reported no name for '' @ Quote path))
      | name # vs \<Rightarrow>
          (case ValidateRpmPackageName name of
             Some e \<Rightarrow> throw (EWrap ''pkg: local .rpm reports an unsafe package name'' e)
           | None \<Rightarrow> ret \<lparr>lp_Name = name,
               lp_Version = (case vs of [] \<Rightarrow> '''' | v # _ \<Rightarrow> v),
               lp_Arch = (case vs of _ # a # _ \<Rightarrow> a | _ \<Rightarrow> '''')\<rparr>))))"

text \<open>\<^verbatim>\<open>installed, err := InstalledVersion(...); if errors.Is(err, ErrNotFound) { err = nil }\<close>\<close>

definition version_or_empty :: "string read_op \<Rightarrow> string read_op" where
  "version_or_empty m = handle m (\<lambda>e. if errors_is e ErrNotFound then ret '''' else throw e)"

text \<open>The version loops of \<^verbatim>\<open>ListVersions\<close>: the first row of each version, in order.\<close>

fun dedup_versions :: "string list \<Rightarrow> (string \<times> string) list \<Rightarrow> available_version list" where
  "dedup_versions seen [] = []"
| "dedup_versions seen ((version, repo) # rows) =
     (if version \<in> set seen then dedup_versions seen rows
      else \<lparr>av_Version = version, av_Repository = repo, av_Size = 0\<rparr> # dedup_versions (version # seen) rows)"

text \<open>\<^verbatim>\<open>ListPinned\<close> and its like: a version is looked up per name.\<close>

definition with_versions :: "(string \<Rightarrow> string read_op) \<Rightarrow> string list \<Rightarrow> package list read_op" where
  "with_versions installedVersion names =
     map_prog (\<lambda>name. bnd (installedVersion name) (\<lambda>v. ret (installed_package name v))) names"

section \<open>The Manager interface\<close>

record manager =
  mgr_Backend :: pkg_backend
  mgr_Version :: "string read_op"
  mgr_Search :: "string \<Rightarrow> search_result list read_op"
  mgr_List :: "package list read_op"
  mgr_ListUpgradable :: "package_update list read_op"
  mgr_ListVersions :: "string \<Rightarrow> version_info read_op"
  mgr_IsInstalled :: "string \<Rightarrow> bool read_op"
  mgr_LocalPackageInfo :: "string \<Rightarrow> local_package read_op"
  mgr_InstalledVersion :: "string \<Rightarrow> string read_op"
  mgr_InstalledCount :: "int read_op"
  mgr_HasUpdates :: "bool read_op"
  mgr_HasSecurityUpdates :: "bool read_op"
  mgr_IsPinned :: "string \<Rightarrow> bool read_op"
  mgr_ListPinned :: "package list read_op"
  mgr_Install :: "bool \<Rightarrow> install_spec list \<Rightarrow> write_op"
  mgr_InstallLocal :: "string \<Rightarrow> install_local_options \<Rightarrow> write_op"
  mgr_Remove :: "bool \<Rightarrow> string list \<Rightarrow> write_op"
  mgr_Update :: write_op
  mgr_Upgrade :: "string list \<Rightarrow> write_op"
  mgr_UpgradeAll :: write_op
  mgr_UpgradeSecurity :: write_op
  mgr_Pin :: "string list \<Rightarrow> write_op"
  mgr_Unpin :: "string list \<Rightarrow> write_op"
  mgr_Autoremove :: write_op

section \<open>What validation guarantees\<close>

definition flag_shaped :: "string \<Rightarrow> bool" where
  "flag_shaped a \<longleftrightarrow> HasPrefix a ''-''"

lemma flag_shaped_simps [simp]:
  "\<not> flag_shaped []" "flag_shaped (c # s) \<longleftrightarrow> c = CHR ''-''"
  by (auto simp: flag_shaped_def HasPrefix_def)

lemma dash_not_alnum [simp]: "\<not> is_alnum (CHR ''-'')"
  by (simp add: is_alnum_def is_lower_def is_upper_def is_digit_def)

lemma grammar_not_flag: "grammar extra n s \<Longrightarrow> s \<noteq> [] \<and> \<not> flag_shaped (s @ t)"
  by (cases s) (auto simp: grammar_def)

lemma name_not_flag: "ValidatePackageName s = None \<Longrightarrow> s \<noteq> [] \<and> \<not> flag_shaped (s @ t)"
  using grammar_not_flag by (fastforce simp: ValidatePackageName_def validPackageName_def split: if_splits)

lemma name_not_flag' [simp]: "ValidatePackageName s = None \<Longrightarrow> \<not> flag_shaped s"
  using name_not_flag [of s "[]"] by simp

lemma names_not_flag: "ValidatePackageNames ns = None \<Longrightarrow> s \<in> set ns \<Longrightarrow> \<not> flag_shaped s"
  by (induction ns) (auto split: option.splits)

lemma path_not_flag [simp]: "ValidateLocalPackagePath p = None \<Longrightarrow> \<not> flag_shaped p"
  by (cases p) (auto simp: ValidateLocalPackagePath_def HasPrefix_def split: if_splits)

lemma query_not_flag [simp]: "ValidateSearchQuery q = None \<Longrightarrow> \<not> flag_shaped q"
  by (auto simp: ValidateSearchQuery_def flag_shaped_def split: if_splits)

text \<open>Only literals of the backend may look like options.\<close>

definition argv_safe :: "string list \<Rightarrow> string list \<Rightarrow> bool" where
  "argv_safe lits args \<longleftrightarrow> (\<forall>a\<in>set args. flag_shaped a \<longrightarrow> a \<in> set lits)"

lemma argv_safe_simps [simp]:
  "argv_safe lits []"
  "argv_safe lits (a # as) \<longleftrightarrow> (flag_shaped a \<longrightarrow> a \<in> set lits) \<and> argv_safe lits as"
  "argv_safe lits (as @ bs) \<longleftrightarrow> argv_safe lits as \<and> argv_safe lits bs"
  by (auto simp: argv_safe_def)

lemma argv_safe_names [simp]: "ValidatePackageNames ns = None \<Longrightarrow> argv_safe lits ns"
  by (auto simp: argv_safe_def dest: names_not_flag)

lemma spec_args_safe: "spec_args sep specs = Inr args \<Longrightarrow> argv_safe lits args"
  by (induction specs arbitrary: args) (auto split: option.splits sum.splits if_splits simp: name_not_flag)

definition pkg_command :: "string list \<Rightarrow> command \<Rightarrow> bool" where
  "pkg_command lits c \<longleftrightarrow> argv_safe lits (cmd_args c)"

definition pkg_query :: "string list \<Rightarrow> command \<Rightarrow> bool" where
  "pkg_query lits c \<longleftrightarrow> pkg_command lits c \<and> \<not> cmd_escalate c"

lemma pkg_command_simps [simp]:
  "pkg_command lits (read_command name args) \<longleftrightarrow> argv_safe lits args"
  "pkg_query lits (read_command name args) \<longleftrightarrow> argv_safe lits args"
  "pkg_command lits (priv_command esc env stdin name args) \<longleftrightarrow> argv_safe lits args"
  by (simp_all add: pkg_command_def pkg_query_def read_command_def priv_command_def)

section \<open>Programs of a package manager\<close>

text \<open>A mutation never stops with an error outside its result.\<close>

definition returns :: "('s, 'a) prog \<Rightarrow> bool" where
  "returns m \<longleftrightarrow> (\<forall>E n s. \<exists>x n' s'. m E n s = (Inr x, n', s'))"

lemma returns_ret [simp]: "returns (ret x)"
  by (simp add: returns_def ret_def)

lemma returns_bnd: "returns m \<Longrightarrow> (\<And>x. returns (f x)) \<Longrightarrow> returns (bnd m f)"
  unfolding returns_def by (metis bnd_Inr)

lemma returns_handle: "(\<And>e. returns (h e)) \<Longrightarrow> returns (handle m h)"
  unfolding returns_def
proof (intro allI)
  fix E n s
  assume h: "\<And>e. \<forall>E n s. \<exists>x n' s'. h e E n s = (Inr x, n', s')"
  obtain r n1 s1 where m: "m E n s = (r, n1, s1)" by (metis prod_cases3)
  show "\<exists>x n' s'. handle m h E n s = (Inr x, n', s')"
    using m h by (cases r) (auto simp: handle_def)
qed

lemma returns_branch [intro]:
  "returns m \<Longrightarrow> returns m' \<Longrightarrow> returns (if b then m else m')"
  "returns m \<Longrightarrow> (\<And>x. returns (f x)) \<Longrightarrow> returns (case z of None \<Rightarrow> m | Some x \<Rightarrow> f x)"
  by (auto split: option.splits)

lemma issues_handle [issues_rules]:
  assumes "issues Q m" and "\<And>e. issues Q (h e)"
  shows "issues Q (handle m h)"
  unfolding issues_def
proof (intro allI impI)
  fix E n w r n' w'
  assume run: "handle m h E n w = (r, n', w')"
  consider (fin) "\<exists>r'. m E n w = (r', n', w')"
    | (err) e n1 w1 where "m E n w = (Inl e, n1, w1)" and "h e E n1 w1 = (r, n', w')"
    using run unfolding handle_run by blast
  then show "\<exists>ps. w' = w @ ps \<and> (\<forall>p\<in>set ps. \<exists>c. Q c \<and> spawn_of c p)"
  proof cases
    case fin
    then show ?thesis using assms(1) unfolding issues_def by blast
  next
    case err
    obtain ps where ps: "w1 = w @ ps" "\<forall>p\<in>set ps. \<exists>c. Q c \<and> spawn_of c p"
      using err(1) assms(1) unfolding issues_def by blast
    obtain qs where qs: "w' = w1 @ qs" "\<forall>p\<in>set qs. \<exists>c. Q c \<and> spawn_of c p"
      using err(2) assms(2) unfolding issues_def by blast
    show ?thesis using ps qs by (intro exI [of _ "ps @ qs"]) auto
  qed
qed

lemma issues_ret [issues_rules]: "issues Q (ret x)" "issues Q (throw e)" "issues Q (throw_exit nm res)"
  by (auto intro!: issues_readonly intro: readonly_basic simp: throw_exit_def)

lemma issues_check [issues_rules]: "issues Q (check v)"
  by (auto simp: check_def intro: issues_rules split: option.splits)

lemma issues_checked [issues_rules]:
  assumes "v = None \<Longrightarrow> issues Q (f ())"
  shows "issues Q (bnd (check v) f)"
proof (cases v)
  case None
  then have "bnd (check v) f = f ()" by (simp add: check_def bnd_def ret_def)
  then show ?thesis using assms None by simp
next
  case (Some e)
  then have "bnd (check v) f = throw e" by (simp add: check_def bnd_def throw_def)
  then show ?thesis by (simp add: issues_ret)
qed

lemma issues_guarded [issues_rules]: "(v = None \<Longrightarrow> issues Q m) \<Longrightarrow> issues Q (guarded v m)"
  by (auto simp: guarded_def intro: issues_rules split: option.splits)

lemma issues_write_result [issues_rules]: "issues Q m \<Longrightarrow> issues Q (write_result f m)"
  unfolding write_result_def by (intro issues_rules)

lemma issues_with_versions [issues_rules]:
  "(\<And>name. issues Q (f name)) \<Longrightarrow> issues Q (with_versions f names)"
  unfolding with_versions_def by (intro issues_rules)

lemma issues_version_or_empty [issues_rules]: "issues Q m \<Longrightarrow> issues Q (version_or_empty m)"
  unfolding version_or_empty_def by (intro issues_rules)

lemma issues_list [issues_rules]:
  "(z = [] \<Longrightarrow> issues Q m) \<Longrightarrow> (\<And>x xs. z = x # xs \<Longrightarrow> issues Q (f x xs)) \<Longrightarrow> issues Q (case z of [] \<Rightarrow> m | x # xs \<Rightarrow> f x xs)"
  by (auto split: list.splits)

lemma returns_guarded: "returns m \<Longrightarrow> returns (guarded v m)"
  by (auto simp: guarded_def split: option.splits)

lemma returns_write_result: "returns m \<Longrightarrow> returns (write_result f m)"
  unfolding write_result_def by (intro returns_bnd) (auto split: prod.splits option.splits)

context runner_iface
begin

lemma issues_runRead: "Q (read_command name args) \<Longrightarrow> issues Q (runRead run name args)"
  unfolding runRead_def by (intro issues_rules issues_run)

lemma issues_probe: "Q (read_command name args) \<Longrightarrow> issues Q (probe run name args)"
  unfolding probe_def by (intro issues_rules issues_runRead)

lemma issues_readOut: "Q (read_command name args) \<Longrightarrow> issues Q (readOut run name args)"
  unfolding readOut_def by (intro issues_rules issues_runRead)

lemma issues_runPriv: "Q (priv_command esc env None name args) \<Longrightarrow> issues Q (runPriv run esc env name args)"
  unfolding runPriv_def by (intro issues_run)

lemma returns_run: "returns (run c)"
  unfolding returns_def using run_total by (metis prod_cases3)

lemma returns_runPriv: "returns (runPriv run esc env name args)"
  unfolding runPriv_def by (rule returns_run)

lemma issues_rpmLocalPackageInfo:
  "set [''-qp'', ''--qf''] \<subseteq> set lits \<Longrightarrow> issues (pkg_query lits) (rpmLocalPackageInfo run path)"
  unfolding rpmLocalPackageInfo_def by (intro issues_rules issues_readOut) auto

end

section \<open>The contract of a backend\<close>

text \<open>What a client of a \<^verbatim>\<open>Manager\<close> relies on; \<^verbatim>\<open>Autoremove\<close> is not part of it.\<close>

locale pkg_manager =
  fixes mgr :: manager and lits :: "string list"
  assumes IsInstalled_query: "issues (pkg_query lits) (mgr_IsInstalled mgr name)"
    and InstalledVersion_query: "issues (pkg_query lits) (mgr_InstalledVersion mgr name)"
    and Version_query: "issues (pkg_query lits) (mgr_Version mgr)"
    and Search_query: "issues (pkg_query lits) (mgr_Search mgr q)"
    and List_query: "issues (pkg_query lits) (mgr_List mgr)"
    and ListUpgradable_query: "issues (pkg_query lits) (mgr_ListUpgradable mgr)"
    and ListVersions_query: "issues (pkg_query lits) (mgr_ListVersions mgr name)"
    and LocalPackageInfo_query: "issues (pkg_query lits) (mgr_LocalPackageInfo mgr path)"
    and InstalledCount_query: "issues (pkg_query lits) (mgr_InstalledCount mgr)"
    and HasUpdates_query: "issues (pkg_query lits) (mgr_HasUpdates mgr)"
    and HasSecurityUpdates_query: "issues (pkg_query lits) (mgr_HasSecurityUpdates mgr)"
    and IsPinned_query: "issues (pkg_query lits) (mgr_IsPinned mgr name)"
    and ListPinned_query: "issues (pkg_query lits) (mgr_ListPinned mgr)"
    and Install_safe: "issues (pkg_command lits) (mgr_Install mgr dg specs)"
    and InstallLocal_safe: "issues (pkg_command lits) (mgr_InstallLocal mgr path opts)"
    and Remove_safe: "issues (pkg_command lits) (mgr_Remove mgr purge names)"
    and Update_safe: "issues (pkg_command lits) (mgr_Update mgr)"
    and Upgrade_safe: "issues (pkg_command lits) (mgr_Upgrade mgr names)"
    and UpgradeAll_safe: "issues (pkg_command lits) (mgr_UpgradeAll mgr)"
    and UpgradeSecurity_safe: "issues (pkg_command lits) (mgr_UpgradeSecurity mgr)"
    and Pin_safe: "issues (pkg_command lits) (mgr_Pin mgr names)"
    and Unpin_safe: "issues (pkg_command lits) (mgr_Unpin mgr names)"
    and Install_returns: "returns (mgr_Install mgr dg specs)"
    and Remove_returns: "returns (mgr_Remove mgr purge names)"
    and Update_returns: "returns (mgr_Update mgr)"
    and UpgradeAll_returns: "returns (mgr_UpgradeAll mgr)"
    and IsInstalled_checks: "ValidatePackageName name = Some e \<Longrightarrow> mgr_IsInstalled mgr name = throw e"
    and Upgrade_empty: "mgr_Upgrade mgr [] = ret (zero_result, None)"
begin

lemma query_command: "issues (pkg_query lits) m \<Longrightarrow> issues (pkg_command lits) m"
  by (erule issues_mono) (simp add: pkg_query_def)

lemmas queries = Version_query Search_query List_query ListUpgradable_query ListVersions_query IsInstalled_query
  LocalPackageInfo_query InstalledVersion_query InstalledCount_query HasUpdates_query HasSecurityUpdates_query
  IsPinned_query ListPinned_query

lemmas mutations = Install_safe InstallLocal_safe Remove_safe Update_safe Upgrade_safe UpgradeAll_safe
  UpgradeSecurity_safe Pin_safe Unpin_safe

end

end
