(* ===== verification/Pkg_Apt.thy ===== *)
theory Pkg_Apt
  imports Pkg_Base
begin

text \<open>
  \<^verbatim>\<open>sdk/pkg/apt.go\<close>: the Debian backend, method by method, and its interpretation of the
  manager contract. \<open>isf\<close> and \<open>lp\<close> stand for \<^verbatim>\<open>os.Stat\<close> (a path that exists and is not a directory) and
  \<^verbatim>\<open>exec.LookPath\<close>.
\<close>

section \<open>Mutations\<close>

definition aptWriteEnv :: "string list" where
  "aptWriteEnv = [''DEBIAN_FRONTEND=noninteractive'']"

definition dpkgConfOptions :: "string list" where
  "dpkgConfOptions = [''-o'', ''Dpkg::Options::=--force-confdef'', ''-o'', ''Dpkg::Options::=--force-confold'']"

definition apt_write :: "runner \<Rightarrow> string \<Rightarrow> string list \<Rightarrow> write_op" where
  "apt_write r cmd args = (let cmd' = (if cmd = ''apt'' \<or> cmd = ''apt-get'' then ''apt-get'' else cmd) in
     write_result (asCommandError cmd') (runPriv r True aptWriteEnv cmd' args))"

definition apt_Install :: "runner \<Rightarrow> bool \<Rightarrow> install_spec list \<Rightarrow> write_op" where
  "apt_Install r allowDowngrade specs =
     (if specs = [] then ret (zero_result, None)
      else case spec_args ''='' specs of Inl e \<Rightarrow> ret (zero_result, Some e)
      | Inr args \<Rightarrow> apt_write r ''apt''
          ([''install'', ''-y''] @ (if allowDowngrade then [''--allow-downgrades''] else []) @ args))"

definition apt_InstallLocal :: "runner \<Rightarrow> string \<Rightarrow> install_local_options \<Rightarrow> write_op" where
  "apt_InstallLocal r path opts = guarded (ValidateLocalPackagePath path)
     (apt_write r ''apt'' ([''install'', ''-y''] @ dpkgConfOptions @
        (if ilo_AllowDowngrade opts then [''--allow-downgrades''] else []) @ [path]))"

definition apt_Remove :: "runner \<Rightarrow> bool \<Rightarrow> string list \<Rightarrow> write_op" where
  "apt_Remove r purge packages =
     (if packages = [] then ret (zero_result, None)
      else guarded (ValidatePackageNames packages)
        (apt_write r ''apt'' ([if purge then ''purge'' else ''remove'', ''-y''] @ packages)))"

definition apt_Update :: "runner \<Rightarrow> write_op" where
  "apt_Update r = apt_write r ''apt'' [''update'']"

definition apt_Upgrade :: "runner \<Rightarrow> string list \<Rightarrow> write_op" where
  "apt_Upgrade r packages =
     (if packages = [] then ret (zero_result, None)
      else guarded (ValidatePackageNames packages)
        (apt_write r ''apt'' ([''install'', ''-y'', ''--only-upgrade''] @ dpkgConfOptions @ packages)))"

definition apt_UpgradeAll :: "runner \<Rightarrow> write_op" where
  "apt_UpgradeAll r = apt_write r ''apt-get'' ([''upgrade'', ''-y''] @ dpkgConfOptions)"

definition unattendedUpgradeBinPaths :: "string list" where
  "unattendedUpgradeBinPaths = [''/usr/bin/unattended-upgrade'', ''/usr/sbin/unattended-upgrade'']"

definition resolveUnattendedUpgrade :: "(string \<Rightarrow> bool) \<Rightarrow> (string \<Rightarrow> string option) \<Rightarrow> go_error + string" where
  "resolveUnattendedUpgrade isf lp = (case List.find isf unattendedUpgradeBinPaths of
     Some p \<Rightarrow> Inr p
   | None \<Rightarrow> (case lp ''unattended-upgrade'' of
       Some p \<Rightarrow> Inr p
     | None \<Rightarrow> Inl (EDetail ErrBackendUnavailable
         (''unattended-upgrade not found '' @ [CHR 0xE2, CHR 0x80, CHR 0x94] @
            '' install the unattended-upgrades package for apt security-only upgrades''))))"

definition apt_UpgradeSecurity :: "(string \<Rightarrow> bool) \<Rightarrow> (string \<Rightarrow> string option) \<Rightarrow> runner \<Rightarrow> write_op" where
  "apt_UpgradeSecurity isf lp r = (case resolveUnattendedUpgrade isf lp of
     Inl e \<Rightarrow> ret (zero_result, Some e) | Inr bin \<Rightarrow> apt_write r bin [''-v''])"

definition apt_Pin :: "runner \<Rightarrow> string list \<Rightarrow> write_op" where
  "apt_Pin r packages =
     (if packages = [] then ret (zero_result, None)
      else guarded (ValidatePackageNames packages) (apt_write r ''apt-mark'' ([''hold''] @ packages)))"

definition apt_Unpin :: "runner \<Rightarrow> string list \<Rightarrow> write_op" where
  "apt_Unpin r packages =
     (if packages = [] then ret (zero_result, None)
      else guarded (ValidatePackageNames packages) (apt_write r ''apt-mark'' ([''unhold''] @ packages)))"

definition apt_Autoremove :: "runner \<Rightarrow> write_op" where
  "apt_Autoremove r = apt_write r ''apt'' [''autoremove'', ''-y'']"

section \<open>Queries\<close>

definition apt_Version :: "runner \<Rightarrow> string read_op" where
  "apt_Version r = bnd (readOut r ''apt-get'' [''--version'']) (\<lambda>out.
     ret (case Fields out of _ # v # _ \<Rightarrow> v | _ \<Rightarrow> ''''))"

definition apt_search_line :: "string \<Rightarrow> search_result list" where
  "apt_search_line line = (case SplitN2 line '' - '' of
     [a, b] \<Rightarrow> [\<lparr>sr_Name = TrimSpace a, sr_Version = '''', sr_Description = TrimSpace b, sr_Repository = ''''\<rparr>]
   | _ \<Rightarrow> [])"

definition apt_Search :: "runner \<Rightarrow> string \<Rightarrow> search_result list read_op" where
  "apt_Search r q = bnd (check (ValidateSearchQuery q)) (\<lambda>_.
     bnd (readOut r ''apt-cache'' [''search'', q]) (\<lambda>out. ret (concat (map apt_search_line (output_lines out)))))"

definition dpkg_list_format :: string where
  "dpkg_list_format = ''-f=${Package}'' @ tab # ''${Version}'' @ tab # ''${Architecture}'' @ tab # ''${Status}'' @
     tab # ''${Installed-Size}'' @ tab # ''${Description}'' @ [newline]"

definition apt_list_line :: "string \<Rightarrow> package list" where
  "apt_list_line line = (case Split line tab of
     name # version # arch # st # sz # rest \<Rightarrow>
       if \<not> Contains st ''installed'' then []
       else [\<lparr>pk_Name = name, pk_Version = version, pk_Architecture = arch,
         pk_Description = (case rest of [] \<Rightarrow> '''' | d # _ \<Rightarrow> d),
         pk_Status = PackageStatusInstalled, pk_Size = wrap64 (fst (ParseInt sz) * 1024), pk_Repository = ''''\<rparr>]
   | _ \<Rightarrow> [])"

definition apt_List :: "runner \<Rightarrow> package list read_op" where
  "apt_List r = bnd (readOut r ''dpkg-query'' [''-W'', dpkg_list_format]) (\<lambda>out.
     ret (concat (map apt_list_line (output_lines out))))"

text \<open>\<^verbatim>\<open>^Inst\s+(\S+)\s+\((\S+)\s+(\S+)\<close>: one or more blanks, then a run of non-blanks.\<close>

definition re_blanks :: "string \<Rightarrow> string option" where
  "re_blanks s = (case s of [] \<Rightarrow> None | c # _ \<Rightarrow> if re_space c then Some (dropWhile re_space s) else None)"

definition re_word :: "string \<Rightarrow> (string \<times> string) option" where
  "re_word s = (case takeWhile (\<lambda>c. \<not> re_space c) s of [] \<Rightarrow> None
     | w \<Rightarrow> Some (w, dropWhile (\<lambda>c. \<not> re_space c) s))"

definition aptSimulatedInstallRe :: "string \<Rightarrow> (string \<times> string \<times> string) option" where
  "aptSimulatedInstallRe line = Option.bind (CutPrefix line ''Inst'') (\<lambda>s1. Option.bind (re_blanks s1) (\<lambda>s2.
     Option.bind (re_word s2) (\<lambda>(m1, s3). Option.bind (re_blanks s3) (\<lambda>s4. Option.bind (CutPrefix s4 ''('') (\<lambda>s5.
     Option.bind (re_word s5) (\<lambda>(m2, s6). Option.bind (re_blanks s6) (\<lambda>s7.
     map_option (\<lambda>(m3, s8). (m1, m2, m3)) (re_word s7))))))))"

definition apt_upgrade_line :: "string \<Rightarrow> package_update list" where
  "apt_upgrade_line line = (case aptSimulatedInstallRe line of None \<Rightarrow> []
     | Some (m1, m2, m3) \<Rightarrow> [\<lparr>pu_Name = m1, pu_CurrentVersion = '''', pu_NewVersion = m2, pu_Architecture = '''',
         pu_Repository = m3\<rparr>])"

definition apt_ListUpgradable :: "runner \<Rightarrow> package_update list read_op" where
  "apt_ListUpgradable r = bnd (readOut r ''apt-get'' [''-s'', ''upgrade'']) (\<lambda>out.
     ret (concat (map apt_upgrade_line (output_lines out))))"

definition apt_IsInstalled :: "runner \<Rightarrow> string \<Rightarrow> bool read_op" where
  "apt_IsInstalled r name = bnd (check (ValidatePackageName name)) (\<lambda>_.
     bnd (runRead r ''dpkg'' [''-s'', name]) (\<lambda>res. ret (xr_exit res = 0)))"

definition apt_InstalledVersion :: "runner \<Rightarrow> string \<Rightarrow> string read_op" where
  "apt_InstalledVersion r name = bnd (check (ValidatePackageName name)) (\<lambda>_.
     bnd (probe r ''dpkg-query'' [''-W'', ''-f=${Version}'', name]) (\<lambda>(out, ok).
     if \<not> ok then throw (EWrap (''apt package '' @ name) ErrNotFound) else ret (TrimSpace out)))"

definition madison_line :: "string \<Rightarrow> (string \<times> string) list" where
  "madison_line line = (case Split line (CHR ''|'') of _ # v # repo # _ \<Rightarrow> [(TrimSpace v, TrimSpace repo)] | _ \<Rightarrow> [])"

definition apt_ListVersions :: "runner \<Rightarrow> string \<Rightarrow> version_info read_op" where
  "apt_ListVersions r name = bnd (check (ValidatePackageName name)) (\<lambda>_.
     bnd (readOut r ''apt-cache'' [''madison'', name]) (\<lambda>out.
     bnd (version_or_empty (apt_InstalledVersion r name)) (\<lambda>installed.
     ret \<lparr>vi_Name = name, vi_Versions = dedup_versions [] (concat (map madison_line (output_lines out))),
       vi_Installed = installed\<rparr>)))"

text \<open>The map of control fields: a later line of the same key overwrites an earlier one.\<close>

definition parseControlFields :: "string \<Rightarrow> string \<Rightarrow> string" where
  "parseControlFields out = foldl (\<lambda>m line. case Cut line '':'' of None \<Rightarrow> m
     | Some (key, v) \<Rightarrow> m(TrimSpace key := TrimSpace v)) (\<lambda>_. '''') (output_lines out)"

definition apt_LocalPackageInfo :: "runner \<Rightarrow> string \<Rightarrow> local_package read_op" where
  "apt_LocalPackageInfo r path = bnd (check (ValidateLocalPackagePath path)) (\<lambda>_.
     bnd (readOut r ''dpkg-deb'' [''-f'', path, ''Package'', ''Version'', ''Architecture'']) (\<lambda>out.
     let f = parseControlFields out; name = f ''Package'' in
     if name = '''' then throw (EText (''pkg: dpkg-deb reported no Package field for '' @ Quote path))
     else case ValidatePackageName name of
       Some e \<Rightarrow> throw (EWrap ''pkg: local .deb reports an unsafe package name'' e)
     | None \<Rightarrow> ret \<lparr>lp_Name = name, lp_Version = f ''Version'', lp_Arch = f ''Architecture''\<rparr>))"

definition apt_InstalledCount :: "runner \<Rightarrow> int read_op" where
  "apt_InstalledCount r = bnd (readOut r ''dpkg-query'' [''-f'', ''.'' @ [newline], ''-W'']) (\<lambda>out. ret (countNonEmptyLines out))"

definition apt_HasUpdates :: "runner \<Rightarrow> bool read_op" where
  "apt_HasUpdates r = bnd (readOut r ''apt-get'' [''-s'', ''upgrade'']) (\<lambda>out.
     ret (list_ex (\<lambda>line. HasPrefix line ''Inst '') (output_lines out)))"

definition apt_HasSecurityUpdates :: "(string \<Rightarrow> bool) \<Rightarrow> (string \<Rightarrow> string option) \<Rightarrow> runner \<Rightarrow> bool read_op" where
  "apt_HasSecurityUpdates isf lp r = (case resolveUnattendedUpgrade isf lp of Inl e \<Rightarrow> throw e
     | Inr bin \<Rightarrow> bnd (runRead r bin [''--dry-run'', ''--verbose'']) (\<lambda>res.
         if xr_exit res \<noteq> 0 then throw_exit bin res
         else ret (Contains (xr_stdout res) ''Packages that will be upgraded'' \<or>
           Contains (xr_stdout res) ''The following packages will be upgraded'')))"

definition apt_IsPinned :: "runner \<Rightarrow> string \<Rightarrow> bool read_op" where
  "apt_IsPinned r name = bnd (check (ValidatePackageName name)) (\<lambda>_.
     bnd (readOut r ''apt-mark'' [''showhold'', name]) (\<lambda>out. ret (TrimSpace out = name)))"

definition apt_ListPinned :: "runner \<Rightarrow> package list read_op" where
  "apt_ListPinned r = bnd (readOut r ''apt-mark'' [''showhold'']) (\<lambda>out.
     with_versions (apt_InstalledVersion r) (filter (\<lambda>n. n \<noteq> '''') (map TrimSpace (output_lines out))))"

section \<open>The manager\<close>

definition apt_manager :: "(string \<Rightarrow> bool) \<Rightarrow> (string \<Rightarrow> string option) \<Rightarrow> runner \<Rightarrow> manager" where
  "apt_manager isf lp r = \<lparr>mgr_Backend = Apt, mgr_Version = apt_Version r, mgr_Search = apt_Search r,
     mgr_List = apt_List r, mgr_ListUpgradable = apt_ListUpgradable r, mgr_ListVersions = apt_ListVersions r,
     mgr_IsInstalled = apt_IsInstalled r, mgr_LocalPackageInfo = apt_LocalPackageInfo r,
     mgr_InstalledVersion = apt_InstalledVersion r, mgr_InstalledCount = apt_InstalledCount r,
     mgr_HasUpdates = apt_HasUpdates r, mgr_HasSecurityUpdates = apt_HasSecurityUpdates isf lp r,
     mgr_IsPinned = apt_IsPinned r, mgr_ListPinned = apt_ListPinned r, mgr_Install = apt_Install r,
     mgr_InstallLocal = apt_InstallLocal r, mgr_Remove = apt_Remove r, mgr_Update = apt_Update r,
     mgr_Upgrade = apt_Upgrade r, mgr_UpgradeAll = apt_UpgradeAll r,
     mgr_UpgradeSecurity = apt_UpgradeSecurity isf lp r, mgr_Pin = apt_Pin r, mgr_Unpin = apt_Unpin r,
     mgr_Autoremove = apt_Autoremove r\<rparr>"

definition apt_lits :: "string list" where
  "apt_lits = [''-y'', ''--allow-downgrades'', ''-o'', ''--only-upgrade'', ''-v'', ''--version'', ''-W'', dpkg_list_format,
     ''-s'', ''-f=${Version}'', ''-f'', ''--dry-run'', ''--verbose'']"

lemma apt_lits_set: "set apt_lits = {''-y'', ''--allow-downgrades'', ''-o'', ''--only-upgrade'', ''-v'', ''--version'', ''-W'',
     dpkg_list_format, ''-s'', ''-f=${Version}'', ''-f'', ''--dry-run'', ''--verbose''}"
  by (simp add: apt_lits_def)

lemma dpkgConfOptions_safe [simp]: "argv_safe apt_lits dpkgConfOptions"
  by (simp add: dpkgConfOptions_def apt_lits_def)

context runner_iface
begin

lemma apt_write_issues: "argv_safe apt_lits args \<Longrightarrow> issues (pkg_command apt_lits) (apt_write run cmd args)"
  unfolding apt_write_def by (intro issues_rules issues_runPriv) simp

lemma apt_write_returns: "returns (apt_write run cmd args)"
  unfolding apt_write_def Let_def by (intro returns_write_result returns_runPriv)

lemma apt_mutations:
  "issues (pkg_command apt_lits) (apt_Install run dg specs)"
  "issues (pkg_command apt_lits) (apt_InstallLocal run path opts)"
  "issues (pkg_command apt_lits) (apt_Remove run purge names)"
  "issues (pkg_command apt_lits) (apt_Update run)"
  "issues (pkg_command apt_lits) (apt_Upgrade run names)"
  "issues (pkg_command apt_lits) (apt_UpgradeAll run)"
  "issues (pkg_command apt_lits) (apt_UpgradeSecurity isf lp run)"
  "issues (pkg_command apt_lits) (apt_Pin run names)"
  "issues (pkg_command apt_lits) (apt_Unpin run names)"
  "issues (pkg_command apt_lits) (apt_Autoremove run)"
  unfolding apt_Install_def apt_InstallLocal_def apt_Remove_def apt_Update_def apt_Upgrade_def apt_UpgradeAll_def
    apt_UpgradeSecurity_def apt_Pin_def apt_Unpin_def apt_Autoremove_def
  by (intro issues_rules apt_write_issues; simp add: apt_lits_set spec_args_safe)+

lemma apt_returns:
  "returns (apt_Install run dg specs)"
  "returns (apt_Remove run purge names)"
  "returns (apt_Update run)"
  "returns (apt_UpgradeAll run)"
  unfolding apt_Install_def apt_Remove_def apt_Update_def apt_UpgradeAll_def
  by (auto intro: apt_write_returns returns_guarded split: sum.splits)

lemma apt_queries:
  "issues (pkg_query apt_lits) (apt_Version run)"
  "issues (pkg_query apt_lits) (apt_Search run q)"
  "issues (pkg_query apt_lits) (apt_List run)"
  "issues (pkg_query apt_lits) (apt_ListUpgradable run)"
  "issues (pkg_query apt_lits) (apt_IsInstalled run name)"
  "issues (pkg_query apt_lits) (apt_InstalledVersion run name)"
  "issues (pkg_query apt_lits) (apt_LocalPackageInfo run path)"
  "issues (pkg_query apt_lits) (apt_InstalledCount run)"
  "issues (pkg_query apt_lits) (apt_HasUpdates run)"
  "issues (pkg_query apt_lits) (apt_HasSecurityUpdates isf lp run)"
  "issues (pkg_query apt_lits) (apt_IsPinned run name)"
  unfolding apt_Version_def apt_Search_def apt_List_def apt_ListUpgradable_def apt_IsInstalled_def
    apt_InstalledVersion_def apt_LocalPackageInfo_def apt_InstalledCount_def apt_HasUpdates_def
    apt_HasSecurityUpdates_def apt_IsPinned_def
  by (intro issues_rules issues_readOut issues_runRead issues_probe; simp add: apt_lits_set)+

lemma apt_versions:
  "issues (pkg_query apt_lits) (apt_ListVersions run name)"
  "issues (pkg_query apt_lits) (apt_ListPinned run)"
  unfolding apt_ListVersions_def apt_ListPinned_def
  by (intro issues_rules issues_readOut apt_queries; simp add: apt_lits_set)+

end

lemma apt_Upgrade_empty: "apt_Upgrade r [] = ret (zero_result, None)"
  by (simp add: apt_Upgrade_def)

interpretation apt: pkg_manager "apt_manager isf lp (runner_run M b ctx)" apt_lits
proof
  fix name e
  assume "ValidatePackageName name = Some e"
  then show "mgr_IsInstalled (apt_manager isf lp (runner_run M b ctx)) name = throw e"
    by (simp add: apt_manager_def apt_IsInstalled_def check_def bnd_def throw_def)
qed (simp_all add: apt_manager_def os_runner.apt_mutations os_runner.apt_returns os_runner.apt_queries os_runner.apt_versions apt_Upgrade_empty)

end
