(* ===== verification/Pkg_Pacman.thy ===== *)
theory Pkg_Pacman
  imports Pkg_Base
begin

text \<open>
  \<^verbatim>\<open>sdk/pkg/pacman.go\<close>: the Arch backend. Holding a package back is an edit of
  \<^verbatim>\<open>/etc/pacman.conf\<close>: \<open>getIgnoredPackages\<close> reads the \<^verbatim>\<open>IgnorePkg\<close> lines and
  \<open>buildIgnorePkgConf\<close> writes them. The lemmas at the end show when the two are inverse to each
  other. \<^verbatim>\<open>Autoremove\<close> passes the names pacman printed on without validating them, so the
  manager contract is interpreted for the other methods.
\<close>

section \<open>Mutations\<close>

definition validPacmanPkgName :: "string \<Rightarrow> bool" where
  "validPacmanPkgName s = (case s of [] \<Rightarrow> False
     | c # cs \<Rightarrow> is_alnum c \<and> list_all (\<lambda>d. is_alnum d \<or> d \<in> set ''._+-'') cs)"

definition pacman_write :: "runner \<Rightarrow> string list \<Rightarrow> write_op" where
  "pacman_write r args = write_result (asCommandError ''pacman'') (runPriv r True [] ''pacman'' args)"

definition pacman_Install :: "runner \<Rightarrow> bool \<Rightarrow> install_spec list \<Rightarrow> write_op" where
  "pacman_Install r allowDowngrade specs =
     (if specs = [] then ret (zero_result, None)
      else case spec_args ''='' specs of Inl e \<Rightarrow> ret (zero_result, Some e)
      | Inr args \<Rightarrow> pacman_write r ([''-S'', ''--noconfirm'', ''--needed''] @ args))"

definition pacman_InstallLocal :: "runner \<Rightarrow> string \<Rightarrow> install_local_options \<Rightarrow> write_op" where
  "pacman_InstallLocal r path opts = guarded (ValidateLocalPackagePath path) (pacman_write r [''-U'', ''--noconfirm'', path])"

definition pacman_Remove :: "runner \<Rightarrow> bool \<Rightarrow> string list \<Rightarrow> write_op" where
  "pacman_Remove r purge packages =
     (if packages = [] then ret (zero_result, None)
      else guarded (ValidatePackageNames packages)
        (pacman_write r ([if purge then ''-Rns'' else ''-R'', ''--noconfirm''] @ packages)))"

definition pacman_Update :: "runner \<Rightarrow> write_op" where
  "pacman_Update r = ret (zero_result, Some (EWrap ''pacman metadata refresh'' ErrUnsupported))"

definition pacman_Upgrade :: "runner \<Rightarrow> string list \<Rightarrow> write_op" where
  "pacman_Upgrade r packages =
     (if packages = [] then ret (zero_result, None)
      else guarded (ValidatePackageNames packages) (pacman_write r ([''-S'', ''--noconfirm''] @ packages)))"

definition pacman_UpgradeAll :: "runner \<Rightarrow> write_op" where
  "pacman_UpgradeAll r = pacman_write r [''-Syu'', ''--noconfirm'']"

definition pacman_UpgradeSecurity :: "runner \<Rightarrow> write_op" where
  "pacman_UpgradeSecurity r = ret (zero_result, Some (EWrap ''pacman security upgrades'' ErrUnsupported))"

text \<open>The error of the query for orphans is returned in the result, as Go does.\<close>

definition pacman_orphans :: "string \<Rightarrow> string list" where
  "pacman_orphans out = filter (\<lambda>n. n \<noteq> '''') (map TrimSpace (output_lines out))"

definition pacman_Autoremove :: "runner \<Rightarrow> write_op" where
  "pacman_Autoremove r = bnd (r (read_command ''pacman'' [''-Qtdq''])) (\<lambda>(res, err). case err of
     Some e \<Rightarrow> ret (zero_result, Some e)
   | None \<Rightarrow>
       if xr_exit res = 1 then ret (zero_result, None)
       else if xr_exit res \<noteq> 0 then ret (res, asCommandError ''pacman'' res)
       else (let orphans = pacman_orphans (xr_stdout res) in
         if orphans = [] then ret (zero_result, None)
         else pacman_write r ([''-Rns'', ''--noconfirm''] @ orphans)))"

section \<open>Queries\<close>

definition pacman_version_of :: "string list \<Rightarrow> string" where
  "pacman_version_of ls =
     (case List.find (\<lambda>f. HasPrefix f ''v'') (concat (map Fields (filter (\<lambda>l. Contains l ''Pacman v'') ls))) of
        None \<Rightarrow> '''' | Some f \<Rightarrow> TrimPrefix f ''v'')"

definition pacman_Version :: "runner \<Rightarrow> string read_op" where
  "pacman_Version r = bnd (readOut r ''pacman'' [''--version'']) (\<lambda>out. ret (pacman_version_of (output_lines out)))"

text \<open>The search loop: a heading line names the package, the indented line after it describes it.\<close>

fun pacman_search_lines :: "search_result option \<Rightarrow> string list \<Rightarrow> search_result list" where
  "pacman_search_lines current [] = []"
| "pacman_search_lines current (line # ls) =
     (if HasPrefix line '' '' then
        (case current of
           Some cur \<Rightarrow> cur\<lparr>sr_Description := TrimSpace line\<rparr> # pacman_search_lines None ls
         | None \<Rightarrow> pacman_search_lines None ls)
      else if line = '''' then pacman_search_lines current ls
      else (case Fields line of
          f0 # f1 # _ \<Rightarrow>
            (let parts = Split f0 (CHR ''/'') in
             pacman_search_lines (Some \<lparr>sr_Name = last parts, sr_Version = f1, sr_Description = '''',
               sr_Repository = (if length parts > 1 then hd parts else '''')\<rparr>) ls)
        | _ \<Rightarrow> pacman_search_lines current ls))"

definition pacman_Search :: "runner \<Rightarrow> string \<Rightarrow> search_result list read_op" where
  "pacman_Search r q = bnd (check (ValidateSearchQuery q)) (\<lambda>_.
     bnd (runRead r ''pacman'' [''-Ss'', q]) (\<lambda>res.
     if xr_exit res = 1 then ret []
     else if xr_exit res \<noteq> 0 then throw_exit ''pacman'' res
     else ret (pacman_search_lines None (output_lines (xr_stdout res)))))"

definition pacman_list_line :: "string \<Rightarrow> package list" where
  "pacman_list_line line = (case Fields line of f0 # f1 # _ \<Rightarrow> [installed_package f0 f1] | _ \<Rightarrow> [])"

definition pacman_List :: "runner \<Rightarrow> package list read_op" where
  "pacman_List r = bnd (readOut r ''pacman'' [''-Q'']) (\<lambda>out. ret (concat (map pacman_list_line (output_lines out))))"

definition pacman_IsInstalled :: "runner \<Rightarrow> string \<Rightarrow> bool read_op" where
  "pacman_IsInstalled r name = bnd (check (ValidatePackageName name)) (\<lambda>_.
     bnd (runRead r ''pacman'' [''-Q'', name]) (\<lambda>res. ret (xr_exit res = 0)))"

definition pacman_InstalledVersion :: "runner \<Rightarrow> string \<Rightarrow> string read_op" where
  "pacman_InstalledVersion r name = bnd (check (ValidatePackageName name)) (\<lambda>_.
     bnd (runRead r ''pacman'' [''-Q'', name]) (\<lambda>res.
     if xr_exit res \<noteq> 0 then throw (EWrap (''pacman package '' @ name) ErrNotFound)
     else ret (case Fields (xr_stdout res) of _ # v # _ \<Rightarrow> v | _ \<Rightarrow> '''')))"

definition pacman_update_line :: "runner \<Rightarrow> string \<Rightarrow> package_update list read_op" where
  "pacman_update_line r line = (let fs = Fields line in
     if length fs \<ge> 4 \<and> fs ! 2 = ''->'' then
       ret [\<lparr>pu_Name = fs ! 0, pu_CurrentVersion = fs ! 1, pu_NewVersion = fs ! 3, pu_Architecture = '''', pu_Repository = ''''\<rparr>]
     else if length fs \<ge> 2 then
       bnd (pacman_InstalledVersion r (fs ! 0)) (\<lambda>cur.
         ret [\<lparr>pu_Name = fs ! 0, pu_CurrentVersion = cur, pu_NewVersion = fs ! 1, pu_Architecture = '''', pu_Repository = ''''\<rparr>])
     else ret [])"

definition pacman_ListUpgradable :: "runner \<Rightarrow> package_update list read_op" where
  "pacman_ListUpgradable r = bnd (runRead r ''pacman'' [''-Qu'']) (\<lambda>res.
     if xr_exit res = 1 then ret []
     else if xr_exit res \<noteq> 0 then throw_exit ''pacman'' res
     else bnd (map_prog (pacman_update_line r) (output_lines (xr_stdout res))) (\<lambda>us. ret (concat us)))"

text \<open>The last \<^verbatim>\<open>key : value\<close> line of a key wins, as the loop assigns on every match.\<close>

definition last_value :: "string \<Rightarrow> string list \<Rightarrow> string" where
  "last_value key ls = foldl (\<lambda>v line. if HasPrefix line key then parseColonValue line else v) '''' ls"

definition pacman_ListVersions :: "runner \<Rightarrow> string \<Rightarrow> version_info read_op" where
  "pacman_ListVersions r name = bnd (check (ValidatePackageName name)) (\<lambda>_.
     bnd (version_or_empty (pacman_InstalledVersion r name)) (\<lambda>installed.
     bnd (probe r ''pacman'' [''-Si'', name]) (\<lambda>(out, ok).
     let version = last_value ''Version'' (output_lines out); repo = last_value ''Repository'' (output_lines out) in
     ret \<lparr>vi_Name = name,
       vi_Versions = (if ok \<and> version \<noteq> '''' then [\<lparr>av_Version = version, av_Repository = repo, av_Size = 0\<rparr>] else []),
       vi_Installed = installed\<rparr>)))"

definition pacman_LocalPackageInfo :: "runner \<Rightarrow> string \<Rightarrow> local_package read_op" where
  "pacman_LocalPackageInfo r path = bnd (check (ValidateLocalPackagePath path)) (\<lambda>_.
     bnd (readOut r ''pacman'' [''-Qp'', path]) (\<lambda>out.
     let line = TrimRight (\<lambda>c. c = CHR 0x0D \<or> c = newline) out in
     if TrimSpace line = '''' \<or> HasPrefix line '' '' \<or> HasPrefix line [tab]
     then throw (EText (''pkg: pacman -Qp reported no name for '' @ Quote path))
     else (case Fields line of
         [] \<Rightarrow> throw (EText ''index out of range'')
       | name # fs \<Rightarrow>
         (case ValidatePackageName name of
            Some e \<Rightarrow> throw (EWrap ''pkg: local package reports an unsafe name'' e)
          | None \<Rightarrow> ret \<lparr>lp_Name = name, lp_Version = (case fs of [] \<Rightarrow> '''' | v # _ \<Rightarrow> v), lp_Arch = ''''\<rparr>))))"

definition pacman_InstalledCount :: "runner \<Rightarrow> int read_op" where
  "pacman_InstalledCount r = bnd (readOut r ''pacman'' [''-Qq'']) (\<lambda>out. ret (countNonEmptyLines out))"

definition pacman_HasUpdates :: "runner \<Rightarrow> bool read_op" where
  "pacman_HasUpdates r = bnd (runRead r ''pacman'' [''-Qu'']) (\<lambda>res.
     if xr_exit res = 1 then ret False
     else if xr_exit res \<noteq> 0 then throw_exit ''pacman'' res
     else ret (TrimSpace (xr_stdout res) \<noteq> ''''))"

definition pacman_HasSecurityUpdates :: "runner \<Rightarrow> bool read_op" where
  "pacman_HasSecurityUpdates r = throw (EWrap ''pacman security updates'' ErrUnsupported)"

section \<open>Pinning\<close>

definition is_ignore_line :: "string \<Rightarrow> bool" where
  "is_ignore_line line \<longleftrightarrow> HasPrefix (TrimSpace line) ''IgnorePkg''"

definition ignored_of_line :: "string \<Rightarrow> string list" where
  "ignored_of_line line =
     (if \<not> is_ignore_line line then []
      else case SplitN2 (TrimSpace line) ''='' of [a, b] \<Rightarrow> Fields (TrimSpace b) | _ \<Rightarrow> [])"

definition getIgnoredPackages :: "string \<Rightarrow> string list" where
  "getIgnoredPackages conf = concat (map ignored_of_line (output_lines conf))"

definition ignore_line :: "string list \<Rightarrow> string" where
  "ignore_line ignored = ''IgnorePkg = '' @ Join ignored '' ''"

text \<open>The loop over the lines: whether a line was found, and the text written so far.\<close>

fun ignore_loop :: "string list \<Rightarrow> bool \<Rightarrow> string list \<Rightarrow> bool \<times> string" where
  "ignore_loop ignored found [] = (found, '''')"
| "ignore_loop ignored found (line # ls) =
     (if is_ignore_line line then
        (case ignore_loop ignored True ls of (f, b) \<Rightarrow>
           (f, (if \<not> found \<and> ignored \<noteq> [] then ignore_line ignored @ [newline] else []) @ b))
      else (case ignore_loop ignored found ls of (f, b) \<Rightarrow> (f, line @ [newline] @ b)))"

text \<open>\<^verbatim>\<open>strings.Index(content, "[options]")\<close> and the end of that line: the text up to and including the
  newline, and the rest.\<close>

definition split_options :: "string \<Rightarrow> (string \<times> string) option" where
  "split_options content = (case Cut content ''[options]'' of None \<Rightarrow> None
     | Some (a, b) \<Rightarrow> (case Cut (''[options]'' @ b) [newline] of None \<Rightarrow> None
        | Some (h, t) \<Rightarrow> Some (a @ h @ [newline], t)))"

definition buildIgnorePkgConf :: "string \<Rightarrow> string list \<Rightarrow> string" where
  "buildIgnorePkgConf conf ignored = (case ignore_loop ignored False (output_lines conf) of (found, content) \<Rightarrow>
     if \<not> found \<and> ignored \<noteq> [] then
       (case split_options content of None \<Rightarrow> content
        | Some (h, t) \<Rightarrow> h @ ignore_line ignored @ [newline] @ t)
     else content)"

definition readConf :: "runner \<Rightarrow> string read_op" where
  "readConf r = map_err (EWrap ''failed to read pacman.conf'') (readOut r ''cat'' [''/etc/pacman.conf''])"

definition writeIgnorePkg :: "runner \<Rightarrow> string \<Rightarrow> string list \<Rightarrow> (world, go_error option) prog" where
  "writeIgnorePkg r conf ignored =
     bnd (runPrivStdin r True [] (buildIgnorePkgConf conf ignored) ''tee'' [''/etc/pacman.conf'']) (\<lambda>(res, err).
       ret (case err of Some e \<Rightarrow> Some e | None \<Rightarrow> asCommandError ''tee'' res))"

text \<open>An error of \<^verbatim>\<open>readConf\<close> is returned beside the zero result.\<close>

definition with_conf :: "runner \<Rightarrow> (string \<Rightarrow> write_op) \<Rightarrow> write_op" where
  "with_conf r f = handle (bnd (readConf r) f) (\<lambda>e. ret (zero_result, Some e))"

fun add_missing :: "string list \<Rightarrow> string list \<Rightarrow> string list" where
  "add_missing ignored [] = ignored"
| "add_missing ignored (name # names) = add_missing (if name \<in> set ignored then ignored else ignored @ [name]) names"

definition pacman_names_error :: "string list \<Rightarrow> go_error option" where
  "pacman_names_error packages = (case ValidatePackageNames packages of Some e \<Rightarrow> Some e
     | None \<Rightarrow> (case List.find (\<lambda>n. \<not> validPacmanPkgName n) packages of None \<Rightarrow> None
        | Some n \<Rightarrow> Some (EDetail ErrInvalidArgument (''invalid package name '' @ Quote n @
            '': must match [a-zA-Z0-9][a-zA-Z0-9._+-]*''))))"

definition pacman_Pin :: "runner \<Rightarrow> string list \<Rightarrow> write_op" where
  "pacman_Pin r packages =
     (if packages = [] then ret (zero_result, None)
      else guarded (pacman_names_error packages)
        (with_conf r (\<lambda>conf. bnd (writeIgnorePkg r conf (add_missing (getIgnoredPackages conf) packages))
          (\<lambda>err. ret (zero_result, err)))))"

definition pacman_Unpin :: "runner \<Rightarrow> string list \<Rightarrow> write_op" where
  "pacman_Unpin r packages =
     (if packages = [] then ret (zero_result, None)
      else guarded (ValidatePackageNames packages)
        (with_conf r (\<lambda>conf. bnd (writeIgnorePkg r conf (filter (\<lambda>n. n \<notin> set packages) (getIgnoredPackages conf)))
          (\<lambda>err. ret (zero_result, err)))))"

definition pacman_ListPinned :: "runner \<Rightarrow> package list read_op" where
  "pacman_ListPinned r = bnd (readConf r) (\<lambda>conf. with_versions (pacman_InstalledVersion r) (getIgnoredPackages conf))"

definition pacman_IsPinned :: "runner \<Rightarrow> string \<Rightarrow> bool read_op" where
  "pacman_IsPinned r name = bnd (check (ValidatePackageName name)) (\<lambda>_.
     bnd (readConf r) (\<lambda>conf. ret (name \<in> set (getIgnoredPackages conf))))"

section \<open>The manager\<close>

definition pacman_manager :: "runner \<Rightarrow> manager" where
  "pacman_manager r = \<lparr>mgr_Backend = Pacman, mgr_Version = pacman_Version r, mgr_Search = pacman_Search r,
     mgr_List = pacman_List r, mgr_ListUpgradable = pacman_ListUpgradable r, mgr_ListVersions = pacman_ListVersions r,
     mgr_IsInstalled = pacman_IsInstalled r, mgr_LocalPackageInfo = pacman_LocalPackageInfo r,
     mgr_InstalledVersion = pacman_InstalledVersion r, mgr_InstalledCount = pacman_InstalledCount r,
     mgr_HasUpdates = pacman_HasUpdates r, mgr_HasSecurityUpdates = pacman_HasSecurityUpdates r,
     mgr_IsPinned = pacman_IsPinned r, mgr_ListPinned = pacman_ListPinned r, mgr_Install = pacman_Install r,
     mgr_InstallLocal = pacman_InstallLocal r, mgr_Remove = pacman_Remove r, mgr_Update = pacman_Update r,
     mgr_Upgrade = pacman_Upgrade r, mgr_UpgradeAll = pacman_UpgradeAll r,
     mgr_UpgradeSecurity = pacman_UpgradeSecurity r, mgr_Pin = pacman_Pin r, mgr_Unpin = pacman_Unpin r,
     mgr_Autoremove = pacman_Autoremove r\<rparr>"

definition pacman_lits :: "string list" where
  "pacman_lits = [''-S'', ''--noconfirm'', ''--needed'', ''-U'', ''-R'', ''-Rns'', ''-Syu'', ''-Qtdq'', ''--version'', ''-Ss'',
     ''-Q'', ''-Qu'', ''-Si'', ''-Qp'', ''-Qq'']"

lemma pacman_lits_set: "set pacman_lits = {''-S'', ''--noconfirm'', ''--needed'', ''-U'', ''-R'', ''-Rns'', ''-Syu'', ''-Qtdq'',
     ''--version'', ''-Ss'', ''-Q'', ''-Qu'', ''-Si'', ''-Qp'', ''-Qq''}"
  by (simp add: pacman_lits_def)

lemma issues_map_err [issues_rules]: "issues Q m \<Longrightarrow> issues Q (map_err f m)"
  unfolding map_err_def by (intro issues_rules)

lemma pacman_names_ok: "pacman_names_error ns = None \<Longrightarrow> ValidatePackageNames ns = None \<and> list_all validPacmanPkgName ns"
  by (auto simp: pacman_names_error_def list_all_iff find_None_iff split: option.splits)

context runner_iface
begin

lemma pacman_write_issues: "argv_safe pacman_lits args \<Longrightarrow> issues (pkg_command pacman_lits) (pacman_write run args)"
  unfolding pacman_write_def by (intro issues_rules issues_runPriv) simp

lemma pacman_write_returns: "returns (pacman_write run args)"
  unfolding pacman_write_def by (intro returns_write_result returns_runPriv)

lemma readConf_issues: "issues (pkg_query pacman_lits) (readConf run)"
  unfolding readConf_def by (intro issues_rules issues_readOut) simp

lemma writeIgnorePkg_issues: "issues (pkg_command pacman_lits) (writeIgnorePkg run conf ign)"
  unfolding writeIgnorePkg_def runPrivStdin_def by (intro issues_rules issues_run) simp

lemma with_conf_issues:
  "(\<And>conf. issues (pkg_command pacman_lits) (f conf)) \<Longrightarrow> issues (pkg_command pacman_lits) (with_conf run f)"
  unfolding with_conf_def
  by (intro issues_rules issues_mono [OF readConf_issues]) (simp_all add: pkg_query_def)

lemma pacman_mutations:
  "issues (pkg_command pacman_lits) (pacman_Install run dg specs)"
  "issues (pkg_command pacman_lits) (pacman_InstallLocal run path opts)"
  "issues (pkg_command pacman_lits) (pacman_Remove run purge names)"
  "issues (pkg_command pacman_lits) (pacman_Update run)"
  "issues (pkg_command pacman_lits) (pacman_Upgrade run names)"
  "issues (pkg_command pacman_lits) (pacman_UpgradeAll run)"
  "issues (pkg_command pacman_lits) (pacman_UpgradeSecurity run)"
  "issues (pkg_command pacman_lits) (pacman_Pin run names)"
  "issues (pkg_command pacman_lits) (pacman_Unpin run names)"
  unfolding pacman_Install_def pacman_InstallLocal_def pacman_Remove_def pacman_Update_def pacman_Upgrade_def
    pacman_UpgradeAll_def pacman_UpgradeSecurity_def pacman_Pin_def pacman_Unpin_def
  by (intro issues_rules pacman_write_issues with_conf_issues writeIgnorePkg_issues;
      simp add: pacman_lits_set spec_args_safe)+

lemma pacman_returns:
  "returns (pacman_Install run dg specs)"
  "returns (pacman_Remove run purge names)"
  "returns (pacman_Update run)"
  "returns (pacman_UpgradeAll run)"
  unfolding pacman_Install_def pacman_Remove_def pacman_Update_def pacman_UpgradeAll_def
  by (auto intro: pacman_write_returns returns_guarded split: sum.splits)

lemma pacman_queries:
  "issues (pkg_query pacman_lits) (pacman_Version run)"
  "issues (pkg_query pacman_lits) (pacman_Search run q)"
  "issues (pkg_query pacman_lits) (pacman_List run)"
  "issues (pkg_query pacman_lits) (pacman_IsInstalled run name)"
  "issues (pkg_query pacman_lits) (pacman_InstalledVersion run name)"
  "issues (pkg_query pacman_lits) (pacman_LocalPackageInfo run path)"
  "issues (pkg_query pacman_lits) (pacman_InstalledCount run)"
  "issues (pkg_query pacman_lits) (pacman_HasUpdates run)"
  "issues (pkg_query pacman_lits) (pacman_HasSecurityUpdates run)"
  "issues (pkg_query pacman_lits) (pacman_IsPinned run name)"
  unfolding pacman_Version_def pacman_Search_def pacman_List_def pacman_IsInstalled_def pacman_InstalledVersion_def
    pacman_LocalPackageInfo_def pacman_InstalledCount_def pacman_HasUpdates_def pacman_HasSecurityUpdates_def pacman_IsPinned_def
  by (intro issues_rules issues_readOut issues_runRead issues_probe readConf_issues; simp add: pacman_lits_set)+

lemma pacman_versions:
  "issues (pkg_query pacman_lits) (pacman_ListUpgradable run)"
  "issues (pkg_query pacman_lits) (pacman_ListVersions run name)"
  "issues (pkg_query pacman_lits) (pacman_ListPinned run)"
  unfolding pacman_ListUpgradable_def pacman_update_line_def pacman_ListVersions_def pacman_ListPinned_def
  by (intro issues_rules issues_runRead issues_probe pacman_queries readConf_issues; simp add: pacman_lits_set)+

end

lemma pacman_Upgrade_empty: "pacman_Upgrade r [] = ret (zero_result, None)"
  by (simp add: pacman_Upgrade_def)

interpretation pacman: pkg_manager "pacman_manager (runner_run M b ctx)" pacman_lits
proof
  fix name e
  assume "ValidatePackageName name = Some e"
  then show "mgr_IsInstalled (pacman_manager (runner_run M b ctx)) name = throw e"
    by (simp add: pacman_manager_def pacman_IsInstalled_def check_def bnd_def throw_def)
qed (simp_all add: pacman_manager_def os_runner.pacman_mutations os_runner.pacman_returns os_runner.pacman_queries os_runner.pacman_versions
    pacman_Upgrade_empty)

section \<open>Reading back what was written\<close>

text \<open>The lines the loop writes.\<close>

fun ignore_lines :: "string list \<Rightarrow> bool \<Rightarrow> string list \<Rightarrow> string list" where
  "ignore_lines ign found [] = []"
| "ignore_lines ign found (line # ls) =
     (if is_ignore_line line
      then (if \<not> found \<and> ign \<noteq> [] then [ignore_line ign] else []) @ ignore_lines ign True ls
      else line # ignore_lines ign found ls)"

lemma ignore_loop_lines:
  "ignore_loop ign found ls = (found \<or> list_ex is_ignore_line ls, unlines (ignore_lines ign found ls))"
  by (induction ls arbitrary: found) auto

lemma word_no_newline: "word w \<Longrightarrow> newline \<notin> set w"
  by (auto simp: word_def is_space_def newline_def)

lemma Join_no_newline: "\<forall>w\<in>set ws. word w \<Longrightarrow> newline \<notin> set (Join ws '' '')"
  by (induction ws rule: induct_list012) (auto simp: word_def is_space_def newline_def)

lemma ignore_line_no_newline: "\<forall>w\<in>set ws. word w \<Longrightarrow> newline \<notin> set (ignore_line ws)"
  using Join_no_newline by (simp add: ignore_line_def newline_def)

lemma ignore_lines_no_newline:
  "\<forall>w\<in>set ign. word w \<Longrightarrow> \<forall>l\<in>set ls. newline \<notin> set l \<Longrightarrow> \<forall>l\<in>set (ignore_lines ign found ls). newline \<notin> set l"
  by (induction ls arbitrary: found) (auto simp: ignore_line_no_newline)

lemma Join_ends: "\<forall>w\<in>set ws. word w \<Longrightarrow> ws \<noteq> [] \<Longrightarrow>
    Join ws '' '' \<noteq> [] \<and> \<not> is_space (hd (Join ws '' '')) \<and> \<not> is_space (last (Join ws '' ''))"
  by (induction ws rule: induct_list012) (auto simp: word_def last_append hd_append)

lemma TrimSpace_space: "TrimSpace (CHR '' '' # s) = TrimSpace s"
  by (simp add: TrimSpace_def TrimLeft_def is_space_def)

lemma ignored_of_written: "\<forall>w\<in>set ws. word w \<Longrightarrow> ws \<noteq> [] \<Longrightarrow> ignored_of_line (ignore_line ws) = ws"
proof -
  assume w: "\<forall>w\<in>set ws. word w" and ne: "ws \<noteq> []"
  have j: "Join ws '' '' \<noteq> []" "\<not> is_space (hd (Join ws '' ''))" "\<not> is_space (last (Join ws '' ''))"
    using Join_ends [OF w ne] by auto
  have t: "TrimSpace (ignore_line ws) = ignore_line ws"
    using j by (intro TrimSpace_id) (auto simp: ignore_line_def is_space_def)
  have c: "Cut (ignore_line ws) ''='' = Some (''IgnorePkg '', '' '' @ Join ws '' '')"
    using Cut_char [of "CHR ''=''" "''IgnorePkg ''" "'' '' @ Join ws '' ''"] by (simp add: ignore_line_def)
  have "TrimSpace (Join ws '' '') = Join ws '' ''" using j by (intro TrimSpace_id) auto
  then show ?thesis
    using t c Fields_Join [OF w] TrimSpace_space [of "Join ws '' ''"]
    by (simp add: ignored_of_line_def is_ignore_line_def SplitN2_def HasPrefix_def ignore_line_def)
qed

lemma ignored_none: "\<not> is_ignore_line l \<Longrightarrow> ignored_of_line l = []"
  by (simp add: ignored_of_line_def)

lemma ignore_lines_ignored:
  "\<forall>w\<in>set ign. word w \<Longrightarrow> concat (map ignored_of_line (ignore_lines ign found ls)) =
    (if \<not> found \<and> list_ex is_ignore_line ls then ign else [])"
proof (induction ls arbitrary: found)
  case (Cons l ls)
  show ?case using Cons.IH [OF Cons.prems] Cons.prems
    by (cases "is_ignore_line l"; cases found; cases "ign = []") (simp_all add: ignored_none ignored_of_written del: concat_eq_Nil_conv)
qed simp

lemma empty_line [simp]: "ignored_of_line [] = []"
  by (simp add: ignored_of_line_def is_ignore_line_def HasPrefix_def)

lemma getIgnored_unlines:
  "\<forall>l\<in>set ls. newline \<notin> set l \<Longrightarrow> getIgnoredPackages (unlines ls) = concat (map ignored_of_line ls)"
  by (simp add: getIgnoredPackages_def output_lines_def Split_unlines)

lemma getIgnored_app: "getIgnoredPackages (a @ newline # b) = getIgnoredPackages a @ getIgnoredPackages b"
  by (simp add: getIgnoredPackages_def output_lines_def Split_app)

lemma split_options_Some:
  "split_options content = Some (h, t) \<Longrightarrow> \<exists>h'. h = h' @ [newline] \<and> content = h' @ newline # t"
proof -
  assume "split_options content = Some (h, t)"
  then obtain a b h2 where ab: "Cut content ''[options]'' = Some (a, b)"
    and ht: "Cut (''[options]'' @ b) [newline] = Some (h2, t)" and h: "h = a @ h2 @ [newline]"
    by (auto simp: split_options_def split: option.splits)
  show ?thesis using Cut_Some [OF ab] Cut_Some [OF ht] h by (intro exI [of _ "a @ h2"]) simp
qed

lemma lines_no_newline: "l \<in> set (output_lines conf) \<Longrightarrow> newline \<notin> set l"
  unfolding output_lines_def by (rule Split_parts)

text \<open>What \<^verbatim>\<open>Pin\<close> writes is what \<^verbatim>\<open>ListPinned\<close> reads, where there is a line to write it on.\<close>

definition pinnable :: "string \<Rightarrow> bool" where
  "pinnable conf \<longleftrightarrow> list_ex is_ignore_line (output_lines conf) \<or> split_options (unlines (output_lines conf)) \<noteq> None"

lemma ignore_lines_id: "\<not> list_ex is_ignore_line ls \<Longrightarrow> ignore_lines ign found ls = ls"
  by (induction ls) auto

lemma build_roundtrip:
  assumes w: "\<forall>w\<in>set ign. word w" and p: "pinnable conf \<or> ign = []"
  shows "getIgnoredPackages (buildIgnorePkgConf conf ign) = ign"
proof (cases "list_ex is_ignore_line (output_lines conf) \<or> ign = []")
  case True
  then have "buildIgnorePkgConf conf ign = unlines (ignore_lines ign False (output_lines conf))"
    by (auto simp: buildIgnorePkgConf_def ignore_loop_lines)
  then show ?thesis
    using ignore_lines_no_newline [OF w, of "output_lines conf" False] ignore_lines_ignored [OF w, of False] lines_no_newline True
    by (auto simp: getIgnored_unlines)
next
  case False
  then have lines: "ignore_lines ign False (output_lines conf) = output_lines conf"
    by (simp add: ignore_lines_id)
  obtain h t where s: "split_options (unlines (output_lines conf)) = Some (h, t)"
    using p False by (auto simp: pinnable_def)
  then obtain h' where h: "h = h' @ [newline]" and c: "unlines (output_lines conf) = h' @ newline # t"
    using split_options_Some by blast
  have "getIgnoredPackages (unlines (output_lines conf)) = []"
    using ignore_lines_ignored [OF w, of False "output_lines conf"] lines_no_newline False
    by (auto simp: getIgnored_unlines lines)
  then have none: "getIgnoredPackages h' = []" "getIgnoredPackages t = []"
    unfolding c getIgnored_app by auto
  have "getIgnoredPackages (ignore_line ign) = ign"
    using w False ignore_line_no_newline [OF w]
    by (simp add: getIgnoredPackages_def output_lines_def Split_none ignored_of_written)
  then have "getIgnoredPackages (h' @ newline # (ignore_line ign @ newline # t)) = ign"
    by (simp add: getIgnored_app none)
  then show ?thesis
    using s h False by (simp add: buildIgnorePkgConf_def ignore_loop_lines lines)
qed

text \<open>Without such a line nothing is written.\<close>

lemma build_lost:
  assumes "\<not> pinnable conf"
  shows "getIgnoredPackages (buildIgnorePkgConf conf ign) = []"
proof -
  have n: "\<not> list_ex is_ignore_line (output_lines conf)" and s: "split_options (unlines (output_lines conf)) = None"
    using assms unfolding pinnable_def by blast+
  have "buildIgnorePkgConf conf ign = unlines (output_lines conf)"
    using n s by (auto simp: buildIgnorePkgConf_def ignore_loop_lines ignore_lines_id)
  then show ?thesis
    using n lines_no_newline by (auto simp: getIgnored_unlines list_ex_iff ignored_none)
qed

lemma getIgnored_words: "w \<in> set (getIgnoredPackages conf) \<Longrightarrow> word w"
  by (auto simp: getIgnoredPackages_def ignored_of_line_def SplitN2_def split: option.splits if_splits dest: Fields_words)

lemma alnum_not_space: "is_alnum c \<or> c \<in> set ''._+-'' \<Longrightarrow> \<not> is_space c"
  by (auto simp: is_alnum_def is_lower_def is_upper_def is_digit_def is_space_def)

lemma pacman_name_word: "validPacmanPkgName s \<Longrightarrow> word s"
  using alnum_not_space by (fastforce simp: validPacmanPkgName_def word_def list_all_iff split: list.splits)

lemma add_missing_set: "set (add_missing ign names) = set ign \<union> set names"
  by (induction names arbitrary: ign) auto

lemma add_missing_distinct: "distinct ign \<Longrightarrow> distinct (add_missing ign names)"
  by (induction names arbitrary: ign) auto

end
