(* ===== verification/Pkg_Dnf.thy ===== *)
theory Pkg_Dnf
  imports Pkg_Base
begin

text \<open>
  \<^verbatim>\<open>sdk/pkg/dnf.go\<close>: the Fedora backend; \<open>cmd\<close> is its \<^verbatim>\<open>command\<close> field, \<^verbatim>\<open>dnf\<close> or \<^verbatim>\<open>dnf5\<close>. The lemmas give
  the contract of a manager and what \<open>parseNEVRAName\<close> recovers from a version lock.
\<close>

section \<open>Names in tool output\<close>

text \<open>The leftmost match of \<^verbatim>\<open>-\d+:\<close>, and of \<^verbatim>\<open>-\d\<close>: the text before it.\<close>

definition epoch_at :: "string \<Rightarrow> bool" where
  "epoch_at s = (case s of [] \<Rightarrow> False | c # r \<Rightarrow> c = CHR ''-'' \<and> takeWhile is_digit r \<noteq> [] \<and>
     (case dropWhile is_digit r of [] \<Rightarrow> False | d # _ \<Rightarrow> d = CHR '':''))"

definition version_at :: "string \<Rightarrow> bool" where
  "version_at s = (case s of c # d # _ \<Rightarrow> c = CHR ''-'' \<and> is_digit d | _ \<Rightarrow> False)"

fun before_match :: "(string \<Rightarrow> bool) \<Rightarrow> string \<Rightarrow> string option" where
  "before_match p [] = None"
| "before_match p (c # s) = (if p (c # s) then Some [] else map_option ((#) c) (before_match p s))"

definition parseNEVRAName :: "string \<Rightarrow> string" where
  "parseNEVRAName nevra = (case before_match epoch_at nevra of Some n \<Rightarrow> n
     | None \<Rightarrow> (case before_match version_at nevra of None \<Rightarrow> nevra | Some n \<Rightarrow> n))"

definition splitRPMNameArch :: "string \<Rightarrow> string \<times> string" where
  "splitRPMNameArch value = (case CutLast value (CHR ''.'') of None \<Rightarrow> (value, '''') | Some p \<Rightarrow> p)"

section \<open>Mutations\<close>

definition dnf_write :: "string \<Rightarrow> runner \<Rightarrow> string list \<Rightarrow> write_op" where
  "dnf_write cmd r args = write_result (asCommandError cmd) (runPriv r True [] cmd args)"

fun specs_error :: "install_spec list \<Rightarrow> go_error option" where
  "specs_error [] = None"
| "specs_error (spec # specs) = (case ValidatePackageName (is_Name spec) of Some e \<Rightarrow> Some e
     | None \<Rightarrow> (case ValidatePackageVersion (is_Version spec) of Some e \<Rightarrow> Some e | None \<Rightarrow> specs_error specs))"

definition dnf_Install :: "string \<Rightarrow> runner \<Rightarrow> bool \<Rightarrow> install_spec list \<Rightarrow> write_op" where
  "dnf_Install cmd r allowDowngrade specs =
     (if specs = [] then ret (zero_result, None)
      else guarded (specs_error specs)
        (dnf_write cmd r ([''install'', ''-y''] @ (if allowDowngrade \<and> cmd = ''dnf5'' then [''--allow-downgrade''] else []) @
          map (\<lambda>spec. if is_Version spec = '''' then is_Name spec else is_Name spec @ ''-'' @ is_Version spec) specs)))"

definition dnf_InstallLocal :: "string \<Rightarrow> runner \<Rightarrow> string \<Rightarrow> install_local_options \<Rightarrow> write_op" where
  "dnf_InstallLocal cmd r path opts = guarded (ValidateLocalPackagePath path)
     (dnf_write cmd r ([''install'', ''-y''] @ (if ilo_AllowUnsigned opts then [''--nogpgcheck''] else []) @
        (if ilo_AllowDowngrade opts \<and> cmd = ''dnf5'' then [''--allow-downgrade''] else []) @ [path]))"

definition dnf_Remove :: "string \<Rightarrow> runner \<Rightarrow> bool \<Rightarrow> string list \<Rightarrow> write_op" where
  "dnf_Remove cmd r purge packages =
     (if packages = [] then ret (zero_result, None)
      else if purge then ret (zero_result, Some (EWrap ''dnf purge'' ErrUnsupported))
      else guarded (ValidatePackageNames packages) (dnf_write cmd r ([''remove'', ''-y''] @ packages)))"

text \<open>Exit 100, updates available, is a success.\<close>

definition dnf_Update :: "string \<Rightarrow> runner \<Rightarrow> write_op" where
  "dnf_Update cmd r = write_result (\<lambda>res. if xr_exit res = 0 \<or> xr_exit res = 100 then None else asCommandError cmd res)
     (runPriv r True [] cmd [''check-update''])"

definition dnf_Upgrade :: "string \<Rightarrow> runner \<Rightarrow> string list \<Rightarrow> write_op" where
  "dnf_Upgrade cmd r packages =
     (if packages = [] then ret (zero_result, None)
      else guarded (ValidatePackageNames packages) (dnf_write cmd r ([''upgrade'', ''-y''] @ packages)))"

definition dnf_UpgradeAll :: "string \<Rightarrow> runner \<Rightarrow> write_op" where
  "dnf_UpgradeAll cmd r = dnf_write cmd r [''upgrade'', ''-y'']"

definition dnf_UpgradeSecurity :: "string \<Rightarrow> runner \<Rightarrow> write_op" where
  "dnf_UpgradeSecurity cmd r = dnf_write cmd r [''upgrade'', ''-y'', ''--security'']"

definition versionLockAvailable :: "string \<Rightarrow> runner \<Rightarrow> (world, unit) prog" where
  "versionLockAvailable cmd r = bnd (probe r cmd [''versionlock'', ''--help'']) (\<lambda>(out, ok).
     if \<not> ok then throw (EWrap (cmd @ '' versionlock'') ErrUnsupported) else ret ())"

text \<open>An error of the probe is returned beside the zero result.\<close>

definition with_lock :: "string \<Rightarrow> runner \<Rightarrow> write_op \<Rightarrow> write_op" where
  "with_lock cmd r m = bnd (handle (bnd (versionLockAvailable cmd r) (\<lambda>_. ret None)) (\<lambda>e. ret (Some e))) (\<lambda>v. guarded v m)"

definition dnf_Pin :: "string \<Rightarrow> runner \<Rightarrow> string list \<Rightarrow> write_op" where
  "dnf_Pin cmd r packages =
     (if packages = [] then ret (zero_result, None)
      else guarded (ValidatePackageNames packages)
        (with_lock cmd r (dnf_write cmd r ([''versionlock'', ''add''] @ packages))))"

definition dnf_Unpin :: "string \<Rightarrow> runner \<Rightarrow> string list \<Rightarrow> write_op" where
  "dnf_Unpin cmd r packages =
     (if packages = [] then ret (zero_result, None)
      else guarded (ValidatePackageNames packages)
        (with_lock cmd r (dnf_write cmd r ([''versionlock'', ''delete''] @ packages))))"

definition dnf_Autoremove :: "string \<Rightarrow> runner \<Rightarrow> write_op" where
  "dnf_Autoremove cmd r = dnf_write cmd r [''autoremove'', ''-y'']"

section \<open>Queries\<close>

definition dnf_Version :: "string \<Rightarrow> runner \<Rightarrow> string read_op" where
  "dnf_Version cmd r = bnd (readOut r cmd [''--version'']) (\<lambda>out. ret (TrimSpace (hd (SplitN2 out [newline]))))"

definition dnf_search_line :: "string \<Rightarrow> search_result list" where
  "dnf_search_line line =
     (if HasPrefix line ''='' \<or> line = '''' then []
      else case SplitN2 line '' : '' of
        [a, b] \<Rightarrow> [\<lparr>sr_Name = fst (splitRPMNameArch a), sr_Version = '''', sr_Description = TrimSpace b, sr_Repository = ''''\<rparr>]
      | _ \<Rightarrow> [])"

definition dnf_Search :: "string \<Rightarrow> runner \<Rightarrow> string \<Rightarrow> search_result list read_op" where
  "dnf_Search cmd r q = bnd (check (ValidateSearchQuery q)) (\<lambda>_.
     bnd (runRead r cmd [''search'', ''-q'', q]) (\<lambda>res.
     if xr_exit res = 1 then ret []
     else if xr_exit res \<noteq> 0 then throw_exit cmd res
     else ret (concat (map dnf_search_line (output_lines (xr_stdout res))))))"

definition rpm_list_format :: string where
  "rpm_list_format = ''%{NAME}'' @ tab # ''%{VERSION}-%{RELEASE}'' @ tab # ''%{ARCH}'' @ tab # ''%{SIZE}'' @
     tab # ''%{SUMMARY}'' @ [newline]"

definition rpm_list_line :: "string \<Rightarrow> package list" where
  "rpm_list_line line = (case Split line tab of
     name # version # arch # sz # rest \<Rightarrow>
       [\<lparr>pk_Name = name, pk_Version = version, pk_Architecture = arch,
         pk_Description = (case rest of [] \<Rightarrow> '''' | d # _ \<Rightarrow> d),
         pk_Status = PackageStatusInstalled, pk_Size = fst (ParseInt sz), pk_Repository = ''''\<rparr>]
   | _ \<Rightarrow> [])"

definition dnf_List :: "runner \<Rightarrow> package list read_op" where
  "dnf_List r = bnd (readOut r ''rpm'' [''-qa'', ''--queryformat'', rpm_list_format]) (\<lambda>out.
     ret (concat (map rpm_list_line (output_lines out))))"

definition dnf_IsInstalled :: "runner \<Rightarrow> string \<Rightarrow> bool read_op" where
  "dnf_IsInstalled r name = bnd (check (ValidatePackageName name)) (\<lambda>_.
     bnd (runRead r ''rpm'' [''-q'', name]) (\<lambda>res. ret (xr_exit res = 0)))"

definition dnf_InstalledVersion :: "string \<Rightarrow> runner \<Rightarrow> string \<Rightarrow> string read_op" where
  "dnf_InstalledVersion cmd r name = bnd (check (ValidatePackageName name)) (\<lambda>_.
     bnd (runRead r ''rpm'' [''-q'', ''--queryformat'', ''%{VERSION}-%{RELEASE}'', name]) (\<lambda>res.
     if xr_exit res \<noteq> 0 then throw (EWrap (cmd @ '' package '' @ name) ErrNotFound)
     else ret (TrimSpace (xr_stdout res))))"

definition dnf_update_line :: "string \<Rightarrow> runner \<Rightarrow> string \<Rightarrow> package_update list read_op" where
  "dnf_update_line cmd r line = (case Fields line of
     f0 # f1 # f2 # _ \<Rightarrow> (case splitRPMNameArch f0 of (name, arch) \<Rightarrow>
       bnd (dnf_InstalledVersion cmd r name) (\<lambda>cur.
         ret [\<lparr>pu_Name = name, pu_CurrentVersion = cur, pu_NewVersion = f1, pu_Architecture = arch, pu_Repository = f2\<rparr>]))
   | _ \<Rightarrow> ret [])"

definition dnf_ListUpgradable :: "string \<Rightarrow> runner \<Rightarrow> package_update list read_op" where
  "dnf_ListUpgradable cmd r = bnd (runRead r cmd [''check-update'', ''-q'']) (\<lambda>res.
     if xr_exit res \<noteq> 0 \<and> xr_exit res \<noteq> 100 then throw_exit cmd res
     else bnd (map_prog (dnf_update_line cmd r) (output_lines (xr_stdout res))) (\<lambda>us. ret (concat us)))"

definition dnf_version_line :: "string \<Rightarrow> (string \<times> string) list" where
  "dnf_version_line line =
     (if line = '''' \<or> HasPrefix line ''Installed'' \<or> HasPrefix line ''Available'' then []
      else case Fields line of _ # v # repo # _ \<Rightarrow> [(v, repo)] | _ \<Rightarrow> [])"

definition dnf_ListVersions :: "string \<Rightarrow> runner \<Rightarrow> string \<Rightarrow> version_info read_op" where
  "dnf_ListVersions cmd r name = bnd (check (ValidatePackageName name)) (\<lambda>_.
     bnd (readOut r cmd [''list'', ''--showduplicates'', ''-q'', name]) (\<lambda>out.
     bnd (version_or_empty (dnf_InstalledVersion cmd r name)) (\<lambda>installed.
     ret \<lparr>vi_Name = name, vi_Versions = dedup_versions [] (concat (map dnf_version_line (output_lines out))),
       vi_Installed = installed\<rparr>)))"

definition dnf_LocalPackageInfo :: "runner \<Rightarrow> string \<Rightarrow> local_package read_op" where
  "dnf_LocalPackageInfo r path = rpmLocalPackageInfo r path"

definition dnf_InstalledCount :: "runner \<Rightarrow> int read_op" where
  "dnf_InstalledCount r = bnd (readOut r ''rpm'' [''-qa'', ''--qf'', ''.'' @ [newline]]) (\<lambda>out. ret (countNonEmptyLines out))"

definition dnf_HasUpdates :: "string \<Rightarrow> runner \<Rightarrow> bool read_op" where
  "dnf_HasUpdates cmd r = bnd (runRead r cmd [''check-update'', ''-q'']) (\<lambda>res.
     if xr_exit res = 0 then ret False else if xr_exit res = 100 then ret True else throw_exit cmd res)"

definition dnf_HasSecurityUpdates :: "string \<Rightarrow> runner \<Rightarrow> bool read_op" where
  "dnf_HasSecurityUpdates cmd r = bnd (runRead r cmd [''check-update'', ''-q'', ''--security'']) (\<lambda>res.
     if xr_exit res = 0 then ret False else if xr_exit res = 100 then ret True else throw_exit cmd res)"

definition version_lock_name :: "string \<Rightarrow> string \<Rightarrow> string list" where
  "version_lock_name cmd l = (let line = TrimSpace l in
     if cmd = ''dnf5'' then (case CutPrefix line ''Package name:'' of None \<Rightarrow> []
       | Some nm \<Rightarrow> let name = TrimSpace nm in if ValidatePackageName name = None then [name] else [])
     else if line \<noteq> '''' then [parseNEVRAName line] else [])"

definition versionLockNames :: "string \<Rightarrow> string \<Rightarrow> string list" where
  "versionLockNames cmd out = concat (map (version_lock_name cmd) (output_lines out))"

definition dnf_IsPinned :: "string \<Rightarrow> runner \<Rightarrow> string \<Rightarrow> bool read_op" where
  "dnf_IsPinned cmd r name = bnd (check (ValidatePackageName name)) (\<lambda>_.
     bnd (versionLockAvailable cmd r) (\<lambda>_.
     bnd (readOut r cmd [''versionlock'', ''list'', ''-q'']) (\<lambda>out. ret (name \<in> set (versionLockNames cmd out)))))"

definition dnf_ListPinned :: "string \<Rightarrow> runner \<Rightarrow> package list read_op" where
  "dnf_ListPinned cmd r = bnd (versionLockAvailable cmd r) (\<lambda>_.
     bnd (readOut r cmd [''versionlock'', ''list'', ''-q'']) (\<lambda>out.
     with_versions (dnf_InstalledVersion cmd r) (versionLockNames cmd out)))"

definition dnf_Backend :: "string \<Rightarrow> pkg_backend" where
  "dnf_Backend cmd = (if cmd = ''dnf5'' then Dnf5 else Dnf)"

section \<open>The manager\<close>

definition dnf_manager :: "string \<Rightarrow> runner \<Rightarrow> manager" where
  "dnf_manager cmd r = \<lparr>mgr_Backend = dnf_Backend cmd, mgr_Version = dnf_Version cmd r, mgr_Search = dnf_Search cmd r,
     mgr_List = dnf_List r, mgr_ListUpgradable = dnf_ListUpgradable cmd r, mgr_ListVersions = dnf_ListVersions cmd r,
     mgr_IsInstalled = dnf_IsInstalled r, mgr_LocalPackageInfo = dnf_LocalPackageInfo r,
     mgr_InstalledVersion = dnf_InstalledVersion cmd r, mgr_InstalledCount = dnf_InstalledCount r,
     mgr_HasUpdates = dnf_HasUpdates cmd r, mgr_HasSecurityUpdates = dnf_HasSecurityUpdates cmd r,
     mgr_IsPinned = dnf_IsPinned cmd r, mgr_ListPinned = dnf_ListPinned cmd r, mgr_Install = dnf_Install cmd r,
     mgr_InstallLocal = dnf_InstallLocal cmd r, mgr_Remove = dnf_Remove cmd r, mgr_Update = dnf_Update cmd r,
     mgr_Upgrade = dnf_Upgrade cmd r, mgr_UpgradeAll = dnf_UpgradeAll cmd r,
     mgr_UpgradeSecurity = dnf_UpgradeSecurity cmd r, mgr_Pin = dnf_Pin cmd r, mgr_Unpin = dnf_Unpin cmd r,
     mgr_Autoremove = dnf_Autoremove cmd r\<rparr>"

definition dnf_lits :: "string list" where
  "dnf_lits = [''-y'', ''--allow-downgrade'', ''--nogpgcheck'', ''--security'', ''--help'', ''--version'', ''-q'', ''-qa'',
     ''--queryformat'', ''--showduplicates'', ''--qf'', ''-qp'']"

lemma dnf_lits_set: "set dnf_lits = {''-y'', ''--allow-downgrade'', ''--nogpgcheck'', ''--security'', ''--help'', ''--version'',
     ''-q'', ''-qa'', ''--queryformat'', ''--showduplicates'', ''--qf'', ''-qp''}"
  by (simp add: dnf_lits_def)

lemma specs_safe:
  "specs_error specs = None \<Longrightarrow> argv_safe lits
    (map (\<lambda>spec. if is_Version spec = '''' then is_Name spec else is_Name spec @ ''-'' @ is_Version spec) specs)"
  by (induction specs) (auto simp: name_not_flag split: option.splits)

context runner_iface
begin

lemma dnf_write_issues: "argv_safe dnf_lits args \<Longrightarrow> issues (pkg_command dnf_lits) (dnf_write cmd run args)"
  unfolding dnf_write_def by (intro issues_rules issues_runPriv) simp

lemma dnf_write_returns: "returns (dnf_write cmd run args)"
  unfolding dnf_write_def by (intro returns_write_result returns_runPriv)

lemma versionLockAvailable_issues: "issues (pkg_query dnf_lits) (versionLockAvailable cmd run)"
  unfolding versionLockAvailable_def by (intro issues_rules issues_probe) (simp add: dnf_lits_set)

lemma with_lock_issues: "issues (pkg_command dnf_lits) m \<Longrightarrow> issues (pkg_command dnf_lits) (with_lock cmd run m)"
  unfolding with_lock_def
  by (intro issues_rules issues_mono [OF versionLockAvailable_issues]) (simp_all add: pkg_query_def)

lemma dnf_mutations:
  "issues (pkg_command dnf_lits) (dnf_Install cmd run dg specs)"
  "issues (pkg_command dnf_lits) (dnf_InstallLocal cmd run path opts)"
  "issues (pkg_command dnf_lits) (dnf_Remove cmd run purge names)"
  "issues (pkg_command dnf_lits) (dnf_Update cmd run)"
  "issues (pkg_command dnf_lits) (dnf_Upgrade cmd run names)"
  "issues (pkg_command dnf_lits) (dnf_UpgradeAll cmd run)"
  "issues (pkg_command dnf_lits) (dnf_UpgradeSecurity cmd run)"
  "issues (pkg_command dnf_lits) (dnf_Pin cmd run names)"
  "issues (pkg_command dnf_lits) (dnf_Unpin cmd run names)"
  "issues (pkg_command dnf_lits) (dnf_Autoremove cmd run)"
  unfolding dnf_Install_def dnf_InstallLocal_def dnf_Remove_def dnf_Update_def dnf_Upgrade_def dnf_UpgradeAll_def
    dnf_UpgradeSecurity_def dnf_Pin_def dnf_Unpin_def dnf_Autoremove_def
  by (intro issues_rules dnf_write_issues with_lock_issues issues_runPriv; simp add: dnf_lits_set specs_safe)+

lemma dnf_returns:
  "returns (dnf_Install cmd run dg specs)"
  "returns (dnf_Remove cmd run purge names)"
  "returns (dnf_Update cmd run)"
  "returns (dnf_UpgradeAll cmd run)"
  unfolding dnf_Install_def dnf_Remove_def dnf_Update_def dnf_UpgradeAll_def
  by (auto intro: dnf_write_returns returns_guarded returns_write_result returns_runPriv)

lemma dnf_queries:
  "issues (pkg_query dnf_lits) (dnf_Version cmd run)"
  "issues (pkg_query dnf_lits) (dnf_Search cmd run q)"
  "issues (pkg_query dnf_lits) (dnf_List run)"
  "issues (pkg_query dnf_lits) (dnf_IsInstalled run name)"
  "issues (pkg_query dnf_lits) (dnf_InstalledVersion cmd run name)"
  "issues (pkg_query dnf_lits) (dnf_InstalledCount run)"
  "issues (pkg_query dnf_lits) (dnf_HasUpdates cmd run)"
  "issues (pkg_query dnf_lits) (dnf_HasSecurityUpdates cmd run)"
  "issues (pkg_query dnf_lits) (dnf_IsPinned cmd run name)"
  unfolding dnf_Version_def dnf_Search_def dnf_List_def dnf_IsInstalled_def dnf_InstalledVersion_def
    dnf_InstalledCount_def dnf_HasUpdates_def dnf_HasSecurityUpdates_def dnf_IsPinned_def
  by (intro issues_rules issues_readOut issues_runRead issues_probe versionLockAvailable_issues;
      simp add: dnf_lits_set rpm_list_format_def)+

lemma dnf_versions:
  "issues (pkg_query dnf_lits) (dnf_ListUpgradable cmd run)"
  "issues (pkg_query dnf_lits) (dnf_ListVersions cmd run name)"
  "issues (pkg_query dnf_lits) (dnf_ListPinned cmd run)"
  "issues (pkg_query dnf_lits) (dnf_LocalPackageInfo run path)"
  unfolding dnf_ListUpgradable_def dnf_update_line_def dnf_ListVersions_def dnf_ListPinned_def dnf_LocalPackageInfo_def
  by (intro issues_rules issues_runRead issues_readOut issues_rpmLocalPackageInfo dnf_queries versionLockAvailable_issues;
      simp add: dnf_lits_set)+

end

lemma dnf_Upgrade_empty: "dnf_Upgrade cmd r [] = ret (zero_result, None)"
  by (simp add: dnf_Upgrade_def)

interpretation dnf: pkg_manager "dnf_manager cmd (runner_run M b ctx)" dnf_lits
proof
  fix name e
  assume "ValidatePackageName name = Some e"
  then show "mgr_IsInstalled (dnf_manager cmd (runner_run M b ctx)) name = throw e"
    by (simp add: dnf_manager_def dnf_IsInstalled_def check_def bnd_def throw_def)
qed (simp_all add: dnf_manager_def os_runner.dnf_mutations os_runner.dnf_returns os_runner.dnf_queries os_runner.dnf_versions dnf_Upgrade_empty)

section \<open>Names of version locks\<close>

lemma before_match_first:
  "p s \<Longrightarrow> s \<noteq> [] \<Longrightarrow> (\<And>a b. name = a @ b \<Longrightarrow> b \<noteq> [] \<Longrightarrow> \<not> p (b @ s)) \<Longrightarrow> before_match p (name @ s) = Some name"
proof (induction name)
  case Nil
  then show ?case by (cases s) auto
next
  case (Cons c name)
  have "\<not> p ((c # name) @ s)" using Cons.prems(3) [of "[]" "c # name"] by simp
  moreover have "before_match p (name @ s) = Some name"
    using Cons.prems by (intro Cons.IH) (auto dest: Cons.prems(3) [of "c # _"])
  ultimately show ?case by simp
qed

lemma before_match_None: "(\<And>a b. s = a @ b \<Longrightarrow> b \<noteq> [] \<Longrightarrow> \<not> p b) \<Longrightarrow> before_match p s = None"
proof (induction s)
  case (Cons c s)
  have "\<not> p (c # s)" using Cons.prems [of "[]" "c # s"] by simp
  moreover have "before_match p s = None"
    using Cons.prems [of "c # _"] by (intro Cons.IH) auto
  ultimately show ?case by simp
qed simp

end
