(* ===== verification/Pkg_Zypper.thy ===== *)
theory Pkg_Zypper
  imports Pkg_Dnf
begin

text \<open>
  \<^verbatim>\<open>sdk/pkg/zypper.go\<close>: the SUSE backend. It reads installed packages through rpm with the same format
  as the Fedora backend. Zypper's tables have a header that ends with a rule line; the loops of the
  code skip everything up to it.
\<close>

section \<open>Mutations\<close>

definition isZypperInfoExit :: "int \<Rightarrow> bool" where
  "isZypperInfoExit code \<longleftrightarrow> code = 0 \<or> (code \<ge> 100 \<and> code \<le> 103)"

definition zypper_write :: "runner \<Rightarrow> string list \<Rightarrow> write_op" where
  "zypper_write r args = write_result (\<lambda>res. if isZypperInfoExit (xr_exit res) then None else asCommandError ''zypper'' res)
     (runPriv r True [] ''zypper'' args)"

definition zypper_Install :: "runner \<Rightarrow> bool \<Rightarrow> install_spec list \<Rightarrow> write_op" where
  "zypper_Install r allowDowngrade specs =
     (if specs = [] then ret (zero_result, None)
      else case spec_args ''='' specs of Inl e \<Rightarrow> ret (zero_result, Some e)
      | Inr args \<Rightarrow> zypper_write r
          ([''--non-interactive'', ''install''] @ (if allowDowngrade then [''--oldpackage''] else []) @ args))"

definition zypper_InstallLocal :: "runner \<Rightarrow> string \<Rightarrow> install_local_options \<Rightarrow> write_op" where
  "zypper_InstallLocal r path opts = guarded (ValidateLocalPackagePath path)
     (zypper_write r ([''--non-interactive'', ''install''] @ (if ilo_AllowUnsigned opts then [''--allow-unsigned-rpm''] else []) @
        (if ilo_AllowDowngrade opts then [''--oldpackage''] else []) @ [path]))"

definition zypper_Remove :: "runner \<Rightarrow> bool \<Rightarrow> string list \<Rightarrow> write_op" where
  "zypper_Remove r purge packages =
     (if packages = [] then ret (zero_result, None)
      else if purge then ret (zero_result, Some (EWrap ''zypper purge'' ErrUnsupported))
      else guarded (ValidatePackageNames packages) (zypper_write r ([''--non-interactive'', ''remove''] @ packages)))"

definition zypper_Update :: "runner \<Rightarrow> write_op" where
  "zypper_Update r = zypper_write r [''--non-interactive'', ''refresh'']"

definition zypper_Upgrade :: "runner \<Rightarrow> string list \<Rightarrow> write_op" where
  "zypper_Upgrade r packages =
     (if packages = [] then ret (zero_result, None)
      else guarded (ValidatePackageNames packages) (zypper_write r ([''--non-interactive'', ''update''] @ packages)))"

definition zypper_UpgradeAll :: "runner \<Rightarrow> write_op" where
  "zypper_UpgradeAll r = zypper_write r [''--non-interactive'', ''update'']"

definition zypper_UpgradeSecurity :: "runner \<Rightarrow> write_op" where
  "zypper_UpgradeSecurity r = zypper_write r [''--non-interactive'', ''patch'', ''--category'', ''security'']"

definition zypper_Autoremove :: "runner \<Rightarrow> write_op" where
  "zypper_Autoremove r = ret (zero_result, Some (EWrap ''zypper autoremove'' ErrUnsupported))"

definition zypper_Pin :: "runner \<Rightarrow> string list \<Rightarrow> write_op" where
  "zypper_Pin r packages =
     (if packages = [] then ret (zero_result, None)
      else guarded (ValidatePackageNames packages) (zypper_write r ([''--non-interactive'', ''addlock''] @ packages)))"

definition zypper_Unpin :: "runner \<Rightarrow> string list \<Rightarrow> write_op" where
  "zypper_Unpin r packages =
     (if packages = [] then ret (zero_result, None)
      else guarded (ValidatePackageNames packages) (zypper_write r ([''--non-interactive'', ''removelock''] @ packages)))"

section \<open>Queries\<close>

text \<open>The lines after the first rule line that are not rule lines themselves.\<close>

definition is_rule_line :: "string \<Rightarrow> bool" where
  "is_rule_line line \<longleftrightarrow> HasPrefix line ''---'' \<or> HasPrefix line ''+-''"

definition table_lines :: "string \<Rightarrow> string list" where
  "table_lines out = filter (\<lambda>l. \<not> is_rule_line l) (dropWhile (\<lambda>l. \<not> is_rule_line l) (output_lines out))"

definition zypper_Version :: "runner \<Rightarrow> string read_op" where
  "zypper_Version r = bnd (readOut r ''zypper'' [''--version'']) (\<lambda>out.
     ret (case Fields out of _ # v # _ \<Rightarrow> v | _ \<Rightarrow> ''''))"

definition zypper_search_line :: "string \<Rightarrow> search_result list" where
  "zypper_search_line line = (case Split line (CHR ''|'') of
     _ # p1 # p2 # _ \<Rightarrow> if TrimSpace p1 = '''' then []
       else [\<lparr>sr_Name = TrimSpace p1, sr_Version = '''', sr_Description = TrimSpace p2, sr_Repository = ''''\<rparr>]
   | _ \<Rightarrow> [])"

definition zypper_Search :: "runner \<Rightarrow> string \<Rightarrow> search_result list read_op" where
  "zypper_Search r q = bnd (check (ValidateSearchQuery q)) (\<lambda>_.
     bnd (runRead r ''zypper'' [''--non-interactive'', ''search'', q]) (\<lambda>res.
     if xr_exit res = 104 then ret []
     else if xr_exit res \<noteq> 0 then throw_exit ''zypper'' res
     else ret (concat (map zypper_search_line (table_lines (xr_stdout res))))))"

definition update_row_shown :: "string \<Rightarrow> bool" where
  "update_row_shown out = list_ex (\<lambda>line. Contains line ''v |'' \<or> Contains line ''i |'') (output_lines out)"

definition zypper_HasSecurityUpdates :: "runner \<Rightarrow> bool read_op" where
  "zypper_HasSecurityUpdates r =
     bnd (runRead r ''zypper'' [''--non-interactive'', ''list-patches'', ''--category'', ''security'']) (\<lambda>res.
     if xr_exit res = 100 \<or> xr_exit res = 101 then ret True
     else if \<not> isZypperInfoExit (xr_exit res) then throw_exit ''zypper'' res
     else ret (update_row_shown (xr_stdout res)))"

definition zypper_HasUpdates :: "runner \<Rightarrow> bool read_op" where
  "zypper_HasUpdates r = bnd (runRead r ''zypper'' [''--non-interactive'', ''list-updates'']) (\<lambda>res.
     if xr_exit res = 100 \<or> xr_exit res = 101 then ret True
     else if \<not> isZypperInfoExit (xr_exit res) then throw_exit ''zypper'' res
     else ret (update_row_shown (xr_stdout res)))"

definition zypper_List :: "runner \<Rightarrow> package list read_op" where
  "zypper_List r = bnd (readOut r ''rpm'' [''-qa'', ''--queryformat'', rpm_list_format]) (\<lambda>out.
     ret (concat (map rpm_list_line (output_lines out))))"

definition zypper_update_line :: "string \<Rightarrow> package_update list" where
  "zypper_update_line line = (case Split line (CHR ''|'') of
     p0 # p1 # p2 # p3 # p4 # rest \<Rightarrow> if TrimSpace p2 = '''' then []
       else [\<lparr>pu_Name = TrimSpace p2, pu_CurrentVersion = TrimSpace p3, pu_NewVersion = TrimSpace p4,
         pu_Architecture = (case rest of [] \<Rightarrow> '''' | p5 # _ \<Rightarrow> TrimSpace p5), pu_Repository = TrimSpace p1\<rparr>]
   | _ \<Rightarrow> [])"

definition zypper_ListUpgradable :: "runner \<Rightarrow> package_update list read_op" where
  "zypper_ListUpgradable r = bnd (runRead r ''zypper'' [''--non-interactive'', ''list-updates'']) (\<lambda>res.
     if \<not> isZypperInfoExit (xr_exit res) then throw_exit ''zypper'' res
     else ret (concat (map zypper_update_line (table_lines (xr_stdout res)))))"

definition zypper_IsInstalled :: "runner \<Rightarrow> string \<Rightarrow> bool read_op" where
  "zypper_IsInstalled r name = bnd (check (ValidatePackageName name)) (\<lambda>_.
     bnd (runRead r ''rpm'' [''-q'', name]) (\<lambda>res. ret (xr_exit res = 0)))"

definition zypper_InstalledVersion :: "runner \<Rightarrow> string \<Rightarrow> string read_op" where
  "zypper_InstalledVersion r name = bnd (check (ValidatePackageName name)) (\<lambda>_.
     bnd (runRead r ''rpm'' [''-q'', ''--queryformat'', ''%{VERSION}-%{RELEASE}'', name]) (\<lambda>res.
     if xr_exit res \<noteq> 0 then throw (EWrap (''zypper package '' @ name) ErrNotFound)
     else ret (TrimSpace (xr_stdout res))))"

definition zypper_version_line :: "string \<Rightarrow> string \<Rightarrow> (string \<times> string) list" where
  "zypper_version_line name line = (case Split line (CHR ''|'') of
     _ # p1 # _ # p3 # _ # p5 # _ \<Rightarrow> if TrimSpace p1 \<noteq> name then [] else [(TrimSpace p3, TrimSpace p5)]
   | _ \<Rightarrow> [])"

definition zypper_ListVersions :: "runner \<Rightarrow> string \<Rightarrow> version_info read_op" where
  "zypper_ListVersions r name = bnd (check (ValidatePackageName name)) (\<lambda>_.
     bnd (runRead r ''zypper'' [''--non-interactive'', ''search'', ''-s'', ''--match-exact'', name]) (\<lambda>res.
     bnd (version_or_empty (zypper_InstalledVersion r name)) (\<lambda>installed.
     if xr_exit res = 104 then ret \<lparr>vi_Name = name, vi_Versions = [], vi_Installed = installed\<rparr>
     else if xr_exit res \<noteq> 0 then throw_exit ''zypper'' res
     else ret \<lparr>vi_Name = name,
       vi_Versions = dedup_versions [] (concat (map (zypper_version_line name) (table_lines (xr_stdout res)))),
       vi_Installed = installed\<rparr>)))"

definition zypper_LocalPackageInfo :: "runner \<Rightarrow> string \<Rightarrow> local_package read_op" where
  "zypper_LocalPackageInfo r path = rpmLocalPackageInfo r path"

definition zypper_InstalledCount :: "runner \<Rightarrow> int read_op" where
  "zypper_InstalledCount r = bnd (readOut r ''rpm'' [''-qa'', ''--qf'', ''.'' @ [newline]]) (\<lambda>out. ret (countNonEmptyLines out))"

text \<open>\<^verbatim>\<open>^\s*\d+\s*\|\s*\<close>: the text after the lock's number, its bar and the blanks around them.\<close>

definition after_lock_number :: "string \<Rightarrow> string option" where
  "after_lock_number line = (let s = dropWhile re_space line in
     if takeWhile is_digit s = [] then None
     else case dropWhile re_space (dropWhile is_digit s) of [] \<Rightarrow> None
       | c # rest \<Rightarrow> if c = CHR ''|'' then Some (dropWhile re_space rest) else None)"

definition zypperLockRe :: "string \<Rightarrow> string option" where
  "zypperLockRe line = (case after_lock_number line of None \<Rightarrow> None
     | Some s \<Rightarrow> (case takeWhile (\<lambda>c. \<not> re_space c) s of [] \<Rightarrow> None | w \<Rightarrow> Some w))"

definition zypper_lock_names :: "string list \<Rightarrow> string list" where
  "zypper_lock_names ls = concat (map (\<lambda>l. case zypperLockRe l of None \<Rightarrow> [] | Some n \<Rightarrow> [n]) ls)"

definition zypper_ListPinned :: "runner \<Rightarrow> package list read_op" where
  "zypper_ListPinned r = bnd (readOut r ''zypper'' [''--non-interactive'', ''locks'']) (\<lambda>out.
     with_versions (zypper_InstalledVersion r) (zypper_lock_names (table_lines out)))"

text \<open>\<^verbatim>\<open>^\s*\d+\s*\|\s*name\s*\|\<close>\<close>

definition lock_line_of :: "string \<Rightarrow> string \<Rightarrow> bool" where
  "lock_line_of name line = (case after_lock_number line of None \<Rightarrow> False
     | Some s \<Rightarrow> (case CutPrefix s name of None \<Rightarrow> False
        | Some t \<Rightarrow> HasPrefix (dropWhile re_space t) ''|''))"

definition zypper_IsPinned :: "runner \<Rightarrow> string \<Rightarrow> bool read_op" where
  "zypper_IsPinned r name = bnd (check (ValidatePackageName name)) (\<lambda>_.
     bnd (probe r ''zypper'' [''--non-interactive'', ''locks'']) (\<lambda>(out, ok).
     if \<not> ok then ret False else ret (list_ex (lock_line_of name) (output_lines out))))"

section \<open>The manager\<close>

definition zypper_manager :: "runner \<Rightarrow> manager" where
  "zypper_manager r = \<lparr>mgr_Backend = Zypper, mgr_Version = zypper_Version r, mgr_Search = zypper_Search r,
     mgr_List = zypper_List r, mgr_ListUpgradable = zypper_ListUpgradable r, mgr_ListVersions = zypper_ListVersions r,
     mgr_IsInstalled = zypper_IsInstalled r, mgr_LocalPackageInfo = zypper_LocalPackageInfo r,
     mgr_InstalledVersion = zypper_InstalledVersion r, mgr_InstalledCount = zypper_InstalledCount r,
     mgr_HasUpdates = zypper_HasUpdates r, mgr_HasSecurityUpdates = zypper_HasSecurityUpdates r,
     mgr_IsPinned = zypper_IsPinned r, mgr_ListPinned = zypper_ListPinned r, mgr_Install = zypper_Install r,
     mgr_InstallLocal = zypper_InstallLocal r, mgr_Remove = zypper_Remove r, mgr_Update = zypper_Update r,
     mgr_Upgrade = zypper_Upgrade r, mgr_UpgradeAll = zypper_UpgradeAll r,
     mgr_UpgradeSecurity = zypper_UpgradeSecurity r, mgr_Pin = zypper_Pin r, mgr_Unpin = zypper_Unpin r,
     mgr_Autoremove = zypper_Autoremove r\<rparr>"

definition zypper_lits :: "string list" where
  "zypper_lits = [''--non-interactive'', ''--oldpackage'', ''--allow-unsigned-rpm'', ''--category'', ''--version'', ''-qa'',
     ''--queryformat'', ''-q'', ''-s'', ''--match-exact'', ''--qf'', ''-qp'']"

lemma zypper_lits_set: "set zypper_lits = {''--non-interactive'', ''--oldpackage'', ''--allow-unsigned-rpm'', ''--category'',
     ''--version'', ''-qa'', ''--queryformat'', ''-q'', ''-s'', ''--match-exact'', ''--qf'', ''-qp''}"
  by (simp add: zypper_lits_def)

context runner_iface
begin

lemma zypper_write_issues: "argv_safe zypper_lits args \<Longrightarrow> issues (pkg_command zypper_lits) (zypper_write run args)"
  unfolding zypper_write_def by (intro issues_rules issues_runPriv) simp

lemma zypper_write_returns: "returns (zypper_write run args)"
  unfolding zypper_write_def by (intro returns_write_result returns_runPriv)

lemma zypper_mutations:
  "issues (pkg_command zypper_lits) (zypper_Install run dg specs)"
  "issues (pkg_command zypper_lits) (zypper_InstallLocal run path opts)"
  "issues (pkg_command zypper_lits) (zypper_Remove run purge names)"
  "issues (pkg_command zypper_lits) (zypper_Update run)"
  "issues (pkg_command zypper_lits) (zypper_Upgrade run names)"
  "issues (pkg_command zypper_lits) (zypper_UpgradeAll run)"
  "issues (pkg_command zypper_lits) (zypper_UpgradeSecurity run)"
  "issues (pkg_command zypper_lits) (zypper_Pin run names)"
  "issues (pkg_command zypper_lits) (zypper_Unpin run names)"
  "issues (pkg_command zypper_lits) (zypper_Autoremove run)"
  unfolding zypper_Install_def zypper_InstallLocal_def zypper_Remove_def zypper_Update_def zypper_Upgrade_def
    zypper_UpgradeAll_def zypper_UpgradeSecurity_def zypper_Pin_def zypper_Unpin_def zypper_Autoremove_def
  by (intro issues_rules zypper_write_issues; simp add: zypper_lits_set spec_args_safe)+

lemma zypper_returns:
  "returns (zypper_Install run dg specs)"
  "returns (zypper_Remove run purge names)"
  "returns (zypper_Update run)"
  "returns (zypper_UpgradeAll run)"
  unfolding zypper_Install_def zypper_Remove_def zypper_Update_def zypper_UpgradeAll_def
  by (auto intro: zypper_write_returns returns_guarded split: sum.splits)

lemma zypper_queries:
  "issues (pkg_query zypper_lits) (zypper_Version run)"
  "issues (pkg_query zypper_lits) (zypper_Search run q)"
  "issues (pkg_query zypper_lits) (zypper_List run)"
  "issues (pkg_query zypper_lits) (zypper_ListUpgradable run)"
  "issues (pkg_query zypper_lits) (zypper_IsInstalled run name)"
  "issues (pkg_query zypper_lits) (zypper_InstalledVersion run name)"
  "issues (pkg_query zypper_lits) (zypper_InstalledCount run)"
  "issues (pkg_query zypper_lits) (zypper_HasUpdates run)"
  "issues (pkg_query zypper_lits) (zypper_HasSecurityUpdates run)"
  "issues (pkg_query zypper_lits) (zypper_IsPinned run name)"
  unfolding zypper_Version_def zypper_Search_def zypper_List_def zypper_ListUpgradable_def zypper_IsInstalled_def
    zypper_InstalledVersion_def zypper_InstalledCount_def zypper_HasUpdates_def zypper_HasSecurityUpdates_def
    zypper_IsPinned_def
  by (intro issues_rules issues_readOut issues_runRead issues_probe; simp add: zypper_lits_set rpm_list_format_def)+

lemma zypper_versions:
  "issues (pkg_query zypper_lits) (zypper_ListVersions run name)"
  "issues (pkg_query zypper_lits) (zypper_ListPinned run)"
  "issues (pkg_query zypper_lits) (zypper_LocalPackageInfo run path)"
  unfolding zypper_ListVersions_def zypper_ListPinned_def zypper_LocalPackageInfo_def
  by (intro issues_rules issues_runRead issues_readOut issues_rpmLocalPackageInfo zypper_queries; simp add: zypper_lits_set)+

end

lemma zypper_Upgrade_empty: "zypper_Upgrade r [] = ret (zero_result, None)"
  by (simp add: zypper_Upgrade_def)

interpretation zypper: pkg_manager "zypper_manager (runner_run M b ctx)" zypper_lits
proof
  fix name e
  assume "ValidatePackageName name = Some e"
  then show "mgr_IsInstalled (zypper_manager (runner_run M b ctx)) name = throw e"
    by (simp add: zypper_manager_def zypper_IsInstalled_def check_def bnd_def throw_def)
qed (simp_all add: zypper_manager_def os_runner.zypper_mutations os_runner.zypper_returns os_runner.zypper_queries os_runner.zypper_versions
    zypper_Upgrade_empty)

end
