(* ===== verification/Pkg_Manager.thy ===== *)
theory Pkg_Manager
  imports Pkg_Apt Pkg_Pacman Pkg_Dnf Pkg_Zypper
begin

text \<open>
  The constructor and the detection of \<^verbatim>\<open>sdk/pkg/pkg.go\<close>. A \<^verbatim>\<open>Backend\<close> is a Go integer, so a value that
  names no backend is possible and is refused.
\<close>

definition ErrUnknownPkgBackend :: go_error where
  "ErrUnknownPkgBackend = ESentinel ''pkg: unknown package-manager backend''"

definition backend_number :: "pkg_backend \<Rightarrow> int" where
  "backend_number b = (case b of Apt \<Rightarrow> 1 | Dnf \<Rightarrow> 2 | Dnf5 \<Rightarrow> 3 | Pacman \<Rightarrow> 4 | Zypper \<Rightarrow> 5)"

definition pkg_New :: "(string \<Rightarrow> bool) \<Rightarrow> (string \<Rightarrow> string option) \<Rightarrow> int \<Rightarrow> runner option \<Rightarrow> go_error + manager" where
  "pkg_New isf lp b r = (case r of None \<Rightarrow> Inl (EWrap ''pkg'' ErrRunnerRequired)
     | Some run \<Rightarrow>
         if b = 1 then Inr (apt_manager isf lp run)
         else if b = 2 then Inr (dnf_manager ''dnf'' run)
         else if b = 3 then Inr (dnf_manager ''dnf5'' run)
         else if b = 4 then Inr (pacman_manager run)
         else if b = 5 then Inr (zypper_manager run)
         else Inl (EDetail ErrUnknownPkgBackend (itoa b)))"

definition backend_candidates :: "(string \<times> pkg_backend) list" where
  "backend_candidates = [(''apt-get'', Apt), (''dnf5'', Dnf5), (''dnf'', Dnf), (''pacman'', Pacman), (''zypper'', Zypper)]"

fun detect_loop :: "(string \<Rightarrow> string option) \<Rightarrow> pkg_backend list \<Rightarrow> (string \<times> pkg_backend) list \<Rightarrow> pkg_backend list" where
  "detect_loop lp found [] = found"
| "detect_loop lp found ((bin, b) # cs) =
     (if lp bin \<noteq> None \<and> \<not> (b = Dnf \<and> found \<noteq> [] \<and> last found = Dnf5)
      then detect_loop lp (found @ [b]) cs else detect_loop lp found cs)"

definition Detect :: "(string \<Rightarrow> string option) \<Rightarrow> pkg_backend list" where
  "Detect lp = detect_loop lp [] backend_candidates"

definition manager_lits :: "pkg_backend \<Rightarrow> string list" where
  "manager_lits b = (case b of Apt \<Rightarrow> apt_lits | Dnf \<Rightarrow> dnf_lits | Dnf5 \<Rightarrow> dnf_lits | Pacman \<Rightarrow> pacman_lits | Zypper \<Rightarrow> zypper_lits)"

text \<open>Whatever \<open>pkg_New\<close> builds keeps the contract, with its backend's literals.\<close>

lemma pkg_New_contract:
  assumes "pkg_New isf lp i (Some (runner_run M b ctx)) = Inr mgr"
  shows "pkg_manager mgr (manager_lits (mgr_Backend mgr))"
  using assms apt.pkg_manager_axioms [of isf lp M b ctx] dnf.pkg_manager_axioms [of "''dnf''" M b ctx]
    dnf.pkg_manager_axioms [of "''dnf5''" M b ctx] pacman.pkg_manager_axioms [of M b ctx]
    zypper.pkg_manager_axioms [of M b ctx]
  by (auto simp: pkg_New_def manager_lits_def apt_manager_def dnf_manager_def dnf_Backend_def pacman_manager_def
      zypper_manager_def split: if_splits)

lemma pkg_New_backend:
  "pkg_New isf lp (backend_number k) (Some run) = Inr mgr \<Longrightarrow> mgr_Backend mgr = k"
  by (auto simp: pkg_New_def backend_number_def apt_manager_def dnf_manager_def dnf_Backend_def pacman_manager_def
      zypper_manager_def split: pkg_backend.splits)

lemma Detect_eq:
  "Detect lp = (if lp ''apt-get'' = None then [] else [Apt]) @
     (if lp ''dnf5'' \<noteq> None then [Dnf5] else if lp ''dnf'' \<noteq> None then [Dnf] else []) @
     (if lp ''pacman'' = None then [] else [Pacman]) @ (if lp ''zypper'' = None then [] else [Zypper])"
  by (cases "lp ''apt-get''"; cases "lp ''dnf5''"; cases "lp ''dnf''"; cases "lp ''pacman''"; cases "lp ''zypper''")
    (simp_all add: Detect_def backend_candidates_def)

end
