(* ===== verification/Agent_Executor.thy ===== *)
theory Agent_Executor
  imports Pkg_Manager Contract
begin

text \<open>
  \<^verbatim>\<open>agent/internal/executor\<close>: \<open>ExecuteAction\<close> and the three kinds of action. An executor is its runner
  and its package manager under a context, and what \<^verbatim>\<open>ctx.Err()\<close> says at the end. A Go method that
  returns outputs and an error returns both here; the program itself never stops with an error.
\<close>

record executor =
  ex_runner :: "ctx \<Rightarrow> runner"
  ex_pkg :: "ctx \<Rightarrow> manager option"
  ex_ctx_err :: "ctx \<Rightarrow> world \<Rightarrow> go_error option"

definition DeadlineExceeded :: go_error where
  "DeadlineExceeded = ESentinel ''context deadline exceeded''"

section \<open>Construction and timeouts\<close>

definition second :: int where "second = 1000000000"

definition actionTimeout :: "action \<Rightarrow> int" where
  "actionTimeout a =
     (if act_timeout_seconds a > 0 then wrap64 (act_timeout_seconds a * second)
      else case act_params a of
        Some (ActionShell _) \<Rightarrow> 3600 * second
      | Some (ActionPackage _) \<Rightarrow> 1800 * second
      | Some ActionUpdate \<Rightarrow> 1800 * second
      | None \<Rightarrow> 0)"

text \<open>A Go call passes its context to the runner and to the manager built over it, so both are functions of the
  context here; \<open>cerr\<close> is what \<^verbatim>\<open>ctx.Err()\<close> returns.\<close>

definition NewExecutor ::
  "(string \<Rightarrow> bool) \<Rightarrow> (string \<Rightarrow> string option) \<Rightarrow> (ctx \<Rightarrow> runner) option \<Rightarrow> (ctx \<Rightarrow> world \<Rightarrow> go_error option) \<Rightarrow>
    go_error + executor" where
  "NewExecutor isf lp r cerr = (case r of
     None \<Rightarrow> Inl (EText ''executor: runner is required'')
   | Some run \<Rightarrow> (case Detect lp of
       [] \<Rightarrow> Inr \<lparr>ex_runner = run, ex_pkg = (\<lambda>_. None), ex_ctx_err = cerr\<rparr>
     | k # _ \<Rightarrow> (case pkg_New isf lp (backend_number k) (Some (run None)) of
         Inl e \<Rightarrow> Inl (EWrap ''executor: initialize package manager'' e)
       | Inr _ \<Rightarrow> Inr \<lparr>ex_runner = run,
           ex_pkg = (\<lambda>ctx. case pkg_New isf lp (backend_number k) (Some (run ctx)) of Inl _ \<Rightarrow> None | Inr m \<Rightarrow> Some m),
           ex_ctx_err = cerr\<rparr>)))"

section \<open>Packages and updates\<close>

type_synonym outcome = "command_output option \<times> go_error option"

definition command_output_of :: "exec_result \<Rightarrow> command_output" where
  "command_output_of run = \<lparr>exit_code = wrap32 (xr_exit run), out_stdout = xr_stdout run, out_stderr = xr_stderr run\<rparr>"

definition stdout_only :: "string \<Rightarrow> command_output" where
  "stdout_only s = \<lparr>exit_code = 0, out_stdout = s, out_stderr = ''''\<rparr>"

definition commandResult :: "exec_result \<Rightarrow> go_error option \<Rightarrow> outcome" where
  "commandResult run err = (Some (command_output_of run),
     case err of Some e \<Rightarrow> Some e
     | None \<Rightarrow> if xr_exit run \<noteq> 0 then Some (EText (''package manager exited with status '' @ itoa (xr_exit run))) else None)"

definition desired_state_name :: "desired_state \<Rightarrow> string" where
  "desired_state_name s = (case s of DESIRED_STATE_UNSPECIFIED \<Rightarrow> ''DESIRED_STATE_UNSPECIFIED''
     | DESIRED_STATE_PRESENT \<Rightarrow> ''DESIRED_STATE_PRESENT'' | DESIRED_STATE_ABSENT \<Rightarrow> ''DESIRED_STATE_ABSENT''
     | DESIRED_STATE_UNRECOGNIZED n \<Rightarrow> itoa n)"

text \<open>An error of a query ends the method with its error wrapped.\<close>

definition probing :: "string \<Rightarrow> 'a read_op \<Rightarrow> ('a \<Rightarrow> (world, outcome) prog) \<Rightarrow> (world, outcome) prog" where
  "probing t m k = bnd (handle (bnd m (\<lambda>x. ret (Inr x))) (\<lambda>e. ret (Inl e)))
     (\<lambda>r. case r of Inl e \<Rightarrow> ret (None, Some (EWrap t e)) | Inr x \<Rightarrow> k x)"

definition install_package :: "manager \<Rightarrow> package_params \<Rightarrow> (world, outcome) prog" where
  "install_package mgr p =
     bnd (mgr_Update mgr) (\<lambda>(res, err).
     case err of
       Some e \<Rightarrow> if errors_is e ErrUnsupported
         then bnd (mgr_Install mgr False [\<lparr>is_Name = pkg_name p, is_Version = pkg_version p\<rparr>]) (\<lambda>(run, e2). ret (commandResult run e2))
         else ret (None, Some (EWrap ''update package index'' e))
     | None \<Rightarrow> bnd (mgr_Install mgr False [\<lparr>is_Name = pkg_name p, is_Version = pkg_version p\<rparr>]) (\<lambda>(run, e2).
         ret (commandResult run e2)))"

definition executePackage :: "manager option \<Rightarrow> package_params option \<Rightarrow> desired_state \<Rightarrow> (world, outcome) prog" where
  "executePackage pkgManager params state = (case params of
     None \<Rightarrow> ret (None, Some (EText ''package params required''))
   | Some p \<Rightarrow> (case pkgManager of
       None \<Rightarrow> ret (None, Some (EText ''no supported package manager found''))
     | Some mgr \<Rightarrow>
         probing ''probe package state'' (mgr_IsInstalled mgr (pkg_name p)) (\<lambda>installed.
         if state = DESIRED_STATE_PRESENT then
           (if installed \<and> pkg_version p = '''' then
              ret (Some (stdout_only (''package '' @ pkg_name p @ '' is already installed'')), None)
            else if installed then
              probing ''read installed package version'' (mgr_InstalledVersion mgr (pkg_name p)) (\<lambda>version.
                if version = pkg_version p then
                  ret (Some (stdout_only (''package '' @ pkg_name p @ '' version '' @ version @ '' is already installed'')), None)
                else install_package mgr p)
            else install_package mgr p)
         else if state = DESIRED_STATE_ABSENT then
           (if \<not> installed then ret (Some (stdout_only (''package '' @ pkg_name p @ '' is already absent'')), None)
            else bnd (mgr_Remove mgr False [pkg_name p]) (\<lambda>(run, e). ret (commandResult run e)))
         else ret (None, Some (EText (''unsupported package desired state: '' @ desired_state_name state))))))"

definition executeUpdate :: "manager option \<Rightarrow> (world, outcome) prog" where
  "executeUpdate pkgManager = (case pkgManager of
     None \<Rightarrow> ret (None, Some (EText ''no supported package manager found''))
   | Some mgr \<Rightarrow> bnd (mgr_Update mgr) (\<lambda>(index, err).
       let upgrade_all = bnd (mgr_UpgradeAll mgr) (\<lambda>(upgrade, err2).
             let output = \<lparr>exit_code = wrap32 (xr_exit upgrade), out_stdout = xr_stdout index @ xr_stdout upgrade,
               out_stderr = xr_stderr upgrade\<rparr> in
             ret (Some output,
               case err2 of Some e \<Rightarrow> Some (EWrap ''upgrade system packages'' e)
               | None \<Rightarrow> if xr_exit upgrade \<noteq> 0
                   then Some (EText (''package upgrade exited with status '' @ itoa (xr_exit upgrade))) else None)) in
       case err of
         Some e \<Rightarrow> if errors_is e ErrUnsupported then upgrade_all
           else ret (Some (command_output_of index), Some (EWrap ''update package index'' e))
       | None \<Rightarrow> upgrade_all))"

section \<open>Shell actions\<close>

definition shell_environment :: "shell_params \<Rightarrow> string list" where
  "shell_environment p = map (\<lambda>k. k @ ''='' @ (case map_of (sh_environment p) k of None \<Rightarrow> '''' | Some v \<Rightarrow> v))
     (sort (remdups (map fst (sh_environment p))))"

definition shell_command :: "shell_params \<Rightarrow> string \<Rightarrow> command" where
  "shell_command p script = \<lparr>cmd_name = (if sh_interpreter p = '''' then ''/bin/sh'' else sh_interpreter p),
     cmd_args = [''-c'', script], cmd_dir = sh_working_directory p, cmd_env = shell_environment p, cmd_stdin = None,
     cmd_child_path = '''', cmd_escalate = True\<rparr>"

definition runShell :: "runner \<Rightarrow> shell_params \<Rightarrow> string \<Rightarrow> (world, outcome) prog" where
  "runShell r p script = (case ValidateCommandEnv (shell_environment p) of
     Some e \<Rightarrow> ret (None, Some (EWrap ''validate shell environment'' e))
   | None \<Rightarrow> bnd (r (shell_command p script)) (\<lambda>(run, err).
       ret (Some (command_output_of run), case err of None \<Rightarrow> None | Some e \<Rightarrow> Some (EWrap ''run shell'' e))))"

definition outputWithError :: "command_output option \<Rightarrow> go_error \<Rightarrow> command_output" where
  "outputWithError output err = (let out = (case output of None \<Rightarrow> empty_output | Some c \<Rightarrow> c) in
     if out_stderr out = '''' then out\<lparr>out_stderr := error_text err\<rparr> else out)"

type_synonym shell_outcome = "command_output option \<times> command_output option \<times> go_error option"

definition shell_exit_error :: "int \<Rightarrow> go_error" where
  "shell_exit_error code = EText (''shell exited with status '' @ itoa code)"

definition verify_exit_error :: "int \<Rightarrow> go_error" where
  "verify_exit_error code = EText (''shell remediation verification exited with status '' @ itoa code)"

text \<open>The part of \<^verbatim>\<open>executeShell\<close> after the detection: the script, then the detection again.\<close>

definition remediate :: "runner \<Rightarrow> shell_params \<Rightarrow> command_output option \<Rightarrow> (world, shell_outcome) prog" where
  "remediate r p detection =
     (if sh_script p = '''' then ret (None, detection, Some (EText ''shell action requires a script''))
      else bnd (runShell r p (sh_script p)) (\<lambda>(output, err).
       if err \<noteq> None \<or> get_exit_code output \<noteq> 0 then
         (let e = (case err of Some e \<Rightarrow> e | None \<Rightarrow> shell_exit_error (get_exit_code output)) in
          ret (Some (outputWithError output e), detection, Some e))
       else if sh_detection_script p = '''' then ret (output, None, None)
       else bnd (runShell r p (sh_detection_script p)) (\<lambda>(verified, err2).
         case err2 of
           Some e \<Rightarrow> ret (output, Some (outputWithError verified e), Some e)
         | None \<Rightarrow> if get_exit_code verified \<noteq> 0 then
             (let e = verify_exit_error (get_exit_code verified) in
              ret (output, Some (outputWithError verified e), Some e))
           else ret (output, verified, None))))"

definition executeShell :: "runner \<Rightarrow> shell_params option \<Rightarrow> (world, shell_outcome) prog" where
  "executeShell r params = (case params of
     None \<Rightarrow> ret (None, None, Some (EText ''shell params required''))
   | Some p \<Rightarrow>
       if sh_is_compliance p \<and> sh_detection_script p = ''''
       then ret (None, None, Some (EText ''compliance shell action requires a detection script''))
       else if sh_detection_script p \<noteq> '''' then
         bnd (runShell r p (sh_detection_script p)) (\<lambda>(detection, err). case err of
           Some e \<Rightarrow> ret (None, Some (outputWithError detection e), Some e)
         | None \<Rightarrow>
             if get_exit_code detection = 0 then ret (None, detection, None)
             else if sh_is_compliance p then ret (None, detection, None)
             else remediate r p detection)
       else remediate r p None)"

section \<open>ExecuteAction\<close>

definition ensureResultError :: "action_result \<Rightarrow> string \<Rightarrow> action_result" where
  "ensureResultError result message =
     (if get_stderr (res_output result) \<noteq> '''' \<or> get_stderr (res_detection_output result) \<noteq> '''' then result
      else case res_output result of
        Some c \<Rightarrow> result\<lparr>res_output := Some (c\<lparr>out_stderr := message\<rparr>)\<rparr>
      | None \<Rightarrow> (case res_detection_output result of
          Some c \<Rightarrow> result\<lparr>res_detection_output := Some (c\<lparr>out_stderr := message\<rparr>)\<rparr>
        | None \<Rightarrow> result\<lparr>res_output := Some (empty_output\<lparr>out_stderr := message\<rparr>)\<rparr>))"

definition finish :: "action_result \<Rightarrow> (world, action_result) prog" where
  "finish result = bnd now (\<lambda>completed. ret (result\<lparr>res_completed_at := Some completed\<rparr>))"

definition empty_action_result :: action_result where
  "empty_action_result = \<lparr>res_action_id = None, res_status = EXECUTION_STATUS_FAILED, res_output = None,
     res_detection_output = None, res_completed_at = None, res_run_id = None, res_action_digest = ''''\<rparr>"

definition dispatch :: "executor \<Rightarrow> ctx \<Rightarrow> action \<Rightarrow> (world, shell_outcome) prog" where
  "dispatch ex ctx a = (case act_params a of
     Some (ActionPackage p) \<Rightarrow> bnd (executePackage (ex_pkg ex ctx) p (act_desired_state a)) (\<lambda>(out, e). ret (out, None, e))
   | Some ActionUpdate \<Rightarrow> bnd (executeUpdate (ex_pkg ex ctx)) (\<lambda>(out, e). ret (out, None, e))
   | Some (ActionShell p) \<Rightarrow> executeShell (ex_runner ex ctx) p
   | None \<Rightarrow> ret (None, None, Some (EText ''unsupported action parameters'')))"

definition gets_world :: "(world \<Rightarrow> 'a) \<Rightarrow> (world, 'a) prog" where
  "gets_world f = (\<lambda>E n w. (Inr (f w), n, w))"

definition ExecuteAction :: "executor \<Rightarrow> action option \<Rightarrow> (world, action_result) prog" where
  "ExecuteAction ex act = (case act of
     None \<Rightarrow> finish (empty_action_result\<lparr>res_output := Some (empty_output\<lparr>out_stderr := ''action is required''\<rparr>)\<rparr>)
   | Some a \<Rightarrow>
     if act_id a = None
     then finish (empty_action_result\<lparr>res_output := Some (empty_output\<lparr>out_stderr := ''action is required''\<rparr>)\<rparr>)
     else (let ctx = (if actionTimeout a > 0 then Some (actionTimeout a) else None) in
       bnd (dispatch ex ctx a) (\<lambda>(output, detection, err).
       bnd (gets_world (ex_ctx_err ex ctx)) (\<lambda>ctx_err.
       let result = empty_action_result\<lparr>res_action_id := act_id a, res_output := output, res_detection_output := detection\<rparr> in
       finish (case err of
           None \<Rightarrow> result\<lparr>res_status := EXECUTION_STATUS_SUCCESS\<rparr>
         | Some e \<Rightarrow>
             if errors_is e DeadlineExceeded \<or> (\<exists>c. ctx_err = Some c \<and> errors_is c DeadlineExceeded)
             then ensureResultError (result\<lparr>res_status := EXECUTION_STATUS_TIMEOUT\<rparr>) ''action timed out''
             else ensureResultError result (error_text e))))))"

section \<open>Which processes an action spawns\<close>

text \<open>The commands an action may run: the detection script of a shell action, its script unless it is a
  compliance action, and package-manager commands without smuggled options.\<close>

definition action_command :: "string list \<Rightarrow> action \<Rightarrow> command \<Rightarrow> bool" where
  "action_command lits a c = (case act_params a of
     Some (ActionShell (Some p)) \<Rightarrow>
       sh_detection_script p \<noteq> '''' \<and> c = shell_command p (sh_detection_script p) \<or>
       \<not> sh_is_compliance p \<and> sh_script p \<noteq> '''' \<and> c = shell_command p (sh_script p)
   | Some (ActionPackage _) \<Rightarrow> pkg_command lits c
   | Some ActionUpdate \<Rightarrow> pkg_command lits c
   | _ \<Rightarrow> False)"

lemma issues_finish [issues_rules]: "issues Q (finish r)"
  unfolding finish_def by (intro issues_rules issues_readonly readonly_basic)

lemma issues_gets_world [issues_rules]: "issues Q (gets_world f)"
  by (auto simp: issues_def gets_world_def)

lemma issues_probing [issues_rules]: "issues Q m \<Longrightarrow> (\<And>x. issues Q (k x)) \<Longrightarrow> issues Q (probing t m k)"
  unfolding probing_def by (intro issues_rules)

lemma returns_now: "returns now"
  by (simp add: returns_def now_def)

lemma returns_gets_world: "returns (gets_world f)"
  by (simp add: returns_def gets_world_def)

lemma returns_finish: "returns (finish r)"
  unfolding finish_def by (intro returns_bnd returns_now returns_ret)

lemma returns_probing: "(\<And>x. returns (k x)) \<Longrightarrow> returns (probing t m k)"
  unfolding probing_def by (intro returns_bnd returns_handle) (auto split: sum.splits)

context pkg_manager
begin

lemma install_package_issues: "issues (pkg_command lits) (install_package mgr p)"
  unfolding install_package_def by (intro issues_rules Update_safe Install_safe)

lemma executePackage_issues: "issues (pkg_command lits) (executePackage (Some mgr) params s)"
  unfolding executePackage_def
  by (auto intro!: issues_rules install_package_issues Remove_safe
        query_command [OF IsInstalled_query] query_command [OF InstalledVersion_query]
      split: option.splits)

lemma executeUpdate_issues: "issues (pkg_command lits) (executeUpdate (Some mgr))"
  unfolding executeUpdate_def by (auto simp: Let_def intro!: issues_rules Update_safe UpgradeAll_safe)

lemma install_package_returns: "returns (install_package mgr p)"
  unfolding install_package_def
  by (auto intro!: returns_bnd Update_returns Install_returns split: option.splits prod.splits)

lemma executePackage_returns: "returns (executePackage (Some mgr) params s)"
  unfolding executePackage_def
  by (auto intro!: returns_probing returns_bnd install_package_returns Remove_returns split: option.splits prod.splits)

lemma executeUpdate_returns: "returns (executeUpdate (Some mgr))"
  unfolding executeUpdate_def
  by (auto simp: Let_def intro!: returns_bnd Update_returns UpgradeAll_returns split: option.splits prod.splits)

text \<open>An installed package whose version is not pinned is left alone, and so is an absent one.\<close>

lemma package_in_state:
  assumes "mgr_IsInstalled mgr (pkg_name p) E n w = (Inr i, n', w')"
  shows "i \<Longrightarrow> pkg_version p = '''' \<Longrightarrow> executePackage (Some mgr) (Some p) DESIRED_STATE_PRESENT E n w =
      (Inr (Some (stdout_only (''package '' @ pkg_name p @ '' is already installed'')), None), n', w')"
    and "\<not> i \<Longrightarrow> executePackage (Some mgr) (Some p) DESIRED_STATE_ABSENT E n w =
      (Inr (Some (stdout_only (''package '' @ pkg_name p @ '' is already absent'')), None), n', w')"
  using assms by (simp_all add: executePackage_def probing_def bnd_def handle_def ret_def)

end

context runner_iface
begin

lemma runShell_issues: "Q (shell_command p s) \<Longrightarrow> issues Q (runShell run p s)"
  unfolding runShell_def by (intro issues_rules issues_run)

lemma runShell_returns: "returns (runShell run p s)"
  unfolding runShell_def by (auto intro!: returns_bnd returns_run split: option.splits prod.splits)

lemma remediate_issues:
  assumes "sh_script p \<noteq> '''' \<Longrightarrow> Q (shell_command p (sh_script p))"
    and "sh_detection_script p \<noteq> '''' \<Longrightarrow> Q (shell_command p (sh_detection_script p))"
  shows "issues Q (remediate run p d)"
  unfolding remediate_def
  by (auto simp: Let_def intro!: issues_rules runShell_issues assms split: option.splits)

lemma executeShell_issues: "act_params a = Some (ActionShell p) \<Longrightarrow> issues (action_command lits a) (executeShell run p)"
  unfolding executeShell_def
  by (auto simp: action_command_def intro!: issues_rules runShell_issues remediate_issues split: option.splits)

lemma remediate_returns: "returns (remediate run p d)"
  unfolding remediate_def
  by (auto simp: Let_def intro!: returns_bnd runShell_returns split: option.splits prod.splits)

lemma executeShell_returns: "returns (executeShell run p)"
  unfolding executeShell_def
  by (auto intro!: returns_bnd runShell_returns remediate_returns split: option.splits prod.splits)

end

text \<open>An executor over a runner and a manager that keep their contracts.\<close>

locale executor_iface =
  fixes ex :: executor and lits :: "string list"
  assumes runner: "runner_iface (ex_runner ex ctx)"
    and mgr: "ex_pkg ex ctx = Some m \<Longrightarrow> pkg_manager m lits"
begin

lemma dispatch_issues: "issues (action_command lits a) (dispatch ex ctx a)"
proof -
  have pkg: "issues (pkg_command lits) (executePackage (ex_pkg ex ctx) p s)" for p s
    using pkg_manager.executePackage_issues [OF mgr]
    by (cases "ex_pkg ex ctx") (auto simp: executePackage_def intro!: issues_rules split: option.splits)
  have upd: "issues (pkg_command lits) (executeUpdate (ex_pkg ex ctx))"
    using pkg_manager.executeUpdate_issues [OF mgr]
    by (cases "ex_pkg ex ctx") (auto simp: executeUpdate_def intro!: issues_rules)
  show ?thesis
  proof (cases "act_params a")
    case None
    then show ?thesis by (simp add: dispatch_def issues_ret)
  next
    case (Some p)
    then show ?thesis
      using runner_iface.executeShell_issues [OF runner, of a]
      by (cases p) (auto simp: dispatch_def action_command_def intro!: issues_rules issues_mono [OF pkg] issues_mono [OF upd])
  qed
qed

lemma dispatch_returns: "returns (dispatch ex ctx a)"
proof -
  have pkg: "returns (executePackage (ex_pkg ex ctx) p s)" for p s
    using pkg_manager.executePackage_returns [OF mgr]
    by (cases "ex_pkg ex ctx") (auto simp: executePackage_def split: option.splits)
  have upd: "returns (executeUpdate (ex_pkg ex ctx))"
    using pkg_manager.executeUpdate_returns [OF mgr] by (cases "ex_pkg ex ctx") (auto simp: executeUpdate_def)
  show ?thesis unfolding dispatch_def
    by (auto intro!: returns_bnd pkg upd runner_iface.executeShell_returns [OF runner] split: option.splits action_params.splits)
qed

lemma ExecuteAction_issues: "issues (action_command lits a) (ExecuteAction ex (Some a))"
  unfolding ExecuteAction_def by (auto simp: Let_def intro!: issues_rules dispatch_issues)

lemma ExecuteAction_returns: "returns (ExecuteAction ex act)"
  unfolding ExecuteAction_def
  by (auto simp: Let_def intro!: returns_bnd dispatch_returns returns_gets_world returns_finish split: option.splits)

end

section \<open>What a result says\<close>

lemma ensureResultError_text:
  "message \<noteq> '''' \<Longrightarrow> get_stderr (res_output (ensureResultError r message)) \<noteq> '''' \<or>
    get_stderr (res_detection_output (ensureResultError r message)) \<noteq> ''''"
  by (auto simp: ensureResultError_def get_stderr_def split: option.splits)

lemma ensureResultError_keeps [simp]:
  "res_action_id (ensureResultError r m) = res_action_id r"
  "res_status (ensureResultError r m) = res_status r"
  "res_run_id (ensureResultError r m) = res_run_id r"
  by (auto simp: ensureResultError_def split: option.splits)

lemma runShell_cases:
  assumes "runShell r p s E n w = (Inr (out, err), n', w')"
  obtains e where "err = Some (EWrap ''validate shell environment'' e)"
    | e where "err = Some (EWrap ''run shell'' e)"
    | c where "err = None" and "out = Some c"
proof (cases "ValidateCommandEnv (shell_environment p)")
  case None
  then obtain run e where "out = Some (command_output_of run)"
    and "err = (case e of None \<Rightarrow> None | Some x \<Rightarrow> Some (EWrap ''run shell'' x))"
    using assms by (auto simp: runShell_def run_simps)
  then show thesis using that by (cases e) auto
next
  case (Some e)
  then show thesis using assms that by (auto simp: runShell_def run_simps)
qed

lemma runShell_error: "runShell r p s E n w = (Inr (out, Some e), n', w') \<Longrightarrow> error_text e \<noteq> ''''"
  by (erule runShell_cases) auto

lemma runShell_output: "runShell r p s E n w = (Inr (out, None), n', w') \<Longrightarrow> out \<noteq> None"
  by (erule runShell_cases) auto

lemma exit_zero: "(\<exists>c. d = Some c \<and> exit_code c = 0) \<longleftrightarrow> d \<noteq> None \<and> get_exit_code d = 0"
  by (cases d) (auto simp: get_exit_code_def)

text \<open>A remediation fails with a text, or succeeds and was verified where there is a detection script.\<close>

lemma remediate_cases:
  assumes "remediate r p d E n w = (Inr (out, det, err), n', w')"
  obtains e where "err = Some e" and "error_text e \<noteq> ''''"
    | "err = None" and "sh_detection_script p = ''''"
    | n1 w1 where "err = None" and "runShell r p (sh_detection_script p) E n1 w1 = (Inr (det, None), n', w')"
        and "get_exit_code det = 0"
proof (cases "sh_script p = ''''")
  case True
  then show thesis using assms that(1) by (auto simp: remediate_def run_simps)
next
  case False
  then obtain o1 err1 n1 w1 where sh: "runShell r p (sh_script p) E n w = (Inr (o1, err1), n1, w1)"
    using assms by (auto simp: remediate_def run_simps)
  show thesis
  proof (cases "err1 \<noteq> None \<or> get_exit_code o1 \<noteq> 0")
    case True
    then show thesis using assms False sh that(1) runShell_error [of r p "sh_script p" E n w o1]
      by (cases err1) (auto simp: remediate_def bnd_def ret_def Let_def shell_exit_error_def)
  next
    case ok: False
    show thesis
    proof (cases "sh_detection_script p = ''''")
      case True
      then show thesis using assms False sh ok that(2) by (auto simp: remediate_def bnd_def ret_def)
    next
      case det: False
      then obtain v err2 n2 w2 where "runShell r p (sh_detection_script p) E n1 w1 = (Inr (v, err2), n2, w2)"
        using assms False sh ok by (auto simp: remediate_def bnd_def split: prod.splits sum.splits)
      then show thesis
        using assms False sh ok det that(1,3) runShell_error [of r p "sh_detection_script p" E n1 w1 v]
        by (cases err2) (auto simp: remediate_def bnd_def ret_def Let_def verify_exit_error_def split: if_splits)
    qed
  qed
qed

lemma remediate_error: "remediate r p d E n w = (Inr (out, det, Some e), n', w') \<Longrightarrow> error_text e \<noteq> ''''"
  by (erule remediate_cases) auto

lemma executeShell_cases:
  assumes "executeShell r (Some p) E n w = (Inr (out, det, err), n', w')"
  obtains "err = Some (EText ''compliance shell action requires a detection script'')"
    | o1 e where "err = Some e" and "runShell r p (sh_detection_script p) E n w = (Inr (o1, Some e), n', w')"
    | "err = None" and "runShell r p (sh_detection_script p) E n w = (Inr (det, None), n', w')"
        and "get_exit_code det = 0 \<or> sh_is_compliance p"
    | d n1 w1 where "remediate r p d E n1 w1 = (Inr (out, det, err), n', w')" and "\<not> sh_is_compliance p"
  using assms unfolding executeShell_def
  by (auto simp: run_simps split: option.splits if_splits prod.splits)

lemma executeShell_error: "executeShell r p E n w = (Inr (out, det, Some e), n', w') \<Longrightarrow> error_text e \<noteq> ''''"
proof (cases p)
  case None
  moreover assume "executeShell r p E n w = (Inr (out, det, Some e), n', w')"
  ultimately show ?thesis by (auto simp: executeShell_def run_simps)
next
  case (Some q)
  moreover assume "executeShell r p E n w = (Inr (out, det, Some e), n', w')"
  ultimately show ?thesis by (auto elim!: executeShell_cases dest: runShell_error remediate_error)
qed

lemma executeShell_verified:
  assumes "executeShell r (Some p) E n w = (Inr (out, det, None), n', w')" and "sh_detection_script p \<noteq> ''''"
    and "\<not> sh_is_compliance p"
  shows "\<exists>c. det = Some c \<and> exit_code c = 0"
  unfolding exit_zero
  using assms by (auto elim!: executeShell_cases remediate_cases dest: runShell_output)

lemma gets_world_run [run_simps]: "gets_world f E n w = (r, n', w') \<longleftrightarrow> r = Inr (f w) \<and> n' = n \<and> w' = w"
  by (auto simp: gets_world_def)

lemma finish_result_run [run_simps]:
  "finish res E n w = (r, n', w') \<longleftrightarrow> r = Inr (res\<lparr>res_completed_at := Some (clock E n)\<rparr>) \<and> n' = Suc n \<and> w' = w"
  by (auto simp: finish_def bnd_def ret_def now_def)

text \<open>The result of an action with an identifier, from the outcome of its kind.\<close>

lemma ExecuteAction_outcome:
  assumes "ExecuteAction ex (Some a) E n w = (Inr res, n', w')" and "act_id a = Some i"
  obtains ctx out det err n1 where "dispatch ex ctx a E n w = (Inr (out, det, err), n1, w')"
    and "res_action_id res = Some i" and "res_completed_at res = Some (clock E n1)"
    and "err = None \<Longrightarrow> res_status res = EXECUTION_STATUS_SUCCESS \<and> res_output res = out \<and> res_detection_output res = det"
    and "\<And>e. err = Some e \<Longrightarrow> res_status res \<in> {EXECUTION_STATUS_FAILED, EXECUTION_STATUS_TIMEOUT}"
    and "\<And>e. err = Some e \<Longrightarrow> error_text e \<noteq> '''' \<Longrightarrow>
      get_stderr (res_output res) \<noteq> '''' \<or> get_stderr (res_detection_output res) \<noteq> ''''"
proof -
  define ctx where "ctx = (if actionTimeout a > 0 then Some (actionTimeout a) else None)"
  from assms obtain out det err n1 where d: "dispatch ex ctx a E n w = (Inr (out, det, err), n1, w')"
    and r: "res = (let result = empty_action_result\<lparr>res_action_id := act_id a, res_output := out, res_detection_output := det\<rparr>;
        ce = ex_ctx_err ex ctx w' in
      (case err of None \<Rightarrow> result\<lparr>res_status := EXECUTION_STATUS_SUCCESS\<rparr>
        | Some e \<Rightarrow> if errors_is e DeadlineExceeded \<or> (\<exists>c. ce = Some c \<and> errors_is c DeadlineExceeded)
            then ensureResultError (result\<lparr>res_status := EXECUTION_STATUS_TIMEOUT\<rparr>) ''action timed out''
            else ensureResultError result (error_text e)))\<lparr>res_completed_at := Some (clock E n1)\<rparr>"
    by (auto simp: ExecuteAction_def Let_def run_simps ctx_def split: prod.splits)
  show thesis
  proof (rule that [OF d])
    fix e
    assume e: "err = Some e" and t: "error_text e \<noteq> ''''"
    show "get_stderr (res_output res) \<noteq> '''' \<or> get_stderr (res_detection_output res) \<noteq> ''''"
      using ensureResultError_text [OF t] ensureResultError_text [of "''action timed out''"]
      by (simp add: r Let_def e)
  qed (auto simp: r Let_def assms(2) empty_action_result_def split: option.splits)
qed

section \<open>The agent's executor\<close>

text \<open>The agent's executor on a machine.\<close>

definition agent_executor ::
  "(string \<Rightarrow> bool) \<Rightarrow> (string \<Rightarrow> string option) \<Rightarrow> machine \<Rightarrow> privilege_backend \<Rightarrow> executor" where
  "agent_executor isf lp M b = projr (NewExecutor isf lp (Some (runner_run M b)) (\<lambda>ctx w. h_ctx_err (M ctx w)))"

definition executor_lits :: "(string \<Rightarrow> string option) \<Rightarrow> string list" where
  "executor_lits lp = (case Detect lp of [] \<Rightarrow> [] | k # _ \<Rightarrow> manager_lits k)"

lemma pkg_New_number: "\<exists>m. pkg_New isf lp (backend_number k) (Some r) = Inr m"
  by (cases k) (simp_all add: pkg_New_def backend_number_def)

lemma agent_executor_eq:
  "NewExecutor isf lp (Some (runner_run M b)) (\<lambda>ctx w. h_ctx_err (M ctx w)) = Inr \<lparr>ex_runner = runner_run M b,
     ex_pkg = (\<lambda>ctx. case Detect lp of [] \<Rightarrow> None
       | k # _ \<Rightarrow> (case pkg_New isf lp (backend_number k) (Some (runner_run M b ctx)) of Inl _ \<Rightarrow> None | Inr m \<Rightarrow> Some m)),
     ex_ctx_err = (\<lambda>ctx w. h_ctx_err (M ctx w))\<rparr>"
proof (cases "Detect lp")
  case Nil
  then show ?thesis by (simp add: NewExecutor_def)
next
  case (Cons k ks)
  obtain m where "pkg_New isf lp (backend_number k) (Some (runner_run M b None)) = Inr m"
    using pkg_New_number by blast
  then show ?thesis using Cons by (simp add: NewExecutor_def)
qed

lemma NewExecutor_ok:
  "NewExecutor isf lp (Some (runner_run M b)) (\<lambda>ctx w. h_ctx_err (M ctx w)) = Inr (agent_executor isf lp M b)"
  by (simp add: agent_executor_def agent_executor_eq)

lemma agent_executor_runner: "ex_runner (agent_executor isf lp M b) = runner_run M b"
  by (simp add: agent_executor_def agent_executor_eq)

lemma agent_executor_ctx_err: "ex_ctx_err (agent_executor isf lp M b) ctx w = h_ctx_err (M ctx w)"
  by (simp add: agent_executor_def agent_executor_eq)

lemma agent_executor_pkg:
  "ex_pkg (agent_executor isf lp M b) ctx = Some m \<Longrightarrow> pkg_manager m (executor_lits lp)"
proof -
  assume m: "ex_pkg (agent_executor isf lp M b) ctx = Some m"
  then obtain k ks where k: "Detect lp = k # ks"
    and new: "pkg_New isf lp (backend_number k) (Some (runner_run M b ctx)) = Inr m"
    by (auto simp: agent_executor_def agent_executor_eq split: list.splits sum.splits)
  show ?thesis
    using pkg_New_contract [OF new] pkg_New_backend [OF new] k by (simp add: executor_lits_def)
qed

interpretation agent: executor_iface "agent_executor isf lp M b" "executor_lits lp"
proof (rule executor_iface.intro)
  show "runner_iface (ex_runner (agent_executor isf lp M b) ctx)" for ctx
    by (simp add: agent_executor_runner os_runner.runner_iface_axioms)
qed (rule agent_executor_pkg)

end
