(* ===== verification/Contract_Client.thy ===== *)
theory Contract_Client
  imports Contract "HOL-Library.AList"
begin

text \<open>
  \<^verbatim>\<open>contract/client.go\<close>: the frames of the agent stream and the client that owns it. A \<open>client\<close> has the identity of its
  stream, the table of pending calls and the channels it allocated; a channel is an index into them. Every function here is
  one critical section of the code (what runs under \<^verbatim>\<open>mu\<close> or \<^verbatim>\<open>pendingMu\<close>) or one channel operation; the goroutines that
  interleave them are in \<open>System_Connection\<close>. \<^verbatim>\<open>protovalidate.Validate\<close> and the transport are arguments.
\<close>

section \<open>Frames\<close>

record hello =
  hl_device_id :: "string option"
  hl_hostname :: string
  hl_agent_version :: string

datatype result_ack = RESULT_ACK_CODE_UNSPECIFIED | RESULT_ACK_CODE_ACCEPTED | RESULT_ACK_CODE_REJECTED

datatype agent_payload =
    Heartbeat | DesiredPolicyRequest | ActionResultFrame "action_result option" | HelloFrame hello | OtherFrame

record agent_message =
  msg_id :: "string option"
  msg_payload :: agent_payload

datatype server_payload = WelcomeFrame int | PolicyFrame desired_policy | AckFrame result_ack

type_synonym server_message = "string option \<times> server_payload"

section \<open>Channels\<close>

text \<open>A channel of capacity one. Sending on a closed channel and closing it again panic; sending on a full one waits.\<close>

record channel =
  ch_buffer :: "server_message option"
  ch_closed :: bool

definition new_channel :: channel where
  "new_channel = \<lparr>ch_buffer = None, ch_closed = False\<rparr>"

record client =
  cl_device_id :: string
  cl_stream :: "nat option"
  cl_pending :: "(string \<times> nat) list"
  cl_channels :: "channel list"

definition NewClient :: "string \<Rightarrow> client" where
  "NewClient deviceID = \<lparr>cl_device_id = deviceID, cl_stream = None, cl_pending = [], cl_channels = []\<rparr>"

datatype 'a go_outcome = Proceeds 'a | Waits | Panics

definition chan_send :: "nat \<Rightarrow> server_message \<Rightarrow> client \<Rightarrow> client go_outcome" where
  "chan_send ch m c = (
     if ch_closed (cl_channels c ! ch) then Panics
     else if ch_buffer (cl_channels c ! ch) \<noteq> None then Waits
     else Proceeds (c\<lparr>cl_channels := (cl_channels c)[ch := (cl_channels c ! ch)\<lparr>ch_buffer := Some m\<rparr>]\<rparr>))"

text \<open>\<open>None\<close> is the zero value that a receive from a closed and drained channel yields with \<^verbatim>\<open>ok = false\<close>.\<close>

definition chan_receive :: "nat \<Rightarrow> client \<Rightarrow> (server_message option \<times> client) go_outcome" where
  "chan_receive ch c = (case ch_buffer (cl_channels c ! ch) of
     Some m \<Rightarrow> Proceeds (Some m, c\<lparr>cl_channels := (cl_channels c)[ch := (cl_channels c ! ch)\<lparr>ch_buffer := None\<rparr>]\<rparr>)
   | None \<Rightarrow> if ch_closed (cl_channels c ! ch) then Proceeds (None, c) else Waits)"

primrec close_all :: "(string \<times> nat) list \<Rightarrow> channel list \<Rightarrow> channel list go_outcome" where
  "close_all [] chs = Proceeds chs"
| "close_all (p # ps) chs = (
     if ch_closed (chs ! snd p) then Panics
     else close_all ps (chs[snd p := (chs ! snd p)\<lparr>ch_closed := True\<rparr>]))"

section \<open>Pending calls\<close>

definition registerPending :: "string \<Rightarrow> client \<Rightarrow> nat \<times> client" where
  "registerPending i c = (length (cl_channels c),
     c\<lparr>cl_channels := cl_channels c @ [new_channel], cl_pending := AList.update i (length (cl_channels c)) (cl_pending c)\<rparr>)"

definition unregisterPending :: "string \<Rightarrow> client \<Rightarrow> client" where
  "unregisterPending i c = c\<lparr>cl_pending := AList.delete i (cl_pending c)\<rparr>"

text \<open>The critical section of \<^verbatim>\<open>deliverPending\<close>; the send on the channel comes after the lock is released.\<close>

definition take_pending :: "server_message \<Rightarrow> client \<Rightarrow> nat option \<times> client" where
  "take_pending m c = (let i = id_value (fst m) in (map_of (cl_pending c) i, c\<lparr>cl_pending := AList.delete i (cl_pending c)\<rparr>))"

definition deliverPending :: "server_message \<Rightarrow> client \<Rightarrow> (bool \<times> client) go_outcome" where
  "deliverPending m c = (case take_pending m c of
     (None, c) \<Rightarrow> Proceeds (False, c)
   | (Some ch, c) \<Rightarrow> (case chan_send ch m c of Proceeds c \<Rightarrow> Proceeds (True, c) | Waits \<Rightarrow> Waits | Panics \<Rightarrow> Panics))"

section \<open>The stream\<close>

definition closeStream :: "nat \<Rightarrow> client \<Rightarrow> client go_outcome" where
  "closeStream stream c = (
     if cl_stream c \<noteq> Some stream then Proceeds c
     else (case close_all (cl_pending c) (cl_channels c) of
       Proceeds chs \<Rightarrow> Proceeds (c\<lparr>cl_channels := chs, cl_pending := [], cl_stream := None\<rparr>)
     | Waits \<Rightarrow> Waits | Panics \<Rightarrow> Panics))"

text \<open>\<open>ctx_err\<close> is \<^verbatim>\<open>ctx.Err()\<close> and \<open>sent\<close> the error of \<^verbatim>\<open>stream.Send\<close>; the result is the error of \<^verbatim>\<open>client.send\<close>.\<close>

definition client_send :: "(agent_message \<Rightarrow> bool) \<Rightarrow> go_error option \<Rightarrow> go_error option \<Rightarrow> agent_message \<Rightarrow> client \<Rightarrow> go_error option" where
  "client_send valid ctx_err sent m c = (
     if \<not> valid m then Some (EWrap ''validate agent message'' (EText ''validation error''))
     else (case cl_stream c of
       None \<Rightarrow> Some (EText ''agent stream is not connected'')
     | Some _ \<Rightarrow> (case ctx_err of
         Some e \<Rightarrow> Some e
       | None \<Rightarrow> (case sent of Some e \<Rightarrow> Some (EWrap ''send agent message'' e) | None \<Rightarrow> None))))"

text \<open>The beginning of \<^verbatim>\<open>Run\<close>: \<open>stream\<close> is the new stream.\<close>

definition Run_open :: "nat \<Rightarrow> client \<Rightarrow> go_error + client" where
  "Run_open stream c = (case cl_stream c of
     Some _ \<Rightarrow> Inl (EText ''agent stream is already connected'')
   | None \<Rightarrow> Inr (c\<lparr>cl_stream := Some stream\<rparr>))"

definition hello_message :: "string \<Rightarrow> string \<Rightarrow> string \<Rightarrow> client \<Rightarrow> agent_message" where
  "hello_message i hostname agentVersion c = \<lparr>msg_id = Some i, msg_payload =
     HelloFrame \<lparr>hl_device_id = Some (cl_device_id c), hl_hostname = hostname, hl_agent_version = agentVersion\<rparr>\<rparr>"

text \<open>The \<^verbatim>\<open>switch\<close> of the loop, for a message that answers no call: \<open>started\<close> is \<^verbatim>\<open>heartbeatDone != nil\<close>, and the result tells
  whether to start the heartbeats.\<close>

definition Run_uncorrelated :: "bool \<Rightarrow> server_payload \<Rightarrow> go_error + bool" where
  "Run_uncorrelated started payload = (case payload of
     WelcomeFrame interval \<Rightarrow>
       if started then Inr False
       else if interval \<le> 0 then Inl (EText ''welcome heartbeat interval must be positive'')
       else Inr True
   | _ \<Rightarrow> Inl (EText ''unexpected uncorrelated server message''))"

definition heartbeat_message :: "string \<Rightarrow> agent_message" where
  "heartbeat_message i = \<lparr>msg_id = Some i, msg_payload = Heartbeat\<rparr>"

section \<open>Calls\<close>

definition ErrResultRejected :: go_error where
  "ErrResultRejected = ESentinel ''server rejected action result''"

definition result_message :: "string \<Rightarrow> action_result \<Rightarrow> agent_message" where
  "result_message i r = \<lparr>msg_id = Some i, msg_payload = ActionResultFrame (Some r)\<rparr>"

definition policy_message :: "string \<Rightarrow> agent_message" where
  "policy_message i = \<lparr>msg_id = Some i, msg_payload = DesiredPolicyRequest\<rparr>"

text \<open>What \<^verbatim>\<open>sendResult\<close> and \<^verbatim>\<open>PullDesiredPolicy\<close> make of what they receive from their channel.\<close>

definition result_response :: "server_message option \<Rightarrow> go_error option" where
  "result_response response = (case response of
     None \<Rightarrow> Some (EText ''agent stream closed before result acknowledgement'')
   | Some (_, AckFrame code) \<Rightarrow> (case code of
       RESULT_ACK_CODE_ACCEPTED \<Rightarrow> None
     | RESULT_ACK_CODE_REJECTED \<Rightarrow> Some ErrResultRejected
     | RESULT_ACK_CODE_UNSPECIFIED \<Rightarrow> Some (EText ''unknown action result acknowledgement code 0''))
   | Some _ \<Rightarrow> Some (EText ''unexpected action result response''))"

definition policy_response :: "server_message option \<Rightarrow> go_error + desired_policy" where
  "policy_response response = (case response of
     None \<Rightarrow> Inl (EText ''agent stream closed before desired policy response'')
   | Some (_, PolicyFrame p) \<Rightarrow> Inr p
   | Some _ \<Rightarrow> Inl (EText ''unexpected desired policy response''))"

section \<open>Lemmas\<close>

definition ch_idle :: "channel list \<Rightarrow> nat \<Rightarrow> bool" where
  "ch_idle chs ch \<longleftrightarrow> ch < length chs \<and> \<not> ch_closed (chs ! ch) \<and> ch_buffer (chs ! ch) = None"

lemma close_all_idle:
  assumes "distinct (map snd ps)" and "\<forall>p\<in>set ps. ch_idle chs (snd p)"
  shows "\<exists>chs'. close_all ps chs = Proceeds chs' \<and> length chs' = length chs \<and>
    (\<forall>ch < length chs. chs' ! ch = (if ch \<in> snd ` set ps then (chs ! ch)\<lparr>ch_closed := True\<rparr> else chs ! ch))"
  using assms
proof (induction ps arbitrary: chs)
  case (Cons p ps)
  let ?chs = "chs[snd p := (chs ! snd p)\<lparr>ch_closed := True\<rparr>]"
  have "ch_idle ?chs (snd q)" if "q \<in> set ps" for q
    using Cons.prems that by (auto simp: ch_idle_def nth_list_update image_iff)
  then obtain chs' where
    "close_all ps ?chs = Proceeds chs'" "length chs' = length ?chs"
    "\<forall>ch < length ?chs. chs' ! ch = (if ch \<in> snd ` set ps then (?chs ! ch)\<lparr>ch_closed := True\<rparr> else ?chs ! ch)"
    using Cons.IH [of ?chs] Cons.prems(1) by auto
  moreover have "\<not> ch_closed (chs ! snd p)" "snd p < length chs" using Cons.prems(2) by (simp_all add: ch_idle_def)
  ultimately show ?case using Cons.prems(1) by (auto simp: nth_list_update)
qed simp

lemma update_fresh: "k \<notin> fst ` set ps \<Longrightarrow> AList.update k v ps = ps @ [(k, v)]"
  by (induction ps) auto

lemma set_delete: "set (AList.delete k ps) = {p \<in> set ps. fst p \<noteq> k}"
  by (auto simp: AList.delete_eq)

lemma distinct_fst_delete: "distinct (map fst ps) \<Longrightarrow> distinct (map fst (AList.delete k ps))"
  by (rule distinct_delete)

lemma delete_absent: "map_of ps k = None \<Longrightarrow> AList.delete k ps = ps"
  by (induction ps) (auto split: if_splits)

section \<open>Enrolment and renewal\<close>

record register_request =
  rr_token :: string
  rr_csr :: bytes
  rr_hostname :: string
  rr_agent_version :: string

record register_response =
  rs_device_id :: string
  rs_ca_cert :: bytes
  rs_certificate :: bytes
  rs_control_url :: string

record register_agent_result =
  ra_device_id :: string
  ra_ca_cert :: bytes
  ra_certificate :: bytes
  ra_control_url :: string

text \<open>The unary calls. \<open>control\<close> is the generated client for a server URL, over the network; \<open>tls\<close> stands for the certificate, key and
  trusted CA of the mutual TLS that \<^verbatim>\<open>WithMTLSFromPEM\<close> sets up.\<close>

definition RegisterAgent :: "(string \<Rightarrow> register_request \<Rightarrow> ('w, register_response) prog) \<Rightarrow> string \<Rightarrow> string \<Rightarrow> string \<Rightarrow> string \<Rightarrow> bytes \<Rightarrow>
    ('w, register_agent_result) prog" where
  "RegisterAgent control controlURL token hostname agentVersion csr =
     bnd (map_err (EWrap ''register agent'') (control controlURL \<lparr>rr_token = token, rr_csr = csr, rr_hostname = hostname, rr_agent_version = agentVersion\<rparr>)) (\<lambda>msg.
     ret \<lparr>ra_device_id = rs_device_id msg, ra_ca_cert = rs_ca_cert msg, ra_certificate = rs_certificate msg, ra_control_url = rs_control_url msg\<rparr>)"

definition client_RenewCertificate :: "('tls \<Rightarrow> string \<Rightarrow> bytes \<Rightarrow> ('w, bytes) prog) \<Rightarrow> string \<Rightarrow> bytes \<Rightarrow> 'tls \<Rightarrow> ('w, bytes) prog" where
  "client_RenewCertificate control controlURL csr tls = map_err (EWrap ''renew certificate'') (control tls controlURL csr)"

end
