(* ===== verification/Agent_Scheduler.thy ===== *)
theory Agent_Scheduler
  imports Agent_Runs Agent_Executor Contract_Client
begin

text \<open>
  \<^verbatim>\<open>agent/internal/scheduler\<close> and the result sender of \<^verbatim>\<open>agent/cmd/cadestrod/runtime.go\<close>. The state joins the
  store, the processes spawned and the two wake-up channels (of capacity one, so a channel is
  a flag). Errors of the store are logged and end the pass, as in the code: the programs here
  never stop with an error. \<open>action_executor\<close> is the interface \<^verbatim>\<open>ActionExecutor\<close>; the agent's executor
  interprets it. \<open>send\<close> stands for \<^verbatim>\<open>client.SendActionResult\<close>, the remote end of the stream.
\<close>

record agent =
  ag_db :: agent_db
  ag_world :: world
  ag_results_ready :: bool
  ag_schedule_wake :: bool

definition in_store :: "(agent_db, 'a) prog \<Rightarrow> (agent, 'a) prog" where
  "in_store m = (\<lambda>E n s. case m E n (ag_db s) of (r, n', d) \<Rightarrow> (r, n', s\<lparr>ag_db := d\<rparr>))"

definition in_world :: "(world, 'a) prog \<Rightarrow> (agent, 'a) prog" where
  "in_world m = (\<lambda>E n s. case m E n (ag_world s) of (r, n', w) \<Rightarrow> (r, n', s\<lparr>ag_world := w\<rparr>))"

definition signalResultsReady :: "(agent, unit) prog" where
  "signalResultsReady = (\<lambda>E n s. (Inr (), n, s\<lparr>ag_results_ready := True\<rparr>))"

definition signalScheduleWake :: "(agent, unit) prog" where
  "signalScheduleWake = (\<lambda>E n s. (Inr (), n, s\<lparr>ag_schedule_wake := True\<rparr>))"

type_synonym action_exec = "action option \<Rightarrow> (world, action_result) prog"

section \<open>The scheduler\<close>

definition scheduler_ReconcilePolicy :: "codec \<Rightarrow> desired_policy option \<Rightarrow> (agent, unit) prog" where
  "scheduler_ReconcilePolicy C p = bnd (in_store (ReconcilePolicy C p)) (\<lambda>_. signalScheduleWake)"

definition executeAction :: "codec \<Rightarrow> action_exec \<Rightarrow> due_work \<Rightarrow> (agent, unit) prog" where
  "executeAction C exec w = handle (
     bnd now (\<lambda>started.
     bnd (in_store (BeginActionRun C (Some w) started)) (\<lambda>w.
     bnd (in_world (exec (Some (dw_action w)))) (\<lambda>r.
     bnd ctx_done (\<lambda>stop. if stop then ret () else
     bnd (lift_sum (ActionDigest C (Some (dw_action w)))) (\<lambda>digest.
     bnd (if res_completed_at r = None then bnd now (\<lambda>t. ret (Some t)) else ret (res_completed_at r)) (\<lambda>completed.
     bnd (in_store (RecordActionResult C (Some (r\<lparr>res_run_id := Some (dw_run_id w), res_action_digest := digest,
       res_completed_at := completed\<rparr>)))) (\<lambda>_.
     signalResultsReady)))))))) (\<lambda>e. ret ())"

fun run_items :: "codec \<Rightarrow> action_exec \<Rightarrow> due_work list \<Rightarrow> (agent, unit) prog" where
  "run_items C exec [] = ret ()"
| "run_items C exec (w # ws) = bnd ctx_done (\<lambda>stop. if stop then ret ()
     else bnd (executeAction C exec w) (\<lambda>_. run_items C exec ws))"

definition runDue :: "codec \<Rightarrow> action_exec \<Rightarrow> (agent, unit) prog" where
  "runDue C exec = handle (
     bnd (in_store (RecoverInterruptedActions C)) (\<lambda>recovered.
     bnd (if recovered > 0 then signalResultsReady else ret ()) (\<lambda>_.
     bnd (in_store (GetDueScheduledWork C)) (\<lambda>items.
     run_items C exec items)))) (\<lambda>e. ret ())"

section \<open>The connection's side\<close>

text \<open>\<open>send k r\<close> is the outcome of the \<open>k\<close>-th event: None acknowledges the result.\<close>

type_synonym sender = "nat \<Rightarrow> action_result \<Rightarrow> go_error option"

definition SendActionResult :: "sender \<Rightarrow> action_result \<Rightarrow> (agent, go_error option) prog" where
  "SendActionResult send r = (\<lambda>E n s. (Inr (send n r), Suc n, s))"

text \<open>Delivered or definitively refused: the row may go.\<close>

definition settled :: "go_error option \<Rightarrow> bool" where
  "settled v = (case v of None \<Rightarrow> True | Some e \<Rightarrow> errors_is e ErrResultRejected)"

fun sync_results :: "sender \<Rightarrow> (nat \<times> action_result) list \<Rightarrow> (agent, unit) prog" where
  "sync_results send [] = ret ()"
| "sync_results send ((q, r) # rs) = bnd (SendActionResult send r) (\<lambda>err.
     if settled err then bnd (in_store (DeletePendingResult q)) (\<lambda>_. sync_results send rs) else ret ())"

definition syncPendingResults :: "codec \<Rightarrow> sender \<Rightarrow> (agent, unit) prog" where
  "syncPendingResults C send = handle (
     bnd (in_store (GetPendingResults C)) (\<lambda>results. sync_results send results)) (\<lambda>e. ret ())"

text \<open>\<open>pull\<close> is \<^verbatim>\<open>client.PullDesiredPolicy\<close>; the result is the refresh interval, 0 on an error.\<close>

definition pullDesiredPolicyFromControl :: "codec \<Rightarrow> (nat \<Rightarrow> go_error + desired_policy) \<Rightarrow> (agent, int) prog" where
  "pullDesiredPolicyFromControl C pull = (\<lambda>E n s. case pull n of
     Inl e \<Rightarrow> (Inr 0, Suc n, s)
   | Inr policy \<Rightarrow> bnd (handle (scheduler_ReconcilePolicy C (Some policy)) (\<lambda>e. ret ()))
       (\<lambda>_. ret (wrap64 (refresh_interval_minutes policy * 60000000000))) E (Suc n) s)"

section \<open>Runs of lifted programs\<close>

lemma in_store_run [run_simps]:
  "in_store m E n s = (r, n', s') \<longleftrightarrow> (\<exists>d. m E n (ag_db s) = (r, n', d) \<and> s' = s\<lparr>ag_db := d\<rparr>)"
  by (auto simp: in_store_def split: prod.splits)

lemma in_world_run [run_simps]:
  "in_world m E n s = (r, n', s') \<longleftrightarrow> (\<exists>w. m E n (ag_world s) = (r, n', w) \<and> s' = s\<lparr>ag_world := w\<rparr>)"
  by (auto simp: in_world_def split: prod.splits)

lemma signal_run [run_simps]:
  "signalResultsReady E n s = (r, n', s') \<longleftrightarrow> r = Inr () \<and> n' = n \<and> s' = s\<lparr>ag_results_ready := True\<rparr>"
  "signalScheduleWake E n s = (r, n', s') \<longleftrightarrow> r = Inr () \<and> n' = n \<and> s' = s\<lparr>ag_schedule_wake := True\<rparr>"
  by (auto simp: signalResultsReady_def signalScheduleWake_def)

lemma send_run [run_simps]:
  "SendActionResult send x E n s = (r, n', s') \<longleftrightarrow> r = Inr (send n x) \<and> n' = Suc n \<and> s' = s"
  by (auto simp: SendActionResult_def)

definition db_inv :: "codec \<Rightarrow> agent \<Rightarrow> bool" where
  "db_inv C s \<longleftrightarrow> agent_inv C (ag_db s)"

lemma keeps_in_store:
  "(\<And>E n s r n' d. agent_inv C s \<Longrightarrow> m E n s = (r, n', d) \<Longrightarrow> agent_inv C d) \<Longrightarrow> keeps (db_inv C) (in_store m)"
  by (auto simp: keeps_def db_inv_def run_simps)

lemma keeps_in_world: "keeps (db_inv C) (in_world m)"
  by (auto simp: keeps_def db_inv_def run_simps)

lemma keeps_signal: "keeps (db_inv C) signalResultsReady" "keeps (db_inv C) signalScheduleWake"
  by (auto simp: keeps_def db_inv_def run_simps)

lemma BeginActionRun_inv:
  assumes "codec_laws C" and "agent_inv C s" and "BeginActionRun C w started E n s = (r, n', d)"
  shows "agent_inv C d"
  using assms begin_ledger(1) atomicD [OF BeginActionRun_atomic] by (cases r) blast+

lemma GetDueScheduledWork_readonly: "readonly (GetDueScheduledWork C)"
  unfolding GetDueScheduledWork_def GetDueScheduledWork_rows_def
  by (intro prog_rules readonly_basic)

section \<open>Every pass keeps the store well-formed\<close>

lemma RecordActionResult_inv:
  "codec_laws C \<Longrightarrow> agent_inv C s \<Longrightarrow> RecordActionResult C ores E n s = (r, n', d) \<Longrightarrow> agent_inv C d"
  using RecordActionResult_ledger by blast

lemma RecoverInterruptedActions_inv:
  "codec_laws C \<Longrightarrow> agent_inv C s \<Longrightarrow> RecoverInterruptedActions C E n s = (r, n', d) \<Longrightarrow> agent_inv C d"
  using RecoverInterruptedActions_ledger by blast

lemma executeAction_keeps: "codec_laws C \<Longrightarrow> keeps (db_inv C) (executeAction C exec w)"
  unfolding executeAction_def
  by (intro prog_rules keeps_in_store keeps_in_world keeps_signal keeps_readonly readonly_basic)
    (auto dest: BeginActionRun_inv RecordActionResult_inv)

lemma run_items_keeps: "codec_laws C \<Longrightarrow> keeps (db_inv C) (run_items C exec ws)"
proof (induction ws)
  case (Cons w ws)
  then show ?case
    by (simp, intro keeps_bnd keeps_branch executeAction_keeps) (simp_all add: keeps_readonly readonly_basic)
qed (simp add: keeps_readonly readonly_basic)

lemma runDue_keeps: "codec_laws C \<Longrightarrow> keeps (db_inv C) (runDue C exec)"
  unfolding runDue_def
  by (intro prog_rules keeps_in_store keeps_signal run_items_keeps keeps_readonly readonly_basic)
    (auto dest: RecoverInterruptedActions_inv readonlyD [OF GetDueScheduledWork_readonly])

section \<open>A run that ends is recorded\<close>

text \<open>The interface \<^verbatim>\<open>ActionExecutor\<close>: it always returns a result, for the action it was given and with a
  completion time.\<close>

lemma RecordActionResult_ok:
  assumes nofault: "\<And>k. \<not> fault E k" and enc: "marshal_result C r = Some pl"
    and wf: "id_value (res_action_id r) \<noteq> ''''" "id_value (res_run_id r) \<noteq> ''''" "res_completed_at r \<noteq> None"
      "length (res_action_digest r) = 32"
    and find: "List.find (finish_match (id_value (res_action_id r)) (id_value (res_run_id r)) (Some (res_action_digest r)))
      (works d) = Some b" and nret: "\<not> retired b"
  shows "\<exists>q n' d'. RecordActionResult C (Some r) E n d = (Inr q, n', d')"
  using assms by (auto simp: RecordActionResult_def marshalResult_def lift_sum_def transaction_def FinishScheduledRun_def
      InsertResultOutbox_def bnd_def ret_def sql_def Let_def)

locale action_executor =
  fixes exec :: action_exec
  assumes exec_returns: "returns (exec oa)"
    and exec_id: "exec (Some a) E n w = (Inr r, n', w') \<Longrightarrow> act_id a = Some i \<Longrightarrow> res_action_id r = Some i"
    and exec_completed: "exec oa E n w = (Inr r, n', w') \<Longrightarrow> res_completed_at r \<noteq> None"
begin

lemma executeAction_records:
  assumes laws: "codec_laws C" and inv: "agent_inv C (ag_db s)" and nofault: "\<And>k. \<not> fault E k"
    and run: "\<And>k. \<not> cancelled E k"
    and beg: "BeginActionRun C (Some w) (clock E n) E (Suc n) (ag_db s) = (Inr w', n1, d1)"
    and ex: "exec (Some (dw_action w')) E n1 (ag_world s) = (Inr r, n2, wd)"
    and rid: "dw_run_id w' \<noteq> ''''"
    and dig: "ActionDigest C (Some (dw_action w')) = Inr digest"
    and fin: "final = r\<lparr>res_run_id := Some (dw_run_id w'), res_action_digest := digest\<rparr>"
    and enc: "marshal_result C final = Some pl"
  shows "\<exists>n' s'. executeAction C exec w E n s = (Inr (), n', s') \<and> ag_results_ready s' \<and> ag_world s' = wd \<and>
    mset (runs_in_progress (ag_db s')) = mset (runs_in_progress (ag_db s)) \<and>
    outbox (ag_db s') = outbox (ag_db s) @ [\<lparr>sequence = Suc (outbox_seq (ag_db s)), payload = pl\<rparr>]"
proof -
  have u: "work.unique (works (ag_db s))" using inv by (rule agent_inv_unique)
  from BeginActionRun_run [OF beg u] obtain pre row rem a nw nxt dg where
    ws: "works (ag_db s) = pre @ row # rem" and r1: "runnable nw row"
    and a: "unmarshal_action C (action_blob row) = Some a" and dg: "ActionDigest C (Some a) = Inr dg"
    and w': "w' = w\<lparr>dw_action := a, dw_run_id := dw_run_id w'\<rparr>"
    and d1: "d1 = (ag_db s)\<lparr>works := pre @ begin_work (dw_run_id w') dg (clock E n) nxt row # rem\<rparr>"
    by metis
  have wa: "dw_action w' = a" using w' by (metis due_work.select_convs(1) due_work.surjective due_work.update_convs(1,3))
  then have digest: "dg = digest" using dg dig by simp
  have ok: "work_ok C row" using inv ws by (simp add: agent_inv_def)
  then have "id_value (act_id a) = work_id row" "work_id row \<noteq> ''''"
    using a by (auto simp: work_ok_def decodes_def)
  then have aid: "act_id a = Some (work_id row)" by (cases "act_id a") auto
  have rid2: "res_action_id r = Some (work_id row)" using exec_id [OF ex] aid wa by simp
  obtain t where t: "res_completed_at r = Some t" using exec_completed [OF ex] by auto
  let ?b = "begin_work (dw_run_id w') dg (clock E n) nxt row"
  have inv1: "agent_inv C d1" using begin_ledger(1) [OF laws inv beg] .
  have wf: "id_value (res_action_id final) = work_id row" "id_value (res_run_id final) = dw_run_id w'"
    "res_action_digest final = dg" "res_completed_at final \<noteq> None" "length dg = 32"
    using rid2 t digest ActionDigest_length [OF laws dig] by (simp_all add: fin)
  have match: "finish_match (work_id row) (dw_run_id w') (Some dg) ?b"
    by (simp add: finish_match_def begin_work_def)
  have find: "List.find (finish_match (work_id row) (dw_run_id w') (Some dg)) (works d1) = Some ?b"
  proof (rule work.find_key [OF agent_inv_unique [OF inv1]])
    show "?b \<in> set (works d1)" by (simp add: d1)
  qed (use match in \<open>auto simp: finish_match_def begin_work_def\<close>)
  have "\<not> retired ?b" using r1 by (simp add: begin_work_def runnable_def)
  then obtain q n4 d2 where rec: "RecordActionResult C (Some final) E (Suc n2) d1 = (Inr q, n4, d2)"
    using RecordActionResult_ok [OF nofault enc] find wf rid \<open>work_id row \<noteq> ''''\<close> by fastforce
  from RecordActionResult_run [OF rec agent_inv_unique [OF inv1]] enc have
    box: "outbox d2 = outbox d1 @ [\<lparr>sequence = Suc (outbox_seq d1), payload = pl\<rparr>]" by fastforce
  have "ledger C d2 = ledger C d1" using RecordActionResult_ledger [OF laws inv1 rec] by simp
  moreover have "ledger C d1 = add_mset (dw_run_id w') (ledger C (ag_db s))" by (rule begin_ledger(2) [OF laws inv beg])
  moreover have "mset (runs_in_outbox C d2) = add_mset (dw_run_id w') (mset (runs_in_outbox C (ag_db s)))"
    using box codec_result [OF laws enc] by (simp add: runs_in_outbox_def d1 box_run_def fin)
  ultimately have prog: "mset (runs_in_progress d2) = mset (runs_in_progress (ag_db s))"
    by (simp add: ledger_def)
  have "r\<lparr>res_run_id := Some (dw_run_id w'), res_action_digest := digest, res_completed_at := Some t\<rparr> = final"
    using t by (cases r) (simp add: fin)
  then have "executeAction C exec w E n s = (Inr (), n4, s\<lparr>ag_db := d2, ag_world := wd, ag_results_ready := True\<rparr>)"
    using beg ex rec dig run t
    by (simp add: executeAction_def handle_def bnd_def now_def in_store_def in_world_def ctx_done_def lift_sum_def ret_def
        signalResultsReady_def)
  then show ?thesis using box prog d1 by simp
qed

end

lemma ExecuteAction_completed:
  "ExecuteAction ex oa E n w = (Inr r, n', w') \<Longrightarrow> res_completed_at r \<noteq> None"
  by (auto simp: ExecuteAction_def Let_def run_simps split: option.splits if_splits prod.splits)

lemma ExecuteAction_id:
  "ExecuteAction ex (Some a) E n w = (Inr r, n', w') \<Longrightarrow> act_id a = Some i \<Longrightarrow> res_action_id r = Some i"
  by (erule ExecuteAction_outcome) auto

interpretation agent_exec: action_executor "ExecuteAction (agent_executor isf lp M b)"
  by unfold_locales (auto intro: agent.ExecuteAction_returns dest: ExecuteAction_completed ExecuteAction_id)

section \<open>Results leave the outbox in order\<close>

lemma GetPendingResults_run:
  assumes "GetPendingResults C E n d = (Inr rs, n', d')"
  shows "d' = d" and "list_all2 (\<lambda>b (q, r). q = sequence b \<and> unmarshal_result C (payload b) = Some r)
    (sort_key sequence (outbox d)) rs"
proof -
  let ?f = "\<lambda>row. case unmarshal_result C (payload row) of
      None \<Rightarrow> throw (EText ''proto: cannot parse'') | Some r \<Rightarrow> ret (sequence row, r)"
  have loop: "map_prog ?f bs E m s = (Inr xs, m', s') \<Longrightarrow>
      s' = s \<and> list_all2 (\<lambda>b (q, r). q = sequence b \<and> unmarshal_result C (payload b) = Some r) bs xs" for bs xs m m' s s'
    by (induction bs arbitrary: xs m s) (auto simp: run_simps split: option.splits)
  have "map_prog ?f (sort_key sequence (outbox d)) E (Suc n) d = (Inr rs, n', d')"
    using assms by (auto simp: GetPendingResults_def GetPendingResults_rows_def run_simps)
  from loop [OF this] show "d' = d" and "list_all2 (\<lambda>b (q, r). q = sequence b \<and> unmarshal_result C (payload b) = Some r)
      (sort_key sequence (outbox d)) rs"
    by blast+
qed

text \<open>The loop removes a prefix of the rows it was given, each settled by the remote end.\<close>

lemma sync_results_run:
  assumes "list_all2 (\<lambda>b (q, r). q = sequence b \<and> unmarshal_result C (payload b) = Some r) bs rs"
    and "outbox (ag_db s) = bs" and "box.unique (bs :: outbox_row list)"
    and "sync_results send rs E n s = (r, n', s')"
  shows "\<exists>k. outbox (ag_db s') = drop k bs \<and> works (ag_db s') = works (ag_db s) \<and> ag_world s' = ag_world s \<and>
    (\<forall>b\<in>set (take k bs). \<exists>m x. unmarshal_result C (payload b) = Some x \<and> settled (send m x))"
  using assms
proof (induction rs arbitrary: bs s n rule: list.induct)
  case Nil
  then show ?case by (intro exI [of _ 0]) (auto simp: run_simps)
next
  case (Cons p rs)
  obtain q x where p: "p = (q, x)" by (cases p)
  obtain b bs' where bs: "bs = b # bs'" and q: "q = sequence b" and x: "unmarshal_result C (payload b) = Some x"
    and tl: "list_all2 (\<lambda>b (q, r). q = sequence b \<and> unmarshal_result C (payload b) = Some r) bs' rs"
    using Cons.prems(1) p by (auto simp: list_all2_Cons2)
  have uniq: "box.unique bs'" and del: "del_rows (\<lambda>c. sequence c = sequence b) bs = bs'"
    using Cons.prems(3) box.del_key_split [of "[]" b bs'] by (simp_all add: bs box.unique_def)
  show ?case
  proof (cases "settled (send n x)")
    case False
    then have "s' = s" using Cons.prems(4) by (auto simp: p run_simps SendActionResult_def bnd_def ret_def)
    then show ?thesis using Cons.prems(2) by (intro exI [of _ 0]) simp
  next
    case True
    let ?s1 = "s\<lparr>ag_db := (ag_db s)\<lparr>outbox := bs'\<rparr>\<rparr>"
    consider (fail) "s' = s" | (go) m where "sync_results send rs E m ?s1 = (r, n', s')"
      using Cons.prems(2,4) True del
      by (auto simp: p q SendActionResult_def bnd_def in_store_def DeletePendingResult_def sql_def split: if_splits)
    then show ?thesis
    proof cases
      case fail
      then show ?thesis using Cons.prems(2) by (intro exI [of _ 0]) simp
    next
      case go
      obtain k where "outbox (ag_db s') = drop k bs'" "works (ag_db s') = works (ag_db s)" "ag_world s' = ag_world s"
        "\<forall>b\<in>set (take k bs'). \<exists>m x. unmarshal_result C (payload b) = Some x \<and> settled (send m x)"
        using Cons.IH [OF tl _ uniq go] by auto
      then show ?thesis using True x by (intro exI [of _ "Suc k"]) (auto simp: bs)
    qed
  qed
qed

lemma agent_inv_outbox:
  "agent_inv C d \<Longrightarrow> box.unique (outbox d) \<and> sort_key sequence (outbox d) = outbox d"
proof -
  assume "agent_inv C d"
  then have s: "sorted_wrt (<) (map sequence (outbox d))" by (simp add: agent_inv_def)
  then have "sorted (map sequence (outbox d))" by (rule sorted_wrt_mono_rel [rotated]) simp
  then have "sort_key sequence (outbox d) = outbox d"
    by (rule sort_key_id_if_sorted)
  then show ?thesis using s by (simp add: box.unique_def strict_sorted_iff)
qed

lemma syncPendingResults_run:
  assumes inv: "agent_inv C (ag_db s)" and run: "syncPendingResults C send E n s = (r, n', s')"
  shows "\<exists>k. outbox (ag_db s') = drop k (outbox (ag_db s)) \<and> works (ag_db s') = works (ag_db s) \<and>
    ag_world s' = ag_world s \<and>
    (\<forall>b\<in>set (take k (outbox (ag_db s))). \<exists>m x. unmarshal_result C (payload b) = Some x \<and> settled (send m x))"
proof (cases "GetPendingResults C E n (ag_db s)")
  case (fields r1 n1 d1)
  show ?thesis
  proof (cases r1)
    case (Inl e)
    have "readonly (GetPendingResults C)"
      unfolding GetPendingResults_def GetPendingResults_rows_def by (intro prog_rules readonly_basic)
    then have "d1 = ag_db s" using fields by (rule readonlyD)
    then have "s' = s" using run fields Inl
      by (simp add: syncPendingResults_def handle_def bnd_def in_store_def ret_def)
    then show ?thesis by (intro exI [of _ 0]) simp
  next
    case (Inr rs)
    note got = GetPendingResults_run [OF fields [unfolded Inr]]
    obtain r2 n2 where loop: "sync_results send rs E n1 s = (r2, n2, s')"
      using run fields Inr got(1)
      by (auto simp: syncPendingResults_def handle_def bnd_def in_store_def ret_def split: sum.splits prod.splits)
    show ?thesis
      using sync_results_run [OF _ refl _ loop] got(2) agent_inv_outbox [OF inv] by simp
  qed
qed

end
