(* ===== verification/Agent_Store_Props.thy ===== *)
theory Agent_Store_Props
  imports Agent_Runs
begin

text \<open>
  The guarantees of the agent's store: exactly-once recording of runs, reconciliation with
  the desired policy, recovery after an interruption, and the schedule arithmetic. The last
  section builds a small concrete store that the closed instances run on.
\<close>

section \<open>Recovery always succeeds\<close>

lemma recover_one_succeeds:
  assumes nofault: "\<And>k. \<not> fault E k" and inv: "agent_inv C s"
    and row: "row \<in> set (works s)" "run_in_progress row"
    and enc: "marshal_result C (interrupted_result row (clock E n)) \<noteq> None"
  shows "\<exists>n' s'. recover_one C row E n s = (Inr (), n', s') \<and>
    (\<forall>w\<in>set (works s). work_id w \<noteq> work_id row \<longrightarrow> w \<in> set (works s'))"
proof -
  have "work_ok C row" using inv row by (simp add: agent_inv_def)
  then obtain rid d where rid: "run_id row = Some rid" and d: "run_action_digest row = Some d"
    using row by (auto simp: work_ok_def)
  let ?p = "finish_match (work_id row) rid (Some d)"
  have "?p row" using row rid d by (simp add: finish_match_def)
  then have f: "List.find ?p (works s) = Some row"
    by (rule work.find_key [OF agent_inv_unique [OF inv] row(1)]) (simp add: finish_match_def)
  obtain pl where pl: "marshal_result C (interrupted_result row (clock E n)) = Some pl"
    using enc by auto
  show ?thesis
    by (auto simp: recover_one_def FinishScheduledRun_def InsertResultOutbox_def DeleteRetiredWork_def
        marshalResult_def lift_sum_def ret_def throw_def bnd_def now_def sql_def nofault f pl rid d
        Let_def map_err_def handle_def upd_rows_def finish_match_def)
qed

lemma recover_loop_succeeds:
  assumes laws: "codec_laws C" and nofault: "\<And>k. \<not> fault E k"
  shows "agent_inv C s \<Longrightarrow> distinct (map work_id rows) \<Longrightarrow>
    (\<And>row. row \<in> set rows \<Longrightarrow> row \<in> set (works s) \<and> run_in_progress row) \<Longrightarrow>
    (\<And>row k. row \<in> set rows \<Longrightarrow> marshal_result C (interrupted_result row (clock E k)) \<noteq> None) \<Longrightarrow>
    \<exists>n' s'. for_each (recover_one C) rows E n s = (Inr (), n', s')"
proof (induction rows arbitrary: s n)
  case Nil
  then show ?case by (simp add: ret_def)
next
  case (Cons row rows)
  obtain n1 s1 where one: "recover_one C row E n s = (Inr (), n1, s1)"
    and keep: "\<And>w. w \<in> set (works s) \<Longrightarrow> work_id w \<noteq> work_id row \<Longrightarrow> w \<in> set (works s1)"
    using recover_one_succeeds [OF nofault Cons.prems(1), of row n] Cons.prems(3,4) by auto
  have "agent_inv C s1" using recover_one_ledger(1) [OF laws Cons.prems(1) one] .
  moreover have "r \<in> set (works s1) \<and> run_in_progress r" if "r \<in> set rows" for r
    using that Cons.prems(2,3) keep [of r] by (auto simp: image_iff)
  ultimately obtain n' s' where "for_each (recover_one C) rows E n1 s1 = (Inr (), n', s')"
    using Cons.IH [of s1 n1] Cons.prems(2,4) by auto
  then show ?case using one by (simp add: bnd_def)
qed

lemma recover_succeeds:
  assumes laws: "codec_laws C" and nofault: "\<And>k. \<not> fault E k" and inv: "agent_inv C s"
    and enc: "\<And>row k. row \<in> set (works s) \<Longrightarrow> marshal_result C (interrupted_result row (clock E k)) \<noteq> None"
  shows "\<exists>k n' s'. RecoverInterruptedActions C E n s = (Inr k, n', s')"
proof -
  let ?rows = "sort_key work_id (filter run_in_progress (works s))"
  have "mset (map work_id ?rows) = mset (map work_id (filter run_in_progress (works s)))"
    by (simp only: mset_map mset_sort)
  moreover have "distinct (map work_id (filter run_in_progress (works s)))"
    using inv by (simp add: agent_inv_def work.unique_def distinct_map_filter)
  ultimately have d: "distinct (map work_id ?rows)"
    by (metis mset_eq_imp_distinct_iff)
  have "\<exists>n1 s1. for_each (recover_one C) ?rows E (Suc (Suc n)) s = (Inr (), n1, s1)"
    by (rule recover_loop_succeeds [OF laws nofault inv d]) (simp_all add: enc)
  then obtain n1 s1 where "for_each (recover_one C) ?rows E (Suc (Suc n)) s = (Inr (), n1, s1)"
    by blast
  then show ?thesis
    by (simp add: RecoverInterruptedActions_def ListInterruptedWork_def transaction_def query_def
        sql_def bnd_def ret_def nofault)
qed

section \<open>Reconciliation reaches the desired set\<close>

text \<open>The active work of a table: what is not retired, with the action it holds.\<close>

definition active_actions :: "codec \<Rightarrow> agent_db \<Rightarrow> action option set" where
  "active_actions C s = (\<lambda>w. unmarshal_action C (action_blob w)) ` {w \<in> set (works s). \<not> retired w}"

lemma reconcile_writes:
  assumes run: "for_each (reconcile_existing C cur nw) rows E n s = (Inr u, n', s')"
    and w: "w \<in> set rows" and a: "map_of cur (work_id w) = Some a"
    and "retired w \<or> unmarshal_action C (action_blob w) \<noteq> Some a"
  shows "marshal_action C a \<noteq> None"
  using run w
proof (induction rows arbitrary: s n)
  case (Cons r rows)
  from Cons.prems(1) obtain u1 n1 s1 where
    one: "reconcile_existing C cur nw r E n s = (Inr u1, n1, s1)" and
    rest: "for_each (reconcile_existing C cur nw) rows E n1 s1 = (Inr u, n', s')"
    by (auto simp: run_simps)
  show ?case
  proof (cases "w = r")
    case True
    then show ?thesis
      using one a assms(4) by (auto simp: reconcile_existing_def run_simps split: if_splits)
  next
    case False
    then show ?thesis using Cons.IH [OF rest] Cons.prems(2) by simp
  qed
qed simp

lemma insert_writes:
  assumes run: "for_each (reconcile_insert C ivt nw) cur E n s = (Inr u, n', s')"
    and "(i, a) \<in> set cur" and "i \<notin> work_id ` set ivt"
  shows "marshal_action C a \<noteq> None"
  using run assms(2)
proof (induction cur arbitrary: s n)
  case (Cons c cur)
  from Cons.prems(1) obtain u1 n1 s1 where
    one: "reconcile_insert C ivt nw c E n s = (Inr u1, n1, s1)" and
    rest: "for_each (reconcile_insert C ivt nw) cur E n1 s1 = (Inr u, n', s')"
    by (auto simp: run_simps)
  show ?case
  proof (cases "c = (i, a)")
    case True
    then show ?thesis
      using one assms(3) by (auto simp: reconcile_insert_def run_simps split: if_splits)
  next
    case False
    then show ?thesis using Cons.IH [OF rest] Cons.prems(2) by auto
  qed
qed simp

lemma ReconcilePolicy_writes:
  assumes run: "ReconcilePolicy C (Some p) E n s = (Inr u, n', s')" and inv: "agent_inv C s"
    and cur: "current_actions (policy_actions p) [] = Inr cur" and ia: "(i, a) \<in> set cur"
  shows "marshal_action C a \<noteq> None \<or>
    (\<exists>w\<in>set (works s). work_id w = i \<and> \<not> retired w \<and> unmarshal_action C (action_blob w) = Some a)"
proof -
  let ?nw = "clock E (n + 2)"
  from run cur obtain u1 n1 s1 n2 where
    l1: "for_each (reconcile_existing C cur ?nw) (works s) E (n + 3) s = (Inr u1, n1, s1)"
    and l2: "for_each (reconcile_insert C (works s) ?nw) cur E n1 s1 = (Inr u, n2, s')"
    by (auto simp: ReconcilePolicy_def ListAllWork_def run_simps numeral_2_eq_2 numeral_3_eq_3)
  have m: "map_of cur i = Some a" using ia current_actions_ok(1) [OF cur] by simp
  show ?thesis
  proof (cases "i \<in> work_id ` set (works s)")
    case False
    then show ?thesis using insert_writes [OF l2 ia] by simp
  next
    case True
    then obtain w where "w \<in> set (works s)" "work_id w = i" by auto
    then show ?thesis using reconcile_writes [OF l1, of w a] m by blast
  qed
qed

lemma reconciled_active:
  assumes laws: "codec_laws C" and cur: "current_actions as [] = Inr cur" and inv: "agent_inv C s"
    and writes: "\<And>i a. (i, a) \<in> set cur \<Longrightarrow> marshal_action C a \<noteq> None \<or>
      (\<exists>w\<in>set (works s). work_id w = i \<and> \<not> retired w \<and> unmarshal_action C (action_blob w) = Some a)"
  shows "active_actions C (s\<lparr>works := reconciled C cur nw (works s)\<rparr>) = set as" (is "?l = _")
proof -
  note d = current_actions_ok(1) [OF cur]
  have as: "set as = (Some \<circ> snd) ` set cur"
    using current_actions_ok(3) [OF cur] by (metis set_map)
  have uniq: "work.unique (works s)" using inv by auto
  have wr: "\<not> retired w \<and> unmarshal_action C (action_blob w) = Some a \<or> (\<exists>b. marshal_action C a = Some b)"
    if "w \<in> set (works s)" and "(work_id w, a) \<in> set cur" for w a
    using writes [OF that(2)] work.unique_eq [OF uniq that(1)] by (metis not_None_eq)
  have "Some a \<in> ?l" if ia: "(i, a) \<in> set cur" for i a
  proof -
    have m: "map_of cur i = Some a" using ia d by simp
    show ?thesis
    proof (cases "i \<in> work_id ` set (works s)")
      case True
      then obtain w where w: "w \<in> set (works s)" "work_id w = i" by auto
      have "\<not> retired w \<and> unmarshal_action C (action_blob w) = Some a \<or> (\<exists>b. marshal_action C a = Some b)"
        using wr w ia by blast
      then have "\<exists>w'. reconcile_row C cur nw w = Some w' \<and> \<not> retired w' \<and> unmarshal_action C (action_blob w') = Some a"
        using w m codec_action [OF laws, of a] by (cases "marshal_action C a") (auto simp: reconcile_row_def)
      then show ?thesis
        using w by (force simp: active_actions_def reconciled_def set_map_filter)
    next
      case False
      then obtain b where b: "marshal_action C a = Some b" using writes [OF ia] by auto
      then have "inserted_row C (works s) nw (i, a) = Some (new_work i b nw nw)"
        using False by (simp add: inserted_row_def)
      then show ?thesis
        using ia codec_action [OF laws b]
        by (force simp: active_actions_def reconciled_def set_map_filter new_work_def)
    qed
  qed
  moreover have "x \<in> (Some \<circ> snd) ` set cur" if "x \<in> ?l" for x
  proof -
    from that obtain w where w: "w \<in> set (reconciled C cur nw (works s))" "\<not> retired w"
      and x: "x = unmarshal_action C (action_blob w)"
      by (auto simp: active_actions_def)
    then consider (old) v where "v \<in> set (works s)" "reconcile_row C cur nw v = Some w"
      | (new) ia where "ia \<in> set cur" "inserted_row C (works s) nw ia = Some w"
      by (auto simp: reconciled_def set_map_filter)
    then show ?thesis
    proof cases
      case old
      then obtain a where a: "map_of cur (work_id v) = Some a"
        using w(2) by (auto simp: reconcile_row_def split: option.splits if_splits)
      then have mem: "(work_id v, a) \<in> set cur" by (rule map_of_SomeD)
      have "\<not> retired v \<and> unmarshal_action C (action_blob v) = Some a \<or> (\<exists>b. marshal_action C a = Some b)"
        using wr old(1) mem by blast
      then have "x = Some a"
        using old(2) a x codec_action [OF laws, of a]
        by (cases "marshal_action C a") (auto simp: reconcile_row_def split: if_splits)
      then show ?thesis using mem by force
    next
      case new
      then obtain b where b: "marshal_action C (snd ia) = Some b" and "action_blob w = b"
        by (auto simp: inserted_row_def new_work_def split: if_splits prod.splits)
      then have "x = Some (snd ia)" using x codec_action [OF laws b] by simp
      then show ?thesis using new(1) by force
    qed
  qed
  ultimately show ?thesis using as by force
qed


section \<open>A concrete store\<close>

definition demo_action :: action where
  "demo_action = \<lparr>act_id = Some ''A'', act_desired_state = DESIRED_STATE_PRESENT,
     act_timeout_seconds = 0, act_schedule = Some 1, act_params = Some ActionUpdate\<rparr>"

definition demo_result :: action_result where
  "demo_result = \<lparr>res_action_id = Some ''A'', res_status = EXECUTION_STATUS_INDETERMINATE,
     res_output = Some (empty_output\<lparr>out_stderr := ''interrupted action run''\<rparr>),
     res_detection_output = None, res_completed_at = Some 7, res_run_id = Some ''R'',
     res_action_digest = ''a0000000000000000000000000000000''\<rparr>"

definition demo_codec :: codec where
  "demo_codec = table_codec [(demo_action, ''a'')] [(demo_result, ''r'')]"

definition demo_env :: env where
  "demo_env = \<lparr>fault = (\<lambda>_. False), clock = (\<lambda>_. 7), ulid = (\<lambda>_. ''R''), cancelled = (\<lambda>_. False)\<rparr>"

definition demo_policy :: desired_policy where
  "demo_policy = \<lparr>refresh_interval_minutes = 5, policy_actions = [Some demo_action]\<rparr>"

definition demo_due :: due_work where
  "demo_due = \<lparr>dw_action = demo_action, dw_work_id = ''A'', dw_run_id = ''''\<rparr>"

definition demo_idle :: agent_db where
  "demo_idle = \<lparr>works = [new_work ''A'' ''a'' 7 7], outbox = [], outbox_seq = 0\<rparr>"

definition demo_running :: agent_db where
  "demo_running = \<lparr>works = [begin_work ''R'' ''a0000000000000000000000000000000'' 7 3600000000007
     (new_work ''A'' ''a'' 7 7)], outbox = [], outbox_seq = 0\<rparr>"

definition demo_done :: agent_db where
  "demo_done = \<lparr>works = [finish_work (begin_work ''R'' ''a0000000000000000000000000000000'' 7 3600000000007
     (new_work ''A'' ''a'' 7 7))], outbox = [\<lparr>sequence = 1, payload = ''r''\<rparr>], outbox_seq = 1\<rparr>"

lemmas prog_defs = bnd_def ret_def throw_def sql_def query_def query_one_def transaction_def now_def
  ulid_make_def ctx_done_def lift_sum_def map_err_def handle_def require_def

lemmas demo_defs = demo_codec_def demo_env_def table_codec_def

lemma demo_codec_laws: "codec_laws demo_codec"
  by (simp add: demo_codec_def table_codec_laws)

lemma demo_reconcile: "ReconcilePolicy demo_codec (Some demo_policy) demo_env 0 empty_db = (Inr (), 5, demo_idle)"
  by (simp add: ReconcilePolicy_def prog_defs agent_statement_defs reconcile_insert_def marshalAction_def
      demo_defs demo_policy_def demo_idle_def empty_db_def new_work_def)
    (simp add: demo_action_def prog_defs agent_statement_defs reconcile_insert_def marshalAction_def new_work_def)

lemma demo_begin: "BeginActionRun demo_codec (Some demo_due) 7 demo_env 0 demo_idle =
  (Inr (demo_due\<lparr>dw_run_id := ''R''\<rparr>), 6, demo_running)"
  by (simp add: BeginActionRun_def prog_defs agent_statement_defs decodeAction_def ActionDigest_def
      demo_defs demo_due_def demo_idle_def demo_running_def new_work_def begin_work_def runnable_def
      count_rows_def)
    (simp add: demo_action_def calculateNextExecuteFromSchedule_def schedule_interval_def interval_hours_def
      nanos_per_hour_def clampInterval_def Let_def numeral_eq_Suc)

lemma demo_recover: "RecoverInterruptedActions demo_codec demo_env 0 demo_running = (Inr 1, 6, demo_done)"
  by (simp add: RecoverInterruptedActions_def recover_one_def prog_defs agent_statement_defs marshalResult_def
      demo_defs demo_running_def demo_done_def new_work_def begin_work_def finish_match_def finish_work_def
      interrupted_result_def demo_result_def)


definition demo_sys :: agent_sys where
  "demo_sys = \<lparr>store = demo_done, begun = [''R''], acked = []\<rparr>"

lemma demo_reachable: "agent_reachable demo_codec demo_sys"
proof -
  have "agent_reachable demo_codec (init_sys\<lparr>store := demo_idle\<rparr>)"
    using demo_reconcile
    by (intro agent_reachable.step [OF agent_reachable.start] agent_step.reconcile) (simp add: init_sys_def)
  moreover have "agent_step demo_codec (init_sys\<lparr>store := demo_idle\<rparr>)
      \<lparr>store = demo_running, begun = [''R''], acked = []\<rparr>"
    using agent_step.begin_ok [of demo_codec "Some demo_due" 7 demo_env 0 "init_sys\<lparr>store := demo_idle\<rparr>"
        "demo_due\<lparr>dw_run_id := ''R''\<rparr>" 6 demo_running] demo_begin
    by (simp add: init_sys_def)
  ultimately have "agent_reachable demo_codec \<lparr>store = demo_running, begun = [''R''], acked = []\<rparr>"
    by (rule agent_reachable.step)
  then have "agent_reachable demo_codec (\<lparr>store = demo_running, begun = [''R''], acked = []\<rparr>\<lparr>store := demo_done\<rparr>)"
    using demo_recover by (intro agent_reachable.step [OF _ agent_step.recover]) auto
  then show ?thesis by (simp add: demo_sys_def)
qed

lemma demo_inv: "agent_inv demo_codec demo_running" "agent_inv demo_codec demo_idle"
  by (simp_all add: agent_inv_def demo_running_def demo_idle_def work.unique_def work_ok_def decodes_def
      begin_work_def new_work_def demo_defs demo_action_def)

section \<open>Properties\<close>

text \<open>C1. Exactly-once recording of runs. In every state the agent's store can reach, by any
  interleaving of policy refreshes, run starts, result recordings, recoveries and
  acknowledgements, with any driver failures in between, no run identifier was handed out
  twice, and every run begun is in exactly one place: in progress, in the result outbox, or
  acknowledged by the server.\<close>

theorem agent_runs_exactly_once:
  assumes "codec_laws C" and "agent_reachable C s"
  shows "distinct (begun s) \<and>
    mset (begun s) = mset (runs_in_progress (store s)) + mset (runs_in_outbox C (store s)) + mset (acked s)"
  using agent_reachable_inv [OF assms] by (simp add: sys_inv_def ledger_def)

theorem agent_runs_exactly_once_witness:
  "codec_laws demo_codec \<and> agent_reachable demo_codec demo_sys \<and> runs_in_outbox demo_codec (store demo_sys) = [''R''] \<and>
   distinct (begun demo_sys) \<and> mset (begun demo_sys) =
     mset (runs_in_progress (store demo_sys)) + mset (runs_in_outbox demo_codec (store demo_sys)) + mset (acked demo_sys)"
  using agent_runs_exactly_once [OF demo_codec_laws demo_reachable] demo_codec_laws demo_reachable
  by (simp add: runs_in_outbox_def demo_sys_def demo_done_def box_run_def demo_defs demo_result_def)

text \<open>C2. Reconciliation is a transaction that computes \<open>reconciled\<close>: on success the work table
  is that function of the old table, the policy's entries and the clock; on any error,
  including every driver failure, the store is unchanged.\<close>

theorem ReconcilePolicy_refines:
  assumes "agent_inv C s" and "ReconcilePolicy C (Some p) E n s = (r, n', s')"
  shows "case r of Inl e \<Rightarrow> s' = s
    | Inr u \<Rightarrow> (\<exists>cur. current_actions (policy_actions p) [] = Inr cur \<and>
        s' = s\<lparr>works := reconciled C cur (clock E (n + 2)) (works s)\<rparr>)"
proof (cases r)
  case (Inl e)
  have "atomic (ReconcilePolicy C (Some p))"
    unfolding ReconcilePolicy_def by (intro prog_rules atomic_readonly)
  then show ?thesis using assms(2) Inl by (auto dest: atomicD)
next
  case (Inr u)
  then show ?thesis using ReconcilePolicy_run assms by auto
qed

theorem ReconcilePolicy_refines_witness:
  "\<exists>cur. current_actions (policy_actions demo_policy) [] = Inr cur \<and>
     demo_idle = empty_db\<lparr>works := reconciled demo_codec cur (clock demo_env (0 + 2)) (works empty_db)\<rparr>"
  using ReconcilePolicy_refines [OF agent_inv_empty demo_reconcile] by simp

text \<open>After a successful reconciliation the active work is exactly the desired policy: the
  actions of the rows that are not retired are the actions of the snapshot, each decoded from
  its stored blob.\<close>

theorem ReconcilePolicy_active:
  assumes laws: "codec_laws C" and inv: "agent_inv C s"
    and run: "ReconcilePolicy C (Some p) E n s = (Inr u, n', s')"
  shows "active_actions C s' = set (policy_actions p)"
proof -
  obtain cur where cur: "current_actions (policy_actions p) [] = Inr cur"
    and s': "s' = s\<lparr>works := reconciled C cur (clock E (n + 2)) (works s)\<rparr>"
    using ReconcilePolicy_run [OF run] inv by auto
  show ?thesis
    unfolding s' by (rule reconciled_active [OF laws cur inv ReconcilePolicy_writes [OF run inv cur]])
qed

theorem ReconcilePolicy_active_witness:
  "active_actions demo_codec demo_idle = set (policy_actions demo_policy)"
  by (rule ReconcilePolicy_active [OF demo_codec_laws agent_inv_empty demo_reconcile])

text \<open>C4. A policy refresh never loses a running action: a row whose run is in progress is still
  there after a successful reconciliation, with the same run identifier, digest and start time;
  it is marked retired exactly when the policy no longer lists it.\<close>

theorem ReconcilePolicy_keeps_running:
  assumes inv: "agent_inv C s" and run: "ReconcilePolicy C (Some p) E n s = (Inr u, n', s')"
    and w: "w \<in> set (works s)" "run_in_progress w"
  shows "\<exists>w'\<in>set (works s'). work_id w' = work_id w \<and> run_in_progress w' \<and> run_id w' = run_id w \<and>
    run_action_digest w' = run_action_digest w \<and> run_started_at w' = run_started_at w"
proof -
  obtain cur where s': "s' = s\<lparr>works := reconciled C cur (clock E (n + 2)) (works s)\<rparr>"
    using ReconcilePolicy_run [OF run] inv by auto
  have "\<exists>w'. reconcile_row C cur (clock E (n + 2)) w = Some w' \<and> work_id w' = work_id w \<and> run_in_progress w' \<and>
      run_id w' = run_id w \<and> run_action_digest w' = run_action_digest w \<and> run_started_at w' = run_started_at w"
    using w(2) by (auto simp: reconcile_row_def split: option.splits)
  then show ?thesis using w(1) s' by (force simp: reconciled_def set_map_filter)
qed

lemma demo_retire: "ReconcilePolicy demo_codec (Some \<lparr>refresh_interval_minutes = 5, policy_actions = []\<rparr>) demo_env 0
    demo_running = (Inr (), 5, demo_running\<lparr>works := map (\<lambda>w. w\<lparr>retired := True\<rparr>) (works demo_running)\<rparr>)"
  by (simp add: ReconcilePolicy_def prog_defs agent_statement_defs reconcile_existing_def
      demo_defs demo_running_def begin_work_def new_work_def)

theorem ReconcilePolicy_keeps_running_witness:
  "\<exists>w'\<in>set (works (demo_running\<lparr>works := map (\<lambda>w. w\<lparr>retired := True\<rparr>) (works demo_running)\<rparr>)).
     work_id w' = work_id (hd (works demo_running)) \<and> run_in_progress w' \<and>
     run_id w' = run_id (hd (works demo_running)) \<and>
     run_action_digest w' = run_action_digest (hd (works demo_running)) \<and>
     run_started_at w' = run_started_at (hd (works demo_running))"
  by (rule ReconcilePolicy_keeps_running [OF demo_inv(1) demo_retire])
    (simp_all add: demo_running_def begin_work_def)

text \<open>C5. Recovery never gets stuck: in a well-formed store, when the driver does not fail and the
  results serialise, recovering interrupted runs succeeds; afterwards no run is in progress, the
  number it returns is the number of interrupted runs, and each of them has one more result
  in the outbox.\<close>

theorem RecoverInterruptedActions_total:
  assumes laws: "codec_laws C" and inv: "agent_inv C s" and nofault: "\<And>k. \<not> fault E k"
    and enc: "\<And>row k. row \<in> set (works s) \<Longrightarrow> marshal_result C (interrupted_result row (clock E k)) \<noteq> None"
  shows "\<exists>n' s'. RecoverInterruptedActions C E n s = (Inr (length (runs_in_progress s)), n', s') \<and>
    agent_inv C s' \<and> runs_in_progress s' = [] \<and>
    mset (runs_in_outbox C s') = mset (runs_in_progress s) + mset (runs_in_outbox C s)"
proof -
  obtain k n' s' where run: "RecoverInterruptedActions C E n s = (Inr k, n', s')"
    using recover_succeeds [OF laws nofault inv enc] by blast
  show ?thesis
    using RecoverInterruptedActions_run [OF laws inv run] run by (auto simp: ledger_def)
qed

theorem RecoverInterruptedActions_total_witness:
  "\<exists>n' s'. RecoverInterruptedActions demo_codec demo_env 0 demo_running =
      (Inr (length (runs_in_progress demo_running)), n', s') \<and>
    agent_inv demo_codec s' \<and> runs_in_progress s' = [] \<and>
    mset (runs_in_outbox demo_codec s') = mset (runs_in_progress demo_running) + mset (runs_in_outbox demo_codec demo_running)"
  by (rule RecoverInterruptedActions_total [OF demo_codec_laws demo_inv(1)])
    (simp_all add: demo_defs demo_running_def begin_work_def new_work_def interrupted_result_def demo_result_def)

text \<open>An action never runs twice at the same time: starting a run of work that is already in
  progress, retired, or not yet due fails and leaves the store unchanged, whatever the driver
  does.\<close>

theorem BeginActionRun_exclusive:
  assumes inv: "agent_inv C s" and w: "w \<in> set (works s)" "work_id w = dw_work_id d"
    and busy: "run_in_progress w \<or> retired w \<or> next_execute_at w > clock E (Suc n)"
  shows "\<exists>e n'. BeginActionRun C (Some d) started E n s = (Inl e, n', s)"
proof -
  obtain r n' s' where run: "BeginActionRun C (Some d) started E n s = (r, n', s')"
    by (cases "BeginActionRun C (Some d) started E n s")
  show ?thesis
  proof (cases r)
    case (Inl e)
    then show ?thesis using run atomicD [OF BeginActionRun_atomic] by blast
  next
    case (Inr d')
    have u: "work.unique (works s)" using inv by auto
    from BeginActionRun_run [OF run [unfolded Inr] u] obtain pre row rem where
      "works s = pre @ row # rem" "work_id row = dw_work_id d" "runnable (clock E (Suc n)) row" by metis
    then have "runnable (clock E (Suc n)) w"
      using work.unique_eq [OF u w(1), of row] w(2) by simp
    then show ?thesis using busy by (auto simp: runnable_def)
  qed
qed

theorem BeginActionRun_exclusive_witness:
  "\<exists>e n'. BeginActionRun demo_codec (Some demo_due) 7 demo_env 0 demo_running = (Inl e, n', demo_running)"
  by (rule BeginActionRun_exclusive [OF demo_inv(1), of "hd (works demo_running)"])
    (simp_all add: demo_running_def begin_work_def new_work_def demo_due_def)

text \<open>C7. The next execution time of a run that just started is one interval after the start, but
  never more than one interval after the current clock (so a clock that was set back does not
  postpone the action). For the schedules the contract allows (up to 8760 hours) the 64-bit
  product does not wrap.\<close>

theorem next_execute_bounds:
  assumes "0 < h" and "h \<le> 8760"
  shows "calculateNextExecuteFromSchedule (Some h) (Some l) nw =
    min (l + h * nanos_per_hour) (nw + h * nanos_per_hour)"
proof -
  have "0 < h * nanos_per_hour" using assms(1) by (simp add: nanos_per_hour_def)
  moreover have "h * nanos_per_hour \<le> 8760 * nanos_per_hour"
    using assms(2) by (simp add: nanos_per_hour_def)
  ultimately have "wrap64 (h * nanos_per_hour) = h * nanos_per_hour"
    by (intro wrap64_id) (simp_all add: nanos_per_hour_def)
  then show ?thesis
    using assms(1)
    by (simp add: calculateNextExecuteFromSchedule_def schedule_interval_def interval_hours_def
        clampInterval_def Let_def min_def)
qed

theorem next_execute_bounds_witness:
  "calculateNextExecuteFromSchedule (Some 2) (Some 100) 50 = min (100 + 2 * nanos_per_hour) (50 + 2 * nanos_per_hour)"
  by (rule next_execute_bounds) simp_all

end
