(* ===== verification/Agent_Exec_Props.thy ===== *)
theory Agent_Exec_Props
  imports Agent_Scheduler Agent_Store_Props
begin

text \<open>
  The guarantees of the path from a due action to the processes it spawns and the result it leaves: the
  executor, the package managers, the runner and the scheduler. The first section is a small machine
  for closed instances.
\<close>

section \<open>A concrete machine\<close>

definition demo_host :: host where
  "demo_host = \<lparr>h_ctx_err = None, h_look_path = (\<lambda>n. Some n), h_abs = (\<lambda>p. Some (''/bin/'' @ p)), h_path = ''/bin'',
     h_environ = [''HOME=/root'', ''LD_PRELOAD=x''],
     h_spawn = (\<lambda>p. \<lparr>ch_stdout = [''ok''], ch_stderr = [], ch_exit = (if ''fix'' \<in> set (proc_argv p) then 3 else 0), ch_err = None\<rparr>)\<rparr>"

definition demo_machine :: machine where
  "demo_machine = (\<lambda>ctx w. demo_host)"

definition no_tools :: "string \<Rightarrow> string option" where
  "no_tools n = None"

definition only_pacman :: "string \<Rightarrow> string option" where
  "only_pacman n = (if n = ''pacman'' then Some ''/bin/pacman'' else None)"

definition demo_params :: "string \<Rightarrow> string \<Rightarrow> bool \<Rightarrow> shell_params" where
  "demo_params detect script cmpl = \<lparr>sh_script = script, sh_interpreter = '''', sh_working_directory = '''',
     sh_environment = [(''A'', ''1'')], sh_detection_script = detect, sh_is_compliance = cmpl\<rparr>"

definition demo_shell :: "string \<Rightarrow> string \<Rightarrow> bool \<Rightarrow> action" where
  "demo_shell detect script cmpl = \<lparr>act_id = Some ''S'', act_desired_state = DESIRED_STATE_PRESENT, act_timeout_seconds = 60,
     act_schedule = None, act_params = Some (ActionShell (Some (demo_params detect script cmpl)))\<rparr>"

definition demo_pkg :: package_params where
  "demo_pkg = \<lparr>pkg_name = ''vim'', pkg_version = ''''\<rparr>"

definition demo_exec :: "(string \<Rightarrow> string option) \<Rightarrow> executor" where
  "demo_exec lp = agent_executor (\<lambda>_. False) lp demo_machine Direct"

lemmas exec_defs = runner_run_def runner_exec_def buildChildEnv_def resolveAbsolute_def escalationTool_def wrapEscalation_def
  runStreamingWithStdin_def captured_def MaxOutputBytes_def demo_machine_def demo_host_def composeEnv_def forcedEnv_def
  ValidateCommandEnv_def IsAllowedEnvVar_def ValidEnvVarName_def isReservedEnvVar_def BlockedEnvVars_def HasPrefix_def ToUpper_def
  to_upper_char_def is_lower_def is_upper_def is_digit_def is_alnum_def detectEscalationDenied_def

lemmas shell_defs = executeShell_def runShell_def remediate_def shell_command_def shell_environment_def outputWithError_def
  get_exit_code_def command_output_of_def dispatch_def actionTimeout_def second_def

lemma demo_env_ok: "ValidateCommandEnv [''A=1''] = None"
  by (simp add: exec_defs char_of_def of_char_def)

definition demo_proc :: "string \<Rightarrow> process" where
  "demo_proc script = \<lparr>proc_name = ''/bin//bin/sh'', proc_argv = [''-c'', script], proc_stdin = None,
     proc_env = [''PATH=/bin'', ''A=1'', ''LC_ALL=C'', ''LANG=C'', ''NO_COLOR=1''], proc_dir = ''''\<rparr>"

definition demo_output :: "int \<Rightarrow> command_output" where
  "demo_output code = \<lparr>exit_code = code, out_stdout = ''ok'' @ [newline], out_stderr = ''''\<rparr>"

lemma demo_runner: "ex_runner (demo_exec lp) ctx = runner_run demo_machine Direct ctx"
  by (simp add: demo_exec_def agent_executor_runner)

lemma demo_ctx_err: "ex_ctx_err (demo_exec lp) ctx w = None"
  by (simp add: demo_exec_def agent_executor_ctx_err demo_machine_def demo_host_def)

lemma demo_params_sel:
  "sh_script (demo_params d s c) = s" "sh_detection_script (demo_params d s c) = d" "sh_is_compliance (demo_params d s c) = c"
  by (simp_all add: demo_params_def)

lemma demo_runShell:
  "runShell (runner_run demo_machine Direct ctx) (demo_params d s1 c) s E n w =
     (Inr (Some (demo_output (if s = ''fix'' then 3 else 0)), None), n, w @ [demo_proc s])"
  using demo_env_ok
  by (simp add: runShell_def demo_params_def shell_environment_def shell_command_def runner_run_def runner_exec_def buildChildEnv_def
      resolveAbsolute_def escalationTool_def wrapEscalation_def runStreamingWithStdin_def captured_def MaxOutputBytes_def
      demo_machine_def demo_host_def composeEnv_def forcedEnv_def bnd_def ret_def Let_def command_output_of_def demo_output_def
      demo_proc_def detectEscalationDenied_def newline_def)

definition demo_checked :: action_result where
  "demo_checked = empty_action_result\<lparr>res_action_id := Some ''S'', res_status := EXECUTION_STATUS_SUCCESS,
     res_detection_output := Some (demo_output 0), res_completed_at := Some 7\<rparr>"

lemma demo_compliance_run:
  "ExecuteAction (demo_exec lp) (Some (demo_shell ''check'' ''fix'' True)) demo_env n [] =
    (Inr demo_checked, Suc n, [demo_proc ''check''])"
  by (simp add: ExecuteAction_def demo_shell_def dispatch_def executeShell_def demo_runner demo_runShell bnd_def ret_def
      gets_world_def finish_def now_def demo_env_def Let_def get_exit_code_def demo_output_def empty_action_result_def
      demo_params_sel demo_checked_def)

lemma demo_fix_run:
  "ExecuteAction (demo_exec lp) (Some (demo_shell '''' ''fix'' False)) demo_env 0 [] =
    (Inr (empty_action_result\<lparr>res_action_id := Some ''S'', res_status := EXECUTION_STATUS_FAILED,
       res_output := Some ((demo_output 3)\<lparr>out_stderr := ''shell exited with status 3''\<rparr>), res_completed_at := Some 7\<rparr>),
     1, [demo_proc ''fix''])"
  by (simp add: ExecuteAction_def demo_shell_def dispatch_def executeShell_def remediate_def demo_runner demo_runShell bnd_def ret_def
      gets_world_def finish_def now_def demo_env_def Let_def get_exit_code_def demo_output_def empty_action_result_def
      demo_params_sel
      outputWithError_def shell_exit_error_def itoa_def nat_digits.simps ensureResultError_def get_stderr_def
      DeadlineExceeded_def demo_ctx_err char_of_def bit_Suc_0_iff)

section \<open>Properties\<close>



text \<open>C9. A compliance action never remediates: whatever the machine answers, every process it spawns runs the
  detection script.\<close>

theorem compliance_only_detects:
  assumes "ExecuteAction (agent_executor isf lp M b) (Some a) E n w = (r, n', w')"
    and "act_params a = Some (ActionShell (Some p))" and "sh_is_compliance p"
  shows "\<exists>ps. w' = w @ ps \<and> (\<forall>q\<in>set ps. drop (length (proc_argv q) - 2) (proc_argv q) = [''-c'', sh_detection_script p])"
proof -
  have "drop (length (proc_argv q) - 2) (proc_argv q) = [''-c'', sh_detection_script p]"
    if "action_command (executor_lits lp) a c" and "spawn_of c q" for c q
    using that assms(2,3) by (auto simp: action_command_def spawn_of_def shell_command_def)
  moreover have "\<exists>ps. w' = w @ ps \<and> (\<forall>p\<in>set ps. \<exists>c. action_command (executor_lits lp) a c \<and> spawn_of c p)"
    using agent.ExecuteAction_issues [of lp a isf M b] assms(1) unfolding issues_def by blast
  ultimately show ?thesis by blast
qed

theorem compliance_only_detects_witness:
  "\<exists>ps. [demo_proc ''check''] = [] @ ps \<and>
    (\<forall>q\<in>set ps. drop (length (proc_argv q) - 2) (proc_argv q) = [''-c'', ''check''])"
  using compliance_only_detects [OF demo_compliance_run [unfolded demo_exec_def]] by (simp add: demo_shell_def demo_params_sel)

text \<open>A successful remediation was verified: when a shell action with a detection script that is not a
  compliance action reports success, the detection output it reports has exit code 0.\<close>

theorem shell_success_verified:
  assumes "ExecuteAction ex (Some a) E n w = (Inr res, n', w')" and "act_id a = Some i"
    and "act_params a = Some (ActionShell (Some p))" and "sh_detection_script p \<noteq> ''''" and "\<not> sh_is_compliance p"
    and "res_status res = EXECUTION_STATUS_SUCCESS"
  shows "\<exists>d. res_detection_output res = Some d \<and> exit_code d = 0"
proof -
  from ExecuteAction_outcome [OF assms(1,2)] obtain ctx out det err n1 where
    d: "dispatch ex ctx a E n w = (Inr (out, det, err), n1, w')"
    and ok: "err = None \<Longrightarrow> res_detection_output res = det"
    and bad: "\<And>e. err = Some e \<Longrightarrow> res_status res \<in> {EXECUTION_STATUS_FAILED, EXECUTION_STATUS_TIMEOUT}"
    by metis
  have "err = None" using bad assms(6) by (cases err) auto
  moreover have "executeShell (ex_runner ex ctx) (Some p) E n w = (Inr (out, det, err), n1, w')"
    using d assms(3) by (simp add: dispatch_def)
  ultimately show ?thesis using executeShell_verified assms(4,5) ok by metis
qed

lemma demo_verified_run:
  "ExecuteAction (demo_exec lp) (Some (demo_shell ''check'' ''fix'' False)) demo_env 0 [] =
    (Inr (empty_action_result\<lparr>res_action_id := Some ''S'', res_status := EXECUTION_STATUS_SUCCESS,
       res_detection_output := Some (demo_output 0), res_completed_at := Some 7\<rparr>), 1, [demo_proc ''check''])"
  by (simp add: ExecuteAction_def demo_shell_def dispatch_def executeShell_def demo_runner demo_runShell bnd_def ret_def
      gets_world_def finish_def now_def demo_env_def Let_def get_exit_code_def demo_output_def empty_action_result_def
      demo_params_sel)

theorem shell_success_verified_witness:
  "\<exists>d. res_detection_output (empty_action_result\<lparr>res_action_id := Some ''S'', res_status := EXECUTION_STATUS_SUCCESS,
       res_detection_output := Some (demo_output 0), res_completed_at := Some 7\<rparr>) = Some d \<and> exit_code d = 0"
  by (rule shell_success_verified [OF demo_verified_run, where p = "demo_params ''check'' ''fix'' False"])
    (simp_all add: demo_shell_def demo_params_sel)

text \<open>A shell action that does not succeed says why: its result has a non-empty standard error, in the output
  or in the detection output.\<close>

theorem shell_failure_explained:
  assumes "ExecuteAction ex (Some a) E n w = (Inr res, n', w')" and "act_id a = Some i"
    and "act_params a = Some (ActionShell p)" and "res_status res \<noteq> EXECUTION_STATUS_SUCCESS"
  shows "\<not> (get_stderr (res_output res) = '''' \<and> get_stderr (res_detection_output res) = '''')"
proof -
  from ExecuteAction_outcome [OF assms(1,2)] obtain ctx out det err n1 where
    d: "dispatch ex ctx a E n w = (Inr (out, det, err), n1, w')"
    and ok: "err = None \<Longrightarrow> res_status res = EXECUTION_STATUS_SUCCESS"
    and why: "\<And>e. err = Some e \<Longrightarrow> error_text e \<noteq> '''' \<Longrightarrow>
      get_stderr (res_output res) \<noteq> '''' \<or> get_stderr (res_detection_output res) \<noteq> ''''"
    by metis
  obtain e where e: "err = Some e" using ok assms(4) by (cases err) auto
  have "executeShell (ex_runner ex ctx) p E n w = (Inr (out, det, Some e), n1, w')"
    using d assms(3) e by (simp add: dispatch_def)
  then show ?thesis using executeShell_error why e by blast
qed

theorem shell_failure_explained_witness:
  "\<not> (get_stderr (res_output (empty_action_result\<lparr>res_action_id := Some ''S'', res_status := EXECUTION_STATUS_FAILED,
       res_output := Some ((demo_output 3)\<lparr>out_stderr := ''shell exited with status 3''\<rparr>), res_completed_at := Some 7\<rparr>)) = '''' \<and>
   get_stderr (res_detection_output (empty_action_result\<lparr>res_action_id := Some ''S'', res_status := EXECUTION_STATUS_FAILED,
       res_output := Some ((demo_output 3)\<lparr>out_stderr := ''shell exited with status 3''\<rparr>), res_completed_at := Some 7\<rparr>)) = '''')"
  by (rule shell_failure_explained [OF demo_fix_run]) (simp_all add: demo_shell_def)

text \<open>Package actions are idempotent: when the package manager reports that the package is installed and no
  version is pinned, or that it is absent and should be, the action succeeds at once and spawns nothing
  after the query.\<close>

theorem package_already_in_state:
  assumes "ex_pkg (agent_executor isf lp M b) ctx = Some mgr"
    and "mgr_IsInstalled mgr (pkg_name p) E n w = (Inr i, n', w')"
    and "i \<and> pkg_version p = '''' \<and> s = DESIRED_STATE_PRESENT \<or> \<not> i \<and> s = DESIRED_STATE_ABSENT"
  shows "\<exists>out. executePackage (Some mgr) (Some p) s E n w = (Inr (Some out, None), n', w') \<and> exit_code out = 0"
proof -
  show ?thesis
    using pkg_manager.package_in_state [OF agent_executor_pkg [OF assms(1)] assms(2)] assms(3)
    by (auto simp: stdout_only_def)
qed

theorem package_already_in_state_witness:
  "\<exists>out. executePackage (Some (pacman_manager (runner_run demo_machine Direct None))) (Some demo_pkg) DESIRED_STATE_PRESENT demo_env 0 [] =
     (Inr (Some out, None), 0, snd (snd (pacman_IsInstalled (runner_run demo_machine Direct None) ''vim'' demo_env 0 []))) \<and> exit_code out = 0"
proof (rule package_already_in_state)
  show "ex_pkg (agent_executor (\<lambda>_. False) only_pacman demo_machine Direct) None = Some (pacman_manager (runner_run demo_machine Direct None))"
    by (simp add: agent_executor_def agent_executor_eq Detect_eq only_pacman_def pkg_New_def backend_number_def)
  show "mgr_IsInstalled (pacman_manager (runner_run demo_machine Direct None)) (pkg_name demo_pkg) demo_env 0 [] =
     (Inr True, 0, snd (snd (pacman_IsInstalled (runner_run demo_machine Direct None) ''vim'' demo_env 0 [])))"
    by (simp add: pacman_manager_def demo_pkg_def pacman_IsInstalled_def check_def ValidatePackageName_def validPackageName_def grammar_def
        runRead_def read_command_def runner_run_def runner_exec_def buildChildEnv_def ValidateCommandEnv_def resolveAbsolute_def
        escalationTool_def wrapEscalation_def runStreamingWithStdin_def demo_machine_def demo_host_def bnd_def ret_def Let_def
        is_alnum_def is_lower_def is_upper_def is_digit_def)
qed (simp add: demo_pkg_def)

text \<open>C13. A run that ends is recorded: when the store does not fail and the agent is not shut down, executing due
  work whose run could start ends with no more runs in progress than before, the executor's
  result, stamped with the run and the action's digest, queued as the last row of the outbox, and the
  sender woken up.\<close>

theorem executeAction_recorded:
  assumes "codec_laws C" and "agent_inv C (ag_db s)" and "\<And>k. \<not> fault E k" and "\<And>k. \<not> cancelled E k"
    and "BeginActionRun C (Some w) (clock E n) E (Suc n) (ag_db s) = (Inr w', n1, d1)"
    and "ExecuteAction (agent_executor isf lp M b) (Some (dw_action w')) E n1 (ag_world s) = (Inr r, n2, wd)"
    and "dw_run_id w' \<noteq> ''''" and "ActionDigest C (Some (dw_action w')) = Inr digest"
    and "marshal_result C (r\<lparr>res_run_id := Some (dw_run_id w'), res_action_digest := digest\<rparr>) = Some pl"
  shows "\<exists>n' s'. executeAction C (ExecuteAction (agent_executor isf lp M b)) w E n s = (Inr (), n', s') \<and>
    ag_results_ready s' \<and> ag_world s' = wd \<and>
    mset (runs_in_progress (ag_db s')) = mset (runs_in_progress (ag_db s)) \<and>
    outbox (ag_db s') = outbox (ag_db s) @ [\<lparr>sequence = Suc (outbox_seq (ag_db s)), payload = pl\<rparr>]"
  by (rule agent_exec.executeAction_records [OF assms(1-8) refl assms(9)])

definition shell_digest :: string where
  "shell_digest = ''s0000000000000000000000000000000''"

definition shell_codec :: codec where
  "shell_codec = table_codec [(demo_shell ''check'' ''fix'' True, ''s'')]
     [(demo_checked\<lparr>res_run_id := Some ''R'', res_action_digest := shell_digest\<rparr>, ''f'')]"

definition shell_agent :: agent where
  "shell_agent = \<lparr>ag_db = \<lparr>works = [new_work ''S'' ''s'' 7 7], outbox = [], outbox_seq = 0\<rparr>, ag_world = [],
     ag_results_ready = False, ag_schedule_wake = False\<rparr>"

definition shell_due :: due_work where
  "shell_due = \<lparr>dw_action = demo_shell ''check'' ''fix'' True, dw_work_id = ''S'', dw_run_id = ''''\<rparr>"

lemma shell_begin: "BeginActionRun shell_codec (Some shell_due) 7 demo_env n (ag_db shell_agent) =
  (Inr (shell_due\<lparr>dw_run_id := ''R''\<rparr>), n + 6,
   (ag_db shell_agent)\<lparr>works := [begin_work ''R'' shell_digest 7 28800000000007 (new_work ''S'' ''s'' 7 7)]\<rparr>)"
  by (simp add: BeginActionRun_def prog_defs agent_statement_defs decodeAction_def ActionDigest_def shell_codec_def table_codec_def
      demo_env_def shell_due_def shell_agent_def new_work_def begin_work_def runnable_def count_rows_def shell_digest_def)
    (simp add: demo_shell_def calculateNextExecuteFromSchedule_def schedule_interval_def interval_hours_def defaultInterval_def
      nanos_per_hour_def clampInterval_def Let_def numeral_eq_Suc)

lemma shell_agent_inv: "agent_inv shell_codec (ag_db shell_agent)"
  by (simp add: agent_inv_def shell_agent_def work.unique_def work_ok_def decodes_def new_work_def shell_codec_def table_codec_def
      demo_shell_def)

theorem executeAction_recorded_witness:
  "\<exists>n' s'. executeAction shell_codec (ExecuteAction (agent_executor (\<lambda>_. False) no_tools demo_machine Direct)) shell_due
      demo_env 0 shell_agent = (Inr (), n', s') \<and>
    ag_results_ready s' \<and> ag_world s' = [demo_proc ''check''] \<and>
    mset (runs_in_progress (ag_db s')) = mset (runs_in_progress (ag_db shell_agent)) \<and>
    outbox (ag_db s') = outbox (ag_db shell_agent) @ [\<lparr>sequence = Suc (outbox_seq (ag_db shell_agent)), payload = ''f''\<rparr>]"
proof (rule executeAction_recorded)
  show "codec_laws shell_codec" by (simp add: shell_codec_def table_codec_laws)
  show "BeginActionRun shell_codec (Some shell_due) (clock demo_env 0) demo_env (Suc 0) (ag_db shell_agent) =
    (Inr (shell_due\<lparr>dw_run_id := ''R''\<rparr>), Suc 0 + 6,
     (ag_db shell_agent)\<lparr>works := [begin_work ''R'' shell_digest 7 28800000000007 (new_work ''S'' ''s'' 7 7)]\<rparr>)"
    using shell_begin [of "Suc 0"] by (simp add: demo_env_def)
  show "ExecuteAction (agent_executor (\<lambda>_. False) no_tools demo_machine Direct)
      (Some (dw_action (shell_due\<lparr>dw_run_id := ''R''\<rparr>))) demo_env (Suc 0 + 6) (ag_world shell_agent) =
    (Inr demo_checked, Suc (Suc 0 + 6), [demo_proc ''check''])"
    using demo_compliance_run [of no_tools "Suc 0 + 6"] by (simp add: demo_exec_def shell_due_def shell_agent_def)
  show "agent_inv shell_codec (ag_db shell_agent)" by (rule shell_agent_inv)
qed (simp_all add: demo_env_def shell_codec_def table_codec_def ActionDigest_def shell_due_def shell_digest_def numeral_eq_Suc)

text \<open>C14. Results leave the outbox in order and only when the server has settled them: a pass of the sender removes
  a prefix of the queued rows, every one of which was acknowledged or definitively rejected, and
  touches nothing else, whatever the connection and the driver do.\<close>

theorem syncPendingResults_prefix:
  assumes "agent_inv C (ag_db s)" and "syncPendingResults C send E n s = (r, n', s')"
  shows "\<exists>k. outbox (ag_db s') = drop k (outbox (ag_db s)) \<and> works (ag_db s') = works (ag_db s) \<and>
    ag_world s' = ag_world s \<and>
    (\<forall>b\<in>set (take k (outbox (ag_db s))). \<exists>m x. unmarshal_result C (payload b) = Some x \<and> settled (send m x))"
  by (rule syncPendingResults_run [OF assms])

definition done_agent :: agent where
  "done_agent = \<lparr>ag_db = demo_done, ag_world = [], ag_results_ready = True, ag_schedule_wake = False\<rparr>"

definition always_ack :: sender where
  "always_ack = (\<lambda>_ _. None)"

lemma done_sync: "syncPendingResults demo_codec always_ack demo_env 0 done_agent =
    (Inr (), 3, done_agent\<lparr>ag_db := demo_done\<lparr>outbox := []\<rparr>\<rparr>)"
  by (simp add: syncPendingResults_def in_store_def GetPendingResults_def GetPendingResults_rows_def prog_defs SendActionResult_def
      settled_def always_ack_def DeletePendingResult_def demo_defs done_agent_def demo_done_def demo_result_def)

theorem syncPendingResults_prefix_witness:
  "\<exists>k. outbox (ag_db (done_agent\<lparr>ag_db := demo_done\<lparr>outbox := []\<rparr>\<rparr>)) = drop k (outbox (ag_db done_agent)) \<and>
    works (ag_db (done_agent\<lparr>ag_db := demo_done\<lparr>outbox := []\<rparr>\<rparr>)) = works (ag_db done_agent) \<and>
    ag_world (done_agent\<lparr>ag_db := demo_done\<lparr>outbox := []\<rparr>\<rparr>) = ag_world done_agent \<and>
    (\<forall>b\<in>set (take k (outbox (ag_db done_agent))). \<exists>m x. unmarshal_result demo_codec (payload b) = Some x \<and> settled (always_ack m x))"
proof (rule syncPendingResults_prefix [OF _ done_sync])
  show "agent_inv demo_codec (ag_db done_agent)"
    using agent_reachable_inv [OF demo_codec_laws demo_reachable] by (simp add: sys_inv_def demo_sys_def done_agent_def)
qed

text \<open>The scheduler keeps the store well-formed: whatever the driver, the executor and the clock do, a scheduling
  pass started in a well-formed store ends in one.\<close>

theorem runDue_keeps_store:
  assumes "codec_laws C" and "agent_inv C (ag_db s)" and "runDue C exec E n s = (r, n', s')"
  shows "agent_inv C (ag_db s') \<and> r = Inr ()"
proof
  show "agent_inv C (ag_db s')"
    using keepsD [OF runDue_keeps [OF assms(1)] _ assms(3)] assms(2) by (simp add: db_inv_def)
  show "r = Inr ()"
    using assms(3) by (cases r) (auto simp: runDue_def run_simps)
qed

theorem runDue_keeps_store_witness:
  "agent_inv demo_codec (ag_db (snd (snd (runDue demo_codec (\<lambda>_. ret demo_result) demo_env 0
     (done_agent\<lparr>ag_db := demo_running\<rparr>))))) \<and>
   fst (runDue demo_codec (\<lambda>_. ret demo_result) demo_env 0 (done_agent\<lparr>ag_db := demo_running\<rparr>)) = Inr ()"
  by (rule runDue_keeps_store [OF demo_codec_laws, where s = "done_agent\<lparr>ag_db := demo_running\<rparr>" and
        n' = "fst (snd (runDue demo_codec (\<lambda>_. ret demo_result) demo_env 0 (done_agent\<lparr>ag_db := demo_running\<rparr>)))"])
    (simp_all add: demo_inv)

end
