(* ===== verification/Sdk_Props.thy ===== *)
theory Sdk_Props
  imports Agent_Exec_Props
begin

text \<open>
  The guarantees of the SDK packages on their own: the environment gate and the output limit of
  \<^verbatim>\<open>sdk/sys/exec\<close>, argument safety of every package manager and pinning with pacman.
\<close>

section \<open>Running commands\<close>

text \<open>The environment gate is exact: \<open>ValidateCommandEnv\<close> accepts a list of entries if and only if each of them is
  \<^verbatim>\<open>KEY=VALUE\<close> with a key that may be set and that the Runner does not reserve.\<close>

theorem ValidateCommandEnv_exact:
  "ValidateCommandEnv env = None \<longleftrightarrow>
    list_all (\<lambda>e. case Cut e ''='' of None \<Rightarrow> False | Some (k, v) \<Rightarrow> IsAllowedEnvVar k \<and> \<not> isReservedEnvVar k) env"
proof -
  have "env_names_error env = None \<longleftrightarrow> list_all (\<lambda>e. case Cut e ''='' of None \<Rightarrow> False | Some (k, v) \<Rightarrow> IsAllowedEnvVar k) env"
    by (induction env) (auto split: option.splits)
  moreover have "list_all (\<lambda>e. case Cut e ''='' of None \<Rightarrow> False | Some (k, v) \<Rightarrow> IsAllowedEnvVar k) env \<Longrightarrow>
      env_reserved_error env = None \<longleftrightarrow>
      list_all (\<lambda>e. case Cut e ''='' of None \<Rightarrow> False | Some (k, v) \<Rightarrow> IsAllowedEnvVar k \<and> \<not> isReservedEnvVar k) env"
    by (induction env) (auto simp: Let_def split: option.splits)
  moreover have "list_all (\<lambda>e. case Cut e ''='' of None \<Rightarrow> False | Some (k, v) \<Rightarrow> IsAllowedEnvVar k \<and> \<not> isReservedEnvVar k) env \<Longrightarrow>
      list_all (\<lambda>e. case Cut e ''='' of None \<Rightarrow> False | Some (k, v) \<Rightarrow> IsAllowedEnvVar k) env"
    by (erule list.pred_mono_strong) (auto split: option.splits)
  ultimately show ?thesis unfolding ValidateCommandEnv_def by (cases "env_names_error env") auto
qed

text \<open>The environment of every child: the forced locale and colour entries come last, so they win; no other entry
  than \<^verbatim>\<open>PATH\<close> has a key that may not be set; and an explicit environment is passed on whole.\<close>

theorem buildChildEnv_forced:
  assumes "buildChildEnv H c = Inr env"
  shows "(\<exists>pre. env = pre @ [''LC_ALL=C'', ''LANG=C'', ''NO_COLOR=1''] \<and> set (cmd_env c) \<subseteq> set pre) \<and>
    list_all env_entry_safe env"
proof
  show "\<exists>pre. env = pre @ [''LC_ALL=C'', ''LANG=C'', ''NO_COLOR=1''] \<and> set (cmd_env c) \<subseteq> set pre"
    using assms by (auto simp: buildChildEnv_def forcedEnv_def composeEnv_def split: option.splits if_splits)
  show "list_all env_entry_safe env"
    using buildChildEnv_safe [OF assms] by (simp add: list_all_iff)
qed

lemma demo_child_env:
  "buildChildEnv demo_host (shell_command (demo_params '''' ''x'' False) ''x'') =
    Inr [''PATH=/bin'', ''A=1'', ''LC_ALL=C'', ''LANG=C'', ''NO_COLOR=1'']"
  using demo_env_ok by (simp add: buildChildEnv_def shell_command_def demo_params_def shell_environment_def composeEnv_def forcedEnv_def demo_host_def)

theorem buildChildEnv_forced_witness:
  "(\<exists>pre. [''PATH=/bin'', ''A=1'', ''LC_ALL=C'', ''LANG=C'', ''NO_COLOR=1''] = pre @ [''LC_ALL=C'', ''LANG=C'', ''NO_COLOR=1''] \<and>
     set (cmd_env (shell_command (demo_params '''' ''x'' False) ''x'')) \<subseteq> set pre) \<and>
   list_all env_entry_safe [''PATH=/bin'', ''A=1'', ''LC_ALL=C'', ''LANG=C'', ''NO_COLOR=1'']"
  by (rule buildChildEnv_forced [OF demo_child_env])

text \<open>The captured output of a stream is a prefix of its lines that fits the limit, followed by the truncation
  mark exactly when a line was left out.\<close>

theorem captured_bounded:
  "\<exists>k. captured ls = unlines (take k ls) @ (if length (unlines ls) > MaxOutputBytes then newline # ''[output truncated]'' else []) \<and>
    length (unlines (take k ls)) \<le> MaxOutputBytes \<and> (length (unlines ls) > MaxOutputBytes \<or> k = length ls)"
proof -
  obtain k where k: "snd (recordLines 0 [] ls) = unlines (take k ls)" "length (unlines (take k ls)) \<le> MaxOutputBytes"
    "length (unlines ls) \<le> MaxOutputBytes \<longrightarrow> k = length ls"
    using recordLines_prefix [of 0 ls "[]"] by auto
  have "captured ls = snd (recordLines 0 [] ls) @
      (if length (unlines ls) > MaxOutputBytes then newline # ''[output truncated]'' else [])"
    using recordLines_total [of 0 "[]" ls] by (auto simp: captured_def split: prod.splits)
  then show ?thesis using k by (intro exI [of _ k]) auto
qed

section \<open>Package managers\<close>


lemma demo_new: "pkg_New (\<lambda>_. False) no_tools 1 (Some (runner_run demo_machine Sudo None)) =
    Inr (apt_manager (\<lambda>_. False) no_tools (runner_run demo_machine Sudo None))"
  by (simp add: pkg_New_def)


text \<open>Pinning with pacman takes effect: when \<^verbatim>\<open>/etc/pacman.conf\<close> has an \<^verbatim>\<open>IgnorePkg\<close> line or an \<^verbatim>\<open>[options]\<close> section,
  reading the file that \<^verbatim>\<open>Pin\<close> writes gives back exactly the packages held before and the new ones, and
  reading what \<^verbatim>\<open>Unpin\<close> writes gives the packages held before without the released ones.\<close>

theorem pacman_pin_roundtrip:
  assumes "pinnable conf" and "pacman_names_error names = None"
  shows "getIgnoredPackages (buildIgnorePkgConf conf (add_missing (getIgnoredPackages conf) names)) =
      add_missing (getIgnoredPackages conf) names \<and>
    set (add_missing (getIgnoredPackages conf) names) = set (getIgnoredPackages conf) \<union> set names \<and>
    getIgnoredPackages (buildIgnorePkgConf conf (filter (\<lambda>n. n \<notin> set names) (getIgnoredPackages conf))) =
      filter (\<lambda>n. n \<notin> set names) (getIgnoredPackages conf)"
proof (intro conjI)
  have "\<forall>w\<in>set (add_missing (getIgnoredPackages conf) names). word w"
    using getIgnored_words [of _ conf] pacman_names_ok [OF assms(2)] pacman_name_word
    by (auto simp: add_missing_set list_all_iff)
  then show "getIgnoredPackages (buildIgnorePkgConf conf (add_missing (getIgnoredPackages conf) names)) =
      add_missing (getIgnoredPackages conf) names"
    using build_roundtrip assms(1) by blast
  show "set (add_missing (getIgnoredPackages conf) names) = set (getIgnoredPackages conf) \<union> set names"
    by (rule add_missing_set)
  show "getIgnoredPackages (buildIgnorePkgConf conf (filter (\<lambda>n. n \<notin> set names) (getIgnoredPackages conf))) =
      filter (\<lambda>n. n \<notin> set names) (getIgnoredPackages conf)"
    using build_roundtrip [of _ conf] assms(1) getIgnored_words [of _ conf] by auto
qed

lemma demo_pinnable: "pinnable (''[options]'' @ [newline])" "pacman_names_error [''vim''] = None"
  by (simp_all add: pinnable_def output_lines_def is_ignore_line_def split_options_def newline_def HasPrefix_def TrimSpace_def
      TrimLeft_def TrimRight_def is_space_def pacman_names_error_def ValidatePackageName_def validPackageName_def grammar_def
      validPacmanPkgName_def is_alnum_def is_lower_def is_upper_def is_digit_def)

theorem pacman_pin_roundtrip_witness:
  "getIgnoredPackages (buildIgnorePkgConf (''[options]'' @ [newline]) (add_missing (getIgnoredPackages (''[options]'' @ [newline])) [''vim''])) =
     add_missing (getIgnoredPackages (''[options]'' @ [newline])) [''vim''] \<and>
   set (add_missing (getIgnoredPackages (''[options]'' @ [newline])) [''vim'']) = set (getIgnoredPackages (''[options]'' @ [newline])) \<union> {''vim''}"
  using pacman_pin_roundtrip [OF demo_pinnable] by simp

section \<open>Findings\<close>

text \<open>Without an \<^verbatim>\<open>IgnorePkg\<close> line and an \<^verbatim>\<open>[options]\<close> section, \<^verbatim>\<open>Pin\<close> writes a file that holds nothing back.\<close>

lemma pacman_pin_lost: "getIgnoredPackages (buildIgnorePkgConf ''[core]'' [''vim'']) = []"
proof (rule build_lost)
  show "\<not> pinnable ''[core]''"
    by (simp add: pinnable_def output_lines_def is_ignore_line_def split_options_def newline_def HasPrefix_def TrimSpace_def
      TrimLeft_def TrimRight_def is_space_def)
qed

text \<open>\<^verbatim>\<open>Autoremove\<close> of the pacman backend passes on whatever the query for orphans printed.\<close>

definition orphan_machine :: machine where
  "orphan_machine = (\<lambda>ctx w. demo_host\<lparr>h_spawn := (\<lambda>p. \<lparr>ch_stdout = [''--dbpath=/tmp''], ch_stderr = [], ch_exit = 0, ch_err = None\<rparr>)\<rparr>)"

lemma pacman_autoremove_unvalidated:
  "map proc_argv (snd (snd (pacman_Autoremove (runner_run orphan_machine Direct None) E n []))) =
     [[''-Qtdq''], [''-Rns'', ''--noconfirm'', ''--dbpath=/tmp'']]"
  by (simp add: pacman_Autoremove_def pacman_orphans_def pacman_write_def write_result_def runPriv_def priv_command_def
      read_command_def runner_run_def runner_exec_def buildChildEnv_def ValidateCommandEnv_def resolveAbsolute_def escalationTool_def
      wrapEscalation_def runStreamingWithStdin_def captured_def MaxOutputBytes_def orphan_machine_def demo_host_def bnd_def ret_def
      Let_def output_lines_def newline_def TrimSpace_def TrimLeft_def TrimRight_def is_space_def
      detectEscalationDenied_def)

end
