(* ===== verification/Server_CA.thy ===== *)
theory Server_CA
  imports Contract GoStrings
begin

text \<open>
  Certificates: \<^verbatim>\<open>server/internal/ca/ca.go\<close>, \<^verbatim>\<open>server/internal/mtls/peer_class.go\<close> and
  \<^verbatim>\<open>server/internal/mtls/mtls.go\<close>. What \<^verbatim>\<open>crypto/x509\<close>, \<^verbatim>\<open>encoding/pem\<close> and \<^verbatim>\<open>crypto/rand\<close> do is the record \<open>x509\<close>, a parameter;
  a certificate and a request are the fields of the parsed structures that the code reads. What the code relies on is
  \<open>x509_laws\<close>: a PEM block that was encoded decodes to itself, a certificate that was created parses to the contents
  of its template, and a random serial number is not negative.
\<close>

section \<open>Parsed structures and the library\<close>

record uri =
  u_scheme :: string
  u_host :: string
  u_path :: string

record certificate =
  cert_cn :: string
  cert_serial :: "int option"
  cert_uris :: "uri option list"
  cert_ed25519 :: "bytes option" \<comment> \<open>the public key, when it is an Ed25519 key\<close>

record request =
  csr_ed25519 :: "bytes option"
  csr_signed :: bool \<comment> \<open>\<^verbatim>\<open>CheckSignature() == nil\<close>\<close>
  csr_dns :: "string list"
  csr_ips :: "string list"
  csr_emails :: "string list"
  csr_uris :: "uri list"

record cert_template =
  tpl_serial :: int
  tpl_cn :: string
  tpl_uris :: "uri list"
  tpl_not_before :: int
  tpl_not_after :: int

record x509 =
  pem_decode :: "bytes \<Rightarrow> (string \<times> bytes \<times> bytes) option" \<comment> \<open>type, contents, rest\<close>
  pem_encode :: "string \<Rightarrow> bytes \<Rightarrow> bytes"
  parse_certificate :: "bytes \<Rightarrow> certificate option"
  parse_request :: "bytes \<Rightarrow> request option"
  create_certificate :: "nat \<Rightarrow> cert_template \<Rightarrow> bytes option \<Rightarrow> bytes option"
  rand_int :: "nat \<Rightarrow> int option"

definition x509_laws :: "x509 \<Rightarrow> bool" where
  "x509_laws X \<longleftrightarrow>
     (\<forall>ty b. pem_decode X (pem_encode X ty b) = Some (ty, b, [])) \<and>
     (\<forall>ty b. pem_encode X ty b \<noteq> []) \<and>
     (\<forall>n i. rand_int X n = Some i \<longrightarrow> 0 \<le> i) \<and>
     (\<forall>n tpl key der. create_certificate X n tpl key = Some der \<longrightarrow>
        parse_certificate X der = Some \<lparr>cert_cn = tpl_cn tpl, cert_serial = Some (tpl_serial tpl),
          cert_uris = map Some (tpl_uris tpl), cert_ed25519 = key\<rparr>)"

record ca =
  ca_x509 :: x509
  ca_raw :: bytes
  ca_validity :: int

section \<open>Serial numbers\<close>

text \<open>\<^verbatim>\<open>big.Int.Text(16)\<close> of a number that is not negative.\<close>

fun hex_text :: "nat \<Rightarrow> string" where
  "hex_text k = (if k < 16 then [hex_digit k] else hex_text (k div 16) @ [hex_digit (k mod 16)])"

declare hex_text.simps [simp del]

fun hex_value :: "string \<Rightarrow> nat \<Rightarrow> nat" where
  "hex_value [] acc = acc"
| "hex_value (c # cs) acc = hex_value cs (16 * acc + (if CHR ''a'' \<le> c then of_char c - 87 else of_char c - 48))"

lemma hex_value_append: "hex_value (xs @ ys) acc = hex_value ys (hex_value xs acc)"
  by (induction xs acc rule: hex_value.induct) auto

lemma hex_digit_value: "d < 16 \<Longrightarrow> hex_value [hex_digit d] acc = 16 * acc + d"
proof -
  assume "d < 16"
  then have "d = 0 \<or> d = 1 \<or> d = 2 \<or> d = 3 \<or> d = 4 \<or> d = 5 \<or> d = 6 \<or> d = 7 \<or> d = 8 \<or> d = 9 \<or> d = 10 \<or> d = 11 \<or>
      d = 12 \<or> d = 13 \<or> d = 14 \<or> d = 15" by presburger
  then show ?thesis by (elim disjE) (simp_all add: hex_digit_def less_eq_char_def)
qed

lemma hex_text_value: "hex_value (hex_text k) 0 = k"
proof (induction k rule: hex_text.induct)
  case (1 k)
  then show ?case
    by (subst hex_text.simps) (auto simp: hex_value_append hex_digit_value simp del: hex_value.simps)
qed

lemma hex_text_inj: "hex_text i = hex_text j \<longleftrightarrow> i = j"
  by (metis hex_text_value)

lemma hex_text_nonempty [simp]: "hex_text k \<noteq> []"
  by (subst hex_text.simps) simp

definition SerialFromCert :: "certificate option \<Rightarrow> go_error + string" where
  "SerialFromCert c = (case c of None \<Rightarrow> Inl (EText ''certificate serial is required'')
     | Some x \<Rightarrow> (case cert_serial x of None \<Rightarrow> Inl (EText ''certificate serial is required'')
         | Some i \<Rightarrow> if i < 0 then Inl (EText ''certificate serial is required'') else Inr (hex_text (nat i))))"

definition parseCertificatePEM :: "x509 \<Rightarrow> bytes \<Rightarrow> go_error + certificate" where
  "parseCertificatePEM X pem = (case pem_decode X pem of
     None \<Rightarrow> Inl (EText ''invalid certificate PEM'')
   | Some (ty, b, rest) \<Rightarrow>
       if ty \<noteq> ''CERTIFICATE'' \<or> TrimSpace rest \<noteq> [] then Inl (EText ''invalid certificate PEM'')
       else (case parse_certificate X b of
         None \<Rightarrow> Inl (EWrap ''parse certificate'' (EText ''x509'')) | Some c \<Rightarrow> Inr c))"

definition SerialFromPEM :: "x509 \<Rightarrow> bytes \<Rightarrow> go_error + string" where
  "SerialFromPEM X pem = (case parseCertificatePEM X pem of Inl e \<Rightarrow> Inl e | Inr c \<Rightarrow> SerialFromCert (Some c))"

section \<open>Peer class\<close>

definition peerClassURIScheme :: string where "peerClassURIScheme = ''spiffe''"
definition peerClassURIHost :: string where "peerClassURIHost = ''cadestro''"
definition PeerClassAgent :: string where "PeerClassAgent = ''agent''"

text \<open>\<^verbatim>\<open>url.Parse\<close> of \<^verbatim>\<open>spiffe://cadestro/<class>\<close>.\<close>

definition PeerClassURI :: "string \<Rightarrow> go_error + uri" where
  "PeerClassURI class = (if class = PeerClassAgent
     then Inr \<lparr>u_scheme = peerClassURIScheme, u_host = peerClassURIHost, u_path = CHR ''/'' # class\<rparr>
     else Inl (EText ''unknown peer class''))"

text \<open>The loop of \<open>PeerClassFromCert\<close> over the URIs, with the variable \<open>found\<close>.\<close>

fun peer_class_loop :: "uri option list \<Rightarrow> string \<Rightarrow> go_error + string" where
  "peer_class_loop [] found = Inr found"
| "peer_class_loop (None # us) found = peer_class_loop us found"
| "peer_class_loop (Some u # us) found =
     (if u_scheme u \<noteq> peerClassURIScheme \<or> u_host u \<noteq> peerClassURIHost then peer_class_loop us found
      else let class = TrimPrefix (u_path u) ''/'' in
        if class = '''' then peer_class_loop us found
        else if found \<noteq> '''' \<and> found \<noteq> class then Inl (EText ''certificate carries multiple peer-class URIs'')
        else peer_class_loop us class)"

definition PeerClassFromCert :: "certificate option \<Rightarrow> go_error + string" where
  "PeerClassFromCert c = (case c of None \<Rightarrow> Inl (EText ''nil certificate'')
     | Some x \<Rightarrow> (case peer_class_loop (cert_uris x) '''' of Inl e \<Rightarrow> Inl e
         | Inr found \<Rightarrow> if found = '''' then Inl (EText ''certificate has no peer-class URI SAN'')
             else if found = PeerClassAgent then Inr found else Inl (EText ''unknown peer class'')))"

text \<open>A TLS connection state is the list of its peer certificates.\<close>

definition PeerClassFromTLS :: "certificate list option \<Rightarrow> go_error + string" where
  "PeerClassFromTLS st = (case st of None \<Rightarrow> Inl (EText ''no TLS connection state'')
     | Some [] \<Rightarrow> Inl (EText ''no peer certificate'') | Some (c # _) \<Rightarrow> PeerClassFromCert (Some c))"

definition DeviceIDFromRequest :: "certificate list option \<Rightarrow> go_error + string" where
  "DeviceIDFromRequest st = (case st of None \<Rightarrow> Inl (EText ''no TLS connection'')
     | Some [] \<Rightarrow> Inl (EText ''no client certificate'')
     | Some (c # _) \<Rightarrow> if cert_cn c = '''' then Inl (EText ''certificate CN is empty'') else Inr (cert_cn c))"

text \<open>What a context carries: the authenticated user, the device of the client certificate, and that certificate.\<close>

record user_context =
  uc_id :: string
  uc_email :: string
  uc_session_version :: int
  uc_permissions :: "int list"

record go_ctx =
  ctx_user :: "user_context option"
  ctx_device :: "string option"
  ctx_peer :: "certificate option"

definition background :: go_ctx where
  "background = \<lparr>ctx_user = None, ctx_device = None, ctx_peer = None\<rparr>"

definition DeviceIDFromContext :: "go_ctx \<Rightarrow> string option" where
  "DeviceIDFromContext ctx = (case ctx_device ctx of None \<Rightarrow> None | Some i \<Rightarrow> if i = '''' then None else Some i)"

definition PeerSerialFromContext :: "go_ctx \<Rightarrow> string option" where
  "PeerSerialFromContext ctx = (case ctx_peer ctx of None \<Rightarrow> None
     | Some c \<Rightarrow> (case cert_serial c of None \<Rightarrow> None | Some i \<Rightarrow> if i < 0 then None else Some (hex_text (nat i))))"

lemma PeerSerial_SerialFromCert:
  "PeerSerialFromContext ctx = Some x \<longleftrightarrow> SerialFromCert (ctx_peer ctx) = Inr x"
  by (auto simp: PeerSerialFromContext_def SerialFromCert_def split: option.splits if_splits)

section \<open>Issuing\<close>

definition ErrInvalidCSR :: go_error where
  "ErrInvalidCSR = ESentinel ''invalid certificate signing request''"

definition parseEnrollmentCSR :: "x509 \<Rightarrow> bytes \<Rightarrow> go_error + request \<times> bytes" where
  "parseEnrollmentCSR X pem = (case pem_decode X pem of
     None \<Rightarrow> Inl (EDetail ErrInvalidCSR ''failed to decode CSR PEM'')
   | Some (ty, b, rest) \<Rightarrow>
       if ty \<noteq> ''CERTIFICATE REQUEST'' \<and> ty \<noteq> ''NEW CERTIFICATE REQUEST''
       then Inl (EDetail ErrInvalidCSR ''unexpected PEM block type'')
       else if TrimSpace rest \<noteq> [] then Inl (EDetail ErrInvalidCSR ''trailing data after CSR PEM'')
       else (case parse_request X b of
         None \<Rightarrow> Inl (EDetail ErrInvalidCSR ''parse CSR'')
       | Some csr \<Rightarrow>
           if \<not> csr_signed csr then Inl (EDetail ErrInvalidCSR ''invalid CSR signature'')
           else (case csr_ed25519 csr of
             None \<Rightarrow> Inl (EDetail ErrInvalidCSR ''unsupported public key type'')
           | Some key \<Rightarrow>
               if csr_dns csr \<noteq> [] \<or> csr_ips csr \<noteq> [] \<or> csr_emails csr \<noteq> [] \<or> csr_uris csr \<noteq> []
               then Inl (EDetail ErrInvalidCSR ''CSR must not request subject alternative names'')
               else Inr (csr, key))))"

definition EnrollmentIdentityFromCSR :: "x509 \<Rightarrow> bytes \<Rightarrow> go_error + bytes" where
  "EnrollmentIdentityFromCSR X pem = (case parseEnrollmentCSR X pem of Inl e \<Rightarrow> Inl e | Inr (_, key) \<Rightarrow> Inr key)"

definition clockSkewAllowance :: int where
  "clockSkewAllowance = 60000000000"

definition draw_serial :: "x509 \<Rightarrow> ('s, int) prog" where
  "draw_serial X = (\<lambda>E n s. (case rand_int X n of
     None \<Rightarrow> Inl (EWrap ''generate serial number'' (EText ''rand'')) | Some i \<Rightarrow> Inr i, Suc n, s))"

definition sign_certificate :: "x509 \<Rightarrow> cert_template \<Rightarrow> bytes option \<Rightarrow> ('s, bytes) prog" where
  "sign_certificate X tpl key = (\<lambda>E n s. (case create_certificate X n tpl key of
     None \<Rightarrow> Inl (EWrap ''create certificate'' (EText ''x509'')) | Some der \<Rightarrow> Inr der, Suc n, s))"

text \<open>Returns the certificate in PEM and the end of its validity.\<close>

definition IssueCertificateFromCSR :: "ca \<Rightarrow> string \<Rightarrow> bytes \<Rightarrow> ('s, bytes \<times> int) prog" where
  "IssueCertificateFromCSR A deviceID csrPEM = (let X = ca_x509 A in
     bnd (lift_sum (parseEnrollmentCSR X csrPEM)) (\<lambda>(csr, _).
     bnd (draw_serial X) (\<lambda>serial.
     bnd now (\<lambda>t.
     bnd (map_err (EWrap ''build peer-class URI'') (lift_sum (PeerClassURI PeerClassAgent))) (\<lambda>peerURI.
     bnd (sign_certificate X \<lparr>tpl_serial = serial, tpl_cn = deviceID, tpl_uris = [peerURI],
       tpl_not_before = t - clockSkewAllowance, tpl_not_after = t + ca_validity A\<rparr> (csr_ed25519 csr)) (\<lambda>der.
     ret (pem_encode X ''CERTIFICATE'' der, t + ca_validity A)))))))"

definition CACertPEM :: "ca \<Rightarrow> bytes" where
  "CACertPEM A = pem_encode (ca_x509 A) ''CERTIFICATE'' (ca_raw A)"

definition AssertCSRMatchesCert :: "x509 \<Rightarrow> certificate option \<Rightarrow> bytes \<Rightarrow> go_error option" where
  "AssertCSRMatchesCert X c csrPEM = (case c of None \<Rightarrow> Some (EText ''certificate is required'')
     | Some x \<Rightarrow> (case pem_decode X csrPEM of None \<Rightarrow> Some (EText ''invalid certificate signing request'')
         | Some (_, b, rest) \<Rightarrow> if TrimSpace rest \<noteq> [] then Some (EText ''invalid certificate signing request'')
             else (case parse_request X b of None \<Rightarrow> Some (EWrap ''parse CSR'' (EText ''x509''))
               | Some csr \<Rightarrow> if cert_ed25519 x = None \<or> csr_ed25519 csr = None \<or> cert_ed25519 x \<noteq> csr_ed25519 csr
                   then Some (EText ''CSR public key does not match authenticated TLS peer'') else None)))"

section \<open>What an issued certificate says\<close>

lemma draw_serial_run [run_simps]:
  "draw_serial X E n s = (Inr i, n', s') \<longleftrightarrow> rand_int X n = Some i \<and> n' = Suc n \<and> s' = s"
  by (auto simp: draw_serial_def split: option.splits)

lemma sign_certificate_run [run_simps]:
  "sign_certificate X tpl key E n s = (Inr der, n', s') \<longleftrightarrow> create_certificate X n tpl key = Some der \<and> n' = Suc n \<and> s' = s"
  by (auto simp: sign_certificate_def split: option.splits)

lemma readonly_issue [prog_rules]: "readonly (IssueCertificateFromCSR A d csr)"
proof -
  have "readonly (draw_serial X :: ('s, int) prog)" "readonly (sign_certificate X tpl key :: ('s, bytes) prog)" for X tpl key
    by (simp_all add: readonly_def draw_serial_def sign_certificate_def)
  then show ?thesis
    unfolding IssueCertificateFromCSR_def Let_def by (auto intro!: prog_rules split: prod.split)
qed

lemma issued_certificate:
  assumes "x509_laws (ca_x509 A)" and "IssueCertificateFromCSR A d csr E n s = (Inr (pem, na), n', s')"
  shows "pem \<noteq> [] \<and> (\<exists>c x key. parseCertificatePEM (ca_x509 A) pem = Inr c \<and> cert_cn c = d \<and>
     PeerClassFromCert (Some c) = Inr PeerClassAgent \<and> SerialFromCert (Some c) = Inr x \<and> SerialFromPEM (ca_x509 A) pem = Inr x \<and>
     EnrollmentIdentityFromCSR (ca_x509 A) csr = Inr key \<and> cert_ed25519 c = Some key)"
proof -
  let ?X = "ca_x509 A"
  from assms(2) obtain rq key serial t der where
    rq: "parseEnrollmentCSR ?X csr = Inr (rq, key)"
    and sr: "rand_int ?X n = Some serial"
    and uri: "PeerClassURI PeerClassAgent = Inr t"
    and der: "create_certificate ?X (Suc (Suc n)) \<lparr>tpl_serial = serial, tpl_cn = d, tpl_uris = [t],
      tpl_not_before = clock E (Suc n) - clockSkewAllowance, tpl_not_after = clock E (Suc n) + ca_validity A\<rparr> (csr_ed25519 rq) = Some der"
    and pem: "pem = pem_encode ?X ''CERTIFICATE'' der"
    by (auto simp: IssueCertificateFromCSR_def Let_def run_simps split: prod.splits)
  have key: "csr_ed25519 rq = Some key"
    using rq by (auto simp: parseEnrollmentCSR_def split: option.splits prod.splits if_splits)
  let ?c = "\<lparr>cert_cn = d, cert_serial = Some serial, cert_uris = [Some t], cert_ed25519 = Some key\<rparr>"
  have c: "parseCertificatePEM ?X pem = Inr ?c"
    using assms(1) der key by (simp add: pem parseCertificatePEM_def x509_laws_def TrimSpace_def TrimLeft_def TrimRight_def)
  have "PeerClassFromCert (Some ?c) = Inr PeerClassAgent"
    using uri by (auto simp: PeerClassFromCert_def PeerClassURI_def PeerClassAgent_def TrimPrefix_def HasPrefix_def split: if_splits)
  moreover have "0 \<le> serial" using assms(1) sr by (auto simp: x509_laws_def)
  ultimately show ?thesis
    using c rq assms(1) pem by (auto simp: SerialFromPEM_def SerialFromCert_def EnrollmentIdentityFromCSR_def x509_laws_def)
qed

text \<open>A certificate of class agent has that class in every Cadestro URI that names one.\<close>

lemma peer_class_loop_agrees:
  "peer_class_loop us found = Inr r \<Longrightarrow> (found \<noteq> '''' \<longrightarrow> r = found) \<and>
     (\<forall>u. Some u \<in> set us \<and> u_scheme u = peerClassURIScheme \<and> u_host u = peerClassURIHost \<longrightarrow>
        TrimPrefix (u_path u) ''/'' \<in> {'''', r})"
proof (induction us found rule: peer_class_loop.induct)
  case (3 u us found)
  then show ?case by (auto simp: Let_def split: if_splits)
qed auto

end
