(* ===== verification/Server_Auth.thy ===== *)
theory Server_Auth
  imports Server_CA
begin

text \<open>
  Sessions: \<^verbatim>\<open>server/internal/auth/jwt.go\<close> (signed tokens), \<^verbatim>\<open>server/internal/auth/interceptor.go\<close> (the check in front of
  every procedure), \<^verbatim>\<open>server/internal/auth/context.go\<close> and the pure parts of \<^verbatim>\<open>server/internal/idp/oidc.go\<close>.

  Signing and verifying a JWT is library code: \<open>jwt_sign\<close> and \<open>jwt_open\<close> of the record \<open>jwt\<close>. One key signs both session tokens
  and OIDC transactions, so a token's body is one of two JSON objects, and reading it as the other type gives zero values
  for the fields it lacks (\<open>as_claims\<close>, \<open>as_transaction\<close>). What the code relies on is \<open>jwt_laws\<close>: a signed body verifies to itself.
\<close>

section \<open>Tokens\<close>

record claims =
  cl_id :: string
  cl_issuer :: string
  cl_issued_at :: "int option"
  cl_expires_at :: "int option"
  cl_user_id :: string
  cl_email :: string
  cl_type :: string
  cl_session_version :: int
  cl_permissions :: "int list"

record oidc_transaction =
  tx_issuer :: string
  tx_issued_at :: "int option"
  tx_expires_at :: "int option"
  tx_state :: string
  tx_provider_id :: string
  tx_nonce :: string
  tx_code_verifier :: string
  tx_redirect_url :: string

datatype token_body = SessionBody claims | TransactionBody oidc_transaction

fun as_claims :: "token_body \<Rightarrow> claims" where
  "as_claims (SessionBody c) = c"
| "as_claims (TransactionBody t) = \<lparr>cl_id = '''', cl_issuer = tx_issuer t, cl_issued_at = tx_issued_at t,
     cl_expires_at = tx_expires_at t, cl_user_id = '''', cl_email = '''', cl_type = '''', cl_session_version = 0, cl_permissions = []\<rparr>"

fun as_transaction :: "token_body \<Rightarrow> oidc_transaction" where
  "as_transaction (TransactionBody t) = t"
| "as_transaction (SessionBody c) = \<lparr>tx_issuer = cl_issuer c, tx_issued_at = cl_issued_at c, tx_expires_at = cl_expires_at c,
     tx_state = '''', tx_provider_id = '''', tx_nonce = '''', tx_code_verifier = '''', tx_redirect_url = ''''\<rparr>"

record jwt =
  jwt_sign :: "token_body \<Rightarrow> string option"
  jwt_open :: "string \<Rightarrow> token_body option"
  jwt_access_expiry :: int
  jwt_refresh_expiry :: int
  jwt_issuer :: string

definition jwt_laws :: "jwt \<Rightarrow> bool" where
  "jwt_laws J \<longleftrightarrow> (\<forall>b t. jwt_sign J b = Some t \<longrightarrow> jwt_open J t = Some b)"

text \<open>\<^verbatim>\<open>jwt.NewNumericDate\<close> cuts to the second.\<close>

definition numeric_date :: "int \<Rightarrow> int" where
  "numeric_date t = t div 1000000000 * 1000000000"

definition TokenTypeAccess :: string where "TokenTypeAccess = ''access''"
definition TokenTypeRefresh :: string where "TokenTypeRefresh = ''refresh''"

text \<open>\<^verbatim>\<open>NewJWTManager\<close>: defaults for the fields that are zero; None when the key has the wrong length.\<close>

definition NewJWTManager :: "bool \<Rightarrow> jwt \<Rightarrow> go_error + jwt" where
  "NewJWTManager key_ok J = (if \<not> key_ok then Inl (EText ''auth: Ed25519 session signing key is required'')
     else Inr (J\<lparr>jwt_access_expiry := (if jwt_access_expiry J = 0 then 300000000000 else jwt_access_expiry J),
       jwt_refresh_expiry := (if jwt_refresh_expiry J = 0 then 604800000000000 else jwt_refresh_expiry J),
       jwt_issuer := (if jwt_issuer J = '''' then ''cadestro'' else jwt_issuer J)\<rparr>))"

definition jwt_sign_session :: "jwt \<Rightarrow> string \<Rightarrow> string \<Rightarrow> int \<Rightarrow> int list \<Rightarrow> string \<Rightarrow> int \<Rightarrow> ('s, string) prog" where
  "jwt_sign_session J u email version perms ty expires = bnd now (\<lambda>t. bnd ulid_make (\<lambda>i.
     lift_sum (case jwt_sign J (SessionBody \<lparr>cl_id = i, cl_issuer = jwt_issuer J, cl_issued_at = Some (numeric_date t),
         cl_expires_at = Some (numeric_date expires), cl_user_id = u, cl_email = email, cl_type = ty,
         cl_session_version = version, cl_permissions = perms\<rparr>) of
       None \<Rightarrow> Inl (EWrap ''sign token'' (EText ''jwt'')) | Some v \<Rightarrow> Inr v)))"

record token_pair =
  pair_access :: string
  pair_refresh :: string
  pair_expires_at :: int

definition GenerateTokens :: "jwt \<Rightarrow> string \<Rightarrow> string \<Rightarrow> int \<Rightarrow> int list \<Rightarrow> ('s, token_pair) prog" where
  "GenerateTokens J u email version perms = bnd now (\<lambda>t.
     bnd (jwt_sign_session J u email version perms TokenTypeAccess (t + jwt_access_expiry J)) (\<lambda>access.
     bnd (jwt_sign_session J u email version [] TokenTypeRefresh (t + jwt_refresh_expiry J)) (\<lambda>refresh.
     ret \<lparr>pair_access = access, pair_refresh = refresh, pair_expires_at = t + jwt_access_expiry J\<rparr>)))"

text \<open>\<^verbatim>\<open>jwt.ParseWithClaims\<close> with an issuer and a required expiration: the clock must be before the expiration.\<close>

definition parse_ok :: "jwt \<Rightarrow> int \<Rightarrow> string \<Rightarrow> int option \<Rightarrow> bool" where
  "parse_ok J t issuer expires \<longleftrightarrow> issuer = jwt_issuer J \<and> (case expires of None \<Rightarrow> False | Some x \<Rightarrow> t < x)"

definition ValidateToken :: "jwt \<Rightarrow> string \<Rightarrow> string \<Rightarrow> ('s, claims) prog" where
  "ValidateToken J v ty = bnd now (\<lambda>t. lift_sum (case jwt_open J v of
     None \<Rightarrow> Inl (EWrap ''parse token'' (EText ''jwt''))
   | Some b \<Rightarrow> let c = as_claims b in
       if \<not> parse_ok J t (cl_issuer c) (cl_expires_at c) then Inl (EWrap ''parse token'' (EText ''jwt''))
       else if cl_user_id c = '''' \<or> cl_type c \<noteq> ty then Inl (EText ''invalid token'') else Inr c))"

definition SignOIDCTransaction :: "jwt \<Rightarrow> string \<Rightarrow> string \<Rightarrow> string \<Rightarrow> string \<Rightarrow> string \<Rightarrow> int \<Rightarrow> ('s, string) prog" where
  "SignOIDCTransaction J state provider nonce verifier redirect expires = (
     if state = '''' \<or> provider = '''' \<or> nonce = '''' \<or> verifier = '''' \<or> redirect = ''''
     then throw (EText ''invalid OIDC transaction claims'')
     else bnd now (\<lambda>t. lift_sum (case jwt_sign J (TransactionBody \<lparr>tx_issuer = jwt_issuer J, tx_issued_at = Some (numeric_date t),
         tx_expires_at = Some (numeric_date expires), tx_state = state, tx_provider_id = provider, tx_nonce = nonce,
         tx_code_verifier = verifier, tx_redirect_url = redirect\<rparr>) of
       None \<Rightarrow> Inl (EWrap ''sign OIDC transaction'' (EText ''jwt'')) | Some v \<Rightarrow> Inr v)))"

definition ValidateOIDCTransaction :: "jwt \<Rightarrow> string \<Rightarrow> ('s, oidc_transaction) prog" where
  "ValidateOIDCTransaction J v = bnd now (\<lambda>t. lift_sum (case jwt_open J v of
     None \<Rightarrow> Inl (EWrap ''parse OIDC transaction'' (EText ''jwt''))
   | Some b \<Rightarrow> let x = as_transaction b in
       if \<not> parse_ok J t (tx_issuer x) (tx_expires_at x) then Inl (EWrap ''parse OIDC transaction'' (EText ''jwt''))
       else if tx_state x = '''' \<or> tx_provider_id x = '''' \<or> tx_nonce x = '''' \<or> tx_code_verifier x = '''' \<or> tx_redirect_url x = ''''
       then Inl (EText ''invalid OIDC transaction'') else Inr x))"

lemma readonly_tokens [prog_rules]:
  "readonly (ValidateToken J v ty)" "readonly (ValidateOIDCTransaction J v)" "readonly (GenerateTokens J u em ver ps)"
  "readonly (SignOIDCTransaction J a b c d e x)"
  unfolding ValidateToken_def ValidateOIDCTransaction_def GenerateTokens_def jwt_sign_session_def SignOIDCTransaction_def
  by (intro prog_rules)+

text \<open>An accepted session token is one that was signed as a session token: the body of an OIDC transaction names no user.\<close>

lemma ValidateToken_Inr [run_simps]:
  "ValidateToken J v ty E n s = (Inr c, n', s') \<longleftrightarrow> jwt_open J v = Some (SessionBody c) \<and> cl_issuer c = jwt_issuer J \<and>
     (\<exists>x. cl_expires_at c = Some x \<and> clock E n < x) \<and> cl_user_id c \<noteq> '''' \<and> cl_type c = ty \<and> n' = Suc n \<and> s' = s"
  by (cases "jwt_open J v"; cases "the (jwt_open J v)")
    (auto simp: ValidateToken_def Let_def parse_ok_def run_simps split: option.splits if_splits)

lemma ValidateOIDC_Inr [run_simps]:
  "ValidateOIDCTransaction J v E n s = (Inr x, n', s') \<longleftrightarrow> jwt_open J v = Some (TransactionBody x) \<and> tx_issuer x = jwt_issuer J \<and>
     (\<exists>e. tx_expires_at x = Some e \<and> clock E n < e) \<and> tx_state x \<noteq> '''' \<and> tx_provider_id x \<noteq> '''' \<and> tx_nonce x \<noteq> '''' \<and>
     tx_code_verifier x \<noteq> '''' \<and> tx_redirect_url x \<noteq> '''' \<and> n' = Suc n \<and> s' = s"
  by (cases "jwt_open J v"; cases "the (jwt_open J v)")
    (auto simp: ValidateOIDCTransaction_def Let_def parse_ok_def run_simps split: option.splits if_splits)

section \<open>Which permission a procedure needs\<close>

definition control :: "string \<Rightarrow> string" where
  "control name = ''/cadestro.v1.ControlService/'' @ name"

text \<open>The enum \<^verbatim>\<open>Permission\<close>.\<close>

abbreviation (input) PERMISSION_GET_CURRENT_USER :: int where "PERMISSION_GET_CURRENT_USER \<equiv> 1"
abbreviation (input) PERMISSION_CREATE_IDENTITY_PROVIDER :: int where "PERMISSION_CREATE_IDENTITY_PROVIDER \<equiv> 2"
abbreviation (input) PERMISSION_GET_IDENTITY_PROVIDER :: int where "PERMISSION_GET_IDENTITY_PROVIDER \<equiv> 3"
abbreviation (input) PERMISSION_LIST_IDENTITY_PROVIDERS :: int where "PERMISSION_LIST_IDENTITY_PROVIDERS \<equiv> 4"
abbreviation (input) PERMISSION_UPDATE_IDENTITY_PROVIDER :: int where "PERMISSION_UPDATE_IDENTITY_PROVIDER \<equiv> 5"
abbreviation (input) PERMISSION_DELETE_IDENTITY_PROVIDER :: int where "PERMISSION_DELETE_IDENTITY_PROVIDER \<equiv> 6"
abbreviation (input) PERMISSION_LIST_DEVICES :: int where "PERMISSION_LIST_DEVICES \<equiv> 7"
abbreviation (input) PERMISSION_GET_DEVICE :: int where "PERMISSION_GET_DEVICE \<equiv> 8"
abbreviation (input) PERMISSION_DELETE_DEVICE :: int where "PERMISSION_DELETE_DEVICE \<equiv> 9"
abbreviation (input) PERMISSION_CREATE_TOKEN :: int where "PERMISSION_CREATE_TOKEN \<equiv> 10"
abbreviation (input) PERMISSION_LIST_TOKENS :: int where "PERMISSION_LIST_TOKENS \<equiv> 11"
abbreviation (input) PERMISSION_RENAME_TOKEN :: int where "PERMISSION_RENAME_TOKEN \<equiv> 12"
abbreviation (input) PERMISSION_DELETE_TOKEN :: int where "PERMISSION_DELETE_TOKEN \<equiv> 13"
abbreviation (input) PERMISSION_CREATE_ACTION :: int where "PERMISSION_CREATE_ACTION \<equiv> 14"
abbreviation (input) PERMISSION_GET_ACTION :: int where "PERMISSION_GET_ACTION \<equiv> 15"
abbreviation (input) PERMISSION_LIST_ACTIONS :: int where "PERMISSION_LIST_ACTIONS \<equiv> 16"
abbreviation (input) PERMISSION_RENAME_ACTION :: int where "PERMISSION_RENAME_ACTION \<equiv> 17"
abbreviation (input) PERMISSION_UPDATE_ACTION_DESCRIPTION :: int where "PERMISSION_UPDATE_ACTION_DESCRIPTION \<equiv> 18"
abbreviation (input) PERMISSION_UPDATE_ACTION_PARAMS :: int where "PERMISSION_UPDATE_ACTION_PARAMS \<equiv> 19"
abbreviation (input) PERMISSION_DELETE_ACTION :: int where "PERMISSION_DELETE_ACTION \<equiv> 20"
abbreviation (input) PERMISSION_CREATE_DEVICE_GROUP :: int where "PERMISSION_CREATE_DEVICE_GROUP \<equiv> 21"
abbreviation (input) PERMISSION_GET_DEVICE_GROUP :: int where "PERMISSION_GET_DEVICE_GROUP \<equiv> 22"
abbreviation (input) PERMISSION_LIST_DEVICE_GROUPS :: int where "PERMISSION_LIST_DEVICE_GROUPS \<equiv> 23"
abbreviation (input) PERMISSION_LIST_DEVICE_GROUPS_FOR_DEVICE :: int where "PERMISSION_LIST_DEVICE_GROUPS_FOR_DEVICE \<equiv> 24"
abbreviation (input) PERMISSION_RENAME_DEVICE_GROUP :: int where "PERMISSION_RENAME_DEVICE_GROUP \<equiv> 25"
abbreviation (input) PERMISSION_UPDATE_DEVICE_GROUP_DESCRIPTION :: int where "PERMISSION_UPDATE_DEVICE_GROUP_DESCRIPTION \<equiv> 26"
abbreviation (input) PERMISSION_DELETE_DEVICE_GROUP :: int where "PERMISSION_DELETE_DEVICE_GROUP \<equiv> 27"
abbreviation (input) PERMISSION_ADD_DEVICE_TO_GROUP :: int where "PERMISSION_ADD_DEVICE_TO_GROUP \<equiv> 28"
abbreviation (input) PERMISSION_REMOVE_DEVICE_FROM_GROUP :: int where "PERMISSION_REMOVE_DEVICE_FROM_GROUP \<equiv> 29"
abbreviation (input) PERMISSION_CREATE_ASSIGNMENT :: int where "PERMISSION_CREATE_ASSIGNMENT \<equiv> 30"
abbreviation (input) PERMISSION_DELETE_ASSIGNMENT :: int where "PERMISSION_DELETE_ASSIGNMENT \<equiv> 31"
abbreviation (input) PERMISSION_LIST_ASSIGNMENTS :: int where "PERMISSION_LIST_ASSIGNMENTS \<equiv> 32"
abbreviation (input) PERMISSION_GET_DEVICE_ASSIGNMENTS :: int where "PERMISSION_GET_DEVICE_ASSIGNMENTS \<equiv> 33"
abbreviation (input) PERMISSION_GET_DEVICE_COMPLIANCE :: int where "PERMISSION_GET_DEVICE_COMPLIANCE \<equiv> 34"
abbreviation (input) PERMISSION_LIST_EXECUTION_RESULTS :: int where "PERMISSION_LIST_EXECUTION_RESULTS \<equiv> 35"
abbreviation (input) PERMISSION_LIST_AUDIT_EVENTS :: int where "PERMISSION_LIST_AUDIT_EVENTS \<equiv> 36"
abbreviation (input) PERMISSION_CREATE_ROLE :: int where "PERMISSION_CREATE_ROLE \<equiv> 37"
abbreviation (input) PERMISSION_GET_ROLE :: int where "PERMISSION_GET_ROLE \<equiv> 38"
abbreviation (input) PERMISSION_LIST_ROLES :: int where "PERMISSION_LIST_ROLES \<equiv> 39"
abbreviation (input) PERMISSION_UPDATE_ROLE :: int where "PERMISSION_UPDATE_ROLE \<equiv> 40"
abbreviation (input) PERMISSION_DELETE_ROLE :: int where "PERMISSION_DELETE_ROLE \<equiv> 41"
abbreviation (input) PERMISSION_ASSIGN_ROLE_TO_USER :: int where "PERMISSION_ASSIGN_ROLE_TO_USER \<equiv> 42"
abbreviation (input) PERMISSION_REVOKE_ROLE_FROM_USER :: int where "PERMISSION_REVOKE_ROLE_FROM_USER \<equiv> 43"
abbreviation (input) PERMISSION_LIST_PERMISSIONS :: int where "PERMISSION_LIST_PERMISSIONS \<equiv> 44"
abbreviation (input) PERMISSION_LIST_USERS :: int where "PERMISSION_LIST_USERS \<equiv> 45"
abbreviation (input) PERMISSION_REVOKE_USER_SESSIONS :: int where "PERMISSION_REVOKE_USER_SESSIONS \<equiv> 46"

definition procedure_permissions :: "(string \<times> int) list" where
  "procedure_permissions = map (\<lambda>(name, p). (control name, p)) [
     (''GetCurrentUser'', PERMISSION_GET_CURRENT_USER),
     (''CreateIdentityProvider'', PERMISSION_CREATE_IDENTITY_PROVIDER),
     (''GetIdentityProvider'', PERMISSION_GET_IDENTITY_PROVIDER),
     (''ListIdentityProviders'', PERMISSION_LIST_IDENTITY_PROVIDERS),
     (''RenameIdentityProvider'', PERMISSION_UPDATE_IDENTITY_PROVIDER),
     (''ConfigureIdentityProvider'', PERMISSION_UPDATE_IDENTITY_PROVIDER),
     (''EnableIdentityProvider'', PERMISSION_UPDATE_IDENTITY_PROVIDER),
     (''DisableIdentityProvider'', PERMISSION_UPDATE_IDENTITY_PROVIDER),
     (''DeleteIdentityProvider'', PERMISSION_DELETE_IDENTITY_PROVIDER),
     (''ListDevices'', PERMISSION_LIST_DEVICES), (''GetDevice'', PERMISSION_GET_DEVICE),
     (''DeleteDevice'', PERMISSION_DELETE_DEVICE), (''CreateToken'', PERMISSION_CREATE_TOKEN),
     (''ListTokens'', PERMISSION_LIST_TOKENS), (''RenameToken'', PERMISSION_RENAME_TOKEN),
     (''DeleteToken'', PERMISSION_DELETE_TOKEN), (''CreateAction'', PERMISSION_CREATE_ACTION),
     (''GetAction'', PERMISSION_GET_ACTION), (''ListActions'', PERMISSION_LIST_ACTIONS),
     (''RenameAction'', PERMISSION_RENAME_ACTION),
     (''SetActionDescription'', PERMISSION_UPDATE_ACTION_DESCRIPTION),
     (''ConfigureAction'', PERMISSION_UPDATE_ACTION_PARAMS),
     (''DeleteAction'', PERMISSION_DELETE_ACTION),
     (''CreateDeviceGroup'', PERMISSION_CREATE_DEVICE_GROUP),
     (''GetDeviceGroup'', PERMISSION_GET_DEVICE_GROUP),
     (''ListDeviceGroups'', PERMISSION_LIST_DEVICE_GROUPS),
     (''ListDeviceGroupsForDevice'', PERMISSION_LIST_DEVICE_GROUPS_FOR_DEVICE),
     (''RenameDeviceGroup'', PERMISSION_RENAME_DEVICE_GROUP),
     (''SetDeviceGroupDescription'', PERMISSION_UPDATE_DEVICE_GROUP_DESCRIPTION),
     (''DeleteDeviceGroup'', PERMISSION_DELETE_DEVICE_GROUP),
     (''AddDeviceToGroup'', PERMISSION_ADD_DEVICE_TO_GROUP),
     (''RemoveDeviceFromGroup'', PERMISSION_REMOVE_DEVICE_FROM_GROUP),
     (''CreateAssignment'', PERMISSION_CREATE_ASSIGNMENT),
     (''DeleteAssignment'', PERMISSION_DELETE_ASSIGNMENT),
     (''ListAssignments'', PERMISSION_LIST_ASSIGNMENTS),
     (''GetDeviceAssignments'', PERMISSION_GET_DEVICE_ASSIGNMENTS),
     (''GetDeviceCompliance'', PERMISSION_GET_DEVICE_COMPLIANCE),
     (''ListExecutionResults'', PERMISSION_LIST_EXECUTION_RESULTS),
     (''ListAuditEvents'', PERMISSION_LIST_AUDIT_EVENTS), (''CreateRole'', PERMISSION_CREATE_ROLE),
     (''GetRole'', PERMISSION_GET_ROLE), (''ListRoles'', PERMISSION_LIST_ROLES),
     (''RenameRole'', PERMISSION_UPDATE_ROLE), (''SetRoleDescription'', PERMISSION_UPDATE_ROLE),
     (''GrantRolePermission'', PERMISSION_UPDATE_ROLE),
     (''RevokeRolePermission'', PERMISSION_UPDATE_ROLE), (''DeleteRole'', PERMISSION_DELETE_ROLE),
     (''AssignRoleToUser'', PERMISSION_ASSIGN_ROLE_TO_USER),
     (''RevokeRoleFromUser'', PERMISSION_REVOKE_ROLE_FROM_USER),
     (''ListPermissions'', PERMISSION_LIST_PERMISSIONS), (''ListUsers'', PERMISSION_LIST_USERS),
     (''RevokeUserSessions'', PERMISSION_REVOKE_USER_SESSIONS)]"

definition PermissionForProcedure :: "string \<Rightarrow> int option" where
  "PermissionForProcedure p = map_of procedure_permissions p"

definition public_procedures :: "string list" where
  "public_procedures = map control [
     ''RefreshToken'', ''Logout'', ''ListAuthMethods'', ''GetSSOLoginURL'',
     ''SSOCallback'', ''Register'', ''RenewCertificate'']"

definition publicProcedure :: "string \<Rightarrow> bool" where
  "publicProcedure p \<longleftrightarrow> p \<in> set public_procedures"

text \<open>The procedures of the service, from the generated \<^verbatim>\<open>control.connect.go\<close>.\<close>

definition control_procedures :: "string list" where
  "control_procedures = map control [
     ''RefreshToken'', ''Logout'', ''GetCurrentUser'', ''ListAuthMethods'',
     ''GetSSOLoginURL'', ''SSOCallback'', ''CreateIdentityProvider'',
     ''GetIdentityProvider'', ''ListIdentityProviders'', ''RenameIdentityProvider'',
     ''ConfigureIdentityProvider'', ''EnableIdentityProvider'', ''DisableIdentityProvider'',
     ''DeleteIdentityProvider'', ''Register'', ''RenewCertificate'', ''ListDevices'',
     ''GetDevice'', ''DeleteDevice'', ''CreateToken'', ''ListTokens'',
     ''RenameToken'', ''DeleteToken'', ''CreateAction'', ''GetAction'',
     ''ListActions'', ''RenameAction'', ''SetActionDescription'', ''ConfigureAction'',
     ''DeleteAction'', ''CreateDeviceGroup'', ''GetDeviceGroup'',
     ''ListDeviceGroups'', ''ListDeviceGroupsForDevice'', ''RenameDeviceGroup'',
     ''SetDeviceGroupDescription'', ''DeleteDeviceGroup'', ''AddDeviceToGroup'',
     ''RemoveDeviceFromGroup'', ''CreateAssignment'', ''DeleteAssignment'',
     ''ListAssignments'', ''GetDeviceAssignments'', ''GetDeviceCompliance'',
     ''ListExecutionResults'', ''ListAuditEvents'', ''CreateRole'', ''GetRole'',
     ''ListRoles'', ''RenameRole'', ''SetRoleDescription'', ''GrantRolePermission'',
     ''RevokeRolePermission'', ''DeleteRole'', ''AssignRoleToUser'',
     ''RevokeRoleFromUser'', ''ListPermissions'', ''ListUsers'',
     ''RevokeUserSessions'']"

lemma control_inj [simp]: "control a = control b \<longleftrightarrow> a = b"
  by (simp add: control_def)

lemma control_injective: "inj control"
  by (simp add: inj_on_def)

lemma map_of_control: "map_of (map (\<lambda>(name, p). (control name, p)) t) (control x) = map_of t x"
  by (induction t) auto

section \<open>The interceptor\<close>

datatype interception = Denied go_error | Next go_ctx

definition userHasPermission :: "int list \<Rightarrow> int \<Rightarrow> bool" where
  "userHasPermission perms required = list_ex (\<lambda>p. p = required) perms"

definition WithUser :: "go_ctx \<Rightarrow> user_context \<Rightarrow> go_ctx" where
  "WithUser ctx u = ctx\<lparr>ctx_user := Some u\<rparr>"

definition authentication_required :: go_error where
  "authentication_required = ERpc CodeUnauthenticated ''authentication required''"

text \<open>\<open>authorization\<close> is the request's header, empty when it is missing.\<close>

definition WrapUnary :: "jwt \<Rightarrow> string \<Rightarrow> string \<Rightarrow> go_ctx \<Rightarrow> ('s, interception) prog" where
  "WrapUnary J procedure authorization ctx = (
     if publicProcedure procedure then ret (Next ctx)
     else (case Cut authorization '' '' of
       None \<Rightarrow> ret (Denied authentication_required)
     | Some (pre, token) \<Rightarrow>
         if ToLower pre \<noteq> ''bearer'' \<or> token = '''' then ret (Denied authentication_required)
         else handle (bnd (ValidateToken J token TokenTypeAccess) (\<lambda>c.
             case PermissionForProcedure procedure of
               None \<Rightarrow> ret (Denied (ERpc CodePermissionDenied ''permission denied''))
             | Some p \<Rightarrow> if \<not> userHasPermission (cl_permissions c) p then ret (Denied (ERpc CodePermissionDenied ''permission denied''))
                 else ret (Next (WithUser ctx \<lparr>uc_id = cl_user_id c, uc_email = cl_email c,
                   uc_session_version = cl_session_version c, uc_permissions = cl_permissions c\<rparr>))))
           (\<lambda>_. ret (Denied (ERpc CodeUnauthenticated ''invalid access token'')))))"

lemma readonly_interceptor [prog_rules]: "readonly (WrapUnary J procedure authorization ctx)"
  unfolding WrapUnary_def by (intro prog_rules)

end
