(* ===== verification/Server_Store.thy ===== *)
theory Server_Store
  imports Contract
begin

text \<open>
  The control server's SQLite database: the rows of
  \<^verbatim>\<open>server/internal/store/generated/models.go\<close>, the schema of
  \<^verbatim>\<open>server/internal/store/migrations\<close>, the statements of
  \<^verbatim>\<open>server/internal/store/generated/core.sql.go\<close> (each with the prefix \<open>q_\<close>) and
  \<^verbatim>\<open>server/internal/store/store.go\<close>.

  A table is the list of its rows; UNIQUE and PRIMARY KEY violations are \<open>EUnique\<close>, CHECK and FOREIGN KEY
  violations \<open>EConstraint\<close>, and ON DELETE CASCADE is written into the statements that delete. Times are
  nanoseconds; \<^verbatim>\<open>CURRENT_TIMESTAMP\<close> is the clock cut to the second. Text compares bytewise, as
  SQLite's BINARY collation does.
\<close>

section \<open>Rows\<close>

datatype audit_event_type =
    AUDIT_EVENT_TYPE_USER_SESSIONS_REVOKED | AUDIT_EVENT_TYPE_EXECUTION_RESULT_RECEIVED
  | AUDIT_EVENT_TYPE_DEVICE_CERTIFICATE_RENEWED | AUDIT_EVENT_TYPE_DEVICE_REGISTERED
  | AUDIT_EVENT_TYPE_DEVICE_DELETED | AUDIT_EVENT_TYPE_ASSIGNMENT_CREATED
  | AUDIT_EVENT_TYPE_ASSIGNMENT_DELETED | AUDIT_EVENT_TYPE_REGISTRATION_TOKEN_CREATED
  | AUDIT_EVENT_TYPE_REGISTRATION_TOKEN_UPDATED | AUDIT_EVENT_TYPE_REGISTRATION_TOKEN_DELETED
  | AUDIT_EVENT_TYPE_DEVICE_GROUP_CREATED | AUDIT_EVENT_TYPE_DEVICE_GROUP_UPDATED
  | AUDIT_EVENT_TYPE_DEVICE_GROUP_DELETED | AUDIT_EVENT_TYPE_DEVICE_GROUP_MEMBER_ADDED
  | AUDIT_EVENT_TYPE_DEVICE_GROUP_MEMBER_REMOVED | AUDIT_EVENT_TYPE_ACTION_CREATED
  | AUDIT_EVENT_TYPE_ACTION_UPDATED | AUDIT_EVENT_TYPE_ACTION_DELETED
  | AUDIT_EVENT_TYPE_IDENTITY_PROVIDER_CREATED

datatype audit_stream_type =
    AUDIT_STREAM_TYPE_USER | AUDIT_STREAM_TYPE_ACTION | AUDIT_STREAM_TYPE_DEVICE
  | AUDIT_STREAM_TYPE_ASSIGNMENT | AUDIT_STREAM_TYPE_REGISTRATION_TOKEN
  | AUDIT_STREAM_TYPE_DEVICE_GROUP | AUDIT_STREAM_TYPE_IDENTITY_PROVIDER

datatype audit_actor_type =
    AUDIT_ACTOR_TYPE_USER | AUDIT_ACTOR_TYPE_DEVICE | AUDIT_ACTOR_TYPE_REGISTRATION_TOKEN

text \<open>A permission is its enum number; the named ones are \<^verbatim>\<open>1 .. 46\<close>.\<close>

type_synonym permission = int

record db_action =
  ac_id :: string
  ac_name :: string
  ac_description :: string
  ac_blob :: bytes
  ac_created_at :: int
  ac_updated_at :: int

record db_assignment =
  asg_id :: string
  asg_action_id :: string
  asg_target_type :: assignment_target_type
  asg_target_id :: string
  asg_created_at :: int

record audit_event =
  ae_id :: string
  ae_event_type :: audit_event_type
  ae_stream_type :: audit_stream_type
  ae_stream_id :: string
  ae_actor_type :: audit_actor_type
  ae_actor_id :: string
  ae_occurred_at :: int

record device =
  dev_id :: string
  dev_hostname :: string
  dev_agent_version :: string
  dev_identity_key :: bytes
  dev_active_pem :: bytes
  dev_active_serial :: string
  dev_cert_expires_at :: int
  dev_pending_pem :: "bytes option"
  dev_pending_serial :: "string option"
  dev_pending_expires_at :: "int option"
  dev_registered_at :: int
  dev_last_seen_at :: "int option"
  dev_created_at :: int
  dev_updated_at :: int

record device_group =
  grp_id :: string
  grp_name :: string
  grp_description :: string
  grp_created_at :: int
  grp_updated_at :: int

record device_group_member =
  gm_group_id :: string
  gm_device_id :: string

record execution_result =
  er_run_id :: string
  er_device_id :: string
  er_action_id :: string
  er_completed_at :: int
  er_blob :: bytes

record identity_link =
  il_provider_id :: string
  il_subject :: string
  il_user_id :: string

record identity_provider =
  idp_id :: string
  idp_name :: string
  idp_slug :: string
  idp_enabled :: bool
  idp_client_id :: string
  idp_issuer_url :: string
  idp_scopes :: "string list"
  idp_created_at :: int
  idp_updated_at :: int

record registration_token =
  tok_id :: string
  tok_value_hash :: string
  tok_name :: string
  tok_max_uses :: int
  tok_current_uses :: int
  tok_expires_at :: int
  tok_created_at :: int
  tok_updated_at :: int

record role =
  role_id :: string
  role_name :: string
  role_description :: string
  role_created_at :: int
  role_updated_at :: int

record role_permission =
  rp_role_id :: string
  rp_permission :: permission

record user =
  usr_id :: string
  usr_email :: string
  usr_display_name :: string
  usr_session_version :: int
  usr_created_at :: int
  usr_updated_at :: int
  usr_last_login_at :: int

record user_role =
  ur_user_id :: string
  ur_role_id :: string

record srv_db =
  identity_providers :: "identity_provider list"
  users :: "user list"
  roles :: "role list"
  role_permissions :: "role_permission list"
  user_roles :: "user_role list"
  identity_links :: "identity_link list"
  registration_tokens :: "registration_token list"
  devices :: "device list"
  actions :: "db_action list"
  device_groups :: "device_group list"
  device_group_members :: "device_group_member list"
  assignments :: "db_assignment list"
  execution_results :: "execution_result list"
  audit_events :: "audit_event list"

type_synonym 'a srv = "(srv_db, 'a) prog"

section \<open>The store\<close>

definition Transaction :: "'a srv \<Rightarrow> 'a srv" where
  "Transaction m = transaction (EWrap ''begin transaction'' EDriver) m"

definition IsNotFound :: "go_error \<Rightarrow> bool" where
  "IsNotFound e = errors_is e ENoRows"

definition IsConflict :: "go_error \<Rightarrow> bool" where
  "IsConflict e = errors_is e EUnique"

lemmas store_error_simps [simp] = IsNotFound_def IsConflict_def

lemma Transaction_rules [prog_rules]:
  "atomic (Transaction m)" "keeps_ok I m \<Longrightarrow> keeps I (Transaction m)" "keeps_ok I m \<Longrightarrow> keeps_ok I (Transaction m)"
  by (simp_all add: Transaction_def prog_rules)

lemma Transaction_Inr [run_simps]:
  "Transaction m E n s = (Inr x, n', s') \<longleftrightarrow>
    \<not> fault E n \<and> (\<exists>n1. m E (Suc n) s = (Inr x, n1, s') \<and> \<not> fault E n1 \<and> n' = Suc n1)"
  by (simp add: Transaction_def run_simps)

text \<open>A statement that reads \<^verbatim>\<open>CURRENT_TIMESTAMP\<close>.\<close>

definition current_timestamp :: "int \<Rightarrow> int" where
  "current_timestamp t = t div 1000000000 * 1000000000"

definition sql_now :: "(int \<Rightarrow> srv_db \<Rightarrow> go_error + 'a \<times> srv_db) \<Rightarrow> 'a srv" where
  "sql_now f = (\<lambda>E n s. sql (f (current_timestamp (clock E n))) E n s)"

lemma sql_now_Inr [run_simps]:
  "sql_now f E n s = (Inr x, n', s') \<longleftrightarrow>
    \<not> fault E n \<and> f (current_timestamp (clock E n)) s = Inr (x, s') \<and> n' = Suc n"
  by (simp add: sql_now_def run_simps)

lemma sql_now_Inl [run_simps]:
  "sql_now f E n s = (Inl e, n', s') \<longleftrightarrow>
    n' = Suc n \<and> s' = s \<and> (if fault E n then e = EDriver else f (current_timestamp (clock E n)) s = Inl e)"
  by (simp add: sql_now_def run_simps)

lemma atomic_sql_now [prog_rules]: "atomic (sql_now f)"
  by (auto simp: atomic_def run_simps)

lemma keeps_sql_nowI [prog_rules]:
  "(\<And>t s x s'. I s \<Longrightarrow> f t s = Inr (x, s') \<Longrightarrow> I s') \<Longrightarrow> keeps I (sql_now f)"
  by (rule keeps_atomic [OF atomic_sql_now], rule keeps_okI) (auto simp: run_simps)

lemma keeps_sqlI: "(\<And>s x s'. I s \<Longrightarrow> f s = Inr (x, s') \<Longrightarrow> I s') \<Longrightarrow> keeps I (sql f)"
  by (rule keeps_atomic [OF atomic_sql], rule keeps_okI) (auto simp: run_simps)

text \<open>INSERT into a table with the unique constraints \<open>clash\<close> and the other constraints \<open>ok\<close>.\<close>

definition insert_row :: "('r \<Rightarrow> 'r \<Rightarrow> bool) \<Rightarrow> bool \<Rightarrow> 'r \<Rightarrow> 'r list \<Rightarrow> go_error + 'r list" where
  "insert_row clash ok r rs = (if \<exists>q\<in>set rs. clash q r then Inl EUnique
     else if \<not> ok then Inl EConstraint else Inr (rs @ [r]))"

lemma insert_row_Inr:
  "insert_row clash ok r rs = Inr rs' \<longleftrightarrow> (\<forall>q\<in>set rs. \<not> clash q r) \<and> ok \<and> rs' = rs @ [r]"
  by (auto simp: insert_row_def)

text \<open>\<^verbatim>\<open>EXISTS (SELECT 1 FROM rs WHERE k = x)\<close>: what a foreign key needs.\<close>

definition exists_row :: "('r \<Rightarrow> 'k) \<Rightarrow> 'k \<Rightarrow> 'r list \<Rightarrow> bool" where
  "exists_row k x rs \<longleftrightarrow> (\<exists>r\<in>set rs. k r = x)"

lemma exists_row_append [simp]: "exists_row k x (rs @ [r]) \<longleftrightarrow> exists_row k x rs \<or> k r = x"
  by (auto simp: exists_row_def)

lemma exists_row_upd: "(\<And>r. p r \<Longrightarrow> k (f r) = k r) \<Longrightarrow> exists_row k x (upd_rows p f rs) = exists_row k x rs"
  by (induction rs) (auto simp: exists_row_def)

lemma exists_row_del [simp]: "exists_row k x (del_rows (\<lambda>r. k r = y) rs) \<longleftrightarrow> x \<noteq> y \<and> exists_row k x rs"
  by (auto simp: exists_row_def)

lemma exists_rowI: "r \<in> set rs \<Longrightarrow> k r = x \<Longrightarrow> exists_row k x rs"
  by (auto simp: exists_row_def)

definition put :: "'a \<Rightarrow> ('t \<Rightarrow> srv_db) \<Rightarrow> go_error + 't \<Rightarrow> go_error + 'a \<times> srv_db" where
  "put x upd r = (case r of Inl e \<Rightarrow> Inl e | Inr t \<Rightarrow> Inr (x, upd t))"

lemma put_Inr [simp]: "put x upd r = Inr (y, s') \<longleftrightarrow> y = x \<and> (\<exists>t. r = Inr t \<and> s' = upd t)"
  by (auto simp: put_def split: sum.splits)

text \<open>\<^verbatim>\<open>UPDATE ... WHERE p RETURNING *\<close> read as \<^verbatim>\<open>:one\<close>: the first updated row, or \<^verbatim>\<open>sql.ErrNoRows\<close>; \<open>bad\<close> is a
  unique constraint the new values break.\<close>

definition update_one :: "('r \<Rightarrow> bool) \<Rightarrow> ('r \<Rightarrow> 'r) \<Rightarrow> bool \<Rightarrow> 'r list \<Rightarrow> ('r list \<Rightarrow> srv_db) \<Rightarrow> go_error + 'r \<times> srv_db" where
  "update_one p f bad rs upd = (case List.find p rs of None \<Rightarrow> Inl ENoRows
     | Some r \<Rightarrow> if bad then Inl EUnique else Inr (f r, upd (upd_rows p f rs)))"

lemma update_one_Inr:
  "update_one p f bad rs upd = Inr (x, s') \<longleftrightarrow>
    (\<exists>r. List.find p rs = Some r \<and> \<not> bad \<and> x = f r \<and> s' = upd (upd_rows p f rs))"
  by (auto simp: update_one_def split: option.splits)

section \<open>Statements on accounts\<close>

text \<open>\<^verbatim>\<open>WHERE id > ? ORDER BY id LIMIT ?\<close>\<close>

definition page_after :: "('r \<Rightarrow> string) \<Rightarrow> string \<Rightarrow> nat \<Rightarrow> 'r list \<Rightarrow> 'r list" where
  "page_after key after lim rs = take lim (sort_key key (filter (\<lambda>r. after < key r) rs))"

definition q_CountIdentityProviders :: "nat srv" where
  "q_CountIdentityProviders = query (\<lambda>s. length (identity_providers s))"

definition q_CreateIdentityProvider :: "string \<Rightarrow> string \<Rightarrow> string \<Rightarrow> bool \<Rightarrow> string \<Rightarrow> string \<Rightarrow> string list \<Rightarrow> identity_provider srv" where
  "q_CreateIdentityProvider i name slug en cid url scopes = sql_now (\<lambda>t s.
     let r = \<lparr>idp_id = i, idp_name = name, idp_slug = slug, idp_enabled = en, idp_client_id = cid,
       idp_issuer_url = url, idp_scopes = scopes, idp_created_at = t, idp_updated_at = t\<rparr> in
     put r (\<lambda>x. s\<lparr>identity_providers := x\<rparr>)
       (insert_row (\<lambda>a b. idp_id a = idp_id b \<or> idp_slug a = idp_slug b) True r (identity_providers s)))"

definition q_GetIdentityProvider :: "string \<Rightarrow> identity_provider srv" where
  "q_GetIdentityProvider i = query_one (\<lambda>s. List.find (\<lambda>r. idp_id r = i) (identity_providers s))"

definition q_GetIdentityProviderBySlug :: "string \<Rightarrow> identity_provider srv" where
  "q_GetIdentityProviderBySlug slug = query_one (\<lambda>s. List.find (\<lambda>r. idp_slug r = slug) (identity_providers s))"

definition q_ListIdentityProviders :: "identity_provider list srv" where
  "q_ListIdentityProviders = query (\<lambda>s. sort_key (\<lambda>r. (idp_name r, idp_id r)) (identity_providers s))"

definition q_ListEnabledIdentityProviders :: "identity_provider list srv" where
  "q_ListEnabledIdentityProviders =
     query (\<lambda>s. sort_key (\<lambda>r. (idp_name r, idp_id r)) (filter idp_enabled (identity_providers s)))"

definition update_provider :: "string \<Rightarrow> (identity_provider \<Rightarrow> identity_provider) \<Rightarrow> identity_provider srv" where
  "update_provider i f = sql_now (\<lambda>t s. update_one (\<lambda>r. idp_id r = i) (\<lambda>r. (f r)\<lparr>idp_updated_at := t\<rparr>) False
     (identity_providers s) (\<lambda>x. s\<lparr>identity_providers := x\<rparr>))"

definition q_ConfigureIdentityProvider :: "string \<Rightarrow> string \<Rightarrow> string list \<Rightarrow> string \<Rightarrow> identity_provider srv" where
  "q_ConfigureIdentityProvider cid url scopes i =
     update_provider i (\<lambda>r. r\<lparr>idp_client_id := cid, idp_issuer_url := url, idp_scopes := scopes\<rparr>)"

definition q_RenameIdentityProvider :: "string \<Rightarrow> string \<Rightarrow> identity_provider srv" where
  "q_RenameIdentityProvider name i = update_provider i (\<lambda>r. r\<lparr>idp_name := name\<rparr>)"

definition q_EnableIdentityProvider :: "string \<Rightarrow> identity_provider srv" where
  "q_EnableIdentityProvider i = update_provider i (\<lambda>r. r\<lparr>idp_enabled := True\<rparr>)"

definition q_DisableIdentityProvider :: "string \<Rightarrow> identity_provider srv" where
  "q_DisableIdentityProvider i = update_provider i (\<lambda>r. r\<lparr>idp_enabled := False\<rparr>)"

definition q_DeleteIdentityProvider :: "string \<Rightarrow> nat srv" where
  "q_DeleteIdentityProvider i = sql (\<lambda>s. Inr (count_rows (\<lambda>r. idp_id r = i) (identity_providers s),
     s\<lparr>identity_providers := del_rows (\<lambda>r. idp_id r = i) (identity_providers s),
       identity_links := del_rows (\<lambda>l. il_provider_id l = i) (identity_links s)\<rparr>))"

definition q_GetUser :: "string \<Rightarrow> user srv" where
  "q_GetUser i = query_one (\<lambda>s. List.find (\<lambda>u. usr_id u = i) (users s))"

definition q_CreateUser :: "string \<Rightarrow> string \<Rightarrow> string \<Rightarrow> int \<Rightarrow> user srv" where
  "q_CreateUser i email name login = sql_now (\<lambda>t s.
     let r = \<lparr>usr_id = i, usr_email = email, usr_display_name = name, usr_session_version = 1,
       usr_created_at = t, usr_updated_at = t, usr_last_login_at = login\<rparr> in
     put r (\<lambda>x. s\<lparr>users := x\<rparr>) (insert_row (\<lambda>a b. usr_id a = usr_id b) True r (users s)))"

definition q_LinkIdentity :: "string \<Rightarrow> string \<Rightarrow> string \<Rightarrow> unit srv" where
  "q_LinkIdentity provider subject u = sql (\<lambda>s.
     let r = \<lparr>il_provider_id = provider, il_subject = subject, il_user_id = u\<rparr> in
     put () (\<lambda>x. s\<lparr>identity_links := x\<rparr>)
       (insert_row (\<lambda>a b. il_provider_id a = il_provider_id b \<and> il_subject a = il_subject b)
         (exists_row idp_id provider (identity_providers s) \<and> exists_row usr_id u (users s)) r (identity_links s)))"

definition bump_session :: "int \<Rightarrow> user \<Rightarrow> user" where
  "bump_session t u = u\<lparr>usr_session_version := usr_session_version u + 1, usr_updated_at := t\<rparr>"

definition q_UpdateIdentityUserLogin :: "string \<Rightarrow> string \<Rightarrow> int \<Rightarrow> string \<Rightarrow> string \<Rightarrow> user srv" where
  "q_UpdateIdentityUserLogin email name login provider subject = sql_now (\<lambda>t s.
     case List.find (\<lambda>l. il_provider_id l = provider \<and> il_subject l = subject) (identity_links s) of
       None \<Rightarrow> Inl ENoRows
     | Some l \<Rightarrow> update_one (\<lambda>u. usr_id u = il_user_id l)
         (\<lambda>u. (bump_session t u)\<lparr>usr_email := email, usr_display_name := name, usr_last_login_at := login\<rparr>)
         False (users s) (\<lambda>x. s\<lparr>users := x\<rparr>))"

definition q_RotateUserSession :: "string \<Rightarrow> int \<Rightarrow> user srv" where
  "q_RotateUserSession i version = sql_now (\<lambda>t s. update_one (\<lambda>u. usr_id u = i \<and> usr_session_version u = version)
     (bump_session t) False (users s) (\<lambda>x. s\<lparr>users := x\<rparr>))"

definition q_CreateRole :: "string \<Rightarrow> string \<Rightarrow> string \<Rightarrow> role srv" where
  "q_CreateRole i name descr = sql_now (\<lambda>t s.
     let r = \<lparr>role_id = i, role_name = name, role_description = descr, role_created_at = t, role_updated_at = t\<rparr> in
     put r (\<lambda>x. s\<lparr>roles := x\<rparr>)
       (insert_row (\<lambda>a b. role_id a = role_id b \<or> role_name a = role_name b) True r (roles s)))"

definition q_GetRole :: "string \<Rightarrow> role srv" where
  "q_GetRole i = query_one (\<lambda>s. List.find (\<lambda>r. role_id r = i) (roles s))"

definition q_ListRoles :: "string \<Rightarrow> nat \<Rightarrow> role list srv" where
  "q_ListRoles after lim = query (\<lambda>s. page_after role_id after lim (roles s))"

definition q_RenameRole :: "string \<Rightarrow> string \<Rightarrow> role srv" where
  "q_RenameRole name i = sql_now (\<lambda>t s. update_one (\<lambda>r. role_id r = i) (\<lambda>r. r\<lparr>role_name := name, role_updated_at := t\<rparr>)
     (\<exists>q\<in>set (roles s). role_id q \<noteq> i \<and> role_name q = name) (roles s) (\<lambda>x. s\<lparr>roles := x\<rparr>))"

definition q_SetRoleDescription :: "string \<Rightarrow> string \<Rightarrow> role srv" where
  "q_SetRoleDescription descr i = sql_now (\<lambda>t s. update_one (\<lambda>r. role_id r = i)
     (\<lambda>r. r\<lparr>role_description := descr, role_updated_at := t\<rparr>) False (roles s) (\<lambda>x. s\<lparr>roles := x\<rparr>))"

definition q_DeleteRole :: "string \<Rightarrow> nat srv" where
  "q_DeleteRole i = sql (\<lambda>s. Inr (count_rows (\<lambda>r. role_id r = i) (roles s),
     s\<lparr>roles := del_rows (\<lambda>r. role_id r = i) (roles s),
       role_permissions := del_rows (\<lambda>p. rp_role_id p = i) (role_permissions s),
       user_roles := del_rows (\<lambda>u. ur_role_id u = i) (user_roles s)\<rparr>))"

text \<open>\<^verbatim>\<open>INSERT ... SELECT ... RETURNING\<close> inserts nothing, and returns no row, for a missing role.\<close>

definition q_GrantRolePermission :: "permission \<Rightarrow> string \<Rightarrow> string srv" where
  "q_GrantRolePermission perm i = sql (\<lambda>s.
     if \<not> exists_row role_id i (roles s) then Inl ENoRows
     else put i (\<lambda>x. s\<lparr>role_permissions := x\<rparr>)
       (insert_row (\<lambda>a b. rp_role_id a = rp_role_id b \<and> rp_permission a = rp_permission b) (1 \<le> perm \<and> perm \<le> 46)
         \<lparr>rp_role_id = i, rp_permission = perm\<rparr> (role_permissions s)))"

definition q_RevokeRolePermission :: "string \<Rightarrow> permission \<Rightarrow> nat srv" where
  "q_RevokeRolePermission i perm = sql (\<lambda>s. let p = (\<lambda>x. rp_role_id x = i \<and> rp_permission x = perm) in
     Inr (count_rows p (role_permissions s), s\<lparr>role_permissions := del_rows p (role_permissions s)\<rparr>))"

definition q_TouchRole :: "string \<Rightarrow> role srv" where
  "q_TouchRole i = sql_now (\<lambda>t s. update_one (\<lambda>r. role_id r = i) (\<lambda>r. r\<lparr>role_updated_at := t\<rparr>) False
     (roles s) (\<lambda>x. s\<lparr>roles := x\<rparr>))"

definition permissions_of_role :: "srv_db \<Rightarrow> string \<Rightarrow> permission list" where
  "permissions_of_role s i = sort (map rp_permission (filter (\<lambda>p. rp_role_id p = i) (role_permissions s)))"

definition q_ListRolePermissions :: "string \<Rightarrow> permission list srv" where
  "q_ListRolePermissions i = query (\<lambda>s. permissions_of_role s i)"

definition roles_of_user :: "srv_db \<Rightarrow> string \<Rightarrow> role list" where
  "roles_of_user s u = sort_key role_id
     (filter (\<lambda>r. \<exists>x\<in>set (user_roles s). ur_user_id x = u \<and> ur_role_id x = role_id r) (roles s))"

definition q_ListUserRoles :: "string \<Rightarrow> role list srv" where
  "q_ListUserRoles u = query (\<lambda>s. roles_of_user s u)"

definition permissions_of_user :: "srv_db \<Rightarrow> string \<Rightarrow> permission list" where
  "permissions_of_user s u = sort (remdups (map rp_permission
     (filter (\<lambda>p. \<exists>x\<in>set (user_roles s). ur_user_id x = u \<and> ur_role_id x = rp_role_id p) (role_permissions s))))"

definition q_ListUserPermissions :: "string \<Rightarrow> permission list srv" where
  "q_ListUserPermissions u = query (\<lambda>s. permissions_of_user s u)"

text \<open>The primary key and the foreign key on the user hold for the row that \<^verbatim>\<open>SELECT\<close> yields, if any.\<close>

definition insert_user_role :: "string \<Rightarrow> string \<Rightarrow> srv_db \<Rightarrow> go_error + user_role list" where
  "insert_user_role u r s = insert_row (=) (exists_row usr_id u (users s)) \<lparr>ur_user_id = u, ur_role_id = r\<rparr> (user_roles s)"

definition q_AssignInitialRole :: "string \<Rightarrow> string \<Rightarrow> string \<Rightarrow> unit srv" where
  "q_AssignInitialRole u admins others = sql (\<lambda>s. let r = (if length (users s) = 1 then admins else others) in
     if exists_row role_id r (roles s) then put () (\<lambda>x. s\<lparr>user_roles := x\<rparr>) (insert_user_role u r s)
     else Inr ((), s))"

definition q_AssignRoleToUser :: "string \<Rightarrow> string \<Rightarrow> string srv" where
  "q_AssignRoleToUser u r = sql (\<lambda>s.
     if exists_row usr_id u (users s) \<and> exists_row role_id r (roles s)
     then put u (\<lambda>x. s\<lparr>user_roles := x\<rparr>) (insert_user_role u r s) else Inl ENoRows)"

definition q_RevokeRoleFromUser :: "string \<Rightarrow> string \<Rightarrow> nat srv" where
  "q_RevokeRoleFromUser u r = sql (\<lambda>s. let p = (\<lambda>x. ur_user_id x = u \<and> ur_role_id x = r) in
     Inr (count_rows p (user_roles s), s\<lparr>user_roles := del_rows p (user_roles s)\<rparr>))"

definition q_BumpSessionsForRole :: "string \<Rightarrow> unit srv" where
  "q_BumpSessionsForRole r = sql_now (\<lambda>t s. Inr ((), s\<lparr>users :=
     upd_rows (\<lambda>u. \<exists>x\<in>set (user_roles s). ur_role_id x = r \<and> ur_user_id x = usr_id u) (bump_session t) (users s)\<rparr>))"

definition q_RotateUserSessionByID :: "string \<Rightarrow> user srv" where
  "q_RotateUserSessionByID i = sql_now (\<lambda>t s. update_one (\<lambda>u. usr_id u = i) (bump_session t) False
     (users s) (\<lambda>x. s\<lparr>users := x\<rparr>))"

definition q_ListUsers :: "string \<Rightarrow> nat \<Rightarrow> user list srv" where
  "q_ListUsers after lim = query (\<lambda>s. page_after usr_id after lim (users s))"

section \<open>Statements on enrolment and devices\<close>

definition q_CreateRegistrationToken :: "string \<Rightarrow> string \<Rightarrow> string \<Rightarrow> int \<Rightarrow> int \<Rightarrow> registration_token srv" where
  "q_CreateRegistrationToken i hash name max_uses expires = sql_now (\<lambda>t s.
     let r = \<lparr>tok_id = i, tok_value_hash = hash, tok_name = name, tok_max_uses = max_uses, tok_current_uses = 0,
       tok_expires_at = expires, tok_created_at = t, tok_updated_at = t\<rparr> in
     put r (\<lambda>x. s\<lparr>registration_tokens := x\<rparr>)
       (insert_row (\<lambda>a b. tok_id a = tok_id b \<or> tok_value_hash a = tok_value_hash b) True r (registration_tokens s)))"

definition token_usable :: "int \<Rightarrow> registration_token \<Rightarrow> bool" where
  "token_usable nw r \<longleftrightarrow> nw < tok_expires_at r \<and> (tok_max_uses r = 0 \<or> tok_current_uses r < tok_max_uses r)"

definition q_GetUsableRegistrationToken :: "string \<Rightarrow> int \<Rightarrow> registration_token srv" where
  "q_GetUsableRegistrationToken hash nw =
     query_one (\<lambda>s. List.find (\<lambda>r. tok_value_hash r = hash \<and> token_usable nw r) (registration_tokens s))"

definition use_token :: "int \<Rightarrow> registration_token \<Rightarrow> registration_token" where
  "use_token t r = r\<lparr>tok_current_uses := tok_current_uses r + 1, tok_updated_at := t\<rparr>"

definition q_ConsumeRegistrationToken :: "string \<Rightarrow> int \<Rightarrow> registration_token srv" where
  "q_ConsumeRegistrationToken i nw = sql_now (\<lambda>t s. update_one (\<lambda>r. tok_id r = i \<and> token_usable nw r) (use_token t) False
     (registration_tokens s) (\<lambda>x. s\<lparr>registration_tokens := x\<rparr>))"

definition q_ConsumeFinalRegistrationToken :: "string \<Rightarrow> int \<Rightarrow> registration_token srv" where
  "q_ConsumeFinalRegistrationToken i nw = sql (\<lambda>s.
     let p = (\<lambda>r. tok_id r = i \<and> token_usable nw r \<and> tok_max_uses r > 0 \<and> tok_current_uses r + 1 \<ge> tok_max_uses r) in
     case List.find p (registration_tokens s) of None \<Rightarrow> Inl ENoRows
     | Some r \<Rightarrow> Inr (r, s\<lparr>registration_tokens := del_rows p (registration_tokens s)\<rparr>))"

definition q_ListRegistrationTokens :: "string \<Rightarrow> nat \<Rightarrow> registration_token list srv" where
  "q_ListRegistrationTokens after lim = query (\<lambda>s. page_after tok_id after lim (registration_tokens s))"

definition q_CountRegistrationTokens :: "nat srv" where
  "q_CountRegistrationTokens = query (\<lambda>s. length (registration_tokens s))"

definition q_RenameRegistrationToken :: "string \<Rightarrow> string \<Rightarrow> registration_token srv" where
  "q_RenameRegistrationToken name i = sql_now (\<lambda>t s. update_one (\<lambda>r. tok_id r = i)
     (\<lambda>r. r\<lparr>tok_name := name, tok_updated_at := t\<rparr>) False (registration_tokens s) (\<lambda>x. s\<lparr>registration_tokens := x\<rparr>))"

definition q_DeleteRegistrationToken :: "string \<Rightarrow> nat srv" where
  "q_DeleteRegistrationToken i = sql (\<lambda>s. Inr (count_rows (\<lambda>r. tok_id r = i) (registration_tokens s),
     s\<lparr>registration_tokens := del_rows (\<lambda>r. tok_id r = i) (registration_tokens s)\<rparr>))"

definition q_CreateDevice :: "string \<Rightarrow> string \<Rightarrow> string \<Rightarrow> bytes \<Rightarrow> bytes \<Rightarrow> string \<Rightarrow> int \<Rightarrow> int \<Rightarrow> device srv" where
  "q_CreateDevice i hostname version identity pem serial expires registered = sql_now (\<lambda>t s.
     let r = \<lparr>dev_id = i, dev_hostname = hostname, dev_agent_version = version, dev_identity_key = identity,
       dev_active_pem = pem, dev_active_serial = serial, dev_cert_expires_at = expires, dev_pending_pem = None,
       dev_pending_serial = None, dev_pending_expires_at = None, dev_registered_at = registered,
       dev_last_seen_at = None, dev_created_at = t, dev_updated_at = t\<rparr> in
     put r (\<lambda>x. s\<lparr>devices := x\<rparr>)
       (insert_row (\<lambda>a b. dev_id a = dev_id b \<or> dev_identity_key a = dev_identity_key b) True r (devices s)))"

definition q_GetDevice :: "string \<Rightarrow> device srv" where
  "q_GetDevice i = query_one (\<lambda>s. List.find (\<lambda>d. dev_id d = i) (devices s))"

definition q_FindDeviceByIdentityKey :: "bytes \<Rightarrow> device srv" where
  "q_FindDeviceByIdentityKey k = query_one (\<lambda>s. List.find (\<lambda>d. dev_identity_key d = k) (devices s))"

definition set_pending :: "bytes \<Rightarrow> string \<Rightarrow> int \<Rightarrow> int \<Rightarrow> device \<Rightarrow> device" where
  "set_pending pem serial expires t d = d\<lparr>dev_pending_pem := Some pem, dev_pending_serial := Some serial,
     dev_pending_expires_at := Some expires, dev_updated_at := t\<rparr>"

definition q_SetPendingDeviceCertificate :: "bytes \<Rightarrow> string \<Rightarrow> int \<Rightarrow> string \<Rightarrow> string \<Rightarrow> nat srv" where
  "q_SetPendingDeviceCertificate pem serial expires i active = sql_now (\<lambda>t s.
     let p = (\<lambda>d. dev_id d = i \<and> dev_active_serial d = active) in
     Inr (count_rows p (devices s), s\<lparr>devices := upd_rows p (set_pending pem serial expires t) (devices s)\<rparr>))"

text \<open>The active columns are NOT NULL: a pending certificate that lacks a part is refused.\<close>

definition pending_complete :: "device \<Rightarrow> bool" where
  "pending_complete d \<longleftrightarrow> dev_pending_pem d \<noteq> None \<and> dev_pending_serial d \<noteq> None \<and> dev_pending_expires_at d \<noteq> None"

definition promote :: "int \<Rightarrow> device \<Rightarrow> device" where
  "promote t d = d\<lparr>dev_active_pem := (case dev_pending_pem d of Some b \<Rightarrow> b | None \<Rightarrow> dev_active_pem d),
     dev_active_serial := (case dev_pending_serial d of Some x \<Rightarrow> x | None \<Rightarrow> dev_active_serial d),
     dev_cert_expires_at := (case dev_pending_expires_at d of Some x \<Rightarrow> x | None \<Rightarrow> dev_cert_expires_at d),
     dev_pending_pem := None, dev_pending_serial := None, dev_pending_expires_at := None, dev_updated_at := t\<rparr>"

definition q_PromotePendingDeviceCertificate :: "string \<Rightarrow> string \<Rightarrow> nat srv" where
  "q_PromotePendingDeviceCertificate i serial = sql_now (\<lambda>t s.
     let p = (\<lambda>d. dev_id d = i \<and> dev_pending_serial d = Some serial) in
     if \<exists>d\<in>set (devices s). p d \<and> \<not> pending_complete d then Inl EConstraint
     else Inr (count_rows p (devices s), s\<lparr>devices := upd_rows p (promote t) (devices s)\<rparr>))"

definition q_TouchDevice :: "string \<Rightarrow> string \<Rightarrow> int \<Rightarrow> string \<Rightarrow> unit srv" where
  "q_TouchDevice hostname version seen i = sql_now (\<lambda>t s. Inr ((), s\<lparr>devices :=
     upd_rows (\<lambda>d. dev_id d = i) (\<lambda>d. d\<lparr>dev_hostname := hostname, dev_agent_version := version,
       dev_last_seen_at := Some seen, dev_updated_at := t\<rparr>) (devices s)\<rparr>))"

definition q_ListDevices :: "string \<Rightarrow> nat \<Rightarrow> device list srv" where
  "q_ListDevices after lim = query (\<lambda>s. page_after dev_id after lim (devices s))"

definition q_CountDevices :: "nat srv" where
  "q_CountDevices = query (\<lambda>s. length (devices s))"

definition q_DeleteDevice :: "string \<Rightarrow> nat srv" where
  "q_DeleteDevice i = sql (\<lambda>s. Inr (count_rows (\<lambda>d. dev_id d = i) (devices s),
     s\<lparr>devices := del_rows (\<lambda>d. dev_id d = i) (devices s),
       device_group_members := del_rows (\<lambda>m. gm_device_id m = i) (device_group_members s),
       execution_results := del_rows (\<lambda>e. er_device_id e = i) (execution_results s)\<rparr>))"

definition q_DeleteAssignmentsForTarget :: "assignment_target_type \<Rightarrow> string \<Rightarrow> unit srv" where
  "q_DeleteAssignmentsForTarget ty i = sql (\<lambda>s. Inr ((), s\<lparr>assignments :=
     del_rows (\<lambda>a. asg_target_type a = ty \<and> asg_target_id a = i) (assignments s)\<rparr>))"

section \<open>Statements on actions and groups\<close>

definition q_CreateAction :: "string \<Rightarrow> string \<Rightarrow> string \<Rightarrow> bytes \<Rightarrow> db_action srv" where
  "q_CreateAction i name descr blob = sql_now (\<lambda>t s.
     let r = \<lparr>ac_id = i, ac_name = name, ac_description = descr, ac_blob = blob, ac_created_at = t, ac_updated_at = t\<rparr> in
     put r (\<lambda>x. s\<lparr>actions := x\<rparr>) (insert_row (\<lambda>a b. ac_id a = ac_id b \<or> ac_name a = ac_name b) True r (actions s)))"

definition q_GetAction :: "string \<Rightarrow> db_action srv" where
  "q_GetAction i = query_one (\<lambda>s. List.find (\<lambda>a. ac_id a = i) (actions s))"

definition q_ListActions :: "string \<Rightarrow> nat \<Rightarrow> db_action list srv" where
  "q_ListActions after lim = query (\<lambda>s. page_after ac_id after lim (actions s))"

definition q_CountActions :: "nat srv" where
  "q_CountActions = query (\<lambda>s. length (actions s))"

definition q_RenameAction :: "string \<Rightarrow> string \<Rightarrow> db_action srv" where
  "q_RenameAction name i = sql_now (\<lambda>t s. update_one (\<lambda>a. ac_id a = i) (\<lambda>a. a\<lparr>ac_name := name, ac_updated_at := t\<rparr>)
     (\<exists>q\<in>set (actions s). ac_id q \<noteq> i \<and> ac_name q = name) (actions s) (\<lambda>x. s\<lparr>actions := x\<rparr>))"

definition q_SetActionDescription :: "string \<Rightarrow> string \<Rightarrow> db_action srv" where
  "q_SetActionDescription descr i = sql_now (\<lambda>t s. update_one (\<lambda>a. ac_id a = i)
     (\<lambda>a. a\<lparr>ac_description := descr, ac_updated_at := t\<rparr>) False (actions s) (\<lambda>x. s\<lparr>actions := x\<rparr>))"

definition q_ConfigureAction :: "bytes \<Rightarrow> string \<Rightarrow> db_action srv" where
  "q_ConfigureAction blob i = sql_now (\<lambda>t s. update_one (\<lambda>a. ac_id a = i)
     (\<lambda>a. a\<lparr>ac_blob := blob, ac_updated_at := t\<rparr>) False (actions s) (\<lambda>x. s\<lparr>actions := x\<rparr>))"

definition q_DeleteAction :: "string \<Rightarrow> nat srv" where
  "q_DeleteAction i = sql (\<lambda>s. Inr (count_rows (\<lambda>a. ac_id a = i) (actions s),
     s\<lparr>actions := del_rows (\<lambda>a. ac_id a = i) (actions s),
       assignments := del_rows (\<lambda>a. asg_action_id a = i) (assignments s),
       execution_results := del_rows (\<lambda>e. er_action_id e = i) (execution_results s)\<rparr>))"

definition q_CreateDeviceGroup :: "string \<Rightarrow> string \<Rightarrow> string \<Rightarrow> device_group srv" where
  "q_CreateDeviceGroup i name descr = sql_now (\<lambda>t s.
     let r = \<lparr>grp_id = i, grp_name = name, grp_description = descr, grp_created_at = t, grp_updated_at = t\<rparr> in
     put r (\<lambda>x. s\<lparr>device_groups := x\<rparr>)
       (insert_row (\<lambda>a b. grp_id a = grp_id b \<or> grp_name a = grp_name b) True r (device_groups s)))"

definition member_count :: "srv_db \<Rightarrow> device_group \<Rightarrow> nat" where
  "member_count s g = count_rows (\<lambda>m. gm_group_id m = grp_id g) (device_group_members s)"

definition q_GetDeviceGroup :: "string \<Rightarrow> (device_group \<times> nat) srv" where
  "q_GetDeviceGroup i = query_one (\<lambda>s. map_option (\<lambda>g. (g, member_count s g)) (List.find (\<lambda>g. grp_id g = i) (device_groups s)))"

definition q_ListDeviceGroups :: "string \<Rightarrow> nat \<Rightarrow> (device_group \<times> nat) list srv" where
  "q_ListDeviceGroups after lim = query (\<lambda>s. map (\<lambda>g. (g, member_count s g)) (page_after grp_id after lim (device_groups s)))"

definition q_CountDeviceGroups :: "nat srv" where
  "q_CountDeviceGroups = query (\<lambda>s. length (device_groups s))"

definition q_ListDeviceGroupsForDevice :: "string \<Rightarrow> (device_group \<times> nat) list srv" where
  "q_ListDeviceGroupsForDevice d = query (\<lambda>s. map (\<lambda>g. (g, member_count s g)) (sort_key (\<lambda>g. (grp_name g, grp_id g))
     (filter (\<lambda>g. \<exists>m\<in>set (device_group_members s). gm_group_id m = grp_id g \<and> gm_device_id m = d) (device_groups s))))"

definition q_ListDeviceGroupMembers :: "string \<Rightarrow> device list srv" where
  "q_ListDeviceGroupMembers g = query (\<lambda>s. sort_key (\<lambda>d. (dev_hostname d, dev_id d))
     (filter (\<lambda>d. \<exists>m\<in>set (device_group_members s). gm_group_id m = g \<and> gm_device_id m = dev_id d) (devices s)))"

definition q_RenameDeviceGroup :: "string \<Rightarrow> string \<Rightarrow> device_group srv" where
  "q_RenameDeviceGroup name i = sql_now (\<lambda>t s. update_one (\<lambda>g. grp_id g = i) (\<lambda>g. g\<lparr>grp_name := name, grp_updated_at := t\<rparr>)
     (\<exists>q\<in>set (device_groups s). grp_id q \<noteq> i \<and> grp_name q = name) (device_groups s) (\<lambda>x. s\<lparr>device_groups := x\<rparr>))"

definition q_SetDeviceGroupDescription :: "string \<Rightarrow> string \<Rightarrow> device_group srv" where
  "q_SetDeviceGroupDescription descr i = sql_now (\<lambda>t s. update_one (\<lambda>g. grp_id g = i)
     (\<lambda>g. g\<lparr>grp_description := descr, grp_updated_at := t\<rparr>) False (device_groups s) (\<lambda>x. s\<lparr>device_groups := x\<rparr>))"

definition q_TouchDeviceGroup :: "string \<Rightarrow> unit srv" where
  "q_TouchDeviceGroup i = sql_now (\<lambda>t s. Inr ((), s\<lparr>device_groups :=
     upd_rows (\<lambda>g. grp_id g = i) (\<lambda>g. g\<lparr>grp_updated_at := t\<rparr>) (device_groups s)\<rparr>))"

definition q_DeleteDeviceGroup :: "string \<Rightarrow> nat srv" where
  "q_DeleteDeviceGroup i = sql (\<lambda>s. Inr (count_rows (\<lambda>g. grp_id g = i) (device_groups s),
     s\<lparr>device_groups := del_rows (\<lambda>g. grp_id g = i) (device_groups s),
       device_group_members := del_rows (\<lambda>m. gm_group_id m = i) (device_group_members s)\<rparr>))"

definition q_AddDeviceToGroup :: "string \<Rightarrow> string \<Rightarrow> unit srv" where
  "q_AddDeviceToGroup g d = sql (\<lambda>s. put () (\<lambda>x. s\<lparr>device_group_members := x\<rparr>)
     (insert_row (=) (exists_row grp_id g (device_groups s) \<and> exists_row dev_id d (devices s))
       \<lparr>gm_group_id = g, gm_device_id = d\<rparr> (device_group_members s)))"

definition q_RemoveDeviceFromGroup :: "string \<Rightarrow> string \<Rightarrow> nat srv" where
  "q_RemoveDeviceFromGroup g d = sql (\<lambda>s. let p = (\<lambda>m. gm_group_id m = g \<and> gm_device_id m = d) in
     Inr (count_rows p (device_group_members s), s\<lparr>device_group_members := del_rows p (device_group_members s)\<rparr>))"

section \<open>Statements on assignments, results and the audit log\<close>

definition q_CreateAssignment :: "string \<Rightarrow> string \<Rightarrow> assignment_target_type \<Rightarrow> string \<Rightarrow> db_assignment srv" where
  "q_CreateAssignment i act ty target = sql_now (\<lambda>t s.
     let r = \<lparr>asg_id = i, asg_action_id = act, asg_target_type = ty, asg_target_id = target, asg_created_at = t\<rparr> in
     put r (\<lambda>x. s\<lparr>assignments := x\<rparr>)
       (insert_row (\<lambda>a b. asg_id a = asg_id b \<or>
           asg_action_id a = asg_action_id b \<and> asg_target_type a = asg_target_type b \<and> asg_target_id a = asg_target_id b)
         (exists_row ac_id act (actions s)) r (assignments s)))"

definition q_DeleteAssignment :: "string \<Rightarrow> nat srv" where
  "q_DeleteAssignment i = sql (\<lambda>s. Inr (count_rows (\<lambda>a. asg_id a = i) (assignments s),
     s\<lparr>assignments := del_rows (\<lambda>a. asg_id a = i) (assignments s)\<rparr>))"

fun target_type_number :: "assignment_target_type \<Rightarrow> int" where
  "target_type_number ASSIGNMENT_TARGET_TYPE_UNSPECIFIED = 0"
| "target_type_number ASSIGNMENT_TARGET_TYPE_DEVICE = 1"
| "target_type_number ASSIGNMENT_TARGET_TYPE_DEVICE_GROUP = 2"
| "target_type_number (ASSIGNMENT_TARGET_TYPE_UNRECOGNIZED k) = k"

text \<open>A row of \<open>ListAssignments\<close>: the assignment, the action's name and the target's name.\<close>

type_synonym assignment_row = "db_assignment \<times> string \<times> string"

definition target_name :: "srv_db \<Rightarrow> db_assignment \<Rightarrow> string" where
  "target_name s a = (case asg_target_type a of
     ASSIGNMENT_TARGET_TYPE_DEVICE \<Rightarrow>
       (case List.find (\<lambda>d. dev_id d = asg_target_id a) (devices s) of None \<Rightarrow> '''' | Some d \<Rightarrow> dev_hostname d)
   | ASSIGNMENT_TARGET_TYPE_DEVICE_GROUP \<Rightarrow>
       (case List.find (\<lambda>g. grp_id g = asg_target_id a) (device_groups s) of None \<Rightarrow> '''' | Some g \<Rightarrow> grp_name g)
   | _ \<Rightarrow> '''')"

definition join_action :: "srv_db \<Rightarrow> string \<Rightarrow> db_action option" where
  "join_action s i = List.find (\<lambda>x. ac_id x = i) (actions s)"

definition q_ListAssignments :: "string \<Rightarrow> int \<Rightarrow> string \<Rightarrow> assignment_row list srv" where
  "q_ListAssignments act ty target = query (\<lambda>s.
     List.map_filter (\<lambda>a. map_option (\<lambda>x. (a, ac_name x, target_name s a)) (join_action s (asg_action_id a)))
       (sort_key (\<lambda>a. (asg_created_at a, asg_id a)) (filter (\<lambda>a. (act = '''' \<or> asg_action_id a = act) \<and>
          (ty = 0 \<or> target_type_number (asg_target_type a) = ty) \<and> (target = '''' \<or> asg_target_id a = target)) (assignments s))))"

text \<open>An assignment reaches a device directly or through a group it is a member of.\<close>

definition reaches :: "srv_db \<Rightarrow> string \<Rightarrow> db_assignment \<Rightarrow> bool" where
  "reaches s d a \<longleftrightarrow> asg_target_type a = ASSIGNMENT_TARGET_TYPE_DEVICE \<and> asg_target_id a = d \<or>
     asg_target_type a = ASSIGNMENT_TARGET_TYPE_DEVICE_GROUP \<and>
       (\<exists>m\<in>set (device_group_members s). gm_group_id m = asg_target_id a \<and> gm_device_id m = d)"

definition assigned_actions :: "srv_db \<Rightarrow> string \<Rightarrow> db_action list" where
  "assigned_actions s d = filter (\<lambda>x. \<exists>a\<in>set (assignments s). asg_action_id a = ac_id x \<and> reaches s d a) (actions s)"

definition q_ListActionsForDevice :: "string \<Rightarrow> db_action list srv" where
  "q_ListActionsForDevice d = query (\<lambda>s. sort_key ac_id (assigned_actions s d))"

definition q_CreateExecutionResult :: "string \<Rightarrow> string \<Rightarrow> string \<Rightarrow> int \<Rightarrow> bytes \<Rightarrow> nat srv" where
  "q_CreateExecutionResult run d act completed blob = sql (\<lambda>s.
     if exists_row er_run_id run (execution_results s) then Inr (0, s)
     else if \<not> (exists_row dev_id d (devices s) \<and> exists_row ac_id act (actions s)) then Inl EConstraint
     else Inr (1, s\<lparr>execution_results := execution_results s @ [\<lparr>er_run_id = run, er_device_id = d,
       er_action_id = act, er_completed_at = completed, er_blob = blob\<rparr>]\<rparr>))"

definition q_GetExecutionResult :: "string \<Rightarrow> execution_result srv" where
  "q_GetExecutionResult run = query_one (\<lambda>s. List.find (\<lambda>e. er_run_id e = run) (execution_results s))"

text \<open>Newest first: \<^verbatim>\<open>ORDER BY completed_at DESC, run_id DESC\<close>.\<close>

definition newest_first :: "execution_result list \<Rightarrow> execution_result list" where
  "newest_first es = rev (sort_key (\<lambda>e. (er_completed_at e, er_run_id e)) es)"

definition q_ListExecutionResults :: "string \<Rightarrow> bool \<Rightarrow> int \<Rightarrow> string \<Rightarrow> nat \<Rightarrow> (execution_result \<times> db_action) list srv" where
  "q_ListExecutionResults d cursor completed run lim = query (\<lambda>s. take lim
     (List.map_filter (\<lambda>e. map_option (\<lambda>x. (e, x)) (join_action s (er_action_id e)))
       (newest_first (filter (\<lambda>e. er_device_id e = d \<and>
          (\<not> cursor \<or> er_completed_at e < completed \<or> er_completed_at e = completed \<and> er_run_id e < run)) (execution_results s)))))"

definition latest_result :: "srv_db \<Rightarrow> string \<Rightarrow> string \<Rightarrow> execution_result option" where
  "latest_result s d act = (case newest_first (filter (\<lambda>e. er_device_id e = d \<and> er_action_id e = act) (execution_results s)) of
     [] \<Rightarrow> None | e # _ \<Rightarrow> Some e)"

definition q_ListComplianceResults :: "string \<Rightarrow> (db_action \<times> execution_result option) list srv" where
  "q_ListComplianceResults d = query (\<lambda>s. map (\<lambda>x. (x, latest_result s d (ac_id x)))
     (sort_key (\<lambda>x. (ac_name x, ac_id x)) (assigned_actions s d)))"

definition q_CreateAuditEvent :: "audit_event \<Rightarrow> unit srv" where
  "q_CreateAuditEvent r = sql (\<lambda>s. put () (\<lambda>x. s\<lparr>audit_events := x\<rparr>)
     (insert_row (\<lambda>a b. ae_id a = ae_id b) True r (audit_events s)))"

definition q_ListAuditEvents :: "string \<Rightarrow> nat \<Rightarrow> audit_event list srv" where
  "q_ListAuditEvents before lim = query (\<lambda>s. take lim (rev (sort_key ae_id (filter (\<lambda>a. ae_id a < before) (audit_events s)))))"

end
