(* ===== verification/Server_Invariant.thy ===== *)
theory Server_Invariant
  imports Server_Store
begin

text \<open>
  What the server's database satisfies at all times, and that every statement keeps it.
  \<open>db_keys\<close> and \<open>db_refs\<close> are what the schema declares (unique columns, foreign keys, CHECKs);
  \<open>db_targets\<close> is what the schema does not: the target of an assignment exists. \<open>db_tokens\<close> and \<open>db_devices\<close> are the
  row invariants of registration tokens and of device certificates.
\<close>

section \<open>Generic facts on updated and deleted rows\<close>

lemma map_upd_rows: "(\<And>r. p r \<Longrightarrow> k (f r) = k r) \<Longrightarrow> map k (upd_rows p f rs) = map k rs"
  by (induction rs) auto

lemma distinct_del_rows: "distinct (map k rs) \<Longrightarrow> distinct (map k (del_rows p rs))"
  by (simp add: del_rows_def distinct_map_filter)

lemma distinct_del_rows_id: "distinct rs \<Longrightarrow> distinct (del_rows p rs)"
  by (simp add: del_rows_def)

lemma distinct_upd_rename:
  assumes "distinct (map i rs)" and "distinct (map nm rs)" and "\<forall>q\<in>set rs. i q = x \<or> nm q \<noteq> v"
    and "\<And>r. nm (f r) = v"
  shows "distinct (map nm (upd_rows (\<lambda>r. i r = x) f rs))"
  using assms(1-3)
proof (induction rs)
  case (Cons r rs)
  show ?case
  proof (cases "i r = x")
    case True
    then have "\<forall>q\<in>set rs. i q \<noteq> x" using Cons.prems(1) by (force simp: image_iff)
    then have "upd_rows (\<lambda>r. i r = x) f rs = rs" by (auto simp: upd_rows_def intro: map_idI)
    moreover have "v \<notin> nm ` set rs" using Cons.prems(3) \<open>\<forall>q\<in>set rs. i q \<noteq> x\<close> by auto
    ultimately show ?thesis using True Cons.prems(2) assms(4) by simp
  next
    case False
    have "nm r \<notin> nm ` set (upd_rows (\<lambda>r. i r = x) f rs)"
    proof
      assume "nm r \<in> nm ` set (upd_rows (\<lambda>r. i r = x) f rs)"
      then obtain q where "q \<in> set rs" "nm r = nm (if i q = x then f q else q)"
        by (auto simp: set_upd_rows)
      then show False using Cons.prems(2,3) False assms(4) by (auto split: if_splits)
    qed
    then show ?thesis using False Cons by simp
  qed
qed simp

lemma ball_upd_rows: "(\<forall>r\<in>set (upd_rows p f rs). P r) \<longleftrightarrow> (\<forall>r\<in>set rs. if p r then P (f r) else P r)"
  by (auto simp: set_upd_rows)

lemma bex_upd_rows: "(\<exists>r\<in>set (upd_rows p f rs). P r) \<longleftrightarrow> (\<exists>r\<in>set rs. if p r then P (f r) else P r)"
  by (auto simp: set_upd_rows)

section \<open>Keys\<close>

definition db_keys :: "srv_db \<Rightarrow> bool" where
  "db_keys s \<longleftrightarrow>
     distinct (map idp_id (identity_providers s)) \<and> distinct (map idp_slug (identity_providers s)) \<and>
     distinct (map usr_id (users s)) \<and>
     distinct (map role_id (roles s)) \<and> distinct (map role_name (roles s)) \<and>
     distinct (role_permissions s) \<and> distinct (user_roles s) \<and>
     distinct (map (\<lambda>l. (il_provider_id l, il_subject l)) (identity_links s)) \<and>
     distinct (map tok_id (registration_tokens s)) \<and> distinct (map tok_value_hash (registration_tokens s)) \<and>
     distinct (map dev_id (devices s)) \<and> distinct (map dev_identity_key (devices s)) \<and>
     distinct (map ac_id (actions s)) \<and> distinct (map ac_name (actions s)) \<and>
     distinct (map grp_id (device_groups s)) \<and> distinct (map grp_name (device_groups s)) \<and>
     distinct (device_group_members s) \<and>
     distinct (map asg_id (assignments s)) \<and>
     distinct (map (\<lambda>a. (asg_action_id a, asg_target_type a, asg_target_id a)) (assignments s)) \<and>
     distinct (map er_run_id (execution_results s)) \<and> distinct (map ae_id (audit_events s))"

definition db_refs :: "srv_db \<Rightarrow> bool" where
  "db_refs s \<longleftrightarrow>
     (\<forall>p\<in>set (role_permissions s). exists_row role_id (rp_role_id p) (roles s) \<and> 1 \<le> rp_permission p \<and> rp_permission p \<le> 46) \<and>
     (\<forall>x\<in>set (user_roles s). exists_row usr_id (ur_user_id x) (users s) \<and> exists_row role_id (ur_role_id x) (roles s)) \<and>
     (\<forall>l\<in>set (identity_links s). exists_row idp_id (il_provider_id l) (identity_providers s) \<and> exists_row usr_id (il_user_id l) (users s)) \<and>
     (\<forall>m\<in>set (device_group_members s). exists_row grp_id (gm_group_id m) (device_groups s) \<and> exists_row dev_id (gm_device_id m) (devices s)) \<and>
     (\<forall>a\<in>set (assignments s). exists_row ac_id (asg_action_id a) (actions s)) \<and>
     (\<forall>e\<in>set (execution_results s). exists_row dev_id (er_device_id e) (devices s) \<and> exists_row ac_id (er_action_id e) (actions s))"

text \<open>Not a constraint of the schema: the handlers keep it.\<close>

definition target_exists :: "srv_db \<Rightarrow> db_assignment \<Rightarrow> bool" where
  "target_exists s a \<longleftrightarrow>
     asg_target_type a = ASSIGNMENT_TARGET_TYPE_DEVICE \<and> exists_row dev_id (asg_target_id a) (devices s) \<or>
     asg_target_type a = ASSIGNMENT_TARGET_TYPE_DEVICE_GROUP \<and> exists_row grp_id (asg_target_id a) (device_groups s)"

definition db_targets :: "srv_db \<Rightarrow> bool" where
  "db_targets s \<longleftrightarrow> (\<forall>a\<in>set (assignments s). target_exists s a)"

definition token_ok :: "registration_token \<Rightarrow> bool" where
  "token_ok r \<longleftrightarrow> 0 \<le> tok_current_uses r \<and> (0 < tok_max_uses r \<longrightarrow> tok_current_uses r < tok_max_uses r)"

definition pending_ok :: "device \<Rightarrow> bool" where
  "pending_ok d \<longleftrightarrow> pending_complete d \<or>
     dev_pending_pem d = None \<and> dev_pending_serial d = None \<and> dev_pending_expires_at d = None"

definition db_tokens :: "srv_db \<Rightarrow> bool" where
  "db_tokens s \<longleftrightarrow> (\<forall>r\<in>set (registration_tokens s). token_ok r)"

definition session_ok :: "user \<Rightarrow> bool" where
  "session_ok u \<longleftrightarrow> 1 \<le> usr_session_version u"

definition db_rows :: "srv_db \<Rightarrow> bool" where
  "db_rows s \<longleftrightarrow> (\<forall>d\<in>set (devices s). pending_ok d) \<and> (\<forall>u\<in>set (users s). session_ok u)"

section \<open>Statements that only read\<close>

lemma readonly_statements [prog_rules]:
  "readonly q_CountIdentityProviders" "readonly (q_GetIdentityProvider i)" "readonly (q_GetIdentityProviderBySlug i)"
  "readonly q_ListIdentityProviders" "readonly q_ListEnabledIdentityProviders" "readonly (q_GetUser i)"
  "readonly (q_GetRole i)" "readonly (q_ListRoles i lim)" "readonly (q_ListRolePermissions i)"
  "readonly (q_ListUserRoles i)" "readonly (q_ListUserPermissions i)" "readonly (q_ListUsers i lim)"
  "readonly (q_GetUsableRegistrationToken i t)" "readonly (q_ListRegistrationTokens i lim)"
  "readonly q_CountRegistrationTokens" "readonly (q_GetDevice i)" "readonly (q_FindDeviceByIdentityKey i)"
  "readonly (q_ListDevices i lim)" "readonly q_CountDevices" "readonly (q_GetAction i)"
  "readonly (q_ListActions i lim)" "readonly q_CountActions" "readonly (q_GetDeviceGroup i)"
  "readonly (q_ListDeviceGroups i lim)" "readonly q_CountDeviceGroups" "readonly (q_ListDeviceGroupsForDevice i)"
  "readonly (q_ListDeviceGroupMembers i)" "readonly (q_ListAssignments i ty tgt)" "readonly (q_ListActionsForDevice i)"
  "readonly (q_GetExecutionResult i)" "readonly (q_ListExecutionResults i c t r lim)"
  "readonly (q_ListComplianceResults i)" "readonly (q_ListAuditEvents i lim)"
  unfolding q_CountIdentityProviders_def q_GetIdentityProvider_def q_GetIdentityProviderBySlug_def
    q_ListIdentityProviders_def q_ListEnabledIdentityProviders_def q_GetUser_def q_GetRole_def q_ListRoles_def
    q_ListRolePermissions_def q_ListUserRoles_def q_ListUserPermissions_def q_ListUsers_def
    q_GetUsableRegistrationToken_def q_ListRegistrationTokens_def q_CountRegistrationTokens_def q_GetDevice_def
    q_FindDeviceByIdentityKey_def q_ListDevices_def q_CountDevices_def q_GetAction_def q_ListActions_def
    q_CountActions_def q_GetDeviceGroup_def q_ListDeviceGroups_def q_CountDeviceGroups_def
    q_ListDeviceGroupsForDevice_def q_ListDeviceGroupMembers_def q_ListAssignments_def q_ListActionsForDevice_def
    q_GetExecutionResult_def q_ListExecutionResults_def q_ListComplianceResults_def q_ListAuditEvents_def
  by (rule prog_rules)+

section \<open>Statements that write\<close>

lemmas write_defs = update_provider_def q_CreateIdentityProvider_def q_ConfigureIdentityProvider_def q_RenameIdentityProvider_def
  q_EnableIdentityProvider_def q_DisableIdentityProvider_def q_DeleteIdentityProvider_def q_CreateUser_def
  q_LinkIdentity_def q_UpdateIdentityUserLogin_def q_RotateUserSession_def q_CreateRole_def q_RenameRole_def
  q_SetRoleDescription_def q_DeleteRole_def q_GrantRolePermission_def q_RevokeRolePermission_def q_TouchRole_def
  q_AssignInitialRole_def q_AssignRoleToUser_def q_RevokeRoleFromUser_def q_BumpSessionsForRole_def
  q_RotateUserSessionByID_def q_CreateRegistrationToken_def q_ConsumeRegistrationToken_def
  q_ConsumeFinalRegistrationToken_def q_RenameRegistrationToken_def q_DeleteRegistrationToken_def q_CreateDevice_def
  q_SetPendingDeviceCertificate_def q_PromotePendingDeviceCertificate_def q_TouchDevice_def q_DeleteDevice_def
  q_DeleteAssignmentsForTarget_def q_CreateAction_def q_RenameAction_def q_SetActionDescription_def
  q_ConfigureAction_def q_DeleteAction_def q_CreateDeviceGroup_def q_RenameDeviceGroup_def
  q_SetDeviceGroupDescription_def q_TouchDeviceGroup_def q_DeleteDeviceGroup_def q_AddDeviceToGroup_def
  q_RemoveDeviceFromGroup_def q_CreateAssignment_def q_DeleteAssignment_def q_CreateExecutionResult_def
  q_CreateAuditEvent_def insert_user_role_def

lemma row_update_simps [simp]:
  "usr_id (bump_session t u) = usr_id u" "tok_id (use_token t r) = tok_id r"
  "tok_value_hash (use_token t r) = tok_value_hash r" "dev_id (promote t d) = dev_id d"
  "dev_identity_key (promote t d) = dev_identity_key d" "dev_id (set_pending a b c t d) = dev_id d"
  "dev_identity_key (set_pending a b c t d) = dev_identity_key d"
  "usr_session_version (bump_session t u) = usr_session_version u + 1"
  by (simp_all add: bump_session_def use_token_def promote_def set_pending_def)

lemma distinct_renames:
  "distinct (map role_id xsrole) \<Longrightarrow> distinct (map role_name xsrole) \<Longrightarrow> \<forall>q\<in>set xsrole. role_id q = x \<or> role_name q \<noteq> v \<Longrightarrow>
    distinct (map role_name (upd_rows (\<lambda>r. role_id r = x) (\<lambda>r. r\<lparr>role_name := v, role_updated_at := t\<rparr>) xsrole))"
  "distinct (map ac_id xsac) \<Longrightarrow> distinct (map ac_name xsac) \<Longrightarrow> \<forall>q\<in>set xsac. ac_id q = x \<or> ac_name q \<noteq> v \<Longrightarrow>
    distinct (map ac_name (upd_rows (\<lambda>r. ac_id r = x) (\<lambda>r. r\<lparr>ac_name := v, ac_updated_at := t\<rparr>) xsac))"
  "distinct (map grp_id xsgrp) \<Longrightarrow> distinct (map grp_name xsgrp) \<Longrightarrow> \<forall>q\<in>set xsgrp. grp_id q = x \<or> grp_name q \<noteq> v \<Longrightarrow>
    distinct (map grp_name (upd_rows (\<lambda>r. grp_id r = x) (\<lambda>r. r\<lparr>grp_name := v, grp_updated_at := t\<rparr>) xsgrp))"
  by (erule (1) distinct_upd_rename; simp)+

lemma keeps_keys:
  "keeps db_keys (q_CreateIdentityProvider a1 a2 a3 b1 a4 a5 l1)"
  "keeps db_keys (q_ConfigureIdentityProvider a1 a2 l1 a3)" "keeps db_keys (q_RenameIdentityProvider a1 a2)"
  "keeps db_keys (q_EnableIdentityProvider a1)" "keeps db_keys (q_DisableIdentityProvider a1)"
  "keeps db_keys (q_DeleteIdentityProvider a1)" "keeps db_keys (q_CreateUser a1 a2 a3 k1)"
  "keeps db_keys (q_LinkIdentity a1 a2 a3)" "keeps db_keys (q_UpdateIdentityUserLogin a1 a2 k1 a3 a4)"
  "keeps db_keys (q_RotateUserSession a1 k1)" "keeps db_keys (q_CreateRole a1 a2 a3)"
  "keeps db_keys (q_RenameRole a1 a2)" "keeps db_keys (q_SetRoleDescription a1 a2)" "keeps db_keys (q_DeleteRole a1)"
  "keeps db_keys (q_GrantRolePermission k1 a1)" "keeps db_keys (q_RevokeRolePermission a1 k1)"
  "keeps db_keys (q_TouchRole a1)" "keeps db_keys (q_AssignInitialRole a1 a2 a3)"
  "keeps db_keys (q_AssignRoleToUser a1 a2)" "keeps db_keys (q_RevokeRoleFromUser a1 a2)"
  "keeps db_keys (q_BumpSessionsForRole a1)" "keeps db_keys (q_RotateUserSessionByID a1)"
  "keeps db_keys (q_CreateRegistrationToken a1 a2 a3 k1 k2)" "keeps db_keys (q_ConsumeRegistrationToken a1 k1)"
  "keeps db_keys (q_ConsumeFinalRegistrationToken a1 k1)" "keeps db_keys (q_RenameRegistrationToken a1 a2)"
  "keeps db_keys (q_DeleteRegistrationToken a1)" "keeps db_keys (q_CreateDevice a1 a2 a3 a4 a5 a6 k1 k2)"
  "keeps db_keys (q_SetPendingDeviceCertificate a1 a2 k1 a3 a4)"
  "keeps db_keys (q_PromotePendingDeviceCertificate a1 a2)" "keeps db_keys (q_TouchDevice a1 a2 k1 a3)"
  "keeps db_keys (q_DeleteDevice a1)" "keeps db_keys (q_DeleteAssignmentsForTarget ty1 a1)"
  "keeps db_keys (q_CreateAction a1 a2 a3 a4)" "keeps db_keys (q_RenameAction a1 a2)"
  "keeps db_keys (q_SetActionDescription a1 a2)" "keeps db_keys (q_ConfigureAction a1 a2)"
  "keeps db_keys (q_DeleteAction a1)" "keeps db_keys (q_CreateDeviceGroup a1 a2 a3)"
  "keeps db_keys (q_RenameDeviceGroup a1 a2)" "keeps db_keys (q_SetDeviceGroupDescription a1 a2)"
  "keeps db_keys (q_TouchDeviceGroup a1)" "keeps db_keys (q_DeleteDeviceGroup a1)"
  "keeps db_keys (q_AddDeviceToGroup a1 a2)" "keeps db_keys (q_RemoveDeviceFromGroup a1 a2)"
  "keeps db_keys (q_CreateAssignment a1 a2 ty1 a3)" "keeps db_keys (q_DeleteAssignment a1)"
  "keeps db_keys (q_CreateExecutionResult a1 a2 a3 k1 a4)" "keeps db_keys (q_CreateAuditEvent ev1)"
  unfolding write_defs
  by ((rule keeps_sql_nowI | rule keeps_sqlI);
      auto simp: db_keys_def update_one_Inr insert_row_Inr Let_def map_upd_rows distinct_del_rows
        distinct_del_rows_id distinct_renames intro: exists_rowI split: option.splits if_splits)+

lemma keeps_refs:
  "keeps db_refs (q_CreateIdentityProvider a1 a2 a3 b1 a4 a5 l1)"
  "keeps db_refs (q_ConfigureIdentityProvider a1 a2 l1 a3)" "keeps db_refs (q_RenameIdentityProvider a1 a2)"
  "keeps db_refs (q_EnableIdentityProvider a1)" "keeps db_refs (q_DisableIdentityProvider a1)"
  "keeps db_refs (q_DeleteIdentityProvider a1)" "keeps db_refs (q_CreateUser a1 a2 a3 k1)"
  "keeps db_refs (q_LinkIdentity a1 a2 a3)" "keeps db_refs (q_UpdateIdentityUserLogin a1 a2 k1 a3 a4)"
  "keeps db_refs (q_RotateUserSession a1 k1)" "keeps db_refs (q_CreateRole a1 a2 a3)"
  "keeps db_refs (q_RenameRole a1 a2)" "keeps db_refs (q_SetRoleDescription a1 a2)" "keeps db_refs (q_DeleteRole a1)"
  "keeps db_refs (q_GrantRolePermission k1 a1)" "keeps db_refs (q_RevokeRolePermission a1 k1)"
  "keeps db_refs (q_TouchRole a1)" "keeps db_refs (q_AssignInitialRole a1 a2 a3)"
  "keeps db_refs (q_AssignRoleToUser a1 a2)" "keeps db_refs (q_RevokeRoleFromUser a1 a2)"
  "keeps db_refs (q_BumpSessionsForRole a1)" "keeps db_refs (q_RotateUserSessionByID a1)"
  "keeps db_refs (q_CreateRegistrationToken a1 a2 a3 k1 k2)" "keeps db_refs (q_ConsumeRegistrationToken a1 k1)"
  "keeps db_refs (q_ConsumeFinalRegistrationToken a1 k1)" "keeps db_refs (q_RenameRegistrationToken a1 a2)"
  "keeps db_refs (q_DeleteRegistrationToken a1)" "keeps db_refs (q_CreateDevice a1 a2 a3 a4 a5 a6 k1 k2)"
  "keeps db_refs (q_SetPendingDeviceCertificate a1 a2 k1 a3 a4)"
  "keeps db_refs (q_PromotePendingDeviceCertificate a1 a2)" "keeps db_refs (q_TouchDevice a1 a2 k1 a3)"
  "keeps db_refs (q_DeleteDevice a1)" "keeps db_refs (q_DeleteAssignmentsForTarget ty1 a1)"
  "keeps db_refs (q_CreateAction a1 a2 a3 a4)" "keeps db_refs (q_RenameAction a1 a2)"
  "keeps db_refs (q_SetActionDescription a1 a2)" "keeps db_refs (q_ConfigureAction a1 a2)"
  "keeps db_refs (q_DeleteAction a1)" "keeps db_refs (q_CreateDeviceGroup a1 a2 a3)"
  "keeps db_refs (q_RenameDeviceGroup a1 a2)" "keeps db_refs (q_SetDeviceGroupDescription a1 a2)"
  "keeps db_refs (q_TouchDeviceGroup a1)" "keeps db_refs (q_DeleteDeviceGroup a1)"
  "keeps db_refs (q_AddDeviceToGroup a1 a2)" "keeps db_refs (q_RemoveDeviceFromGroup a1 a2)"
  "keeps db_refs (q_CreateAssignment a1 a2 ty1 a3)" "keeps db_refs (q_DeleteAssignment a1)"
  "keeps db_refs (q_CreateExecutionResult a1 a2 a3 k1 a4)" "keeps db_refs (q_CreateAuditEvent ev1)"
  unfolding write_defs
  by ((rule keeps_sql_nowI | rule keeps_sqlI);
      auto simp: db_refs_def update_one_Inr insert_row_Inr Let_def exists_row_upd split: option.splits if_splits)+

text \<open>Registration tokens: all statements but the one that counts a use.\<close>

lemma keeps_tokens:
  "keeps db_tokens (q_CreateIdentityProvider a1 a2 a3 b1 a4 a5 l1)"
  "keeps db_tokens (q_ConfigureIdentityProvider a1 a2 l1 a3)" "keeps db_tokens (q_RenameIdentityProvider a1 a2)"
  "keeps db_tokens (q_EnableIdentityProvider a1)" "keeps db_tokens (q_DisableIdentityProvider a1)"
  "keeps db_tokens (q_DeleteIdentityProvider a1)" "keeps db_tokens (q_CreateUser a1 a2 a3 k1)"
  "keeps db_tokens (q_LinkIdentity a1 a2 a3)" "keeps db_tokens (q_UpdateIdentityUserLogin a1 a2 k1 a3 a4)"
  "keeps db_tokens (q_RotateUserSession a1 k1)" "keeps db_tokens (q_CreateRole a1 a2 a3)"
  "keeps db_tokens (q_RenameRole a1 a2)" "keeps db_tokens (q_SetRoleDescription a1 a2)"
  "keeps db_tokens (q_DeleteRole a1)" "keeps db_tokens (q_GrantRolePermission k1 a1)"
  "keeps db_tokens (q_RevokeRolePermission a1 k1)" "keeps db_tokens (q_TouchRole a1)"
  "keeps db_tokens (q_AssignInitialRole a1 a2 a3)" "keeps db_tokens (q_AssignRoleToUser a1 a2)"
  "keeps db_tokens (q_RevokeRoleFromUser a1 a2)" "keeps db_tokens (q_BumpSessionsForRole a1)"
  "keeps db_tokens (q_RotateUserSessionByID a1)" "keeps db_tokens (q_CreateRegistrationToken a1 a2 a3 k1 k2)"
  "keeps db_tokens (q_ConsumeFinalRegistrationToken a1 k1)" "keeps db_tokens (q_RenameRegistrationToken a1 a2)"
  "keeps db_tokens (q_DeleteRegistrationToken a1)" "keeps db_tokens (q_CreateDevice a1 a2 a3 a4 a5 a6 k1 k2)"
  "keeps db_tokens (q_SetPendingDeviceCertificate a1 a2 k1 a3 a4)"
  "keeps db_tokens (q_PromotePendingDeviceCertificate a1 a2)" "keeps db_tokens (q_TouchDevice a1 a2 k1 a3)"
  "keeps db_tokens (q_DeleteDevice a1)" "keeps db_tokens (q_DeleteAssignmentsForTarget ty1 a1)"
  "keeps db_tokens (q_CreateAction a1 a2 a3 a4)" "keeps db_tokens (q_RenameAction a1 a2)"
  "keeps db_tokens (q_SetActionDescription a1 a2)" "keeps db_tokens (q_ConfigureAction a1 a2)"
  "keeps db_tokens (q_DeleteAction a1)" "keeps db_tokens (q_CreateDeviceGroup a1 a2 a3)"
  "keeps db_tokens (q_RenameDeviceGroup a1 a2)" "keeps db_tokens (q_SetDeviceGroupDescription a1 a2)"
  "keeps db_tokens (q_TouchDeviceGroup a1)" "keeps db_tokens (q_DeleteDeviceGroup a1)"
  "keeps db_tokens (q_AddDeviceToGroup a1 a2)" "keeps db_tokens (q_RemoveDeviceFromGroup a1 a2)"
  "keeps db_tokens (q_CreateAssignment a1 a2 ty1 a3)" "keeps db_tokens (q_DeleteAssignment a1)"
  "keeps db_tokens (q_CreateExecutionResult a1 a2 a3 k1 a4)" "keeps db_tokens (q_CreateAuditEvent ev1)"
  unfolding write_defs
  by ((rule keeps_sql_nowI | rule keeps_sqlI);
      auto simp: db_tokens_def token_ok_def update_one_Inr insert_row_Inr Let_def set_upd_rows split: option.splits if_splits)+

lemma pending_ok_simps [simp]:
  "pending_ok (promote t d)" "pending_ok (set_pending a b c t d)"
  "pending_ok (d\<lparr>dev_hostname := a, dev_agent_version := b, dev_last_seen_at := l, dev_updated_at := t\<rparr>) = pending_ok d"
  "dev_pending_pem d = None \<Longrightarrow> dev_pending_serial d = None \<Longrightarrow> dev_pending_expires_at d = None \<Longrightarrow> pending_ok d"
  by (simp_all add: pending_ok_def pending_complete_def promote_def set_pending_def)

lemma session_ok_simps [simp]:
  "session_ok u \<Longrightarrow> session_ok (bump_session t u)"
  "session_ok (u\<lparr>usr_email := a, usr_display_name := b, usr_last_login_at := t\<rparr>) = session_ok u"
  "session_ok \<lparr>usr_id = a, usr_email = b, usr_display_name = c, usr_session_version = 1,
     usr_created_at = t, usr_updated_at = t', usr_last_login_at = k\<rparr>"
  by (simp_all add: session_ok_def)

lemma keeps_rows:
  "keeps db_rows (q_CreateIdentityProvider a1 a2 a3 b1 a4 a5 l1)"
  "keeps db_rows (q_ConfigureIdentityProvider a1 a2 l1 a3)" "keeps db_rows (q_RenameIdentityProvider a1 a2)"
  "keeps db_rows (q_EnableIdentityProvider a1)" "keeps db_rows (q_DisableIdentityProvider a1)"
  "keeps db_rows (q_DeleteIdentityProvider a1)" "keeps db_rows (q_CreateUser a1 a2 a3 k1)"
  "keeps db_rows (q_LinkIdentity a1 a2 a3)" "keeps db_rows (q_UpdateIdentityUserLogin a1 a2 k1 a3 a4)"
  "keeps db_rows (q_RotateUserSession a1 k1)" "keeps db_rows (q_CreateRole a1 a2 a3)"
  "keeps db_rows (q_RenameRole a1 a2)" "keeps db_rows (q_SetRoleDescription a1 a2)" "keeps db_rows (q_DeleteRole a1)"
  "keeps db_rows (q_GrantRolePermission k1 a1)" "keeps db_rows (q_RevokeRolePermission a1 k1)"
  "keeps db_rows (q_TouchRole a1)" "keeps db_rows (q_AssignInitialRole a1 a2 a3)"
  "keeps db_rows (q_AssignRoleToUser a1 a2)" "keeps db_rows (q_RevokeRoleFromUser a1 a2)"
  "keeps db_rows (q_BumpSessionsForRole a1)" "keeps db_rows (q_RotateUserSessionByID a1)"
  "keeps db_rows (q_CreateRegistrationToken a1 a2 a3 k1 k2)" "keeps db_rows (q_ConsumeRegistrationToken a1 k1)"
  "keeps db_rows (q_ConsumeFinalRegistrationToken a1 k1)" "keeps db_rows (q_RenameRegistrationToken a1 a2)"
  "keeps db_rows (q_DeleteRegistrationToken a1)" "keeps db_rows (q_CreateDevice a1 a2 a3 a4 a5 a6 k1 k2)"
  "keeps db_rows (q_SetPendingDeviceCertificate a1 a2 k1 a3 a4)"
  "keeps db_rows (q_PromotePendingDeviceCertificate a1 a2)" "keeps db_rows (q_TouchDevice a1 a2 k1 a3)"
  "keeps db_rows (q_DeleteDevice a1)" "keeps db_rows (q_DeleteAssignmentsForTarget ty1 a1)"
  "keeps db_rows (q_CreateAction a1 a2 a3 a4)" "keeps db_rows (q_RenameAction a1 a2)"
  "keeps db_rows (q_SetActionDescription a1 a2)" "keeps db_rows (q_ConfigureAction a1 a2)"
  "keeps db_rows (q_DeleteAction a1)" "keeps db_rows (q_CreateDeviceGroup a1 a2 a3)"
  "keeps db_rows (q_RenameDeviceGroup a1 a2)" "keeps db_rows (q_SetDeviceGroupDescription a1 a2)"
  "keeps db_rows (q_TouchDeviceGroup a1)" "keeps db_rows (q_DeleteDeviceGroup a1)"
  "keeps db_rows (q_AddDeviceToGroup a1 a2)" "keeps db_rows (q_RemoveDeviceFromGroup a1 a2)"
  "keeps db_rows (q_CreateAssignment a1 a2 ty1 a3)" "keeps db_rows (q_DeleteAssignment a1)"
  "keeps db_rows (q_CreateExecutionResult a1 a2 a3 k1 a4)" "keeps db_rows (q_CreateAuditEvent ev1)"
  unfolding write_defs
  by ((rule keeps_sql_nowI | rule keeps_sqlI);
      auto simp: db_rows_def pending_complete_def update_one_Inr insert_row_Inr Let_def set_upd_rows split: option.splits if_splits)+

text \<open>Targets of assignments: all statements but the creation of an assignment and the deletion of a device
  or of a group.\<close>

lemma keeps_targets:
  "keeps db_targets (q_CreateIdentityProvider a1 a2 a3 b1 a4 a5 l1)"
  "keeps db_targets (q_ConfigureIdentityProvider a1 a2 l1 a3)" "keeps db_targets (q_RenameIdentityProvider a1 a2)"
  "keeps db_targets (q_EnableIdentityProvider a1)" "keeps db_targets (q_DisableIdentityProvider a1)"
  "keeps db_targets (q_DeleteIdentityProvider a1)" "keeps db_targets (q_CreateUser a1 a2 a3 k1)"
  "keeps db_targets (q_LinkIdentity a1 a2 a3)" "keeps db_targets (q_UpdateIdentityUserLogin a1 a2 k1 a3 a4)"
  "keeps db_targets (q_RotateUserSession a1 k1)" "keeps db_targets (q_CreateRole a1 a2 a3)"
  "keeps db_targets (q_RenameRole a1 a2)" "keeps db_targets (q_SetRoleDescription a1 a2)"
  "keeps db_targets (q_DeleteRole a1)" "keeps db_targets (q_GrantRolePermission k1 a1)"
  "keeps db_targets (q_RevokeRolePermission a1 k1)" "keeps db_targets (q_TouchRole a1)"
  "keeps db_targets (q_AssignInitialRole a1 a2 a3)" "keeps db_targets (q_AssignRoleToUser a1 a2)"
  "keeps db_targets (q_RevokeRoleFromUser a1 a2)" "keeps db_targets (q_BumpSessionsForRole a1)"
  "keeps db_targets (q_RotateUserSessionByID a1)" "keeps db_targets (q_CreateRegistrationToken a1 a2 a3 k1 k2)"
  "keeps db_targets (q_ConsumeRegistrationToken a1 k1)" "keeps db_targets (q_ConsumeFinalRegistrationToken a1 k1)"
  "keeps db_targets (q_RenameRegistrationToken a1 a2)" "keeps db_targets (q_DeleteRegistrationToken a1)"
  "keeps db_targets (q_CreateDevice a1 a2 a3 a4 a5 a6 k1 k2)"
  "keeps db_targets (q_SetPendingDeviceCertificate a1 a2 k1 a3 a4)"
  "keeps db_targets (q_PromotePendingDeviceCertificate a1 a2)" "keeps db_targets (q_TouchDevice a1 a2 k1 a3)"
  "keeps db_targets (q_DeleteAssignmentsForTarget ty1 a1)" "keeps db_targets (q_CreateAction a1 a2 a3 a4)"
  "keeps db_targets (q_RenameAction a1 a2)" "keeps db_targets (q_SetActionDescription a1 a2)"
  "keeps db_targets (q_ConfigureAction a1 a2)" "keeps db_targets (q_DeleteAction a1)"
  "keeps db_targets (q_CreateDeviceGroup a1 a2 a3)" "keeps db_targets (q_RenameDeviceGroup a1 a2)"
  "keeps db_targets (q_SetDeviceGroupDescription a1 a2)" "keeps db_targets (q_TouchDeviceGroup a1)"
  "keeps db_targets (q_AddDeviceToGroup a1 a2)" "keeps db_targets (q_RemoveDeviceFromGroup a1 a2)"
  "keeps db_targets (q_DeleteAssignment a1)" "keeps db_targets (q_CreateExecutionResult a1 a2 a3 k1 a4)"
  "keeps db_targets (q_CreateAuditEvent ev1)"
  unfolding write_defs
  by ((rule keeps_sql_nowI | rule keeps_sqlI);
      auto simp: db_targets_def target_exists_def update_one_Inr insert_row_Inr Let_def exists_row_upd split: option.splits if_splits)+

end
