(* ===== verification/Server_Service.thy ===== *)
theory Server_Service
  imports Server_Invariant Server_CA
begin

text \<open>
  \<^verbatim>\<open>server/internal/core/service.go\<close>: the service's configuration, the errors of the RPC handlers, paging and the
  audit log. Logging is dropped. \<open>paged\<close> is the contract of the listing statements: what a client gets that asks
  for one page after the other.
\<close>

section \<open>The service and its errors\<close>

record service =
  svc_codec :: codec
  svc_ca :: ca
  svc_public_base_url :: string
  svc_agent_url :: string
  svc_ca_fingerprint :: string
  svc_heartbeat :: int

definition internal :: go_error where
  "internal = ERpc CodeInternal ''internal error''"

definition rpcNotFound :: "string \<Rightarrow> go_error" where
  "rpcNotFound name = ERpc CodeNotFound (name @ '' not found'')"

definition rpcConflict :: "string \<Rightarrow> go_error" where
  "rpcConflict name = ERpc CodeAlreadyExists (name @ '' already exists'')"

text \<open>The error mapping shared by the handlers: \<^verbatim>\<open>sql.ErrNoRows\<close> to \<open>nf\<close>, a unique violation to \<open>cf\<close>, the rest to
  \<open>internal\<close>.\<close>

definition not_found_or :: "go_error \<Rightarrow> go_error \<Rightarrow> go_error" where
  "not_found_or nf e = (if IsNotFound e then nf else internal)"

definition conflict_or :: "go_error \<Rightarrow> go_error \<Rightarrow> go_error" where
  "conflict_or cf e = (if IsConflict e then cf else internal)"

definition rpc_error :: "go_error \<Rightarrow> go_error \<Rightarrow> go_error \<Rightarrow> go_error" where
  "rpc_error nf cf e = (if IsNotFound e then nf else if IsConflict e then cf else internal)"

text \<open>\<^verbatim>\<open>errors.As(err, &connectErr)\<close>: an RPC error passes through.\<close>

definition connect_error :: "(go_error \<Rightarrow> go_error) \<Rightarrow> go_error \<Rightarrow> go_error" where
  "connect_error f e = (case unwrap e of ERpc c t \<Rightarrow> ERpc c t | _ \<Rightarrow> f e)"

fun is_rpc :: "go_error \<Rightarrow> bool" where
  "is_rpc (ERpc c t) = True"
| "is_rpc _ = False"

lemma is_rpc_simps [simp]:
  "is_rpc internal" "is_rpc (rpcNotFound a)" "is_rpc (rpcConflict a)"
  "is_rpc nf \<Longrightarrow> is_rpc (not_found_or nf e)" "is_rpc cf \<Longrightarrow> is_rpc (conflict_or cf e)"
  "is_rpc nf \<Longrightarrow> is_rpc cf \<Longrightarrow> is_rpc (rpc_error nf cf e)"
  "is_rpc (f e) \<Longrightarrow> is_rpc (connect_error f e)"
  by (auto simp: internal_def rpcNotFound_def rpcConflict_def not_found_or_def conflict_or_def rpc_error_def
      connect_error_def split: go_error.splits)

text \<open>A \<^verbatim>\<open>:one\<close> query whose missing row is not an error: \<^verbatim>\<open>err == nil\<close> gives the row, \<^verbatim>\<open>IsNotFound(err)\<close> gives None.\<close>

definition optional :: "'a srv \<Rightarrow> 'a option srv" where
  "optional m = handle (bnd m (\<lambda>x. ret (Some x))) (\<lambda>e. if IsNotFound e then ret None else throw e)"

lemma optional_query [run_simps]:
  "optional (query_one f) E n s = (Inr x, n', s') \<longleftrightarrow> \<not> fault E n \<and> x = f s \<and> n' = Suc n \<and> s' = s"
  "optional (query_one f) E n s = (Inl e, n', s') \<longleftrightarrow> fault E n \<and> e = EDriver \<and> n' = Suc n \<and> s' = s"
  by (auto simp: optional_def query_one_def sql_def handle_def bnd_def ret_def throw_def split: option.splits)

lemma readonly_optional [prog_rules]: "readonly m \<Longrightarrow> readonly (optional m)"
  unfolding optional_def by (intro prog_rules)

section \<open>Paging\<close>

definition pageSize :: "int \<Rightarrow> nat" where
  "pageSize requested = (if requested \<le> 0 then 50 else nat requested)"

lemma pageSize_pos [simp]: "0 < pageSize k"
  by (simp add: pageSize_def)

definition paginate :: "'r list \<Rightarrow> nat \<Rightarrow> ('r \<Rightarrow> string) \<Rightarrow> 'r list \<times> string" where
  "paginate rs limit cursor = (if length rs \<le> limit then (rs, '''')
     else let page = take limit rs in (page, cursor (last page)))"

text \<open>One page of a table and the client that follows the page tokens, with fuel for the number of pages.\<close>

definition page :: "('r \<Rightarrow> string) \<Rightarrow> 'r list \<Rightarrow> nat \<Rightarrow> string \<Rightarrow> 'r list \<times> string" where
  "page key rs limit token = paginate (page_after key token (limit + 1) rs) limit key"

primrec walk :: "nat \<Rightarrow> (string \<Rightarrow> 'r list \<times> string) \<Rightarrow> string \<Rightarrow> 'r list option" where
  "walk 0 fetch token = None"
| "walk (Suc fuel) fetch token = (case fetch token of (rs, next) \<Rightarrow>
     if next = '''' then Some rs else map_option ((@) rs) (walk fuel fetch next))"

lemma filter_after_nth:
  assumes "sorted_wrt R zs" and "asymp R" and "m < length zs"
  shows "filter (R (zs ! m)) zs = drop (Suc m) zs"
proof -
  have "\<not> R (zs ! m) (zs ! i)" if "i \<le> m" for i
    using that sorted_wrt_nth_less [OF assms(1), of i m] assms(2,3) by (cases "i = m") (auto dest: asympD)
  then have "filter (R (zs ! m)) (take (Suc m) zs) = []"
    by (auto simp: filter_empty_conv in_set_conv_nth)
  moreover have "filter (R (zs ! m)) (drop (Suc m) zs) = drop (Suc m) zs"
    using sorted_wrt_nth_less [OF assms(1), of m] assms(3) by (auto simp: filter_id_conv in_set_conv_nth)
  ultimately show ?thesis by (metis append_Nil append_take_drop_id filter_append)
qed

text \<open>Keyset paging: when the token of a row fetches the rows after it, the walk gives them all. \<open>f\<close> is what the client sees of a row.\<close>

lemma walk_keyset:
  assumes first: "fetch '''' = map_prod (map f) id (paginate (take (limit + 1) zs) limit tok)"
    and rest: "\<And>m. m < length zs \<Longrightarrow> fetch (tok (zs ! m)) = map_prod (map f) id (paginate (take (limit + 1) (drop (Suc m) zs)) limit tok)"
    and ne: "\<And>r. r \<in> set zs \<Longrightarrow> tok r \<noteq> ''''" and lim: "0 < limit"
  shows "walk (Suc (length zs)) fetch '''' = Some (map f zs)"
proof -
  have "walk fuel fetch t = Some (map f (drop m zs))"
    if "fetch t = map_prod (map f) id (paginate (take (limit + 1) (drop m zs)) limit tok)" "length zs - m < fuel" for fuel t m
    using that
  proof (induction fuel arbitrary: t m)
    case (Suc fuel)
    show ?case
    proof (cases "length zs - m \<le> limit")
      case True
      then show ?thesis using Suc.prems(1) by (simp add: paginate_def)
    next
      case False
      define j where "j = m + limit - 1"
      have j: "j < length zs" "Suc j = m + limit" "drop (Suc j) zs = drop limit (drop m zs)"
        using False lim by (simp_all add: j_def add.commute)
      have "last (take limit (drop m zs)) = zs ! j"
        using False lim last_conv_nth [of "take limit (drop m zs)"] by (simp add: j_def)
      then have "fetch t = (map f (take limit (drop m zs)), tok (zs ! j))"
        using Suc.prems(1) False by (simp add: paginate_def Let_def)
      moreover have "walk fuel fetch (tok (zs ! j)) = Some (map f (drop (Suc j) zs))"
        using Suc.IH [OF rest [OF j(1)]] Suc.prems(2) False lim j(2) by simp
      moreover have "map f (take limit (drop m zs)) @ map f (drop (Suc j) zs) = map f (drop m zs)"
        unfolding j(3) by (metis append_take_drop_id map_append)
      ultimately show ?thesis using ne [of "zs ! j"] j(1) by simp
    qed
  qed simp
  from this [of "''''" 0 "Suc (length zs)"] first show ?thesis by (simp del: walk.simps)
qed

text \<open>The contract of the listing statements.\<close>

locale paged =
  fixes list_rows :: "string \<Rightarrow> nat \<Rightarrow> 'r list srv" and table :: "srv_db \<Rightarrow> 'r list" and key :: "'r \<Rightarrow> string"
  assumes lists: "list_rows after lim = query (\<lambda>s. page_after key after lim (table s))"
    and unique: "db_keys s \<Longrightarrow> distinct (map key (table s))"
begin

lemma sorted_table: "db_keys s \<Longrightarrow> sorted_wrt (\<lambda>a b. key a < key b) (sort_key key (table s))"
proof -
  assume "db_keys s"
  then have "distinct (map key (sort_key key (table s)))"
    using unique by (simp add: distinct_map)
  then have "sorted_wrt (<) (map key (sort_key key (table s)))"
    by (simp add: strict_sorted_iff)
  then show ?thesis by (simp add: sorted_wrt_map)
qed

text \<open>Following the page tokens gives every row once, in key order, within one request more than there are rows.\<close>

lemma walk_complete:
  assumes "db_keys s" and "\<forall>r\<in>set (table s). key r \<noteq> ''''"
    and fetch: "\<And>t. fetch t = map_prod (map f) id (page key (table s) (pageSize k) t)"
  shows "walk (Suc (length (table s))) fetch '''' = Some (map f (sort_key key (table s)))"
proof -
  let ?zs = "sort_key key (table s)"
  have all: "page_after key '''' lim (table s) = take lim ?zs" for lim
  proof -
    have "filter (\<lambda>r. '''' < key r) (table s) = table s" using assms(2) by (auto simp: filter_id_conv neq_Nil_conv)
    then show ?thesis by (simp add: page_after_def)
  qed
  have next_page: "page_after key (key (?zs ! m)) lim (table s) = take lim (drop (Suc m) ?zs)" if "m < length ?zs" for m lim
    using filter_after_nth [OF sorted_table [OF assms(1)] _ that] by (simp add: page_after_def filter_sort asympI)
  have "walk (Suc (length ?zs)) fetch '''' = Some (map f ?zs)"
  proof (rule walk_keyset)
    fix m assume "m < length ?zs"
    then show "fetch (key (?zs ! m)) = map_prod (map f) id (paginate (take (pageSize k + 1) (drop (Suc m) ?zs)) (pageSize k) key)"
      by (simp only: fetch page_def next_page)
  qed (use assms(2) in \<open>simp_all add: fetch page_def all\<close>)
  then show ?thesis by (simp del: walk.simps)
qed

lemma list_rows_page:
  "\<not> fault E n \<Longrightarrow> list_rows token (limit + 1) E n s = (Inr rs, n', s') \<Longrightarrow> paginate rs limit key = page key (table s) limit token"
  by (simp add: lists run_simps page_def)

end

interpretation role_pages: paged q_ListRoles roles role_id
  by unfold_locales (simp_all add: q_ListRoles_def db_keys_def)

interpretation user_pages: paged q_ListUsers users usr_id
  by unfold_locales (simp_all add: q_ListUsers_def db_keys_def)

interpretation token_pages: paged q_ListRegistrationTokens registration_tokens tok_id
  by unfold_locales (simp_all add: q_ListRegistrationTokens_def db_keys_def)

interpretation device_pages: paged q_ListDevices devices dev_id
  by unfold_locales (simp_all add: q_ListDevices_def db_keys_def)

interpretation action_pages: paged q_ListActions actions ac_id
  by unfold_locales (simp_all add: q_ListActions_def db_keys_def)

text \<open>A listing that adds a computed column to the rows of a table.\<close>

lemma insort_key_map: "(\<And>x. k' (f x) = k x) \<Longrightarrow> insort_key k' (f x) (map f xs) = map f (insort_key k x xs)"
  by (induction xs) auto

lemma sort_key_map: "(\<And>x. k' (f x) = k x) \<Longrightarrow> sort_key k' (map f xs) = map f (sort_key k xs)"
  by (induction xs) (simp_all add: insort_key_map)

lemma page_after_map: "(\<And>x. k' (f x) = k x) \<Longrightarrow> page_after k' a l (map f rs) = map f (page_after k a l rs)"
  by (simp add: page_after_def filter_map o_def sort_key_map take_map)

interpretation group_pages: paged q_ListDeviceGroups "\<lambda>s. map (\<lambda>g. (g, member_count s g)) (device_groups s)" "\<lambda>r. grp_id (fst r)"
  by unfold_locales (simp_all add: q_ListDeviceGroups_def db_keys_def o_def page_after_map [where k = grp_id])

section \<open>The audit log\<close>

definition auditActor :: "go_ctx \<Rightarrow> string srv" where
  "auditActor ctx = (case ctx_user ctx of Some u \<Rightarrow> ret (uc_id u) | None \<Rightarrow> ulid_make)"

definition audit :: "go_ctx \<Rightarrow> audit_event_type \<Rightarrow> audit_stream_type \<Rightarrow> string \<Rightarrow> audit_actor_type \<Rightarrow> string \<Rightarrow> unit srv" where
  "audit ctx ev st stream actor_type actor =
     bnd (if actor = '''' then auditActor ctx else ret actor) (\<lambda>a.
     bnd ulid_make (\<lambda>i.
     bnd now (\<lambda>t.
     q_CreateAuditEvent \<lparr>ae_id = i, ae_event_type = ev, ae_stream_type = st, ae_stream_id = stream,
       ae_actor_type = actor_type, ae_actor_id = a, ae_occurred_at = t\<rparr>)))"

lemma audit_appends:
  assumes "audit ctx ev st stream aty actor E n s = (Inr u, n', s')"
  shows "\<exists>e. s' = s\<lparr>audit_events := audit_events s @ [e]\<rparr> \<and> ae_event_type e = ev \<and> ae_stream_type e = st \<and>
    ae_stream_id e = stream \<and> ae_actor_type e = aty"
  using assms
  by (auto simp: audit_def auditActor_def q_CreateAuditEvent_def insert_row_Inr run_simps split: option.splits if_splits)

lemma audit_keeps [prog_rules]: "(\<And>r. keeps I (q_CreateAuditEvent r)) \<Longrightarrow> keeps I (audit ctx ev st stream aty actor)"
  unfolding audit_def auditActor_def
  by (intro prog_rules) (auto intro!: keeps_readonly prog_rules split: option.splits)

end
