(* ===== verification/Server_Roles.thy ===== *)
theory Server_Roles
  imports Server_Service
begin

text \<open>
  \<^verbatim>\<open>server/internal/core/roles.go\<close>: roles, their permissions, and who has them. A permission is carried in the access
  token of a session; a change of rights bumps the session version of every user it touches, which ends the sessions that
  carry the old rights at their next refresh.
\<close>

definition administratorsRoleID :: string where "administratorsRoleID = ''01J00000000000000000000001''"
definition usersRoleID :: string where "usersRoleID = ''01J00000000000000000000002''"

definition allPermissions :: "permission list" where
  "allPermissions = [1..46]"

record role_proto =
  rop_id :: string
  rop_name :: string
  rop_description :: string
  rop_permissions :: "permission list"
  rop_created_at :: int
  rop_updated_at :: int

definition roleProto :: "role \<Rightarrow> role_proto srv" where
  "roleProto r = bnd (q_ListRolePermissions (role_id r)) (\<lambda>ps.
     ret \<lparr>rop_id = role_id r, rop_name = role_name r, rop_description = role_description r, rop_permissions = ps,
       rop_created_at = role_created_at r, rop_updated_at = role_updated_at r\<rparr>)"

definition CreateRole :: "string \<Rightarrow> string \<Rightarrow> permission list \<Rightarrow> role_proto srv" where
  "CreateRole name descr perms = bnd ulid_make (\<lambda>i.
     map_err (conflict_or (rpcConflict ''role name''))
       (Transaction (bnd (q_CreateRole i name descr) (\<lambda>r.
          bnd (for_each (\<lambda>p. bnd (q_GrantRolePermission p i) (\<lambda>_. ret ())) perms) (\<lambda>_. roleProto r)))))"

definition GetRole :: "string \<Rightarrow> role_proto srv" where
  "GetRole i = bnd (map_err (not_found_or (rpcNotFound ''role'')) (q_GetRole i)) (\<lambda>r.
     map_err (\<lambda>_. internal) (roleProto r))"

definition ListRoles :: "int \<Rightarrow> string \<Rightarrow> (role_proto list \<times> string) srv" where
  "ListRoles requested token = (let limit = pageSize requested in
     bnd (map_err (\<lambda>_. internal) (q_ListRoles token (limit + 1))) (\<lambda>rows.
     case paginate rows limit role_id of (rs, next) \<Rightarrow>
       bnd (map_prog (\<lambda>r. map_err (\<lambda>_. internal) (roleProto r)) rs) (\<lambda>ps. ret (ps, next))))"

definition roleMutation :: "string \<Rightarrow> string \<Rightarrow> role srv \<Rightarrow> role_proto srv" where
  "roleMutation i operation mutate = map_err (rpc_error (rpcNotFound ''role'')
       (rpcConflict (if operation = ''grant role permission'' then ''role permission'' else ''role name'')))
     (Transaction (bnd mutate (\<lambda>r. bnd (q_BumpSessionsForRole i) (\<lambda>_. roleProto r))))"

definition RenameRole :: "string \<Rightarrow> string \<Rightarrow> role_proto srv" where
  "RenameRole i name = roleMutation i ''rename role'' (q_RenameRole name i)"

definition SetRoleDescription :: "string \<Rightarrow> string \<Rightarrow> role_proto srv" where
  "SetRoleDescription i descr = roleMutation i ''set role description'' (q_SetRoleDescription descr i)"

definition GrantRolePermission :: "string \<Rightarrow> permission \<Rightarrow> role_proto srv" where
  "GrantRolePermission i p = roleMutation i ''grant role permission''
     (bnd (q_GrantRolePermission p i) (\<lambda>_. q_TouchRole i))"

definition RevokeRolePermission :: "string \<Rightarrow> permission \<Rightarrow> role_proto srv" where
  "RevokeRolePermission i p = roleMutation i ''revoke role permission''
     (bnd (q_RevokeRolePermission i p) (\<lambda>rows. bnd (require (rows = 1) ENoRows) (\<lambda>_. q_TouchRole i)))"

definition DeleteRole :: "string \<Rightarrow> unit srv" where
  "DeleteRole i = map_err (not_found_or (rpcNotFound ''role''))
     (Transaction (bnd (q_BumpSessionsForRole i) (\<lambda>_.
        bnd (q_DeleteRole i) (\<lambda>rows. require (rows = 1) ENoRows))))"

definition AssignRoleToUser :: "string \<Rightarrow> string \<Rightarrow> unit srv" where
  "AssignRoleToUser u r = map_err (rpc_error (rpcNotFound ''user or role'') (rpcConflict ''role assignment''))
     (Transaction (bnd (q_AssignRoleToUser u r) (\<lambda>_. bnd (q_RotateUserSessionByID u) (\<lambda>_. ret ()))))"

definition RevokeRoleFromUser :: "string \<Rightarrow> string \<Rightarrow> unit srv" where
  "RevokeRoleFromUser u r = map_err (not_found_or (rpcNotFound ''user or role assignment''))
     (Transaction (bnd (q_RevokeRoleFromUser u r) (\<lambda>rows.
        bnd (require (rows = 1) ENoRows) (\<lambda>_. bnd (q_RotateUserSessionByID u) (\<lambda>_. ret ())))))"

definition ListPermissions :: "permission list" where
  "ListPermissions = allPermissions"

record user_proto =
  up_id :: string
  up_email :: string
  up_display_name :: string
  up_roles :: "role_proto list"
  up_permissions :: "permission list"
  up_created_at :: int
  up_last_login_at :: int

definition userProto :: "user \<Rightarrow> user_proto srv" where
  "userProto u = bnd (q_ListUserRoles (usr_id u)) (\<lambda>rs.
     bnd (q_ListUserPermissions (usr_id u)) (\<lambda>ps.
     bnd (map_prog roleProto rs) (\<lambda>rps.
     ret \<lparr>up_id = usr_id u, up_email = usr_email u, up_display_name = usr_display_name u, up_roles = rps,
       up_permissions = ps, up_created_at = usr_created_at u, up_last_login_at = usr_last_login_at u\<rparr>)))"

definition ListUsers :: "int \<Rightarrow> string \<Rightarrow> (user_proto list \<times> string) srv" where
  "ListUsers requested token = (let limit = pageSize requested in
     bnd (map_err (\<lambda>_. internal) (q_ListUsers token (limit + 1))) (\<lambda>rows.
     case paginate rows limit usr_id of (us, next) \<Rightarrow>
       bnd (map_prog (\<lambda>u. map_err (\<lambda>_. internal) (userProto u)) us) (\<lambda>ps. ret (ps, next))))"

definition RevokeUserSessions :: "go_ctx \<Rightarrow> string \<Rightarrow> unit srv" where
  "RevokeUserSessions ctx u = map_err (not_found_or (rpcNotFound ''user''))
     (Transaction (bnd (q_RotateUserSessionByID u) (\<lambda>_.
        audit ctx AUDIT_EVENT_TYPE_USER_SESSIONS_REVOKED AUDIT_STREAM_TYPE_USER u AUDIT_ACTOR_TYPE_USER '''')))"

end
