(* ===== verification/Server_Login.thy ===== *)
theory Server_Login
  imports Server_Auth Server_Roles
begin

text \<open>
  \<^verbatim>\<open>server/internal/core/auth.go\<close> and \<^verbatim>\<open>server/internal/idp\<close>: sign-in through an OIDC provider, sessions, and the identity
  providers themselves. The OIDC and OAuth2 libraries, the network and \<^verbatim>\<open>net/url\<close> are parameters (the record \<open>oidc\<close>): whether
  discovery succeeds, what an exchange returns, what a verified ID token contains, how a URL parses.
\<close>

section \<open>ID tokens\<close>

datatype json = JString string | JBool bool | JNull | JOther

record id_token =
  it_nonce :: string
  it_subject :: string
  it_claims :: "(string \<times> json) list option" \<comment> \<open>None: the claims do not decode\<close>

record user_claims =
  cls_subject :: string
  cls_email :: string
  cls_name :: string

text \<open>A missing claim is nil, which \<^verbatim>\<open>json.Unmarshal\<close> refuses.\<close>

definition claimString :: "json option \<Rightarrow> string option" where
  "claimString v = (case v of Some (JString t) \<Rightarrow> Some t | _ \<Rightarrow> None)"

definition claimIsTrue :: "json option \<Rightarrow> bool" where
  "claimIsTrue v = (case v of Some (JBool b) \<Rightarrow> b | Some (JString t) \<Rightarrow> t = ''true'' | _ \<Rightarrow> False)"

text \<open>\<open>verified\<close> is the result of the library's check of signature, issuer, audience and expiry.\<close>

definition VerifyIDToken :: "id_token option \<Rightarrow> string \<Rightarrow> go_error + user_claims" where
  "VerifyIDToken verified nonce = (case verified of
     None \<Rightarrow> Inl (EWrap ''verify id_token'' (EText ''oidc''))
   | Some t \<Rightarrow>
       if it_nonce t \<noteq> nonce then Inl (EText ''nonce mismatch'')
       else (case it_claims t of
         None \<Rightarrow> Inl (EWrap ''extract claims'' (EText ''json''))
       | Some cs \<Rightarrow> Inr \<lparr>cls_subject = it_subject t,
           cls_email = (case claimString (map_of cs ''email'') of
             Some e \<Rightarrow> if e \<noteq> '''' \<and> claimIsTrue (map_of cs ''email_verified'') then e else '''' | None \<Rightarrow> ''''),
           cls_name = (case claimString (map_of cs ''name'') of Some x \<Rightarrow> x | None \<Rightarrow> '''')\<rparr>))"

record parsed_url =
  pu_scheme :: string
  pu_host :: string
  pu_user :: bool
  pu_fragment :: string

record oidc =
  oidc_discover :: "nat \<Rightarrow> string \<Rightarrow> bool" \<comment> \<open>\<^verbatim>\<open>oidc.NewProvider\<close> of the issuer URL\<close>
  oidc_auth_url :: "string \<Rightarrow> string \<Rightarrow> string list \<Rightarrow> string \<Rightarrow> string \<Rightarrow> string \<Rightarrow> string \<Rightarrow> string"
  oidc_exchange :: "nat \<Rightarrow> string \<Rightarrow> string \<Rightarrow> string option option" \<comment> \<open>the \<^verbatim>\<open>id_token\<close> of the response\<close>
  oidc_verify :: "nat \<Rightarrow> string \<Rightarrow> string \<Rightarrow> string \<Rightarrow> id_token option"
  oidc_values :: "nat \<Rightarrow> (string \<times> string \<times> string) option" \<comment> \<open>state, nonce and verifier from \<^verbatim>\<open>crypto/rand\<close>\<close>
  url_parse :: "string \<Rightarrow> parsed_url option"

definition event :: "(nat \<Rightarrow> 'a) \<Rightarrow> 'a srv" where
  "event f = (\<lambda>E n s. (Inr (f n), Suc n, s))"

lemma event_run [run_simps]: "event f E n s = (r, n', s') \<longleftrightarrow> r = Inr (f n) \<and> n' = Suc n \<and> s' = s"
  by (auto simp: event_def)

lemma readonly_event [prog_rules]: "readonly (event f)"
  by (simp add: readonly_def event_def)

definition default_scopes :: "string list \<Rightarrow> string list" where
  "default_scopes scopes = (if scopes = [] then [''openid'', ''profile'', ''email''] else scopes)"

text \<open>A provider client: client id, issuer, scopes and redirect URL.\<close>

type_synonym oidc_client = "string \<times> string \<times> string list \<times> string"

definition NewOIDCProvider :: "oidc \<Rightarrow> string \<Rightarrow> string \<Rightarrow> string list \<Rightarrow> string \<Rightarrow> oidc_client srv" where
  "NewOIDCProvider P cid issuer scopes redirect = bnd (event (\<lambda>n. oidc_discover P n issuer)) (\<lambda>ok.
     if ok then ret (cid, issuer, default_scopes scopes, redirect) else throw (EWrap ''oidc discovery'' (EText ''oidc'')))"

definition AuthCodeURL :: "oidc \<Rightarrow> oidc_client \<Rightarrow> string \<Rightarrow> string \<Rightarrow> string \<Rightarrow> string" where
  "AuthCodeURL P client state nonce verifier = (case client of (cid, issuer, scopes, redirect) \<Rightarrow>
     oidc_auth_url P cid issuer scopes redirect state nonce verifier)"

definition VerifyAndExtractClaims :: "oidc \<Rightarrow> oidc_client \<Rightarrow> string option \<Rightarrow> string \<Rightarrow> user_claims srv" where
  "VerifyAndExtractClaims P client raw nonce = (case raw of
     None \<Rightarrow> throw (EText ''no id_token in token response'')
   | Some r \<Rightarrow> bnd (event (\<lambda>n. oidc_verify P n (fst client) (fst (snd client)) r)) (\<lambda>t. lift_sum (VerifyIDToken t nonce)))"

section \<open>Sessions\<close>

definition invalid_refresh :: go_error where
  "invalid_refresh = ERpc CodeUnauthenticated ''invalid refresh token''"

definition refresh_claims :: "jwt \<Rightarrow> string \<Rightarrow> claims srv" where
  "refresh_claims J token = bnd (map_err (\<lambda>_. invalid_refresh) (ValidateToken J token TokenTypeRefresh)) (\<lambda>c.
     bnd (require (cl_id c \<noteq> '''' \<and> cl_expires_at c \<noteq> None) invalid_refresh) (\<lambda>_. ret c))"

definition RefreshToken :: "jwt \<Rightarrow> string \<Rightarrow> token_pair srv" where
  "RefreshToken J token = bnd (refresh_claims J token) (\<lambda>c.
     bnd (map_err (not_found_or invalid_refresh) (q_RotateUserSession (cl_user_id c) (cl_session_version c))) (\<lambda>u.
     bnd (map_err (\<lambda>_. internal) (q_ListUserPermissions (usr_id u))) (\<lambda>ps.
     map_err (\<lambda>_. internal) (GenerateTokens J (usr_id u) (usr_email u) (usr_session_version u) ps))))"

definition Logout :: "jwt \<Rightarrow> string \<Rightarrow> unit srv" where
  "Logout J token = bnd (refresh_claims J token) (\<lambda>c.
     bnd (map_err (not_found_or invalid_refresh) (q_RotateUserSession (cl_user_id c) (cl_session_version c))) (\<lambda>_. ret ()))"

definition GetCurrentUser :: "go_ctx \<Rightarrow> user_proto srv" where
  "GetCurrentUser ctx = (case ctx_user ctx of
     None \<Rightarrow> throw authentication_required
   | Some p \<Rightarrow> bnd (map_err (not_found_or (rpcNotFound ''user'')) (q_GetUser (uc_id p))) (\<lambda>u.
       map_err (\<lambda>_. internal) (userProto u)))"

section \<open>Sign-in\<close>

definition ListAuthMethods :: "(string \<times> string) list srv" where
  "ListAuthMethods = bnd (map_err (\<lambda>_. internal) q_ListEnabledIdentityProviders) (\<lambda>ps.
     ret (map (\<lambda>p. (idp_slug p, idp_name p)) ps))"

definition validateRedirect :: "oidc \<Rightarrow> service \<Rightarrow> string \<Rightarrow> go_error option" where
  "validateRedirect P svc raw = (case url_parse P (svc_public_base_url svc) of
     None \<Rightarrow> Some (EText ''server public URL is invalid'')
   | Some base \<Rightarrow> (case url_parse P raw of
       None \<Rightarrow> Some (EText ''redirect URL must use the configured Cadestro origin'')
     | Some r \<Rightarrow> if pu_scheme r \<noteq> pu_scheme base \<or> ToLower (pu_host r) \<noteq> ToLower (pu_host base) \<or> pu_user r \<or> pu_fragment r \<noteq> ''''
         then Some (EText ''redirect URL must use the configured Cadestro origin'') else None))"

definition authStateTTL :: int where "authStateTTL = 600000000000"

definition provider_client :: "oidc \<Rightarrow> identity_provider \<Rightarrow> string \<Rightarrow> oidc_client srv" where
  "provider_client P p redirect = NewOIDCProvider P (idp_client_id p) (idp_issuer_url p) (idp_scopes p) redirect"

text \<open>Returns the login URL and the value of the transaction cookie.\<close>

definition start_login :: "oidc \<Rightarrow> jwt \<Rightarrow> string \<Rightarrow> identity_provider \<Rightarrow> (string \<times> string) srv" where
  "start_login P J redirect p =
     bnd (map_err (\<lambda>_. internal) (provider_client P p redirect)) (\<lambda>client.
     bnd (event (oidc_values P)) (\<lambda>vals.
     case vals of None \<Rightarrow> throw internal
     | Some (state, nonce, verifier) \<Rightarrow>
       bnd now (\<lambda>t.
       bnd (map_err (\<lambda>_. internal) (SignOIDCTransaction J state (idp_id p) nonce verifier redirect (t + authStateTTL))) (\<lambda>cookie.
       ret (AuthCodeURL P client state nonce verifier, cookie)))))"

definition GetSSOLoginURL :: "oidc \<Rightarrow> jwt \<Rightarrow> service \<Rightarrow> string \<Rightarrow> string \<Rightarrow> (string \<times> string) srv" where
  "GetSSOLoginURL P J svc slug redirect = (case validateRedirect P svc redirect of
     Some e \<Rightarrow> throw (ERpc CodeInvalidArgument (case e of EText t \<Rightarrow> t | _ \<Rightarrow> ''''))
   | None \<Rightarrow>
       bnd (map_err (not_found_or (rpcNotFound ''identity provider'')) (q_GetIdentityProviderBySlug slug)) (\<lambda>p.
       if \<not> idp_enabled p then throw (ERpc CodeFailedPrecondition ''identity provider is disabled'')
       else start_login P J redirect p))"

definition link_display_name :: "user_claims \<Rightarrow> string" where
  "link_display_name c = (if cls_name c = '''' then cls_email c else cls_name c)"

definition create_linked :: "string \<Rightarrow> user_claims \<Rightarrow> user srv" where
  "create_linked provider c = bnd now (\<lambda>t. bnd ulid_make (\<lambda>i.
     bnd (q_CreateUser i (cls_email c) (link_display_name c) t) (\<lambda>u.
     bnd (q_LinkIdentity provider (cls_subject c) (usr_id u)) (\<lambda>_.
     bnd (q_AssignInitialRole (usr_id u) administratorsRoleID usersRoleID) (\<lambda>_. ret u)))))"

definition linkIdentity :: "string \<Rightarrow> user_claims \<Rightarrow> user srv" where
  "linkIdentity provider c = Transaction (bnd now (\<lambda>t.
     bnd (optional (q_UpdateIdentityUserLogin (cls_email c) (cls_name c) t provider (cls_subject c))) (\<lambda>existing.
     case existing of Some u \<Rightarrow> ret u | None \<Rightarrow> create_linked provider c)))"

definition sso_invalid :: go_error where
  "sso_invalid = ERpc CodeUnauthenticated ''SSO state is invalid or expired''"

record sso_callback =
  cb_cookie :: "string option" \<comment> \<open>the transaction cookie of the request\<close>
  cb_state :: string
  cb_slug :: string
  cb_code :: string

definition complete_login :: "oidc \<Rightarrow> jwt \<Rightarrow> identity_provider \<Rightarrow> oidc_transaction \<Rightarrow> string \<Rightarrow> token_pair srv" where
  "complete_login P J p tx code =
     bnd (map_err (\<lambda>_. internal) (provider_client P p (tx_redirect_url tx))) (\<lambda>client.
     bnd (event (\<lambda>n. oidc_exchange P n code (tx_code_verifier tx))) (\<lambda>ex.
     case ex of None \<Rightarrow> throw (ERpc CodeUnauthenticated ''SSO exchange failed'')
     | Some raw \<Rightarrow>
       bnd (map_err (\<lambda>_. ERpc CodeUnauthenticated ''SSO identity verification failed'') (VerifyAndExtractClaims P client raw (tx_nonce tx))) (\<lambda>c.
       bnd (require (cls_subject c \<noteq> '''') (ERpc CodeUnauthenticated ''SSO identity verification failed'')) (\<lambda>_.
       bnd (map_err (\<lambda>_. internal) (linkIdentity (idp_id p) c)) (\<lambda>u.
       bnd (map_err (\<lambda>_. internal) (q_ListUserPermissions (usr_id u))) (\<lambda>ps.
       map_err (\<lambda>_. internal) (GenerateTokens J (usr_id u) (usr_email u) (usr_session_version u) ps)))))))"

definition SSOCallback :: "oidc \<Rightarrow> jwt \<Rightarrow> sso_callback \<Rightarrow> token_pair srv" where
  "SSOCallback P J cb = (case cb_cookie cb of
     None \<Rightarrow> throw sso_invalid
   | Some cookie \<Rightarrow>
       bnd (map_err (\<lambda>_. sso_invalid) (ValidateOIDCTransaction J cookie)) (\<lambda>tx.
       bnd (require (tx_state tx = cb_state cb) sso_invalid) (\<lambda>_.
       bnd (map_err (\<lambda>_. sso_invalid) (q_GetIdentityProvider (tx_provider_id tx))) (\<lambda>p.
       bnd (require (idp_slug p = cb_slug cb \<and> idp_enabled p) sso_invalid) (\<lambda>_.
       complete_login P J p tx (cb_code cb))))))"

section \<open>Identity providers\<close>

record bootstrap_provider =
  bp_name :: string
  bp_slug :: string
  bp_client_id :: string
  bp_issuer_url :: string
  bp_scopes :: "string list"

definition EnsureBootstrapProvider :: "oidc \<Rightarrow> service \<Rightarrow> bootstrap_provider \<Rightarrow> unit srv" where
  "EnsureBootstrapProvider P svc b = bnd q_CountIdentityProviders (\<lambda>k.
     if k > 0 then ret ()
     else if bp_issuer_url b = '''' \<or> bp_client_id b = ''''
     then throw (EText ''bootstrap OIDC issuer and client ID are required for a new database'')
     else bnd ulid_make (\<lambda>i.
       bnd (NewOIDCProvider P (bp_client_id b) (bp_issuer_url b) (bp_scopes b) (svc_public_base_url svc)) (\<lambda>_.
       bnd (q_CreateIdentityProvider i (if bp_name b = '''' then ''Company SSO'' else bp_name b)
         (if bp_slug b = '''' then ''sso'' else bp_slug b) True (bp_client_id b) (bp_issuer_url b) (bp_scopes b)) (\<lambda>_. ret ()))))"

record provider_request =
  pr_name :: string
  pr_slug :: string
  pr_client_id :: string
  pr_issuer_url :: string
  pr_scopes :: "string list"

definition discovery_failed :: go_error where
  "discovery_failed = ERpc CodeInvalidArgument ''identity provider discovery failed''"

text \<open>\<^verbatim>\<open>providerProto\<close> copies the row.\<close>

definition CreateIdentityProvider :: "oidc \<Rightarrow> service \<Rightarrow> go_ctx \<Rightarrow> provider_request \<Rightarrow> identity_provider srv" where
  "CreateIdentityProvider P svc ctx r = bnd ulid_make (\<lambda>i.
     bnd (map_err (\<lambda>_. discovery_failed) (NewOIDCProvider P (pr_client_id r) (pr_issuer_url r) (pr_scopes r) (svc_public_base_url svc))) (\<lambda>_.
     map_err (conflict_or (rpcConflict ''identity provider slug''))
       (Transaction (bnd (q_CreateIdentityProvider i (pr_name r) (pr_slug r) True (pr_client_id r) (pr_issuer_url r) (pr_scopes r)) (\<lambda>p.
          bnd (audit ctx AUDIT_EVENT_TYPE_IDENTITY_PROVIDER_CREATED AUDIT_STREAM_TYPE_IDENTITY_PROVIDER i AUDIT_ACTOR_TYPE_USER '''') (\<lambda>_.
          ret p))))))"

definition no_provider :: go_error where
  "no_provider = rpcNotFound ''identity provider''"

definition GetIdentityProvider :: "string \<Rightarrow> identity_provider srv" where
  "GetIdentityProvider i = map_err (not_found_or no_provider) (q_GetIdentityProvider i)"

definition ListIdentityProviders :: "identity_provider list srv" where
  "ListIdentityProviders = map_err (\<lambda>_. internal) q_ListIdentityProviders"

definition RenameIdentityProvider :: "string \<Rightarrow> string \<Rightarrow> identity_provider srv" where
  "RenameIdentityProvider i name = map_err (not_found_or no_provider) (q_RenameIdentityProvider name i)"

definition ConfigureIdentityProvider :: "oidc \<Rightarrow> service \<Rightarrow> string \<Rightarrow> provider_request \<Rightarrow> identity_provider srv" where
  "ConfigureIdentityProvider P svc i r = bnd (map_err (not_found_or no_provider) (q_GetIdentityProvider i)) (\<lambda>_.
     bnd (map_err (\<lambda>_. discovery_failed) (NewOIDCProvider P (pr_client_id r) (pr_issuer_url r) (pr_scopes r) (svc_public_base_url svc))) (\<lambda>_.
     map_err (not_found_or no_provider) (q_ConfigureIdentityProvider (pr_client_id r) (pr_issuer_url r) (pr_scopes r) i)))"

definition EnableIdentityProvider :: "oidc \<Rightarrow> service \<Rightarrow> string \<Rightarrow> identity_provider srv" where
  "EnableIdentityProvider P svc i = bnd (map_err (not_found_or no_provider) (q_GetIdentityProvider i)) (\<lambda>p.
     bnd (map_err (\<lambda>_. discovery_failed) (NewOIDCProvider P (idp_client_id p) (idp_issuer_url p) (idp_scopes p) (svc_public_base_url svc))) (\<lambda>_.
     map_err (not_found_or no_provider) (q_EnableIdentityProvider i)))"

definition DisableIdentityProvider :: "string \<Rightarrow> identity_provider srv" where
  "DisableIdentityProvider i = map_err (not_found_or no_provider) (q_DisableIdentityProvider i)"

definition errLastIdentityProvider :: go_error where
  "errLastIdentityProvider = ESentinel ''cannot delete the last identity provider''"

definition last_provider_error :: "go_error \<Rightarrow> go_error" where
  "last_provider_error e = (if IsNotFound e then no_provider
     else if errors_is e errLastIdentityProvider then ERpc CodeFailedPrecondition ''cannot delete the last identity provider''
     else internal)"

definition DeleteIdentityProvider :: "string \<Rightarrow> unit srv" where
  "DeleteIdentityProvider i = map_err last_provider_error (Transaction (
     bnd (q_GetIdentityProvider i) (\<lambda>_.
     bnd q_CountIdentityProviders (\<lambda>k.
     bnd (require (\<not> k \<le> 1) errLastIdentityProvider) (\<lambda>_.
     bnd (q_DeleteIdentityProvider i) (\<lambda>rows. require (rows = 1) ENoRows))))))"

lemma readonly_oidc [prog_rules]:
  "readonly (NewOIDCProvider P a b c d)" "readonly (VerifyAndExtractClaims P cl raw nonce)" "readonly (refresh_claims J tok)"
  unfolding NewOIDCProvider_def VerifyAndExtractClaims_def refresh_claims_def
  by (intro prog_rules)+

end
