(* ===== verification/Server_Actions.thy ===== *)
theory Server_Actions
  imports Server_Service
begin

text \<open>
  \<^verbatim>\<open>server/internal/core/actions.go\<close>: the actions an operator manages. The stored blob is the serialised
  \<^verbatim>\<open>Action\<close> message; \<open>valid_action\<close> is what validation guarantees of it, and \<open>db_actions\<close> says that every stored
  blob is the serialisation of a valid action that carries its row's id. Every handler keeps that.
\<close>

section \<open>Validation\<close>

record action_spec =
  spec_desired_state :: desired_state
  spec_timeout_seconds :: int
  spec_schedule :: "int option"
  spec_params :: "action_params option"

text \<open>The getters of the request's \<^verbatim>\<open>params\<close> oneof.\<close>

fun GetPackage :: "action_params option \<Rightarrow> package_params option" where
  "GetPackage (Some (ActionPackage p)) = p"
| "GetPackage _ = None"

fun GetUpdate :: "action_params option \<Rightarrow> bool" where
  "GetUpdate (Some ActionUpdate) = True"
| "GetUpdate _ = False"

fun GetShell :: "action_params option \<Rightarrow> shell_params option" where
  "GetShell (Some (ActionShell p)) = p"
| "GetShell _ = None"

text \<open>\<open>upd\<close> is \<^verbatim>\<open>updateParams != nil\<close>: the update parameters have no fields.\<close>

definition validateAction ::
  "desired_state \<Rightarrow> int \<Rightarrow> int option \<Rightarrow> package_params option \<Rightarrow> bool \<Rightarrow> shell_params option \<Rightarrow> go_error + action" where
  "validateAction state timeout sch pkg upd shell = (
     let action = \<lparr>act_id = None, act_desired_state = state, act_timeout_seconds = timeout, act_schedule = sch, act_params = None\<rparr> in
     if pkg \<noteq> None then
       (if upd \<or> shell \<noteq> None then Inl (EText ''package action requires package parameters'')
        else if state \<noteq> DESIRED_STATE_PRESENT \<and> state \<noteq> DESIRED_STATE_ABSENT
        then Inl (EText ''package action requires present or absent desired state'')
        else Inr (action\<lparr>act_params := Some (ActionPackage pkg)\<rparr>))
     else if upd then
       (if pkg \<noteq> None \<or> shell \<noteq> None then Inl (EText ''update action requires update parameters'')
        else if state \<noteq> DESIRED_STATE_PRESENT then Inl (EText ''update action requires present desired state'')
        else Inr (action\<lparr>act_params := Some ActionUpdate\<rparr>))
     else (case shell of
       None \<Rightarrow> Inl (EText ''action parameters are required'')
     | Some p \<Rightarrow>
         if pkg \<noteq> None \<or> upd then Inl (EText ''shell action requires shell parameters'')
         else if state \<noteq> DESIRED_STATE_PRESENT then Inl (EText ''shell action requires present desired state'')
         else if sh_is_compliance p \<and> sh_detection_script p = ''''
         then Inl (EText ''compliance action requires a detection script'')
         else if sh_script p = '''' \<and> sh_detection_script p = ''''
         then Inl (EText ''shell action requires a script or detection script'')
         else Inr (action\<lparr>act_params := Some (ActionShell shell)\<rparr>)))"

definition validateSpec :: "action_spec \<Rightarrow> go_error + action" where
  "validateSpec r = validateAction (spec_desired_state r) (spec_timeout_seconds r) (spec_schedule r)
     (GetPackage (spec_params r)) (GetUpdate (spec_params r)) (GetShell (spec_params r))"

text \<open>What a validated action satisfies.\<close>

definition valid_action :: "action \<Rightarrow> bool" where
  "valid_action a \<longleftrightarrow> (case act_params a of
     Some (ActionPackage (Some _)) \<Rightarrow> act_desired_state a \<in> {DESIRED_STATE_PRESENT, DESIRED_STATE_ABSENT}
   | Some ActionUpdate \<Rightarrow> act_desired_state a = DESIRED_STATE_PRESENT
   | Some (ActionShell (Some p)) \<Rightarrow> act_desired_state a = DESIRED_STATE_PRESENT \<and>
       (sh_is_compliance p \<longrightarrow> sh_detection_script p \<noteq> '''') \<and> (sh_script p = '''' \<longrightarrow> sh_detection_script p \<noteq> '''')
   | _ \<Rightarrow> False)"

lemma validateSpec_valid: "validateSpec r = Inr a \<Longrightarrow> valid_action (a\<lparr>act_id := i\<rparr>)"
  by (auto simp: validateSpec_def validateAction_def valid_action_def Let_def split: if_splits option.splits)

text \<open>Validation accepts exactly the specifications that describe a valid action.\<close>

definition spec_action :: "action_spec \<Rightarrow> action" where
  "spec_action r = \<lparr>act_id = None, act_desired_state = spec_desired_state r,
     act_timeout_seconds = spec_timeout_seconds r, act_schedule = spec_schedule r, act_params = spec_params r\<rparr>"

lemma validateSpec_exact:
  "validateSpec r = Inr a \<longleftrightarrow> a = spec_action r \<and> valid_action (spec_action r)"
  by (cases "spec_params r" rule: GetPackage.cases)
    (auto simp: validateSpec_def validateAction_def valid_action_def spec_action_def Let_def split: if_splits option.splits)

section \<open>Stored actions\<close>

record managed_action =
  ma_id :: "string option"
  ma_name :: string
  ma_description :: string
  ma_desired_state :: desired_state
  ma_timeout_seconds :: int
  ma_schedule :: "int option"
  ma_params :: action_params
  ma_created_at :: int
  ma_updated_at :: int

text \<open>Reads the \<open>ID\<close> and \<open>ActionBlob\<close> of the row.\<close>

definition executableAction :: "codec \<Rightarrow> string \<Rightarrow> bytes \<Rightarrow> go_error + action" where
  "executableAction C i blob = (case unmarshal_action C blob of
     None \<Rightarrow> Inl (EText ''proto: cannot parse'')
   | Some a \<Rightarrow> if id_value (act_id a) \<noteq> i then Inl (EText ''stored action metadata does not match action blob'') else Inr a)"

definition actionProto :: "codec \<Rightarrow> db_action \<Rightarrow> go_error + managed_action" where
  "actionProto C r = (case executableAction C (ac_id r) (ac_blob r) of Inl e \<Rightarrow> Inl e
     | Inr a \<Rightarrow> (case act_params a of
         None \<Rightarrow> Inl (EText ''stored action parameters are missing'')
       | Some p \<Rightarrow> Inr \<lparr>ma_id = act_id a, ma_name = ac_name r, ma_description = ac_description r,
           ma_desired_state = act_desired_state a, ma_timeout_seconds = act_timeout_seconds a,
           ma_schedule = act_schedule a, ma_params = p, ma_created_at = ac_created_at r, ma_updated_at = ac_updated_at r\<rparr>))"

fun sameActionKind :: "action_params option \<Rightarrow> action_params option \<Rightarrow> bool" where
  "sameActionKind (Some (ActionPackage _)) r = (case r of Some (ActionPackage _) \<Rightarrow> True | _ \<Rightarrow> False)"
| "sameActionKind (Some ActionUpdate) r = (case r of Some ActionUpdate \<Rightarrow> True | _ \<Rightarrow> False)"
| "sameActionKind (Some (ActionShell _)) r = (case r of Some (ActionShell _) \<Rightarrow> True | _ \<Rightarrow> False)"
| "sameActionKind None r = False"

definition marshal :: "codec \<Rightarrow> action \<Rightarrow> go_error + bytes" where
  "marshal C a = (case marshal_action C a of None \<Rightarrow> Inl (EText ''proto: cannot marshal'') | Some b \<Rightarrow> Inr b)"

section \<open>Handlers\<close>

record create_action_request =
  ca_name :: string
  ca_description :: string
  ca_spec :: action_spec

definition invalid_argument :: "go_error \<Rightarrow> go_error" where
  "invalid_argument e = ERpc CodeInvalidArgument (case e of EText t \<Rightarrow> t | _ \<Rightarrow> '''')"

lemma is_rpc_invalid [simp]: "is_rpc (invalid_argument e)"
  by (simp add: invalid_argument_def)

definition createActionParams :: "codec \<Rightarrow> create_action_request \<Rightarrow> action \<Rightarrow> (string \<times> string \<times> string \<times> bytes) srv" where
  "createActionParams C req a = bnd ulid_make (\<lambda>i.
     bnd (lift_sum (marshal C (a\<lparr>act_id := Some i\<rparr>))) (\<lambda>blob.
     ret (i, ca_name req, ca_description req, blob)))"

definition CreateAction :: "service \<Rightarrow> go_ctx \<Rightarrow> create_action_request \<Rightarrow> managed_action srv" where
  "CreateAction svc ctx req =
     bnd (map_err invalid_argument (lift_sum (validateSpec (ca_spec req)))) (\<lambda>a.
     bnd (map_err (\<lambda>_. internal) (createActionParams (svc_codec svc) req a)) (\<lambda>(i, name, descr, blob).
     map_err (conflict_or (rpcConflict ''action''))
       (Transaction (bnd (q_CreateAction i name descr blob) (\<lambda>r.
          bnd (audit ctx AUDIT_EVENT_TYPE_ACTION_CREATED AUDIT_STREAM_TYPE_ACTION (ac_id r) AUDIT_ACTOR_TYPE_USER '''') (\<lambda>_.
          lift_sum (actionProto (svc_codec svc) r)))))))"

definition GetAction :: "service \<Rightarrow> string \<Rightarrow> managed_action srv" where
  "GetAction svc i = bnd (map_err (not_found_or (rpcNotFound ''action'')) (q_GetAction i)) (\<lambda>r.
     map_err (\<lambda>_. internal) (lift_sum (actionProto (svc_codec svc) r)))"

text \<open>A listing returns the rows, the total count and the next page token; \<^verbatim>\<open>int32(total)\<close> wraps.\<close>

definition ListActions :: "service \<Rightarrow> int \<Rightarrow> string \<Rightarrow> (managed_action list \<times> int \<times> string) srv" where
  "ListActions svc requested token = (let limit = pageSize requested in
     bnd (map_err (\<lambda>_. internal) (q_ListActions token (limit + 1))) (\<lambda>rows.
     bnd (map_err (\<lambda>_. internal) q_CountActions) (\<lambda>total.
     case paginate rows limit ac_id of (rs, next) \<Rightarrow>
       bnd (map_err (\<lambda>_. internal) (lift_sum (map_sum (actionProto (svc_codec svc)) rs))) (\<lambda>ms.
       ret (ms, wrap32 (int total), next)))))"

definition actionMutation :: "service \<Rightarrow> go_ctx \<Rightarrow> string \<Rightarrow> db_action srv \<Rightarrow> managed_action srv" where
  "actionMutation svc ctx i mutate =
     map_err (connect_error (rpc_error (rpcNotFound ''action'') (rpcConflict ''action'')))
       (Transaction (bnd mutate (\<lambda>r.
          bnd (audit ctx AUDIT_EVENT_TYPE_ACTION_UPDATED AUDIT_STREAM_TYPE_ACTION i AUDIT_ACTOR_TYPE_USER '''') (\<lambda>_.
          lift_sum (actionProto (svc_codec svc) r)))))"

definition RenameAction :: "service \<Rightarrow> go_ctx \<Rightarrow> string \<Rightarrow> string \<Rightarrow> managed_action srv" where
  "RenameAction svc ctx i name = actionMutation svc ctx i (q_RenameAction name i)"

definition SetActionDescription :: "service \<Rightarrow> go_ctx \<Rightarrow> string \<Rightarrow> string \<Rightarrow> managed_action srv" where
  "SetActionDescription svc ctx i descr = actionMutation svc ctx i (q_SetActionDescription descr i)"

definition configure_mutation :: "codec \<Rightarrow> string \<Rightarrow> action \<Rightarrow> db_action srv" where
  "configure_mutation C i a = bnd (q_GetAction i) (\<lambda>current.
     bnd (lift_sum (executableAction C (ac_id current) (ac_blob current))) (\<lambda>stored.
     bnd (require (sameActionKind (act_params stored) (act_params a)) (ERpc CodeInvalidArgument ''action kind cannot change'')) (\<lambda>_.
     bnd (lift_sum (marshal C (a\<lparr>act_id := Some (ac_id current)\<rparr>))) (\<lambda>blob.
     q_ConfigureAction blob (ac_id current)))))"

definition ConfigureAction :: "service \<Rightarrow> go_ctx \<Rightarrow> string \<Rightarrow> action_spec \<Rightarrow> managed_action srv" where
  "ConfigureAction svc ctx i sp = bnd (map_err invalid_argument (lift_sum (validateSpec sp))) (\<lambda>a.
     actionMutation svc ctx i (configure_mutation (svc_codec svc) i a))"

definition DeleteAction :: "go_ctx \<Rightarrow> string \<Rightarrow> unit srv" where
  "DeleteAction ctx i = map_err (not_found_or (rpcNotFound ''action''))
     (Transaction (bnd (q_DeleteAction i) (\<lambda>rows.
        bnd (require (rows = 1) ENoRows) (\<lambda>_.
        audit ctx AUDIT_EVENT_TYPE_ACTION_DELETED AUDIT_STREAM_TYPE_ACTION i AUDIT_ACTOR_TYPE_USER ''''))))"

section \<open>Every stored action is executable\<close>

definition stored_action :: "codec \<Rightarrow> db_action \<Rightarrow> bool" where
  "stored_action C r \<longleftrightarrow> (\<exists>a. executableAction C (ac_id r) (ac_blob r) = Inr a \<and> valid_action a)"

definition db_actions :: "codec \<Rightarrow> srv_db \<Rightarrow> bool" where
  "db_actions C s \<longleftrightarrow> (\<forall>r\<in>set (actions s). stored_action C r)"

lemma stored_action_update [simp]:
  "stored_action C (r\<lparr>ac_name := x, ac_updated_at := t\<rparr>) = stored_action C r"
  "stored_action C (r\<lparr>ac_description := x, ac_updated_at := t\<rparr>) = stored_action C r"
  by (simp_all add: stored_action_def)

lemma keeps_actions:
  "keeps (db_actions C) (q_CreateIdentityProvider a1 a2 a3 b1 a4 a5 l1)"
  "keeps (db_actions C) (q_ConfigureIdentityProvider a1 a2 l1 a3)"
  "keeps (db_actions C) (q_RenameIdentityProvider a1 a2)" "keeps (db_actions C) (q_EnableIdentityProvider a1)"
  "keeps (db_actions C) (q_DisableIdentityProvider a1)" "keeps (db_actions C) (q_DeleteIdentityProvider a1)"
  "keeps (db_actions C) (q_CreateUser a1 a2 a3 k1)" "keeps (db_actions C) (q_LinkIdentity a1 a2 a3)"
  "keeps (db_actions C) (q_UpdateIdentityUserLogin a1 a2 k1 a3 a4)" "keeps (db_actions C) (q_RotateUserSession a1 k1)"
  "keeps (db_actions C) (q_CreateRole a1 a2 a3)" "keeps (db_actions C) (q_RenameRole a1 a2)"
  "keeps (db_actions C) (q_SetRoleDescription a1 a2)" "keeps (db_actions C) (q_DeleteRole a1)"
  "keeps (db_actions C) (q_GrantRolePermission k1 a1)" "keeps (db_actions C) (q_RevokeRolePermission a1 k1)"
  "keeps (db_actions C) (q_TouchRole a1)" "keeps (db_actions C) (q_AssignInitialRole a1 a2 a3)"
  "keeps (db_actions C) (q_AssignRoleToUser a1 a2)" "keeps (db_actions C) (q_RevokeRoleFromUser a1 a2)"
  "keeps (db_actions C) (q_BumpSessionsForRole a1)" "keeps (db_actions C) (q_RotateUserSessionByID a1)"
  "keeps (db_actions C) (q_CreateRegistrationToken a1 a2 a3 k1 k2)"
  "keeps (db_actions C) (q_ConsumeRegistrationToken a1 k1)"
  "keeps (db_actions C) (q_ConsumeFinalRegistrationToken a1 k1)"
  "keeps (db_actions C) (q_RenameRegistrationToken a1 a2)" "keeps (db_actions C) (q_DeleteRegistrationToken a1)"
  "keeps (db_actions C) (q_CreateDevice a1 a2 a3 a4 a5 a6 k1 k2)"
  "keeps (db_actions C) (q_SetPendingDeviceCertificate a1 a2 k1 a3 a4)"
  "keeps (db_actions C) (q_PromotePendingDeviceCertificate a1 a2)" "keeps (db_actions C) (q_TouchDevice a1 a2 k1 a3)"
  "keeps (db_actions C) (q_DeleteDevice a1)" "keeps (db_actions C) (q_DeleteAssignmentsForTarget ty1 a1)"
  "keeps (db_actions C) (q_RenameAction a1 a2)" "keeps (db_actions C) (q_SetActionDescription a1 a2)"
  "keeps (db_actions C) (q_DeleteAction a1)" "keeps (db_actions C) (q_CreateDeviceGroup a1 a2 a3)"
  "keeps (db_actions C) (q_RenameDeviceGroup a1 a2)" "keeps (db_actions C) (q_SetDeviceGroupDescription a1 a2)"
  "keeps (db_actions C) (q_TouchDeviceGroup a1)" "keeps (db_actions C) (q_DeleteDeviceGroup a1)"
  "keeps (db_actions C) (q_AddDeviceToGroup a1 a2)" "keeps (db_actions C) (q_RemoveDeviceFromGroup a1 a2)"
  "keeps (db_actions C) (q_CreateAssignment a1 a2 ty1 a3)" "keeps (db_actions C) (q_DeleteAssignment a1)"
  "keeps (db_actions C) (q_CreateExecutionResult a1 a2 a3 k1 a4)" "keeps (db_actions C) (q_CreateAuditEvent ev1)"
  unfolding write_defs
  by ((rule keeps_sql_nowI | rule keeps_sqlI);
      auto simp: db_actions_def update_one_Inr insert_row_Inr Let_def set_upd_rows split: option.splits if_splits)+

lemma stored_action_proto: "stored_action C r \<Longrightarrow> \<exists>m. actionProto C r = Inr m"
  by (auto simp: stored_action_def actionProto_def valid_action_def split: option.splits)

lemma stored_action_id: "stored_action C r \<Longrightarrow> executableAction C (ac_id r) (ac_blob r) = Inr a \<Longrightarrow> id_value (act_id a) = ac_id r"
  by (auto simp: executableAction_def split: option.splits if_splits)

lemma executable_marshalled:
  "codec_laws C \<Longrightarrow> marshal C (a\<lparr>act_id := Some i\<rparr>) = Inr b \<Longrightarrow> executableAction C i b = Inr (a\<lparr>act_id := Some i\<rparr>)"
  by (auto simp: marshal_def executableAction_def codec_action split: option.splits)

end
