(* ===== verification/GoTime.thy ===== *)
theory GoTime
  imports GoStrings
begin

text \<open>
  Two encodings of Go's standard library that the page token of the execution results is made of: unpadded URL-safe base64
  (\<^verbatim>\<open>base64.RawURLEncoding\<close>) and the time layout \<^verbatim>\<open>time.RFC3339Nano\<close>, printed in UTC and parsed with everything the parser
  accepts (a fraction of any length after a point or a comma, an offset in place of \<^verbatim>\<open>Z\<close>, an hour of one digit). A time is a number of
  nanoseconds since 1970. The lemmas are the two round trips.
\<close>

section \<open>Base64\<close>

text \<open>The alphabet is \<^verbatim>\<open>A-Z\<close>, \<^verbatim>\<open>a-z\<close>, \<^verbatim>\<open>0-9\<close>, \<^verbatim>\<open>-\<close>, \<^verbatim>\<open>_\<close>.\<close>

definition b64_char :: "nat \<Rightarrow> char" where
  "b64_char n = (if n < 26 then char_of (65 + n) else if n < 52 then char_of (71 + n) else if n < 62 then char_of (n - 4)
     else if n = 62 then CHR ''-'' else CHR ''_'')"

definition b64_value :: "char \<Rightarrow> nat option" where
  "b64_value c = (let n = of_char c in
     if 65 \<le> n \<and> n \<le> 90 then Some (n - 65) else if 97 \<le> n \<and> n \<le> 122 then Some (n - 71) else if 48 \<le> n \<and> n \<le> 57 then Some (n + 4)
     else if n = 45 then Some 62 else if n = 95 then Some 63 else None)"

definition byte :: "char \<Rightarrow> nat" where "byte c = of_char c"

fun EncodeToString :: "string \<Rightarrow> string" where
  "EncodeToString [] = []"
| "EncodeToString [a] = map b64_char [byte a div 4, byte a mod 4 * 16]"
| "EncodeToString [a, b] = map b64_char [byte a div 4, byte a mod 4 * 16 + byte b div 16, byte b mod 16 * 4]"
| "EncodeToString (a # b # c # r) =
     map b64_char [byte a div 4, byte a mod 4 * 16 + byte b div 16, byte b mod 16 * 4 + byte c div 64, byte c mod 64] @ EncodeToString r"

fun b64_groups :: "nat list \<Rightarrow> string option" where
  "b64_groups [] = Some []"
| "b64_groups [x] = None"
| "b64_groups [x, y] = Some [char_of (x * 4 + y div 16)]"
| "b64_groups [x, y, z] = Some [char_of (x * 4 + y div 16), char_of (y mod 16 * 16 + z div 4)]"
| "b64_groups (x # y # z # w # r) =
     map_option (\<lambda>s. char_of (x * 4 + y div 16) # char_of (y mod 16 * 16 + z div 4) # char_of (z mod 4 * 64 + w) # s) (b64_groups r)"

text \<open>The decoder skips line breaks and, not being strict, ignores the unused bits of the last digit.\<close>

definition DecodeString :: "string \<Rightarrow> string option" where
  "DecodeString s = Option.bind (those (map b64_value (filter (\<lambda>c. c \<noteq> CHR 0x0A \<and> c \<noteq> CHR 0x0D) s))) b64_groups"

lemma b64_digit: "n < 64 \<Longrightarrow> b64_value (b64_char n) = Some n"
  by (auto simp: b64_value_def b64_char_def Let_def)

lemma b64_value_break: "b64_value CHR 0x0A = None" "b64_value CHR 0x0D = None"
  by (simp_all add: b64_value_def)

lemma byte_less [simp]: "byte c < 256" "byte a div 4 < 64" "byte c mod 64 < 64" "byte a mod 4 * 16 < 64" "byte b mod 16 * 4 < 64"
proof -
  have l: "byte c < 256" for c by (simp add: byte_def)
  then show "byte c < 256" "byte a div 4 < 64" "byte c mod 64 < 64" "byte a mod 4 * 16 < 64" "byte b mod 16 * 4 < 64"
    by (simp_all add: less_mult_imp_div_less)
qed

lemma byte_div [simp]: "byte b div 16 < 16" "byte c div 64 < 4"
  by (simp_all add: less_mult_imp_div_less)

lemma joined_less [simp]: "byte a mod 4 * 16 + byte b div 16 < 64" "byte b mod 16 * 4 + byte c div 64 < 64"
proof -
  have "byte a mod 4 < 4" "byte b mod 16 < 16" by simp_all
  then show "byte a mod 4 * 16 + byte b div 16 < 64" "byte b mod 16 * 4 + byte c div 64 < 64"
    using byte_div(1) [of b] byte_div(2) [of c] by linarith+
qed

text \<open>The values of the characters that encode a byte string.\<close>

fun sextets :: "string \<Rightarrow> nat list" where
  "sextets [] = []"
| "sextets [a] = [byte a div 4, byte a mod 4 * 16]"
| "sextets [a, b] = [byte a div 4, byte a mod 4 * 16 + byte b div 16, byte b mod 16 * 4]"
| "sextets (a # b # c # r) =
     [byte a div 4, byte a mod 4 * 16 + byte b div 16, byte b mod 16 * 4 + byte c div 64, byte c mod 64] @ sextets r"

lemma encode_sextets: "EncodeToString s = map b64_char (sextets s)"
  by (induction s rule: sextets.induct) simp_all

lemma sextets_less: "list_all (\<lambda>n. n < 64) (sextets s)"
  by (induction s rule: sextets.induct) simp_all

lemma those_map_Some: "(\<And>x. x \<in> set xs \<Longrightarrow> f x = Some (g x)) \<Longrightarrow> those (map f xs) = Some (map g xs)"
  by (induction xs) auto

lemma char_of_byte: "char_of (byte c) = c"
  by (simp add: byte_def)

lemma byte_parts:
  "byte a div 4 * 4 + (byte a mod 4 * 16 + x div 16) div 16 = byte a" if "x < 256"
proof -
  have "x div 16 < 16" using that by (simp add: less_mult_imp_div_less)
  then show ?thesis by simp
qed

lemma byte_parts2:
  "(u * 16 + byte b div 16) mod 16 * 16 + (byte b mod 16 * 4 + x div 64) div 4 = byte b" if "x < 256"
proof -
  have "byte b div 16 < 16" "x div 64 < 4" using that by (simp_all add: less_mult_imp_div_less)
  then show ?thesis by simp
qed

lemma byte_parts3: "(u * 4 + byte c div 64) mod 4 * 64 + byte c mod 64 = byte c"
proof -
  have "byte c div 64 < 4" by (simp add: less_mult_imp_div_less)
  then show ?thesis by simp
qed

lemma groups_sextets: "b64_groups (sextets s) = Some s"
proof (induction s rule: sextets.induct)
  case (2 a)
  show ?case using byte_parts [of 0 a] by (simp add: char_of_byte)
next
  case (3 a b)
  show ?case using byte_parts [of "byte b" a] byte_parts2 [of 0 "byte a mod 4" b] by (simp add: char_of_byte)
next
  case (4 a b c r)
  then show ?case
    using byte_parts [of "byte b" a] byte_parts2 [of "byte c" "byte a mod 4" b] byte_parts3 [of "byte b mod 16" c]
    by (simp add: char_of_byte)
qed simp

theorem decode_encode: "DecodeString (EncodeToString s) = Some s"
proof -
  have digit: "b64_value (b64_char n) = Some n" if "n \<in> set (sextets s)" for n
    using sextets_less [of s] that b64_digit [of n] by (simp add: list_all_iff)
  then have "b64_char n \<noteq> CHR 0x0A \<and> b64_char n \<noteq> CHR 0x0D" if "n \<in> set (sextets s)" for n
    using that b64_value_break by (metis option.distinct(1))
  then have "filter (\<lambda>c. c \<noteq> CHR 0x0A \<and> c \<noteq> CHR 0x0D) (EncodeToString s) = EncodeToString s"
    by (auto simp: encode_sextets filter_id_conv)
  moreover have "those (map b64_value (EncodeToString s)) = Some (sextets s)"
    using those_map_Some [of "sextets s" "\<lambda>n. b64_value (b64_char n)" id] digit by (simp add: encode_sextets comp_def)
  ultimately show ?thesis by (simp add: DecodeString_def groups_sextets)
qed

section \<open>The calendar\<close>

text \<open>Days are counted from the first of January of the year 0.\<close>

definition leap :: "int \<Rightarrow> bool" where
  "leap y \<longleftrightarrow> 4 dvd y \<and> (\<not> 100 dvd y \<or> 400 dvd y)"

definition days_before_year :: "int \<Rightarrow> int" where
  "days_before_year y = 365 * y + (y + 3) div 4 - (y + 99) div 100 + (y + 399) div 400"

definition month_lengths :: "int \<Rightarrow> int list" where
  "month_lengths y = [31, if leap y then 29 else 28, 31, 30, 31, 30, 31, 31, 30, 31, 30, 31]"

definition epoch_day :: int where "epoch_day = 719528"

text \<open>The day number of a date, months counted from 0.\<close>

definition date_day :: "int \<Rightarrow> nat \<Rightarrow> int \<Rightarrow> int" where
  "date_day y m d = days_before_year y + sum_list (take m (month_lengths y)) + (d - 1)"

definition year_of_day :: "int \<Rightarrow> int" where
  "year_of_day n = (let y = 400 * n div 146097 in
     if days_before_year (y + 1) \<le> n then y + 1 else if n < days_before_year y then y - 1 else y)"

fun month_of_day :: "int list \<Rightarrow> int \<Rightarrow> nat \<times> int" where
  "month_of_day [] k = (0, k + 1)"
| "month_of_day (l # ls) k = (if k < l then (0, k + 1) else case month_of_day ls (k - l) of (m, d) \<Rightarrow> (Suc m, d))"

text \<open>How often \<open>k\<close> divides a year: the quotient rounded up steps after a multiple of \<open>k\<close>.\<close>

lemma ceiling_div:
  fixes y k j :: int
  assumes "0 < k" and j: "j = k - 1"
  shows "(y + k) div k = (y + j) div k + (if k dvd y then 1 else 0)"
proof -
  define r where "r = y mod k"
  have r: "0 \<le> r" "r < k" using assms by (simp_all add: r_def)
  have y: "y = r + y div k * k" by (simp add: r_def)
  have "(y + (k - 1)) div k = (r + (k - 1) + y div k * k) div k" by (subst y) (simp add: ac_simps)
  also have "\<dots> = y div k + (r + (k - 1)) div k" using assms by (subst div_mult_self1) auto
  also have "(r + (k - 1)) div k = (if r = 0 then 0 else 1)"
  proof (cases "r = 0")
    case False
    have "(r + (k - 1)) div k = ((r - 1) + 1 * k) div k" by (simp add: algebra_simps)
    also have "\<dots> = 1 + (r - 1) div k" using assms by (subst div_mult_self1) auto
    also have "(r - 1) div k = 0" using r False by (intro div_pos_pos_trivial) auto
    finally show ?thesis using False by simp
  qed (use assms in \<open>simp add: div_pos_pos_trivial\<close>)
  finally have "(y + (k - 1)) div k = y div k + (if k dvd y then 0 else 1)" by (simp add: r_def dvd_eq_mod_eq_0)
  moreover have "(y + k) div k = y div k + 1" using assms(1) by (subst div_add_self2) auto
  ultimately show ?thesis by (simp add: j)
qed

lemma days_before_Suc: "days_before_year (y + 1) = days_before_year y + sum_list (month_lengths y)"
proof -
  define a b c where "a = (y + 3) div 4" and "b = (y + 99) div 100" and "c = (y + 399) div 400"
  have q: "(y + 4) div 4 = a + (if 4 dvd y then 1 else 0)" "(y + 100) div 100 = b + (if 100 dvd y then 1 else 0)"
    "(y + 400) div 400 = c + (if 400 dvd y then 1 else 0)"
    unfolding a_def b_def c_def by (rule ceiling_div; simp)+
  have d: "400 dvd y \<Longrightarrow> 100 dvd y" "100 dvd y \<Longrightarrow> 4 dvd y" by (auto elim: dvd_trans [rotated])
  have "days_before_year (y + 1) = 365 * y + 365 + (y + 4) div 4 - (y + 100) div 100 + (y + 400) div 400"
    unfolding days_before_year_def by (simp only: distrib_left add.assoc one_add_one numeral_plus_one add_numeral_special numeral_One) simp
  then have "days_before_year (y + 1) = 365 * y + 365 + (a + (if 4 dvd y then 1 else 0)) - (b + (if 100 dvd y then 1 else 0)) +
      (c + (if 400 dvd y then 1 else 0))" by (simp only: q)
  also have "\<dots> = 365 * y + a - b + c + (if leap y then 366 else 365)"
    using d by (cases "4 dvd y"; cases "100 dvd y"; cases "400 dvd y") (simp_all add: leap_def)
  also have "\<dots> = days_before_year y + sum_list (month_lengths y)"
    by (simp add: days_before_year_def a_def b_def c_def month_lengths_def)
  finally show ?thesis .
qed

lemma year_of_day: "days_before_year (year_of_day n) \<le> n" "n < days_before_year (year_of_day n + 1)"
proof -
  define y where "y = 400 * n div 146097"
  have y: "146097 * y \<le> 400 * n" "400 * n < 146097 * y + 146097" unfolding y_def by linarith+
  have lo: "400 * days_before_year x \<le> 146097 * x + 699" and hi: "146097 * x - 396 \<le> 400 * days_before_year x" for x
  proof -
    have "4 * ((x + 3) div 4) \<le> x + 3" "x \<le> 4 * ((x + 3) div 4)" by linarith+
    moreover have "100 * ((x + 99) div 100) \<le> x + 99" "x \<le> 100 * ((x + 99) div 100)" by linarith+
    moreover have "400 * ((x + 399) div 400) \<le> x + 399" "x \<le> 400 * ((x + 399) div 400)" by linarith+
    ultimately show "400 * days_before_year x \<le> 146097 * x + 699" "146097 * x - 396 \<le> 400 * days_before_year x"
      unfolding days_before_year_def by (simp_all add: algebra_simps)
  qed
  have "days_before_year (y - 1) \<le> n" using y(1) lo [of "y - 1"] by (simp add: algebra_simps)
  moreover have "n < days_before_year (y + 2)" using y(2) hi [of "y + 2"] by (simp add: algebra_simps)
  ultimately show "days_before_year (year_of_day n) \<le> n" "n < days_before_year (year_of_day n + 1)"
    by (auto simp: year_of_day_def Let_def add.assoc simp flip: y_def)
qed

lemma month_of_day:
  "month_of_day ls k = (m, d) \<Longrightarrow> 0 \<le> k \<Longrightarrow> k < sum_list ls \<Longrightarrow>
    m < length ls \<and> 1 \<le> d \<and> d \<le> ls ! m \<and> sum_list (take m ls) + (d - 1) = k"
proof (induction ls arbitrary: k m d)
  case (Cons l ls)
  show ?case
  proof (cases "k < l")
    case False
    obtain m' d' where r: "month_of_day ls (k - l) = (m', d')" by (cases "month_of_day ls (k - l)")
    then show ?thesis using Cons.IH [OF r] Cons.prems False by auto
  qed (use Cons.prems in auto)
qed simp

section \<open>Printing\<close>

definition digit :: "int \<Rightarrow> char" where "digit i = char_of (48 + nat i)"

primrec fixed :: "nat \<Rightarrow> int \<Rightarrow> string" where
  "fixed 0 i = []"
| "fixed (Suc w) i = fixed w (i div 10) @ [digit (i mod 10)]"

text \<open>\<^verbatim>\<open>appendInt\<close>: a number with at least \<open>w\<close> digits.\<close>

definition append_int :: "nat \<Rightarrow> int \<Rightarrow> string" where
  "append_int w i = (if i < 0 then ''-'' else []) @ (if \<bar>i\<bar> < 10 ^ w then fixed w \<bar>i\<bar> else nat_digits (nat \<bar>i\<bar>))"

text \<open>\<^verbatim>\<open>appendNano\<close> for \<^verbatim>\<open>.999999999\<close>: trailing zeros are dropped, and the point with them.\<close>

definition append_nano :: "int \<Rightarrow> string" where
  "append_nano k = (if k = 0 then [] else CHR ''.'' # TrimRight (\<lambda>c. c = CHR ''0'') (fixed 9 k))"

definition day_nanos :: int where "day_nanos = 86400000000000"

definition Format_RFC3339Nano :: "int \<Rightarrow> string" where
  "Format_RFC3339Nano t = (
     let n = t div day_nanos + epoch_day; y = year_of_day n; (m, d) = month_of_day (month_lengths y) (n - days_before_year y);
       s = t mod day_nanos div 1000000000 in
     append_int 4 y @ ''-'' @ fixed 2 (int m + 1) @ ''-'' @ fixed 2 d @ ''T'' @ fixed 2 (s div 3600) @ '':'' @
     fixed 2 (s div 60 mod 60) @ '':'' @ fixed 2 (s mod 60) @ append_nano (t mod 1000000000) @ ''Z'')"

section \<open>Parsing\<close>

definition dec :: "string \<Rightarrow> int" where
  "dec s = foldl (\<lambda>n c. n * 10 + digit_value c) 0 s"

text \<open>\<^verbatim>\<open>getnum\<close>: two digits or, unless \<open>fix\<close>, one.\<close>

fun getnum :: "bool \<Rightarrow> string \<Rightarrow> (int \<times> string) option" where
  "getnum fix [] = None"
| "getnum fix [c] = (if is_digit c \<and> \<not> fix then Some (dec [c], []) else None)"
| "getnum fix (c # d # r) = (if \<not> is_digit c then None else if is_digit d then Some (dec [c, d], r)
     else if fix then None else Some (dec [c], d # r))"

definition getyear :: "string \<Rightarrow> (int \<times> string) option" where
  "getyear s = (if 4 \<le> length s \<and> list_all is_digit (take 4 s) then Some (dec (take 4 s), drop 4 s) else None)"

definition in_range :: "(int \<Rightarrow> bool) \<Rightarrow> (int \<times> string) option \<Rightarrow> (int \<times> string) option" where
  "in_range ok r = Option.bind r (\<lambda>(n, s). if ok n then Some (n, s) else None)"

text \<open>A literal of the layout, then a number.\<close>

definition after :: "string \<Rightarrow> (string \<Rightarrow> (int \<times> string) option) \<Rightarrow> string \<Rightarrow> (int \<times> string) option" where
  "after p f s = Option.bind (CutPrefix s p) f"

text \<open>\<^verbatim>\<open>parseNanoseconds\<close> on the digits after the point: nine of them count.\<close>

definition nanos :: "string \<Rightarrow> int" where
  "nanos ds = (let v = take 9 ds in dec v * 10 ^ (9 - length v))"

fun getfraction :: "string \<Rightarrow> int \<times> string" where
  "getfraction (c # d # r) = (if (c = CHR ''.'' \<or> c = CHR '','') \<and> is_digit d
     then (nanos (takeWhile is_digit (d # r)), dropWhile is_digit (d # r)) else (0, c # d # r))"
| "getfraction s = (0, s)"

text \<open>The offset in seconds: \<^verbatim>\<open>Z\<close> or \<^verbatim>\<open>+hh:mm\<close>, with 24 and 60 allowed.\<close>

definition getzone :: "string \<Rightarrow> (int \<times> string) option" where
  "getzone s = (if HasPrefix s ''Z'' then Some (0, drop 1 s)
     else if length s < 6 \<or> s ! 3 \<noteq> CHR '':'' then None
     else Option.bind (in_range (\<lambda>h. h \<le> 24) (getnum True (take 2 (drop 1 s)))) (\<lambda>(h, _).
       Option.bind (in_range (\<lambda>m. m \<le> 60) (getnum True (take 2 (drop 4 s)))) (\<lambda>(m, _).
       let off = (h * 60 + m) * 60 in
       if hd s = CHR ''+'' then Some (off, drop 6 s) else if hd s = CHR ''-'' then Some (- off, drop 6 s) else None)))"

definition Parse_RFC3339Nano :: "string \<Rightarrow> int option" where
  "Parse_RFC3339Nano s =
     Option.bind (getyear s) (\<lambda>(y, s).
     Option.bind (in_range (\<lambda>m. 1 \<le> m \<and> m \<le> 12) (after ''-'' (getnum True) s)) (\<lambda>(m, s).
     Option.bind (after ''-'' (getnum True) s) (\<lambda>(d, s).
     Option.bind (in_range (\<lambda>h. h < 24) (after ''T'' (getnum False) s)) (\<lambda>(h, s).
     Option.bind (in_range (\<lambda>m. m < 60) (after '':'' (getnum True) s)) (\<lambda>(mi, s).
     Option.bind (in_range (\<lambda>m. m < 60) (after '':'' (getnum True) s)) (\<lambda>(se, s).
     case getfraction s of (ns, s) \<Rightarrow>
     Option.bind (getzone s) (\<lambda>(off, s).
     if s \<noteq> [] \<or> d < 1 \<or> month_lengths y ! nat (m - 1) < d then None
     else Some ((date_day y (nat (m - 1)) d - epoch_day) * day_nanos + (h * 3600 + mi * 60 + se - off) * 1000000000 + ns))))))))"

section \<open>What is printed is parsed back\<close>

lemma digit_props [simp]: "0 \<le> i \<Longrightarrow> i < 10 \<Longrightarrow> is_digit (digit i) \<and> digit_value (digit i) = i"
proof -
  assume i: "0 \<le> i" "i < 10"
  have "list_all (\<lambda>k. is_digit (char_of (48 + k)) \<and> digit_value (char_of (48 + k)) = int k) [0..<10]" by code_simp
  moreover have "nat i \<in> set [0..<10]" using i by auto
  ultimately have "is_digit (char_of (48 + nat i)) \<and> digit_value (char_of (48 + nat i)) = int (nat i)" by (simp only: list_all_iff)
  then show ?thesis using i by (simp add: digit_def)
qed

lemma length_fixed [simp]: "length (fixed w i) = w"
  by (induction w arbitrary: i) simp_all

lemma fixed_digits: "list_all is_digit (fixed w i)"
  by (induction w arbitrary: i) simp_all

lemma digits_nat_digits: "list_all is_digit (nat_digits n)"
proof (induction n rule: nat_digits.induct)
  case (1 n)
  have "is_digit (char_of (48 + k))" if "k < 10" for k :: nat
    using digit_props [of "int k"] that by (simp add: digit_def)
  then show ?case using 1 by (subst nat_digits.simps) auto
qed

lemma dec_append: "dec (s @ [c]) = dec s * 10 + digit_value c"
  by (simp add: dec_def)

lemma dec_fixed: "0 \<le> i \<Longrightarrow> i < 10 ^ w \<Longrightarrow> dec (fixed w i) = i"
proof (induction w arbitrary: i)
  case (Suc w)
  have "i div 10 < 10 ^ w" using Suc.prems by (simp add: div_less_iff_less_mult pos_imp_zdiv_neg_iff)
  then have "dec (fixed w (i div 10)) = i div 10" using Suc by (simp add: pos_imp_zdiv_nonneg_iff)
  then show ?case by (simp add: dec_append)
qed (simp add: dec_def)

lemma getnum_fixed [simp]:
  assumes "0 \<le> i" and "i < 100"
  shows "getnum b (fixed 2 i @ r) = Some (i, r)"
proof -
  have "fixed 2 i = [digit (i div 10 mod 10), digit (i mod 10)]" by (simp add: numeral_2_eq_2)
  moreover have "dec (fixed 2 i) = i" using assms by (intro dec_fixed) simp_all
  ultimately show ?thesis by simp
qed

lemma getyear_fixed [simp]: "0 \<le> i \<Longrightarrow> i < 10000 \<Longrightarrow> getyear (fixed 4 i @ r) = Some (i, r)"
  by (simp add: getyear_def fixed_digits dec_fixed)

lemma in_range_Some [simp]: "in_range ok (Some (n, s)) = (if ok n then Some (n, s) else None)"
  by (simp add: in_range_def)

lemma after_append [simp]: "after p f (p @ s) = f s" "after [c] f (c # s) = f s"
  by (simp_all add: after_def CutPrefix_def HasPrefix_def)

lemma dec_zeros: "dec (s @ replicate j CHR ''0'') = dec s * 10 ^ j"
  by (induction j) (simp_all add: replicate_append_same [symmetric] dec_append digit_value_def flip: append_assoc)

lemma trim_zeros: "\<exists>j. s = TrimRight (\<lambda>c. c = z) s @ replicate j z"
proof -
  let ?z = "takeWhile (\<lambda>c. c = z) (rev s)"
  have "?z = replicate (length ?z) z" by (induction s rule: rev_induct) (auto simp: replicate_app_Cons_same)
  moreover have "s = TrimRight (\<lambda>c. c = z) s @ rev ?z"
    by (metis TrimRight_def rev_append rev_rev_ident takeWhile_dropWhile_id)
  ultimately show ?thesis by (metis rev_replicate)
qed

lemma getfraction_nano: "0 \<le> k \<Longrightarrow> k < 1000000000 \<Longrightarrow> getfraction (append_nano k @ ''Z'') = (k, ''Z'')"
proof (cases "k = 0")
  case False
  assume k: "0 \<le> k" "k < 1000000000"
  obtain v j where v: "TrimRight (\<lambda>c. c = CHR ''0'') (fixed 9 k) = v" "fixed 9 k = v @ replicate j CHR ''0''"
    using trim_zeros [of "fixed 9 k"] by blast
  have digits: "list_all is_digit v" using fixed_digits [of 9 k] v(2) by simp
  have len: "length v + j = 9" using arg_cong [OF v(2), of length] by simp
  have dec: "dec v * 10 ^ j = k" using dec_fixed [of k 9] k dec_zeros [of v j] v(2) by simp
  then have "v \<noteq> []" using False by (auto simp: dec_def)
  then obtain c r where c: "v = c # r" by (cases v) auto
  have z: "takeWhile is_digit (v @ ''Z'') = v" "dropWhile is_digit (v @ ''Z'') = ''Z''"
    using digits by (simp_all add: list_all_iff takeWhile_append2 dropWhile_append2 is_digit_def)
  have "j = 9 - length v" "take 9 v = v" using len by simp_all
  then have "nanos v = k" using dec by (simp add: nanos_def)
  then show ?thesis using False v(1) z c digits by (simp add: append_nano_def)
qed (simp add: append_nano_def)

lemma days_before_mono: "x \<le> y \<Longrightarrow> days_before_year x \<le> days_before_year y"
proof (induction y rule: int_ge_induct)
  case (step y)
  have "0 \<le> sum_list (month_lengths y)" by (simp add: month_lengths_def)
  then show ?case using step days_before_Suc [of y] by simp
qed simp

lemma year_bounds:
  assumes "days_before_year a \<le> n" and "n < days_before_year b"
  shows "a \<le> year_of_day n" "year_of_day n < b"
proof -
  show "a \<le> year_of_day n"
  proof (rule ccontr)
    assume "\<not> a \<le> year_of_day n"
    then have "days_before_year (year_of_day n + 1) \<le> days_before_year a" by (intro days_before_mono) simp
    then show False using year_of_day(2) [of n] assms(1) by simp
  qed
  show "year_of_day n < b"
  proof (rule ccontr)
    assume "\<not> year_of_day n < b"
    then have "days_before_year b \<le> days_before_year (year_of_day n)" by (intro days_before_mono) simp
    then show False using year_of_day(1) [of n] assms(2) by simp
  qed
qed

lemma clock_parts:
  assumes "0 \<le> s" and "s < (86400 :: int)"
  shows "s div 3600 * 3600 + s div 60 mod 60 * 60 + s mod 60 = s" "0 \<le> s div 3600" "s div 3600 < 24"
proof -
  have "s div 60 div 60 = s div 3600" using zdiv_zmult2_eq [of 60 s 60] by simp
  then have "s div 60 = s div 3600 * 60 + s div 60 mod 60" by (metis div_mult_mod_eq)
  moreover have "s = s div 60 * 60 + s mod 60" by simp
  ultimately show "s div 3600 * 3600 + s div 60 mod 60 * 60 + s mod 60 = s" by linarith
  show "0 \<le> s div 3600" "s div 3600 < 24" using assms by (simp_all add: pos_imp_zdiv_nonneg_iff div_less_iff_less_mult)
qed

text \<open>A valid timestamp lies in the years 1 to 9999.\<close>

theorem parse_format:
  assumes "-62135596800 * 1000000000 \<le> t" and "t < 253402300800 * 1000000000"
  shows "Parse_RFC3339Nano (Format_RFC3339Nano t) = Some t"
proof -
  define n y s where "n = t div day_nanos + epoch_day" and "y = year_of_day n" and "s = t mod day_nanos div 1000000000"
  obtain m d where md: "month_of_day (month_lengths y) (n - days_before_year y) = (m, d)" by (cases "month_of_day (month_lengths y) (n - days_before_year y)")
  have "days_before_year 1 \<le> n" "n < days_before_year 10000"
    using assms by (simp_all add: n_def days_before_year_def day_nanos_def epoch_day_def)
  then have y: "1 \<le> y" "y < 10000" unfolding y_def by (rule year_bounds)+
  have day: "m < 12" "1 \<le> d" "d \<le> month_lengths y ! m" "date_day y m d = n"
    using month_of_day [OF md] year_of_day [of n] days_before_Suc [of y]
    by (simp_all add: y_def [symmetric] date_day_def month_lengths_def)
  have "month_lengths y ! m \<in> set (month_lengths y)" using day(1) by (intro nth_mem) (simp add: month_lengths_def)
  then have d31: "d < 100" using day(3) by (auto simp: month_lengths_def split: if_splits)
  have "0 \<le> s" "s < 86400" by (simp_all add: s_def day_nanos_def pos_imp_zdiv_nonneg_iff div_less_iff_less_mult)
  note clk = clock_parts [OF this]
  have "t mod day_nanos mod 1000000000 = t mod 1000000000" by (simp add: day_nanos_def mod_mod_cancel)
  then have t: "t = (n - epoch_day) * day_nanos + s * 1000000000 + t mod 1000000000"
    unfolding n_def s_def by (metis add.assoc add_diff_cancel_right' div_mult_mod_eq)
  have "Format_RFC3339Nano t = fixed 4 y @ ''-'' @ fixed 2 (int m + 1) @ ''-'' @ fixed 2 d @ ''T'' @ fixed 2 (s div 3600) @ '':'' @
     fixed 2 (s div 60 mod 60) @ '':'' @ fixed 2 (s mod 60) @ append_nano (t mod 1000000000) @ ''Z''"
    using md y by (simp add: Format_RFC3339Nano_def Let_def append_int_def flip: n_def y_def s_def)
  moreover have "getzone ''Z'' = Some (0, [])" by (simp add: getzone_def HasPrefix_def)
  moreover have "getfraction (append_nano (t mod 1000000000) @ ''Z'') = (t mod 1000000000, ''Z'')" by (rule getfraction_nano) simp_all
  ultimately have "Parse_RFC3339Nano (Format_RFC3339Nano t) = Some ((date_day y m d - epoch_day) * day_nanos +
      (s div 3600 * 3600 + s div 60 mod 60 * 60 + s mod 60 - 0) * 1000000000 + t mod 1000000000)"
    using y day(1-3) d31 clk(2,3) unfolding Parse_RFC3339Nano_def by simp
  then show ?thesis using t by (simp only: clk(1) day(4) diff_0_right)
qed

end
