(* ===== verification/Server_Assignments.thy ===== *)
theory Server_Assignments
  imports Server_Actions GoTime
begin

text \<open>
  \<^verbatim>\<open>server/internal/core/assignments.go\<close>: which actions apply to which device, the results devices reported,
  and the compliance status computed from them.
\<close>

section \<open>Assignments\<close>

record assignment =
  as_id :: string
  as_action_id :: string
  as_action_name :: string
  as_target_type :: assignment_target_type
  as_target_id :: string
  as_target_name :: string
  as_created_at :: int

definition assignmentProto :: "assignment_row \<Rightarrow> assignment" where
  "assignmentProto row = (case row of (a, action_name, tname) \<Rightarrow>
     \<lparr>as_id = asg_id a, as_action_id = asg_action_id a, as_action_name = action_name, as_target_type = asg_target_type a,
      as_target_id = asg_target_id a, as_target_name = tname, as_created_at = asg_created_at a\<rparr>)"

definition assignmentTargetName :: "assignment_target_type \<Rightarrow> string \<Rightarrow> string srv" where
  "assignmentTargetName ty target = (case ty of
     ASSIGNMENT_TARGET_TYPE_DEVICE \<Rightarrow>
       bnd (map_err (not_found_or (rpcNotFound ''device'')) (q_GetDevice target)) (\<lambda>d. ret (dev_hostname d))
   | ASSIGNMENT_TARGET_TYPE_DEVICE_GROUP \<Rightarrow>
       bnd (map_err (not_found_or (rpcNotFound ''device group'')) (q_GetDeviceGroup target)) (\<lambda>(g, _). ret (grp_name g))
   | _ \<Rightarrow> throw (ERpc CodeInvalidArgument ''unsupported assignment target type''))"

definition CreateAssignment :: "go_ctx \<Rightarrow> string \<Rightarrow> assignment_target_type \<Rightarrow> string \<Rightarrow> assignment srv" where
  "CreateAssignment ctx actionID ty target =
     map_err (connect_error (conflict_or (rpcConflict ''assignment'')))
       (Transaction (bnd (map_err (\<lambda>e. if IsNotFound e then rpcNotFound ''action'' else EWrap ''get assignment action'' e) (q_GetAction actionID)) (\<lambda>act.
          bnd (assignmentTargetName ty target) (\<lambda>tname.
          bnd ulid_make (\<lambda>i.
          bnd (q_CreateAssignment i actionID ty target) (\<lambda>a.
          bnd (audit ctx AUDIT_EVENT_TYPE_ASSIGNMENT_CREATED AUDIT_STREAM_TYPE_ASSIGNMENT (asg_id a) AUDIT_ACTOR_TYPE_USER '''') (\<lambda>_.
          ret (assignmentProto (a, ac_name act, tname)))))))))"

definition DeleteAssignment :: "go_ctx \<Rightarrow> string \<Rightarrow> unit srv" where
  "DeleteAssignment ctx i = map_err (not_found_or (rpcNotFound ''assignment''))
     (Transaction (bnd (q_DeleteAssignment i) (\<lambda>rows.
        bnd (require (rows = 1) ENoRows) (\<lambda>_.
        audit ctx AUDIT_EVENT_TYPE_ASSIGNMENT_DELETED AUDIT_STREAM_TYPE_ASSIGNMENT i AUDIT_ACTOR_TYPE_USER ''''))))"

definition ListAssignments :: "string \<Rightarrow> assignment_target_type \<Rightarrow> string \<Rightarrow> assignment list srv" where
  "ListAssignments act ty target =
     bnd (map_err (\<lambda>_. internal) (q_ListAssignments act (target_type_number ty) target)) (\<lambda>rows.
     ret (map assignmentProto rows))"

definition require_device :: "string \<Rightarrow> unit srv" where
  "require_device d = bnd (map_err (not_found_or (rpcNotFound ''device'')) (q_GetDevice d)) (\<lambda>_. ret ())"

definition GetDeviceAssignments :: "service \<Rightarrow> string \<Rightarrow> managed_action list srv" where
  "GetDeviceAssignments svc d = bnd (require_device d) (\<lambda>_.
     bnd (map_err (\<lambda>_. internal) (q_ListActionsForDevice d)) (\<lambda>acts.
     map_err (\<lambda>_. internal) (lift_sum (map_sum (actionProto (svc_codec svc)) acts))))"

section \<open>Results and compliance\<close>

definition executionResultProto :: "codec \<Rightarrow> string \<Rightarrow> string \<Rightarrow> int \<Rightarrow> bytes \<Rightarrow> go_error + action_result" where
  "executionResultProto C run act completed blob = (case unmarshal_result C blob of
     None \<Rightarrow> Inl (EText ''proto: cannot parse'')
   | Some r \<Rightarrow> if id_value (res_run_id r) \<noteq> run \<or> id_value (res_action_id r) \<noteq> act \<or> res_completed_at r \<noteq> Some completed
       then Inl (EText ''stored execution result metadata does not match result blob'') else Inr r)"

definition isComplianceAction :: "action \<Rightarrow> bool" where
  "isComplianceAction a = (case act_params a of Some (ActionShell (Some p)) \<Rightarrow> sh_is_compliance p | _ \<Rightarrow> False)"

definition complianceStatus :: "codec \<Rightarrow> action \<Rightarrow> action_result option \<Rightarrow> go_error + compliance_status" where
  "complianceStatus C a result = (
     if \<not> isComplianceAction a then Inr COMPLIANCE_STATUS_UNSPECIFIED
     else (case result of
       None \<Rightarrow> Inr COMPLIANCE_STATUS_PENDING
     | Some r \<Rightarrow> (case ActionDigest C (Some a) of Inl e \<Rightarrow> Inl e
         | Inr digest \<Rightarrow>
             if digest \<noteq> res_action_digest r then Inr COMPLIANCE_STATUS_PENDING
             else if res_status r = EXECUTION_STATUS_SUCCESS \<and> res_detection_output r \<noteq> None \<and>
                 get_exit_code (res_detection_output r) = 0
             then Inr COMPLIANCE_STATUS_COMPLIANT
             else Inr COMPLIANCE_STATUS_NON_COMPLIANT)))"

text \<open>The page token of the results: the completion time and the run id of the last result, printed. \<open>valid\<close> is
  \<^verbatim>\<open>ulid.ParseStrict\<close>.\<close>

definition executionPageToken :: "int \<Rightarrow> string \<Rightarrow> string" where
  "executionPageToken completed run = EncodeToString (Format_RFC3339Nano completed @ [newline] @ run)"

definition zero_time :: int where "zero_time = -62135596800 * 1000000000"

definition parseExecutionPageToken :: "(string \<Rightarrow> bool) \<Rightarrow> string \<Rightarrow> go_error + int \<times> string" where
  "parseExecutionPageToken valid v = (
     if v = '''' then Inr (zero_time, '''')
     else (case DecodeString v of None \<Rightarrow> Inl (EText ''illegal base64 data'')
     | Some decoded \<Rightarrow> (case SplitN2 decoded [newline] of
         [a, b] \<Rightarrow> (case Parse_RFC3339Nano a of None \<Rightarrow> Inl (EText ''parsing time'')
           | Some t \<Rightarrow> if \<not> valid b then Inl (EText ''ulid'') else Inr (t, b))
       | _ \<Rightarrow> Inl (EText ''page token fields are missing''))))"

record execution_proto =
  xp_run_id :: "string option"
  xp_action_id :: "string option"
  xp_action_name :: string
  xp_status :: execution_status
  xp_output :: "command_output option"
  xp_completed_at :: "int option"
  xp_compliance_status :: compliance_status
  xp_detection_output :: "command_output option"

text \<open>The body of the loop over the rows.\<close>

definition executionProto :: "codec \<Rightarrow> execution_result \<times> db_action \<Rightarrow> go_error + execution_proto" where
  "executionProto C row = (case row of (e, x) \<Rightarrow>
     (case executionResultProto C (er_run_id e) (er_action_id e) (er_completed_at e) (er_blob e) of Inl err \<Rightarrow> Inl err
     | Inr r \<Rightarrow> (case executableAction C (er_action_id e) (ac_blob x) of Inl err \<Rightarrow> Inl err
       | Inr a \<Rightarrow> (case complianceStatus C a (Some r) of Inl err \<Rightarrow> Inl err
         | Inr st \<Rightarrow> Inr \<lparr>xp_run_id = res_run_id r, xp_action_id = res_action_id r, xp_action_name = ac_name x, xp_status = res_status r,
             xp_output = res_output r, xp_completed_at = res_completed_at r, xp_compliance_status = st,
             xp_detection_output = res_detection_output r\<rparr>))))"

definition ListExecutionResults :: "service \<Rightarrow> (string \<Rightarrow> bool) \<Rightarrow> string \<Rightarrow> int \<Rightarrow> string \<Rightarrow> (execution_proto list \<times> string) srv" where
  "ListExecutionResults svc valid d requested token = bnd (require_device d) (\<lambda>_.
     bnd (map_err (\<lambda>_. ERpc CodeInvalidArgument ''invalid execution results page token'')
       (lift_sum (parseExecutionPageToken valid token))) (\<lambda>(before, runBefore).
     let limit = pageSize requested in
     bnd (map_err (\<lambda>_. internal) (q_ListExecutionResults d (token \<noteq> '''') before runBefore (limit + 1))) (\<lambda>rows.
     case paginate rows limit (\<lambda>(e, x). executionPageToken (er_completed_at e) (er_run_id e)) of (rows, next) \<Rightarrow>
     bnd (map_err (\<lambda>_. internal) (lift_sum (map_sum (executionProto (svc_codec svc)) rows))) (\<lambda>results.
     ret (results, next)))))"

record check_result =
  cr_action_id :: string
  cr_action_name :: string
  cr_status :: compliance_status
  cr_detection_output :: "command_output option"
  cr_checked_at :: "int option"

record compliance_summary =
  cs_status :: compliance_status
  cs_passing :: int
  cs_checks :: "check_result list"

text \<open>The \<^verbatim>\<open>switch\<close> at the end of the loop body: \<open>st\<close> is the status so far, \<open>c\<close> that of the check.\<close>

definition merge_status :: "compliance_status \<Rightarrow> compliance_status \<Rightarrow> compliance_status" where
  "merge_status st c = (
     if c = COMPLIANCE_STATUS_NON_COMPLIANT then c
     else if c = COMPLIANCE_STATUS_PENDING \<and> st \<noteq> COMPLIANCE_STATUS_NON_COMPLIANT then c
     else if c = COMPLIANCE_STATUS_COMPLIANT \<and> st = COMPLIANCE_STATUS_UNSPECIFIED then c
     else st)"

text \<open>The result of a row, when there is one. (A row of the left join has a completion time whenever it has a run id.)\<close>

definition row_result :: "codec \<Rightarrow> db_action \<Rightarrow> execution_result option \<Rightarrow> go_error + action_result option" where
  "row_result C x er = (case er of None \<Rightarrow> Inr None
     | Some e \<Rightarrow> (case executionResultProto C (er_run_id e) (ac_id x) (er_completed_at e) (er_blob e) of
         Inl err \<Rightarrow> Inl err | Inr r \<Rightarrow> Inr (Some r)))"

definition row_check :: "db_action \<Rightarrow> action_result option \<Rightarrow> compliance_status \<Rightarrow> check_result" where
  "row_check x r st = \<lparr>cr_action_id = ac_id x, cr_action_name = ac_name x, cr_status = st,
     cr_detection_output = Option.bind r res_detection_output, cr_checked_at = Option.bind r res_completed_at\<rparr>"

definition add_check :: "db_action \<Rightarrow> action_result option \<Rightarrow> compliance_status \<Rightarrow> compliance_summary \<Rightarrow> compliance_summary" where
  "add_check x r st acc = \<lparr>cs_status = merge_status (cs_status acc) st,
     cs_passing = (if st = COMPLIANCE_STATUS_COMPLIANT then wrap32 (cs_passing acc + 1) else cs_passing acc),
     cs_checks = cs_checks acc @ [row_check x r st]\<rparr>"

text \<open>The loop of \<open>deviceCompliance\<close>.\<close>

fun compliance_loop ::
  "codec \<Rightarrow> (db_action \<times> execution_result option) list \<Rightarrow> compliance_summary \<Rightarrow> go_error + compliance_summary" where
  "compliance_loop C [] acc = Inr acc"
| "compliance_loop C ((x, er) # rows) acc = (case executableAction C (ac_id x) (ac_blob x) of Inl e \<Rightarrow> Inl e
     | Inr a \<Rightarrow> if \<not> isComplianceAction a then compliance_loop C rows acc
         else (case row_result C x er of Inl e \<Rightarrow> Inl e
           | Inr r \<Rightarrow> (case complianceStatus C a r of Inl e \<Rightarrow> Inl e
               | Inr st \<Rightarrow> compliance_loop C rows (add_check x r st acc))))"

definition empty_summary :: compliance_summary where
  "empty_summary = \<lparr>cs_status = COMPLIANCE_STATUS_UNSPECIFIED, cs_passing = 0, cs_checks = []\<rparr>"

definition deviceCompliance :: "service \<Rightarrow> string \<Rightarrow> compliance_summary srv" where
  "deviceCompliance svc d = bnd (q_ListComplianceResults d) (\<lambda>rows.
     lift_sum (compliance_loop (svc_codec svc) rows empty_summary))"

definition GetDeviceCompliance :: "service \<Rightarrow> string \<Rightarrow> (compliance_status \<times> check_result list) srv" where
  "GetDeviceCompliance svc d = bnd (require_device d) (\<lambda>_.
     bnd (map_err (\<lambda>_. internal) (deviceCompliance svc d)) (\<lambda>c. ret (cs_status c, cs_checks c)))"

definition ListAuditEvents :: "int \<Rightarrow> string \<Rightarrow> (audit_event list \<times> string) srv" where
  "ListAuditEvents requested token = (let before = (if token = '''' then ''~'' else token); limit = pageSize requested in
     bnd (map_err (\<lambda>_. internal) (q_ListAuditEvents before (limit + 1))) (\<lambda>events.
     ret (paginate events limit ae_id)))"

section \<open>The aggregate status\<close>

text \<open>Specification: the worst status of the checks, non-compliant before pending before compliant.\<close>

definition worst_status :: "compliance_status list \<Rightarrow> compliance_status" where
  "worst_status sts = (
     if COMPLIANCE_STATUS_NON_COMPLIANT \<in> set sts then COMPLIANCE_STATUS_NON_COMPLIANT
     else if COMPLIANCE_STATUS_PENDING \<in> set sts then COMPLIANCE_STATUS_PENDING
     else if COMPLIANCE_STATUS_COMPLIANT \<in> set sts then COMPLIANCE_STATUS_COMPLIANT
     else COMPLIANCE_STATUS_UNSPECIFIED)"

lemma merge_worst: "merge_status (worst_status sts) c = worst_status (sts @ [c])"
  by (cases c) (auto simp: merge_status_def worst_status_def)

definition summary_ok :: "compliance_summary \<Rightarrow> bool" where
  "summary_ok c \<longleftrightarrow> cs_status c = worst_status (map cr_status (cs_checks c)) \<and>
     cs_passing c = wrap32 (int (length (filter (\<lambda>k. cr_status k = COMPLIANCE_STATUS_COMPLIANT) (cs_checks c))))"

lemma wrap32_Suc: "wrap32 (1 + wrap32 i) = wrap32 (1 + i)"
  unfolding wrap32_def by (simp add: mod_simps algebra_simps)

lemma add_check_ok: "summary_ok acc \<Longrightarrow> summary_ok (add_check x r st acc)"
  by (auto simp: summary_ok_def add_check_def merge_worst row_check_def wrap32_Suc add.commute)

lemma compliance_loop_ok: "compliance_loop C rows acc = Inr c \<Longrightarrow> summary_ok acc \<Longrightarrow> summary_ok c"
  by (induction C rows acc rule: compliance_loop.induct) (auto simp: add_check_ok split: sum.splits if_splits)

text \<open>One check per compliance action, in the order of the rows.\<close>

definition compliance_row :: "codec \<Rightarrow> db_action \<times> execution_result option \<Rightarrow> bool" where
  "compliance_row C row \<longleftrightarrow> (case executableAction C (ac_id (fst row)) (ac_blob (fst row)) of
     Inl _ \<Rightarrow> False | Inr a \<Rightarrow> isComplianceAction a)"

lemma compliance_loop_checks:
  "compliance_loop C rows acc = Inr c \<Longrightarrow>
    map cr_action_id (cs_checks c) = map cr_action_id (cs_checks acc) @ map (\<lambda>row. ac_id (fst row)) (filter (compliance_row C) rows)"
  by (induction C rows acc rule: compliance_loop.induct)
    (auto simp: add_check_def row_check_def compliance_row_def split: sum.splits if_splits)

end
