(* ===== verification/Server_Enrollment.thy ===== *)
theory Server_Enrollment
  imports Server_Service Contract_Client
begin

text \<open>
  \<^verbatim>\<open>server/internal/core/enrollment.go\<close>: a device registers with a token and renews its certificate.
  The token row that \<open>Register\<close> read before its transaction may be stale by the time the transaction runs; the lemmas
  on \<open>consumeRegistrationToken\<close> hold for any such row, so they cover every interleaving of registrations.
\<close>

section \<open>Registration\<close>

definition tokenHash :: "codec \<Rightarrow> string \<Rightarrow> string" where
  "tokenHash C v = hex_encode (sha256 C v)"

definition consumed_concurrently :: "go_error \<Rightarrow> go_error" where
  "consumed_concurrently e = (if IsNotFound e then EText ''registration token was consumed concurrently'' else e)"

definition consumeRegistrationToken :: "registration_token \<Rightarrow> int \<Rightarrow> registration_token srv" where
  "consumeRegistrationToken token nw = (
     if tok_max_uses token > 0 \<and> wrap32 (tok_current_uses token + 1) \<ge> tok_max_uses token then
       bnd (map_err consumed_concurrently (q_ConsumeFinalRegistrationToken (tok_id token) nw)) (\<lambda>c.
       ret (c\<lparr>tok_current_uses := wrap32 (tok_current_uses c + 1)\<rparr>))
     else
       bnd (map_err consumed_concurrently (q_ConsumeRegistrationToken (tok_id token) nw)) (\<lambda>c.
       if tok_max_uses c > 0 \<and> tok_current_uses c \<ge> tok_max_uses c
       then bnd (q_DeleteRegistrationToken (tok_id c)) (\<lambda>_. ret c) else ret c))"

definition invalid_csr :: go_error where
  "invalid_csr = ERpc CodeInvalidArgument ''invalid certificate signing request''"

definition invalid_token :: go_error where
  "invalid_token = ERpc CodePermissionDenied ''invalid registration token''"

definition register_device :: "registration_token \<Rightarrow> int \<Rightarrow> string \<Rightarrow> register_request \<Rightarrow> bytes \<Rightarrow> bytes \<Rightarrow> string \<Rightarrow> int \<Rightarrow> unit srv" where
  "register_device token t deviceID req identity pem serial notAfter = Transaction (
     bnd (consumeRegistrationToken token t) (\<lambda>_.
     bnd (q_CreateDevice deviceID (rr_hostname req) (rr_agent_version req) identity pem serial notAfter t) (\<lambda>_.
     bnd ulid_make (\<lambda>i.
     q_CreateAuditEvent \<lparr>ae_id = i, ae_event_type = AUDIT_EVENT_TYPE_DEVICE_REGISTERED, ae_stream_type = AUDIT_STREAM_TYPE_DEVICE,
       ae_stream_id = deviceID, ae_actor_type = AUDIT_ACTOR_TYPE_REGISTRATION_TOKEN, ae_actor_id = tok_id token, ae_occurred_at = t\<rparr>))))"

definition Register :: "service \<Rightarrow> register_request \<Rightarrow> register_response srv" where
  "Register svc req = (let X = ca_x509 (svc_ca svc);
       response = (\<lambda>i pem. \<lparr>rs_device_id = i, rs_ca_cert = CACertPEM (svc_ca svc), rs_certificate = pem, rs_control_url = svc_agent_url svc\<rparr>) in
     bnd (map_err (\<lambda>_. invalid_csr) (lift_sum (EnrollmentIdentityFromCSR X (rr_csr req)))) (\<lambda>identity.
     bnd (map_err (\<lambda>_. internal) (optional (q_FindDeviceByIdentityKey identity))) (\<lambda>existing.
     case existing of Some d \<Rightarrow> ret (response (dev_id d) (dev_active_pem d))
     | None \<Rightarrow>
       bnd now (\<lambda>t.
       bnd (map_err (not_found_or invalid_token) (q_GetUsableRegistrationToken (tokenHash (svc_codec svc) (rr_token req)) t)) (\<lambda>token.
       bnd ulid_make (\<lambda>deviceID.
       bnd (map_err (\<lambda>_. invalid_csr) (IssueCertificateFromCSR (svc_ca svc) deviceID (rr_csr req))) (\<lambda>(pem, notAfter).
       bnd (map_err (\<lambda>_. internal) (lift_sum (SerialFromPEM X pem))) (\<lambda>serial.
       bnd (map_err (conflict_or invalid_token)
         (register_device token t deviceID req identity pem serial notAfter)) (\<lambda>_.
       ret (response deviceID pem)))))))))) "

section \<open>Renewal\<close>

definition errCertificateNotRecognized :: go_error where
  "errCertificateNotRecognized = ESentinel ''certificate not recognized''"

definition errInvalidCertificateRequest :: go_error where
  "errInvalidCertificateRequest = ESentinel ''invalid certificate signing request''"

definition not_recognized :: go_error where
  "not_recognized = ERpc CodePermissionDenied ''certificate not recognized''"

definition renewal_error :: "go_error \<Rightarrow> go_error" where
  "renewal_error e = (if errors_is e errCertificateNotRecognized then not_recognized
     else if errors_is e errInvalidCertificateRequest then invalid_csr else internal)"

definition issue_pending :: "service \<Rightarrow> go_ctx \<Rightarrow> string \<Rightarrow> string \<Rightarrow> bytes \<Rightarrow> bytes srv" where
  "issue_pending svc ctx deviceID peerSerial csr =
     bnd (map_err (\<lambda>_. errInvalidCertificateRequest) (IssueCertificateFromCSR (svc_ca svc) deviceID csr)) (\<lambda>(pem, notAfter).
     bnd (map_err (EWrap ''read renewed certificate'') (lift_sum (SerialFromPEM (ca_x509 (svc_ca svc)) pem))) (\<lambda>serial.
     bnd (map_err (EWrap ''store renewed certificate'') (q_SetPendingDeviceCertificate pem serial notAfter deviceID peerSerial)) (\<lambda>rows.
     bnd (require (rows = 1) errCertificateNotRecognized) (\<lambda>_.
     bnd (audit ctx AUDIT_EVENT_TYPE_DEVICE_CERTIFICATE_RENEWED AUDIT_STREAM_TYPE_DEVICE deviceID AUDIT_ACTOR_TYPE_DEVICE deviceID) (\<lambda>_.
     ret pem)))))"

definition renew_body :: "service \<Rightarrow> go_ctx \<Rightarrow> string \<Rightarrow> string \<Rightarrow> bytes \<Rightarrow> bytes srv" where
  "renew_body svc ctx deviceID peerSerial csr =
     bnd (map_err (\<lambda>e. if IsNotFound e then errCertificateNotRecognized else EWrap ''get renewal device'' e) (q_GetDevice deviceID)) (\<lambda>d.
     bnd (require (dev_active_serial d = peerSerial) errCertificateNotRecognized) (\<lambda>_.
     if dev_pending_serial d \<noteq> None then
       (case (dev_pending_expires_at d, dev_pending_pem d) of
          (Some _, Some pem) \<Rightarrow> if pem = [] then throw (EText ''pending certificate is incomplete'') else ret pem
        | _ \<Rightarrow> throw (EText ''pending certificate is incomplete''))
     else issue_pending svc ctx deviceID peerSerial csr))"

definition RenewCertificate :: "service \<Rightarrow> go_ctx \<Rightarrow> bytes \<Rightarrow> bytes srv" where
  "RenewCertificate svc ctx csr = (case (ctx_peer ctx, DeviceIDFromContext ctx) of
     (Some peer, Some deviceID) \<Rightarrow>
       if PeerClassFromCert (Some peer) = Inr PeerClassAgent \<and> AssertCSRMatchesCert (ca_x509 (svc_ca svc)) (Some peer) csr = None
       then (case SerialFromCert (Some peer) of Inl _ \<Rightarrow> throw not_recognized
         | Inr peerSerial \<Rightarrow> map_err renewal_error (Transaction (renew_body svc ctx deviceID peerSerial csr)))
       else throw not_recognized
   | _ \<Rightarrow> throw not_recognized)"

section \<open>What a use of a token consumes\<close>

text \<open>The uses left of a token with a limit; a token that is gone has none.\<close>

definition remaining :: "srv_db \<Rightarrow> string \<Rightarrow> nat" where
  "remaining s i = (case List.find (\<lambda>r. tok_id r = i) (registration_tokens s) of None \<Rightarrow> 0
     | Some r \<Rightarrow> nat (tok_max_uses r - tok_current_uses r))"

definition limited :: "srv_db \<Rightarrow> string \<Rightarrow> bool" where
  "limited s i \<longleftrightarrow> (\<forall>r\<in>set (registration_tokens s). tok_id r = i \<longrightarrow> 0 < tok_max_uses r)"

interpretation tokens: keyed tok_id .

lemma db_keys_tokens: "db_keys s \<Longrightarrow> tokens.unique (registration_tokens s)"
  by (simp add: db_keys_def tokens.unique_def)

text \<open>In a table with unique keys the rows that satisfy a condition on one key are at most one, in place.\<close>

lemma token_find:
  assumes "db_keys s" and "List.find p (registration_tokens s) = Some r" and "\<And>x. p x \<Longrightarrow> tok_id x = i"
  shows "\<exists>pre rem. registration_tokens s = pre @ r # rem \<and> tok_id r = i \<and> p r \<and> tokens.unique (pre @ r # rem) \<and>
    upd_rows p f (registration_tokens s) = pre @ f r # rem \<and> del_rows p (registration_tokens s) = pre @ rem"
proof -
  have r: "r \<in> set (registration_tokens s)" "p r" using assms(2) by (auto simp: find_Some_iff)
  from split_list [OF r(1)] obtain pre rem where sp: "registration_tokens s = pre @ r # rem" by blast
  then have u: "tokens.unique (pre @ r # rem)" using db_keys_tokens [OF assms(1)] by simp
  moreover have k: "tok_id r = i" using assms(3) r(2) by simp
  ultimately show ?thesis
    using sp r(2) tokens.upd_split [OF u, of p f] tokens.del_split [OF u, of p] assms(3) by metis
qed

lemma use_token_simps [simp]:
  "tok_max_uses (use_token t r) = tok_max_uses r" "tok_current_uses (use_token t r) = tok_current_uses r + 1"
  by (simp_all add: use_token_def)

lemma remaining_at:
  assumes "registration_tokens s = pre @ r # rem" and "tokens.unique (pre @ r # rem)"
  shows "remaining s (tok_id r) = nat (tok_max_uses r - tok_current_uses r)"
proof -
  have "List.find (\<lambda>x. tok_id x = tok_id r) (pre @ r # rem) = Some r"
    by (rule tokens.find_key [OF assms(2)]) auto
  then show ?thesis by (simp add: remaining_def assms(1))
qed

lemma remaining_gone:
  assumes "registration_tokens s = pre @ rem" and "tokens.unique (pre @ r # rem)"
  shows "remaining s (tok_id r) = 0"
proof -
  have "List.find (\<lambda>x. tok_id x = tok_id r) (pre @ rem) = None"
    using tokens.unique_split [OF assms(2)] by (auto simp: find_None_iff)
  then show ?thesis by (simp add: remaining_def assms(1))
qed

text \<open>A successful use, whatever row the caller had read before: the token was usable, and its row is gone when that was
  its last use and counts one use more otherwise.\<close>

lemma consume_run:
  assumes "db_keys s" and run: "consumeRegistrationToken token nw E n s = (Inr c, n', s')"
  shows "\<exists>pre r rem t. registration_tokens s = pre @ r # rem \<and> tokens.unique (pre @ r # rem) \<and> tok_id r = tok_id token \<and>
    token_usable nw r \<and> s' = s\<lparr>registration_tokens :=
      (if 0 < tok_max_uses r \<and> tok_max_uses r \<le> tok_current_uses r + 1 then pre @ rem else pre @ use_token t r # rem)\<rparr>"
proof (cases "tok_max_uses token > 0 \<and> wrap32 (tok_current_uses token + 1) \<ge> tok_max_uses token")
  case True
  let ?p = "\<lambda>r. tok_id r = tok_id token \<and> token_usable nw r \<and> tok_max_uses r > 0 \<and> tok_current_uses r + 1 \<ge> tok_max_uses r"
  obtain r where f: "List.find ?p (registration_tokens s) = Some r"
    and s': "s' = s\<lparr>registration_tokens := del_rows ?p (registration_tokens s)\<rparr>"
    using run True by (auto simp: consumeRegistrationToken_def q_ConsumeFinalRegistrationToken_def Let_def run_simps split: option.splits)
  from token_find [OF assms(1) f, of "tok_id token" id] obtain pre rem where
    "registration_tokens s = pre @ r # rem" "tok_id r = tok_id token" "token_usable nw r" "0 < tok_max_uses r"
    "tok_max_uses r \<le> tok_current_uses r + 1" "tokens.unique (pre @ r # rem)" "del_rows ?p (registration_tokens s) = pre @ rem"
    by auto
  then show ?thesis using s' by (intro exI [of _ pre] exI [of _ r] exI [of _ rem]) simp
next
  case False
  let ?p = "\<lambda>r. tok_id r = tok_id token \<and> token_usable nw r"
  obtain r t s1 n1 where f: "List.find ?p (registration_tokens s) = Some r"
    and s1: "s1 = s\<lparr>registration_tokens := upd_rows ?p (use_token t) (registration_tokens s)\<rparr>"
    and rest: "(if tok_max_uses r > 0 \<and> tok_current_uses r + 1 \<ge> tok_max_uses r
        then bnd (q_DeleteRegistrationToken (tok_id (use_token t r))) (\<lambda>_. ret (use_token t r)) else ret (use_token t r)) E n1 s1 = (Inr c, n', s')"
    using run False by (auto simp: consumeRegistrationToken_def q_ConsumeRegistrationToken_def update_one_Inr run_simps)
  from token_find [OF assms(1) f, of "tok_id token" "use_token t"] obtain pre rem where
    sp: "registration_tokens s = pre @ r # rem" "tok_id r = tok_id token" "token_usable nw r" "tokens.unique (pre @ r # rem)"
      "upd_rows ?p (use_token t) (registration_tokens s) = pre @ use_token t r # rem" by auto
  have "tokens.unique (pre @ use_token t r # rem)" using sp(4) by (simp add: tokens.unique_def)
  then have "del_rows (\<lambda>x. tok_id x = tok_id r) (pre @ use_token t r # rem) = pre @ rem"
    using tokens.del_key_split by fastforce
  then have "s' = s\<lparr>registration_tokens := (if 0 < tok_max_uses r \<and> tok_max_uses r \<le> tok_current_uses r + 1
      then pre @ rem else pre @ use_token t r # rem)\<rparr>"
    using rest s1 sp by (auto simp: q_DeleteRegistrationToken_def run_simps split: if_splits)
  then show ?thesis using sp by blast
qed

lemma consume_remaining:
  assumes "db_keys s" and "limited s (tok_id token)" and "consumeRegistrationToken token nw E n s = (Inr c, n', s')"
  shows "remaining s (tok_id token) = Suc (remaining s' (tok_id token))"
proof -
  from consume_run [OF assms(1,3)] obtain pre r rem t where
    sp: "registration_tokens s = pre @ r # rem" "tokens.unique (pre @ r # rem)" "tok_id r = tok_id token" "token_usable nw r"
    and s': "s' = s\<lparr>registration_tokens :=
      (if 0 < tok_max_uses r \<and> tok_max_uses r \<le> tok_current_uses r + 1 then pre @ rem else pre @ use_token t r # rem)\<rparr>"
    by blast
  have m: "0 < tok_max_uses r" "tok_current_uses r < tok_max_uses r"
    using assms(2) sp by (auto simp: limited_def token_usable_def)
  have u: "tokens.unique (pre @ use_token t r # rem)" using sp(2) by (simp add: tokens.unique_def)
  show ?thesis
  proof (cases "tok_max_uses r \<le> tok_current_uses r + 1")
    case True
    then show ?thesis
      using remaining_at [OF sp(1,2)] remaining_gone [of s' pre rem r] sp m s' by simp
  next
    case False
    then show ?thesis
      using remaining_at [OF sp(1,2)] remaining_at [of s' pre "use_token t r" rem] u sp(3) m s' by (simp add: use_token_def)
  qed
qed

end
