(* ===== verification/Server_Agent.thy ===== *)
theory Server_Agent
  imports Server_Assignments Server_Enrollment Contract_Client
begin

text \<open>
  \<^verbatim>\<open>server/internal/core/agent.go\<close>: the service that agents talk to. A connected agent is identified by its
  client certificate; it asks for its desired policy and reports results. \<^verbatim>\<open>stream.Send\<close> is the last call of the
  handler of a message, so the handler returns the reply it sends.
\<close>

section \<open>Who is connected\<close>

datatype http_outcome = Served go_ctx | HttpError nat string

text \<open>\<open>path\<close> is the request's path and \<open>tls\<close> its connection state.\<close>

definition AgentMiddleware :: "string \<Rightarrow> certificate list option \<Rightarrow> go_ctx \<Rightarrow> http_outcome" where
  "AgentMiddleware path tls ctx = (
     if path = ''/health'' \<or> path = ''/ready'' then Served ctx
     else (case DeviceIDFromRequest tls of
       Inl _ \<Rightarrow> HttpError 401 ''client certificate required''
     | Inr deviceID \<Rightarrow>
         if PeerClassFromTLS tls \<noteq> Inr PeerClassAgent then HttpError 403 ''agent certificate required''
         else Served (ctx\<lparr>ctx_device := Some deviceID, ctx_peer := (case tls of Some (c # _) \<Rightarrow> Some c | _ \<Rightarrow> None)\<rparr>)))"

definition not_current :: go_error where
  "not_current = ERpc CodePermissionDenied ''device certificate is not current''"

definition authenticateAgent :: "go_ctx \<Rightarrow> hello \<Rightarrow> string srv" where
  "authenticateAgent ctx h = (case (DeviceIDFromContext ctx, PeerSerialFromContext ctx) of
     (Some deviceID, Some serial) \<Rightarrow>
       if id_value (hl_device_id h) \<noteq> deviceID then throw (ERpc CodeUnauthenticated ''authenticated device identity required'')
       else bnd (map_err (\<lambda>e. if IsNotFound e then ERpc CodePermissionDenied ''device is not registered'' else internal) (q_GetDevice deviceID)) (\<lambda>d.
         if dev_active_serial d = serial then ret deviceID
         else if dev_pending_serial d = Some serial then
           bnd (map_err (\<lambda>_. internal) (q_PromotePendingDeviceCertificate deviceID serial)) (\<lambda>rows.
           bnd (require (rows = 1) not_current) (\<lambda>_. ret deviceID))
         else throw not_current)
   | _ \<Rightarrow> throw (ERpc CodeUnauthenticated ''authenticated device identity required''))"

definition touchAgent :: "string \<Rightarrow> hello \<Rightarrow> unit srv" where
  "touchAgent deviceID h = bnd now (\<lambda>t.
     map_err (\<lambda>_. internal) (q_TouchDevice (hl_hostname h) (hl_agent_version h) t deviceID))"

section \<open>The policy of a device\<close>

definition desiredPolicy :: "service \<Rightarrow> string \<Rightarrow> desired_policy srv" where
  "desiredPolicy svc d = bnd (map_err (\<lambda>_. internal) (q_ListActionsForDevice d)) (\<lambda>acts.
     bnd (map_err (\<lambda>_. internal) (lift_sum (map_sum (\<lambda>r. executableAction (svc_codec svc) (ac_id r) (ac_blob r)) acts))) (\<lambda>as.
     ret \<lparr>refresh_interval_minutes = 5, policy_actions = map Some as\<rparr>))"

section \<open>Results\<close>

definition errResultRejected :: go_error where
  "errResultRejected = ESentinel ''action result rejected''"

text \<open>\<^verbatim>\<open>timestamppb.Timestamp.CheckValid\<close>: from the year 1 to the year 9999.\<close>

definition check_valid_time :: "int \<Rightarrow> bool" where
  "check_valid_time t \<longleftrightarrow> -62135596800 * 1000000000 \<le> t \<and> t < 253402300800 * 1000000000"

definition duplicate_result :: "codec \<Rightarrow> string \<Rightarrow> action_result \<Rightarrow> execution_result \<Rightarrow> unit srv" where
  "duplicate_result C d r e =
     bnd (map_err (EWrap ''decode stored duplicate result'')
            (lift_sum (executionResultProto C (er_run_id e) (er_action_id e) (er_completed_at e) (er_blob e)))) (\<lambda>stored.
     if er_device_id e = d \<and> stored = r then ret () else throw (EDetail errResultRejected ''conflicting run id''))"

definition insert_result :: "codec \<Rightarrow> string \<Rightarrow> action_result \<Rightarrow> int \<Rightarrow> bytes \<Rightarrow> unit srv" where
  "insert_result C d r completed blob = (let act = id_value (res_action_id r); run = id_value (res_run_id r) in
     bnd (map_err (EWrap ''list assigned actions'') (q_ListActionsForDevice d)) (\<lambda>acts.
     case List.find (\<lambda>a. ac_id a = act) acts of
       None \<Rightarrow> throw (EDetail errResultRejected ''action is not assigned to device'')
     | Some a \<Rightarrow>
         bnd (map_err (EWrap ''decode assigned action'') (lift_sum (executableAction C (ac_id a) (ac_blob a)))) (\<lambda>_.
         bnd (map_err (EWrap ''store action result'') (q_CreateExecutionResult run d act completed blob)) (\<lambda>inserted.
         bnd (require (inserted = 1) (EDetail errResultRejected ''conflicting run id'')) (\<lambda>_.
         bnd ulid_make (\<lambda>i.
         bnd now (\<lambda>t.
         q_CreateAuditEvent \<lparr>ae_id = i, ae_event_type = AUDIT_EVENT_TYPE_EXECUTION_RESULT_RECEIVED,
           ae_stream_type = AUDIT_STREAM_TYPE_ACTION, ae_stream_id = act, ae_actor_type = AUDIT_ACTOR_TYPE_DEVICE,
           ae_actor_id = d, ae_occurred_at = t\<rparr>)))))))"

definition result_transaction :: "codec \<Rightarrow> string \<Rightarrow> action_result \<Rightarrow> int \<Rightarrow> bytes \<Rightarrow> unit srv" where
  "result_transaction C d r completed blob = Transaction (
     bnd (map_err (EWrap ''load existing result'') (optional (q_GetExecutionResult (id_value (res_run_id r))))) (\<lambda>existing.
     case existing of Some e \<Rightarrow> duplicate_result C d r e | None \<Rightarrow> insert_result C d r completed blob))"

definition storeActionResult :: "service \<Rightarrow> string \<Rightarrow> action_result option \<Rightarrow> unit srv" where
  "storeActionResult svc d result = (case result of
     None \<Rightarrow> throw (EDetail errResultRejected ''malformed action result'')
   | Some r \<Rightarrow> (case res_completed_at r of
       None \<Rightarrow> throw (EDetail errResultRejected ''malformed action result'')
     | Some completed \<Rightarrow>
         if length (res_action_digest r) \<noteq> 32 then throw (EDetail errResultRejected ''malformed action result'')
         else if \<not> check_valid_time completed then throw (EDetail errResultRejected ''invalid completion time'')
         else (case marshal_result (svc_codec svc) r of
           None \<Rightarrow> throw (EWrap ''encode action result'' (EText ''proto: cannot marshal''))
         | Some blob \<Rightarrow> result_transaction (svc_codec svc) d r completed blob)))"

section \<open>The stream\<close>

definition handleAgentMessage :: "service \<Rightarrow> string \<Rightarrow> hello \<Rightarrow> agent_message \<Rightarrow> server_message option srv" where
  "handleAgentMessage svc d h m = (case msg_payload m of
     Heartbeat \<Rightarrow> bnd (touchAgent d h) (\<lambda>_. ret None)
   | DesiredPolicyRequest \<Rightarrow> bnd (desiredPolicy svc d) (\<lambda>p. ret (Some (msg_id m, PolicyFrame p)))
   | ActionResultFrame r \<Rightarrow>
       handle (bnd (storeActionResult svc d r) (\<lambda>_. ret (Some (msg_id m, AckFrame RESULT_ACK_CODE_ACCEPTED))))
         (\<lambda>e. if errors_is e errResultRejected then ret (Some (msg_id m, AckFrame RESULT_ACK_CODE_REJECTED)) else throw internal)
   | HelloFrame _ \<Rightarrow> throw (ERpc CodeInvalidArgument ''hello is only valid as the first frame'')
   | OtherFrame \<Rightarrow> throw (ERpc CodeInvalidArgument ''unsupported agent frame''))"

text \<open>What \<^verbatim>\<open>stream.Receive\<close> yields: the frames in order, then the end of the stream or an error. The loop returns the
  messages it sent and how it ended; a failed \<^verbatim>\<open>stream.Send\<close> ends it.\<close>

datatype stream_end = EndOfStream | StreamError go_error

definition send :: "'m \<Rightarrow> 'm srv" where
  "send m = (\<lambda>E n s. if fault E n then (Inl (EText ''send''), Suc n, s) else (Inr m, Suc n, s))"

primrec stream_loop :: "service \<Rightarrow> string \<Rightarrow> hello \<Rightarrow> agent_message list \<Rightarrow> stream_end \<Rightarrow> (server_message list \<times> stream_end) srv" where
  "stream_loop svc d h [] fin = ret ([], fin)"
| "stream_loop svc d h (m # ms) fin =
     handle (bnd (handleAgentMessage svc d h m) (\<lambda>reply.
       bnd (case reply of None \<Rightarrow> ret [] | Some r \<Rightarrow> bnd (send r) (\<lambda>x. ret [x])) (\<lambda>out.
       bnd (stream_loop svc d h ms fin) (\<lambda>(sent, e). ret (out @ sent, e)))))
     (\<lambda>e. ret ([], StreamError e))"

definition Stream :: "service \<Rightarrow> go_ctx \<Rightarrow> agent_message list \<Rightarrow> stream_end \<Rightarrow> (server_message list \<times> stream_end) srv" where
  "Stream svc ctx frames fin = (case frames of
     [] \<Rightarrow> ret ([], fin)
   | first # rest \<Rightarrow> (case msg_payload first of
       HelloFrame h \<Rightarrow>
         handle (bnd (authenticateAgent ctx h) (\<lambda>d.
           bnd (touchAgent d h) (\<lambda>_.
           bnd ulid_make (\<lambda>i.
           bnd (map_err (EWrap ''send welcome'') (send (Some i, WelcomeFrame (svc_heartbeat svc)))) (\<lambda>welcome.
           bnd (stream_loop svc d h rest fin) (\<lambda>(sent, e). ret (welcome # sent, e)))))))
         (\<lambda>e. ret ([], StreamError e))
     | _ \<Rightarrow> ret ([], StreamError (ERpc CodeInvalidArgument ''first frame must be hello''))))"

end
