(* ===== verification/Server_Devices.thy ===== *)
theory Server_Devices
  imports Server_Assignments Server_Enrollment
begin

text \<open>
  \<^verbatim>\<open>server/internal/core/devices.go\<close>: devices, registration tokens and device groups. The random value of a new
  token is \<^verbatim>\<open>crypto/rand\<close>'s, a parameter (\<open>draw\<close>) like the other sources of randomness.
\<close>

section \<open>Devices\<close>

datatype device_status = DEVICE_STATUS_ONLINE | DEVICE_STATUS_OFFLINE

definition deviceStatus :: "service \<Rightarrow> int \<Rightarrow> device \<Rightarrow> device_status" where
  "deviceStatus svc nw d = (case dev_last_seen_at d of
     Some seen \<Rightarrow> if nw - seen \<le> 2 * svc_heartbeat svc then DEVICE_STATUS_ONLINE else DEVICE_STATUS_OFFLINE
   | None \<Rightarrow> DEVICE_STATUS_OFFLINE)"

record device_proto =
  dp_id :: string
  dp_hostname :: string
  dp_agent_version :: string
  dp_status :: device_status
  dp_registered_at :: int
  dp_cert_expires_at :: int
  dp_compliance_status :: compliance_status
  dp_compliance_total :: int
  dp_compliance_passing :: int
  dp_last_seen_at :: "int option"

definition deviceProto :: "service \<Rightarrow> device \<Rightarrow> device_proto srv" where
  "deviceProto svc d = bnd (deviceCompliance svc (dev_id d)) (\<lambda>c.
     bnd (if dev_last_seen_at d = None then ret 0 else now) (\<lambda>t.
     ret \<lparr>dp_id = dev_id d, dp_hostname = dev_hostname d, dp_agent_version = dev_agent_version d,
       dp_status = deviceStatus svc t d, dp_registered_at = dev_registered_at d, dp_cert_expires_at = dev_cert_expires_at d,
       dp_compliance_status = cs_status c, dp_compliance_total = wrap32 (int (length (cs_checks c))),
       dp_compliance_passing = cs_passing c, dp_last_seen_at = dev_last_seen_at d\<rparr>))"

definition ListDevices :: "service \<Rightarrow> int \<Rightarrow> string \<Rightarrow> (device_proto list \<times> int \<times> string) srv" where
  "ListDevices svc requested token = (let limit = pageSize requested in
     bnd (map_err (\<lambda>_. internal) (q_ListDevices token (limit + 1))) (\<lambda>rows.
     bnd (map_err (\<lambda>_. internal) q_CountDevices) (\<lambda>total.
     case paginate rows limit dev_id of (ds, next) \<Rightarrow>
       bnd (map_prog (\<lambda>d. map_err (\<lambda>_. internal) (deviceProto svc d)) ds) (\<lambda>ps.
       ret (ps, wrap32 (int total), next)))))"

definition GetDevice :: "service \<Rightarrow> string \<Rightarrow> device_proto srv" where
  "GetDevice svc i = bnd (map_err (not_found_or (rpcNotFound ''device'')) (q_GetDevice i)) (\<lambda>d.
     map_err (\<lambda>_. internal) (deviceProto svc d))"

definition DeleteDevice :: "go_ctx \<Rightarrow> string \<Rightarrow> unit srv" where
  "DeleteDevice ctx i = map_err (not_found_or (rpcNotFound ''device''))
     (Transaction (bnd (q_DeleteAssignmentsForTarget ASSIGNMENT_TARGET_TYPE_DEVICE i) (\<lambda>_.
        bnd (q_DeleteDevice i) (\<lambda>rows.
        bnd (require (rows = 1) ENoRows) (\<lambda>_.
        audit ctx AUDIT_EVENT_TYPE_DEVICE_DELETED AUDIT_STREAM_TYPE_DEVICE i AUDIT_ACTOR_TYPE_USER '''')))))"

section \<open>Registration tokens\<close>

record token_proto =
  tp_id :: string
  tp_value :: string
  tp_name :: string
  tp_max_uses :: int
  tp_current_uses :: int
  tp_expires_at :: int
  tp_created_at :: int

definition registrationTokenProto :: "registration_token \<Rightarrow> token_proto" where
  "registrationTokenProto r = \<lparr>tp_id = tok_id r, tp_value = '''', tp_name = tok_name r, tp_max_uses = tok_max_uses r,
     tp_current_uses = tok_current_uses r, tp_expires_at = tok_expires_at r, tp_created_at = tok_created_at r\<rparr>"

text \<open>\<^verbatim>\<open>rand.Read\<close> of 32 bytes in base64; None is its error.\<close>

definition registrationToken :: "codec \<Rightarrow> (nat \<Rightarrow> string option) \<Rightarrow> (string \<times> string) srv" where
  "registrationToken C draw = (\<lambda>E n s. (case draw n of None \<Rightarrow> Inl (EText ''rand'')
     | Some v \<Rightarrow> Inr (v, tokenHash C v), Suc n, s))"

record create_token_request =
  ctr_name :: string
  ctr_max_uses :: int
  ctr_expires_at :: "int option"

definition expiry_error :: go_error where
  "expiry_error = ERpc CodeInvalidArgument ''token expiration must be in the future''"

text \<open>Returns the token with its secret value, and the fingerprint of the CA.\<close>

definition create_token :: "service \<Rightarrow> go_ctx \<Rightarrow> (nat \<Rightarrow> string option) \<Rightarrow> create_token_request \<Rightarrow> int \<Rightarrow> (token_proto \<times> string) srv" where
  "create_token svc ctx draw req expires =
     bnd (map_err (\<lambda>_. internal) (registrationToken (svc_codec svc) draw)) (\<lambda>(v, digest).
     bnd (map_err (\<lambda>_. internal) (Transaction (bnd ulid_make (\<lambda>i.
       bnd (q_CreateRegistrationToken i digest (ctr_name req) (ctr_max_uses req) expires) (\<lambda>r.
       bnd (audit ctx AUDIT_EVENT_TYPE_REGISTRATION_TOKEN_CREATED AUDIT_STREAM_TYPE_REGISTRATION_TOKEN (tok_id r) AUDIT_ACTOR_TYPE_USER '''') (\<lambda>_.
       ret ((registrationTokenProto r)\<lparr>tp_value := v\<rparr>))))))) (\<lambda>mapped.
     ret (mapped, svc_ca_fingerprint svc)))"

definition CreateToken :: "service \<Rightarrow> go_ctx \<Rightarrow> (nat \<Rightarrow> string option) \<Rightarrow> create_token_request \<Rightarrow> (token_proto \<times> string) srv" where
  "CreateToken svc ctx draw req = (case ctr_expires_at req of
     None \<Rightarrow> throw expiry_error
   | Some expires \<Rightarrow> bnd now (\<lambda>t. if \<not> t < expires then throw expiry_error else create_token svc ctx draw req expires))"

definition ListTokens :: "int \<Rightarrow> string \<Rightarrow> (token_proto list \<times> int \<times> string) srv" where
  "ListTokens requested token = (let limit = pageSize requested in
     bnd (map_err (\<lambda>_. internal) (q_ListRegistrationTokens token (limit + 1))) (\<lambda>rows.
     bnd (map_err (\<lambda>_. internal) q_CountRegistrationTokens) (\<lambda>total.
     case paginate rows limit tok_id of (rs, next) \<Rightarrow>
       ret (map registrationTokenProto rs, wrap32 (int total), next))))"

definition RenameToken :: "go_ctx \<Rightarrow> string \<Rightarrow> string \<Rightarrow> token_proto srv" where
  "RenameToken ctx i name = map_err (not_found_or (rpcNotFound ''registration token''))
     (Transaction (bnd (q_RenameRegistrationToken name i) (\<lambda>r.
        bnd (audit ctx AUDIT_EVENT_TYPE_REGISTRATION_TOKEN_UPDATED AUDIT_STREAM_TYPE_REGISTRATION_TOKEN (tok_id r) AUDIT_ACTOR_TYPE_USER '''') (\<lambda>_.
        ret (registrationTokenProto r)))))"

definition DeleteToken :: "go_ctx \<Rightarrow> string \<Rightarrow> unit srv" where
  "DeleteToken ctx i = map_err (not_found_or (rpcNotFound ''registration token''))
     (Transaction (bnd (q_DeleteRegistrationToken i) (\<lambda>rows.
        bnd (require (rows = 1) ENoRows) (\<lambda>_.
        audit ctx AUDIT_EVENT_TYPE_REGISTRATION_TOKEN_DELETED AUDIT_STREAM_TYPE_REGISTRATION_TOKEN i AUDIT_ACTOR_TYPE_USER ''''))))"

section \<open>Device groups\<close>

record group_proto =
  gp_id :: string
  gp_name :: string
  gp_description :: string
  gp_member_count :: int
  gp_created_at :: int

definition groupProto :: "device_group \<Rightarrow> nat \<Rightarrow> group_proto" where
  "groupProto g members = \<lparr>gp_id = grp_id g, gp_name = grp_name g, gp_description = grp_description g,
     gp_member_count = wrap32 (int members), gp_created_at = grp_created_at g\<rparr>"

definition CreateDeviceGroup :: "go_ctx \<Rightarrow> string \<Rightarrow> string \<Rightarrow> group_proto srv" where
  "CreateDeviceGroup ctx name descr = map_err (conflict_or (rpcConflict ''device group''))
     (Transaction (bnd ulid_make (\<lambda>i.
        bnd (q_CreateDeviceGroup i name descr) (\<lambda>g.
        bnd (audit ctx AUDIT_EVENT_TYPE_DEVICE_GROUP_CREATED AUDIT_STREAM_TYPE_DEVICE_GROUP (grp_id g) AUDIT_ACTOR_TYPE_USER '''') (\<lambda>_.
        ret (groupProto g 0))))))"

text \<open>The members as device id, hostname, agent version and last contact.\<close>

definition GetDeviceGroup :: "string \<Rightarrow> (group_proto \<times> (string \<times> string \<times> string \<times> int option) list) srv" where
  "GetDeviceGroup i = bnd (map_err (not_found_or (rpcNotFound ''device group'')) (q_GetDeviceGroup i)) (\<lambda>(g, k).
     bnd (map_err (\<lambda>_. internal) (q_ListDeviceGroupMembers i)) (\<lambda>ds.
     ret (groupProto g k, map (\<lambda>d. (dev_id d, dev_hostname d, dev_agent_version d, dev_last_seen_at d)) ds)))"

definition ListDeviceGroups :: "int \<Rightarrow> string \<Rightarrow> (group_proto list \<times> int \<times> string) srv" where
  "ListDeviceGroups requested token = (let limit = pageSize requested in
     bnd (map_err (\<lambda>_. internal) (q_ListDeviceGroups token (limit + 1))) (\<lambda>rows.
     bnd (map_err (\<lambda>_. internal) q_CountDeviceGroups) (\<lambda>total.
     case paginate rows limit (\<lambda>r. grp_id (fst r)) of (rs, next) \<Rightarrow>
       ret (map (\<lambda>(g, k). groupProto g k) rs, wrap32 (int total), next))))"

definition ListDeviceGroupsForDevice :: "string \<Rightarrow> group_proto list srv" where
  "ListDeviceGroupsForDevice d = bnd (require_device d) (\<lambda>_.
     bnd (map_err (\<lambda>_. internal) (q_ListDeviceGroupsForDevice d)) (\<lambda>rows. ret (map (\<lambda>(g, k). groupProto g k) rows)))"

definition groupMutation :: "go_ctx \<Rightarrow> string \<Rightarrow> unit srv \<Rightarrow> group_proto srv" where
  "groupMutation ctx i mutate = map_err (rpc_error (rpcNotFound ''device group'') (rpcConflict ''device group''))
     (Transaction (bnd mutate (\<lambda>_.
        bnd (q_GetDeviceGroup i) (\<lambda>(g, k).
        bnd (audit ctx AUDIT_EVENT_TYPE_DEVICE_GROUP_UPDATED AUDIT_STREAM_TYPE_DEVICE_GROUP i AUDIT_ACTOR_TYPE_USER '''') (\<lambda>_.
        ret (groupProto g k))))))"

definition RenameDeviceGroup :: "go_ctx \<Rightarrow> string \<Rightarrow> string \<Rightarrow> group_proto srv" where
  "RenameDeviceGroup ctx i name = groupMutation ctx i (bnd (q_RenameDeviceGroup name i) (\<lambda>_. ret ()))"

definition SetDeviceGroupDescription :: "go_ctx \<Rightarrow> string \<Rightarrow> string \<Rightarrow> group_proto srv" where
  "SetDeviceGroupDescription ctx i descr = groupMutation ctx i (bnd (q_SetDeviceGroupDescription descr i) (\<lambda>_. ret ()))"

definition DeleteDeviceGroup :: "go_ctx \<Rightarrow> string \<Rightarrow> unit srv" where
  "DeleteDeviceGroup ctx i = map_err (not_found_or (rpcNotFound ''device group''))
     (Transaction (bnd (q_DeleteAssignmentsForTarget ASSIGNMENT_TARGET_TYPE_DEVICE_GROUP i) (\<lambda>_.
        bnd (q_DeleteDeviceGroup i) (\<lambda>rows.
        bnd (require (rows = 1) ENoRows) (\<lambda>_.
        audit ctx AUDIT_EVENT_TYPE_DEVICE_GROUP_DELETED AUDIT_STREAM_TYPE_DEVICE_GROUP i AUDIT_ACTOR_TYPE_USER '''')))))"

definition requireDeviceAndGroup :: "string \<Rightarrow> string \<Rightarrow> unit srv" where
  "requireDeviceAndGroup d g =
     bnd (map_err (not_found_or (rpcNotFound ''device group'')) (q_GetDeviceGroup g)) (\<lambda>_. require_device d)"

definition changed_group :: "go_ctx \<Rightarrow> audit_event_type \<Rightarrow> string \<Rightarrow> group_proto srv" where
  "changed_group ctx ev g = bnd (q_TouchDeviceGroup g) (\<lambda>_.
     bnd (q_GetDeviceGroup g) (\<lambda>(row, k).
     bnd (audit ctx ev AUDIT_STREAM_TYPE_DEVICE_GROUP g AUDIT_ACTOR_TYPE_USER '''') (\<lambda>_.
     ret (groupProto row k))))"

definition AddDeviceToGroup :: "go_ctx \<Rightarrow> string \<Rightarrow> string \<Rightarrow> group_proto srv" where
  "AddDeviceToGroup ctx g d = map_err (connect_error (conflict_or (rpcConflict ''device group member'')))
     (Transaction (bnd (requireDeviceAndGroup d g) (\<lambda>_.
        bnd (q_AddDeviceToGroup g d) (\<lambda>_.
        changed_group ctx AUDIT_EVENT_TYPE_DEVICE_GROUP_MEMBER_ADDED g))))"

definition RemoveDeviceFromGroup :: "go_ctx \<Rightarrow> string \<Rightarrow> string \<Rightarrow> group_proto srv" where
  "RemoveDeviceFromGroup ctx g d = map_err (not_found_or (rpcNotFound ''device group member''))
     (Transaction (bnd (q_RemoveDeviceFromGroup g d) (\<lambda>rows.
        bnd (require (rows = 1) ENoRows) (\<lambda>_.
        changed_group ctx AUDIT_EVENT_TYPE_DEVICE_GROUP_MEMBER_REMOVED g))))"

end
