(* ===== verification/Server_Wf.thy ===== *)
theory Server_Wf
  imports Server_Login Server_Agent Server_Devices
begin

text \<open>
  Every handler keeps every invariant of the database. The interface is the locale \<open>ordinary\<close>: an invariant that the
  statements keep which add no new obligation is kept by every handler built from them alone; the handlers that use one of the
  other eight statements keep it when that statement does. Each part of \<open>srv_wf\<close> is an instance, and what
  is left is proved on the handlers.
\<close>

section \<open>Results\<close>

definition stored_result :: "codec \<Rightarrow> execution_result \<Rightarrow> bool" where
  "stored_result C e \<longleftrightarrow> (\<exists>r. executionResultProto C (er_run_id e) (er_action_id e) (er_completed_at e) (er_blob e) = Inr r \<and>
     length (res_action_digest r) = 32 \<and> check_valid_time (er_completed_at e))"

definition db_results :: "codec \<Rightarrow> srv_db \<Rightarrow> bool" where
  "db_results C s \<longleftrightarrow> (\<forall>e\<in>set (execution_results s). stored_result C e)"

lemma keeps_results:
  "keeps (db_results C) (q_CreateIdentityProvider a1 a2 a3 b1 a4 a5 l1)"
  "keeps (db_results C) (q_ConfigureIdentityProvider a1 a2 l1 a3)"
  "keeps (db_results C) (q_RenameIdentityProvider a1 a2)" "keeps (db_results C) (q_EnableIdentityProvider a1)"
  "keeps (db_results C) (q_DisableIdentityProvider a1)" "keeps (db_results C) (q_DeleteIdentityProvider a1)"
  "keeps (db_results C) (q_CreateUser a1 a2 a3 k1)" "keeps (db_results C) (q_LinkIdentity a1 a2 a3)"
  "keeps (db_results C) (q_UpdateIdentityUserLogin a1 a2 k1 a3 a4)" "keeps (db_results C) (q_RotateUserSession a1 k1)"
  "keeps (db_results C) (q_CreateRole a1 a2 a3)" "keeps (db_results C) (q_RenameRole a1 a2)"
  "keeps (db_results C) (q_SetRoleDescription a1 a2)" "keeps (db_results C) (q_DeleteRole a1)"
  "keeps (db_results C) (q_GrantRolePermission k1 a1)" "keeps (db_results C) (q_RevokeRolePermission a1 k1)"
  "keeps (db_results C) (q_TouchRole a1)" "keeps (db_results C) (q_AssignInitialRole a1 a2 a3)"
  "keeps (db_results C) (q_AssignRoleToUser a1 a2)" "keeps (db_results C) (q_RevokeRoleFromUser a1 a2)"
  "keeps (db_results C) (q_BumpSessionsForRole a1)" "keeps (db_results C) (q_RotateUserSessionByID a1)"
  "keeps (db_results C) (q_CreateRegistrationToken a1 a2 a3 k1 k2)"
  "keeps (db_results C) (q_ConsumeRegistrationToken a1 k1)"
  "keeps (db_results C) (q_ConsumeFinalRegistrationToken a1 k1)"
  "keeps (db_results C) (q_RenameRegistrationToken a1 a2)" "keeps (db_results C) (q_DeleteRegistrationToken a1)"
  "keeps (db_results C) (q_CreateDevice a1 a2 a3 a4 a5 a6 k1 k2)"
  "keeps (db_results C) (q_SetPendingDeviceCertificate a1 a2 k1 a3 a4)"
  "keeps (db_results C) (q_PromotePendingDeviceCertificate a1 a2)" "keeps (db_results C) (q_TouchDevice a1 a2 k1 a3)"
  "keeps (db_results C) (q_DeleteDevice a1)" "keeps (db_results C) (q_DeleteAssignmentsForTarget ty1 a1)"
  "keeps (db_results C) (q_CreateAction a1 a2 a3 a4)" "keeps (db_results C) (q_RenameAction a1 a2)"
  "keeps (db_results C) (q_SetActionDescription a1 a2)" "keeps (db_results C) (q_ConfigureAction a1 a2)"
  "keeps (db_results C) (q_DeleteAction a1)" "keeps (db_results C) (q_CreateDeviceGroup a1 a2 a3)"
  "keeps (db_results C) (q_RenameDeviceGroup a1 a2)" "keeps (db_results C) (q_SetDeviceGroupDescription a1 a2)"
  "keeps (db_results C) (q_TouchDeviceGroup a1)" "keeps (db_results C) (q_DeleteDeviceGroup a1)"
  "keeps (db_results C) (q_AddDeviceToGroup a1 a2)" "keeps (db_results C) (q_RemoveDeviceFromGroup a1 a2)"
  "keeps (db_results C) (q_CreateAssignment a1 a2 ty1 a3)" "keeps (db_results C) (q_DeleteAssignment a1)"
  "keeps (db_results C) (q_CreateAuditEvent ev1)"
  unfolding write_defs
  by ((rule keeps_sql_nowI | rule keeps_sqlI);
      auto simp: db_results_def update_one_Inr insert_row_Inr Let_def split: option.splits if_splits)+

section \<open>Handlers over ordinary statements\<close>

lemma keeps_ok_handle: "keeps I m \<Longrightarrow> (\<And>e. keeps_ok I (h e)) \<Longrightarrow> keeps_ok I (handle m h)"
  unfolding keeps_ok_def keeps_def handle_Inr by blast

lemmas keeps_compose = keeps_bnd keeps_handle keeps_map_err keeps_branch keeps_for_each prod_rules(3) Transaction_rules(2)
  keeps_ok_bnd keeps_ok_handle keeps_ok_map_err keeps_ok_branch keeps_ok_for_each prod_rules(4) Transaction_rules(3)

lemmas keeps_leaves = readonly_basic [THEN keeps_readonly] readonly_statements [THEN keeps_readonly]
  readonly_issue [THEN keeps_readonly] readonly_tokens [THEN keeps_readonly] readonly_oidc [THEN keeps_readonly]
  readonly_event [THEN keeps_readonly]

lemmas keeps_ok_leaves = keeps_leaves [THEN keeps_ok_keeps]

locale ordinary =
  fixes I :: "srv_db \<Rightarrow> bool"
  assumes ordinary:
    "keeps I (q_CreateIdentityProvider a1 a2 a3 b1 a4 a5 l1)" "keeps I (q_ConfigureIdentityProvider a1 a2 l1 a3)"
    "keeps I (q_RenameIdentityProvider a1 a2)" "keeps I (q_EnableIdentityProvider a1)"
    "keeps I (q_DisableIdentityProvider a1)"
    "keeps I (q_CreateUser a1 a2 a3 k1)" "keeps I (q_LinkIdentity a1 a2 a3)"
    "keeps I (q_UpdateIdentityUserLogin a1 a2 k1 a3 a4)" "keeps I (q_RotateUserSession a1 k1)"
    "keeps I (q_CreateRole a1 a2 a3)" "keeps I (q_RenameRole a1 a2)" "keeps I (q_SetRoleDescription a1 a2)"
    "keeps I (q_DeleteRole a1)" "keeps I (q_GrantRolePermission k1 a1)" "keeps I (q_RevokeRolePermission a1 k1)"
    "keeps I (q_TouchRole a1)" "keeps I (q_AssignInitialRole a1 a2 a3)" "keeps I (q_AssignRoleToUser a1 a2)"
    "keeps I (q_RevokeRoleFromUser a1 a2)" "keeps I (q_BumpSessionsForRole a1)" "keeps I (q_RotateUserSessionByID a1)"
    "keeps I (q_CreateRegistrationToken a1 a2 a3 k1 k2)" "keeps I (q_ConsumeFinalRegistrationToken a1 k1)"
    "keeps I (q_RenameRegistrationToken a1 a2)" "keeps I (q_DeleteRegistrationToken a1)"
    "keeps I (q_CreateDevice a1 a2 a3 a4 a5 a6 k1 k2)" "keeps I (q_SetPendingDeviceCertificate a1 a2 k1 a3 a4)"
    "keeps I (q_PromotePendingDeviceCertificate a1 a2)" "keeps I (q_TouchDevice a1 a2 k1 a3)"
    "keeps I (q_DeleteAssignmentsForTarget ty1 a1)" "keeps I (q_RenameAction a1 a2)"
    "keeps I (q_SetActionDescription a1 a2)" "keeps I (q_DeleteAction a1)" "keeps I (q_CreateDeviceGroup a1 a2 a3)"
    "keeps I (q_RenameDeviceGroup a1 a2)" "keeps I (q_SetDeviceGroupDescription a1 a2)"
    "keeps I (q_TouchDeviceGroup a1)" "keeps I (q_AddDeviceToGroup a1 a2)" "keeps I (q_RemoveDeviceFromGroup a1 a2)"
    "keeps I (q_DeleteAssignment a1)" "keeps I (q_CreateAuditEvent ev1)"
begin

lemma audit_ordinary: "keeps I (audit ctx ev st stream aty actor)"
  by (intro audit_keeps ordinary)

lemmas ordinary_rules = keeps_compose keeps_leaves keeps_ok_leaves ordinary ordinary [THEN keeps_ok_keeps]
  audit_ordinary audit_ordinary [THEN keeps_ok_keeps]

lemma optional_rules: "keeps I m \<Longrightarrow> keeps I (optional m)" "keeps I m \<Longrightarrow> keeps_ok I (optional m)"
  unfolding optional_def by (intro ordinary_rules | assumption)+

lemma actions_ordinary:
  "keeps I (RenameAction svc ctx i name)" "keeps I (SetActionDescription svc ctx i descr)" "keeps I (DeleteAction ctx i)"
  unfolding RenameAction_def SetActionDescription_def DeleteAction_def actionMutation_def
  by (intro ordinary_rules)+

lemma assignments_ordinary: "keeps I (DeleteAssignment ctx i)"
  unfolding DeleteAssignment_def by (intro ordinary_rules)

lemma devices_ordinary:
  "keeps I (CreateToken svc ctx draw req)" "keeps I (RenameToken ctx i name)" "keeps I (DeleteToken ctx i)"
  "keeps I (CreateDeviceGroup ctx name descr)" "keeps I (RenameDeviceGroup ctx i name)"
  "keeps I (SetDeviceGroupDescription ctx i descr)" "keeps I (AddDeviceToGroup ctx i d)" "keeps I (RemoveDeviceFromGroup ctx i d)"
proof -
  have draw: "keeps I (registrationToken C draw)" for C draw
    by (rule keeps_readonly) (simp add: readonly_def registrationToken_def)
  show "keeps I (CreateToken svc ctx draw req)" "keeps I (RenameToken ctx i name)" "keeps I (DeleteToken ctx i)"
    "keeps I (CreateDeviceGroup ctx name descr)" "keeps I (RenameDeviceGroup ctx i name)"
    "keeps I (SetDeviceGroupDescription ctx i descr)" "keeps I (AddDeviceToGroup ctx i d)" "keeps I (RemoveDeviceFromGroup ctx i d)"
    unfolding CreateToken_def create_token_def RenameToken_def DeleteToken_def CreateDeviceGroup_def RenameDeviceGroup_def
      SetDeviceGroupDescription_def groupMutation_def AddDeviceToGroup_def requireDeviceAndGroup_def require_device_def
      RemoveDeviceFromGroup_def changed_group_def
    by (intro ordinary_rules draw)+
qed

lemma roles_ordinary:
  "keeps I (CreateRole name descr perms)" "keeps I (RenameRole i name)" "keeps I (SetRoleDescription i descr)"
  "keeps I (GrantRolePermission i p)" "keeps I (RevokeRolePermission i p)" "keeps I (DeleteRole i)"
  "keeps I (AssignRoleToUser u r)" "keeps I (RevokeRoleFromUser u r)" "keeps I (RevokeUserSessions ctx u)"
  unfolding CreateRole_def RenameRole_def SetRoleDescription_def GrantRolePermission_def RevokeRolePermission_def
    DeleteRole_def AssignRoleToUser_def RevokeRoleFromUser_def RevokeUserSessions_def roleMutation_def roleProto_def
  by (intro ordinary_rules)+

lemma login_ordinary:
  "keeps I (RefreshToken J tok)" "keeps I (Logout J tok)" "keeps I (SSOCallback P J cb)" "keeps I (GetSSOLoginURL P J svc slug redirect)"
  "keeps I (EnsureBootstrapProvider P svc b)" "keeps I (CreateIdentityProvider P svc ctx r)" "keeps I (RenameIdentityProvider i name)"
  "keeps I (ConfigureIdentityProvider P svc i r)" "keeps I (EnableIdentityProvider P svc i)" "keeps I (DisableIdentityProvider i)"
  unfolding RefreshToken_def Logout_def SSOCallback_def complete_login_def provider_client_def linkIdentity_def create_linked_def
    GetSSOLoginURL_def start_login_def EnsureBootstrapProvider_def CreateIdentityProvider_def RenameIdentityProvider_def
    ConfigureIdentityProvider_def EnableIdentityProvider_def DisableIdentityProvider_def
  by (intro ordinary_rules optional_rules)+

lemma renewal_ordinary: "keeps I (RenewCertificate svc ctx csr)"
  unfolding RenewCertificate_def renew_body_def issue_pending_def
  by (intro ordinary_rules)

lemma agent_ordinary: "keeps I (authenticateAgent ctx h)" "keeps I (touchAgent d h)" "keeps I (desiredPolicy svc d)"
  unfolding authenticateAgent_def touchAgent_def desiredPolicy_def
  by (intro ordinary_rules)+

text \<open>The handlers over one of the other statements.\<close>

lemma CreateAction_keeps: "(\<And>i name descr blob. keeps I (q_CreateAction i name descr blob)) \<Longrightarrow> keeps I (CreateAction svc ctx req)"
  unfolding CreateAction_def createActionParams_def
  by (intro ordinary_rules keeps_ok_keeps [of I "q_CreateAction i name descr blob" for i name descr blob])

lemma ConfigureAction_keeps: "(\<And>blob i. keeps I (q_ConfigureAction blob i)) \<Longrightarrow> keeps I (ConfigureAction svc ctx i sp)"
  unfolding ConfigureAction_def actionMutation_def configure_mutation_def
  by (intro ordinary_rules keeps_ok_keeps [of I "q_ConfigureAction blob i" for blob i])

lemma assignmentTargetName_ordinary: "keeps_ok I (assignmentTargetName ty target)"
  unfolding assignmentTargetName_def by (cases ty) (simp_all, (intro ordinary_rules)+)

lemma CreateAssignment_keeps:
  "(\<And>i act ty target. keeps I (q_CreateAssignment i act ty target)) \<Longrightarrow> keeps I (CreateAssignment ctx act ty target)"
  unfolding CreateAssignment_def
  by (intro ordinary_rules assignmentTargetName_ordinary keeps_ok_keeps [of I "q_CreateAssignment i act ty target" for i act ty target])

lemma DeleteDevice_keeps: "(\<And>i. keeps I (q_DeleteDevice i)) \<Longrightarrow> keeps I (DeleteDevice ctx i)"
  unfolding DeleteDevice_def by (intro ordinary_rules keeps_ok_keeps [of I "q_DeleteDevice i" for i])

lemma DeleteDeviceGroup_keeps: "(\<And>i. keeps I (q_DeleteDeviceGroup i)) \<Longrightarrow> keeps I (DeleteDeviceGroup ctx i)"
  unfolding DeleteDeviceGroup_def by (intro ordinary_rules keeps_ok_keeps [of I "q_DeleteDeviceGroup i" for i])

lemma DeleteIdentityProvider_keeps: "(\<And>i. keeps I (q_DeleteIdentityProvider i)) \<Longrightarrow> keeps I (DeleteIdentityProvider i)"
  unfolding DeleteIdentityProvider_def by (intro ordinary_rules keeps_ok_keeps [of I "q_DeleteIdentityProvider i" for i])

lemma Register_body: "keeps_ok I (consumeRegistrationToken token t) \<Longrightarrow> keeps I (register_device token t d req identity pem serial na)"
  unfolding register_device_def by (intro ordinary_rules) assumption+

lemma Register_keeps: "(\<And>token t. keeps_ok I (consumeRegistrationToken token t)) \<Longrightarrow> keeps I (Register svc req)"
  unfolding Register_def Let_def
  by (intro ordinary_rules optional_rules Register_body) assumption+

lemma consume_keeps: "(\<And>i t. keeps I (q_ConsumeRegistrationToken i t)) \<Longrightarrow> keeps_ok I (consumeRegistrationToken token t)"
  unfolding consumeRegistrationToken_def
  by (intro ordinary_rules keeps_ok_keeps [of I "q_ConsumeRegistrationToken i t" for i t])

lemma storeActionResult_keeps:
  "(\<And>a b c d e. keeps I (q_CreateExecutionResult a b c d e)) \<Longrightarrow> keeps I (storeActionResult svc d r)"
  unfolding storeActionResult_def result_transaction_def duplicate_result_def insert_result_def Let_def
  by (intro ordinary_rules optional_rules keeps_ok_keeps [of I "q_CreateExecutionResult a b c d e" for a b c d e])

lemma send_ordinary: "keeps I (send m)"
  by (rule keeps_readonly) (auto simp: readonly_def send_def)

lemma handleAgentMessage_keeps:
  "(\<And>d r. keeps I (storeActionResult svc d r)) \<Longrightarrow> keeps I (handleAgentMessage svc d h m)"
  unfolding handleAgentMessage_def
  by (cases "msg_payload m") (simp_all, (intro ordinary_rules agent_ordinary | assumption)+)

lemma stream_loop_keeps: "(\<And>d r. keeps I (storeActionResult svc d r)) \<Longrightarrow> keeps I (stream_loop svc d h ms fin)"
  by (induction ms) (simp_all, (intro ordinary_rules handleAgentMessage_keeps send_ordinary | assumption)+)

lemma Stream_keeps: "(\<And>d r. keeps I (storeActionResult svc d r)) \<Longrightarrow> keeps I (Stream svc ctx frames fin)"
  unfolding Stream_def
  by (cases frames; simp add: keeps_leaves split: agent_payload.splits;
      (intro allI impI ordinary_rules agent_ordinary stream_loop_keeps send_ordinary conjI | assumption)+)

end

section \<open>The invariants are instances\<close>

lemma keeps_conj: "keeps I m \<Longrightarrow> keeps K m \<Longrightarrow> keeps (\<lambda>s. I s \<and> K s) m"
  by (auto simp: keeps_def)

interpretation keys: ordinary db_keys
  by unfold_locales (rule keeps_keys)+

interpretation refs: ordinary db_refs
  by unfold_locales (rule keeps_refs)+

interpretation rows: ordinary db_rows
  by unfold_locales (rule keeps_rows)+

interpretation targets: ordinary db_targets
  by unfold_locales (rule keeps_targets)+

interpretation stored_actions: ordinary "db_actions C" for C
  by unfold_locales (rule keeps_actions)+

interpretation stored_results: ordinary "db_results C" for C
  by unfold_locales (rule keeps_results)+

definition tokens_inv :: "srv_db \<Rightarrow> bool" where
  "tokens_inv s \<longleftrightarrow> db_keys s \<and> db_tokens s"

lemma tokens_inv_eq: "tokens_inv = (\<lambda>s. db_keys s \<and> db_tokens s)"
  by (simp add: fun_eq_iff tokens_inv_def)

interpretation limited_tokens: ordinary tokens_inv
  unfolding tokens_inv_eq by unfold_locales (rule keeps_conj, rule keeps_keys, rule keeps_tokens)+

section \<open>The cases that are left\<close>

text \<open>A use of a token, whichever row was read before, leaves no token that is used up.\<close>

lemma consume_tokens: "keeps_ok tokens_inv (consumeRegistrationToken token t)"
proof (rule keeps_okI)
  fix E n s c n' s'
  assume wf: "tokens_inv s" and run: "consumeRegistrationToken token t E n s = (Inr c, n', s')"
  have keys: "db_keys s" and ok: "\<forall>r\<in>set (registration_tokens s). token_ok r"
    using wf by (simp_all add: tokens_inv_def db_tokens_def)
  have "db_keys s'" using keeps_okD [OF keys.consume_keeps [OF keeps_keys(24)] keys run] .
  moreover from consume_run [OF keys run] obtain pre r rem k where
    "registration_tokens s = pre @ r # rem" "token_usable t r" "s' = s\<lparr>registration_tokens :=
      (if 0 < tok_max_uses r \<and> tok_max_uses r \<le> tok_current_uses r + 1 then pre @ rem else pre @ use_token k r # rem)\<rparr>"
    by blast
  then have "db_tokens s'" using ok by (auto simp: db_tokens_def token_ok_def)
  ultimately show "tokens_inv s'" by (simp add: tokens_inv_def)
qed

text \<open>The target of a new assignment was found in the same transaction.\<close>

lemma target_found:
  assumes "assignmentTargetName ty target E n s = (Inr x, n', s')"
  shows "s' = s \<and> (ty = ASSIGNMENT_TARGET_TYPE_DEVICE \<and> exists_row dev_id target (devices s) \<or>
    ty = ASSIGNMENT_TARGET_TYPE_DEVICE_GROUP \<and> exists_row grp_id target (device_groups s))"
  using assms
  by (auto simp: assignmentTargetName_def q_GetDevice_def q_GetDeviceGroup_def run_simps find_Some_iff exists_row_def
      split: assignment_target_type.splits)

lemma CreateAssignment_targets: "keeps db_targets (CreateAssignment ctx act ty target)"
proof -
  have "keeps_ok db_targets (CreateAssignment ctx act ty target)"
  proof (rule keeps_okI)
    fix E n s x n' s'
    assume wf: "db_targets s" and run: "CreateAssignment ctx act ty target E n s = (Inr x, n', s')"
    from run obtain n1 n2 n3 n4 m i a y s0 s1 where
      t: "assignmentTargetName ty target E n1 s = (Inr y, n2, s0)"
      and ins: "q_CreateAssignment i act ty target E n3 s0 = (Inr a, n4, s1)"
      and au: "audit ctx AUDIT_EVENT_TYPE_ASSIGNMENT_CREATED AUDIT_STREAM_TYPE_ASSIGNMENT (asg_id a) AUDIT_ACTOR_TYPE_USER '''' E n4 s1 = (Inr (), m, s')"
      unfolding CreateAssignment_def by (auto simp: run_simps q_GetAction_def)
    have "db_targets s1"
      using wf target_found [OF t] ins
      by (auto simp: q_CreateAssignment_def run_simps Let_def insert_row_Inr db_targets_def target_exists_def)
    then show "db_targets s'" using au targets.audit_ordinary by (meson keepsD)
  qed
  then show ?thesis
    unfolding CreateAssignment_def by (rule keeps_atomic [rotated]) (intro prog_rules)
qed

text \<open>Deleting a device or a group deletes what is assigned to it first.\<close>

lemma del_target:
  "q_DeleteAssignmentsForTarget ty i E n s = (Inr u, n1, s1) \<Longrightarrow>
    s1 = s\<lparr>assignments := del_rows (\<lambda>a. asg_target_type a = ty \<and> asg_target_id a = i) (assignments s)\<rparr>"
  by (simp add: q_DeleteAssignmentsForTarget_def run_simps)

lemma DeleteDevice_targets: "keeps db_targets (DeleteDevice ctx i)"
proof -
  have "keeps_ok db_targets (DeleteDevice ctx i)"
  proof (rule keeps_okI)
    fix E n s x n' s'
    assume wf: "db_targets s" and run: "DeleteDevice ctx i E n s = (Inr x, n', s')"
    from run obtain n1 n2 n3 s1 s2 m where
      d1: "q_DeleteAssignmentsForTarget ASSIGNMENT_TARGET_TYPE_DEVICE i E n1 s = (Inr (), n2, s1)"
      and d2: "q_DeleteDevice i E n2 s1 = (Inr 1, n3, s2)"
      and au: "audit ctx AUDIT_EVENT_TYPE_DEVICE_DELETED AUDIT_STREAM_TYPE_DEVICE i AUDIT_ACTOR_TYPE_USER '''' E n3 s2 = (Inr (), m, s')"
      unfolding DeleteDevice_def by (auto simp: run_simps)
    have "db_targets s2"
      using wf del_target [OF d1] d2 by (auto simp: q_DeleteDevice_def run_simps db_targets_def target_exists_def)
    then show "db_targets s'" using au targets.audit_ordinary by (meson keepsD)
  qed
  then show ?thesis
    unfolding DeleteDevice_def by (rule keeps_atomic [rotated]) (intro prog_rules)
qed

lemma DeleteDeviceGroup_targets: "keeps db_targets (DeleteDeviceGroup ctx i)"
proof -
  have "keeps_ok db_targets (DeleteDeviceGroup ctx i)"
  proof (rule keeps_okI)
    fix E n s x n' s'
    assume wf: "db_targets s" and run: "DeleteDeviceGroup ctx i E n s = (Inr x, n', s')"
    from run obtain n1 n2 n3 s1 s2 m where
      d1: "q_DeleteAssignmentsForTarget ASSIGNMENT_TARGET_TYPE_DEVICE_GROUP i E n1 s = (Inr (), n2, s1)"
      and d2: "q_DeleteDeviceGroup i E n2 s1 = (Inr 1, n3, s2)"
      and au: "audit ctx AUDIT_EVENT_TYPE_DEVICE_GROUP_DELETED AUDIT_STREAM_TYPE_DEVICE_GROUP i AUDIT_ACTOR_TYPE_USER '''' E n3 s2 = (Inr (), m, s')"
      unfolding DeleteDeviceGroup_def by (auto simp: run_simps)
    have "db_targets s2"
      using wf del_target [OF d1] d2 by (auto simp: q_DeleteDeviceGroup_def run_simps db_targets_def target_exists_def)
    then show "db_targets s'" using au targets.audit_ordinary by (meson keepsD)
  qed
  then show ?thesis
    unfolding DeleteDeviceGroup_def by (rule keeps_atomic [rotated]) (intro prog_rules)
qed

text \<open>What is stored as an action is the serialisation of a validated one.\<close>

lemma CreateAction_actions: "codec_laws (svc_codec svc) \<Longrightarrow> keeps (db_actions (svc_codec svc)) (CreateAction svc ctx req)"
proof -
  assume C: "codec_laws (svc_codec svc)"
  have "keeps_ok (db_actions (svc_codec svc)) (CreateAction svc ctx req)"
  proof (rule keeps_okI)
    fix E n s x n' s'
    assume wf: "db_actions (svc_codec svc) s" and run: "CreateAction svc ctx req E n s = (Inr x, n', s')"
    from run obtain a i blob r s1 n1 n2 u n3 where
      a: "validateSpec (ca_spec req) = Inr a"
      and b: "marshal (svc_codec svc) (a\<lparr>act_id := Some i\<rparr>) = Inr blob"
      and ins: "q_CreateAction i (ca_name req) (ca_description req) blob E n1 s = (Inr r, n2, s1)"
      and au: "audit ctx AUDIT_EVENT_TYPE_ACTION_CREATED AUDIT_STREAM_TYPE_ACTION (ac_id r) AUDIT_ACTOR_TYPE_USER '''' E n2 s1 = (Inr u, n3, s')"
      by (auto simp: CreateAction_def createActionParams_def run_simps split: prod.splits)
    have "db_actions (svc_codec svc) s1"
      using wf ins executable_marshalled [OF C b] validateSpec_valid [OF a]
      by (auto simp: q_CreateAction_def run_simps Let_def insert_row_Inr db_actions_def stored_action_def)
    then show "db_actions (svc_codec svc) s'" using au stored_actions.audit_ordinary by (meson keepsD)
  qed
  then show ?thesis
    unfolding CreateAction_def createActionParams_def by (rule keeps_atomic [rotated]) (intro prog_rules)
qed

lemma ConfigureAction_actions: "codec_laws (svc_codec svc) \<Longrightarrow> keeps (db_actions (svc_codec svc)) (ConfigureAction svc ctx i sp)"
proof -
  assume C: "codec_laws (svc_codec svc)"
  have "keeps_ok (db_actions (svc_codec svc)) (ConfigureAction svc ctx i sp)"
  proof (rule keeps_okI)
    fix E n s x n' s'
    assume wf: "db_actions (svc_codec svc) s" and run: "ConfigureAction svc ctx i sp E n s = (Inr x, n', s')"
    from run obtain a k blob r s1 n1 n2 u n3 where
      a: "validateSpec sp = Inr a"
      and b: "marshal (svc_codec svc) (a\<lparr>act_id := Some k\<rparr>) = Inr blob"
      and upd: "q_ConfigureAction blob k E n1 s = (Inr r, n2, s1)"
      and au: "audit ctx AUDIT_EVENT_TYPE_ACTION_UPDATED AUDIT_STREAM_TYPE_ACTION i AUDIT_ACTOR_TYPE_USER '''' E n2 s1 = (Inr u, n3, s')"
      by (auto simp: ConfigureAction_def actionMutation_def configure_mutation_def q_GetAction_def run_simps)
    have "db_actions (svc_codec svc) s1"
      using wf upd executable_marshalled [OF C b] validateSpec_valid [OF a]
      by (auto simp: q_ConfigureAction_def run_simps update_one_Inr set_upd_rows db_actions_def stored_action_def)
    then show "db_actions (svc_codec svc) s'" using au stored_actions.audit_ordinary by (meson keepsD)
  qed
  then show ?thesis
    unfolding ConfigureAction_def actionMutation_def by (rule keeps_atomic [rotated]) (intro prog_rules)
qed

text \<open>What is stored as a result is the serialisation of the message that was checked.\<close>

lemma result_transaction_stored:
  assumes C: "codec_laws C" and b: "marshal_result C r = Some blob" and "res_completed_at r = Some completed"
    and "length (res_action_digest r) = 32" and "check_valid_time completed" and wf: "db_results C s"
    and run: "result_transaction C d r completed blob E n s = (Inr x, n', s')"
  shows "db_results C s'"
proof -
  have new: "stored_result C \<lparr>er_run_id = id_value (res_run_id r), er_device_id = d, er_action_id = id_value (res_action_id r),
      er_completed_at = completed, er_blob = blob\<rparr>"
    using assms(1-5) by (simp add: stored_result_def executionResultProto_def codec_result)
  show ?thesis
    using run wf new
    by (auto simp: result_transaction_def duplicate_result_def insert_result_def Let_def run_simps q_GetExecutionResult_def
        q_ListActionsForDevice_def q_CreateExecutionResult_def q_CreateAuditEvent_def insert_row_Inr db_results_def
        split: option.splits if_splits)
qed

lemma storeActionResult_results:
  "codec_laws (svc_codec svc) \<Longrightarrow> keeps (db_results (svc_codec svc)) (storeActionResult svc d r)"
proof -
  assume C: "codec_laws (svc_codec svc)"
  have "keeps_ok (db_results (svc_codec svc)) (storeActionResult svc d r)"
    by (rule keeps_okI)
      (auto simp: storeActionResult_def run_simps intro: result_transaction_stored [OF C] split: option.splits if_splits)
  moreover have "atomic (storeActionResult svc d r)"
    unfolding storeActionResult_def result_transaction_def by (intro prog_rules atomic_readonly)
  ultimately show ?thesis by (rule keeps_atomic [rotated])
qed

end
