(* ===== verification/Server_Requests.thy ===== *)
theory Server_Requests
  imports Server_Wf
begin

text \<open>
  The two listeners of \<^verbatim>\<open>server/cmd/cadestro/main.go\<close> (\<open>buildServers\<close>). The public one runs every control procedure behind the
  validation and the session interceptors; the agent one runs the agent's stream and the renewal of certificates behind the check
  of the client certificate. \<open>rpc\<close> is a request of the control service with its fields, \<open>serve\<close> the handler it is routed to
  (the generated \<^verbatim>\<open>NewControlServiceHandler\<close>), and \<open>srv_step\<close> one request served by either listener. Every state that is
  reached from the migrated database satisfies \<open>srv_wf\<close>.

  The schema rules that \<^verbatim>\<open>connectvalidate\<close> checks are the
  parameter \<open>dpl_valid\<close>; nothing below assumes anything of it.
\<close>

section \<open>Requests\<close>

datatype session_rpc =
    RegisterRpc register_request | RenewCertificateRpc bytes | RefreshTokenRpc string
  | LogoutRpc string | GetCurrentUserRpc | ListAuthMethodsRpc
  | GetSSOLoginURLRpc string string | SSOCallbackRpc sso_callback

datatype provider_rpc =
    CreateIdentityProviderRpc provider_request | GetIdentityProviderRpc string | ListIdentityProvidersRpc
  | RenameIdentityProviderRpc string string | ConfigureIdentityProviderRpc string provider_request | EnableIdentityProviderRpc string
  | DisableIdentityProviderRpc string | DeleteIdentityProviderRpc string

datatype device_rpc =
    ListDevicesRpc int string | GetDeviceRpc string | DeleteDeviceRpc string
  | CreateTokenRpc create_token_request | ListTokensRpc int string | RenameTokenRpc string string
  | DeleteTokenRpc string

datatype action_rpc =
    CreateActionRpc create_action_request | GetActionRpc string | ListActionsRpc int string
  | RenameActionRpc string string | SetActionDescriptionRpc string string | ConfigureActionRpc string action_spec
  | DeleteActionRpc string

datatype group_rpc =
    CreateDeviceGroupRpc string string | GetDeviceGroupRpc string | ListDeviceGroupsRpc int string
  | ListDeviceGroupsForDeviceRpc string | RenameDeviceGroupRpc string string | SetDeviceGroupDescriptionRpc string string
  | DeleteDeviceGroupRpc string | AddDeviceToGroupRpc string string | RemoveDeviceFromGroupRpc string string

datatype assignment_rpc =
    CreateAssignmentRpc string assignment_target_type string | DeleteAssignmentRpc string | ListAssignmentsRpc string assignment_target_type string
  | GetDeviceAssignmentsRpc string | GetDeviceComplianceRpc string | ListAuditEventsRpc int string
  | ListExecutionResultsRpc string int string

datatype role_rpc =
    CreateRoleRpc string string "permission list" | GetRoleRpc string | ListRolesRpc int string
  | RenameRoleRpc string string | SetRoleDescriptionRpc string string | GrantRolePermissionRpc string permission
  | RevokeRolePermissionRpc string permission | DeleteRoleRpc string | AssignRoleToUserRpc string string
  | RevokeRoleFromUserRpc string string | ListPermissionsRpc | ListUsersRpc int string
  | RevokeUserSessionsRpc string

datatype rpc =
    SessionRpc session_rpc | ProviderRpc provider_rpc | DeviceRpc device_rpc | ActionRpc action_rpc
  | GroupRpc group_rpc | AssignmentRpc assignment_rpc | RoleRpc role_rpc

record deployment =
  dpl_service :: service
  dpl_jwt :: jwt
  dpl_oidc :: oidc
  dpl_draw :: "nat \<Rightarrow> string option"
  dpl_valid :: "rpc \<Rightarrow> bool"
  dpl_ulid :: "string \<Rightarrow> bool" \<comment> \<open>\<^verbatim>\<open>ulid.ParseStrict\<close> accepts\<close>

definition done_with :: "'a srv \<Rightarrow> unit srv" where
  "done_with m = bnd m (\<lambda>_. ret ())"

primrec serve_session :: "deployment \<Rightarrow> go_ctx \<Rightarrow> session_rpc \<Rightarrow> unit srv" where
  "serve_session D ctx (RegisterRpc x) = done_with (Register (dpl_service D) x)"
| "serve_session D ctx (RenewCertificateRpc x) = done_with (RenewCertificate (dpl_service D) ctx x)"
| "serve_session D ctx (RefreshTokenRpc x) = done_with (RefreshToken (dpl_jwt D) x)"
| "serve_session D ctx (LogoutRpc x) = done_with (Logout (dpl_jwt D) x)"
| "serve_session D ctx GetCurrentUserRpc = done_with (GetCurrentUser ctx)"
| "serve_session D ctx ListAuthMethodsRpc = done_with (ListAuthMethods)"
| "serve_session D ctx (GetSSOLoginURLRpc x y) = done_with (GetSSOLoginURL (dpl_oidc D) (dpl_jwt D) (dpl_service D) x y)"
| "serve_session D ctx (SSOCallbackRpc x) = done_with (SSOCallback (dpl_oidc D) (dpl_jwt D) x)"

primrec serve_provider :: "deployment \<Rightarrow> go_ctx \<Rightarrow> provider_rpc \<Rightarrow> unit srv" where
  "serve_provider D ctx (CreateIdentityProviderRpc x) = done_with (CreateIdentityProvider (dpl_oidc D) (dpl_service D) ctx x)"
| "serve_provider D ctx (GetIdentityProviderRpc x) = done_with (GetIdentityProvider x)"
| "serve_provider D ctx ListIdentityProvidersRpc = done_with (ListIdentityProviders)"
| "serve_provider D ctx (RenameIdentityProviderRpc x y) = done_with (RenameIdentityProvider x y)"
| "serve_provider D ctx (ConfigureIdentityProviderRpc x y) = done_with (ConfigureIdentityProvider (dpl_oidc D) (dpl_service D) x y)"
| "serve_provider D ctx (EnableIdentityProviderRpc x) = done_with (EnableIdentityProvider (dpl_oidc D) (dpl_service D) x)"
| "serve_provider D ctx (DisableIdentityProviderRpc x) = done_with (DisableIdentityProvider x)"
| "serve_provider D ctx (DeleteIdentityProviderRpc x) = done_with (DeleteIdentityProvider x)"

primrec serve_device :: "deployment \<Rightarrow> go_ctx \<Rightarrow> device_rpc \<Rightarrow> unit srv" where
  "serve_device D ctx (ListDevicesRpc x y) = done_with (ListDevices (dpl_service D) x y)"
| "serve_device D ctx (GetDeviceRpc x) = done_with (GetDevice (dpl_service D) x)"
| "serve_device D ctx (DeleteDeviceRpc x) = done_with (DeleteDevice ctx x)"
| "serve_device D ctx (CreateTokenRpc x) = done_with (CreateToken (dpl_service D) ctx (dpl_draw D) x)"
| "serve_device D ctx (ListTokensRpc x y) = done_with (ListTokens x y)"
| "serve_device D ctx (RenameTokenRpc x y) = done_with (RenameToken ctx x y)"
| "serve_device D ctx (DeleteTokenRpc x) = done_with (DeleteToken ctx x)"

primrec serve_action :: "deployment \<Rightarrow> go_ctx \<Rightarrow> action_rpc \<Rightarrow> unit srv" where
  "serve_action D ctx (CreateActionRpc x) = done_with (CreateAction (dpl_service D) ctx x)"
| "serve_action D ctx (GetActionRpc x) = done_with (GetAction (dpl_service D) x)"
| "serve_action D ctx (ListActionsRpc x y) = done_with (ListActions (dpl_service D) x y)"
| "serve_action D ctx (RenameActionRpc x y) = done_with (RenameAction (dpl_service D) ctx x y)"
| "serve_action D ctx (SetActionDescriptionRpc x y) = done_with (SetActionDescription (dpl_service D) ctx x y)"
| "serve_action D ctx (ConfigureActionRpc x y) = done_with (ConfigureAction (dpl_service D) ctx x y)"
| "serve_action D ctx (DeleteActionRpc x) = done_with (DeleteAction ctx x)"

primrec serve_group :: "deployment \<Rightarrow> go_ctx \<Rightarrow> group_rpc \<Rightarrow> unit srv" where
  "serve_group D ctx (CreateDeviceGroupRpc x y) = done_with (CreateDeviceGroup ctx x y)"
| "serve_group D ctx (GetDeviceGroupRpc x) = done_with (GetDeviceGroup x)"
| "serve_group D ctx (ListDeviceGroupsRpc x y) = done_with (ListDeviceGroups x y)"
| "serve_group D ctx (ListDeviceGroupsForDeviceRpc x) = done_with (ListDeviceGroupsForDevice x)"
| "serve_group D ctx (RenameDeviceGroupRpc x y) = done_with (RenameDeviceGroup ctx x y)"
| "serve_group D ctx (SetDeviceGroupDescriptionRpc x y) = done_with (SetDeviceGroupDescription ctx x y)"
| "serve_group D ctx (DeleteDeviceGroupRpc x) = done_with (DeleteDeviceGroup ctx x)"
| "serve_group D ctx (AddDeviceToGroupRpc x y) = done_with (AddDeviceToGroup ctx x y)"
| "serve_group D ctx (RemoveDeviceFromGroupRpc x y) = done_with (RemoveDeviceFromGroup ctx x y)"

primrec serve_assignment :: "deployment \<Rightarrow> go_ctx \<Rightarrow> assignment_rpc \<Rightarrow> unit srv" where
  "serve_assignment D ctx (CreateAssignmentRpc x y z) = done_with (CreateAssignment ctx x y z)"
| "serve_assignment D ctx (DeleteAssignmentRpc x) = done_with (DeleteAssignment ctx x)"
| "serve_assignment D ctx (ListAssignmentsRpc x y z) = done_with (ListAssignments x y z)"
| "serve_assignment D ctx (GetDeviceAssignmentsRpc x) = done_with (GetDeviceAssignments (dpl_service D) x)"
| "serve_assignment D ctx (GetDeviceComplianceRpc x) = done_with (GetDeviceCompliance (dpl_service D) x)"
| "serve_assignment D ctx (ListAuditEventsRpc x y) = done_with (ListAuditEvents x y)"
| "serve_assignment D ctx (ListExecutionResultsRpc x y z) = done_with (ListExecutionResults (dpl_service D) (dpl_ulid D) x y z)"

primrec serve_role :: "deployment \<Rightarrow> go_ctx \<Rightarrow> role_rpc \<Rightarrow> unit srv" where
  "serve_role D ctx (CreateRoleRpc x y z) = done_with (CreateRole x y z)"
| "serve_role D ctx (GetRoleRpc x) = done_with (GetRole x)"
| "serve_role D ctx (ListRolesRpc x y) = done_with (ListRoles x y)"
| "serve_role D ctx (RenameRoleRpc x y) = done_with (RenameRole x y)"
| "serve_role D ctx (SetRoleDescriptionRpc x y) = done_with (SetRoleDescription x y)"
| "serve_role D ctx (GrantRolePermissionRpc x y) = done_with (GrantRolePermission x y)"
| "serve_role D ctx (RevokeRolePermissionRpc x y) = done_with (RevokeRolePermission x y)"
| "serve_role D ctx (DeleteRoleRpc x) = done_with (DeleteRole x)"
| "serve_role D ctx (AssignRoleToUserRpc x y) = done_with (AssignRoleToUser x y)"
| "serve_role D ctx (RevokeRoleFromUserRpc x y) = done_with (RevokeRoleFromUser x y)"
| "serve_role D ctx ListPermissionsRpc = done_with (ret ListPermissions)"
| "serve_role D ctx (ListUsersRpc x y) = done_with (ListUsers x y)"
| "serve_role D ctx (RevokeUserSessionsRpc x) = done_with (RevokeUserSessions ctx x)"

primrec serve :: "deployment \<Rightarrow> go_ctx \<Rightarrow> rpc \<Rightarrow> unit srv" where
  "serve D ctx (SessionRpc r) = serve_session D ctx r"
| "serve D ctx (ProviderRpc r) = serve_provider D ctx r"
| "serve D ctx (DeviceRpc r) = serve_device D ctx r"
| "serve D ctx (ActionRpc r) = serve_action D ctx r"
| "serve D ctx (GroupRpc r) = serve_group D ctx r"
| "serve D ctx (AssignmentRpc r) = serve_assignment D ctx r"
| "serve D ctx (RoleRpc r) = serve_role D ctx r"

primrec session_procedure :: "session_rpc \<Rightarrow> string" where
  "session_procedure (RegisterRpc x) = control ''Register''"
| "session_procedure (RenewCertificateRpc x) = control ''RenewCertificate''"
| "session_procedure (RefreshTokenRpc x) = control ''RefreshToken''"
| "session_procedure (LogoutRpc x) = control ''Logout''"
| "session_procedure GetCurrentUserRpc = control ''GetCurrentUser''"
| "session_procedure ListAuthMethodsRpc = control ''ListAuthMethods''"
| "session_procedure (GetSSOLoginURLRpc x y) = control ''GetSSOLoginURL''"
| "session_procedure (SSOCallbackRpc x) = control ''SSOCallback''"

primrec provider_procedure :: "provider_rpc \<Rightarrow> string" where
  "provider_procedure (CreateIdentityProviderRpc x) = control ''CreateIdentityProvider''"
| "provider_procedure (GetIdentityProviderRpc x) = control ''GetIdentityProvider''"
| "provider_procedure ListIdentityProvidersRpc = control ''ListIdentityProviders''"
| "provider_procedure (RenameIdentityProviderRpc x y) = control ''RenameIdentityProvider''"
| "provider_procedure (ConfigureIdentityProviderRpc x y) = control ''ConfigureIdentityProvider''"
| "provider_procedure (EnableIdentityProviderRpc x) = control ''EnableIdentityProvider''"
| "provider_procedure (DisableIdentityProviderRpc x) = control ''DisableIdentityProvider''"
| "provider_procedure (DeleteIdentityProviderRpc x) = control ''DeleteIdentityProvider''"

primrec device_procedure :: "device_rpc \<Rightarrow> string" where
  "device_procedure (ListDevicesRpc x y) = control ''ListDevices''"
| "device_procedure (GetDeviceRpc x) = control ''GetDevice''"
| "device_procedure (DeleteDeviceRpc x) = control ''DeleteDevice''"
| "device_procedure (CreateTokenRpc x) = control ''CreateToken''"
| "device_procedure (ListTokensRpc x y) = control ''ListTokens''"
| "device_procedure (RenameTokenRpc x y) = control ''RenameToken''"
| "device_procedure (DeleteTokenRpc x) = control ''DeleteToken''"

primrec action_procedure :: "action_rpc \<Rightarrow> string" where
  "action_procedure (CreateActionRpc x) = control ''CreateAction''"
| "action_procedure (GetActionRpc x) = control ''GetAction''"
| "action_procedure (ListActionsRpc x y) = control ''ListActions''"
| "action_procedure (RenameActionRpc x y) = control ''RenameAction''"
| "action_procedure (SetActionDescriptionRpc x y) = control ''SetActionDescription''"
| "action_procedure (ConfigureActionRpc x y) = control ''ConfigureAction''"
| "action_procedure (DeleteActionRpc x) = control ''DeleteAction''"

primrec group_procedure :: "group_rpc \<Rightarrow> string" where
  "group_procedure (CreateDeviceGroupRpc x y) = control ''CreateDeviceGroup''"
| "group_procedure (GetDeviceGroupRpc x) = control ''GetDeviceGroup''"
| "group_procedure (ListDeviceGroupsRpc x y) = control ''ListDeviceGroups''"
| "group_procedure (ListDeviceGroupsForDeviceRpc x) = control ''ListDeviceGroupsForDevice''"
| "group_procedure (RenameDeviceGroupRpc x y) = control ''RenameDeviceGroup''"
| "group_procedure (SetDeviceGroupDescriptionRpc x y) = control ''SetDeviceGroupDescription''"
| "group_procedure (DeleteDeviceGroupRpc x) = control ''DeleteDeviceGroup''"
| "group_procedure (AddDeviceToGroupRpc x y) = control ''AddDeviceToGroup''"
| "group_procedure (RemoveDeviceFromGroupRpc x y) = control ''RemoveDeviceFromGroup''"

primrec assignment_procedure :: "assignment_rpc \<Rightarrow> string" where
  "assignment_procedure (CreateAssignmentRpc x y z) = control ''CreateAssignment''"
| "assignment_procedure (DeleteAssignmentRpc x) = control ''DeleteAssignment''"
| "assignment_procedure (ListAssignmentsRpc x y z) = control ''ListAssignments''"
| "assignment_procedure (GetDeviceAssignmentsRpc x) = control ''GetDeviceAssignments''"
| "assignment_procedure (GetDeviceComplianceRpc x) = control ''GetDeviceCompliance''"
| "assignment_procedure (ListAuditEventsRpc x y) = control ''ListAuditEvents''"
| "assignment_procedure (ListExecutionResultsRpc x y z) = control ''ListExecutionResults''"

primrec role_procedure :: "role_rpc \<Rightarrow> string" where
  "role_procedure (CreateRoleRpc x y z) = control ''CreateRole''"
| "role_procedure (GetRoleRpc x) = control ''GetRole''"
| "role_procedure (ListRolesRpc x y) = control ''ListRoles''"
| "role_procedure (RenameRoleRpc x y) = control ''RenameRole''"
| "role_procedure (SetRoleDescriptionRpc x y) = control ''SetRoleDescription''"
| "role_procedure (GrantRolePermissionRpc x y) = control ''GrantRolePermission''"
| "role_procedure (RevokeRolePermissionRpc x y) = control ''RevokeRolePermission''"
| "role_procedure (DeleteRoleRpc x) = control ''DeleteRole''"
| "role_procedure (AssignRoleToUserRpc x y) = control ''AssignRoleToUser''"
| "role_procedure (RevokeRoleFromUserRpc x y) = control ''RevokeRoleFromUser''"
| "role_procedure ListPermissionsRpc = control ''ListPermissions''"
| "role_procedure (ListUsersRpc x y) = control ''ListUsers''"
| "role_procedure (RevokeUserSessionsRpc x) = control ''RevokeUserSessions''"

primrec procedure_of :: "rpc \<Rightarrow> string" where
  "procedure_of (SessionRpc r) = session_procedure r"
| "procedure_of (ProviderRpc r) = provider_procedure r"
| "procedure_of (DeviceRpc r) = device_procedure r"
| "procedure_of (ActionRpc r) = action_procedure r"
| "procedure_of (GroupRpc r) = group_procedure r"
| "procedure_of (AssignmentRpc r) = assignment_procedure r"
| "procedure_of (RoleRpc r) = role_procedure r"

section \<open>The listeners\<close>

definition public_call :: "deployment \<Rightarrow> string \<Rightarrow> rpc \<Rightarrow> unit srv" where
  "public_call D authorization rq = (
     if \<not> dpl_valid D rq then throw (ERpc CodeInvalidArgument ''validation error'')
     else bnd (WrapUnary (dpl_jwt D) (procedure_of rq) authorization background) (\<lambda>i.
       case i of Denied e \<Rightarrow> throw e | Next ctx \<Rightarrow> serve D ctx rq))"

datatype agent_request = StreamRequest "agent_message list" stream_end | RenewRequest bytes

fun agent_path :: "agent_request \<Rightarrow> string" where
  "agent_path (StreamRequest _ _) = ''/cadestro.v1.AgentService/Stream''"
| "agent_path (RenewRequest _) = control ''RenewCertificate''"

fun serve_agent :: "deployment \<Rightarrow> go_ctx \<Rightarrow> agent_request \<Rightarrow> unit srv" where
  "serve_agent D ctx (StreamRequest frames fin) = done_with (Stream (dpl_service D) ctx frames fin)"
| "serve_agent D ctx (RenewRequest csr) = (
     if \<not> dpl_valid D (SessionRpc (RenewCertificateRpc csr)) then throw (ERpc CodeInvalidArgument ''validation error'')
     else done_with (RenewCertificate (dpl_service D) ctx csr))"

definition agent_call :: "deployment \<Rightarrow> certificate list option \<Rightarrow> agent_request \<Rightarrow> unit srv" where
  "agent_call D tls rq = (case AgentMiddleware (agent_path rq) tls background of
     HttpError code t \<Rightarrow> throw (EText t)
   | Served ctx \<Rightarrow> serve_agent D ctx rq)"

section \<open>The database of a running server\<close>

text \<open>The rows the migration inserts: the two roles, one with every permission and one with \<^verbatim>\<open>GetCurrentUser\<close>.\<close>

definition migrated_db :: "int \<Rightarrow> srv_db" where
  "migrated_db t = \<lparr>identity_providers = [], users = [],
     roles = [
       \<lparr>role_id = administratorsRoleID, role_name = ''Administrators'', role_description = ''Full control-plane access'',
         role_created_at = t, role_updated_at = t\<rparr>,
       \<lparr>role_id = usersRoleID, role_name = ''Users'', role_description = ''Read current user'',
         role_created_at = t, role_updated_at = t\<rparr>],
     role_permissions = map (\<lambda>p. \<lparr>rp_role_id = administratorsRoleID, rp_permission = p\<rparr>) [1..46] @
       [\<lparr>rp_role_id = usersRoleID, rp_permission = PERMISSION_GET_CURRENT_USER\<rparr>],
     user_roles = [], identity_links = [], registration_tokens = [], devices = [], actions = [], device_groups = [],
     device_group_members = [], assignments = [], execution_results = [], audit_events = []\<rparr>"

text \<open>A frame of a stream that is open is a step of its own: other requests are served in between.\<close>

inductive srv_step :: "deployment \<Rightarrow> srv_db \<Rightarrow> srv_db \<Rightarrow> bool" for D where
  start: "EnsureBootstrapProvider (dpl_oidc D) (dpl_service D) b E n s = (r, n', s') \<Longrightarrow> srv_step D s s'"
| public: "public_call D authorization rq E n s = (r, n', s') \<Longrightarrow> srv_step D s s'"
| agent: "agent_call D tls rq E n s = (r, n', s') \<Longrightarrow> srv_step D s s'"
| frame: "handleAgentMessage (dpl_service D) d h m E n s = (r, n', s') \<Longrightarrow> srv_step D s s'"

inductive srv_reachable :: "deployment \<Rightarrow> srv_db \<Rightarrow> bool" for D where
  init: "srv_reachable D (migrated_db t)"
| step: "srv_reachable D s \<Longrightarrow> srv_step D s s' \<Longrightarrow> srv_reachable D s'"

definition srv_wf :: "codec \<Rightarrow> srv_db \<Rightarrow> bool" where
  "srv_wf C s \<longleftrightarrow> db_keys s \<and> db_refs s \<and> db_rows s \<and> db_targets s \<and> db_tokens s \<and> db_actions C s \<and> db_results C s"

section \<open>Every request keeps an invariant its statements keep\<close>

lemma keeps_done_with: "keeps I m \<Longrightarrow> keeps I (done_with m)"
  unfolding done_with_def by (intro keeps_bnd) (auto intro: keeps_readonly prog_rules)

lemma readonly_listings [prog_rules]:
  "readonly (GetCurrentUser ctx)" "readonly ListAuthMethods" "readonly (GetIdentityProvider i)" "readonly ListIdentityProviders"
  "readonly (ListDevices svc k tok)" "readonly (GetDevice svc i)" "readonly (ListTokens k tok)" "readonly (GetAction svc i)"
  "readonly (ListActions svc k tok)" "readonly (GetDeviceGroup i)" "readonly (ListDeviceGroups k tok)"
  "readonly (ListDeviceGroupsForDevice i)" "readonly (ListAssignments act ty target)" "readonly (GetDeviceAssignments svc i)"
  "readonly (GetDeviceCompliance svc i)" "readonly (ListAuditEvents k tok)" "readonly (GetRole i)" "readonly (ListRoles k tok)"
  "readonly (ListUsers k tok)" "readonly (GetSSOLoginURL P J svc slug redirect)" "readonly (ListExecutionResults svc ok i k tok)"
  unfolding GetCurrentUser_def ListAuthMethods_def GetIdentityProvider_def ListIdentityProviders_def ListDevices_def deviceProto_def
    deviceCompliance_def GetDevice_def ListTokens_def GetAction_def ListActions_def GetDeviceGroup_def ListDeviceGroups_def
    ListDeviceGroupsForDevice_def ListAssignments_def GetDeviceAssignments_def require_device_def GetDeviceCompliance_def
    ListAuditEvents_def GetRole_def ListRoles_def roleProto_def ListUsers_def userProto_def GetSSOLoginURL_def start_login_def
    provider_client_def ListExecutionResults_def Let_def
  by (intro prog_rules)+

locale served = ordinary I for I :: "srv_db \<Rightarrow> bool" +
  fixes D :: deployment
  assumes special:
    "keeps I (CreateAction (dpl_service D) ctx car)" "keeps I (ConfigureAction (dpl_service D) ctx a1 sp)"
    "keeps I (CreateAssignment ctx a1 ty1 a2)" "keeps I (DeleteDevice ctx a1)" "keeps I (DeleteDeviceGroup ctx a1)"
    "keeps I (Register (dpl_service D) rr)" "keeps I (storeActionResult (dpl_service D) a1 res)"
    "keeps I (DeleteIdentityProvider a1)"
begin

lemmas handlers = actions_ordinary assignments_ordinary devices_ordinary roles_ordinary login_ordinary renewal_ordinary special

lemma serve_groups:
  "keeps I (serve_session D ctx q0)"
  "keeps I (serve_provider D ctx q1)"
  "keeps I (serve_device D ctx q2)"
  "keeps I (serve_action D ctx q3)"
  "keeps I (serve_group D ctx q4)"
  "keeps I (serve_assignment D ctx q5)"
  "keeps I (serve_role D ctx q6)"
  subgoal by (cases q0) (auto intro!: keeps_done_with handlers intro: keeps_readonly readonly_listings readonly_basic)
  subgoal by (cases q1) (auto intro!: keeps_done_with handlers intro: keeps_readonly readonly_listings readonly_basic)
  subgoal by (cases q2) (auto intro!: keeps_done_with handlers intro: keeps_readonly readonly_listings readonly_basic)
  subgoal by (cases q3) (auto intro!: keeps_done_with handlers intro: keeps_readonly readonly_listings readonly_basic)
  subgoal by (cases q4) (auto intro!: keeps_done_with handlers intro: keeps_readonly readonly_listings readonly_basic)
  subgoal by (cases q5) (auto intro!: keeps_done_with handlers intro: keeps_readonly readonly_listings readonly_basic)
  subgoal by (cases q6) (auto intro!: keeps_done_with handlers intro: keeps_readonly readonly_listings readonly_basic)
  done

lemma serve_keeps: "keeps I (serve D ctx rq)"
  by (cases rq) (simp_all add: serve_groups)

lemma public_keeps: "keeps I (public_call D authorization rq)"
proof -
  have "keeps I (case i of Denied e \<Rightarrow> throw e | Next ctx \<Rightarrow> serve D ctx rq)" for i
    by (cases i) (auto intro: serve_keeps keeps_leaves)
  then show ?thesis
    unfolding public_call_def by (intro keeps_compose keeps_leaves keeps_readonly [OF readonly_interceptor])
qed

lemma agent_keeps: "keeps I (agent_call D tls rq)"
proof -
  have "keeps I (serve_agent D ctx rq)" for ctx
    by (cases rq) (auto intro!: keeps_done_with Stream_keeps handlers intro: keeps_leaves)
  then show ?thesis
    unfolding agent_call_def by (cases "AgentMiddleware (agent_path rq) tls background") (auto intro: keeps_leaves)
qed

lemma frame_keeps: "keeps I (handleAgentMessage (dpl_service D) d h m)"
  by (rule handleAgentMessage_keeps, rule special)

lemma step_keeps: "srv_step D s s' \<Longrightarrow> I s \<Longrightarrow> I s'"
  by (cases rule: srv_step.cases)
    (auto dest: keepsD [OF login_ordinary(5), rotated] keepsD [OF public_keeps, rotated] keepsD [OF agent_keeps, rotated]
      keepsD [OF frame_keeps, rotated])

lemma reachable_invariant: "srv_reachable D s \<Longrightarrow> (\<And>t. I (migrated_db t)) \<Longrightarrow> I s"
  by (induction rule: srv_reachable.induct) (simp_all add: step_keeps)

end

section \<open>The parts of the invariant\<close>

text \<open>An invariant of every statement is one of every handler.\<close>

locale regular = ordinary I for I :: "srv_db \<Rightarrow> bool" +
  assumes others:
    "keeps I (q_DeleteIdentityProvider a1)" "keeps I (q_ConsumeRegistrationToken a1 k1)" "keeps I (q_DeleteDevice a1)"
    "keeps I (q_CreateAction a1 a2 a3 bl)" "keeps I (q_ConfigureAction bl a1)" "keeps I (q_DeleteDeviceGroup a1)"
    "keeps I (q_CreateAssignment a1 a2 ty1 a3)" "keeps I (q_CreateExecutionResult a1 a2 a3 k1 bl)"

sublocale regular \<subseteq> served I D for D
  by unfold_locales
    (rule CreateAction_keeps ConfigureAction_keeps CreateAssignment_keeps DeleteDevice_keeps DeleteDeviceGroup_keeps Register_keeps
      storeActionResult_keeps DeleteIdentityProvider_keeps, (rule consume_keeps)?, rule others)+

interpretation keys: regular db_keys
  by unfold_locales (rule keeps_keys)+

interpretation refs: regular db_refs
  by unfold_locales (rule keeps_refs)+

interpretation rows: regular db_rows
  by unfold_locales (rule keeps_rows)+

interpretation targets: served db_targets D for D
proof unfold_locales
  fix ctx car sp a1 a2 ty1 rr res
  show "keeps db_targets (CreateAction (dpl_service D) ctx car)" "keeps db_targets (ConfigureAction (dpl_service D) ctx a1 sp)"
    "keeps db_targets (storeActionResult (dpl_service D) a1 res)" "keeps db_targets (DeleteIdentityProvider a1)"
    by (rule targets.CreateAction_keeps targets.ConfigureAction_keeps targets.storeActionResult_keeps
      targets.DeleteIdentityProvider_keeps, rule keeps_targets)+
  show "keeps db_targets (Register (dpl_service D) rr)"
    by (rule targets.Register_keeps, rule targets.consume_keeps, rule keeps_targets)
qed (rule CreateAssignment_targets DeleteDevice_targets DeleteDeviceGroup_targets)+

lemma keeps_tokens_inv: "keeps db_keys m \<Longrightarrow> keeps db_tokens m \<Longrightarrow> keeps tokens_inv m"
  unfolding tokens_inv_eq by (rule keeps_conj)

interpretation limited_tokens: served tokens_inv D for D
proof unfold_locales
  fix ctx car sp a1 a2 ty1 rr res
  show "keeps tokens_inv (Register (dpl_service D) rr)"
    by (rule limited_tokens.Register_keeps, rule consume_tokens)
qed (rule limited_tokens.CreateAction_keeps limited_tokens.ConfigureAction_keeps limited_tokens.CreateAssignment_keeps
  limited_tokens.DeleteDevice_keeps limited_tokens.DeleteDeviceGroup_keeps limited_tokens.storeActionResult_keeps
  limited_tokens.DeleteIdentityProvider_keeps;
  rule keeps_tokens_inv, rule keeps_keys, rule keeps_tokens)+

lemma served_actions: "codec_laws (svc_codec (dpl_service D)) \<Longrightarrow> served (db_actions (svc_codec (dpl_service D))) D"
proof unfold_locales
  fix ctx car sp a1 a2 ty1 rr res
  assume C: "codec_laws (svc_codec (dpl_service D))"
  show "keeps (db_actions (svc_codec (dpl_service D))) (CreateAction (dpl_service D) ctx car)"
    "keeps (db_actions (svc_codec (dpl_service D))) (ConfigureAction (dpl_service D) ctx a1 sp)"
    using C by (rule CreateAction_actions ConfigureAction_actions)+
  show "keeps (db_actions (svc_codec (dpl_service D))) (Register (dpl_service D) rr)"
    by (rule stored_actions.Register_keeps, rule stored_actions.consume_keeps, rule keeps_actions)
qed (rule stored_actions.CreateAssignment_keeps stored_actions.DeleteDevice_keeps stored_actions.DeleteDeviceGroup_keeps
  stored_actions.storeActionResult_keeps stored_actions.DeleteIdentityProvider_keeps, rule keeps_actions)+

lemma served_results: "codec_laws (svc_codec (dpl_service D)) \<Longrightarrow> served (db_results (svc_codec (dpl_service D))) D"
proof unfold_locales
  fix ctx car sp a1 a2 ty1 rr res
  assume C: "codec_laws (svc_codec (dpl_service D))"
  then show "keeps (db_results (svc_codec (dpl_service D))) (storeActionResult (dpl_service D) a1 res)"
    by (rule storeActionResult_results)
  show "keeps (db_results (svc_codec (dpl_service D))) (Register (dpl_service D) rr)"
    by (rule stored_results.Register_keeps, rule stored_results.consume_keeps, rule keeps_results)
qed (rule stored_results.CreateAction_keeps stored_results.ConfigureAction_keeps stored_results.CreateAssignment_keeps
  stored_results.DeleteDevice_keeps stored_results.DeleteDeviceGroup_keeps
  stored_results.DeleteIdentityProvider_keeps, rule keeps_results)+

lemma migrated_wf: "srv_wf C (migrated_db t)"
  by (auto simp: srv_wf_def migrated_db_def db_keys_def db_refs_def db_rows_def db_targets_def db_tokens_def db_actions_def
      db_results_def administratorsRoleID_def usersRoleID_def exists_row_def distinct_map inj_on_def)

lemma reachable_wf:
  assumes C: "codec_laws (svc_codec (dpl_service D))" and reach: "srv_reachable D s"
  shows "srv_wf (svc_codec (dpl_service D)) s"
proof -
  have init: "db_keys (migrated_db t)" "db_refs (migrated_db t)" "db_rows (migrated_db t)" "db_targets (migrated_db t)"
    "tokens_inv (migrated_db t)" "db_actions C (migrated_db t)" "db_results C (migrated_db t)" for t C
    using migrated_wf [of C t] by (simp_all add: srv_wf_def tokens_inv_def)
  have "tokens_inv s" using limited_tokens.reachable_invariant [OF reach init(5)] .
  then show ?thesis
    using keys.reachable_invariant [OF reach init(1)] refs.reachable_invariant [OF reach init(2)]
      rows.reachable_invariant [OF reach init(3)] targets.reachable_invariant [OF reach init(4)]
      served.reachable_invariant [OF served_actions [OF C] reach init(6)]
      served.reachable_invariant [OF served_results [OF C] reach init(7)]
    by (simp add: srv_wf_def tokens_inv_def)
qed

section \<open>A failed request changes nothing\<close>

text \<open>The handlers of these two write before their last fallible step.\<close>

definition commits_early :: "rpc \<Rightarrow> bool" where
  "commits_early rq \<longleftrightarrow> procedure_of rq \<in> {control ''RefreshToken'', control ''SSOCallback''}"

lemma atomic_done_with [prog_rules]: "atomic m \<Longrightarrow> atomic (done_with m)"
  unfolding done_with_def by (rule atomic_bnd_ret)

lemma atomic_statements [prog_rules]:
  "atomic (q_RotateUserSession a1 k1)" "atomic (q_RenameIdentityProvider a1 a2)" "atomic (q_ConfigureIdentityProvider a1 a2 l1 a3)"
  "atomic (q_EnableIdentityProvider a1)" "atomic (q_DisableIdentityProvider a1)"
  unfolding q_RotateUserSession_def q_RenameIdentityProvider_def q_ConfigureIdentityProvider_def q_EnableIdentityProvider_def
    q_DisableIdentityProvider_def update_provider_def
  by (rule prog_rules)+

lemmas atomic_rules = atomic_bnd_ret atomic_done_with atomic_map_err atomic_branch prod_rules(2) Transaction_rules(1) atomic_statements
  atomic_bnd_readonly readonly_basic readonly_statements readonly_listings readonly_issue readonly_tokens readonly_oidc readonly_event
  readonly_optional readonly_bnd readonly_map_err readonly_case prod_rules(1) atomic_readonly

lemma atomic_actions:
  "atomic (CreateAction svc ctx car)" "atomic (RenameAction svc ctx i a)" "atomic (SetActionDescription svc ctx i a)"
  "atomic (ConfigureAction svc ctx i sp)" "atomic (DeleteAction ctx i)" "atomic (CreateAssignment ctx act ty target)"
  "atomic (DeleteAssignment ctx i)"
  unfolding CreateAction_def createActionParams_def RenameAction_def SetActionDescription_def ConfigureAction_def actionMutation_def
    DeleteAction_def CreateAssignment_def DeleteAssignment_def
  by (intro atomic_rules)+

lemma atomic_devices:
  "atomic (DeleteDevice ctx i)" "atomic (CreateToken svc ctx draw ctr)" "atomic (RenameToken ctx i a)" "atomic (DeleteToken ctx i)"
  "atomic (CreateDeviceGroup ctx a b)" "atomic (RenameDeviceGroup ctx i a)" "atomic (SetDeviceGroupDescription ctx i a)"
  "atomic (DeleteDeviceGroup ctx i)" "atomic (AddDeviceToGroup ctx i a)" "atomic (RemoveDeviceFromGroup ctx i a)"
proof -
  have draw: "readonly (registrationToken C draw)" for C draw
    by (simp add: readonly_def registrationToken_def)
  show "atomic (DeleteDevice ctx i)" "atomic (CreateToken svc ctx draw ctr)" "atomic (RenameToken ctx i a)" "atomic (DeleteToken ctx i)"
    "atomic (CreateDeviceGroup ctx a b)" "atomic (RenameDeviceGroup ctx i a)" "atomic (SetDeviceGroupDescription ctx i a)"
    "atomic (DeleteDeviceGroup ctx i)" "atomic (AddDeviceToGroup ctx i a)" "atomic (RemoveDeviceFromGroup ctx i a)"
    unfolding DeleteDevice_def CreateToken_def create_token_def RenameToken_def DeleteToken_def CreateDeviceGroup_def
      RenameDeviceGroup_def SetDeviceGroupDescription_def groupMutation_def DeleteDeviceGroup_def AddDeviceToGroup_def
      RemoveDeviceFromGroup_def
    by (intro atomic_rules draw)+
qed

lemma atomic_roles:
  "atomic (CreateRole a b ps)" "atomic (RenameRole i a)" "atomic (SetRoleDescription i a)" "atomic (GrantRolePermission i p)"
  "atomic (RevokeRolePermission i p)" "atomic (DeleteRole i)" "atomic (AssignRoleToUser u i)" "atomic (RevokeRoleFromUser u i)"
  "atomic (RevokeUserSessions ctx u)"
  unfolding CreateRole_def RenameRole_def SetRoleDescription_def GrantRolePermission_def RevokeRolePermission_def DeleteRole_def
    AssignRoleToUser_def RevokeRoleFromUser_def RevokeUserSessions_def roleMutation_def
  by (intro atomic_rules)+

lemma atomic_sessions:
  "atomic (Logout J tok)" "atomic (CreateIdentityProvider P svc ctx r)" "atomic (RenameIdentityProvider i a)"
  "atomic (ConfigureIdentityProvider P svc i r)" "atomic (EnableIdentityProvider P svc i)" "atomic (DisableIdentityProvider i)"
  "atomic (DeleteIdentityProvider i)" "atomic (Register svc rr)" "atomic (RenewCertificate svc ctx csr)"
  unfolding Logout_def CreateIdentityProvider_def RenameIdentityProvider_def ConfigureIdentityProvider_def EnableIdentityProvider_def
    DisableIdentityProvider_def DeleteIdentityProvider_def Register_def register_device_def RenewCertificate_def Let_def refresh_claims_def
  by (intro atomic_rules)+

lemmas atomic_handlers = atomic_actions atomic_devices atomic_roles atomic_sessions

lemma atomic_groups:
  "\<not> commits_early (SessionRpc q0) \<Longrightarrow> atomic (serve_session D ctx q0)"
  "atomic (serve_provider D ctx q1)"
  "atomic (serve_device D ctx q2)"
  "atomic (serve_action D ctx q3)"
  "atomic (serve_group D ctx q4)"
  "atomic (serve_assignment D ctx q5)"
  "atomic (serve_role D ctx q6)"
  subgoal by (cases q0) (auto simp: commits_early_def intro!: atomic_done_with atomic_handlers intro: atomic_readonly readonly_listings readonly_basic)
  subgoal by (cases q1) (auto simp: commits_early_def intro!: atomic_done_with atomic_handlers intro: atomic_readonly readonly_listings readonly_basic)
  subgoal by (cases q2) (auto simp: commits_early_def intro!: atomic_done_with atomic_handlers intro: atomic_readonly readonly_listings readonly_basic)
  subgoal by (cases q3) (auto simp: commits_early_def intro!: atomic_done_with atomic_handlers intro: atomic_readonly readonly_listings readonly_basic)
  subgoal by (cases q4) (auto simp: commits_early_def intro!: atomic_done_with atomic_handlers intro: atomic_readonly readonly_listings readonly_basic)
  subgoal by (cases q5) (auto simp: commits_early_def intro!: atomic_done_with atomic_handlers intro: atomic_readonly readonly_listings readonly_basic)
  subgoal by (cases q6) (auto simp: commits_early_def intro!: atomic_done_with atomic_handlers intro: atomic_readonly readonly_listings readonly_basic)
  done

lemma serve_atomic: "\<not> commits_early rq \<Longrightarrow> atomic (serve D ctx rq)"
  by (cases rq) (simp_all add: atomic_groups)

end
