(* ===== verification/Server_History.thy ===== *)
theory Server_History
  imports Server_Requests
begin

text \<open>
  What no later request undoes, whichever requests are served in between (\<open>later\<close>): the audit log only grows, a session
  version that was passed stays passed, and a server with an identity provider keeps one. The first two are invariants of
  every statement (\<open>regular\<close>), the third needs the guard of \<^verbatim>\<open>DeleteIdentityProvider\<close>.
\<close>

lemma find_SomeD: "List.find p xs = Some x \<Longrightarrow> x \<in> set xs \<and> p x"
  by (auto simp: find_Some_iff)

section \<open>Later states\<close>

abbreviation later :: "deployment \<Rightarrow> srv_db \<Rightarrow> srv_db \<Rightarrow> bool" where
  "later D \<equiv> (srv_step D)\<^sup>*\<^sup>*"

context served
begin

lemma later_keeps: "later D s s' \<Longrightarrow> I s \<Longrightarrow> I s'"
  by (induction rule: rtranclp_induct) (auto intro: step_keeps)

end

section \<open>The audit log\<close>

definition log_extends :: "audit_event list \<Rightarrow> srv_db \<Rightarrow> bool" where
  "log_extends old s \<longleftrightarrow> (\<exists>more. audit_events s = old @ more)"

lemma keeps_log:
  "keeps (log_extends old) (q_CreateIdentityProvider a1 a2 a3 b1 a4 a5 l1)"
  "keeps (log_extends old) (q_ConfigureIdentityProvider a1 a2 l1 a3)"
  "keeps (log_extends old) (q_RenameIdentityProvider a1 a2)" "keeps (log_extends old) (q_EnableIdentityProvider a1)"
  "keeps (log_extends old) (q_DisableIdentityProvider a1)" "keeps (log_extends old) (q_DeleteIdentityProvider a1)"
  "keeps (log_extends old) (q_CreateUser a1 a2 a3 k1)" "keeps (log_extends old) (q_LinkIdentity a1 a2 a3)"
  "keeps (log_extends old) (q_UpdateIdentityUserLogin a1 a2 k1 a3 a4)"
  "keeps (log_extends old) (q_RotateUserSession a1 k1)" "keeps (log_extends old) (q_CreateRole a1 a2 a3)"
  "keeps (log_extends old) (q_RenameRole a1 a2)" "keeps (log_extends old) (q_SetRoleDescription a1 a2)"
  "keeps (log_extends old) (q_DeleteRole a1)" "keeps (log_extends old) (q_GrantRolePermission k1 a1)"
  "keeps (log_extends old) (q_RevokeRolePermission a1 k1)" "keeps (log_extends old) (q_TouchRole a1)"
  "keeps (log_extends old) (q_AssignInitialRole a1 a2 a3)" "keeps (log_extends old) (q_AssignRoleToUser a1 a2)"
  "keeps (log_extends old) (q_RevokeRoleFromUser a1 a2)" "keeps (log_extends old) (q_BumpSessionsForRole a1)"
  "keeps (log_extends old) (q_RotateUserSessionByID a1)"
  "keeps (log_extends old) (q_CreateRegistrationToken a1 a2 a3 k1 k2)"
  "keeps (log_extends old) (q_ConsumeRegistrationToken a1 k1)"
  "keeps (log_extends old) (q_ConsumeFinalRegistrationToken a1 k1)"
  "keeps (log_extends old) (q_RenameRegistrationToken a1 a2)" "keeps (log_extends old) (q_DeleteRegistrationToken a1)"
  "keeps (log_extends old) (q_CreateDevice a1 a2 a3 a4 a5 a6 k1 k2)"
  "keeps (log_extends old) (q_SetPendingDeviceCertificate a1 a2 k1 a3 a4)"
  "keeps (log_extends old) (q_PromotePendingDeviceCertificate a1 a2)"
  "keeps (log_extends old) (q_TouchDevice a1 a2 k1 a3)" "keeps (log_extends old) (q_DeleteDevice a1)"
  "keeps (log_extends old) (q_DeleteAssignmentsForTarget ty1 a1)"
  "keeps (log_extends old) (q_CreateAction a1 a2 a3 a4)" "keeps (log_extends old) (q_RenameAction a1 a2)"
  "keeps (log_extends old) (q_SetActionDescription a1 a2)" "keeps (log_extends old) (q_ConfigureAction a1 a2)"
  "keeps (log_extends old) (q_DeleteAction a1)" "keeps (log_extends old) (q_CreateDeviceGroup a1 a2 a3)"
  "keeps (log_extends old) (q_RenameDeviceGroup a1 a2)" "keeps (log_extends old) (q_SetDeviceGroupDescription a1 a2)"
  "keeps (log_extends old) (q_TouchDeviceGroup a1)" "keeps (log_extends old) (q_DeleteDeviceGroup a1)"
  "keeps (log_extends old) (q_AddDeviceToGroup a1 a2)" "keeps (log_extends old) (q_RemoveDeviceFromGroup a1 a2)"
  "keeps (log_extends old) (q_CreateAssignment a1 a2 ty1 a3)" "keeps (log_extends old) (q_DeleteAssignment a1)"
  "keeps (log_extends old) (q_CreateExecutionResult a1 a2 a3 k1 a4)"
  "keeps (log_extends old) (q_CreateAuditEvent ev1)"
  unfolding write_defs
  by ((rule keeps_sql_nowI | rule keeps_sqlI);
      auto simp: log_extends_def update_one_Inr insert_row_Inr Let_def split: option.splits if_splits)+

interpretation audit_log: regular "log_extends old" for old
  by unfold_locales (rule keeps_log)+

section \<open>Session versions\<close>

definition session_at_least :: "string \<Rightarrow> int \<Rightarrow> srv_db \<Rightarrow> bool" where
  "session_at_least u v s \<longleftrightarrow> (\<exists>r\<in>set (users s). usr_id r = u \<and> v \<le> usr_session_version r)"

lemma bump_session_simps [simp]:
  "usr_id (bump_session t r) = usr_id r" "usr_session_version (bump_session t r) = usr_session_version r + 1"
  by (simp_all add: bump_session_def)

lemma session_upd:
  assumes "r \<in> set rs" and "v \<le> usr_session_version r"
    and "\<And>x. usr_id (f x) = usr_id x" and "\<And>x. usr_session_version x \<le> usr_session_version (f x)"
  shows "\<exists>x\<in>set (upd_rows p f rs). usr_id x = usr_id r \<and> v \<le> usr_session_version x"
proof -
  have "(if p r then f r else r) \<in> set (upd_rows p f rs)" using assms(1) by (auto simp: set_upd_rows)
  then show ?thesis using assms(2-) by (intro bexI) (auto intro: order_trans)
qed

lemma keeps_session:
  "keeps (session_at_least u v) (q_CreateIdentityProvider a1 a2 a3 b1 a4 a5 l1)"
  "keeps (session_at_least u v) (q_ConfigureIdentityProvider a1 a2 l1 a3)"
  "keeps (session_at_least u v) (q_RenameIdentityProvider a1 a2)"
  "keeps (session_at_least u v) (q_EnableIdentityProvider a1)"
  "keeps (session_at_least u v) (q_DisableIdentityProvider a1)"
  "keeps (session_at_least u v) (q_DeleteIdentityProvider a1)"
  "keeps (session_at_least u v) (q_CreateUser a1 a2 a3 k1)" "keeps (session_at_least u v) (q_LinkIdentity a1 a2 a3)"
  "keeps (session_at_least u v) (q_UpdateIdentityUserLogin a1 a2 k1 a3 a4)"
  "keeps (session_at_least u v) (q_RotateUserSession a1 k1)" "keeps (session_at_least u v) (q_CreateRole a1 a2 a3)"
  "keeps (session_at_least u v) (q_RenameRole a1 a2)" "keeps (session_at_least u v) (q_SetRoleDescription a1 a2)"
  "keeps (session_at_least u v) (q_DeleteRole a1)" "keeps (session_at_least u v) (q_GrantRolePermission k1 a1)"
  "keeps (session_at_least u v) (q_RevokeRolePermission a1 k1)" "keeps (session_at_least u v) (q_TouchRole a1)"
  "keeps (session_at_least u v) (q_AssignInitialRole a1 a2 a3)"
  "keeps (session_at_least u v) (q_AssignRoleToUser a1 a2)"
  "keeps (session_at_least u v) (q_RevokeRoleFromUser a1 a2)"
  "keeps (session_at_least u v) (q_BumpSessionsForRole a1)"
  "keeps (session_at_least u v) (q_RotateUserSessionByID a1)"
  "keeps (session_at_least u v) (q_CreateRegistrationToken a1 a2 a3 k1 k2)"
  "keeps (session_at_least u v) (q_ConsumeRegistrationToken a1 k1)"
  "keeps (session_at_least u v) (q_ConsumeFinalRegistrationToken a1 k1)"
  "keeps (session_at_least u v) (q_RenameRegistrationToken a1 a2)"
  "keeps (session_at_least u v) (q_DeleteRegistrationToken a1)"
  "keeps (session_at_least u v) (q_CreateDevice a1 a2 a3 a4 a5 a6 k1 k2)"
  "keeps (session_at_least u v) (q_SetPendingDeviceCertificate a1 a2 k1 a3 a4)"
  "keeps (session_at_least u v) (q_PromotePendingDeviceCertificate a1 a2)"
  "keeps (session_at_least u v) (q_TouchDevice a1 a2 k1 a3)" "keeps (session_at_least u v) (q_DeleteDevice a1)"
  "keeps (session_at_least u v) (q_DeleteAssignmentsForTarget ty1 a1)"
  "keeps (session_at_least u v) (q_CreateAction a1 a2 a3 a4)" "keeps (session_at_least u v) (q_RenameAction a1 a2)"
  "keeps (session_at_least u v) (q_SetActionDescription a1 a2)"
  "keeps (session_at_least u v) (q_ConfigureAction a1 a2)" "keeps (session_at_least u v) (q_DeleteAction a1)"
  "keeps (session_at_least u v) (q_CreateDeviceGroup a1 a2 a3)"
  "keeps (session_at_least u v) (q_RenameDeviceGroup a1 a2)"
  "keeps (session_at_least u v) (q_SetDeviceGroupDescription a1 a2)"
  "keeps (session_at_least u v) (q_TouchDeviceGroup a1)" "keeps (session_at_least u v) (q_DeleteDeviceGroup a1)"
  "keeps (session_at_least u v) (q_AddDeviceToGroup a1 a2)"
  "keeps (session_at_least u v) (q_RemoveDeviceFromGroup a1 a2)"
  "keeps (session_at_least u v) (q_CreateAssignment a1 a2 ty1 a3)"
  "keeps (session_at_least u v) (q_DeleteAssignment a1)"
  "keeps (session_at_least u v) (q_CreateExecutionResult a1 a2 a3 k1 a4)"
  "keeps (session_at_least u v) (q_CreateAuditEvent ev1)"
  unfolding write_defs
  by ((rule keeps_sql_nowI | rule keeps_sqlI);
      auto simp: session_at_least_def update_one_Inr insert_row_Inr Let_def intro!: session_upd split: option.splits if_splits)+

interpretation sessions: regular "session_at_least u v" for u v
  by unfold_locales (rule keeps_session)+

lemma bumped_session:
  assumes "r \<in> set rs" and "p r" and "users s' = upd_rows p (bump_session t) rs"
  shows "session_at_least (usr_id r) (usr_session_version r + 1) s'"
proof -
  have "bump_session t r \<in> set (upd_rows p (bump_session t) rs)" using assms(1,2) by (force simp: set_upd_rows)
  then show ?thesis
    using assms(3) unfolding session_at_least_def by (intro bexI [of _ "bump_session t r"]) simp_all
qed

text \<open>A token of a version that has been passed is refused, and refusing it changes nothing.\<close>

lemma db_keys_users: "db_keys s \<Longrightarrow> r \<in> set (users s) \<Longrightarrow> r' \<in> set (users s) \<Longrightarrow> usr_id r = usr_id r' \<Longrightarrow> r = r'"
  by (auto simp: db_keys_def distinct_map inj_on_def)

lemma passed_version_fails:
  assumes "db_keys s" and "session_at_least u (v + 1) s" and "k \<le> v"
    and "q_RotateUserSession u k E n s = (r, n', s')"
  shows "isl r \<and> s' = s"
proof (cases r)
  case (Inl e)
  then show ?thesis using assms(4) by (auto simp: q_RotateUserSession_def run_simps)
next
  case (Inr x)
  from assms(2) obtain y where y: "y \<in> set (users s)" "usr_id y = u" "v + 1 \<le> usr_session_version y"
    by (auto simp: session_at_least_def)
  from Inr assms(4) obtain z where z: "z \<in> set (users s)" "usr_id z = u" "usr_session_version z = k"
    by (auto simp: q_RotateUserSession_def run_simps update_one_Inr dest!: find_SomeD)
  show ?thesis using db_keys_users [OF assms(1) y(1) z(1)] y z assms(3) by simp
qed

lemma stale_refresh:
  assumes "db_keys s" and "session_at_least (cl_user_id c) (v + 1) s" and "cl_session_version c \<le> v"
    and "jwt_open J token = Some (SessionBody c)" and "RefreshToken J token E n s = (r, n', s')"
  shows "isl r \<and> s' = s"
proof -
  have claims: "c' = c \<and> s1 = s" if "refresh_claims J token E n s = (Inr c', n1, s1)" for c' n1 s1
    using that assms(4) by (auto simp: refresh_claims_def ValidateToken_def Let_def run_simps split: if_splits)
  have ro: "s1 = s" if "refresh_claims J token E n s = (x, n1, s1)" for x n1 s1
    using readonlyD [OF readonly_oidc(3) that] .
  show ?thesis
  proof (cases r)
    case (Inl e)
    then show ?thesis
      using assms(5) passed_version_fails [OF assms(1-3)] claims ro
      by (fastforce simp: RefreshToken_def run_simps)
  next
    case (Inr x)
    then show ?thesis
      using assms(5) passed_version_fails [OF assms(1-3)] claims
      by (fastforce simp: RefreshToken_def run_simps)
  qed
qed

section \<open>Identity providers\<close>

definition provider_left :: "srv_db \<Rightarrow> bool" where
  "provider_left s \<longleftrightarrow> db_keys s \<and> identity_providers s \<noteq> []"

lemma provider_left_eq: "provider_left = (\<lambda>s. db_keys s \<and> identity_providers s \<noteq> [])"
  by (simp add: fun_eq_iff provider_left_def)

lemma upd_rows_Nil [simp]: "upd_rows p f rs = [] \<longleftrightarrow> rs = []"
  by (simp add: upd_rows_def)

lemma keeps_providers:
  "keeps (\<lambda>s. identity_providers s \<noteq> []) (q_CreateIdentityProvider a1 a2 a3 b1 a4 a5 l1)"
  "keeps (\<lambda>s. identity_providers s \<noteq> []) (q_ConfigureIdentityProvider a1 a2 l1 a3)"
  "keeps (\<lambda>s. identity_providers s \<noteq> []) (q_RenameIdentityProvider a1 a2)"
  "keeps (\<lambda>s. identity_providers s \<noteq> []) (q_EnableIdentityProvider a1)"
  "keeps (\<lambda>s. identity_providers s \<noteq> []) (q_DisableIdentityProvider a1)"
  "keeps (\<lambda>s. identity_providers s \<noteq> []) (q_CreateUser a1 a2 a3 k1)"
  "keeps (\<lambda>s. identity_providers s \<noteq> []) (q_LinkIdentity a1 a2 a3)"
  "keeps (\<lambda>s. identity_providers s \<noteq> []) (q_UpdateIdentityUserLogin a1 a2 k1 a3 a4)"
  "keeps (\<lambda>s. identity_providers s \<noteq> []) (q_RotateUserSession a1 k1)"
  "keeps (\<lambda>s. identity_providers s \<noteq> []) (q_CreateRole a1 a2 a3)"
  "keeps (\<lambda>s. identity_providers s \<noteq> []) (q_RenameRole a1 a2)"
  "keeps (\<lambda>s. identity_providers s \<noteq> []) (q_SetRoleDescription a1 a2)"
  "keeps (\<lambda>s. identity_providers s \<noteq> []) (q_DeleteRole a1)"
  "keeps (\<lambda>s. identity_providers s \<noteq> []) (q_GrantRolePermission k1 a1)"
  "keeps (\<lambda>s. identity_providers s \<noteq> []) (q_RevokeRolePermission a1 k1)"
  "keeps (\<lambda>s. identity_providers s \<noteq> []) (q_TouchRole a1)"
  "keeps (\<lambda>s. identity_providers s \<noteq> []) (q_AssignInitialRole a1 a2 a3)"
  "keeps (\<lambda>s. identity_providers s \<noteq> []) (q_AssignRoleToUser a1 a2)"
  "keeps (\<lambda>s. identity_providers s \<noteq> []) (q_RevokeRoleFromUser a1 a2)"
  "keeps (\<lambda>s. identity_providers s \<noteq> []) (q_BumpSessionsForRole a1)"
  "keeps (\<lambda>s. identity_providers s \<noteq> []) (q_RotateUserSessionByID a1)"
  "keeps (\<lambda>s. identity_providers s \<noteq> []) (q_CreateRegistrationToken a1 a2 a3 k1 k2)"
  "keeps (\<lambda>s. identity_providers s \<noteq> []) (q_ConsumeRegistrationToken a1 k1)"
  "keeps (\<lambda>s. identity_providers s \<noteq> []) (q_ConsumeFinalRegistrationToken a1 k1)"
  "keeps (\<lambda>s. identity_providers s \<noteq> []) (q_RenameRegistrationToken a1 a2)"
  "keeps (\<lambda>s. identity_providers s \<noteq> []) (q_DeleteRegistrationToken a1)"
  "keeps (\<lambda>s. identity_providers s \<noteq> []) (q_CreateDevice a1 a2 a3 a4 a5 a6 k1 k2)"
  "keeps (\<lambda>s. identity_providers s \<noteq> []) (q_SetPendingDeviceCertificate a1 a2 k1 a3 a4)"
  "keeps (\<lambda>s. identity_providers s \<noteq> []) (q_PromotePendingDeviceCertificate a1 a2)"
  "keeps (\<lambda>s. identity_providers s \<noteq> []) (q_TouchDevice a1 a2 k1 a3)"
  "keeps (\<lambda>s. identity_providers s \<noteq> []) (q_DeleteDevice a1)"
  "keeps (\<lambda>s. identity_providers s \<noteq> []) (q_DeleteAssignmentsForTarget ty1 a1)"
  "keeps (\<lambda>s. identity_providers s \<noteq> []) (q_CreateAction a1 a2 a3 a4)"
  "keeps (\<lambda>s. identity_providers s \<noteq> []) (q_RenameAction a1 a2)"
  "keeps (\<lambda>s. identity_providers s \<noteq> []) (q_SetActionDescription a1 a2)"
  "keeps (\<lambda>s. identity_providers s \<noteq> []) (q_ConfigureAction a1 a2)"
  "keeps (\<lambda>s. identity_providers s \<noteq> []) (q_DeleteAction a1)"
  "keeps (\<lambda>s. identity_providers s \<noteq> []) (q_CreateDeviceGroup a1 a2 a3)"
  "keeps (\<lambda>s. identity_providers s \<noteq> []) (q_RenameDeviceGroup a1 a2)"
  "keeps (\<lambda>s. identity_providers s \<noteq> []) (q_SetDeviceGroupDescription a1 a2)"
  "keeps (\<lambda>s. identity_providers s \<noteq> []) (q_TouchDeviceGroup a1)"
  "keeps (\<lambda>s. identity_providers s \<noteq> []) (q_DeleteDeviceGroup a1)"
  "keeps (\<lambda>s. identity_providers s \<noteq> []) (q_AddDeviceToGroup a1 a2)"
  "keeps (\<lambda>s. identity_providers s \<noteq> []) (q_RemoveDeviceFromGroup a1 a2)"
  "keeps (\<lambda>s. identity_providers s \<noteq> []) (q_CreateAssignment a1 a2 ty1 a3)"
  "keeps (\<lambda>s. identity_providers s \<noteq> []) (q_DeleteAssignment a1)"
  "keeps (\<lambda>s. identity_providers s \<noteq> []) (q_CreateExecutionResult a1 a2 a3 k1 a4)"
  "keeps (\<lambda>s. identity_providers s \<noteq> []) (q_CreateAuditEvent ev1)"
  unfolding write_defs
  by ((rule keeps_sql_nowI | rule keeps_sqlI);
      auto simp: update_one_Inr insert_row_Inr Let_def split: option.splits if_splits)+

lemma DeleteIdentityProvider_left: "keeps provider_left (DeleteIdentityProvider i)"
proof -
  have "keeps_ok provider_left (DeleteIdentityProvider i)"
  proof (rule keeps_okI)
    fix E n s x n' s'
    assume wf: "provider_left s" and run: "DeleteIdentityProvider i E n s = (Inr x, n', s')"
    have "db_keys s'" using wf run keepsD [OF keys.DeleteIdentityProvider_keeps [OF keeps_keys(6)]] by (auto simp: provider_left_def)
    moreover from run have "1 < length (identity_providers s)"
      and s': "identity_providers s' = del_rows (\<lambda>p. idp_id p = i) (identity_providers s)"
      by (auto simp: DeleteIdentityProvider_def q_CountIdentityProviders_def q_DeleteIdentityProvider_def q_GetIdentityProvider_def run_simps)
    then have "identity_providers s' \<noteq> []"
      using wf by (auto simp: provider_left_def db_keys_def del_rows_def filter_empty_conv distinct_map length_Suc_conv
        intro!: exI elim!: less_natE)
    ultimately show "provider_left s'" by (simp add: provider_left_def)
  qed
  then show ?thesis unfolding DeleteIdentityProvider_def by (rule keeps_atomic [rotated]) (intro prog_rules)
qed

lemma keeps_left: "keeps db_keys m \<Longrightarrow> keeps (\<lambda>s. identity_providers s \<noteq> []) m \<Longrightarrow> keeps provider_left m"
  unfolding provider_left_eq by (rule keeps_conj)

interpretation providers: ordinary provider_left
  by unfold_locales (rule keeps_left, rule keeps_keys, rule keeps_providers)+

interpretation providers: served provider_left D for D
proof unfold_locales
  fix ctx car sp a1 a2 ty1 rr res
  show "keeps provider_left (Register (dpl_service D) rr)"
    by (rule providers.Register_keeps, rule providers.consume_keeps, rule keeps_left, rule keeps_keys, rule keeps_providers)
qed (rule DeleteIdentityProvider_left | (rule providers.CreateAction_keeps providers.ConfigureAction_keeps
  providers.CreateAssignment_keeps providers.DeleteDevice_keeps providers.DeleteDeviceGroup_keeps providers.storeActionResult_keeps,
  rule keeps_left, rule keeps_keys, rule keeps_providers))+

end
