(* ===== verification/Server_Examples.thy ===== *)
theory Server_Examples
  imports Server_History
begin

text \<open>
  A small deployment on which the properties of the server are evaluated: library functions that satisfy the laws of
  \<open>codec_laws\<close>, \<open>x509_laws\<close> and \<open>jwt_laws\<close>, and a database with one of everything.
\<close>

section \<open>Library functions\<close>

definition ex_env :: env where
  "ex_env = \<lparr>fault = (\<lambda>_. False), clock = (\<lambda>_. 1000000000), ulid = (\<lambda>n. CHR ''U'' # replicate n (CHR ''x'')), cancelled = (\<lambda>_. False)\<rparr>"

definition ex_shell :: shell_params where
  "ex_shell = \<lparr>sh_script = '''', sh_interpreter = '''', sh_working_directory = '''', sh_environment = [],
     sh_detection_script = ''test'', sh_is_compliance = True\<rparr>"

definition ex_spec :: action_spec where
  "ex_spec = \<lparr>spec_desired_state = DESIRED_STATE_PRESENT, spec_timeout_seconds = 60, spec_schedule = Some 1,
     spec_params = Some (ActionShell (Some ex_shell))\<rparr>"

definition ex_action :: action where
  "ex_action = (spec_action ex_spec)\<lparr>act_id := Some ''A''\<rparr>"

definition ex_result :: action_result where
  "ex_result = \<lparr>res_action_id = Some ''A'', res_status = EXECUTION_STATUS_SUCCESS, res_output = Some empty_output,
     res_detection_output = Some empty_output, res_completed_at = Some 1000000000, res_run_id = Some ''R'',
     res_action_digest = replicate 32 (CHR ''d'')\<rparr>"

definition ex_codec :: codec where
  "ex_codec = table_codec [(ex_action, ''blobA'')] [(ex_result, ''blobR'')]"

lemma ex_codec_laws: "codec_laws ex_codec"
  unfolding ex_codec_def by (rule table_codec_laws) simp_all

definition ex_uri :: uri where
  "ex_uri = \<lparr>u_scheme = peerClassURIScheme, u_host = peerClassURIHost, u_path = ''/agent''\<rparr>"

definition ex_certificate :: "string \<Rightarrow> int \<Rightarrow> certificate" where
  "ex_certificate d k = \<lparr>cert_cn = d, cert_serial = Some k, cert_uris = [Some ex_uri], cert_ed25519 = Some ''K''\<rparr>"

definition ex_x509 :: x509 where
  "ex_x509 = \<lparr>
     pem_decode = (\<lambda>p. let k = length (takeWhile (\<lambda>c. c = CHR ''a'') p); b = drop (Suc k) p in Some (take k b, drop k b, [])),
     pem_encode = (\<lambda>ty b. replicate (length ty) (CHR ''a'') @ CHR ''b'' # ty @ b),
     parse_certificate = (\<lambda>d. Some (ex_certificate d 7)),
     parse_request = (\<lambda>_. Some \<lparr>csr_ed25519 = Some ''K'', csr_signed = True, csr_dns = [], csr_ips = [], csr_emails = [], csr_uris = []\<rparr>),
     create_certificate = (\<lambda>_ tpl key. if tpl_serial tpl = 7 \<and> tpl_uris tpl = [ex_uri] \<and> key = Some ''K'' then Some (tpl_cn tpl) else None),
     rand_int = (\<lambda>_. Some 7)\<rparr>"

lemma takeWhile_replicate_stop: "takeWhile (\<lambda>c. c = x) (replicate k x @ y # zs) = replicate k x" if "y \<noteq> x"
  using that by (induction k) auto

lemma ex_x509_laws: "x509_laws ex_x509"
  by (auto simp: x509_laws_def ex_x509_def ex_certificate_def takeWhile_replicate_stop split: if_splits)

definition ex_csr :: bytes where
  "ex_csr = pem_encode ex_x509 ''CERTIFICATE REQUEST'' ''csr''"

definition ex_claims :: claims where
  "ex_claims = \<lparr>cl_id = ''Uxx'', cl_issuer = ''cadestro'', cl_issued_at = Some 1000000000, cl_expires_at = Some 301000000000,
     cl_user_id = ''P'', cl_email = ''p@x'', cl_type = TokenTypeAccess, cl_session_version = 1, cl_permissions = [1, 9, 21, 46]\<rparr>"

definition ex_refresh :: claims where
  "ex_refresh = ex_claims\<lparr>cl_id := ''Uxxxx'', cl_expires_at := Some 604801000000000, cl_type := TokenTypeRefresh, cl_permissions := []\<rparr>"

definition ex_tx :: oidc_transaction where
  "ex_tx = \<lparr>tx_issuer = ''cadestro'', tx_issued_at = Some 1000000000, tx_expires_at = Some 601000000000, tx_state = ''st'',
     tx_provider_id = ''I'', tx_nonce = ''no'', tx_code_verifier = ''ve'', tx_redirect_url = ''u''\<rparr>"

text \<open>The tokens of the next session, from a refresh and from a sign-in; \<open>k\<close> is the event at which the access token got its id.\<close>

definition ex_next :: "nat \<Rightarrow> claims" where
  "ex_next k = ex_claims\<lparr>cl_id := CHR ''U'' # replicate k (CHR ''x''), cl_session_version := 2, cl_permissions := [9]\<rparr>"

definition ex_next_refresh :: "nat \<Rightarrow> claims" where
  "ex_next_refresh k = ex_refresh\<lparr>cl_id := CHR ''U'' # replicate k (CHR ''x''), cl_session_version := 2\<rparr>"

definition ex_bodies :: "(token_body \<times> string) list" where
  "ex_bodies = [(SessionBody ex_claims, ''acc''), (SessionBody ex_refresh, ''ref''), (TransactionBody ex_tx, ''ck''),
     (SessionBody (ex_next 5), ''acc2''), (SessionBody (ex_next_refresh 7), ''ref2''),
     (SessionBody (ex_next 12), ''acc3''), (SessionBody (ex_next_refresh 14), ''ref3'')]"

definition ex_jwt :: jwt where
  "ex_jwt = \<lparr>jwt_sign = map_of ex_bodies, jwt_open = map_of (map (\<lambda>(b, t). (t, b)) ex_bodies),
     jwt_access_expiry = 300000000000, jwt_refresh_expiry = 604800000000000, jwt_issuer = ''cadestro''\<rparr>"

lemma ex_jwt_laws: "jwt_laws ex_jwt"
  by (auto simp: jwt_laws_def ex_jwt_def intro!: map_of_swap) (simp add: ex_bodies_def)

definition ex_oidc :: oidc where
  "ex_oidc = \<lparr>oidc_discover = (\<lambda>_ _. True), oidc_auth_url = (\<lambda>_ _ _ _ _ _ _. ''url''), oidc_exchange = (\<lambda>_ _ _. Some (Some ''raw'')),
     oidc_verify = (\<lambda>_ _ _ _. Some \<lparr>it_nonce = ''no'', it_subject = ''sub'',
       it_claims = Some [(''email'', JString ''p@x''), (''email_verified'', JBool True), (''name'', JString ''p'')]\<rparr>),
     oidc_values = (\<lambda>_. Some (''st'', ''no'', ''ve'')), url_parse = (\<lambda>_. None)\<rparr>"

section \<open>The deployment and its database\<close>

definition ex_service :: service where
  "ex_service = \<lparr>svc_codec = ex_codec, svc_ca = \<lparr>ca_x509 = ex_x509, ca_raw = ''root'', ca_validity = 1000\<rparr>, svc_public_base_url = ''b'',
     svc_agent_url = ''a'', svc_ca_fingerprint = ''f'', svc_heartbeat = 30000000000\<rparr>"

definition ex_deployment :: deployment where
  "ex_deployment = \<lparr>dpl_service = ex_service, dpl_jwt = ex_jwt, dpl_oidc = ex_oidc, dpl_draw = (\<lambda>_. Some ''t''), dpl_valid = (\<lambda>_. True),
     dpl_ulid = (\<lambda>_. True)\<rparr>"

definition ex_device :: device where
  "ex_device = \<lparr>dev_id = ''D'', dev_hostname = ''h'', dev_agent_version = ''1'', dev_identity_key = ''K'', dev_active_pem = ''pem'',
     dev_active_serial = hex_text 5, dev_cert_expires_at = 9, dev_pending_pem = None, dev_pending_serial = None,
     dev_pending_expires_at = None, dev_registered_at = 0, dev_last_seen_at = None, dev_created_at = 0, dev_updated_at = 0\<rparr>"

definition ex_user :: user where
  "ex_user = \<lparr>usr_id = ''P'', usr_email = ''p@x'', usr_display_name = ''p'', usr_session_version = 1, usr_created_at = 0,
     usr_updated_at = 0, usr_last_login_at = 0\<rparr>"

definition ex_provider :: identity_provider where
  "ex_provider = \<lparr>idp_id = ''I'', idp_name = ''sso'', idp_slug = ''sso'', idp_enabled = True, idp_client_id = ''c'', idp_issuer_url = ''i'',
     idp_scopes = [], idp_created_at = 0, idp_updated_at = 0\<rparr>"

definition ex_token :: registration_token where
  "ex_token = \<lparr>tok_id = ''T'', tok_value_hash = tokenHash ex_codec ''tok'', tok_name = ''t'', tok_max_uses = 2, tok_current_uses = 1,
     tok_expires_at = 2000000000, tok_created_at = 0, tok_updated_at = 0\<rparr>"

definition ex_db :: srv_db where
  "ex_db = \<lparr>identity_providers = [ex_provider], users = [ex_user],
     roles = [\<lparr>role_id = ''O'', role_name = ''ops'', role_description = '''', role_created_at = 0, role_updated_at = 0\<rparr>],
     role_permissions = [\<lparr>rp_role_id = ''O'', rp_permission = 9\<rparr>], user_roles = [\<lparr>ur_user_id = ''P'', ur_role_id = ''O''\<rparr>],
     identity_links = [\<lparr>il_provider_id = ''I'', il_subject = ''sub'', il_user_id = ''P''\<rparr>], registration_tokens = [ex_token],
     devices = [ex_device],
     actions = [\<lparr>ac_id = ''A'', ac_name = ''a'', ac_description = '''', ac_blob = ''blobA'', ac_created_at = 0, ac_updated_at = 0\<rparr>],
     device_groups = [], device_group_members = [],
     assignments = [\<lparr>asg_id = ''S'', asg_action_id = ''A'', asg_target_type = ASSIGNMENT_TARGET_TYPE_DEVICE, asg_target_id = ''D'', asg_created_at = 0\<rparr>],
     execution_results = [], audit_events = []\<rparr>"

lemmas ex_library_defs = ex_env_def ex_shell_def ex_spec_def ex_action_def ex_result_def ex_codec_def ex_uri_def ex_certificate_def
  ex_x509_def ex_csr_def ex_claims_def ex_refresh_def ex_tx_def ex_next_def ex_next_refresh_def ex_bodies_def ex_jwt_def ex_oidc_def
lemmas ex_defs = ex_service_def ex_deployment_def ex_device_def ex_user_def ex_provider_def ex_token_def ex_db_def

lemma triple: "p = (fst p, fst (snd p), snd (snd p))"
  by simp

lemma ex_parts: "dpl_service ex_deployment = ex_service" "dpl_jwt ex_deployment = ex_jwt" "dpl_oidc ex_deployment = ex_oidc"
  "svc_codec ex_service = ex_codec"
  by (simp_all add: ex_deployment_def ex_service_def)

lemma ex_wf: "srv_wf ex_codec ex_db"
  by (auto simp: srv_wf_def db_keys_def db_refs_def db_rows_def db_targets_def target_exists_def db_tokens_def token_ok_def db_actions_def
      stored_action_def db_results_def exists_row_def pending_ok_def session_ok_def ex_defs ex_codec_def table_codec_def executableAction_def
      ex_action_def valid_action_def spec_action_def ex_spec_def ex_shell_def)

lemma ex_keys: "db_keys ex_db"
  using ex_wf by (simp add: srv_wf_def)

end
