(* ===== verification/Server_Props.thy ===== *)
theory Server_Props
  imports Server_Examples
begin

text \<open>
  The server as a whole and its sessions: what every reachable database satisfies, what a failed or unauthorised request cannot do,
  and what later requests cannot undo.
\<close>

section \<open>Every reachable database\<close>

text \<open>C21. Whatever requests the two listeners serve, in whatever order and with whatever driver failures, starting from the migrated
  database: keys stay unique, references and assignment targets never dangle, a registration token that is stored has uses left, a
  pending certificate is complete or absent, every stored action decodes to a valid action with its row's id and every stored result
  decodes to a well-formed result with its row's columns.\<close>

theorem reachable_well_formed:
  assumes "codec_laws (svc_codec (dpl_service D))" and "srv_reachable D s"
  shows "srv_wf (svc_codec (dpl_service D)) s"
  using assms by (rule reachable_wf)

definition ex_bootstrap :: bootstrap_provider where
  "ex_bootstrap = \<lparr>bp_name = '''', bp_slug = '''', bp_client_id = ''c'', bp_issuer_url = ''i'', bp_scopes = []\<rparr>"

definition ex_started :: srv_db where
  "ex_started = snd (snd (EnsureBootstrapProvider ex_oidc ex_service ex_bootstrap ex_env 0 (migrated_db 0)))"

lemma ex_started_reachable: "srv_reachable ex_deployment ex_started"
proof (rule srv_reachable.step [OF srv_reachable.init])
  show "srv_step ex_deployment (migrated_db 0) ex_started"
    unfolding ex_started_def by (rule srv_step.start, unfold ex_parts, rule triple)
qed

theorem reachable_well_formed_witness:
  "srv_wf ex_codec ex_started \<and> map idp_slug (identity_providers ex_started) = [''sso'']"
proof -
  have "srv_wf (svc_codec (dpl_service ex_deployment)) ex_started"
    by (rule reachable_well_formed [OF _ ex_started_reachable]) (simp add: ex_deployment_def ex_service_def ex_codec_laws)
  moreover have "map idp_slug (identity_providers ex_started) = [''sso'']" by code_simp
  ultimately show ?thesis by (simp add: ex_deployment_def ex_service_def)
qed

text \<open>C22. A request that returns an error has changed nothing, whichever statement or commit the driver failed; only the token
  refresh and the end of a sign-in commit before their last step.\<close>

theorem failed_request_changes_nothing:
  assumes "public_call D authorization rq E n s = (Inl e, n', s')" and "\<not> commits_early rq"
  shows "s' = s"
proof -
  have "atomic (case i of Denied e \<Rightarrow> throw e | Next ctx \<Rightarrow> serve D ctx rq)" for i
    using assms(2) by (cases i) (auto intro: serve_atomic atomic_readonly readonly_basic)
  then have "atomic (public_call D authorization rq)"
    unfolding public_call_def by (intro atomic_branch atomic_bnd_readonly readonly_interceptor atomic_readonly [OF readonly_basic(2)])
  then show ?thesis using assms(1) by (auto simp: atomic_def)
qed

text \<open>The last statement of the transaction fails: the device is still there.\<close>

theorem failed_request_changes_nothing_witness:
  "\<exists>e n' s'. public_call ex_deployment ''Bearer acc'' (DeviceRpc (DeleteDeviceRpc ''D'')) (ex_env\<lparr>fault := (\<lambda>n. n = 6)\<rparr>) 0 ex_db = (Inl e, n', s') \<and>
     s' = ex_db"
proof -
  let ?run = "public_call ex_deployment ''Bearer acc'' (DeviceRpc (DeleteDeviceRpc ''D'')) (ex_env\<lparr>fault := (\<lambda>n. n = 6)\<rparr>) 0 ex_db"
  have "fst ?run = Inl internal" by code_simp
  then have run: "?run = (Inl internal, fst (snd ?run), snd (snd ?run))" using triple [of ?run] by simp
  moreover have "\<not> commits_early (DeviceRpc (DeleteDeviceRpc ''D''))" by code_simp
  ultimately have "snd (snd ?run) = ex_db" by (rule failed_request_changes_nothing)
  then show ?thesis using run by metis
qed

section \<open>Authorisation\<close>

text \<open>C23. A request of a procedure that is not public succeeds, or changes anything, only with an access token that this server's
  key verifies, of this issuer, not expired, and that carries the permission of the procedure.\<close>

theorem only_authorised_requests:
  assumes "public_call D authorization rq E n s = (r, n', s')" and "\<not> publicProcedure (procedure_of rq)"
    and "r = Inr () \<or> s' \<noteq> s"
  shows "\<exists>scheme token c x p. Cut authorization '' '' = Some (scheme, token) \<and> ToLower scheme = ''bearer'' \<and>
    jwt_open (dpl_jwt D) token = Some (SessionBody c) \<and> cl_type c = TokenTypeAccess \<and> cl_issuer c = jwt_issuer (dpl_jwt D) \<and>
    cl_user_id c \<noteq> '''' \<and> cl_expires_at c = Some x \<and> clock E n < x \<and>
    PermissionForProcedure (procedure_of rq) = Some p \<and> p \<in> set (cl_permissions c)"
proof -
  let ?J = "dpl_jwt D" and ?p = "procedure_of rq"
  obtain x n1 s1 where w: "WrapUnary ?J ?p authorization background E n s = (x, n1, s1)" by (rule prod_cases3)
  have "s1 = s" using readonlyD [OF readonly_interceptor w] .
  then obtain ctx where "x = Inr (Next ctx)"
    using assms(1,3) w
    by (cases x; cases "projr x") (auto simp: public_call_def bnd_def throw_def split: if_splits)
  then have "WrapUnary ?J ?p authorization background E n s = (Inr (Next ctx), n1, s1)" using w by simp
  then show ?thesis
    using assms(2)
    by (cases "PermissionForProcedure ?p")
      (auto simp: WrapUnary_def userHasPermission_def list_ex_iff run_simps split: if_splits option.split_asm)
qed

theorem only_authorised_requests_witness:
  "\<exists>scheme token c x p. Cut ''Bearer acc'' '' '' = Some (scheme, token) \<and> ToLower scheme = ''bearer'' \<and>
    jwt_open ex_jwt token = Some (SessionBody c) \<and> cl_type c = TokenTypeAccess \<and> cl_issuer c = jwt_issuer ex_jwt \<and>
    cl_user_id c \<noteq> '''' \<and> cl_expires_at c = Some x \<and> clock ex_env 0 < x \<and>
    PermissionForProcedure (control ''DeleteDevice'') = Some p \<and> p \<in> set (cl_permissions c)"
proof -
  let ?rq = "DeviceRpc (DeleteDeviceRpc ''D'')"
  let ?run = "public_call ex_deployment ''Bearer acc'' ?rq ex_env 0 ex_db"
  have "fst ?run = Inr ()" by code_simp
  then have "?run = (Inr (), fst (snd ?run), snd (snd ?run))" using triple [of ?run] by simp
  moreover have "\<not> publicProcedure (procedure_of ?rq)" by code_simp
  ultimately have "\<exists>scheme token c x p. Cut ''Bearer acc'' '' '' = Some (scheme, token) \<and> ToLower scheme = ''bearer'' \<and>
      jwt_open (dpl_jwt ex_deployment) token = Some (SessionBody c) \<and> cl_type c = TokenTypeAccess \<and>
      cl_issuer c = jwt_issuer (dpl_jwt ex_deployment) \<and> cl_user_id c \<noteq> '''' \<and> cl_expires_at c = Some x \<and> clock ex_env 0 < x \<and>
      PermissionForProcedure (procedure_of ?rq) = Some p \<and> p \<in> set (cl_permissions c)"
    by (rule only_authorised_requests) simp
  moreover have "procedure_of ?rq = control ''DeleteDevice''" by simp
  ultimately show ?thesis unfolding ex_parts by (simp only:)
qed

text \<open>C24. The table of permissions is complete: every request is routed to a procedure of the service, which is public or needs
  exactly one permission, and never both; that permission is one the roles can grant.\<close>

theorem every_procedure_is_guarded:
  "procedure_of rq \<in> set control_procedures \<and>
   (case PermissionForProcedure (procedure_of rq) of
      None \<Rightarrow> publicProcedure (procedure_of rq)
    | Some p \<Rightarrow> \<not> publicProcedure (procedure_of rq) \<and> p \<in> set allPermissions)"
proof -
  let ?ok = "\<lambda>x. case PermissionForProcedure x of None \<Rightarrow> publicProcedure x
    | Some p \<Rightarrow> \<not> publicProcedure x \<and> p \<in> set allPermissions"
  have "list_all ?ok control_procedures"
    unfolding control_procedures_def list.pred_map comp_def PermissionForProcedure_def procedure_permissions_def map_of_control
      publicProcedure_def public_procedures_def set_map inj_image_mem_iff [OF control_injective]
    by code_simp
  moreover have "procedure_of rq \<in> set control_procedures"
  proof (cases rq)
    case (SessionRpc q) then show ?thesis by (cases q) (simp_all add: control_procedures_def)
  next
    case (ProviderRpc q) then show ?thesis by (cases q) (simp_all add: control_procedures_def)
  next
    case (DeviceRpc q) then show ?thesis by (cases q) (simp_all add: control_procedures_def)
  next
    case (ActionRpc q) then show ?thesis by (cases q) (simp_all add: control_procedures_def)
  next
    case (GroupRpc q) then show ?thesis by (cases q) (simp_all add: control_procedures_def)
  next
    case (AssignmentRpc q) then show ?thesis by (cases q) (simp_all add: control_procedures_def)
  next
    case (RoleRpc q) then show ?thesis by (cases q) (simp_all add: control_procedures_def)
  qed
  ultimately show ?thesis by (auto simp: list_all_iff)
qed

end
