(* ===== verification/Server_Session_Props.thy ===== *)
theory Server_Session_Props
  imports Server_Examples
begin

text \<open>
  Sessions and sign-in: the tokens a user gets, when they stop working, and what a sign-in has checked; and what no later request
  undoes.
\<close>

section \<open>What later requests cannot undo\<close>

text \<open>C25. The audit log only grows: every later state of the database, whatever requests were served in between, has the same events in
  the same order, followed by newer ones.\<close>

theorem audit_log_append_only:
  assumes "later D s s'"
  shows "\<exists>more. audit_events s' = audit_events s @ more"
  using audit_log.later_keeps [OF assms, of "audit_events s"] by (simp add: log_extends_def)

definition ex_deleted :: srv_db where
  "ex_deleted = snd (snd (public_call ex_deployment ''Bearer acc'' (DeviceRpc (DeleteDeviceRpc ''D'')) ex_env 0 ex_db))"

lemma ex_deleted_later: "later ex_deployment ex_db ex_deleted"
  unfolding ex_deleted_def by (rule r_into_rtranclp, rule srv_step.public, rule triple)

theorem audit_log_append_only_witness:
  "(\<exists>more. audit_events ex_deleted = audit_events ex_db @ more) \<and> length (audit_events ex_deleted) = 1"
proof -
  have "length (audit_events ex_deleted) = 1" by code_simp
  then show ?thesis using audit_log_append_only [OF ex_deleted_later] by simp
qed

lemma refreshed_session:
  assumes "RefreshToken J token E n s = (Inr pair, n', s')"
  shows "\<exists>c. jwt_open J token = Some (SessionBody c) \<and> session_at_least (cl_user_id c) (cl_session_version c + 1) s'"
proof -
  from assms obtain c u t n1 where c: "jwt_open J token = Some (SessionBody c)"
    and upd: "update_one (\<lambda>u. usr_id u = cl_user_id c \<and> usr_session_version u = cl_session_version c) (bump_session t) False
      (users s) (\<lambda>x. s\<lparr>users := x\<rparr>) = Inr (u, s')"
    by (auto simp: RefreshToken_def refresh_claims_def q_RotateUserSession_def q_ListUserPermissions_def run_simps
        dest!: readonlyD [OF readonly_tokens(3)])
  from upd obtain r where "r \<in> set (users s)" "usr_id r = cl_user_id c" "usr_session_version r = cl_session_version c"
    and "users s' = upd_rows (\<lambda>u. usr_id u = cl_user_id c \<and> usr_session_version u = cl_session_version c) (bump_session t) (users s)"
    by (auto simp: update_one_Inr dest!: find_SomeD)
  then have "session_at_least (cl_user_id c) (cl_session_version c + 1) s'"
    using bumped_session [of r "users s" "\<lambda>u. usr_id u = cl_user_id c \<and> usr_session_version u = cl_session_version c" s' t] by simp
  then show ?thesis using c by blast
qed

text \<open>C26. A refresh token works once: after it was exchanged, every later attempt to exchange it again fails and changes nothing,
  whatever requests were served in between.\<close>

theorem refresh_token_works_once:
  assumes "db_keys s" and "RefreshToken (dpl_jwt D) token E n s = (Inr pair, n1, s1)" and "later D s1 s2"
    and "RefreshToken (dpl_jwt D) token E2 n2 s2 = (r, n3, s3)"
  shows "isl r \<and> s3 = s2"
proof -
  from refreshed_session [OF assms(2)] obtain c where c: "jwt_open (dpl_jwt D) token = Some (SessionBody c)"
    and v: "session_at_least (cl_user_id c) (cl_session_version c + 1) s1" by blast
  have "db_keys s1" using keepsD [OF keys.login_ordinary(1) assms(1,2)] .
  then have "db_keys s2" using keys.later_keeps [OF assms(3)] by blast
  moreover have "session_at_least (cl_user_id c) (cl_session_version c + 1) s2"
    using sessions.later_keeps [OF assms(3) v] .
  ultimately show ?thesis using stale_refresh [OF _ _ order_refl c assms(4)] by blast
qed

theorem refresh_token_works_once_witness:
  "fst (RefreshToken ex_jwt ''ref'' ex_env 0 ex_db) = Inr \<lparr>pair_access = ''acc2'', pair_refresh = ''ref2'', pair_expires_at = 301000000000\<rparr> \<and>
   isl (fst (RefreshToken ex_jwt ''ref'' ex_env 20 (snd (snd (RefreshToken ex_jwt ''ref'' ex_env 0 ex_db)))))"
proof -
  let ?once = "RefreshToken ex_jwt ''ref'' ex_env 0 ex_db"
  let ?twice = "RefreshToken ex_jwt ''ref'' ex_env 20 (snd (snd ?once))"
  have ok: "fst ?once = Inr \<lparr>pair_access = ''acc2'', pair_refresh = ''ref2'', pair_expires_at = 301000000000\<rparr>" by code_simp
  then have once: "RefreshToken (dpl_jwt ex_deployment) ''ref'' ex_env 0 ex_db = (Inr \<lparr>pair_access = ''acc2'', pair_refresh = ''ref2'',
      pair_expires_at = 301000000000\<rparr>, fst (snd ?once), snd (snd ?once))"
    unfolding ex_parts using triple [of ?once] by simp
  have twice: "RefreshToken (dpl_jwt ex_deployment) ''ref'' ex_env 20 (snd (snd ?once)) = (fst ?twice, fst (snd ?twice), snd (snd ?twice))"
    unfolding ex_parts by (rule triple)
  show ?thesis
    using ok refresh_token_works_once [OF ex_keys once rtranclp.rtrancl_refl twice] by simp
qed

definition withdraws :: "srv_db \<Rightarrow> role_rpc \<Rightarrow> string \<Rightarrow> bool" where
  "withdraws s rq u = (case rq of
     RevokeRolePermissionRpc i p \<Rightarrow> \<lparr>ur_user_id = u, ur_role_id = i\<rparr> \<in> set (user_roles s)
   | DeleteRoleRpc i \<Rightarrow> \<lparr>ur_user_id = u, ur_role_id = i\<rparr> \<in> set (user_roles s)
   | RevokeRoleFromUserRpc w i \<Rightarrow> w = u
   | RevokeUserSessionsRpc w \<Rightarrow> w = u
   | _ \<Rightarrow> False)"

lemma rotated_session:
  assumes "q_RotateUserSessionByID u E n s = (Inr x, n', s')" and "r \<in> set (users s)" and "usr_id r = u"
  shows "session_at_least u (usr_session_version r + 1) s'"
proof -
  from assms(1) obtain t where "users s' = upd_rows (\<lambda>x. usr_id x = u) (bump_session t) (users s)"
    by (auto simp: q_RotateUserSessionByID_def run_simps update_one_Inr)
  from bumped_session [OF assms(2) _ this] show ?thesis using assms(3) by simp
qed

lemma role_bumped_session:
  assumes "q_BumpSessionsForRole i E n s = (Inr x, n', s')" and "r \<in> set (users s)"
    and "\<lparr>ur_user_id = usr_id r, ur_role_id = i\<rparr> \<in> set (user_roles s)"
  shows "session_at_least (usr_id r) (usr_session_version r + 1) s'"
proof -
  from assms(1) obtain t where "users s' = upd_rows (\<lambda>u. \<exists>x\<in>set (user_roles s). ur_role_id x = i \<and> ur_user_id x = usr_id u)
      (bump_session t) (users s)"
    by (auto simp: q_BumpSessionsForRole_def run_simps)
  from bumped_session [OF assms(2) _ this] assms(3) show ?thesis by force
qed

lemma withdrawn_session:
  assumes "serve_role D ctx rq E n s = (Inr (), n', s')" and "withdraws s rq (usr_id r)" and "r \<in> set (users s)"
  shows "session_at_least (usr_id r) (usr_session_version r + 1) s'"
proof (cases rq)
  case (RevokeRolePermissionRpc i p)
  with assms(1) obtain n1 n2 s1 where
    b: "q_BumpSessionsForRole i E n1 s1 = (Inr (), n2, s')" and s1: "users s1 = users s" "user_roles s1 = user_roles s"
    by (auto simp: done_with_def RevokeRolePermission_def roleMutation_def q_RevokeRolePermission_def q_TouchRole_def roleProto_def
        q_ListRolePermissions_def update_one_Inr Let_def run_simps)
  then show ?thesis
    using role_bumped_session [OF b] assms(2,3) RevokeRolePermissionRpc by (simp add: withdraws_def)
next
  case (DeleteRoleRpc i)
  with assms(1) obtain n1 n2 s1 x n3 where
    b: "q_BumpSessionsForRole i E n1 s = (Inr (), n2, s1)" and d: "q_DeleteRole i E n2 s1 = (Inr x, n3, s')"
    by (auto simp: done_with_def DeleteRole_def run_simps)
  have "session_at_least (usr_id r) (usr_session_version r + 1) s1"
    using role_bumped_session [OF b assms(3)] assms(2) DeleteRoleRpc by (simp add: withdraws_def)
  then show ?thesis using keepsD [OF sessions.ordinary(13) _ d] by blast
next
  case (RevokeRoleFromUserRpc w i)
  with assms(1) obtain n1 n2 s1 x where
    b: "q_RotateUserSessionByID w E n1 s1 = (Inr x, n2, s')" and s1: "users s1 = users s"
    by (auto simp: done_with_def RevokeRoleFromUser_def q_RevokeRoleFromUser_def Let_def run_simps)
  then show ?thesis using rotated_session [OF b] assms(2,3) RevokeRoleFromUserRpc by (simp add: withdraws_def)
next
  case (RevokeUserSessionsRpc w)
  with assms(1) obtain n1 n2 s1 x n3 where
    b: "q_RotateUserSessionByID w E n1 s = (Inr x, n2, s1)"
    and a: "audit ctx AUDIT_EVENT_TYPE_USER_SESSIONS_REVOKED AUDIT_STREAM_TYPE_USER w AUDIT_ACTOR_TYPE_USER '''' E n2 s1 = (Inr (), n3, s')"
    by (auto simp: done_with_def RevokeUserSessions_def run_simps)
  have "session_at_least (usr_id r) (usr_session_version r + 1) s1"
    using rotated_session [OF b assms(3)] assms(2) RevokeUserSessionsRpc by (simp add: withdraws_def)
  then show ?thesis using keepsD [OF sessions.audit_ordinary _ a] by blast
qed (use assms(2) in \<open>simp_all add: withdraws_def\<close>)

text \<open>C27. Withdrawing a right ends the sessions it was given in: after a permission is revoked from a role, a role is deleted or taken
  from a user, or a user's sessions are revoked, no refresh token that an affected user held before can be exchanged any more, in any
  later state.\<close>

theorem withdrawn_rights_end_sessions:
  assumes "db_keys s" and "serve_role D ctx rq E n s = (Inr (), n1, s1)" and "withdraws s rq (usr_id u)" and "u \<in> set (users s)"
    and "jwt_open (dpl_jwt D) token = Some (SessionBody c)" and "cl_user_id c = usr_id u" and "cl_session_version c \<le> usr_session_version u"
    and "later D s1 s2" and "RefreshToken (dpl_jwt D) token E2 n2 s2 = (r, n3, s3)"
  shows "isl r \<and> s3 = s2"
proof -
  have "keeps db_keys (serve_role D ctx rq)" by (rule keys.serve_groups)
  then have "db_keys s1" using assms(1,2) by (rule keepsD)
  then have keys: "db_keys s2" using keys.later_keeps [OF assms(8)] by blast
  have "session_at_least (usr_id u) (usr_session_version u + 1) s2"
    using sessions.later_keeps [OF assms(8) withdrawn_session [OF assms(2-4)]] .
  then show ?thesis using stale_refresh [OF keys _ assms(7,5,9)] assms(6) by simp
qed

theorem withdrawn_rights_end_sessions_witness:
  "fst (serve_role ex_deployment background (RevokeRolePermissionRpc ''O'' 9) ex_env 0 ex_db) = Inr () \<and>
   isl (fst (RefreshToken ex_jwt ''ref'' ex_env 20 (snd (snd (serve_role ex_deployment background (RevokeRolePermissionRpc ''O'' 9) ex_env 0 ex_db)))))"
proof -
  let ?rq = "RevokeRolePermissionRpc ''O'' 9"
  let ?run = "serve_role ex_deployment background ?rq ex_env 0 ex_db"
  let ?twice = "RefreshToken ex_jwt ''ref'' ex_env 20 (snd (snd ?run))"
  have ok: "fst ?run = Inr ()" by code_simp
  then have run: "?run = (Inr (), fst (snd ?run), snd (snd ?run))" using triple [of ?run] by simp
  have w: "withdraws ex_db ?rq (usr_id ex_user)" by (simp add: withdraws_def ex_db_def ex_user_def)
  have u: "ex_user \<in> set (users ex_db)" by (simp add: ex_db_def)
  have t: "jwt_open (dpl_jwt ex_deployment) ''ref'' = Some (SessionBody ex_refresh)"
    by (simp add: ex_parts ex_jwt_def ex_bodies_def)
  have c: "cl_user_id ex_refresh = usr_id ex_user" "cl_session_version ex_refresh \<le> usr_session_version ex_user"
    by (simp_all add: ex_refresh_def ex_claims_def ex_user_def)
  have twice: "RefreshToken (dpl_jwt ex_deployment) ''ref'' ex_env 20 (snd (snd ?run)) = (fst ?twice, fst (snd ?twice), snd (snd ?twice))"
    unfolding ex_parts by (rule triple)
  show ?thesis
    using ok withdrawn_rights_end_sessions [OF ex_keys run w u t c rtranclp.rtrancl_refl twice] by simp
qed

text \<open>The access token of a new pair is accepted, until it expires, as exactly the user, version and permissions it was made for;
  neither token of the pair is accepted in the other's place.\<close>

theorem token_pair_roundtrip:
  assumes "jwt_laws J" and "u \<noteq> ''''" and "GenerateTokens J u email version perms E n s = (Inr pair, n', s')"
    and "clock E2 m < numeric_date (clock E n + jwt_access_expiry J)"
  shows "(\<exists>c. ValidateToken J (pair_access pair) TokenTypeAccess E2 m s2 = (Inr c, Suc m, s2) \<and> cl_user_id c = u \<and> cl_email c = email \<and>
      cl_session_version c = version \<and> cl_permissions c = perms) \<and>
    isl (fst (ValidateToken J (pair_refresh pair) TokenTypeAccess E2 m s2)) \<and>
    isl (fst (ValidateToken J (pair_access pair) TokenTypeRefresh E2 m s2))"
proof -
  from assms(3) obtain i j t1 t2 x where
    a: "jwt_sign J (SessionBody \<lparr>cl_id = i, cl_issuer = jwt_issuer J, cl_issued_at = Some t1,
      cl_expires_at = Some (numeric_date (clock E n + jwt_access_expiry J)), cl_user_id = u, cl_email = email, cl_type = TokenTypeAccess,
      cl_session_version = version, cl_permissions = perms\<rparr>) = Some (pair_access pair)"
    and b: "jwt_sign J (SessionBody \<lparr>cl_id = j, cl_issuer = jwt_issuer J, cl_issued_at = Some t2, cl_expires_at = Some x, cl_user_id = u,
      cl_email = email, cl_type = TokenTypeRefresh, cl_session_version = version, cl_permissions = []\<rparr>) = Some (pair_refresh pair)"
    by (auto simp: GenerateTokens_def jwt_sign_session_def run_simps split: option.splits)
  have open_a: "jwt_open J (pair_access pair) = Some (SessionBody \<lparr>cl_id = i, cl_issuer = jwt_issuer J, cl_issued_at = Some t1,
      cl_expires_at = Some (numeric_date (clock E n + jwt_access_expiry J)), cl_user_id = u, cl_email = email, cl_type = TokenTypeAccess,
      cl_session_version = version, cl_permissions = perms\<rparr>)"
    and open_b: "jwt_open J (pair_refresh pair) = Some (SessionBody \<lparr>cl_id = j, cl_issuer = jwt_issuer J, cl_issued_at = Some t2,
      cl_expires_at = Some x, cl_user_id = u, cl_email = email, cl_type = TokenTypeRefresh, cl_session_version = version, cl_permissions = []\<rparr>)"
    using assms(1) a b by (simp_all add: jwt_laws_def)
  have other: "TokenTypeAccess \<noteq> TokenTypeRefresh" by (simp add: TokenTypeAccess_def TokenTypeRefresh_def)
  show ?thesis
    using assms(2,4) open_a open_b other
    by (simp add: ValidateToken_def parse_ok_def Let_def bnd_def now_def lift_sum_def ret_def throw_def)
qed

theorem token_pair_roundtrip_witness:
  "\<exists>c. ValidateToken ex_jwt ''acc'' TokenTypeAccess ex_env 9 ex_db = (Inr c, Suc 9, ex_db) \<and> cl_permissions c = [1, 9, 21, 46]"
proof -
  let ?run = "GenerateTokens ex_jwt ''P'' ''p@x'' 1 [1, 9, 21, 46] ex_env 0 ex_db"
  have "fst ?run = Inr \<lparr>pair_access = ''acc'', pair_refresh = ''ref'', pair_expires_at = 301000000000\<rparr>" by code_simp
  then have run: "?run = (Inr \<lparr>pair_access = ''acc'', pair_refresh = ''ref'', pair_expires_at = 301000000000\<rparr>, fst (snd ?run), snd (snd ?run))"
    using triple [of ?run] by simp
  have "clock ex_env 9 < numeric_date (clock ex_env 0 + jwt_access_expiry ex_jwt)"
    by (simp add: ex_env_def ex_jwt_def numeric_date_def)
  from token_pair_roundtrip [OF ex_jwt_laws _ run this, where ?s2.0 = ex_db] show ?thesis by auto
qed

text \<open>A server that has an identity provider keeps one: no sequence of requests leaves it without a way to sign in. (The last
  provider can still be disabled, but not deleted.)\<close>

theorem identity_provider_remains:
  assumes "db_keys s" and "identity_providers s \<noteq> []" and "later D s s'"
  shows "identity_providers s' \<noteq> []"
  using providers.later_keeps [OF assms(3)] assms(1,2) by (simp add: provider_left_def)

theorem identity_provider_remains_witness:
  "identity_providers ex_db \<noteq> [] \<and> identity_providers ex_deleted \<noteq> []"
proof -
  have ne: "identity_providers ex_db \<noteq> []" by (simp add: ex_db_def)
  show ?thesis using ne identity_provider_remains [OF ex_keys ne ex_deleted_later] by simp
qed

section \<open>Sign-in\<close>

text \<open>The user a sign-in returns is stored, and is the one the provider's subject is linked to.\<close>

definition linked :: "srv_db \<Rightarrow> string \<Rightarrow> string \<Rightarrow> user \<Rightarrow> bool" where
  "linked s provider subject u \<longleftrightarrow> u \<in> set (users s) \<and>
     (\<exists>l\<in>set (identity_links s). il_provider_id l = provider \<and> il_subject l = subject \<and> il_user_id l = usr_id u)"

lemma known_login:
  assumes "q_UpdateIdentityUserLogin email name t provider subject E n s = (Inr u, n', s')"
  shows "linked s' provider subject u"
proof -
  from assms obtain l r t' where l: "List.find (\<lambda>l. il_provider_id l = provider \<and> il_subject l = subject) (identity_links s) = Some l"
    and r: "List.find (\<lambda>u. usr_id u = il_user_id l) (users s) = Some r"
    and u: "u = (bump_session t' r)\<lparr>usr_email := email, usr_display_name := name, usr_last_login_at := t\<rparr>"
    and s': "s' = s\<lparr>users := upd_rows (\<lambda>u. usr_id u = il_user_id l)
      (\<lambda>u. (bump_session t' u)\<lparr>usr_email := email, usr_display_name := name, usr_last_login_at := t\<rparr>) (users s)\<rparr>"
    by (auto simp: q_UpdateIdentityUserLogin_def run_simps update_one_Inr split: option.splits)
  have "u \<in> set (users s')" using find_SomeD [OF r] u s' by (force simp: set_upd_rows)
  moreover have "l \<in> set (identity_links s')" "il_provider_id l = provider" "il_subject l = subject" "il_user_id l = usr_id u"
    using find_SomeD [OF l] find_SomeD [OF r] u s' by simp_all
  ultimately show ?thesis by (auto simp: linked_def)
qed

lemma new_login: "create_linked provider c E n s = (Inr u, n', s') \<Longrightarrow> linked s' provider (cls_subject c) u"
  by (auto simp: create_linked_def q_CreateUser_def q_LinkIdentity_def q_AssignInitialRole_def insert_row_Inr Let_def linked_def run_simps
      split: if_splits)

lemma linkIdentity_linked: "linkIdentity provider c E n s = (Inr u, n', s') \<Longrightarrow> linked s' provider (cls_subject c) u"
  unfolding linkIdentity_def optional_def
  by (auto simp: run_simps intro: known_login new_login split: if_splits option.split_asm)

text \<open>C30. Who signs in is who the identity provider vouched for: a completed sign-in had a transaction cookie that this server
  signed and that has not expired, for the returned state and an enabled provider with the requested name, an ID token of that
  provider's client and issuer with the transaction's nonce and a subject, and the tokens are made for the user linked to that subject
  with the permissions that user has then.\<close>

theorem sign_in_is_verified:
  assumes "SSOCallback P J cb E n s = (Inr pair, n', s')"
  shows "\<exists>cookie tx e p raw t k u m. cb_cookie cb = Some cookie \<and> jwt_open J cookie = Some (TransactionBody tx) \<and>
    tx_expires_at tx = Some e \<and> clock E n < e \<and> tx_state tx = cb_state cb \<and>
    p \<in> set (identity_providers s) \<and> idp_id p = tx_provider_id tx \<and> idp_enabled p \<and> idp_slug p = cb_slug cb \<and>
    oidc_verify P k (idp_client_id p) (idp_issuer_url p) raw = Some t \<and> it_nonce t = tx_nonce tx \<and> it_subject t \<noteq> '''' \<and>
    linked s' (idp_id p) (it_subject t) u \<and>
    GenerateTokens J (usr_id u) (usr_email u) (usr_session_version u) (permissions_of_user s' (usr_id u)) E m s' = (Inr pair, n', s')"
proof -
  from assms obtain cookie where cookie: "cb_cookie cb = Some cookie" by (auto simp: SSOCallback_def run_simps split: option.splits)
  with assms obtain tx e p n1 where tx: "jwt_open J cookie = Some (TransactionBody tx)" "tx_expires_at tx = Some e" "clock E n < e"
      "tx_state tx = cb_state cb"
    and p: "p \<in> set (identity_providers s)" "idp_id p = tx_provider_id tx" "idp_enabled p" "idp_slug p = cb_slug cb"
    and login: "complete_login P J p tx (cb_code cb) E n1 s = (Inr pair, n', s')"
    by (auto simp: SSOCallback_def q_GetIdentityProvider_def run_simps dest!: find_SomeD)
  from login obtain raw k c n2 n3 m u s1 where
    v: "VerifyIDToken (oidc_verify P k (idp_client_id p) (idp_issuer_url p) raw) (tx_nonce tx) = Inr c" "cls_subject c \<noteq> ''''"
    and link: "linkIdentity (idp_id p) c E n2 s = (Inr u, n3, s1)"
    and gen: "GenerateTokens J (usr_id u) (usr_email u) (usr_session_version u) (permissions_of_user s1 (usr_id u)) E m s1 = (Inr pair, n', s')"
    by (auto simp: complete_login_def provider_client_def NewOIDCProvider_def VerifyAndExtractClaims_def q_ListUserPermissions_def run_simps
        split: if_splits option.splits)
  have s1: "s1 = s'" using readonlyD [OF readonly_tokens(3) gen] by simp
  from v(1) obtain t where "oidc_verify P k (idp_client_id p) (idp_issuer_url p) raw = Some t" "it_nonce t = tx_nonce tx" "cls_subject c = it_subject t"
    by (auto simp: VerifyIDToken_def split: if_splits option.splits)
  then show ?thesis
    using cookie tx p v(2) linkIdentity_linked [OF link] gen unfolding s1 by metis
qed

theorem sign_in_is_verified_witness:
  "\<exists>p u. idp_enabled p \<and> p \<in> set (identity_providers ex_db) \<and>
    linked (snd (snd (SSOCallback ex_oidc ex_jwt \<lparr>cb_cookie = Some ''ck'', cb_state = ''st'', cb_slug = ''sso'', cb_code = ''c''\<rparr> ex_env 0 ex_db)))
      (idp_id p) ''sub'' u"
proof -
  let ?cb = "\<lparr>cb_cookie = Some ''ck'', cb_state = ''st'', cb_slug = ''sso'', cb_code = ''c''\<rparr>"
  let ?run = "SSOCallback ex_oidc ex_jwt ?cb ex_env 0 ex_db"
  have "fst ?run = Inr \<lparr>pair_access = ''acc3'', pair_refresh = ''ref3'', pair_expires_at = 301000000000\<rparr>" by code_simp
  then have run: "?run = (Inr \<lparr>pair_access = ''acc3'', pair_refresh = ''ref3'', pair_expires_at = 301000000000\<rparr>, fst (snd ?run), snd (snd ?run))"
    using triple [of ?run] by simp
  have "it_subject t = ''sub''" if "oidc_verify ex_oidc k a b raw = Some t" for k a b raw t
    using that by (auto simp: ex_oidc_def)
  then show ?thesis using sign_in_is_verified [OF run] by metis
qed

end
