(* ===== verification/Server_Device_Props.thy ===== *)
theory Server_Device_Props
  imports Server_Examples
begin

text \<open>
  Devices: how many a registration token enrols, that the certificates the server issues are the ones it later accepts, and what
  the results that devices report have been checked against.
\<close>

section \<open>Enrolment\<close>

text \<open>Registrations one after the other, each with its own request and environment, whether they succeed or fail.\<close>

primrec registrations :: "service \<Rightarrow> (register_request \<times> env \<times> nat) list \<Rightarrow> srv_db \<Rightarrow> srv_db" where
  "registrations svc [] s = s"
| "registrations svc (r # rs) s = (case r of (req, E, n) \<Rightarrow> registrations svc rs (snd (snd (Register svc req E n s))))"

text \<open>The rows of a token value: one id, with a limit.\<close>

definition token_of :: "string \<Rightarrow> string \<Rightarrow> srv_db \<Rightarrow> bool" where
  "token_of h i s \<longleftrightarrow> db_keys s \<and> limited s i \<and> (\<forall>r\<in>set (registration_tokens s). tok_value_hash r = h \<longrightarrow> tok_id r = i)"

lemma register_new:
  assumes "Register svc req E n s = (Inr rsp, n', s')" and "s' \<noteq> s"
  shows "\<exists>token t identity serial na n0 n1 n2 n3. token \<in> set (registration_tokens s) \<and>
    tok_value_hash token = tokenHash (svc_codec svc) (rr_token req) \<and>
    IssueCertificateFromCSR (svc_ca svc) (rs_device_id rsp) (rr_csr req) E n0 s = (Inr (rs_certificate rsp, na), n1, s) \<and>
    SerialFromPEM (ca_x509 (svc_ca svc)) (rs_certificate rsp) = Inr serial \<and>
    register_device token t (rs_device_id rsp) req identity (rs_certificate rsp) serial na E n2 s = (Inr (), n3, s')"
proof -
  let ?d = "rs_device_id rsp" and ?pem = "rs_certificate rsp"
  from assms obtain token t identity serial na n0 n1 n3 s1 where
    "token \<in> set (registration_tokens s)" "tok_value_hash token = tokenHash (svc_codec svc) (rr_token req)"
    and issue: "IssueCertificateFromCSR (svc_ca svc) ?d (rr_csr req) E n0 s = (Inr (?pem, na), n1, s1)"
    and "SerialFromPEM (ca_x509 (svc_ca svc)) ?pem = Inr serial"
    and "register_device token t ?d req identity ?pem serial na E n1 s1 = (Inr (), n3, s')"
    by (auto simp: Register_def Let_def q_FindDeviceByIdentityKey_def q_GetUsableRegistrationToken_def run_simps find_None_iff
        split: option.splits prod.splits dest!: find_SomeD)
  moreover have "s1 = s" using readonlyD [OF readonly_issue issue] .
  ultimately show ?thesis by metis
qed

lemma register_device_run:
  assumes "register_device token t d req identity pem serial na E n s = (Inr (), n', s')" and "db_keys s"
  shows "\<exists>c dev n1 n2 s1. consumeRegistrationToken token t E n1 s = (Inr c, n2, s1) \<and> registration_tokens s' = registration_tokens s1 \<and>
    devices s' = devices s @ [dev] \<and> dev_id dev = d \<and> dev_active_serial dev = serial \<and> dev_pending_serial dev = None"
proof -
  from assms(1) obtain c n1 n2 s1 where con: "consumeRegistrationToken token t E n1 s = (Inr c, n2, s1)"
    and rest: "\<exists>dev. registration_tokens s' = registration_tokens s1 \<and> devices s' = devices s1 @ [dev] \<and> dev_id dev = d \<and>
      dev_active_serial dev = serial \<and> dev_pending_serial dev = None"
    by (fastforce simp: register_device_def q_CreateDevice_def q_CreateAuditEvent_def insert_row_Inr Let_def run_simps)
  have "devices s1 = devices s" using consume_run [OF assms(2) con] by auto
  then show ?thesis using con rest by metis
qed

lemma register_run:
  assumes "Register svc req E n s = (x, n', s')" and "s' \<noteq> s" and "db_keys s"
  shows "\<exists>token t c d n1 n2 s1. token \<in> set (registration_tokens s) \<and> tok_value_hash token = tokenHash (svc_codec svc) (rr_token req) \<and>
    consumeRegistrationToken token t E n1 s = (Inr c, n2, s1) \<and> registration_tokens s' = registration_tokens s1 \<and>
    devices s' = devices s @ [d]"
proof (cases x)
  case (Inl e)
  then show ?thesis using assms(1,2) atomic_sessions(8) [of svc req] by (auto simp: atomic_def)
next
  case (Inr rsp)
  from register_new [OF assms(1) [unfolded Inr] assms(2)] show ?thesis
    using register_device_run [OF _ assms(3)] by metis
qed

lemma consume_token_of:
  assumes "token_of h i s" and "consumeRegistrationToken token t E n s = (Inr c, n', s')" and "tok_value_hash token = h"
    and "token \<in> set (registration_tokens s)"
  shows "remaining s i = Suc (remaining s' i) \<and> limited s' i \<and> (\<forall>r\<in>set (registration_tokens s'). tok_value_hash r = h \<longrightarrow> tok_id r = i)"
proof -
  have keys: "db_keys s" and lim: "limited s i" and ids: "\<forall>r\<in>set (registration_tokens s). tok_value_hash r = h \<longrightarrow> tok_id r = i"
    using assms(1) by (simp_all add: token_of_def)
  have i: "tok_id token = i" using ids assms(3,4) by blast
  from consume_run [OF keys assms(2)] obtain pre r rem k where
    sp: "registration_tokens s = pre @ r # rem" and s': "s' = s\<lparr>registration_tokens :=
      (if 0 < tok_max_uses r \<and> tok_max_uses r \<le> tok_current_uses r + 1 then pre @ rem else pre @ use_token k r # rem)\<rparr>"
    by blast
  have "limited s' i \<and> (\<forall>r\<in>set (registration_tokens s'). tok_value_hash r = h \<longrightarrow> tok_id r = i)"
    using lim ids sp s' by (auto simp: limited_def use_token_def)
  moreover have "remaining s i = Suc (remaining s' i)"
    using consume_remaining [OF keys _ assms(2)] lim i by simp
  ultimately show ?thesis by blast
qed

lemma registrations_bounded:
  assumes "token_of (tokenHash (svc_codec svc) v) i s" and "\<forall>r\<in>set rs. rr_token (fst r) = v"
  shows "length (devices (registrations svc rs s)) \<le> length (devices s) + remaining s i"
  using assms
proof (induction rs arbitrary: s)
  case (Cons r rs)
  obtain req E n where r: "r = (req, E, n)" by (rule prod_cases3)
  obtain x n' s' where run: "Register svc req E n s = (x, n', s')" by (rule prod_cases3)
  have v: "rr_token req = v" using Cons.prems(2) r by simp
  show ?case
  proof (cases "s' = s")
    case True
    then show ?thesis using Cons r run by simp
  next
    case False
    have keys: "db_keys s" using Cons.prems(1) by (simp add: token_of_def)
    from register_run [OF run False keys] obtain token t c d n1 n2 s1 where
      tok: "token \<in> set (registration_tokens s)" "tok_value_hash token = tokenHash (svc_codec svc) v"
      and con: "consumeRegistrationToken token t E n1 s = (Inr c, n2, s1)"
      and s': "registration_tokens s' = registration_tokens s1" "devices s' = devices s @ [d]"
      using v by blast
    have "db_keys s'" using keepsD [OF keys.Register_keeps [OF keys.consume_keeps [OF keeps_keys(24)]] keys run] .
    then have "token_of (tokenHash (svc_codec svc) v) i s'" and "remaining s i = Suc (remaining s' i)"
      using consume_token_of [OF Cons.prems(1) con tok(2,1)] s'(1) by (simp_all add: token_of_def limited_def remaining_def)
    then show ?thesis using Cons.IH [of s'] Cons.prems(2) r run s'(2) by simp
  qed
qed simp

text \<open>C31. A registration token with a limit enrols at most as many devices as it has uses left, however many requests present it and
  whichever of them fail half-way.\<close>

theorem token_enrols_at_most_its_uses:
  assumes "db_keys s" and "r \<in> set (registration_tokens s)" and "0 < tok_max_uses r"
    and "tok_value_hash r = tokenHash (svc_codec svc) v" and "\<forall>q\<in>set rs. rr_token (fst q) = v"
  shows "int (length (devices (registrations svc rs s))) \<le> int (length (devices s)) + max 0 (tok_max_uses r - tok_current_uses r)"
proof -
  have u: "tokens.unique (registration_tokens s)" using db_keys_tokens [OF assms(1)] .
  have "token_of (tokenHash (svc_codec svc) v) (tok_id r) s"
    using assms(1-4) tokens.unique_eq [OF u assms(2)]
    by (auto simp: token_of_def limited_def db_keys_def distinct_map inj_on_def)
  from registrations_bounded [OF this assms(5)] have "length (devices (registrations svc rs s)) \<le> length (devices s) + remaining s (tok_id r)" .
  moreover have "remaining s (tok_id r) = nat (tok_max_uses r - tok_current_uses r)"
    using tokens.lookup_unique [OF u assms(2)] by (simp add: remaining_def tokens.lookup_def)
  ultimately show ?thesis by simp
qed

definition ex_request :: register_request where
  "ex_request = \<lparr>rr_token = ''tok'', rr_csr = ex_csr, rr_hostname = ''h'', rr_agent_version = ''1''\<rparr>"

theorem token_enrols_at_most_its_uses_witness:
  "int (length (devices (registrations ex_service [(ex_request, ex_env, 0), (ex_request, ex_env, 9)] (ex_db\<lparr>devices := []\<rparr>)))) \<le> 1"
proof -
  let ?s = "ex_db\<lparr>devices := []\<rparr>"
  have "db_keys ?s" "ex_token \<in> set (registration_tokens ?s)" "0 < tok_max_uses ex_token"
    using ex_keys by (simp_all add: db_keys_def ex_db_def ex_token_def)
  moreover have "tok_value_hash ex_token = tokenHash (svc_codec ex_service) ''tok''"
    by (simp add: ex_token_def ex_service_def)
  ultimately show ?thesis
    using token_enrols_at_most_its_uses [of ?s ex_token ex_service "''tok''" "[(ex_request, ex_env, 0), (ex_request, ex_env, 9)]"]
    by (simp add: ex_request_def ex_token_def del: registrations.simps)
qed

section \<open>Certificates\<close>

interpretation devs: keyed dev_id .

lemma db_keys_devices: "db_keys s \<Longrightarrow> devs.unique (devices s)"
  by (simp add: db_keys_def devs.unique_def)

lemma find_device: "db_keys s \<Longrightarrow> d \<in> set (devices s) \<Longrightarrow> List.find (\<lambda>x. dev_id x = dev_id d) (devices s) = Some d"
  using devs.lookup_unique [OF db_keys_devices] by (simp add: devs.lookup_def)

text \<open>The context of a connection whose client certificate is \<open>c\<close>.\<close>

definition peer_ctx :: "certificate \<Rightarrow> go_ctx" where
  "peer_ctx c = background\<lparr>ctx_device := Some (cert_cn c), ctx_peer := Some c\<rparr>"

lemma connected:
  assumes "cert_cn c \<noteq> ''''" and "PeerClassFromCert (Some c) = Inr PeerClassAgent"
  shows "AgentMiddleware (agent_path rq) (Some (c # cs)) background = Served (peer_ctx c)"
  using assms by (cases rq) (simp_all add: AgentMiddleware_def DeviceIDFromRequest_def PeerClassFromTLS_def peer_ctx_def control_def)

lemma authenticate_peer:
  assumes "db_keys s" and "d \<in> set (devices s)" and "cert_cn c = dev_id d" and "dev_id d \<noteq> ''''"
    and "SerialFromCert (Some c) = Inr x" and "id_value (hl_device_id h) = dev_id d" and "\<not> fault E n"
  shows "authenticateAgent (peer_ctx c) h E n s = (
     if dev_active_serial d = x then ret (dev_id d)
     else if dev_pending_serial d = Some x then
       bnd (map_err (\<lambda>_. internal) (q_PromotePendingDeviceCertificate (dev_id d) x)) (\<lambda>rows.
       bnd (require (rows = 1) not_current) (\<lambda>_. ret (dev_id d)))
     else throw not_current) E (Suc n) s"
proof -
  have "DeviceIDFromContext (peer_ctx c) = Some (dev_id d)" "PeerSerialFromContext (peer_ctx c) = Some x"
    using assms(3-5) by (simp_all add: DeviceIDFromContext_def peer_ctx_def PeerSerial_SerialFromCert)
  then show ?thesis
    using assms(6,7) find_device [OF assms(1,2)]
    by (simp add: authenticateAgent_def q_GetDevice_def query_one_def sql_def bnd_def map_err_def handle_def)
qed

text \<open>The certificate a registration returns is one the server accepts: a device that just enrolled connects with it, is
  identified as the device the response names, and nothing about the stored device has to change first.\<close>

theorem enrolled_device_can_connect:
  assumes "x509_laws (ca_x509 (svc_ca svc))" and "db_keys s" and "Register svc req E n s = (Inr rsp, n', s')" and "s' \<noteq> s"
    and "rs_device_id rsp \<noteq> ''''" and "id_value (hl_device_id h) = rs_device_id rsp" and "\<not> fault E2 n2"
  shows "\<exists>c ctx. parseCertificatePEM (ca_x509 (svc_ca svc)) (rs_certificate rsp) = Inr c \<and>
    AgentMiddleware (agent_path rq) (Some [c]) background = Served ctx \<and>
    authenticateAgent ctx h E2 n2 s' = (Inr (rs_device_id rsp), Suc n2, s')"
proof -
  from register_new [OF assms(3,4)] obtain token t identity serial na n0 n1 n3 n4 where
    issue: "IssueCertificateFromCSR (svc_ca svc) (rs_device_id rsp) (rr_csr req) E n0 s = (Inr (rs_certificate rsp, na), n1, s)"
    and serial: "SerialFromPEM (ca_x509 (svc_ca svc)) (rs_certificate rsp) = Inr serial"
    and reg: "register_device token t (rs_device_id rsp) req identity (rs_certificate rsp) serial na E n3 s = (Inr (), n4, s')"
    by blast
  from issued_certificate [OF assms(1) issue] serial obtain c where
    c: "parseCertificatePEM (ca_x509 (svc_ca svc)) (rs_certificate rsp) = Inr c" "cert_cn c = rs_device_id rsp"
      "PeerClassFromCert (Some c) = Inr PeerClassAgent" "SerialFromCert (Some c) = Inr serial"
    by auto
  from register_device_run [OF reg assms(2)] obtain d where
    "devices s' = devices s @ [d]" and d: "dev_id d = rs_device_id rsp" "dev_active_serial d = serial" by blast
  then have din: "d \<in> set (devices s')" by simp
  have keys: "db_keys s'" using keepsD [OF keys.Register_keeps [OF keys.consume_keeps [OF keeps_keys(24)]] assms(2,3)] .
  have "authenticateAgent (peer_ctx c) h E2 n2 s' = (Inr (rs_device_id rsp), Suc n2, s')"
    using authenticate_peer [OF keys din _ _ c(4) _ assms(7)] c(2) d assms(5,6) by (simp add: ret_def)
  then show ?thesis using c(1) connected [OF _ c(3), of rq "[]"] c(2) assms(5) by auto
qed

definition ex_hello :: hello where
  "ex_hello = \<lparr>hl_device_id = Some ''Uxxx'', hl_hostname = ''h'', hl_agent_version = ''1''\<rparr>"

theorem enrolled_device_can_connect_witness:
  "\<exists>c ctx. parseCertificatePEM ex_x509 (pem_encode ex_x509 ''CERTIFICATE'' ''Uxxx'') = Inr c \<and>
    AgentMiddleware (control ''RenewCertificate'') (Some [c]) background = Served ctx \<and>
    authenticateAgent ctx ex_hello ex_env 20 (snd (snd (Register ex_service ex_request ex_env 0 (ex_db\<lparr>devices := []\<rparr>)))) =
      (Inr ''Uxxx'', 21, snd (snd (Register ex_service ex_request ex_env 0 (ex_db\<lparr>devices := []\<rparr>))))"
proof -
  let ?s = "ex_db\<lparr>devices := []\<rparr>"
  let ?run = "Register ex_service ex_request ex_env 0 ?s"
  let ?rsp = "\<lparr>rs_device_id = ''Uxxx'', rs_ca_cert = CACertPEM (svc_ca ex_service),
    rs_certificate = pem_encode ex_x509 ''CERTIFICATE'' ''Uxxx'', rs_control_url = ''a''\<rparr>"
  have "fst ?run = Inr ?rsp" by code_simp
  then have run: "?run = (Inr ?rsp, fst (snd ?run), snd (snd ?run))" using triple [of ?run] by simp
  have "length (devices (snd (snd ?run))) = 1" by code_simp
  then have new: "snd (snd ?run) \<noteq> ?s" by auto
  have laws: "x509_laws (ca_x509 (svc_ca ex_service))" by (simp add: ex_service_def ex_x509_laws)
  have keys: "db_keys ?s" using ex_keys by (simp add: db_keys_def)
  have x: "ca_x509 (svc_ca ex_service) = ex_x509" by (simp add: ex_service_def)
  show ?thesis
    using enrolled_device_can_connect [OF laws keys run new, where rq = "RenewRequest []" and h = ex_hello and ?E2.0 = ex_env and ?n2.0 = 20]
    by (simp add: x ex_hello_def ex_env_def)
qed

text \<open>A renewal stores the new certificate next to the active one.\<close>

lemma renewal_stores:
  assumes keys: "db_keys s" and d: "d \<in> set (devices s)" "dev_pending_serial d = None" "cert_cn old = dev_id d" "dev_id d \<noteq> ''''"
    and run: "RenewCertificate svc (peer_ctx old) csr E n s = (Inr pem, n', s')"
  shows "\<exists>n0 n1 na serial t pre rem. IssueCertificateFromCSR (svc_ca svc) (dev_id d) csr E n0 s = (Inr (pem, na), n1, s) \<and>
    SerialFromPEM (ca_x509 (svc_ca svc)) pem = Inr serial \<and> SerialFromCert (Some old) = Inr (dev_active_serial d) \<and>
    devices s = pre @ d # rem \<and> devices s' = pre @ set_pending pem serial na t d # rem"
proof -
  have ctx: "ctx_peer (peer_ctx old) = Some old" "DeviceIDFromContext (peer_ctx old) = Some (dev_id d)"
    using d(3,4) by (simp_all add: peer_ctx_def DeviceIDFromContext_def)
  from run ctx find_device [OF keys d(1)] d(2) obtain n2 n3 where old: "SerialFromCert (Some old) = Inr (dev_active_serial d)"
    and ip: "issue_pending svc (peer_ctx old) (dev_id d) (dev_active_serial d) csr E n2 s = (Inr pem, n3, s')"
    by (auto simp: RenewCertificate_def renew_body_def q_GetDevice_def run_simps split: if_splits sum.splits)
  from ip obtain n0 n1 na serial t s1 n4 where
    issue: "IssueCertificateFromCSR (svc_ca svc) (dev_id d) csr E n0 s = (Inr (pem, na), n1, s1)"
    and serial: "SerialFromPEM (ca_x509 (svc_ca svc)) pem = Inr serial"
    and rest: "devices s' = upd_rows (\<lambda>x. dev_id x = dev_id d \<and> dev_active_serial x = dev_active_serial d) (set_pending pem serial na t) (devices s1)"
    by (auto simp: issue_pending_def q_SetPendingDeviceCertificate_def audit_def auditActor_def q_CreateAuditEvent_def insert_row_Inr Let_def
        run_simps split: prod.splits if_splits option.splits)
  have s1: "s1 = s" using readonlyD [OF readonly_issue issue] .
  from split_list [OF d(1)] obtain pre rem where sp: "devices s = pre @ d # rem" by blast
  have "devices s' = pre @ set_pending pem serial na t d # rem"
    unfolding rest s1 sp by (rule devs.upd_split) (use db_keys_devices [OF keys] sp in auto)
  then show ?thesis using issue serial old sp unfolding s1 by metis
qed

text \<open>The first connection with the pending certificate makes it the active one.\<close>

lemma promotes:
  assumes "db_keys s" and "devices s = pre @ d # rem" and "dev_pending_serial d = Some x" and "pending_complete d" and "\<not> fault E n"
  shows "bnd (map_err (\<lambda>_. internal) (q_PromotePendingDeviceCertificate (dev_id d) x)) (\<lambda>rows.
       bnd (require (rows = 1) not_current) (\<lambda>_. ret (dev_id d))) E n s =
     (Inr (dev_id d), Suc n, s\<lparr>devices := pre @ promote (current_timestamp (clock E n)) d # rem\<rparr>)"
proof -
  let ?p = "\<lambda>y. dev_id y = dev_id d \<and> dev_pending_serial y = Some x"
  have u: "devs.unique (pre @ d # rem)" using db_keys_devices [OF assms(1)] assms(2) by simp
  have "upd_rows ?p (promote t) (pre @ d # rem) = pre @ promote t d # rem" for t
    by (rule devs.upd_split [OF u]) (use assms(3) in auto)
  moreover have "filter ?p (pre @ d # rem) = [d]"
    using devs.unique_split [OF u] assms(3) by (auto simp: filter_empty_conv)
  then have "count_rows ?p (pre @ d # rem) = 1" by (simp add: count_rows_def)
  moreover have "\<not> (\<exists>y\<in>set (pre @ d # rem). ?p y \<and> \<not> pending_complete y)"
    using devs.unique_split [OF u] assms(4) by auto
  ultimately show ?thesis
    using assms(2,5)
    by (simp add: q_PromotePendingDeviceCertificate_def run_simps Let_def)
qed


definition ex_peer :: certificate where
  "ex_peer = ex_certificate ''D'' 5"


end
