(* ===== verification/Server_Listing_Props.thy ===== *)
theory Server_Listing_Props
  imports Server_Examples
begin

text \<open>
  The listings a client reads page by page: following the page tokens gives every row exactly once, in order, and ends. The
  listing of actions pages by id; the listing of a device's results pages by completion time and run id, newest first, through a token
  that carries both as text.
\<close>

section \<open>Actions\<close>

lemma map_sum_actions:
  "\<forall>r\<in>set rs. stored_action C r \<Longrightarrow> \<exists>ms. map_sum (actionProto C) rs = Inr ms \<and> map (\<lambda>m. id_value (ma_id m)) ms = map ac_id rs"
proof (induction rs)
  case (Cons r rs)
  then obtain ms where "map_sum (actionProto C) rs = Inr ms" "map (\<lambda>m. id_value (ma_id m)) ms = map ac_id rs" by auto
  moreover obtain m where m: "actionProto C r = Inr m" using stored_action_proto [of C r] Cons.prems by auto
  moreover have "id_value (ma_id m) = ac_id r"
    using m by (auto simp: actionProto_def executableAction_def split: sum.splits option.splits if_splits)
  ultimately show ?case by auto
qed simp

text \<open>What a client gets from one call of the listing of actions: the ids and the next page token.\<close>

definition action_page :: "service \<Rightarrow> int \<Rightarrow> env \<Rightarrow> nat \<Rightarrow> srv_db \<Rightarrow> string \<Rightarrow> string list \<times> string" where
  "action_page svc k E n s token = (case fst (ListActions svc k token E n s) of
     Inl _ \<Rightarrow> ([], '''') | Inr (ms, _, next) \<Rightarrow> (map (\<lambda>m. id_value (ma_id m)) ms, next))"

lemma action_page_eq:
  assumes "db_actions (svc_codec svc) s" and "\<And>m. \<not> fault E m"
  shows "action_page svc k E n s token = map_prod (map ac_id) id (page ac_id (actions s) (pageSize k) token)"
proof -
  obtain rs "next" where p: "page ac_id (actions s) (pageSize k) token = (rs, next)" by (cases "page ac_id (actions s) (pageSize k) token")
  have "set rs \<subseteq> set (actions s)"
    using p by (auto simp: page_def paginate_def page_after_def Let_def split: if_splits dest!: in_set_takeD)
  then have "\<forall>r\<in>set rs. stored_action (svc_codec svc) r" using assms(1) by (auto simp: db_actions_def)
  then obtain ms where "map_sum (actionProto (svc_codec svc)) rs = Inr ms" "map (\<lambda>m. id_value (ma_id m)) ms = map ac_id rs"
    using map_sum_actions by blast
  moreover have "paginate (page_after ac_id token (pageSize k + 1) (actions s)) (pageSize k) ac_id = (rs, next)"
    using p by (simp add: page_def)
  ultimately show ?thesis
    using assms(2) p
    by (simp add: action_page_def ListActions_def Let_def q_ListActions_def q_CountActions_def query_def sql_def map_err_def handle_def bnd_def
        lift_sum_def ret_def)
qed

text \<open>C39. A client that follows the page tokens of the listing of actions gets every action exactly once, in order, whatever page
  size it asks for, and it stops: one request more than there are actions is always enough.\<close>

theorem following_page_tokens_ends_complete:
  assumes "srv_wf (svc_codec svc) s" and "\<forall>r\<in>set (actions s). ac_id r \<noteq> ''''" and "\<And>m. \<not> fault E m"
  shows "walk (Suc (length (actions s))) (action_page svc k E n s) '''' = Some (map ac_id (sort_key ac_id (actions s)))"
proof -
  have keys: "db_keys s" and acts: "db_actions (svc_codec svc) s" using assms(1) by (simp_all add: srv_wf_def)
  show ?thesis by (rule action_pages.walk_complete [OF keys assms(2) action_page_eq [OF acts assms(3)]])
qed

theorem following_page_tokens_ends_complete_witness:
  "walk 2 (action_page ex_service 1 ex_env 0 ex_db) '''' = Some [''A'']"
proof -
  have "srv_wf (svc_codec ex_service) ex_db" using ex_wf by (simp add: ex_parts)
  moreover have "\<forall>r\<in>set (actions ex_db). ac_id r \<noteq> ''''" by (simp add: ex_db_def)
  moreover have "\<not> fault ex_env m" for m by (simp add: ex_env_def)
  ultimately have "walk (Suc (length (actions ex_db))) (action_page ex_service 1 ex_env 0 ex_db) '''' =
      Some (map ac_id (sort_key ac_id (actions ex_db)))"
    by (rule following_page_tokens_ends_complete)
  then show ?thesis by (simp add: ex_db_def numeral_2_eq_2 del: walk.simps)
qed

section \<open>Execution results\<close>

text \<open>The page token is read back as what it was made of.\<close>

lemma Cut_first: "c \<notin> set a \<Longrightarrow> Cut (a @ c # b) [c] = Some (a, b)"
  by (induction a) (auto simp: HasPrefix_def split: option.splits)

lemma newline_not_printed: "newline \<notin> set (Format_RFC3339Nano t)"
proof -
  have d: "newline \<notin> set s" if "list_all is_digit s" for s
    using that by (auto simp: list_all_iff is_digit_def newline_def)
  have "set (TrimRight p s) \<subseteq> set s" for p and s :: string by (auto simp: TrimRight_def dest: set_dropWhileD)
  then have "newline \<notin> set (append_nano k)" for k
    using d [OF fixed_digits [of 9 k]] by (auto simp: append_nano_def newline_def)
  moreover have "newline \<notin> set (append_int w i)" for w i
    using d [OF fixed_digits] d [OF digits_nat_digits] by (auto simp: append_int_def newline_def)
  ultimately show ?thesis
    using d [OF fixed_digits] by (auto simp: Format_RFC3339Nano_def Let_def newline_def split: prod.splits)
qed

lemma page_token_roundtrip:
  assumes "check_valid_time t" and "valid run"
  shows "parseExecutionPageToken valid (executionPageToken t run) = Inr (t, run)" "executionPageToken t run \<noteq> ''''"
proof -
  have "EncodeToString s \<noteq> []" if "s \<noteq> []" for s using that by (cases s rule: EncodeToString.cases) simp_all
  then show ne: "executionPageToken t run \<noteq> ''''" by (simp add: executionPageToken_def)
  have "Parse_RFC3339Nano (Format_RFC3339Nano t) = Some t"
    using assms(1) by (intro parse_format) (simp_all add: check_valid_time_def)
  then show "parseExecutionPageToken valid (executionPageToken t run) = Inr (t, run)"
    using ne assms(2)
    by (simp add: parseExecutionPageToken_def executionPageToken_def decode_encode SplitN2_def Cut_first newline_not_printed)
qed

text \<open>The results of a device, newest first, are strictly descending in completion time and run id.\<close>

definition device_results :: "srv_db \<Rightarrow> string \<Rightarrow> execution_result list" where
  "device_results s d = newest_first (filter (\<lambda>e. er_device_id e = d) (execution_results s))"

abbreviation result_key :: "execution_result \<Rightarrow> int \<times> string" where
  "result_key e \<equiv> (er_completed_at e, er_run_id e)"

lemma set_device_results: "set (device_results s d) = {e \<in> set (execution_results s). er_device_id e = d}"
  by (auto simp: device_results_def newest_first_def)

lemma device_results_sorted:
  assumes "db_keys s"
  shows "sorted_wrt (\<lambda>a b. result_key b < result_key a) (device_results s d)"
proof -
  let ?es = "filter (\<lambda>e. er_device_id e = d) (execution_results s)"
  have "distinct (map er_run_id (execution_results s))" using assms by (simp add: db_keys_def)
  then have "distinct (map result_key (execution_results s))" by (auto simp: distinct_map inj_on_def)
  then have "distinct (map result_key (sort_key result_key ?es))" by (auto simp: distinct_map inj_on_def)
  then have "sorted_wrt (<) (map result_key (sort_key result_key ?es))" by (simp add: strict_sorted_iff)
  then show ?thesis by (simp add: device_results_def newest_first_def sorted_wrt_rev sorted_wrt_map)
qed

lemma newest_first_filter: "newest_first (filter p es) = filter p (newest_first es)"
  by (simp add: newest_first_def filter_sort flip: rev_filter)

lemma results_after:
  assumes "db_keys s" and "m < length (device_results s d)"
  shows "newest_first (filter (\<lambda>e. er_device_id e = d \<and> result_key e < result_key (device_results s d ! m)) (execution_results s)) =
    drop (Suc m) (device_results s d)"
proof -
  have "asymp (\<lambda>a b. result_key b < result_key a)" by (rule asympI) (metis order.asym)
  then have "filter (\<lambda>e. result_key e < result_key (device_results s d ! m)) (device_results s d) = drop (Suc m) (device_results s d)"
    by (rule filter_after_nth [OF device_results_sorted [OF assms(1)] _ assms(2)])
  then show ?thesis by (simp add: device_results_def newest_first_filter conj_commute flip: filter_filter)
qed

text \<open>Every result has its action.\<close>

definition row_action :: "srv_db \<Rightarrow> execution_result \<Rightarrow> db_action" where
  "row_action s e = the (join_action s (er_action_id e))"

lemma row_action:
  assumes "db_refs s" and "e \<in> set (execution_results s)"
  shows "join_action s (er_action_id e) = Some (row_action s e)" "row_action s e \<in> set (actions s)" "ac_id (row_action s e) = er_action_id e"
proof -
  have "exists_row ac_id (er_action_id e) (actions s)" using assms by (simp add: db_refs_def)
  then obtain x where x: "join_action s (er_action_id e) = Some x"
    by (cases "join_action s (er_action_id e)") (auto simp: join_action_def exists_row_def find_None_iff)
  then show j: "join_action s (er_action_id e) = Some (row_action s e)" by (simp add: row_action_def)
  from j show "row_action s e \<in> set (actions s)" "ac_id (row_action s e) = er_action_id e"
    unfolding join_action_def by (auto simp: find_Some_iff)
qed

lemma joined_rows:
  assumes "db_refs s" and "set es \<subseteq> set (execution_results s)"
  shows "List.map_filter (\<lambda>e. map_option (\<lambda>x. (e, x)) (join_action s (er_action_id e))) es = map (\<lambda>e. (e, row_action s e)) es"
  using assms(2) by (induction es) (auto simp: row_action(1) [OF assms(1)])

text \<open>A stored result is shown.\<close>

definition shown :: "codec \<Rightarrow> srv_db \<Rightarrow> bool" where
  "shown C s \<longleftrightarrow> (\<forall>x\<in>set (actions s). \<forall>a. executableAction C (ac_id x) (ac_blob x) = Inr a \<longrightarrow> \<not> isl (ActionDigest C (Some a)))"

lemma result_shown:
  assumes "db_refs s" "db_actions C s" "db_results C s" "shown C s" and e: "e \<in> set (execution_results s)"
  shows "\<exists>p. executionProto C (e, row_action s e) = Inr p \<and> id_value (xp_run_id p) = er_run_id e"
proof -
  from assms(3) e obtain r where r: "executionResultProto C (er_run_id e) (er_action_id e) (er_completed_at e) (er_blob e) = Inr r"
    by (auto simp: db_results_def stored_result_def)
  from assms(2) row_action [OF assms(1) e] obtain a where a: "executableAction C (er_action_id e) (ac_blob (row_action s e)) = Inr a"
    unfolding db_actions_def stored_action_def by metis
  then have "\<not> isl (ActionDigest C (Some a))" using assms(4) row_action [OF assms(1) e] unfolding shown_def by metis
  then obtain g where "ActionDigest C (Some a) = Inr g" by (cases "ActionDigest C (Some a)") auto
  then have "\<not> isl (complianceStatus C a (Some r))" by (simp add: complianceStatus_def)
  then obtain st where st: "complianceStatus C a (Some r) = Inr st" by (cases "complianceStatus C a (Some r)") auto
  have "id_value (res_run_id r) = er_run_id e" using r by (auto simp: executionResultProto_def split: option.splits if_splits)
  then show ?thesis using r a st by (simp add: executionProto_def)
qed

lemma results_shown:
  assumes "db_refs s" "db_actions C s" "db_results C s" "shown C s" and "set es \<subseteq> set (execution_results s)"
  shows "\<exists>ps. map_sum (executionProto C) (map (\<lambda>e. (e, row_action s e)) es) = Inr ps \<and>
    map (\<lambda>p. id_value (xp_run_id p)) ps = map er_run_id es"
  using assms(5)
proof (induction es)
  case (Cons e es)
  then obtain ps where "map_sum (executionProto C) (map (\<lambda>e. (e, row_action s e)) es) = Inr ps"
    "map (\<lambda>p. id_value (xp_run_id p)) ps = map er_run_id es" by auto
  moreover obtain p where "executionProto C (e, row_action s e) = Inr p" "id_value (xp_run_id p) = er_run_id e"
    using result_shown [OF assms(1-4), of e] Cons.prems by auto
  ultimately show ?case by auto
qed simp

text \<open>What a client gets from one call: the run ids and the next page token.\<close>

definition result_page :: "service \<Rightarrow> (string \<Rightarrow> bool) \<Rightarrow> string \<Rightarrow> int \<Rightarrow> env \<Rightarrow> nat \<Rightarrow> srv_db \<Rightarrow> string \<Rightarrow> string list \<times> string" where
  "result_page svc valid d k E n s token = (case fst (ListExecutionResults svc valid d k token E n s) of
     Inl _ \<Rightarrow> ([], '''') | Inr (rs, next) \<Rightarrow> (map (\<lambda>r. id_value (xp_run_id r)) rs, next))"

abbreviation result_token :: "execution_result \<Rightarrow> string" where
  "result_token e \<equiv> executionPageToken (er_completed_at e) (er_run_id e)"

lemma paginate_map: "0 < limit \<Longrightarrow> paginate (map g rs) limit tok = map_prod (map g) id (paginate rs limit (\<lambda>r. tok (g r)))"
  by (cases "take limit rs = []") (auto simp: paginate_def Let_def take_map last_map)

text \<open>The page of a cursor whose matching results, newest first, are \<open>es\<close>.\<close>

lemma result_page_eq:
  assumes "db_refs s" "db_actions (svc_codec svc) s" "db_results (svc_codec svc) s" "shown (svc_codec svc) s"
    and "exists_row dev_id d (devices s)" and ok: "\<And>m. \<not> fault E m"
    and cursor: "parseExecutionPageToken valid token = Inr (t, run)"
    and es: "newest_first (filter (\<lambda>e. er_device_id e = d \<and> (token = '''' \<or> result_key e < (t, run))) (execution_results s)) = es"
  shows "result_page svc valid d k E n s token = map_prod (map er_run_id) id (paginate (take (pageSize k + 1) es) (pageSize k) result_token)"
proof -
  obtain rs "next" where p: "paginate (take (pageSize k + 1) es) (pageSize k) result_token = (rs, next)"
    by (cases "paginate (take (pageSize k + 1) es) (pageSize k) result_token")
  have sub: "set es \<subseteq> set (execution_results s)" using es by (auto simp: newest_first_def)
  have "set rs \<subseteq> set es" using p by (auto simp: paginate_def Let_def split: if_splits dest!: in_set_takeD)
  then obtain ps where ps: "map_sum (executionProto (svc_codec svc)) (map (\<lambda>e. (e, row_action s e)) rs) = Inr ps"
    "map (\<lambda>p. id_value (xp_run_id p)) ps = map er_run_id rs"
    using results_shown [OF assms(1-4)] sub by blast
  obtain x where x: "List.find (\<lambda>x. dev_id x = d) (devices s) = Some x"
    using assms(5) by (cases "List.find (\<lambda>x. dev_id x = d) (devices s)") (auto simp: exists_row_def find_None_iff)
  have "newest_first (filter (\<lambda>e. er_device_id e = d \<and>
      (\<not> token \<noteq> '''' \<or> er_completed_at e < t \<or> er_completed_at e = t \<and> er_run_id e < run)) (execution_results s)) = es"
    unfolding es [symmetric] by (intro arg_cong [of _ _ newest_first] filter_cong) auto
  then have q: "q_ListExecutionResults d (token \<noteq> '''') t run (pageSize k + 1) E m s =
      (Inr (map (\<lambda>e. (e, row_action s e)) (take (pageSize k + 1) es)), Suc m, s)" for m
    using joined_rows [OF assms(1) sub] ok by (simp add: q_ListExecutionResults_def query_def sql_def take_map)
  have "paginate (map (\<lambda>e. (e, row_action s e)) (take (pageSize k + 1) es)) (pageSize k) (\<lambda>(e, x). result_token e) =
      (map (\<lambda>e. (e, row_action s e)) rs, next)"
    unfolding paginate_map [OF pageSize_pos] using p by simp
  then have "fst (ListExecutionResults svc valid d k token E n s) = Inr (ps, next)"
    using ok x cursor q ps(1)
    by (simp add: ListExecutionResults_def Let_def require_device_def q_GetDevice_def query_one_def sql_def map_err_def handle_def
        bnd_def lift_sum_def ret_def)
  then show ?thesis using p ps(2) by (simp add: result_page_def)
qed

text \<open>C12. A client that follows the page tokens of a device's results gets every result exactly once, newest first, whatever page size
  it asks for, and it stops: one request more than there are results is always enough. The token, a printed time and a run id in
  base64, is read back as exactly the place it was made for.\<close>

theorem following_result_tokens_ends_complete:
  assumes "srv_wf (svc_codec svc) s" and "shown (svc_codec svc) s" and "exists_row dev_id d (devices s)"
    and ulids: "\<forall>e\<in>set (execution_results s). valid (er_run_id e)" and ok: "\<And>m. \<not> fault E m"
  shows "walk (Suc (length (device_results s d))) (result_page svc valid d k E n s) '''' = Some (map er_run_id (device_results s d))"
proof -
  have keys: "db_keys s" and wf: "db_refs s" "db_actions (svc_codec svc) s" "db_results (svc_codec svc) s"
    using assms(1) by (simp_all add: srv_wf_def)
  note page = result_page_eq [OF wf assms(2,3) ok]
  have token: "parseExecutionPageToken valid (result_token e) = Inr (result_key e) \<and> result_token e \<noteq> ''''"
    if "e \<in> set (device_results s d)" for e
    using that wf(3) ulids page_token_roundtrip [of "er_completed_at e" valid "er_run_id e"]
    by (auto simp: set_device_results db_results_def stored_result_def)
  show ?thesis
  proof (rule walk_keyset)
    show "result_page svc valid d k E n s '''' =
        map_prod (map er_run_id) id (paginate (take (pageSize k + 1) (device_results s d)) (pageSize k) result_token)"
      by (rule page) (simp_all add: parseExecutionPageToken_def device_results_def)
    fix m assume m: "m < length (device_results s d)"
    let ?e = "device_results s d ! m"
    have t: "parseExecutionPageToken valid (result_token ?e) = Inr (result_key ?e)" "result_token ?e \<noteq> ''''"
      using token [OF nth_mem [OF m]] by simp_all
    show "result_page svc valid d k E n s (result_token ?e) =
        map_prod (map er_run_id) id (paginate (take (pageSize k + 1) (drop (Suc m) (device_results s d))) (pageSize k) result_token)"
      using t results_after [OF keys m] by (intro page) simp_all
  qed (use token in simp_all)
qed

text \<open>Two results of one device, read one at a time.\<close>

definition ex_later :: action_result where
  "ex_later = ex_result\<lparr>res_completed_at := Some 2000000500, res_run_id := Some ''Q''\<rparr>"

definition ex_listing_codec :: codec where
  "ex_listing_codec = table_codec [(ex_action, ''blobA'')] [(ex_result, ''blobR''), (ex_later, ''blobQ'')]"

definition ex_listing_service :: service where
  "ex_listing_service = ex_service\<lparr>svc_codec := ex_listing_codec\<rparr>"

definition ex_listing_db :: srv_db where
  "ex_listing_db = ex_db\<lparr>execution_results := [
     \<lparr>er_run_id = ''R'', er_device_id = ''D'', er_action_id = ''A'', er_completed_at = 1000000000, er_blob = ''blobR''\<rparr>,
     \<lparr>er_run_id = ''Q'', er_device_id = ''D'', er_action_id = ''A'', er_completed_at = 2000000500, er_blob = ''blobQ''\<rparr>]\<rparr>"

lemma ex_listing_wf: "srv_wf ex_listing_codec ex_listing_db"
  by (auto simp: srv_wf_def db_keys_def db_refs_def db_rows_def db_targets_def target_exists_def db_tokens_def token_ok_def db_actions_def
      stored_action_def db_results_def stored_result_def exists_row_def pending_ok_def session_ok_def ex_defs ex_listing_db_def
      ex_listing_codec_def table_codec_def executableAction_def executionResultProto_def check_valid_time_def ex_later_def ex_result_def
      ex_action_def valid_action_def spec_action_def ex_spec_def ex_shell_def)

theorem following_result_tokens_ends_complete_witness:
  "walk 3 (result_page ex_listing_service (\<lambda>_. True) ''D'' 1 ex_env 0 ex_listing_db) '''' = Some [''Q'', ''R'']"
proof -
  have "srv_wf (svc_codec ex_listing_service) ex_listing_db" using ex_listing_wf by (simp add: ex_listing_service_def)
  moreover have "shown (svc_codec ex_listing_service) ex_listing_db"
    by (simp add: shown_def ex_listing_service_def ex_listing_db_def ex_db_def ex_listing_codec_def table_codec_def executableAction_def
        ActionDigest_def ex_action_def)
  moreover have "exists_row dev_id ''D'' (devices ex_listing_db)" by (simp add: exists_row_def ex_listing_db_def ex_db_def ex_device_def)
  moreover have "\<not> fault ex_env m" for m by (simp add: ex_env_def)
  ultimately have w: "walk (Suc (length (device_results ex_listing_db ''D''))) (result_page ex_listing_service (\<lambda>_. True) ''D'' 1 ex_env 0 ex_listing_db) '''' =
      Some (map er_run_id (device_results ex_listing_db ''D''))"
    by (intro following_result_tokens_ends_complete) simp_all
  have "map er_run_id (device_results ex_listing_db ''D'') = [''Q'', ''R'']" by code_simp
  moreover from this have "length (device_results ex_listing_db ''D'') = 2" by (metis length_map length_Cons list.size(3) numeral_2_eq_2)
  ultimately show ?thesis using w by (simp add: numeral_3_eq_3 del: walk.simps)
qed

end
