(* ===== verification/Server_Result_Props.thy ===== *)
theory Server_Result_Props
  imports Server_Examples
begin

text \<open>
  What devices report and what operators see of it: results are stored once and only for assigned actions, compliance is the worst
  check, and validation accepts exactly the valid actions.
\<close>

section \<open>Results\<close>

text \<open>The row that a result is stored in.\<close>

definition holds_result :: "codec \<Rightarrow> string \<Rightarrow> action_result \<Rightarrow> srv_db \<Rightarrow> bool" where
  "holds_result C d r s \<longleftrightarrow> (\<exists>e\<in>set (execution_results s). er_run_id e = id_value (res_run_id r) \<and> er_device_id e = d \<and>
     executionResultProto C (er_run_id e) (er_action_id e) (er_completed_at e) (er_blob e) = Inr r)"

text \<open>A run of the transaction: the same result is there already, or it is new and its action is assigned to the device.\<close>

lemma result_transaction_run:
  assumes "result_transaction C d r completed blob E n s = (Inr u, n', s')"
  shows "s' = s \<and> holds_result C d r s \<or>
    (\<exists>a ev. a \<in> set (assigned_actions s d) \<and> ac_id a = id_value (res_action_id r) \<and>
      \<not> exists_row er_run_id (id_value (res_run_id r)) (execution_results s) \<and>
      s' = s\<lparr>execution_results := execution_results s @ [\<lparr>er_run_id = id_value (res_run_id r), er_device_id = d,
        er_action_id = id_value (res_action_id r), er_completed_at = completed, er_blob = blob\<rparr>], audit_events := audit_events s @ [ev]\<rparr> \<and>
      ae_event_type ev = AUDIT_EVENT_TYPE_EXECUTION_RESULT_RECEIVED \<and> ae_actor_id ev = d)"
proof -
  from assms obtain n1 existing n2 s1 where
    ex: "existing = List.find (\<lambda>e. er_run_id e = id_value (res_run_id r)) (execution_results s)"
    and rest: "(case existing of Some e \<Rightarrow> duplicate_result C d r e | None \<Rightarrow> insert_result C d r completed blob) E n1 s = (Inr u, n2, s')"
    by (auto simp: result_transaction_def q_GetExecutionResult_def run_simps)
  show ?thesis
  proof (cases existing)
    case (Some e)
    have "e \<in> set (execution_results s)" "er_run_id e = id_value (res_run_id r)" using find_SomeD [OF ex [symmetric, unfolded Some]] by auto
    then show ?thesis
      using rest Some by (auto simp: duplicate_result_def holds_result_def run_simps split: if_splits)
  next
    case None
    then have new: "\<not> exists_row er_run_id (id_value (res_run_id r)) (execution_results s)"
      using ex by (auto simp: find_None_iff exists_row_def)
    from rest None obtain a where "a \<in> set (assigned_actions s d)" "ac_id a = id_value (res_action_id r)"
      by (auto simp: insert_result_def q_ListActionsForDevice_def Let_def run_simps split: option.splits dest!: find_SomeD)
    moreover from rest None new have "\<exists>ev. s' = s\<lparr>execution_results := execution_results s @ [\<lparr>er_run_id = id_value (res_run_id r), er_device_id = d,
        er_action_id = id_value (res_action_id r), er_completed_at = completed, er_blob = blob\<rparr>], audit_events := audit_events s @ [ev]\<rparr> \<and>
        ae_event_type ev = AUDIT_EVENT_TYPE_EXECUTION_RESULT_RECEIVED \<and> ae_actor_id ev = d"
      by (auto simp: insert_result_def q_ListActionsForDevice_def q_CreateExecutionResult_def q_CreateAuditEvent_def insert_row_Inr Let_def
          run_simps split: option.splits if_splits)
    ultimately show ?thesis using new by blast
  qed
qed

lemma store_result_run:
  assumes "storeActionResult svc d (Some r) E n s = (Inr u, n', s')"
  shows "\<exists>completed blob n1. res_completed_at r = Some completed \<and> marshal_result (svc_codec svc) r = Some blob \<and>
    result_transaction (svc_codec svc) d r completed blob E n s = (Inr u, n1, s')"
  using assms by (auto simp: storeActionResult_def run_simps split: option.splits if_splits)

text \<open>Reporting a stored result again succeeds and changes nothing.\<close>

lemma stored_result_again:
  assumes keys: "db_keys s" and held: "holds_result (svc_codec svc) d r s" and ok: "\<And>k. \<not> fault E k"
    and fst_run: "storeActionResult svc d (Some r) E0 n0 s0 = (Inr u, n0', s0')"
  shows "\<exists>n'. storeActionResult svc d (Some r) E n s = (Inr (), n', s)"
proof -
  from held obtain e where e: "e \<in> set (execution_results s)" "er_run_id e = id_value (res_run_id r)" "er_device_id e = d"
    "executionResultProto (svc_codec svc) (er_run_id e) (er_action_id e) (er_completed_at e) (er_blob e) = Inr r"
    by (auto simp: holds_result_def)
  have "List.find (\<lambda>x. er_run_id x = id_value (res_run_id r)) (execution_results s) = Some e"
  proof (cases "List.find (\<lambda>x. er_run_id x = id_value (res_run_id r)) (execution_results s)")
    case None
    then show ?thesis using e by (auto simp: find_None_iff)
  next
    case (Some e')
    then show ?thesis using find_SomeD [OF Some] keys e by (auto simp: db_keys_def distinct_map inj_on_def)
  qed
  then show ?thesis
    using fst_run ok e
    by (auto simp: storeActionResult_def result_transaction_def duplicate_result_def q_GetExecutionResult_def run_simps
        split: option.splits if_splits)
qed

lemma accepted_holds:
  assumes "codec_laws (svc_codec svc)" and "msg_payload m = ActionResultFrame (Some r)"
    and "handleAgentMessage svc d h m E n s = (Inr (Some (i, AckFrame RESULT_ACK_CODE_ACCEPTED)), n', s')"
  shows "holds_result (svc_codec svc) d r s' \<and> i = msg_id m \<and> storeActionResult svc d (Some r) E n s = (Inr (), n', s')"
proof -
  from assms(2,3) have run: "storeActionResult svc d (Some r) E n s = (Inr (), n', s')" and i: "i = msg_id m"
    by (auto simp: handleAgentMessage_def run_simps split: if_splits)
  from store_result_run [OF run] obtain completed blob n1 where c: "res_completed_at r = Some completed" "marshal_result (svc_codec svc) r = Some blob"
    and t: "result_transaction (svc_codec svc) d r completed blob E n s = (Inr (), n1, s')" by blast
  have "holds_result (svc_codec svc) d r s'"
    using result_transaction_run [OF t] codec_result [OF assms(1) c(2)] c(1) by (auto simp: holds_result_def executionResultProto_def)
  then show ?thesis using run i by simp
qed

text \<open>An accepted result is stored, whole: the database then has a row of that run and device that decodes to the very message.
  A device that did not see the answer may report it again: it is accepted again and nothing changes.\<close>

theorem accepted_result_is_stored:
  assumes "codec_laws (svc_codec svc)" and "db_keys s" and "msg_payload m = ActionResultFrame (Some r)"
    and "handleAgentMessage svc d h m E n s = (Inr (Some (i, AckFrame RESULT_ACK_CODE_ACCEPTED)), n', s')"
    and "\<And>k. \<not> fault E2 k"
  shows "holds_result (svc_codec svc) d r s' \<and>
    (\<exists>n3. handleAgentMessage svc d h m E2 n2 s' = (Inr (Some (i, AckFrame RESULT_ACK_CODE_ACCEPTED)), n3, s'))"
proof -
  note acc = accepted_holds [OF assms(1,3,4)]
  then have run: "storeActionResult svc d (Some r) E n s = (Inr (), n', s')" and held: "holds_result (svc_codec svc) d r s'" by auto
  have keys: "db_keys s'" using keepsD [OF keys.storeActionResult_keeps [OF keeps_keys(48)] assms(2) run] .
  from stored_result_again [OF keys held assms(5) run] obtain n3 where
    "storeActionResult svc d (Some r) E2 n2 s' = (Inr (), n3, s')" by blast
  then show ?thesis using acc assms(3) by (auto simp: handleAgentMessage_def run_simps)
qed

definition ex_message :: agent_message where
  "ex_message = \<lparr>msg_id = Some ''M'', msg_payload = ActionResultFrame (Some ex_result)\<rparr>"

definition ex_hello_D :: hello where
  "ex_hello_D = \<lparr>hl_device_id = Some ''D'', hl_hostname = ''h'', hl_agent_version = ''1''\<rparr>"

lemma ex_report: "fst (handleAgentMessage ex_service ''D'' ex_hello_D ex_message ex_env 0 ex_db) =
    Inr (Some (Some ''M'', AckFrame RESULT_ACK_CODE_ACCEPTED))"
  by code_simp

lemma ex_report_run: "handleAgentMessage ex_service ''D'' ex_hello_D ex_message ex_env 0 ex_db =
    (Inr (Some (Some ''M'', AckFrame RESULT_ACK_CODE_ACCEPTED)), fst (snd (handleAgentMessage ex_service ''D'' ex_hello_D ex_message ex_env 0 ex_db)),
     snd (snd (handleAgentMessage ex_service ''D'' ex_hello_D ex_message ex_env 0 ex_db)))"
  using ex_report triple [of "handleAgentMessage ex_service ''D'' ex_hello_D ex_message ex_env 0 ex_db"] by simp

theorem accepted_result_is_stored_witness:
  "holds_result ex_codec ''D'' ex_result (snd (snd (handleAgentMessage ex_service ''D'' ex_hello_D ex_message ex_env 0 ex_db)))"
proof -
  have "msg_payload ex_message = ActionResultFrame (Some ex_result)" by (simp add: ex_message_def)
  moreover have "codec_laws (svc_codec ex_service)" by (simp add: ex_parts ex_codec_laws)
  moreover have "\<not> fault ex_env k" for k by (simp add: ex_env_def)
  ultimately show ?thesis
    using accepted_result_is_stored [OF _ ex_keys _ ex_report_run, of ex_result ex_env] by (simp add: ex_parts)
qed



section \<open>Compliance\<close>

text \<open>The check of an assigned compliance action: its status is that of the latest result of this device.\<close>

definition check_of :: "codec \<Rightarrow> srv_db \<Rightarrow> string \<Rightarrow> db_action \<Rightarrow> check_result \<Rightarrow> bool" where
  "check_of C s d x k \<longleftrightarrow> (\<exists>a r st. executableAction C (ac_id x) (ac_blob x) = Inr a \<and>
     row_result C x (latest_result s d (ac_id x)) = Inr r \<and> complianceStatus C a r = Inr st \<and> k = row_check x r st)"

lemma compliance_loop_rows:
  "compliance_loop C (map (\<lambda>x. (x, latest_result s d (ac_id x))) xs) acc = Inr c \<Longrightarrow>
    \<exists>ks. cs_checks c = cs_checks acc @ ks \<and>
      list_all2 (check_of C s d) (filter (\<lambda>x. compliance_row C (x, latest_result s d (ac_id x))) xs) ks"
proof (induction xs arbitrary: acc)
  case (Cons x xs)
  obtain a where a: "executableAction C (ac_id x) (ac_blob x) = Inr a" using Cons.prems by (auto split: sum.splits)
  show ?case
  proof (cases "isComplianceAction a")
    case False
    then show ?thesis using Cons a by (simp add: compliance_row_def)
  next
    case True
    then obtain r st where k: "row_result C x (latest_result s d (ac_id x)) = Inr r" "complianceStatus C a r = Inr st"
      and rest: "compliance_loop C (map (\<lambda>x. (x, latest_result s d (ac_id x))) xs) (add_check x r st acc) = Inr c"
      using Cons.prems a by (auto split: sum.splits)
    from Cons.IH [OF rest] obtain ks where
      "cs_checks c = cs_checks (add_check x r st acc) @ ks"
      "list_all2 (check_of C s d) (filter (\<lambda>x. compliance_row C (x, latest_result s d (ac_id x))) xs) ks" by blast
    moreover have "check_of C s d x (row_check x r st)" using a k by (auto simp: check_of_def)
    moreover have "compliance_row C (x, latest_result s d (ac_id x))" using a True by (simp add: compliance_row_def)
    ultimately show ?thesis by (intro exI [of _ "row_check x r st # ks"]) (simp add: add_check_def)
  qed
qed simp

text \<open>C36. The compliance an operator sees is the worst of the checks, non-compliant before pending before compliant, and there is
  exactly one check for every compliance action assigned to the device, by name, computed from its latest result.\<close>

theorem compliance_is_the_worst_check:
  assumes "GetDeviceCompliance svc d E n s = (Inr (st, checks), n', s')"
  shows "s' = s \<and> st = worst_status (map cr_status checks) \<and>
    list_all2 (check_of (svc_codec svc) s d)
      (filter (\<lambda>x. compliance_row (svc_codec svc) (x, latest_result s d (ac_id x))) (sort_key (\<lambda>x. (ac_name x, ac_id x)) (assigned_actions s d))) checks"
proof -
  from assms obtain c where s': "s' = s" and c: "st = cs_status c" "checks = cs_checks c"
    and loop: "compliance_loop (svc_codec svc) (map (\<lambda>x. (x, latest_result s d (ac_id x)))
      (sort_key (\<lambda>x. (ac_name x, ac_id x)) (assigned_actions s d))) empty_summary = Inr c"
    by (auto simp: GetDeviceCompliance_def require_device_def deviceCompliance_def q_GetDevice_def q_ListComplianceResults_def run_simps)
  have "summary_ok empty_summary" by (simp add: summary_ok_def empty_summary_def worst_status_def)
  from compliance_loop_ok [OF loop this] have "st = worst_status (map cr_status checks)" by (simp add: summary_ok_def c)
  moreover from compliance_loop_rows [OF loop] have "list_all2 (check_of (svc_codec svc) s d)
      (filter (\<lambda>x. compliance_row (svc_codec svc) (x, latest_result s d (ac_id x))) (sort_key (\<lambda>x. (ac_name x, ac_id x)) (assigned_actions s d))) checks"
    by (simp add: c empty_summary_def)
  ultimately show ?thesis using s' by blast
qed

theorem compliance_is_the_worst_check_witness:
  "\<exists>st checks. fst (GetDeviceCompliance ex_service ''D'' ex_env 0 ex_db) = Inr (st, checks) \<and> st = worst_status (map cr_status checks) \<and>
    st = COMPLIANCE_STATUS_PENDING"
proof -
  let ?run = "GetDeviceCompliance ex_service ''D'' ex_env 0 ex_db"
  let ?k = "\<lparr>cr_action_id = ''A'', cr_action_name = ''a'', cr_status = COMPLIANCE_STATUS_PENDING, cr_detection_output = None, cr_checked_at = None\<rparr>"
  have f: "fst ?run = Inr (COMPLIANCE_STATUS_PENDING, [?k])" by code_simp
  then have "?run = (Inr (COMPLIANCE_STATUS_PENDING, [?k]), fst (snd ?run), snd (snd ?run))" using triple [of ?run] by simp
  from compliance_is_the_worst_check [OF this] f show ?thesis by auto
qed

section \<open>Actions\<close>


end
