(* ===== verification/System_Connection.thy ===== *)
theory System_Connection
  imports Server_Result_Props
begin

text \<open>
  One agent and the server, connected by a stream. The goroutines are those of the code: \<^verbatim>\<open>Client.Run\<close> with its heartbeats, any
  number of concurrent callers of \<^verbatim>\<open>SendActionResult\<close> and \<^verbatim>\<open>PullDesiredPolicy\<close>, and the server's \<^verbatim>\<open>Stream\<close> handler, next to every
  other request the server handles. A step is one critical section, one channel operation, one frame sent or received. The
  network may lose any frame at any time, the stream may break and be opened again, and any call may be cancelled.
\<close>

section \<open>State\<close>

datatype request = ResultRequest action_result | PolicyRequest

datatype outcome = ResultOutcome "go_error option" | PolicyOutcome "go_error + desired_policy"

fun request_message :: "string \<Rightarrow> request \<Rightarrow> agent_message" where
  "request_message i (ResultRequest r) = result_message i r"
| "request_message i PolicyRequest = policy_message i"

fun response_outcome :: "request \<Rightarrow> server_message option \<Rightarrow> outcome" where
  "response_outcome (ResultRequest r) m = ResultOutcome (result_response m)"
| "response_outcome PolicyRequest m = PolicyOutcome (policy_response m)"

fun error_outcome :: "request \<Rightarrow> go_error \<Rightarrow> outcome" where
  "error_outcome (ResultRequest r) e = ResultOutcome (Some e)"
| "error_outcome PolicyRequest e = PolicyOutcome (Inl e)"

record call =
  call_id :: string
  call_chan :: nat
  call_request :: request
  call_sent :: bool

text \<open>Where \<^verbatim>\<open>Run\<close> is: the number is that of its stream. In \<open>RunDeliver\<close> it has taken a pending call and not yet sent the message on
  its channel.\<close>

datatype run_phase = RunIdle | RunHello nat | RunReceive nat | RunDeliver nat nat server_message | RunEnding nat

record endpoint =
  ep_tls :: "certificate list option"
  ep_hostname :: string
  ep_version :: string
  ep_valid_agent :: "agent_message \<Rightarrow> bool"
  ep_valid_server :: "server_message \<Rightarrow> bool"

text \<open>\<open>cn_ids\<close> are the message ids the client has drawn; \<open>cn_serving\<close> is the device and the hello of the
  server's handler; \<open>cn_beats\<close> is None until the heartbeats are started, then tells whether they still run.\<close>

record conn =
  cn_client :: client
  cn_calls :: "nat \<rightharpoonup> call"
  cn_run :: run_phase
  cn_beats :: "bool option"
  cn_ids :: "string set"
  cn_streams :: nat
  cn_up :: "agent_message list"
  cn_down :: "server_message list"
  cn_serving :: "(string \<times> hello) option"
  cn_db :: srv_db

definition new_conn :: "string \<Rightarrow> srv_db \<Rightarrow> conn" where
  "new_conn d s = \<lparr>cn_client = NewClient d, cn_calls = Map.empty, cn_run = RunIdle, cn_beats = None, cn_ids = {}, cn_streams = 0,
     cn_up = [], cn_down = [], cn_serving = None, cn_db = s\<rparr>"

section \<open>Steps\<close>

text \<open>Errors that other packages return are never this package's \<^verbatim>\<open>ErrResultRejected\<close>.\<close>

definition foreign :: "go_error \<Rightarrow> bool" where
  "foreign e \<longleftrightarrow> \<not> errors_is e ErrResultRejected"

definition end_call :: "nat \<Rightarrow> call \<Rightarrow> conn \<Rightarrow> conn" where
  "end_call g c s = s\<lparr>cn_calls := (cn_calls s)(g := None), cn_client := unregisterPending (call_id c) (cn_client s)\<rparr>"

datatype event = Internal | Returned request outcome

inductive conn_step :: "deployment \<Rightarrow> endpoint \<Rightarrow> conn \<Rightarrow> event \<Rightarrow> conn \<Rightarrow> bool" for D P where
  renew: "cn_run s = RunIdle \<Longrightarrow> cn_calls s = Map.empty \<Longrightarrow>
    conn_step D P s Internal (s\<lparr>cn_client := NewClient (cl_device_id (cn_client s))\<rparr>)"
| open_stream: "cn_run s = RunIdle \<Longrightarrow> Run_open (cn_streams s) (cn_client s) = Inr c \<Longrightarrow>
    conn_step D P s Internal (s\<lparr>cn_client := c, cn_run := RunHello (cn_streams s), cn_streams := Suc (cn_streams s), cn_up := [],
      cn_down := [], cn_serving := None, cn_beats := None\<rparr>)"
| say_hello: "cn_run s = RunHello k \<Longrightarrow> i \<notin> cn_ids s \<Longrightarrow> m = hello_message i (ep_hostname P) (ep_version P) (cn_client s) \<Longrightarrow>
    client_send (ep_valid_agent P) None None m (cn_client s) = None \<Longrightarrow>
    conn_step D P s Internal (s\<lparr>cn_ids := insert i (cn_ids s), cn_up := cn_up s @ [m], cn_run := RunReceive k\<rparr>)"
| hello_fails: "cn_run s = RunHello k \<Longrightarrow> conn_step D P s Internal (s\<lparr>cn_run := RunEnding k\<rparr>)"
| accept: "cn_up s = m # rest \<Longrightarrow> cn_serving s = None \<Longrightarrow> msg_payload m = HelloFrame h \<Longrightarrow>
    AgentMiddleware (agent_path (StreamRequest [m] EndOfStream)) (ep_tls P) background = Served ctx \<Longrightarrow>
    Stream (dpl_service D) ctx [m] EndOfStream E n (cn_db s) = (Inr ([w], EndOfStream), n', db') \<Longrightarrow>
    conn_step D P s Internal (s\<lparr>cn_up := rest, cn_down := cn_down s @ [w], cn_serving := Some (id_value (hl_device_id h), h), cn_db := db'\<rparr>)"
| serve: "cn_up s = m # rest \<Longrightarrow> cn_serving s = Some (d, h) \<Longrightarrow>
    handleAgentMessage (dpl_service D) d h m E n (cn_db s) = (Inr reply, n', db') \<Longrightarrow>
    conn_step D P s Internal (s\<lparr>cn_up := rest, cn_down := cn_down s @ (case reply of None \<Rightarrow> [] | Some r \<Rightarrow> [r]), cn_db := db'\<rparr>)"
| serve_ends: "cn_up s = m # rest \<Longrightarrow> cn_serving s = Some (d, h) \<Longrightarrow>
    handleAgentMessage (dpl_service D) d h m E n (cn_db s) = (r, n', db') \<Longrightarrow>
    conn_step D P s Internal (s\<lparr>cn_up := rest, cn_serving := None, cn_db := db'\<rparr>)"
| other: "srv_step D (cn_db s) db' \<Longrightarrow> conn_step D P s Internal (s\<lparr>cn_db := db'\<rparr>)"
| lose_up: "cn_up s = xs @ m # ys \<Longrightarrow> conn_step D P s Internal (s\<lparr>cn_up := xs @ ys\<rparr>)"
| lose_down: "cn_down s = xs @ m # ys \<Longrightarrow> conn_step D P s Internal (s\<lparr>cn_down := xs @ ys\<rparr>)"
| receive_invalid: "cn_run s = RunReceive k \<Longrightarrow> cn_down s = m # rest \<Longrightarrow> \<not> ep_valid_server P m \<Longrightarrow>
    conn_step D P s Internal (s\<lparr>cn_down := rest, cn_run := RunEnding k\<rparr>)"
| receive_reply: "cn_run s = RunReceive k \<Longrightarrow> cn_down s = m # rest \<Longrightarrow> ep_valid_server P m \<Longrightarrow>
    take_pending m (cn_client s) = (Some ch, c) \<Longrightarrow>
    conn_step D P s Internal (s\<lparr>cn_down := rest, cn_client := c, cn_run := RunDeliver k ch m\<rparr>)"
| receive_other: "cn_run s = RunReceive k \<Longrightarrow> cn_down s = m # rest \<Longrightarrow> ep_valid_server P m \<Longrightarrow>
    take_pending m (cn_client s) = (None, c) \<Longrightarrow>
    conn_step D P s Internal (case Run_uncorrelated (cn_beats s \<noteq> None) (snd m) of
      Inr b \<Rightarrow> s\<lparr>cn_down := rest, cn_client := c, cn_beats := (if b then Some True else cn_beats s)\<rparr>
    | Inl e \<Rightarrow> s\<lparr>cn_down := rest, cn_client := c, cn_run := RunEnding k\<rparr>)"
| deliver: "cn_run s = RunDeliver k ch m \<Longrightarrow> chan_send ch m (cn_client s) = Proceeds c \<Longrightarrow>
    conn_step D P s Internal (s\<lparr>cn_client := c, cn_run := RunReceive k\<rparr>)"
| receive_fails: "cn_run s = RunReceive k \<Longrightarrow> conn_step D P s Internal (s\<lparr>cn_run := RunEnding k\<rparr>)"
| heartbeat: "cn_beats s = Some True \<Longrightarrow> i \<notin> cn_ids s \<Longrightarrow> client_send (ep_valid_agent P) None None (heartbeat_message i) (cn_client s) = None \<Longrightarrow>
    conn_step D P s Internal (s\<lparr>cn_ids := insert i (cn_ids s), cn_up := cn_up s @ [heartbeat_message i]\<rparr>)"
| heartbeats_end: "cn_beats s = Some True \<Longrightarrow> conn_step D P s Internal (s\<lparr>cn_beats := Some False\<rparr>)"
| close_stream: "cn_run s = RunEnding k \<Longrightarrow> cn_beats s \<noteq> Some True \<Longrightarrow> closeStream k (cn_client s) = Proceeds c \<Longrightarrow>
    conn_step D P s Internal (s\<lparr>cn_client := c, cn_run := RunIdle\<rparr>)"
| call_begins: "cn_calls s g = None \<Longrightarrow> i \<notin> cn_ids s \<Longrightarrow> registerPending i (cn_client s) = (ch, c) \<Longrightarrow>
    conn_step D P s Internal (s\<lparr>cn_ids := insert i (cn_ids s), cn_client := c,
      cn_calls := (cn_calls s)(g \<mapsto> \<lparr>call_id = i, call_chan = ch, call_request = rq, call_sent = False\<rparr>)\<rparr>)"
| call_sends: "cn_calls s g = Some c \<Longrightarrow> \<not> call_sent c \<Longrightarrow>
    client_send (ep_valid_agent P) None None (request_message (call_id c) (call_request c)) (cn_client s) = None \<Longrightarrow>
    conn_step D P s Internal (s\<lparr>cn_up := cn_up s @ [request_message (call_id c) (call_request c)],
      cn_calls := (cn_calls s)(g \<mapsto> c\<lparr>call_sent := True\<rparr>)\<rparr>)"
| call_not_sent: "cn_calls s g = Some c \<Longrightarrow> \<not> call_sent c \<Longrightarrow> pred_option foreign ctx_err \<Longrightarrow> pred_option foreign sent \<Longrightarrow>
    client_send (ep_valid_agent P) ctx_err sent (request_message (call_id c) (call_request c)) (cn_client s) = Some e \<Longrightarrow>
    conn_step D P s (Returned (call_request c) (error_outcome (call_request c) e)) (end_call g c s)"
| call_returns: "cn_calls s g = Some c \<Longrightarrow> call_sent c \<Longrightarrow> chan_receive (call_chan c) (cn_client s) = Proceeds (response, cl) \<Longrightarrow>
    conn_step D P s (Returned (call_request c) (response_outcome (call_request c) response)) (end_call g c (s\<lparr>cn_client := cl\<rparr>))"
| call_cancelled: "cn_calls s g = Some c \<Longrightarrow> call_sent c \<Longrightarrow> foreign e \<Longrightarrow>
    conn_step D P s (Returned (call_request c) (error_outcome (call_request c) e)) (end_call g c s)"

inductive conn_reachable :: "deployment \<Rightarrow> endpoint \<Rightarrow> conn \<Rightarrow> conn \<Rightarrow> bool" for D P s0 where
  here: "conn_reachable D P s0 s0"
| step: "conn_reachable D P s0 s \<Longrightarrow> conn_step D P s ev s' \<Longrightarrow> conn_reachable D P s0 s'"

section \<open>No send blocks, no close panics\<close>

text \<open>Every channel has at most one message for it: a channel that is pending is open and empty and belongs to one call, and \<^verbatim>\<open>Run\<close>
  delivers to an open and empty channel that is not pending any more.\<close>

definition idle_channel :: "conn \<Rightarrow> nat \<Rightarrow> bool" where
  "idle_channel s ch \<longleftrightarrow> ch_idle (cl_channels (cn_client s)) ch"

definition pending :: "conn \<Rightarrow> (string \<times> nat) set" where
  "pending s = set (cl_pending (cn_client s))"

definition calls_distinct :: "conn \<Rightarrow> bool" where
  "calls_distinct s \<longleftrightarrow> (\<forall>g c g' c'. cn_calls s g = Some c \<longrightarrow> cn_calls s g' = Some c' \<longrightarrow>
     call_id c = call_id c' \<or> call_chan c = call_chan c' \<longrightarrow> g = g') \<and>
   (\<forall>g c. cn_calls s g = Some c \<longrightarrow> call_id c \<in> cn_ids s \<and> call_chan c < length (cl_channels (cn_client s)))"

definition pending_ok :: "conn \<Rightarrow> bool" where
  "pending_ok s \<longleftrightarrow> distinct (map fst (cl_pending (cn_client s))) \<and>
   (\<forall>(i, ch) \<in> pending s. idle_channel s ch \<and> (\<exists>g c. cn_calls s g = Some c \<and> call_id c = i \<and> call_chan c = ch))"

definition delivery_ok :: "conn \<Rightarrow> bool" where
  "delivery_ok s \<longleftrightarrow> (\<forall>k ch m. cn_run s = RunDeliver k ch m \<longrightarrow> idle_channel s ch \<and> ch \<notin> snd ` pending s \<and>
     (\<forall>g c. cn_calls s g = Some c \<longrightarrow> call_chan c = ch \<longrightarrow> call_id c = id_value (fst m)))"

definition waiting_ok :: "conn \<Rightarrow> bool" where
  "waiting_ok s \<longleftrightarrow> (\<forall>g c. cn_calls s g = Some c \<longrightarrow> idle_channel s (call_chan c) \<longrightarrow>
     (call_id c, call_chan c) \<in> pending s \<and> (call_sent c \<longrightarrow> cl_stream (cn_client s) \<noteq> None) \<or>
     (\<exists>k m. cn_run s = RunDeliver k (call_chan c) m))"

definition run_stream :: "run_phase \<Rightarrow> nat option" where
  "run_stream p = (case p of RunIdle \<Rightarrow> None | RunHello k \<Rightarrow> Some k | RunReceive k \<Rightarrow> Some k | RunDeliver k _ _ \<Rightarrow> Some k | RunEnding k \<Rightarrow> Some k)"

definition conn_inv :: "conn \<Rightarrow> bool" where
  "conn_inv s \<longleftrightarrow> calls_distinct s \<and> pending_ok s \<and> delivery_ok s \<and> waiting_ok s \<and> cl_stream (cn_client s) = run_stream (cn_run s)"

lemmas conn_inv_defs = conn_inv_def calls_distinct_def pending_ok_def delivery_ok_def waiting_ok_def idle_channel_def pending_def

text \<open>What the invariant does not look at.\<close>

lemma conn_inv_other [simp]:
  "conn_inv (s\<lparr>cn_up := u\<rparr>) = conn_inv s" "conn_inv (s\<lparr>cn_down := v\<rparr>) = conn_inv s" "conn_inv (s\<lparr>cn_serving := x\<rparr>) = conn_inv s"
  "conn_inv (s\<lparr>cn_db := y\<rparr>) = conn_inv s" "conn_inv (s\<lparr>cn_beats := b\<rparr>) = conn_inv s" "conn_inv (s\<lparr>cn_streams := k\<rparr>) = conn_inv s"
  by (simp_all add: conn_inv_defs)

lemma conn_inv_ids: "conn_inv s \<Longrightarrow> conn_inv (s\<lparr>cn_ids := insert i (cn_ids s)\<rparr>)"
  unfolding conn_inv_defs by (elim conjE, intro conjI) simp_all

text \<open>\<^verbatim>\<open>Run\<close> moves on without delivering.\<close>

lemma conn_inv_run:
  "conn_inv s \<Longrightarrow> (\<And>k ch m. cn_run s \<noteq> RunDeliver k ch m) \<Longrightarrow> (\<And>k ch m. p \<noteq> RunDeliver k ch m) \<Longrightarrow> run_stream p = run_stream (cn_run s) \<Longrightarrow>
    conn_inv (s\<lparr>cn_run := p\<rparr>)"
  unfolding conn_inv_defs by (elim conjE, intro conjI) simp_all

lemma conn_inv_renew: "cn_run s = RunIdle \<Longrightarrow> cn_calls s = Map.empty \<Longrightarrow> conn_inv (s\<lparr>cn_client := NewClient d\<rparr>)"
  by (simp add: conn_inv_defs NewClient_def run_stream_def)

lemma conn_inv_open:
  "conn_inv s \<Longrightarrow> cn_run s = RunIdle \<Longrightarrow> Run_open k (cn_client s) = Inr c \<Longrightarrow> conn_inv (s\<lparr>cn_client := c, cn_run := RunHello k\<rparr>)"
  by (auto simp: conn_inv_defs Run_open_def run_stream_def split: option.splits)

lemma same_call:
  "calls_distinct s \<Longrightarrow> cn_calls s g = Some c \<Longrightarrow> cn_calls s g' = Some c' \<Longrightarrow> call_chan c = call_chan c' \<Longrightarrow> c = c'"
  "calls_distinct s \<Longrightarrow> cn_calls s g = Some c \<Longrightarrow> cn_calls s g' = Some c' \<Longrightarrow> call_id c = call_id c' \<Longrightarrow> c = c'"
  by (metis (no_types, lifting) calls_distinct_def option.inject)+

lemma pendingE:
  assumes "pending_ok s" and "(i, ch) \<in> pending s"
  obtains g c where "cn_calls s g = Some c" "call_id c = i" "call_chan c = ch" "idle_channel s ch"
  using assms by (auto simp: pending_ok_def)

lemma pending_same:
  assumes "calls_distinct s" and "pending_ok s" and "(i, ch) \<in> pending s" and "(j, ch') \<in> pending s" and "i = j \<or> ch = ch'"
  shows "i = j \<and> ch = ch'"
proof -
  obtain g c g' c' where "cn_calls s g = Some c" "call_id c = i" "call_chan c = ch" "cn_calls s g' = Some c'" "call_id c' = j" "call_chan c' = ch'"
    using assms(2-4) by (metis pendingE)
  then show ?thesis using same_call [OF assms(1), of g c g' c'] assms(5) by auto
qed

lemma waitingE:
  assumes "waiting_ok s" and "cn_calls s g = Some c" and "idle_channel s (call_chan c)"
  obtains "(call_id c, call_chan c) \<in> pending s" "call_sent c \<longrightarrow> cl_stream (cn_client s) \<noteq> None"
  | k m where "cn_run s = RunDeliver k (call_chan c) m"
  using assms unfolding waiting_ok_def by blast

lemma conn_invD:
  "conn_inv s \<Longrightarrow> calls_distinct s" "conn_inv s \<Longrightarrow> pending_ok s" "conn_inv s \<Longrightarrow> delivery_ok s" "conn_inv s \<Longrightarrow> waiting_ok s"
  "conn_inv s \<Longrightarrow> cl_stream (cn_client s) = run_stream (cn_run s)"
  by (simp_all add: conn_inv_def)

lemma pending_channels_distinct:
  assumes "calls_distinct s" and "pending_ok s"
  shows "distinct (map snd (cl_pending (cn_client s)))"
proof -
  have "inj_on snd (pending s)"
  proof (rule inj_onI)
    fix p q
    assume pq: "p \<in> pending s" "q \<in> pending s" "snd p = snd q"
    obtain i ch j ch' where "p = (i, ch)" "q = (j, ch')" by (cases p, cases q) blast
    with pq have "i = j \<and> ch = ch'" by (intro pending_same [OF assms]) (simp_all only: snd_conv simp_thms)
    then show "p = q" using \<open>p = (i, ch)\<close> \<open>q = (j, ch')\<close> by blast
  qed
  moreover have "distinct (cl_pending (cn_client s))" using assms(2) by (simp add: pending_ok_def distinct_map)
  ultimately show ?thesis by (simp add: distinct_map pending_def)
qed

lemma close_proceeds:
  assumes "conn_inv s" and "cn_run s = RunEnding k"
  shows "\<exists>chs. closeStream k (cn_client s) = Proceeds (cn_client s\<lparr>cl_channels := chs, cl_pending := [], cl_stream := None\<rparr>) \<and>
    length chs = length (cl_channels (cn_client s)) \<and>
    (\<forall>ch < length (cl_channels (cn_client s)). chs ! ch = (if ch \<in> snd ` pending s
       then (cl_channels (cn_client s) ! ch)\<lparr>ch_closed := True\<rparr> else cl_channels (cn_client s) ! ch))"
proof -
  have "\<forall>p\<in>set (cl_pending (cn_client s)). ch_idle (cl_channels (cn_client s)) (snd p)"
    using conn_invD(2) [OF assms(1)] by (auto simp: pending_ok_def pending_def idle_channel_def)
  from close_all_idle [OF pending_channels_distinct this] obtain chs where
    "close_all (cl_pending (cn_client s)) (cl_channels (cn_client s)) = Proceeds chs" "length chs = length (cl_channels (cn_client s))"
    "\<forall>ch < length (cl_channels (cn_client s)). chs ! ch = (if ch \<in> snd ` pending s
       then (cl_channels (cn_client s) ! ch)\<lparr>ch_closed := True\<rparr> else cl_channels (cn_client s) ! ch)"
    using conn_invD(1,2) [OF assms(1)] by (auto simp: pending_def)
  moreover have "cl_stream (cn_client s) = Some k" using assms by (simp add: conn_inv_def run_stream_def)
  ultimately show ?thesis by (intro exI [of _ chs]) (simp add: closeStream_def)
qed

lemma conn_inv_close:
  assumes inv: "conn_inv s" and run: "cn_run s = RunEnding k" and cl: "closeStream k (cn_client s) = Proceeds c"
  shows "conn_inv (s\<lparr>cn_client := c, cn_run := RunIdle\<rparr>)"
proof -
  from close_proceeds [OF inv run] cl obtain chs where c: "c = cn_client s\<lparr>cl_channels := chs, cl_pending := [], cl_stream := None\<rparr>"
    and len: "length chs = length (cl_channels (cn_client s))"
    and chs: "\<And>ch. ch < length (cl_channels (cn_client s)) \<Longrightarrow> chs ! ch = (if ch \<in> snd ` pending s
       then (cl_channels (cn_client s) ! ch)\<lparr>ch_closed := True\<rparr> else cl_channels (cn_client s) ! ch)" by auto
  have quiet: "\<not> ch_idle chs (call_chan x)" if x: "cn_calls s g = Some x" for g x
  proof
    assume "ch_idle chs (call_chan x)"
    then have n: "call_chan x \<notin> snd ` pending s" and "idle_channel s (call_chan x)"
      using chs [of "call_chan x"] len by (auto simp: ch_idle_def idle_channel_def split: if_splits)
    with n run show False by - (erule waitingE [OF conn_invD(4) [OF inv] x], force, simp)
  qed
  show ?thesis
    unfolding conn_inv_def
  proof (intro conjI)
    show "calls_distinct (s\<lparr>cn_client := c, cn_run := RunIdle\<rparr>)" using conn_invD(1) [OF inv] by (simp add: calls_distinct_def c len)
    show "waiting_ok (s\<lparr>cn_client := c, cn_run := RunIdle\<rparr>)" using quiet by (auto simp: waiting_ok_def idle_channel_def c)
  qed (simp_all add: pending_ok_def delivery_ok_def pending_def c run_stream_def)
qed

lemma conn_inv_take:
  assumes inv: "conn_inv s" and run: "cn_run s = RunReceive k" and t: "take_pending m (cn_client s) = (Some ch, c)"
  shows "conn_inv (s\<lparr>cn_client := c, cn_run := RunDeliver k ch m\<rparr>)" (is "conn_inv ?s")
proof -
  let ?i = "id_value (fst m)"
  note [simp] = pending_def idle_channel_def
  have p: "(?i, ch) \<in> pending s" and c: "c = cn_client s\<lparr>cl_pending := AList.delete ?i (cl_pending (cn_client s))\<rparr>"
    using t by (auto simp: take_pending_def Let_def dest: map_of_SomeD)
  note same = pending_same [OF conn_invD(1) [OF inv] conn_invD(2) [OF inv] p]
  show ?thesis
    unfolding conn_inv_def
  proof (intro conjI)
    show "calls_distinct ?s" using conn_invD(1) [OF inv] by (simp add: calls_distinct_def c)
    show "pending_ok ?s" using conn_invD(2) [OF inv] by (auto simp: pending_ok_def c set_delete distinct_fst_delete)
    have "call_id x = ?i" if "cn_calls s g = Some x" "call_chan x = ch" for g x
      using pendingE [OF conn_invD(2) [OF inv] p] same_call(1) [OF conn_invD(1) [OF inv] that(1)] that(2) by metis
    moreover have "idle_channel s ch" by (rule pendingE [OF conn_invD(2) [OF inv] p])
    moreover have "j = ?i" if "(j, ch) \<in> pending s" for j using same [OF that] by simp
    ultimately show "delivery_ok ?s" by (auto simp: delivery_ok_def c set_delete)
    show "waiting_ok ?s"
      unfolding waiting_ok_def
    proof (intro allI impI)
      fix g x
      assume x: "cn_calls ?s g = Some x" "idle_channel ?s (call_chan x)"
      then have w: "(call_id x, call_chan x) \<in> pending s" "cl_stream c \<noteq> None"
        using waitingE [OF conn_invD(4) [OF inv], of g x] conn_invD(5) [OF inv] run by (auto simp: c run_stream_def)
      then show "(call_id x, call_chan x) \<in> pending ?s \<and> (call_sent x \<longrightarrow> cl_stream (cn_client ?s) \<noteq> None) \<or>
          (\<exists>k m. cn_run ?s = RunDeliver k (call_chan x) m)"
        using same [of "call_id x" "call_chan x"] by (cases "call_id x = ?i") (auto simp: c set_delete)
    qed
  qed (use conn_invD(5) [OF inv] run in \<open>simp add: c run_stream_def\<close>)
qed

lemma untaken: "take_pending m c = (None, c') \<Longrightarrow> c' = c"
  by (auto simp: take_pending_def Let_def delete_absent)

lemma delivering:
  assumes "conn_inv s" and "cn_run s = RunDeliver k ch m"
  shows "idle_channel s ch" and "ch \<notin> snd ` pending s" and "cn_calls s g = Some c \<Longrightarrow> call_chan c = ch \<Longrightarrow> call_id c = id_value (fst m)"
  using conn_invD(3) [OF assms(1)] assms(2) unfolding delivery_ok_def by blast+

lemma deliver_proceeds:
  assumes "conn_inv s" and "cn_run s = RunDeliver k ch m"
  shows "chan_send ch m (cn_client s) = Proceeds (cn_client s\<lparr>cl_channels := (cl_channels (cn_client s))
    [ch := (cl_channels (cn_client s) ! ch)\<lparr>ch_buffer := Some m\<rparr>]\<rparr>)"
  using delivering(1) [OF assms] by (simp add: idle_channel_def ch_idle_def chan_send_def)

lemma conn_inv_deliver:
  assumes inv: "conn_inv s" and run: "cn_run s = RunDeliver k ch m" and c: "chan_send ch m (cn_client s) = Proceeds c"
  shows "conn_inv (s\<lparr>cn_client := c, cn_run := RunReceive k\<rparr>)" (is "conn_inv ?s")
proof -
  note c' = deliver_proceeds [OF inv run, unfolded c, simplified]
  have idle: "idle_channel ?s x \<longleftrightarrow> idle_channel s x \<and> x \<noteq> ch" for x
    using delivering(1) [OF inv run] by (auto simp: idle_channel_def ch_idle_def c' nth_list_update)
  have pend: "pending ?s = pending s" by (simp add: pending_def c')
  note d = delivering(2) [OF inv run]
  show ?thesis
    unfolding conn_inv_def
  proof (intro conjI)
    show "calls_distinct ?s" using conn_invD(1) [OF inv] by (simp add: calls_distinct_def c')
    show "pending_ok ?s" using conn_invD(2) [OF inv] d unfolding pending_ok_def pend idle by (force simp: c')
    show "waiting_ok ?s"
      unfolding waiting_ok_def pend idle
      using conn_invD(4) [OF inv] run by (auto simp: waiting_ok_def c')
  qed (use conn_invD(5) [OF inv] run in \<open>simp_all add: delivery_ok_def c' run_stream_def\<close>)
qed

lemma conn_inv_begins:
  assumes inv: "conn_inv s" and g: "cn_calls s g = None" and i: "i \<notin> cn_ids s" and r: "registerPending i (cn_client s) = (ch, c)"
  shows "conn_inv (s\<lparr>cn_ids := insert i (cn_ids s), cn_client := c,
    cn_calls := (cn_calls s)(g \<mapsto> \<lparr>call_id = i, call_chan = ch, call_request = rq, call_sent = False\<rparr>)\<rparr>)" (is "conn_inv ?s")
proof -
  have "i \<notin> fst ` pending s"
    using conn_invD(1,2) [OF inv] i by (force simp: calls_distinct_def pending_ok_def)
  then have c: "ch = length (cl_channels (cn_client s))" "c = cn_client s\<lparr>cl_channels := cl_channels (cn_client s) @ [new_channel],
      cl_pending := cl_pending (cn_client s) @ [(i, ch)]\<rparr>" and fresh: "i \<notin> fst ` pending s"
    using r by (auto simp: registerPending_def update_fresh pending_def)
  have idle: "idle_channel ?s x \<longleftrightarrow> idle_channel s x \<or> x = ch" for x
    by (auto simp: idle_channel_def ch_idle_def c nth_append new_channel_def)
  have pend: "pending ?s = insert (i, ch) (pending s)" by (simp add: pending_def c)
  have new: "call_id x \<noteq> i" "call_chan x \<noteq> ch" if "cn_calls s h = Some x" for h x
    using conn_invD(1) [OF inv] that i by (force simp: calls_distinct_def c)+
  show ?thesis
    unfolding conn_inv_def
  proof (intro conjI)
    show "calls_distinct ?s"
      using conn_invD(1) [OF inv] new unfolding calls_distinct_def by (auto simp: c(2) less_Suc_eq) (auto simp: c(1))
    have "\<not> g = h" if "cn_calls s h = Some x" for h x using that g by auto
    then show "pending_ok ?s"
      using conn_invD(2) [OF inv] fresh unfolding pending_ok_def pend idle by (fastforce simp: c(2) pending_def)
    show "delivery_ok ?s"
      unfolding delivery_ok_def pend idle
    proof (intro allI impI)
      fix k x m
      assume run: "cn_run ?s = RunDeliver k x m"
      then have run': "cn_run s = RunDeliver k x m" by simp
      have "x \<noteq> ch" using delivering(1) [OF inv run'] by (auto simp: idle_channel_def ch_idle_def c(1))
      then show "(idle_channel s x \<or> x = ch) \<and> x \<notin> snd ` insert (i, ch) (pending s) \<and>
          (\<forall>g c. cn_calls ?s g = Some c \<longrightarrow> call_chan c = x \<longrightarrow> call_id c = id_value (fst m))"
        using delivering [OF inv run'] by simp
    qed
    show "waiting_ok ?s"
      unfolding waiting_ok_def pend idle
      using conn_invD(4) [OF inv] new by (auto simp: waiting_ok_def c(2) idle_channel_def)
  qed (use conn_invD(5) [OF inv] in \<open>simp add: c\<close>)
qed

text \<open>Calls advance or end: the calls that remain have the ids and channels they had, and what they wait for is still pending.\<close>

lemma conn_inv_calls:
  assumes inv: "conn_inv s"
    and calls: "\<And>h x. cn_calls s' h = Some x \<Longrightarrow> \<exists>y. cn_calls s h = Some y \<and> call_id y = call_id x \<and> call_chan y = call_chan x \<and>
      (call_sent x \<longrightarrow> call_sent y \<or> cl_stream (cn_client s) \<noteq> None)"
    and pend: "pending s' \<subseteq> pending s" "distinct (map fst (cl_pending (cn_client s')))"
    and owner: "\<And>i ch. (i, ch) \<in> pending s' \<Longrightarrow> \<exists>h x. cn_calls s' h = Some x \<and> call_id x = i \<and> call_chan x = ch"
    and keep: "\<And>h x. cn_calls s' h = Some x \<Longrightarrow> (call_id x, call_chan x) \<in> pending s \<Longrightarrow> (call_id x, call_chan x) \<in> pending s'"
    and idle: "\<And>ch. idle_channel s ch \<Longrightarrow> idle_channel s' ch"
    and idle_call: "\<And>h x. cn_calls s' h = Some x \<Longrightarrow> idle_channel s' (call_chan x) \<Longrightarrow> idle_channel s (call_chan x)"
    and same: "cn_run s' = cn_run s" "cl_stream (cn_client s') = cl_stream (cn_client s)" "cn_ids s' = cn_ids s"
      "length (cl_channels (cn_client s')) = length (cl_channels (cn_client s))"
  shows "conn_inv s'"
  unfolding conn_inv_def
proof (intro conjI)
  show "calls_distinct s'"
    unfolding calls_distinct_def
  proof (intro conjI allI impI)
    fix g c g' c'
    assume "cn_calls s' g = Some c" "cn_calls s' g' = Some c'" "call_id c = call_id c' \<or> call_chan c = call_chan c'"
    moreover from this(1,2) obtain y y' where "cn_calls s g = Some y" "call_id y = call_id c" "call_chan y = call_chan c"
      "cn_calls s g' = Some y'" "call_id y' = call_id c'" "call_chan y' = call_chan c'" using calls by metis
    ultimately show "g = g'" using conn_invD(1) [OF inv] unfolding calls_distinct_def by metis
  next
    fix g c
    assume "cn_calls s' g = Some c"
    then obtain y where "cn_calls s g = Some y" "call_id y = call_id c" "call_chan y = call_chan c" using calls by metis
    then show "call_id c \<in> cn_ids s'" "call_chan c < length (cl_channels (cn_client s'))"
      using conn_invD(1) [OF inv] unfolding calls_distinct_def same by metis+
  qed
  show "pending_ok s'"
    unfolding pending_ok_def
  proof (intro conjI ballI, rule pend(2), clarify)
    fix i ch
    assume "(i, ch) \<in> pending s'"
    then show "idle_channel s' ch \<and> (\<exists>g c. cn_calls s' g = Some c \<and> call_id c = i \<and> call_chan c = ch)"
      using owner [of i ch] idle [of ch] pend(1) pendingE [OF conn_invD(2) [OF inv], of i ch] by blast
  qed
  show "delivery_ok s'"
    unfolding delivery_ok_def same
  proof (intro allI impI)
    fix k ch m
    assume run: "cn_run s = RunDeliver k ch m"
    have "call_id c = id_value (fst m)" if c: "cn_calls s' g = Some c" "call_chan c = ch" for g c
      using calls [OF c(1)] c(2) delivering(3) [OF inv run] by metis
    then show "idle_channel s' ch \<and> ch \<notin> snd ` pending s' \<and> (\<forall>g c. cn_calls s' g = Some c \<longrightarrow> call_chan c = ch \<longrightarrow> call_id c = id_value (fst m))"
      using delivering(1,2) [OF inv run] idle pend(1) by blast
  qed
  show "waiting_ok s'"
    unfolding waiting_ok_def same
  proof (intro allI impI)
    fix g c
    assume c: "cn_calls s' g = Some c" "idle_channel s' (call_chan c)"
    obtain y where y: "cn_calls s g = Some y" "call_id y = call_id c" "call_chan y = call_chan c"
      "call_sent c \<longrightarrow> call_sent y \<or> cl_stream (cn_client s) \<noteq> None" using calls [OF c(1)] by blast
    have "idle_channel s (call_chan y)" using idle_call [OF c] y(3) by simp
    then show "(call_id c, call_chan c) \<in> pending s' \<and> (call_sent c \<longrightarrow> cl_stream (cn_client s) \<noteq> None) \<or> (\<exists>k m. cn_run s = RunDeliver k (call_chan c) m)"
      by (rule waitingE [OF conn_invD(4) [OF inv] y(1)]) (use keep [OF c(1)] y in auto)
  qed
qed (use conn_invD(5) [OF inv] same in simp)

lemma conn_inv_sends:
  assumes inv: "conn_inv s" and g: "cn_calls s g = Some c" and str: "cl_stream (cn_client s) \<noteq> None"
  shows "conn_inv (s\<lparr>cn_calls := (cn_calls s)(g \<mapsto> c\<lparr>call_sent := True\<rparr>)\<rparr>)" (is "conn_inv ?s")
proof (rule conn_inv_calls [OF inv])
  show "\<exists>h x. cn_calls ?s h = Some x \<and> call_id x = i \<and> call_chan x = ch" if "(i, ch) \<in> pending ?s" for i ch
  proof -
    have "(i, ch) \<in> pending s" using that by (simp add: pending_def)
    then obtain h x where "cn_calls s h = Some x" "call_id x = i" "call_chan x = ch" by (rule pendingE [OF conn_invD(2) [OF inv]])
    then show ?thesis using g by (cases "h = g") (auto intro: exI [of _ h])
  qed
  show "distinct (map fst (cl_pending (cn_client ?s)))" using conn_invD(2) [OF inv] by (simp add: pending_ok_def)
qed (use g str in \<open>auto simp: pending_def idle_channel_def split: if_splits\<close>)

text \<open>The channel of a call that ends may have been received from.\<close>

lemma conn_inv_end_call:
  assumes inv: "conn_inv s" and g: "cn_calls s g = Some c"
    and cl: "cl_pending cl = cl_pending (cn_client s)" "cl_stream cl = cl_stream (cn_client s)"
      "length (cl_channels cl) = length (cl_channels (cn_client s))"
    and keep: "\<And>ch. ch \<noteq> call_chan c \<Longrightarrow> cl_channels cl ! ch = cl_channels (cn_client s) ! ch"
    and idle: "idle_channel s (call_chan c) \<Longrightarrow> ch_idle (cl_channels cl) (call_chan c)"
  shows "conn_inv (end_call g c (s\<lparr>cn_client := cl\<rparr>))" (is "conn_inv ?s")
proof (rule conn_inv_calls [OF inv])
  have p: "pending ?s = {q \<in> pending s. fst q \<noteq> call_id c}"
    by (simp add: pending_def end_call_def unregisterPending_def cl set_delete)
  then show "pending ?s \<subseteq> pending s" by blast
  have other: "call_id x \<noteq> call_id c \<and> call_chan x \<noteq> call_chan c" if "cn_calls s h = Some x" "h \<noteq> g" for h x
    using conn_invD(1) [OF inv] that g unfolding calls_distinct_def by blast
  show "\<exists>h x. cn_calls ?s h = Some x \<and> call_id x = i \<and> call_chan x = ch" if "(i, ch) \<in> pending ?s" for i ch
  proof -
    have q: "(i, ch) \<in> pending s" "i \<noteq> call_id c" using that p by auto
    then obtain h x where "cn_calls s h = Some x" "call_id x = i" "call_chan x = ch" by (metis pendingE [OF conn_invD(2) [OF inv]])
    then show ?thesis using g q(2) by (cases "h = g") (auto simp: end_call_def intro!: exI [of _ h])
  qed
  show "distinct (map fst (cl_pending (cn_client ?s)))"
    using conn_invD(2) [OF inv] by (simp add: pending_ok_def end_call_def unregisterPending_def cl distinct_fst_delete)
  show "(call_id x, call_chan x) \<in> pending ?s" if "cn_calls ?s h = Some x" "(call_id x, call_chan x) \<in> pending s" for h x
    unfolding p using that other [of h x] by (auto simp: end_call_def split: if_splits)
  show "idle_channel ?s ch" if "idle_channel s ch" for ch
    using that idle keep [of ch] cl(3) by (cases "ch = call_chan c") (auto simp: idle_channel_def ch_idle_def end_call_def unregisterPending_def)
  show "idle_channel s (call_chan x)" if "cn_calls ?s h = Some x" "idle_channel ?s (call_chan x)" for h x
    using that other [of h x] keep [of "call_chan x"] cl(3)
    by (auto simp: idle_channel_def ch_idle_def end_call_def unregisterPending_def split: if_splits)
qed (auto simp: end_call_def unregisterPending_def cl split: if_splits)

lemma received:
  assumes "chan_receive ch c = Proceeds (response, cl)"
  shows "cl_pending cl = cl_pending c" "cl_stream cl = cl_stream c" "cl_device_id cl = cl_device_id c"
    "length (cl_channels cl) = length (cl_channels c)" "x \<noteq> ch \<Longrightarrow> cl_channels cl ! x = cl_channels c ! x"
    "\<not> ch_idle (cl_channels c) ch" "response = ch_buffer (cl_channels c ! ch)"
  using assms by (cases "ch_buffer (cl_channels c ! ch)"; auto simp: chan_receive_def ch_idle_def split: if_splits)+

lemma send_connected: "client_send v x y m c = None \<Longrightarrow> cl_stream c \<noteq> None"
  by (auto simp: client_send_def split: if_splits option.splits)

lemma conn_step_inv:
  assumes "conn_step D P s ev s'" and "conn_inv s"
  shows "conn_inv s'"
  using assms
proof cases
  case (open_stream c)
  then show ?thesis using assms(2) conn_inv_open by simp
next
  case (say_hello k i m)
  then show ?thesis using assms(2) by (auto intro!: conn_inv_run conn_inv_ids simp: run_stream_def)
next
  case (receive_reply k m rest ch c)
  then show ?thesis using assms(2) conn_inv_take [of "s\<lparr>cn_down := rest\<rparr>" k m ch c] by simp
next
  case (receive_other k m rest c)
  then show ?thesis using assms(2) untaken [of m "cn_client s" c]
    by (auto intro!: conn_inv_run simp: run_stream_def split: sum.splits)
next
  case (deliver k ch m c)
  then show ?thesis using assms(2) conn_inv_deliver by simp
next
  case (close_stream k c)
  then show ?thesis using assms(2) conn_inv_close by simp
next
  case (call_begins g i ch c rq)
  then show ?thesis using assms(2) conn_inv_begins [of s g i ch c rq] by simp
next
  case (call_sends g c)
  then show ?thesis using assms(2) conn_inv_sends [of "s\<lparr>cn_up := cn_up s @ [request_message (call_id c) (call_request c)]\<rparr>" g c] send_connected
    by simp
next
  case (call_returns g c response cl)
  then show ?thesis using received [OF call_returns(5)] conn_inv_end_call [OF assms(2) call_returns(3), of cl]
    by (simp add: idle_channel_def)
next
  case (call_not_sent g c)
  then show ?thesis using conn_inv_end_call [OF assms(2), of g c "cn_client s"] by (simp add: idle_channel_def)
next
  case (call_cancelled g c)
  then show ?thesis using conn_inv_end_call [OF assms(2), of g c "cn_client s"] by (simp add: idle_channel_def)
qed (auto intro!: conn_inv_run conn_inv_ids conn_inv_renew simp: run_stream_def)

lemma conn_inv_new: "conn_inv (new_conn d s)"
  by (simp add: conn_inv_defs new_conn_def NewClient_def run_stream_def)

lemma conn_reachable_inv: "conn_reachable D P s0 s \<Longrightarrow> conn_inv s0 \<Longrightarrow> conn_inv s"
  by (induction rule: conn_reachable.induct) (auto intro: conn_step_inv)

section \<open>Every answer is the server's answer to that call\<close>

definition refused :: "service \<Rightarrow> string \<Rightarrow> action_result \<Rightarrow> srv_db \<Rightarrow> bool" where
  "refused svc d r s \<longleftrightarrow> (\<exists>E n e n' s'. storeActionResult svc d (Some r) E n s = (Inl e, n', s') \<and> errors_is e errResultRejected)"

text \<open>\<open>s\<close> is the database now; the answer was computed in a state between \<open>s0\<close> and \<open>s\<close>.\<close>

definition answer :: "deployment \<Rightarrow> srv_db \<Rightarrow> string \<Rightarrow> srv_db \<Rightarrow> request \<Rightarrow> server_payload \<Rightarrow> bool" where
  "answer D s0 d s rq pl \<longleftrightarrow> (case pl of
     AckFrame RESULT_ACK_CODE_ACCEPTED \<Rightarrow> (\<exists>r db. rq = ResultRequest r \<and> later D s0 db \<and> later D db s \<and> holds_result (svc_codec (dpl_service D)) d r db)
   | AckFrame RESULT_ACK_CODE_REJECTED \<Rightarrow> (\<exists>r db. rq = ResultRequest r \<and> later D s0 db \<and> later D db s \<and> refused (dpl_service D) d r db)
   | PolicyFrame p \<Rightarrow> (\<exists>db E n n' db'. rq = PolicyRequest \<and> later D s0 db \<and> later D db s \<and> desiredPolicy (dpl_service D) d E n db = (Inr p, n', db'))
   | _ \<Rightarrow> True)"

lemma answer_later: "answer D s0 d s rq pl \<Longrightarrow> later D s s' \<Longrightarrow> answer D s0 d s' rq pl"
  unfolding answer_def by (auto split: server_payload.splits result_ack.splits) (blast intro: rtranclp_trans)+

lemma handle_answers:
  assumes laws: "codec_laws (svc_codec (dpl_service D))" and start: "later D s0 s"
    and run: "handleAgentMessage (dpl_service D) d h (request_message i rq) E n s = (Inr (Some (j, pl)), n', s')"
  shows "answer D s0 d s' rq pl"
proof -
  have next_db: "later D s s'" using srv_step.frame [OF run] by (rule r_into_rtranclp)
  show ?thesis
  proof (cases rq)
    case PolicyRequest
    then obtain p n1 where "desiredPolicy (dpl_service D) d E n s = (Inr p, n1, s')" "pl = PolicyFrame p"
      using run by (auto simp: handleAgentMessage_def policy_message_def run_simps)
    then show ?thesis using PolicyRequest start next_db unfolding answer_def by (simp only: server_payload.case) blast
  next
    case (ResultRequest r)
    have pay: "msg_payload (request_message i rq) = ActionResultFrame (Some r)" by (simp add: ResultRequest result_message_def)
    show ?thesis
    proof (cases "pl = AckFrame RESULT_ACK_CODE_ACCEPTED")
      case True
      with accepted_holds [OF laws pay] run have "holds_result (svc_codec (dpl_service D)) d r s'" by blast
      then show ?thesis using True ResultRequest start next_db by (auto simp: answer_def intro: rtranclp_trans)
    next
      case False
      then have pl: "pl = AckFrame RESULT_ACK_CODE_REJECTED" and "refused (dpl_service D) d r s"
        using run pay by (auto simp: handleAgentMessage_def refused_def run_simps split: if_splits) blast
      then show ?thesis using ResultRequest start next_db by (auto simp: answer_def)
    qed
  qed
qed

definition in_flight :: "conn \<Rightarrow> server_message set" where
  "in_flight s = set (cn_down s) \<union> (case cn_run s of RunDeliver _ _ m \<Rightarrow> {m} | _ \<Rightarrow> {})"

definition frame_ok :: "conn \<Rightarrow> agent_message \<Rightarrow> bool" where
  "frame_ok s m \<longleftrightarrow> (\<exists>i\<in>cn_ids s. msg_id m = Some i) \<and>
     (\<forall>h. msg_payload m = HelloFrame h \<longrightarrow> hl_device_id h = Some (cl_device_id (cn_client s))) \<and>
     (\<forall>g c. cn_calls s g = Some c \<longrightarrow> msg_id m = Some (call_id c) \<longrightarrow> m = request_message (call_id c) (call_request c))"

definition reply_ok :: "deployment \<Rightarrow> srv_db \<Rightarrow> conn \<Rightarrow> server_message \<Rightarrow> bool" where
  "reply_ok D s0 s m \<longleftrightarrow> ((\<exists>k. snd m = WelcomeFrame k) \<or> id_value (fst m) \<in> cn_ids s) \<and>
     (\<forall>g c. cn_calls s g = Some c \<longrightarrow> id_value (fst m) = call_id c \<longrightarrow>
        answer D s0 (cl_device_id (cn_client s)) (cn_db s) (call_request c) (snd m))"

definition buffered :: "conn \<Rightarrow> call \<Rightarrow> server_message option" where
  "buffered s c = ch_buffer (cl_channels (cn_client s) ! call_chan c)"

definition answered :: "deployment \<Rightarrow> srv_db \<Rightarrow> string \<Rightarrow> conn \<Rightarrow> bool" where
  "answered D s0 d s \<longleftrightarrow> later D s0 (cn_db s) \<and> cl_device_id (cn_client s) = d \<and> (\<forall>x h. cn_serving s = Some (x, h) \<longrightarrow> x = d) \<and>
     (\<forall>m\<in>set (cn_up s). frame_ok s m) \<and> (\<forall>m\<in>in_flight s. reply_ok D s0 s m) \<and>
     (\<forall>g c m. cn_calls s g = Some c \<longrightarrow> buffered s c = Some m \<longrightarrow> answer D s0 d (cn_db s) (call_request c) (snd m))"

text \<open>What a step must show: its new frames, replies, calls and buffers.\<close>

lemma answered_next:
  assumes old: "answered D s0 d s" and db: "later D (cn_db s) (cn_db s')" and dev: "cl_device_id (cn_client s') = d"
    and serving: "\<And>x h. cn_serving s' = Some (x, h) \<Longrightarrow> x = d" and ids: "cn_ids s \<subseteq> cn_ids s'"
    and calls: "\<And>g c. cn_calls s' g = Some c \<Longrightarrow> call_id c \<notin> cn_ids s \<and> buffered s' c = None \<or>
      (\<exists>y. cn_calls s g = Some y \<and> call_id y = call_id c \<and> call_request y = call_request c \<and>
        (buffered s' c = buffered s y \<or> (\<forall>m. buffered s' c = Some m \<longrightarrow> answer D s0 d (cn_db s') (call_request c) (snd m))))"
    and up: "\<And>m. m \<in> set (cn_up s') \<Longrightarrow> m \<in> set (cn_up s) \<or> frame_ok s' m"
    and flight: "\<And>m. m \<in> in_flight s' \<Longrightarrow> m \<in> in_flight s \<or> reply_ok D s0 s' m"
  shows "answered D s0 d s'"
proof -
  have old': "later D s0 (cn_db s)" "cl_device_id (cn_client s) = d"
    "\<And>m. m \<in> set (cn_up s) \<Longrightarrow> frame_ok s m" "\<And>m. m \<in> in_flight s \<Longrightarrow> reply_ok D s0 s m"
    "\<And>g c m. cn_calls s g = Some c \<Longrightarrow> buffered s c = Some m \<Longrightarrow> answer D s0 d (cn_db s) (call_request c) (snd m)"
    using old by (auto simp: answered_def)
  have "frame_ok s' m" if m: "m \<in> set (cn_up s)" for m
  proof -
    obtain i where i: "i \<in> cn_ids s" "msg_id m = Some i" using old'(3) [OF m] by (auto simp: frame_ok_def)
    have "m = request_message (call_id c) (call_request c)" if c: "cn_calls s' g = Some c" "msg_id m = Some (call_id c)" for g c
      using calls [OF c(1)] old'(3) [OF m] i c(2) unfolding frame_ok_def by (metis option.inject)
    then show ?thesis using old'(2) old'(3) [OF m] i ids dev by (auto simp: frame_ok_def)
  qed
  moreover have "reply_ok D s0 s' m" if "m \<in> in_flight s" for m
  proof -
    have w: "(\<exists>k. snd m = WelcomeFrame k) \<or> id_value (fst m) \<in> cn_ids s" using old'(4) [OF that] by (simp add: reply_ok_def)
    have "answer D s0 d (cn_db s') (call_request c) (snd m)" if c: "cn_calls s' g = Some c" "id_value (fst m) = call_id c" for g c
    proof (cases "call_id c \<in> cn_ids s")
      case True
      then obtain y where "cn_calls s g = Some y" "call_id y = call_id c" "call_request y = call_request c" using calls [OF c(1)] by blast
      then have "answer D s0 d (cn_db s) (call_request c) (snd m)"
        using old'(2) old'(4) [OF \<open>m \<in> in_flight s\<close>] c(2) by (metis reply_ok_def)
      then show ?thesis using db by (rule answer_later)
    next
      case False
      then show ?thesis using w c(2) by (auto simp: answer_def)
    qed
    then show ?thesis using w ids dev by (auto simp: reply_ok_def)
  qed
  moreover have "answer D s0 d (cn_db s') (call_request c) (snd m)" if c: "cn_calls s' g = Some c" "buffered s' c = Some m" for g c m
    using calls [OF c(1)] c(2) old'(5) answer_later [OF _ db] by (metis option.distinct(1))
  ultimately show ?thesis
    unfolding answered_def using old'(1) db dev serving up flight by (meson rtranclp_trans)
qed

lemma request_message_simps [simp]:
  "msg_id (request_message i rq) = Some i" "msg_payload (request_message i rq) \<noteq> HelloFrame h"
  by (cases rq; simp add: result_message_def policy_message_def)+

lemma accepted_device:
  assumes "msg_payload m = HelloFrame h" and "Stream svc ctx [m] EndOfStream E n s = (Inr ([w], EndOfStream), n', s')"
  shows "\<exists>k. snd w = WelcomeFrame k"
  using assms by (auto simp: Stream_def send_def run_simps split: if_splits)

lemma opened: "Run_open k c = Inr c' \<Longrightarrow> c' = c\<lparr>cl_stream := Some k\<rparr>"
  by (auto simp: Run_open_def split: option.splits)

lemma handled_id: "handleAgentMessage svc d h m E n s = (Inr (Some r), n', s') \<Longrightarrow> fst r = msg_id m"
  by (auto simp: handleAgentMessage_def run_simps split: agent_payload.splits if_splits)

lemma accept_step:
  assumes "AgentMiddleware (agent_path (StreamRequest [m] EndOfStream)) tls background = Served ctx"
    and "Stream (dpl_service D) ctx [m] EndOfStream E n s = (Inr out, n', s')"
  shows "srv_step D s s'"
proof -
  have "agent_call D tls (StreamRequest [m] EndOfStream) E n s = (Inr (), n', s')"
    using assms by (simp add: agent_call_def done_with_def bnd_def ret_def)
  then show ?thesis by (rule srv_step.agent)
qed

lemma conn_step_db: "conn_step D P s ev s' \<Longrightarrow> later D (cn_db s) (cn_db s')"
proof (induction rule: conn_step.cases)
  case (accept s m rest h ctx E n w n' db')
  from accept_step [OF accept(7,8)] show ?case using accept(1,3) by auto
qed (auto intro: srv_step.frame simp: end_call_def split: sum.splits)

lemma conn_step_answered:
  assumes laws: "codec_laws (svc_codec (dpl_service D))" and inv: "conn_inv s" and old: "answered D s0 d s" and st: "conn_step D P s ev s'"
  shows "answered D s0 d s'"
proof -
  have dev: "cl_device_id (cn_client s) = d" and serving: "\<And>x h. cn_serving s = Some (x, h) \<Longrightarrow> x = d"
    and start: "later D s0 (cn_db s)" and ups: "\<And>m. m \<in> set (cn_up s) \<Longrightarrow> frame_ok s m"
    and replies: "\<And>m. m \<in> in_flight s \<Longrightarrow> reply_ok D s0 s m"
    using old by (auto simp: answered_def)
  have ids: "\<And>g c. cn_calls s g = Some c \<Longrightarrow> call_id c \<in> cn_ids s"
    and chans: "\<And>g c. cn_calls s g = Some c \<Longrightarrow> call_chan c < length (cl_channels (cn_client s))"
    using conn_invD(1) [OF inv] by (auto simp: calls_distinct_def)
  note common = answered_next [OF old conn_step_db [OF st]]
  note [simp] = dev buffered_def in_flight_def
  from st show ?thesis
  proof cases
    case (renew)
    then show ?thesis by (intro common) (auto simp: NewClient_def intro: serving)
  next
    case (open_stream c)
    then show ?thesis by (intro common) (auto dest!: opened)
  next
    case (say_hello k i m)
    then have "frame_ok s' m" using ids by (auto simp: frame_ok_def hello_message_def)
    then show ?thesis using say_hello by (intro common) (auto intro: serving)
  next
    case (hello_fails k)
    then show ?thesis by (intro common) (auto intro: serving)
  next
    case (accept m rest h ctx E n w n' db')
    then have "id_value (hl_device_id h) = d" using ups [of m] by (auto simp: frame_ok_def)
    moreover have "reply_ok D s0 s' w" using accepted_device [OF accept(5,7)] by (auto simp: reply_ok_def answer_def)
    ultimately show ?thesis using accept by (intro common) auto
  next
    case (serve m rest x h E n reply n' db')
    have d: "x = d" and f: "frame_ok s m" using serve(3,4) serving ups [of m] by auto
    have "reply_ok D s0 s' r" if r: "reply = Some r" for r
    proof -
      have i: "fst r = msg_id m" using serve(5) r by (intro handled_id) auto
      have "answer D s0 d db' (call_request c) (snd r)" if c: "cn_calls s g = Some c" "msg_id m = Some (call_id c)" for g c
      proof -
        have m: "m = request_message (call_id c) (call_request c)" using f c unfolding frame_ok_def by blast
        obtain j pl where jp: "r = (j, pl)" by (cases r)
        show ?thesis using handle_answers [OF laws start serve(5) [unfolded d m r jp]] by (simp add: jp)
      qed
      then show ?thesis using f i serve(2) by (auto simp: reply_ok_def frame_ok_def)
    qed
    then show ?thesis using serve d by (intro common) (auto split: option.splits)
  next
    case (serve_ends m rest x h E n r n' db')
    then show ?thesis by (intro common) (auto intro: srv_step.frame)
  next
    case (other db')
    then show ?thesis by (intro common) (auto intro: serving)
  next
    case (lose_up xs m ys)
    then show ?thesis by (intro common) (auto intro: serving)
  next
    case (lose_down xs m ys)
    then show ?thesis by (intro common) (auto intro: serving)
  next
    case (receive_invalid k m rest)
    then show ?thesis by (intro common) (auto intro: serving)
  next
    case (receive_reply k m rest ch c)
    then show ?thesis by (intro common) (auto intro: serving simp: take_pending_def Let_def)
  next
    case (receive_other k m rest c)
    then show ?thesis using untaken [OF receive_other(6)] by (intro common) (auto intro: serving split: sum.splits)
  next
    case (deliver k ch m c)
    have c': "c = cn_client s\<lparr>cl_channels := (cl_channels (cn_client s))[ch := (cl_channels (cn_client s) ! ch)\<lparr>ch_buffer := Some m\<rparr>]\<rparr>"
      using deliver_proceeds [OF inv deliver(3)] deliver(4) by simp
    have "answer D s0 d (cn_db s) (call_request x) (snd m)" if "cn_calls s g = Some x" "call_chan x = ch" for g x
      using replies [of m] delivering(3) [OF inv deliver(3) that] that deliver(3) by (auto simp: reply_ok_def)
    moreover have "ch_buffer (cl_channels c ! call_chan x) = (if call_chan x = ch then Some m else ch_buffer (cl_channels (cn_client s) ! call_chan x))"
      if "cn_calls s g = Some x" for g x
      using chans [OF that] by (auto simp: c' nth_list_update)
    moreover have "cl_device_id c = d" by (simp add: c')
    ultimately show ?thesis using deliver(1,2) serving by (intro common) auto
  next
    case (receive_fails k)
    then show ?thesis by (intro common) (auto intro: serving)
  next
    case (heartbeat i)
    then have "frame_ok s' (heartbeat_message i)" using ids by (auto simp: frame_ok_def heartbeat_message_def)
    then show ?thesis using heartbeat by (intro common) (auto intro: serving)
  next
    case heartbeats_end
    then show ?thesis by (intro common) (auto intro: serving)
  next
    case (close_stream k c)
    from close_proceeds [OF inv close_stream(3)] close_stream(5) have "cl_device_id c = d"
      "\<And>ch. ch < length (cl_channels (cn_client s)) \<Longrightarrow> ch_buffer (cl_channels c ! ch) = ch_buffer (cl_channels (cn_client s) ! ch)"
      by auto
    then show ?thesis using close_stream chans serving by (intro common) auto
  next
    case (call_begins g i ch c rq)
    then have "\<And>x. x < length (cl_channels (cn_client s)) \<Longrightarrow> cl_channels c ! x = cl_channels (cn_client s) ! x" "cl_device_id c = d"
      "cl_channels c ! ch = new_channel"
      by (auto simp: registerPending_def nth_append)
    then show ?thesis using call_begins chans serving by (intro common) (auto simp: new_channel_def split: if_splits)
  next
    case (call_sends g c)
    have "h = g" if "cn_calls s h = Some y" "call_id y = call_id c" for h y
      using conn_invD(1) [OF inv] that call_sends(3) unfolding calls_distinct_def by blast
    then have "frame_ok s' (request_message (call_id c) (call_request c))"
      using call_sends(1,2) ids [OF call_sends(3)] by (auto simp: frame_ok_def split: if_splits)
    then show ?thesis using call_sends by (intro common) (auto intro: serving split: if_splits)
  next
    case (call_not_sent g c ctx_err sent e)
    then show ?thesis by (intro common) (auto intro: serving simp: end_call_def unregisterPending_def split: if_splits)
  next
    case (call_returns g c response cl)
    have "call_chan y \<noteq> call_chan c" if "cn_calls s h = Some y" "h \<noteq> g" for h y
      using conn_invD(1) [OF inv] that call_returns(3) by (auto simp: calls_distinct_def)
    then show ?thesis using call_returns received [OF call_returns(5)] serving
      by (intro common) (auto simp: end_call_def unregisterPending_def split: if_splits)
  next
    case (call_cancelled g c e)
    then show ?thesis by (intro common) (auto intro: serving simp: end_call_def unregisterPending_def split: if_splits)
  qed
qed

lemma answered_new: "answered D s d (new_conn d s)"
  by (simp add: answered_def new_conn_def NewClient_def in_flight_def)

lemma conn_reachable_answered:
  assumes "conn_reachable D P (new_conn d s0) s" and "codec_laws (svc_codec (dpl_service D))"
  shows "conn_inv s \<and> answered D s0 d s"
  using assms(1)
  by (induction rule: conn_reachable.induct) (auto intro: conn_inv_new answered_new conn_step_inv conn_step_answered [OF assms(2)])

text \<open>The outcome of a call that returned.\<close>

lemma returned_answer:
  assumes inv: "conn_inv s" "answered D s0 d s" and st: "conn_step D P s (Returned rq res) s'"
  shows "(\<exists>m. res = response_outcome rq (Some m) \<and> answer D s0 d (cn_db s) rq (snd m)) \<or>
    res = response_outcome rq None \<or> (\<exists>e. foreign e \<and> res = error_outcome rq e)"
  using st
proof cases
  case (call_returns g c response cl)
  show ?thesis
  proof (cases response)
    case (Some m)
    then have "buffered s c = Some m" using received(7) [OF call_returns(6)] by (simp add: buffered_def)
    then have "answer D s0 d (cn_db s) rq (snd m)" using inv(2) call_returns(1,4) unfolding answered_def by blast
    then show ?thesis using Some call_returns(1,2) by blast
  qed (use call_returns(1,2) in auto)
next
  case (call_not_sent g c ctx_err sent e)
  then have "foreign e" by (auto simp: client_send_def foreign_def ErrResultRejected_def split: if_splits option.splits)
  then show ?thesis using call_not_sent by auto
qed auto

lemma returned_stored:
  assumes "codec_laws (svc_codec (dpl_service D))" and "conn_reachable D P (new_conn d s0) s"
    and "conn_step D P s (Returned (ResultRequest r) (ResultOutcome None)) s'"
  shows "\<exists>db. later D s0 db \<and> later D db (cn_db s) \<and> holds_result (svc_codec (dpl_service D)) d r db"
proof -
  have inv: "conn_inv s" "answered D s0 d s" using conn_reachable_answered [OF assms(2,1)] by blast+
  show ?thesis using returned_answer [OF inv assms(3)]
    by (auto simp: result_response_def answer_def split: server_payload.splits result_ack.splits prod.splits)
qed

lemma returned_refused:
  assumes "codec_laws (svc_codec (dpl_service D))" and "conn_reachable D P (new_conn d s0) s"
    and "conn_step D P s (Returned (ResultRequest r) (ResultOutcome (Some e))) s'" and "errors_is e ErrResultRejected"
  shows "\<exists>db. later D s0 db \<and> later D db (cn_db s) \<and> refused (dpl_service D) d r db"
proof -
  have inv: "conn_inv s" "answered D s0 d s" using conn_reachable_answered [OF assms(2,1)] by blast+
  show ?thesis using returned_answer [OF inv assms(3)] assms(4)
    by (auto simp: foreign_def ErrResultRejected_def result_response_def answer_def split: server_payload.splits result_ack.splits prod.splits)
qed

lemma returned_policy:
  assumes "codec_laws (svc_codec (dpl_service D))" and "conn_reachable D P (new_conn d s0) s"
    and "conn_step D P s (Returned rq (PolicyOutcome (Inr p))) s'"
  shows "\<exists>db E n n' db'. later D s0 db \<and> later D db (cn_db s) \<and> desiredPolicy (dpl_service D) d E n db = (Inr p, n', db')"
proof -
  have inv: "conn_inv s" "answered D s0 d s" using conn_reachable_answered [OF assms(2,1)] by blast+
  from returned_answer [OF inv assms(3)] obtain m where m: "PolicyOutcome (Inr p) = response_outcome rq (Some m)" "answer D s0 d (cn_db s) rq (snd m)"
  proof (elim disjE exE conjE)
    assume "PolicyOutcome (Inr p) = response_outcome rq None"
    then show ?thesis by (cases rq) (simp_all add: policy_response_def)
  next
    fix e
    assume "PolicyOutcome (Inr p) = error_outcome rq e"
    then show ?thesis by (cases rq) simp_all
  qed
  moreover from m(1) have "snd m = PolicyFrame p"
    by (cases rq) (auto simp: policy_response_def split: server_payload.splits prod.splits)
  ultimately have "\<exists>db E n n' db'. rq = PolicyRequest \<and> later D s0 db \<and> later D db (cn_db s) \<and> desiredPolicy (dpl_service D) d E n db = (Inr p, n', db')"
    by (simp add: answer_def)
  then show ?thesis by blast
qed

section \<open>A session\<close>

definition ex_endpoint :: endpoint where
  "ex_endpoint = \<lparr>ep_tls = Some [ex_certificate ''D'' 5], ep_hostname = ''h'', ep_version = ''1'', ep_valid_agent = (\<lambda>_. True),
     ep_valid_server = (\<lambda>_. True)\<rparr>"

definition ex_ctx :: go_ctx where
  "ex_ctx = background\<lparr>ctx_device := Some ''D'', ctx_peer := Some (ex_certificate ''D'' 5)\<rparr>"

definition ex_hello_frame :: agent_message where
  "ex_hello_frame = hello_message ''H'' ''h'' ''1'' (NewClient ''D'')"

definition ex_db1 :: srv_db where
  "ex_db1 = snd (snd (Stream ex_service ex_ctx [ex_hello_frame] EndOfStream ex_env 0 ex_db))"

definition ex_db2 :: srv_db where
  "ex_db2 = snd (snd (handleAgentMessage ex_service ''D'' ex_hello_D ex_message ex_env 0 ex_db1))"

definition ex_client :: "(string \<times> nat) list \<Rightarrow> channel list \<Rightarrow> client" where
  "ex_client pend chs = \<lparr>cl_device_id = ''D'', cl_stream = Some 0, cl_pending = pend, cl_channels = chs\<rparr>"

definition ex_ack :: server_message where
  "ex_ack = (Some ''M'', AckFrame RESULT_ACK_CODE_ACCEPTED)"

text \<open>The client has said hello, the server has answered, one result is being sent.\<close>

definition ex_conn :: "client \<Rightarrow> bool option \<Rightarrow> run_phase \<Rightarrow> bool option \<Rightarrow> string set \<Rightarrow> agent_message list \<Rightarrow> server_message list \<Rightarrow> bool \<Rightarrow> srv_db \<Rightarrow> conn" where
  "ex_conn c sent run beats ids up down serving db = \<lparr>cn_client = c,
     cn_calls = (case sent of None \<Rightarrow> Map.empty | Some b \<Rightarrow> [0 \<mapsto> \<lparr>call_id = ''M'', call_chan = 0, call_request = ResultRequest ex_result, call_sent = b\<rparr>]),
     cn_run = run, cn_beats = beats, cn_ids = ids, cn_streams = 1, cn_up = up, cn_down = down,
     cn_serving = (if serving then Some (''D'', ex_hello_D) else None), cn_db = db\<rparr>"

lemma ex_stream:
  "\<exists>n'. Stream ex_service ex_ctx [ex_hello_frame] EndOfStream ex_env 0 ex_db = (Inr ([(Some ''Uxxx'', WelcomeFrame 30000000000)], EndOfStream), n', ex_db1)"
proof -
  have "fst (Stream ex_service ex_ctx [ex_hello_frame] EndOfStream ex_env 0 ex_db) = Inr ([(Some ''Uxxx'', WelcomeFrame 30000000000)], EndOfStream)"
    by code_simp
  then show ?thesis unfolding ex_db1_def by (metis prod.collapse)
qed

lemma ex_serve:
  "\<exists>n'. handleAgentMessage ex_service ''D'' ex_hello_D ex_message ex_env 0 ex_db1 = (Inr (Some ex_ack), n', ex_db2)"
proof -
  have "fst (handleAgentMessage ex_service ''D'' ex_hello_D ex_message ex_env 0 ex_db1) = Inr (Some ex_ack)"
    unfolding ex_db1_def by code_simp
  then show ?thesis unfolding ex_db2_def by (metis prod.collapse)
qed

lemmas ex_session_defs = ex_conn_def ex_client_def ex_endpoint_def NewClient_def new_conn_def ex_hello_frame_def hello_message_def
  ex_message_def result_message_def ex_ack_def new_channel_def id_value_def

abbreviation ex_reached :: "conn \<Rightarrow> bool" where
  "ex_reached \<equiv> conn_reachable ex_deployment ex_endpoint (new_conn ''D'' ex_db)"

lemma ex_connected: "ex_reached (ex_conn (ex_client [] []) None (RunReceive 0) (Some True) {''H''} [] [] True ex_db1)"
proof -
  let ?hello = "hello_message ''H'' ''h'' ''1'' (NewClient ''D'')"
  have "conn_step ex_deployment ex_endpoint (new_conn ''D'' ex_db) Internal (ex_conn (ex_client [] []) None (RunHello 0) None {} [] [] False ex_db)"
    using conn_step.open_stream [of "new_conn ''D'' ex_db" "ex_client [] []" ex_deployment ex_endpoint] by (simp add: Run_open_def ex_session_defs)
  note r1 = conn_reachable.step [OF conn_reachable.here this]
  have "conn_step ex_deployment ex_endpoint (ex_conn (ex_client [] []) None (RunHello 0) None {} [] [] False ex_db) Internal
      (ex_conn (ex_client [] []) None (RunReceive 0) None {''H''} [ex_hello_frame] [] False ex_db)"
    using conn_step.say_hello [of "ex_conn (ex_client [] []) None (RunHello 0) None {} [] [] False ex_db" 0 "''H''" ?hello ex_endpoint ex_deployment]
    by (simp add: client_send_def ex_session_defs)
  note r2 = conn_reachable.step [OF r1 this]
  obtain n' where st: "Stream ex_service ex_ctx [ex_hello_frame] EndOfStream ex_env 0 ex_db =
      (Inr ([(Some ''Uxxx'', WelcomeFrame 30000000000)], EndOfStream), n', ex_db1)" using ex_stream by blast
  have mw: "AgentMiddleware (agent_path (StreamRequest [ex_hello_frame] EndOfStream)) (ep_tls ex_endpoint) background = Served ex_ctx"
    by code_simp
  have "conn_step ex_deployment ex_endpoint (ex_conn (ex_client [] []) None (RunReceive 0) None {''H''} [ex_hello_frame] [] False ex_db) Internal
      (ex_conn (ex_client [] []) None (RunReceive 0) None {''H''} [] [(Some ''Uxxx'', WelcomeFrame 30000000000)] True ex_db1)"
    using conn_step.accept [of "ex_conn (ex_client [] []) None (RunReceive 0) None {''H''} [ex_hello_frame] [] False ex_db" ex_hello_frame "[]"
        ex_hello_D ex_endpoint ex_ctx ex_deployment ex_env 0 "(Some ''Uxxx'', WelcomeFrame 30000000000)" n' ex_db1] st mw
    by (simp add: ex_parts ex_conn_def) (simp add: ex_hello_frame_def hello_message_def NewClient_def ex_hello_D_def id_value_def)
  note r3 = conn_reachable.step [OF r2 this]
  have "conn_step ex_deployment ex_endpoint (ex_conn (ex_client [] []) None (RunReceive 0) None {''H''} [] [(Some ''Uxxx'', WelcomeFrame 30000000000)] True ex_db1)
      Internal (ex_conn (ex_client [] []) None (RunReceive 0) (Some True) {''H''} [] [] True ex_db1)"
    using conn_step.receive_other [of "ex_conn (ex_client [] []) None (RunReceive 0) None {''H''} [] [(Some ''Uxxx'', WelcomeFrame 30000000000)] True ex_db1"
        0 "(Some ''Uxxx'', WelcomeFrame 30000000000)" "[]" ex_endpoint "ex_client [] []" ex_deployment]
    by (simp add: take_pending_def Run_uncorrelated_def ex_session_defs)
  then show ?thesis by (rule conn_reachable.step [OF r3])
qed

lemma ex_delivering:
  "ex_reached (ex_conn (ex_client [] [new_channel]) (Some True) (RunDeliver 0 0 ex_ack) (Some True) {''M'', ''H''} [] [] True ex_db2)"
proof -
  let ?c0 = "ex_client [] []" and ?c1 = "ex_client [(''M'', 0)] [new_channel]" and ?c2 = "ex_client [] [new_channel]" and ?ids = "{''M'', ''H''}"
  have "conn_step ex_deployment ex_endpoint (ex_conn ?c0 None (RunReceive 0) (Some True) {''H''} [] [] True ex_db1) Internal
      (ex_conn ?c1 (Some False) (RunReceive 0) (Some True) ?ids [] [] True ex_db1)"
    using conn_step.call_begins [of "ex_conn ?c0 None (RunReceive 0) (Some True) {''H''} [] [] True ex_db1" 0 "''M''" 0 ?c1
        ex_deployment ex_endpoint "ResultRequest ex_result"]
    by (simp add: registerPending_def ex_session_defs)
  note r1 = conn_reachable.step [OF ex_connected this]
  have "conn_step ex_deployment ex_endpoint (ex_conn ?c1 (Some False) (RunReceive 0) (Some True) ?ids [] [] True ex_db1) Internal
      (ex_conn ?c1 (Some True) (RunReceive 0) (Some True) ?ids [ex_message] [] True ex_db1)"
    using conn_step.call_sends [of "ex_conn ?c1 (Some False) (RunReceive 0) (Some True) ?ids [] [] True ex_db1" 0
        "\<lparr>call_id = ''M'', call_chan = 0, call_request = ResultRequest ex_result, call_sent = False\<rparr>" ex_endpoint ex_deployment]
    by (simp add: client_send_def ex_session_defs)
  note r2 = conn_reachable.step [OF r1 this]
  obtain n' where st: "handleAgentMessage ex_service ''D'' ex_hello_D ex_message ex_env 0 ex_db1 = (Inr (Some ex_ack), n', ex_db2)"
    using ex_serve by blast
  have "conn_step ex_deployment ex_endpoint (ex_conn ?c1 (Some True) (RunReceive 0) (Some True) ?ids [ex_message] [] True ex_db1) Internal
      (ex_conn ?c1 (Some True) (RunReceive 0) (Some True) ?ids [] [ex_ack] True ex_db2)"
    using conn_step.serve [of "ex_conn ?c1 (Some True) (RunReceive 0) (Some True) ?ids [ex_message] [] True ex_db1" ex_message "[]" "''D''" ex_hello_D
        ex_deployment ex_env 0 "Some ex_ack" n' ex_db2 ex_endpoint] st
    by (simp add: ex_parts ex_conn_def)
  note r3 = conn_reachable.step [OF r2 this]
  have "conn_step ex_deployment ex_endpoint (ex_conn ?c1 (Some True) (RunReceive 0) (Some True) ?ids [] [ex_ack] True ex_db2) Internal
      (ex_conn ?c2 (Some True) (RunDeliver 0 0 ex_ack) (Some True) ?ids [] [] True ex_db2)"
    using conn_step.receive_reply [of "ex_conn ?c1 (Some True) (RunReceive 0) (Some True) ?ids [] [ex_ack] True ex_db2" 0 ex_ack "[]" ex_endpoint 0 ?c2 ex_deployment]
    by (simp add: take_pending_def ex_session_defs)
  then show ?thesis by (rule conn_reachable.step [OF r3])
qed

lemma ex_acknowledged:
  "ex_reached (ex_conn (ex_client [] [\<lparr>ch_buffer = Some ex_ack, ch_closed = False\<rparr>]) (Some True) (RunReceive 0) (Some True) {''M'', ''H''} [] [] True ex_db2)"
proof -
  let ?c2 = "ex_client [] [new_channel]" and ?c3 = "ex_client [] [\<lparr>ch_buffer = Some ex_ack, ch_closed = False\<rparr>]" and ?ids = "{''M'', ''H''}"
  have "conn_step ex_deployment ex_endpoint (ex_conn ?c2 (Some True) (RunDeliver 0 0 ex_ack) (Some True) ?ids [] [] True ex_db2) Internal
      (ex_conn ?c3 (Some True) (RunReceive 0) (Some True) ?ids [] [] True ex_db2)"
    using conn_step.deliver [of "ex_conn ?c2 (Some True) (RunDeliver 0 0 ex_ack) (Some True) ?ids [] [] True ex_db2" 0 0 ex_ack ?c3 ex_deployment ex_endpoint]
    by (simp add: chan_send_def ex_session_defs)
  then show ?thesis by (rule conn_reachable.step [OF ex_delivering])
qed

lemma ex_returns:
  "\<exists>s s'. ex_reached s \<and> conn_step ex_deployment ex_endpoint s (Returned (ResultRequest ex_result) (ResultOutcome None)) s'"
proof -
  let ?s = "ex_conn (ex_client [] [\<lparr>ch_buffer = Some ex_ack, ch_closed = False\<rparr>]) (Some True) (RunReceive 0) (Some True) {''M'', ''H''} [] [] True ex_db2"
  let ?c = "\<lparr>call_id = ''M'', call_chan = 0, call_request = ResultRequest ex_result, call_sent = True\<rparr>"
  have "conn_step ex_deployment ex_endpoint ?s (Returned (ResultRequest ex_result) (ResultOutcome None))
      (end_call 0 ?c (?s\<lparr>cn_client := ex_client [] [new_channel]\<rparr>))"
    using conn_step.call_returns [of ?s 0 ?c "Some ex_ack" "ex_client [] [new_channel]" ex_deployment ex_endpoint]
    by (simp add: chan_receive_def result_response_def ex_session_defs)
  then show ?thesis using ex_acknowledged by blast
qed

text \<open>Any call may be cancelled before it is sent.\<close>

lemma ex_cancelled:
  "\<exists>s s'. ex_reached s \<and> conn_step ex_deployment ex_endpoint s (Returned (ResultRequest r) (ResultOutcome (Some EDriver))) s'"
proof -
  let ?pre = "ex_conn (ex_client [] []) None (RunReceive 0) (Some True) {''H''} [] [] True ex_db1"
  let ?c = "\<lparr>call_id = ''M'', call_chan = 0, call_request = ResultRequest r, call_sent = False\<rparr>"
  let ?mid = "?pre\<lparr>cn_ids := {''M'', ''H''}, cn_client := ex_client [(''M'', 0)] [new_channel], cn_calls := [0 \<mapsto> ?c]\<rparr>"
  have "conn_step ex_deployment ex_endpoint ?pre Internal ?mid"
    using conn_step.call_begins [of ?pre 0 "''M''" 0 "ex_client [(''M'', 0)] [new_channel]" ex_deployment ex_endpoint "ResultRequest r"]
    by (simp add: registerPending_def ex_session_defs)
  from conn_reachable.step [OF ex_connected this] have "ex_reached ?mid" .
  moreover have "conn_step ex_deployment ex_endpoint ?mid (Returned (ResultRequest r) (ResultOutcome (Some EDriver))) (end_call 0 ?c ?mid)"
    using conn_step.call_not_sent [of ?mid 0 ?c "Some EDriver" None ex_endpoint EDriver ex_deployment]
    by (simp add: client_send_def foreign_def ErrResultRejected_def ex_session_defs)
  ultimately show ?thesis by blast
qed

section \<open>What the caller of the client may rely on\<close>

text \<open>C6. Acknowledgements can be trusted, whatever the goroutines, the network and the other requests do: \<^verbatim>\<open>SendActionResult\<close> returns
  nil only if the server has stored this very result under this device, at some point between the opening of the client and now, and
  it returns \<^verbatim>\<open>ErrResultRejected\<close> only if the server refused this result for good. \<^verbatim>\<open>PullDesiredPolicy\<close> returns only a policy that the
  server computed for this device in that time. A reply never reaches another call.\<close>

theorem acknowledged_result_is_stored:
  assumes "codec_laws (svc_codec (dpl_service D))" and "conn_reachable D P (new_conn d s0) s" and "conn_step D P s (Returned rq res) s'"
  shows "(\<forall>r. rq = ResultRequest r \<and> res = ResultOutcome None \<longrightarrow>
      (\<exists>db. later D s0 db \<and> later D db (cn_db s) \<and> holds_result (svc_codec (dpl_service D)) d r db)) \<and>
    (\<forall>r e. rq = ResultRequest r \<and> res = ResultOutcome (Some e) \<and> errors_is e ErrResultRejected \<longrightarrow>
      (\<exists>db. later D s0 db \<and> later D db (cn_db s) \<and> refused (dpl_service D) d r db)) \<and>
    (\<forall>p. res = PolicyOutcome (Inr p) \<longrightarrow>
      (\<exists>db E n n' db'. later D s0 db \<and> later D db (cn_db s) \<and> desiredPolicy (dpl_service D) d E n db = (Inr p, n', db')))"
  using returned_stored [OF assms(1,2)] returned_refused [OF assms(1,2)] returned_policy [OF assms(1,2)] assms(3) by blast

theorem acknowledged_result_is_stored_witness:
  "\<exists>db. later ex_deployment ex_db db \<and> holds_result ex_codec ''D'' ex_result db"
proof -
  obtain s s' where "ex_reached s" "conn_step ex_deployment ex_endpoint s (Returned (ResultRequest ex_result) (ResultOutcome None)) s'"
    using ex_returns by blast
  moreover have "codec_laws (svc_codec (dpl_service ex_deployment))" by (simp add: ex_parts ex_codec_laws)
  ultimately show ?thesis using acknowledged_result_is_stored by (metis ex_parts)
qed

text \<open>C15. No goroutine of the client hangs or panics: delivering a reply always finds its channel open and empty, closing the stream
  never closes a channel twice, and once the stream is closed every call that has sent its request can receive from its channel, and
  every call that has not fails to send.\<close>

theorem client_never_stuck:
  assumes "codec_laws (svc_codec (dpl_service D))" and "conn_reachable D P (new_conn d s0) s"
  shows "(\<forall>k ch m. cn_run s = RunDeliver k ch m \<longrightarrow> (\<exists>c. chan_send ch m (cn_client s) = Proceeds c)) \<and>
    (\<forall>k. cn_run s = RunEnding k \<longrightarrow> (\<exists>c. closeStream k (cn_client s) = Proceeds c \<and> cl_stream c = None \<and> cl_pending c = [])) \<and>
    (cn_run s = RunIdle \<longrightarrow> (\<forall>g c. cn_calls s g = Some c \<longrightarrow>
      (if call_sent c then \<exists>response cl. chan_receive (call_chan c) (cn_client s) = Proceeds (response, cl)
       else \<exists>e. client_send (ep_valid_agent P) None None (request_message (call_id c) (call_request c)) (cn_client s) = Some e)))"
proof -
  have inv: "conn_inv s" using conn_reachable_answered [OF assms(2,1)] by blast
  have "\<exists>response cl. chan_receive (call_chan c) (cn_client s) = Proceeds (response, cl)"
    if "cn_run s = RunIdle" "cn_calls s g = Some c" "call_sent c" for g c
  proof -
    have "call_chan c < length (cl_channels (cn_client s))" using conn_invD(1) [OF inv] that(2) by (simp add: calls_distinct_def)
    moreover have "\<not> idle_channel s (call_chan c)"
    proof
      assume "idle_channel s (call_chan c)"
      then show False
        by (rule waitingE [OF conn_invD(4) [OF inv] that(2)]) (use that conn_invD(5) [OF inv] in \<open>simp_all add: run_stream_def\<close>)
    qed
    ultimately show ?thesis by (auto simp: chan_receive_def idle_channel_def ch_idle_def split: option.splits)
  qed
  moreover have "cl_stream (cn_client s) = None" if "cn_run s = RunIdle" using conn_invD(5) [OF inv] that by (simp add: run_stream_def)
  ultimately have "cn_run s = RunIdle \<longrightarrow> (\<forall>g c. cn_calls s g = Some c \<longrightarrow>
      (if call_sent c then \<exists>response cl. chan_receive (call_chan c) (cn_client s) = Proceeds (response, cl)
       else \<exists>e. client_send (ep_valid_agent P) None None (request_message (call_id c) (call_request c)) (cn_client s) = Some e))"
    by (simp add: client_send_def)
  moreover have "\<exists>c. closeStream k (cn_client s) = Proceeds c \<and> cl_stream c = None \<and> cl_pending c = []" if "cn_run s = RunEnding k" for k
    using close_proceeds [OF inv that] by auto
  ultimately show ?thesis using deliver_proceeds [OF inv] by blast
qed

theorem client_never_stuck_witness:
  "\<exists>s c. ex_reached s \<and> cn_run s = RunDeliver 0 0 ex_ack \<and> chan_send 0 ex_ack (cn_client s) = Proceeds c"
proof -
  have laws: "codec_laws (svc_codec (dpl_service ex_deployment))" by (simp add: ex_parts ex_codec_laws)
  let ?s = "ex_conn (ex_client [] [new_channel]) (Some True) (RunDeliver 0 0 ex_ack) (Some True) {''M'', ''H''} [] [] True ex_db2"
  from client_never_stuck [OF laws ex_delivering] have "\<exists>c. chan_send 0 ex_ack (cn_client ?s) = Proceeds c"
    by (simp add: ex_conn_def)
  then show ?thesis using ex_delivering by (intro exI [of _ ?s]) (simp add: ex_conn_def)
qed

end
