(* ===== verification/System_Props.thy ===== *)
theory System_Props
  imports System_Connection Agent_Exec_Props
begin

text \<open>
  The server and the agent together: what is assigned on the server is what the agent runs, and a result leaves the agent only when
  the server has it or has refused it.
\<close>

section \<open>From an assignment to the agent's work\<close>

lemma map_sum_executable:
  "\<forall>x\<in>set xs. stored_action C x \<Longrightarrow>
    \<exists>as. map_sum (\<lambda>x. executableAction C (ac_id x) (ac_blob x)) xs = Inr as \<and> map (\<lambda>a. id_value (act_id a)) as = map ac_id xs \<and>
      map Some as = map (\<lambda>x. unmarshal_action C (ac_blob x)) xs \<and> list_all valid_action as"
proof (induction xs)
  case (Cons x xs)
  then obtain as where "map_sum (\<lambda>x. executableAction C (ac_id x) (ac_blob x)) xs = Inr as" "map (\<lambda>a. id_value (act_id a)) as = map ac_id xs"
    "map Some as = map (\<lambda>x. unmarshal_action C (ac_blob x)) xs" "list_all valid_action as" by auto
  moreover obtain a where a: "executableAction C (ac_id x) (ac_blob x) = Inr a" "valid_action a"
    using Cons.prems by (auto simp: stored_action_def)
  moreover have "id_value (act_id a) = ac_id x" "unmarshal_action C (ac_blob x) = Some a"
    using a(1) by (auto simp: executableAction_def split: option.splits if_splits)
  ultimately show ?case by simp
qed simp

lemma current_actions_accepts:
  "distinct (map fst cur @ map (\<lambda>a. id_value (act_id a)) as) \<Longrightarrow> \<forall>a\<in>set as. id_value (act_id a) \<noteq> '''' \<Longrightarrow>
    current_actions (map Some as) cur = Inr (cur @ map (\<lambda>a. (id_value (act_id a), a)) as)"
proof (induction as arbitrary: cur)
  case (Cons a as)
  then have "map_of cur (id_value (act_id a)) = None" by (auto simp: map_of_eq_None_iff)
  then show ?case using Cons by (simp add: insert_commute)
qed simp

text \<open>C37. What is assigned on the server is what the agent runs: in every well-formed database the policy of a device is computed
  without an error and consists of valid actions, the agent accepts it, and after the agent has reconciled it, its active actions are
  exactly the stored actions that are assigned to the device directly or through a group.\<close>

theorem assigned_actions_reach_the_agent:
  assumes laws: "codec_laws (svc_codec svc)" and wf: "srv_wf (svc_codec svc) s" and ids: "\<forall>x\<in>set (actions s). ac_id x \<noteq> ''''"
    and ok: "\<not> fault E n" and inv: "agent_inv (svc_codec svc) a"
    and policy: "desiredPolicy svc d E n s = (r, n', s')"
    and reconcile: "ReconcilePolicy (svc_codec svc) (Some (projr r)) E2 m a = (Inr u, m', a')"
  shows "\<not> isl r \<and> (\<exists>cur. current_actions (policy_actions (projr r)) [] = Inr cur \<and> list_all (\<lambda>x. valid_action (snd x)) cur) \<and>
    active_actions (svc_codec svc) a' = (\<lambda>x. unmarshal_action (svc_codec svc) (ac_blob x)) ` set (assigned_actions s d)"
proof -
  let ?C = "svc_codec svc" and ?xs = "sort_key ac_id (assigned_actions s d)"
  have stored: "\<forall>x\<in>set ?xs. stored_action ?C x" and d: "distinct (map ac_id ?xs)" and ne: "\<forall>x\<in>set ?xs. ac_id x \<noteq> ''''"
    using wf ids by (auto simp: srv_wf_def db_actions_def db_keys_def assigned_actions_def distinct_map inj_on_def)
  from map_sum_executable [OF stored] obtain as where
    as: "map_sum (\<lambda>x. executableAction ?C (ac_id x) (ac_blob x)) ?xs = Inr as" "map (\<lambda>a. id_value (act_id a)) as = map ac_id ?xs"
      "map Some as = map (\<lambda>x. unmarshal_action ?C (ac_blob x)) ?xs" "list_all valid_action as" by blast
  have r: "r = Inr \<lparr>refresh_interval_minutes = 5, policy_actions = map Some as\<rparr>"
    using policy ok as(1)
    by (simp add: desiredPolicy_def q_ListActionsForDevice_def query_def sql_def map_err_def handle_def bnd_def lift_sum_def ret_def)
  have "(\<lambda>a. id_value (act_id a)) ` set as = ac_id ` set ?xs" using as(2) by (metis list.set_map)
  then have ids': "\<forall>a\<in>set as. id_value (act_id a) \<noteq> ''''" using ne by (metis image_iff)
  have cur: "current_actions (map Some as) [] = Inr (map (\<lambda>a. (id_value (act_id a), a)) as)"
    using current_actions_accepts [of "[]" as] d ids' as(2) by simp
  have u: "work.unique (works a)" using inv by blast
  have a': "a' = a\<lparr>works := reconciled ?C (map (\<lambda>a. (id_value (act_id a), a)) as) (clock E2 (m + 2)) (works a)\<rparr>"
    using ReconcilePolicy_run [OF reconcile u] cur r by simp
  have "active_actions ?C a' = set (map Some as)"
    unfolding a'
    by (rule reconciled_active [OF laws cur inv ReconcilePolicy_writes [OF reconcile inv]]) (simp add: r cur)
  moreover have "list_all (\<lambda>x. valid_action (snd x)) (map (\<lambda>a. (id_value (act_id a), a)) as)"
    using as(4) by (simp add: list_all_iff)
  ultimately show ?thesis using as(3) cur r by simp
qed

definition ex_policy :: desired_policy where
  "ex_policy = \<lparr>refresh_interval_minutes = 5, policy_actions = [Some ex_action]\<rparr>"

theorem assigned_actions_reach_the_agent_witness:
  "active_actions ex_codec (snd (snd (ReconcilePolicy ex_codec (Some ex_policy) ex_env 0 empty_db))) = {Some ex_action}"
proof -
  let ?policy = "desiredPolicy ex_service ''D'' ex_env 0 ex_db"
  let ?rec = "ReconcilePolicy ex_codec (Some ex_policy) ex_env 0 empty_db"
  have "fst ?policy = Inr ex_policy" by code_simp
  then have p: "?policy = (Inr ex_policy, fst (snd ?policy), snd (snd ?policy))" using triple [of ?policy] by simp
  have "fst ?rec = Inr ()" by code_simp
  then have r: "ReconcilePolicy (svc_codec ex_service) (Some (projr (Inr ex_policy :: go_error + desired_policy))) ex_env 0 empty_db =
      (Inr (), fst (snd ?rec), snd (snd ?rec))"
    unfolding ex_parts using triple [of ?rec] by simp
  have laws: "codec_laws (svc_codec ex_service)" and wf: "srv_wf (svc_codec ex_service) ex_db"
    by (simp_all add: ex_parts ex_codec_laws ex_wf)
  have ids: "\<forall>x\<in>set (actions ex_db). ac_id x \<noteq> ''''" and ok: "\<not> fault ex_env 0" by (simp_all add: ex_db_def ex_env_def)
  have "active_actions (svc_codec ex_service) (snd (snd ?rec)) =
      (\<lambda>x. unmarshal_action (svc_codec ex_service) (ac_blob x)) ` set (assigned_actions ex_db ''D'')"
    using assigned_actions_reach_the_agent [OF laws wf ids ok agent_inv_empty p r] by blast
  also have "\<dots> = {Some ex_action}"
    by (simp add: ex_parts assigned_actions_def reaches_def ex_db_def ex_codec_def table_codec_def)
  finally show ?thesis by (simp add: ex_parts)
qed

section \<open>From a result in the outbox to the server's database\<close>

text \<open>The outcomes of \<^verbatim>\<open>SendActionResult\<close> that the sender sees are those of calls of the client, on a connection that was opened
  when the database was \<open>s0\<close>.\<close>

definition sent_over :: "deployment \<Rightarrow> endpoint \<Rightarrow> string \<Rightarrow> srv_db \<Rightarrow> sender \<Rightarrow> bool" where
  "sent_over D P d s0 deliver \<longleftrightarrow> (\<forall>k r. \<exists>s s'. conn_reachable D P (new_conn d s0) s \<and>
     conn_step D P s (Returned (ResultRequest r) (ResultOutcome (deliver k r))) s')"

lemma result_settled:
  assumes "codec_laws (svc_codec (dpl_service D))" and "conn_reachable D P (new_conn d s0) s"
    and "conn_step D P s (Returned (ResultRequest r) (ResultOutcome v)) s'" and "settled v"
  shows "\<exists>db. later D s0 db \<and> (holds_result (svc_codec (dpl_service D)) d r db \<or> refused (dpl_service D) d r db)"
proof (cases v)
  case None
  then show ?thesis using returned_stored [OF assms(1,2)] assms(3) by blast
next
  case (Some e)
  have "errors_is e ErrResultRejected" using assms(4) Some by (simp add: settled_def)
  then show ?thesis using returned_refused [OF assms(1,2)] assms(3) Some by blast
qed

text \<open>C40. No result is lost between the agent and the server: whatever the goroutines of the client, the network, the agent's driver
  and the other requests do, every result that has left the agent's outbox is one that the server had in its database, whole and
  under this device, or one that it refused for good.\<close>

theorem delivered_results_are_on_the_server:
  assumes laws: "codec_laws (svc_codec (dpl_service D))" and inv: "agent_inv C (ag_db a)" and ans: "sent_over D P d s0 deliver"
    and run: "syncPendingResults C deliver E n a = (r, n', a')" and b: "b \<in> set (outbox (ag_db a))" "b \<notin> set (outbox (ag_db a'))"
  shows "\<exists>x db. unmarshal_result C (payload b) = Some x \<and> later D s0 db \<and>
    (holds_result (svc_codec (dpl_service D)) d x db \<or> refused (dpl_service D) d x db)"
proof -
  from syncPendingResults_run [OF inv run] obtain k where
    k: "outbox (ag_db a') = drop k (outbox (ag_db a))"
      "\<forall>b\<in>set (take k (outbox (ag_db a))). \<exists>m x. unmarshal_result C (payload b) = Some x \<and> settled (deliver m x)" by blast
  have "b \<in> set (take k (outbox (ag_db a)))"
    using b k(1) by (metis Un_iff append_take_drop_id set_append)
  then obtain m x where x: "unmarshal_result C (payload b) = Some x" "settled (deliver m x)" using k(2) by blast
  obtain s s' where s: "conn_reachable D P (new_conn d s0) s"
    and ret: "conn_step D P s (Returned (ResultRequest x) (ResultOutcome (deliver m x))) s'" using ans unfolding sent_over_def by blast
  from result_settled [OF laws s ret x(2)] show ?thesis using x(1) by blast
qed

definition ex_agent :: agent where
  "ex_agent = \<lparr>ag_db = \<lparr>works = [], outbox = [\<lparr>sequence = 1, payload = ''blobR''\<rparr>], outbox_seq = 1\<rparr>, ag_world = [], ag_results_ready = True,
     ag_schedule_wake = False\<rparr>"

definition ex_send :: sender where
  "ex_send = (\<lambda>_ r. if r = ex_result then None else Some EDriver)"

lemma ex_sent_over: "sent_over ex_deployment ex_endpoint ''D'' ex_db ex_send"
  unfolding sent_over_def
proof (intro allI)
  fix k r
  show "\<exists>s s'. ex_reached s \<and> conn_step ex_deployment ex_endpoint s (Returned (ResultRequest r) (ResultOutcome (ex_send k r))) s'"
  proof (cases "r = ex_result")
    case True
    then show ?thesis using ex_returns by (simp add: ex_send_def)
  next
    case False
    then show ?thesis using ex_cancelled [of r] by (simp add: ex_send_def)
  qed
qed

theorem delivered_results_are_on_the_server_witness:
  "\<exists>x db. unmarshal_result ex_codec ''blobR'' = Some x \<and> later ex_deployment ex_db db \<and>
    (holds_result ex_codec ''D'' x db \<or> refused ex_service ''D'' x db)"
proof -
  let ?run = "syncPendingResults ex_codec ex_send ex_env 0 ex_agent"
  have run: "?run = (fst ?run, fst (snd ?run), snd (snd ?run))" by (rule triple)
  have gone: "outbox (ag_db (snd (snd ?run))) = []" by code_simp
  have inv: "agent_inv ex_codec (ag_db ex_agent)"
    by (simp add: agent_inv_def ex_agent_def work.unique_def box_ok_def ex_codec_def table_codec_def)
  have laws: "codec_laws (svc_codec (dpl_service ex_deployment))" by (simp add: ex_parts ex_codec_laws)
  from delivered_results_are_on_the_server [OF laws inv ex_sent_over run, of "\<lparr>sequence = 1, payload = ''blobR''\<rparr>"] gone show ?thesis
    by (simp add: ex_agent_def ex_parts)
qed

end
