(* ===== verification/GoPath.thy ===== *)
theory GoPath
  imports GoStrings
begin

text \<open>
  \<^verbatim>\<open>path/filepath\<close> on Unix, as far as the agent uses it: \<^verbatim>\<open>Clean\<close>, \<^verbatim>\<open>Dir\<close>, \<^verbatim>\<open>Base\<close>, \<^verbatim>\<open>Join\<close>, \<^verbatim>\<open>IsAbs\<close> and \<^verbatim>\<open>Abs\<close>. A cleaned path is
  determined by its components, which is how the lemmas here describe it.
\<close>

abbreviation slash :: char where
  "slash \<equiv> CHR ''/''"

definition IsAbs :: "string \<Rightarrow> bool" where
  "IsAbs p \<longleftrightarrow> HasPrefix p ''/''"

text \<open>The loop of \<^verbatim>\<open>Clean\<close>: \<open>out\<close> holds the components kept so far, the last one first.\<close>

fun clean_loop :: "bool \<Rightarrow> string list \<Rightarrow> string list \<Rightarrow> string list" where
  "clean_loop rooted out [] = rev out"
| "clean_loop rooted out (c # cs) = (
     if c = '''' \<or> c = ''.'' then clean_loop rooted out cs
     else if c = ''..'' then (case out of
         [] \<Rightarrow> clean_loop rooted (if rooted then [] else [''..'']) cs
       | x # xs \<Rightarrow> if x = ''..'' then clean_loop rooted (''..'' # out) cs else clean_loop rooted xs cs)
     else clean_loop rooted (c # out) cs)"

definition components :: "string \<Rightarrow> string list" where
  "components p = clean_loop (IsAbs p) [] (Split p slash)"

definition Clean :: "string \<Rightarrow> string" where
  "Clean p = (
     if IsAbs p then slash # Join (components p) ''/''
     else if components p = [] then ''.'' else Join (components p) ''/'')"

definition path_Dir :: "string \<Rightarrow> string" where
  "path_Dir p = Clean (case CutLast p slash of None \<Rightarrow> '''' | Some (a, b) \<Rightarrow> a @ ''/'')"

definition path_Base :: "string \<Rightarrow> string" where
  "path_Base p = (
     if p = '''' then ''.''
     else (let q = TrimRight (\<lambda>c. c = slash) p; b = (case CutLast q slash of None \<Rightarrow> q | Some (a, b) \<Rightarrow> b)
           in if b = '''' then ''/'' else b))"

definition path_Join :: "string list \<Rightarrow> string" where
  "path_Join elems = (case filter (\<lambda>e. e \<noteq> '''') elems of [] \<Rightarrow> '''' | es \<Rightarrow> Clean (Join es ''/''))"

text \<open>\<open>cwd\<close> is what \<^verbatim>\<open>os.Getwd\<close> returns.\<close>

definition path_Abs :: "string option \<Rightarrow> string \<Rightarrow> string option" where
  "path_Abs cwd p = (if IsAbs p then Some (Clean p) else map_option (\<lambda>d. path_Join [d, p]) cwd)"

section \<open>Components\<close>

definition name_ok :: "string \<Rightarrow> bool" where
  "name_ok c \<longleftrightarrow> c \<noteq> '''' \<and> c \<noteq> ''.'' \<and> slash \<notin> set c"

lemma clean_loop_names:
  assumes "\<forall>c\<in>set out. name_ok c" and "\<forall>c\<in>set cs. slash \<notin> set c" and "x \<in> set (clean_loop r out cs)"
  shows "name_ok x"
  using assms
proof (induction r out cs rule: clean_loop.induct)
  case (2 r out c cs)
  have up: "name_ok ''..''" by (simp add: name_ok_def)
  from 2 up show ?case by (auto simp: name_ok_def split: if_splits list.splits)
qed simp

lemma clean_loop_rooted: "''..'' \<notin> set out \<Longrightarrow> ''..'' \<notin> set (clean_loop True out cs)"
  by (induction True out cs rule: clean_loop.induct) (auto split: list.splits)

lemma components_names: "c \<in> set (components p) \<Longrightarrow> name_ok c"
  unfolding components_def by (rule clean_loop_names [of "[]"]) (auto dest: Split_parts)

lemma components_rooted: "IsAbs p \<Longrightarrow> ''..'' \<notin> set (components p)"
  unfolding components_def using clean_loop_rooted by simp

lemma clean_loop_id:
  "\<forall>c\<in>set cs. name_ok c \<and> c \<noteq> ''..'' \<Longrightarrow> clean_loop r out cs = rev out @ cs"
  by (induction cs arbitrary: out) (auto simp: name_ok_def)

lemma Split_Join: "\<forall>c\<in>set cs. slash \<notin> set c \<Longrightarrow> cs \<noteq> [] \<Longrightarrow> Split (Join cs ''/'') slash = cs"
proof (induction cs)
  case (Cons c cs)
  then show ?case by (cases cs) (auto simp: Split_none Split_append)
qed simp

lemma Join_inj:
  assumes "\<forall>c\<in>set cs \<union> set ds. name_ok c"
  shows "Join cs ''/'' = Join ds ''/'' \<longleftrightarrow> cs = ds"
proof
  assume eq: "Join cs ''/'' = Join ds ''/''"
  have nonempty: "xs = [] \<or> Join xs ''/'' \<noteq> ''''" if "\<forall>c\<in>set xs. name_ok c" for xs
    using that by (cases xs rule: list.exhaust; cases "tl xs") (auto simp: name_ok_def)
  show "cs = ds"
  proof (cases "cs = [] \<or> ds = []")
    case True
    then show ?thesis using nonempty [of cs] nonempty [of ds] eq assms by auto
  next
    case False
    then have "cs = Split (Join cs ''/'') slash" "ds = Split (Join ds ''/'') slash"
      using assms by (simp_all add: Split_Join name_ok_def)
    then show ?thesis using eq by metis
  qed
qed simp

lemma Join_append: "ds \<noteq> [] \<Longrightarrow> es \<noteq> [] \<Longrightarrow> Join (ds @ es) ''/'' = Join ds ''/'' @ ''/'' @ Join es ''/''"
proof (induction ds)
  case (Cons d ds)
  then show ?case by (cases ds; cases es) auto
qed simp

lemma Join_prefix:
  assumes "\<forall>c\<in>set cs \<union> set ds. name_ok c" and "ds \<noteq> []"
  shows "Join cs ''/'' = Join ds ''/'' \<or> HasPrefix (Join cs ''/'') (Join ds ''/'' @ ''/'') \<longleftrightarrow> (\<exists>es. cs = ds @ es)"
proof
  assume "\<exists>es. cs = ds @ es"
  then obtain es where es: "cs = ds @ es" by blast
  show "Join cs ''/'' = Join ds ''/'' \<or> HasPrefix (Join cs ''/'') (Join ds ''/'' @ ''/'')"
    using Join_append [OF assms(2), of es] by (cases "es = []") (auto simp: es HasPrefix_iff)
next
  assume "Join cs ''/'' = Join ds ''/'' \<or> HasPrefix (Join cs ''/'') (Join ds ''/'' @ ''/'')"
  then consider "Join cs ''/'' = Join ds ''/''" | t where "Join cs ''/'' = Join ds ''/'' @ slash # t"
    by (auto simp: HasPrefix_iff)
  then show "\<exists>es. cs = ds @ es"
  proof cases
    case 1
    then show ?thesis using Join_inj [OF assms(1)] by auto
  next
    case 2
    then have "cs \<noteq> []" by auto
    then have "cs = Split (Join ds ''/'' @ slash # t) slash" using Split_Join [of cs] assms(1) by (simp add: 2 name_ok_def)
    also have "\<dots> = ds @ Split t slash" using Split_Join [of ds] assms by (simp add: Split_app name_ok_def)
    finally show ?thesis by blast
  qed
qed

lemma IsAbs_Clean [simp]: "IsAbs (Clean p) \<longleftrightarrow> IsAbs p"
proof (cases "IsAbs p")
  case False
  have "\<not> IsAbs (Join (components p) ''/'')"
  proof (cases "components p")
    case (Cons c cs)
    have "name_ok c" using components_names [of c p] Cons by simp
    then show ?thesis by (cases cs; cases c) (auto simp: Cons IsAbs_def HasPrefix_iff name_ok_def)
  qed (simp add: IsAbs_def HasPrefix_iff)
  then show ?thesis using False by (auto simp: Clean_def IsAbs_def HasPrefix_iff)
qed (simp add: Clean_def IsAbs_def HasPrefix_iff)

lemma Clean_abs: "IsAbs p \<Longrightarrow> Clean p = slash # Join (components p) ''/''"
  by (simp add: Clean_def)

text \<open>Cleaning a cleaned absolute path changes nothing.\<close>

lemma components_Clean:
  assumes "IsAbs p"
  shows "components (Clean p) = components p"
proof -
  have names: "\<forall>c\<in>set (components p). name_ok c \<and> c \<noteq> ''..''"
    using components_names components_rooted [OF assms] by blast
  have abs: "IsAbs (Clean p)" using assms by simp
  have split: "Split (Clean p) slash = '''' # (if components p = [] then [''''] else components p)"
    using Split_Join [of "components p"] names by (auto simp: Clean_abs [OF assms] name_ok_def)
  have "components (Clean p) = clean_loop True [] (Split (Clean p) slash)" using abs by (simp only: components_def)
  also have "\<dots> = clean_loop True [] (components p)" by (simp add: split)
  also have "\<dots> = components p" using clean_loop_id [OF names] by simp
  finally show ?thesis .
qed

lemma Clean_Clean: "IsAbs p \<Longrightarrow> Clean (Clean p) = Clean p"
  by (metis Clean_abs IsAbs_Clean components_Clean)

end
