(* ===== verification/Unix_Fs.thy ===== *)
theory Unix_Fs
  imports GoPath
begin

text \<open>
  The file system the agent works on: inodes, directories with their entries, symbolic links and the system calls of
  \<^verbatim>\<open>os\<close> and \<^verbatim>\<open>golang.org/x/sys/unix\<close> that \<^verbatim>\<open>sdk/sys/fs\<close> uses. A path is resolved component by component, following at most 40
  links; a file descriptor is the inode it was opened on. The agent is root, so there are no permission checks; every call may
  fail with an I/O error (the \<open>fault\<close> of the environment), and then changes nothing, but for a write, which may leave a part.
\<close>

type_synonym ino = nat

datatype node = Regular string | Directory ino "(string \<times> ino) list" | Symlink string | Special

record inode =
  i_node :: node
  i_mode :: int
  i_uid :: int
  i_gid :: int

text \<open>\<open>fs_noreplace\<close> tells whether \<^verbatim>\<open>renameat2\<close> supports \<^verbatim>\<open>RENAME_NOREPLACE\<close> there. The root directory is inode 0.\<close>

record filesystem =
  fs_inode :: "ino \<Rightarrow> inode option"
  fs_next :: ino
  fs_cwd :: ino
  fs_noreplace :: bool

definition ErrNotExist :: go_error where "ErrNotExist = ESentinel ''file does not exist''"
definition ErrExist :: go_error where "ErrExist = ESentinel ''file exists''"
definition ELOOP :: go_error where "ELOOP = EText ''too many levels of symbolic links''"
definition ENOTDIR :: go_error where "ENOTDIR = EText ''not a directory''"
definition EISDIR :: go_error where "EISDIR = EText ''is a directory''"
definition ENOTEMPTY :: go_error where "ENOTEMPTY = EText ''directory not empty''"
definition ENOSYS :: go_error where "ENOSYS = EText ''function not implemented''"

lemmas errno_defs = ErrNotExist_def ErrExist_def ELOOP_def ENOTDIR_def EISDIR_def ENOTEMPTY_def ENOSYS_def

definition node_at :: "filesystem \<Rightarrow> ino \<Rightarrow> node option" where
  "node_at F i = map_option i_node (fs_inode F i)"

definition entries_of :: "filesystem \<Rightarrow> ino \<Rightarrow> (string \<times> ino) list" where
  "entries_of F d = (case node_at F d of Some (Directory _ es) \<Rightarrow> es | _ \<Rightarrow> [])"

definition is_dir :: "filesystem \<Rightarrow> ino \<Rightarrow> bool" where
  "is_dir F d \<longleftrightarrow> (case node_at F d of Some (Directory _ _) \<Rightarrow> True | _ \<Rightarrow> False)"

definition entry :: "filesystem \<Rightarrow> ino \<Rightarrow> string \<Rightarrow> ino option" where
  "entry F d name = map_of (entries_of F d) name"

section \<open>Path resolution\<close>

text \<open>Where the target of a link that was found in \<open>d\<close> starts.\<close>

definition link_start :: "ino \<Rightarrow> string \<Rightarrow> ino" where
  "link_start d target = (if IsAbs target then 0 else d)"

function walk :: "filesystem \<Rightarrow> nat \<Rightarrow> ino \<Rightarrow> string list \<Rightarrow> bool \<Rightarrow> go_error + ino" where
  "walk F links d [] follow = Inr d"
| "walk F links d (c # cs) follow = (case node_at F d of
     Some (Directory parent es) \<Rightarrow>
       if c = '''' \<or> c = ''.'' then walk F links d cs follow
       else if c = ''..'' then walk F links parent cs follow
       else (case map_of es c of
         None \<Rightarrow> Inl ErrNotExist
       | Some i \<Rightarrow> (case node_at F i of
           Some (Symlink target) \<Rightarrow>
             if cs = [] \<and> \<not> follow then Inr i
             else if links = 0 then Inl ELOOP
             else walk F (links - 1) (link_start d target) (Split target slash @ cs) follow
         | _ \<Rightarrow> walk F links i cs follow))
   | Some _ \<Rightarrow> Inl ENOTDIR
   | None \<Rightarrow> Inl ErrNotExist)"
  by pat_completeness auto
termination
  by (relation "measures [\<lambda>(F, links, d, cs, follow). links, \<lambda>(F, links, d, cs, follow). length cs]") auto

definition start_dir :: "filesystem \<Rightarrow> string \<Rightarrow> ino" where
  "start_dir F p = (if IsAbs p then 0 else fs_cwd F)"

definition resolve :: "filesystem \<Rightarrow> string \<Rightarrow> bool \<Rightarrow> go_error + ino" where
  "resolve F p follow = (
     if p = '''' then Inl ErrNotExist
     else (case walk F 40 (start_dir F p) (Split p slash) follow of
       Inl e \<Rightarrow> Inl e
     | Inr i \<Rightarrow> if fs_inode F i = None then Inl ErrNotExist else Inr i))"

text \<open>The directory and the last component, for calls that create, rename or remove an entry.\<close>

definition resolve_parent :: "filesystem \<Rightarrow> string \<Rightarrow> go_error + ino \<times> string" where
  "resolve_parent F p = (let cs = Split p slash; name = last cs in
     if p = '''' then Inl ErrNotExist
     else if name = '''' \<or> name = ''.'' \<or> name = ''..'' then Inl EISDIR
     else (case walk F 40 (start_dir F p) (butlast cs) True of
       Inl e \<Rightarrow> Inl e
     | Inr d \<Rightarrow> if is_dir F d then Inr (d, name) else Inl ENOTDIR))"

section \<open>Changes\<close>

definition set_inode :: "ino \<Rightarrow> inode \<Rightarrow> filesystem \<Rightarrow> filesystem" where
  "set_inode i x F = F\<lparr>fs_inode := (fs_inode F)(i \<mapsto> x)\<rparr>"

definition upd_inode :: "ino \<Rightarrow> (inode \<Rightarrow> inode) \<Rightarrow> filesystem \<Rightarrow> filesystem" where
  "upd_inode i f F = (case fs_inode F i of None \<Rightarrow> F | Some x \<Rightarrow> set_inode i (f x) F)"

definition map_entries :: "((string \<times> ino) list \<Rightarrow> (string \<times> ino) list) \<Rightarrow> inode \<Rightarrow> inode" where
  "map_entries f x = (case i_node x of Directory p es \<Rightarrow> x\<lparr>i_node := Directory p (f es)\<rparr> | _ \<Rightarrow> x)"

definition link_entry :: "ino \<Rightarrow> string \<Rightarrow> ino \<Rightarrow> filesystem \<Rightarrow> filesystem" where
  "link_entry d name i F = upd_inode d (map_entries (\<lambda>es. (name, i) # filter (\<lambda>e. fst e \<noteq> name) es)) F"

definition unlink_entry :: "ino \<Rightarrow> string \<Rightarrow> filesystem \<Rightarrow> filesystem" where
  "unlink_entry d name F = upd_inode d (map_entries (filter (\<lambda>e. fst e \<noteq> name))) F"

definition new_inode :: "inode \<Rightarrow> filesystem \<Rightarrow> ino \<times> filesystem" where
  "new_inode x F = (fs_next F, (set_inode (fs_next F) x F)\<lparr>fs_next := Suc (fs_next F)\<rparr>)"

section \<open>System calls\<close>

type_synonym 'a fs_prog = "(filesystem, 'a) prog"

text \<open>A call succeeds with a value and a new state or fails and changes nothing.\<close>

abbreviation syscall :: "(filesystem \<Rightarrow> go_error + 'a \<times> filesystem) \<Rightarrow> 'a fs_prog" where
  "syscall \<equiv> sql"

definition peek :: "(filesystem \<Rightarrow> go_error + 'a) \<Rightarrow> 'a fs_prog" where
  "peek f = syscall (\<lambda>F. case f F of Inl e \<Rightarrow> Inl e | Inr x \<Rightarrow> Inr (x, F))"

definition inode_of :: "filesystem \<Rightarrow> ino \<Rightarrow> inode" where
  "inode_of F i = (case fs_inode F i of Some x \<Rightarrow> x | None \<Rightarrow> \<lparr>i_node = Special, i_mode = 0, i_uid = 0, i_gid = 0\<rparr>)"

definition on_inr :: "('a \<Rightarrow> 'b) \<Rightarrow> go_error + 'a \<Rightarrow> go_error + 'b" where
  "on_inr f r = (case r of Inl e \<Rightarrow> Inl e | Inr x \<Rightarrow> Inr (f x))"

text \<open>\<^verbatim>\<open>os.Stat\<close> and \<^verbatim>\<open>os.Lstat\<close>.\<close>

definition sys_stat :: "string \<Rightarrow> inode fs_prog" where
  "sys_stat p = peek (\<lambda>F. on_inr (inode_of F) (resolve F p True))"

definition sys_lstat :: "string \<Rightarrow> inode fs_prog" where
  "sys_lstat p = peek (\<lambda>F. on_inr (inode_of F) (resolve F p False))"

text \<open>\<^verbatim>\<open>open\<close> of something that exists: \<open>nofollow\<close> and \<open>directory\<close> are the flags.\<close>

definition open_inode :: "filesystem \<Rightarrow> string \<Rightarrow> bool \<Rightarrow> bool \<Rightarrow> go_error + ino" where
  "open_inode F p nofollow directory = (case resolve F p (\<not> nofollow) of
     Inl e \<Rightarrow> Inl e
   | Inr i \<Rightarrow> (case node_at F i of
       Some (Symlink _) \<Rightarrow> Inl (if directory then ENOTDIR else ELOOP)
     | Some (Directory _ _) \<Rightarrow> Inr i
     | _ \<Rightarrow> if directory then Inl ENOTDIR else Inr i))"

definition sys_open :: "string \<Rightarrow> bool \<Rightarrow> bool \<Rightarrow> ino fs_prog" where
  "sys_open p nofollow directory = peek (\<lambda>F. open_inode F p nofollow directory)"

definition sys_fstat :: "ino \<Rightarrow> inode fs_prog" where
  "sys_fstat fd = peek (\<lambda>F. Inr (inode_of F fd))"

text \<open>\<^verbatim>\<open>open\<close> with \<^verbatim>\<open>O_RDWR|O_CREATE|O_EXCL\<close>, mode 0600, as \<^verbatim>\<open>os.CreateTemp\<close> does.\<close>

definition sys_create_excl :: "string \<Rightarrow> ino fs_prog" where
  "sys_create_excl p = syscall (\<lambda>F. case resolve_parent F p of
     Inl e \<Rightarrow> Inl e
   | Inr (d, name) \<Rightarrow>
       if entry F d name \<noteq> None then Inl ErrExist
       else (case new_inode \<lparr>i_node = Regular '''', i_mode = 384, i_uid = 0, i_gid = 0\<rparr> F of
         (i, F) \<Rightarrow> Inr (i, link_entry d name i F)))"

text \<open>Writing from the start of the file, without truncation.\<close>

definition overwrite :: "string \<Rightarrow> inode \<Rightarrow> inode" where
  "overwrite data x = (case i_node x of Regular old \<Rightarrow> x\<lparr>i_node := Regular (data @ drop (length data) old)\<rparr> | _ \<Rightarrow> x)"

text \<open>\<^verbatim>\<open>File.Write\<close>: a write that fails may have written a part of the data; how much is left to the clock of the environment.\<close>

definition sys_write :: "ino \<Rightarrow> string \<Rightarrow> unit fs_prog" where
  "sys_write fd data = (\<lambda>E n F.
     if is_dir F fd then (Inl EISDIR, Suc n, F)
     else if fault E n then (Inl EDriver, Suc n, upd_inode fd (overwrite (take (nat (clock E n)) data)) F)
     else (Inr (), Suc n, upd_inode fd (overwrite data) F))"

definition sys_read_all :: "ino \<Rightarrow> string fs_prog" where
  "sys_read_all fd = peek (\<lambda>F. case node_at F fd of Some (Regular data) \<Rightarrow> Inr data | Some (Directory _ _) \<Rightarrow> Inl EISDIR | _ \<Rightarrow> Inr '''')"

definition sys_fchmod :: "ino \<Rightarrow> int \<Rightarrow> unit fs_prog" where
  "sys_fchmod fd mode = syscall (\<lambda>F. Inr ((), upd_inode fd (\<lambda>x. x\<lparr>i_mode := mode\<rparr>) F))"

text \<open>\<^verbatim>\<open>fchown\<close>: -1 leaves an id unchanged.\<close>

definition sys_fchown :: "ino \<Rightarrow> int \<Rightarrow> int \<Rightarrow> unit fs_prog" where
  "sys_fchown fd uid gid = syscall (\<lambda>F. Inr ((), upd_inode fd (\<lambda>x. x\<lparr>i_uid := (if uid = -1 then i_uid x else uid),
     i_gid := (if gid = -1 then i_gid x else gid)\<rparr>) F))"

text \<open>\<^verbatim>\<open>fsync\<close> and \<^verbatim>\<open>close\<close> change nothing that can be seen, but may fail.\<close>

definition sys_sync :: "ino \<Rightarrow> unit fs_prog" where
  "sys_sync fd = peek (\<lambda>F. Inr ())"

definition sys_close :: "ino \<Rightarrow> unit fs_prog" where
  "sys_close fd = peek (\<lambda>F. Inr ())"

definition set_parent :: "ino \<Rightarrow> inode \<Rightarrow> inode" where
  "set_parent d x = (case i_node x of Directory _ es \<Rightarrow> x\<lparr>i_node := Directory d es\<rparr> | _ \<Rightarrow> x)"

definition move_entry :: "ino \<times> string \<Rightarrow> ino \<times> string \<Rightarrow> ino \<Rightarrow> filesystem \<Rightarrow> filesystem" where
  "move_entry a b i F = upd_inode i (set_parent (fst b)) (link_entry (fst b) (snd b) i (unlink_entry (fst a) (snd a) F))"

text \<open>\<^verbatim>\<open>os.Rename\<close>: a directory at the new name is refused, anything else is replaced; two names of one inode are left alone.\<close>

definition rename_to :: "filesystem \<Rightarrow> string \<Rightarrow> string \<Rightarrow> go_error + unit \<times> filesystem" where
  "rename_to F old new = (case resolve_parent F old of
     Inl e \<Rightarrow> Inl e
   | Inr a \<Rightarrow> (case entry F (fst a) (snd a) of
       None \<Rightarrow> Inl ErrNotExist
     | Some i \<Rightarrow> (case resolve_parent F new of
         Inl e \<Rightarrow> Inl e
       | Inr b \<Rightarrow> (case entry F (fst b) (snd b) of
           None \<Rightarrow> Inr ((), move_entry a b i F)
         | Some j \<Rightarrow> if is_dir F j then Inl ErrExist else if j = i then Inr ((), F) else Inr ((), move_entry a b i F)))))"

definition sys_rename :: "string \<Rightarrow> string \<Rightarrow> unit fs_prog" where
  "sys_rename old new = syscall (\<lambda>F. rename_to F old new)"

text \<open>\<^verbatim>\<open>renameat2\<close> with \<^verbatim>\<open>RENAME_NOREPLACE\<close>.\<close>

definition sys_rename_noreplace :: "string \<Rightarrow> string \<Rightarrow> unit fs_prog" where
  "sys_rename_noreplace old new = syscall (\<lambda>F. if \<not> fs_noreplace F then Inl ENOSYS
     else (case resolve_parent F new of
       Inl e \<Rightarrow> Inl e
     | Inr b \<Rightarrow> if entry F (fst b) (snd b) \<noteq> None then Inl ErrExist else rename_to F old new))"

text \<open>\<^verbatim>\<open>os.Remove\<close>: a file, a link or an empty directory.\<close>

definition remove_entry :: "filesystem \<Rightarrow> ino \<times> string \<Rightarrow> go_error + unit \<times> filesystem" where
  "remove_entry F a = (case entry F (fst a) (snd a) of
     None \<Rightarrow> Inl ErrNotExist
   | Some i \<Rightarrow> if is_dir F i \<and> entries_of F i \<noteq> [] then Inl ENOTEMPTY else Inr ((), unlink_entry (fst a) (snd a) F))"

definition sys_remove :: "string \<Rightarrow> unit fs_prog" where
  "sys_remove p = syscall (\<lambda>F. case resolve_parent F p of Inl e \<Rightarrow> Inl e | Inr a \<Rightarrow> remove_entry F a)"

text \<open>The calls that are anchored at an open directory.\<close>

definition sys_fstatat :: "ino \<Rightarrow> string \<Rightarrow> inode fs_prog" where
  "sys_fstatat d name = peek (\<lambda>F. case entry F d name of None \<Rightarrow> Inl ErrNotExist | Some i \<Rightarrow> Inr (inode_of F i))"

definition sys_openat_dir :: "ino \<Rightarrow> string \<Rightarrow> ino fs_prog" where
  "sys_openat_dir d name = peek (\<lambda>F. case entry F d name of
     None \<Rightarrow> Inl ErrNotExist
   | Some i \<Rightarrow> if is_dir F i then Inr i else Inl ENOTDIR)"

definition sys_unlinkat :: "ino \<Rightarrow> string \<Rightarrow> bool \<Rightarrow> unit fs_prog" where
  "sys_unlinkat d name dir = syscall (\<lambda>F. case entry F d name of
     None \<Rightarrow> Inl ErrNotExist
   | Some i \<Rightarrow>
       if dir \<and> \<not> is_dir F i then Inl ENOTDIR
       else if \<not> dir \<and> is_dir F i then Inl EISDIR
       else if dir \<and> entries_of F i \<noteq> [] then Inl ENOTEMPTY
       else Inr ((), unlink_entry d name F))"

definition sys_readdirnames :: "ino \<Rightarrow> string list fs_prog" where
  "sys_readdirnames d = peek (\<lambda>F. if is_dir F d then Inr (map fst (entries_of F d)) else Inl ENOTDIR)"

text \<open>\<^verbatim>\<open>os.Chmod\<close> and \<^verbatim>\<open>os.MkdirAll\<close>, which creates the missing directories one after the other.\<close>

definition sys_chmod :: "string \<Rightarrow> int \<Rightarrow> unit fs_prog" where
  "sys_chmod p mode = syscall (\<lambda>F. case resolve F p True of Inl e \<Rightarrow> Inl e | Inr i \<Rightarrow> Inr ((), upd_inode i (\<lambda>x. x\<lparr>i_mode := mode\<rparr>) F))"

definition sys_mkdir :: "string \<Rightarrow> int \<Rightarrow> unit fs_prog" where
  "sys_mkdir p mode = syscall (\<lambda>F. case resolve_parent F (TrimRight (\<lambda>c. c = slash) p) of
     Inl e \<Rightarrow> Inl e
   | Inr (d, name) \<Rightarrow>
       if entry F d name \<noteq> None then Inl ErrExist
       else (case new_inode \<lparr>i_node = Directory d [], i_mode = mode, i_uid = 0, i_gid = 0\<rparr> F of
         (i, F) \<Rightarrow> Inr ((), link_entry d name i F)))"

text \<open>The part of a path before its last component, with the slash.\<close>

definition before_last :: "string \<Rightarrow> string" where
  "before_last p = rev (dropWhile (\<lambda>c. c \<noteq> slash) (dropWhile (\<lambda>c. c = slash) (rev p)))"

lemma drop_both_shorter:
  assumes "dropWhile (\<lambda>c. c \<noteq> slash) (dropWhile (\<lambda>c. c = slash) xs) \<noteq> []"
  shows "length (dropWhile (\<lambda>c. c \<noteq> slash) (dropWhile (\<lambda>c. c = slash) xs)) < length xs"
proof (cases "dropWhile (\<lambda>c. c = slash) xs")
  case Nil
  then show ?thesis using assms unfolding Nil by simp
next
  case (Cons x ys)
  then have x: "x \<noteq> slash" using hd_dropWhile [of "\<lambda>c. c = slash" xs] by simp
  have "length (x # ys) \<le> length xs" using length_dropWhile_le [of "\<lambda>c. c = slash" xs] Cons by simp
  moreover have "length (dropWhile (\<lambda>c. c \<noteq> slash) ys) \<le> length ys" by (rule length_dropWhile_le)
  ultimately show ?thesis using x Cons by simp
qed

lemma before_last_shorter: "before_last p \<noteq> '''' \<Longrightarrow> length (before_last p) < length p"
  using drop_both_shorter [of "rev p"] unfolding before_last_def by simp

function MkdirAll :: "string \<Rightarrow> int \<Rightarrow> unit fs_prog" where
  "MkdirAll p perm = bnd (handle (bnd (sys_stat p) (\<lambda>st. ret (Some st))) (\<lambda>_. ret None)) (\<lambda>found. case found of
     Some st \<Rightarrow> (case i_node st of Directory _ _ \<Rightarrow> ret () | _ \<Rightarrow> throw ENOTDIR)
   | None \<Rightarrow> let parent = before_last p in
       bnd (if parent = '''' then ret () else MkdirAll parent perm) (\<lambda>_.
       handle (sys_mkdir p perm) (\<lambda>e.
         bnd (handle (bnd (sys_lstat p) (\<lambda>st. ret (Some st))) (\<lambda>_. ret None)) (\<lambda>there. case there of
           Some st \<Rightarrow> (case i_node st of Directory _ _ \<Rightarrow> ret () | _ \<Rightarrow> throw e)
         | None \<Rightarrow> throw e))))"
  by pat_completeness auto
termination
  by (relation "measure (\<lambda>(p, perm). length p)") (auto simp: before_last_shorter)

declare MkdirAll.simps [simp del]

text \<open>\<^verbatim>\<open>os.ReadFile\<close>.\<close>

definition os_ReadFile :: "string \<Rightarrow> string fs_prog" where
  "os_ReadFile p = bnd (sys_open p False False) (\<lambda>f.
     bnd (handle (sys_read_all f) (\<lambda>e. bnd (handle (sys_close f) (\<lambda>_. ret ())) (\<lambda>_. throw e))) (\<lambda>b.
     bnd (handle (sys_close f) (\<lambda>_. ret ())) (\<lambda>_. ret b)))"

lemmas syscall_defs = sys_stat_def sys_lstat_def sys_open_def sys_fstat_def sys_create_excl_def sys_write_def sys_read_all_def
  sys_fchmod_def sys_fchown_def sys_sync_def sys_close_def sys_rename_def sys_rename_noreplace_def sys_remove_def sys_fstatat_def
  sys_openat_dir_def sys_unlinkat_def sys_readdirnames_def sys_chmod_def sys_mkdir_def

end
