(* ===== verification/Sys_Fs.thy ===== *)
theory Sys_Fs
  imports Unix_Fs Sys_Exec "HOL-Library.Word"
begin

unbundle bit_operations_syntax

text \<open>
  \<^verbatim>\<open>sdk/sys/fs\<close>: the privileged file operations of the agent. With the Direct backend, the deployed root agent, writes and
  recursive removals are sequences of system calls on \<open>filesystem\<close>; with Sudo or Doas they are commands of the Runner. The state of
  a \<open>Manager\<close> operation joins the files and the processes spawned. The user and group databases are an argument.
\<close>

section \<open>Errors, options\<close>

definition ErrInvalidPath :: go_error where "ErrInvalidPath = ESentinel ''invalid filesystem path''"
definition ErrUnsafeParentDir :: go_error where "ErrUnsafeParentDir = ESentinel ''parent directory is writable by non-root''"
definition ErrUnsafeMode :: go_error where "ErrUnsafeMode = ESentinel ''setuid/setgid mode is not permitted''"
definition ErrProtectedTarget :: go_error where
  "ErrProtectedTarget = ESentinel ''recursive ownership change of a protected system tree is not permitted''"
definition ErrExists :: go_error where "ErrExists = ESentinel ''destination exists''"

text \<open>\<^verbatim>\<open>os.FileMode\<close>, with the bits of the package \<^verbatim>\<open>os\<close>.\<close>

type_synonym file_mode = "32 word"

definition ModeSetuid :: file_mode where "ModeSetuid = push_bit 23 1"
definition ModeSetgid :: file_mode where "ModeSetgid = push_bit 22 1"
definition ModeSticky :: file_mode where "ModeSticky = push_bit 20 1"

definition Perm :: "file_mode \<Rightarrow> file_mode" where
  "Perm m = m AND 0x1FF"

record write_options =
  wo_mode :: file_mode
  wo_owner :: string
  wo_group :: string
  wo_backup :: string

record mkdir_options =
  mo_mode :: file_mode
  mo_owner :: string
  mo_group :: string
  mo_recursive :: bool

section \<open>Validation\<close>

text \<open>The bits of \<^verbatim>\<open>chmod\<close> for a mode.\<close>

definition mode_bits :: "file_mode \<Rightarrow> file_mode" where
  "mode_bits m = Perm m OR (if m AND ModeSetuid \<noteq> 0 then 0x800 else 0) OR (if m AND ModeSetgid \<noteq> 0 then 0x400 else 0) OR
     (if m AND ModeSticky \<noteq> 0 then 0x200 else 0)"

fun octal_digits :: "nat \<Rightarrow> nat \<Rightarrow> string" where
  "octal_digits 0 k = ''''"
| "octal_digits (Suc n) k = octal_digits n (k div 8) @ [char_of (48 + k mod 8)]"

text \<open>\<^verbatim>\<open>%04o\<close>: the value has at most four octal digits.\<close>

definition modeArg :: "file_mode \<Rightarrow> string" where
  "modeArg m = octal_digits 4 (unat (mode_bits m))"

definition validateMode :: "file_mode \<Rightarrow> go_error option" where
  "validateMode m = (if m AND (ModeSetuid OR ModeSetgid) \<noteq> 0
     then Some (EDetail ErrUnsafeMode (''mode '' @ modeArg m @ '' requests setuid/setgid'')) else None)"

definition ValidatePath :: "string \<Rightarrow> go_error option" where
  "ValidatePath p = (
     if p = '''' then Some (EDetail ErrInvalidPath ''path is empty'')
     else if CHR 0x00 \<in> set p then Some (EDetail ErrInvalidPath ''path contains NUL byte'')
     else if HasPrefix p ''-'' then Some (EDetail ErrInvalidPath (''path '' @ Quote p @ '' begins with a dash (would be interpreted as an option flag)''))
     else None)"

definition Ownership :: "string \<Rightarrow> string \<Rightarrow> string" where
  "Ownership owner grp = (
     if owner = '''' \<and> grp = '''' then ''''
     else if grp = '''' then owner
     else if owner = '''' then '':'' @ grp
     else owner @ '':'' @ grp)"

section \<open>Protected paths\<close>

definition dangerousPaths :: "string list" where
  "dangerousPaths = [''/'', ''/boot'', ''/dev'', ''/etc'', ''/proc'', ''/run'', ''/sys'', ''/usr'', ''/var'', ''/bin'', ''/sbin'', ''/lib'',
     ''/lib64'', ''/home'', ''/root'', ''/lib32'', ''/libx32'', ''/media'', ''/mnt'', ''/opt'', ''/srv'', ''/tmp'', ''/snap'']"

definition protectedPrefixRoots :: "string list" where
  "protectedPrefixRoots = [''/etc'', ''/boot'', ''/usr'', ''/home'', ''/root'', ''/var/lib'', ''/bin'', ''/sbin'', ''/lib'', ''/lib64'',
     ''/lib32'', ''/libx32'', ''/proc'', ''/sys'', ''/dev'', ''/run'']"

definition protectedExactPaths :: "string list" where
  "protectedExactPaths = [''/'', ''/var'']"

definition IsProtectedPath :: "string option \<Rightarrow> string \<Rightarrow> bool" where
  "IsProtectedPath cwd p = (case path_Abs cwd (Clean p) of None \<Rightarrow> True | Some clean \<Rightarrow> clean \<in> set dangerousPaths)"

definition IsUnderProtectedPrefix :: "string option \<Rightarrow> string \<Rightarrow> bool" where
  "IsUnderProtectedPrefix cwd p = (case path_Abs cwd (Clean p) of
     None \<Rightarrow> True
   | Some clean \<Rightarrow> clean \<in> set protectedExactPaths \<or> list_ex (\<lambda>root. clean = root \<or> HasPrefix clean (root @ ''/'')) protectedPrefixRoots)"

section \<open>Replacing a file\<close>

text \<open>\<^verbatim>\<open>os.CreateTemp\<close> with a pattern that ends in a star: it draws names until one is free, at most 10000 times.\<close>

definition join_name :: "string \<Rightarrow> string \<Rightarrow> string" where
  "join_name dir name = (if HasSuffix dir ''/'' then dir @ name else dir @ ''/'' @ name)"

function temp_loop :: "int \<Rightarrow> string \<Rightarrow> string \<Rightarrow> string fs_prog" where
  "temp_loop try dir prefix = bnd ulid_make (\<lambda>random. let name = join_name dir (prefix @ random) in
     handle (bnd (sys_create_excl name) (\<lambda>_. ret name))
       (\<lambda>e. if errors_is e ErrExist \<and> try + 1 < 10000 then temp_loop (try + 1) dir prefix else throw e))"
  by pat_completeness auto
termination
  by (relation "measure (\<lambda>(try, dir, prefix). nat (10000 - try))") auto

declare temp_loop.simps [simp del]

definition CreateTemp :: "string \<Rightarrow> string \<Rightarrow> string fs_prog" where
  "CreateTemp dir prefix = (if slash \<in> set prefix then throw (EText ''pattern contains path separator'') else temp_loop 0 dir prefix)"

text \<open>An error that is ignored, and what is done before an error is returned.\<close>

definition ignoring :: "unit fs_prog \<Rightarrow> unit fs_prog" where
  "ignoring m = handle m (\<lambda>_. ret ())"

definition on_error :: "unit fs_prog \<Rightarrow> string \<Rightarrow> 'a fs_prog \<Rightarrow> 'a fs_prog" where
  "on_error clean what m = handle m (\<lambda>e. bnd clean (\<lambda>_. throw (EWrap what e)))"

definition safeRename :: "string \<Rightarrow> string \<Rightarrow> bool \<Rightarrow> unit fs_prog" where
  "safeRename old new removeExisting = (
     if removeExisting then map_err (EWrap ''rename'') (sys_rename old new)
     else handle (sys_rename_noreplace old new) (\<lambda>e.
       if e = ErrExist then throw (EWrap ''rename'' ErrExists)
       else if e = ENOSYS then
         bnd (handle (bnd (sys_lstat new) (\<lambda>_. ret True))
           (\<lambda>e. if errors_is e ErrNotExist then ret False else throw (EWrap ''lstat'' e))) (\<lambda>there.
         if there then throw (EWrap ''rename'' ErrExists)
         else map_err (EWrap ''rename'') (sys_rename old new))
       else throw (EWrap ''renameat2'' e)))"

definition fill_temp :: "string \<Rightarrow> string \<Rightarrow> file_mode \<Rightarrow> unit fs_prog" where
  "fill_temp tmpPath data perm = (let cleanup = ignoring (sys_remove tmpPath) in
     bnd (on_error cleanup ''reopen temp with O_NOFOLLOW'' (sys_open tmpPath True False)) (\<lambda>f.
     let close_cleanup = bnd (ignoring (sys_close f)) (\<lambda>_. cleanup) in
     bnd (on_error close_cleanup ''write temp'' (sys_write f data)) (\<lambda>_.
     bnd (on_error close_cleanup ''chmod temp'' (sys_fchmod f (uint (mode_bits perm)))) (\<lambda>_.
     bnd (on_error close_cleanup ''fsync temp'' (sys_sync f)) (\<lambda>_.
     on_error cleanup ''close temp'' (sys_close f))))))"

definition sync_dir :: "string \<Rightarrow> unit fs_prog" where
  "sync_dir dir = ignoring (bnd (sys_open dir False False) (\<lambda>d. bnd (ignoring (sys_sync d)) (\<lambda>_. ignoring (sys_close d))))"

definition safeReplaceFile :: "string \<Rightarrow> string \<Rightarrow> file_mode \<Rightarrow> bool \<Rightarrow> unit fs_prog" where
  "safeReplaceFile path data perm removeExisting = (let dir = path_Dir path; base = path_Base path in
     bnd (map_err (EWrap ''create temp'') (CreateTemp dir (''.'' @ base @ ''.tmp-''))) (\<lambda>tmpPath.
     bnd (fill_temp tmpPath data perm) (\<lambda>_.
     bnd (handle (safeRename tmpPath path removeExisting) (\<lambda>e. bnd (ignoring (sys_remove tmpPath)) (\<lambda>_. throw e))) (\<lambda>_.
     sync_dir dir))))"

definition is_regular :: "inode \<Rightarrow> bool" where
  "is_regular x \<longleftrightarrow> (case i_node x of Regular _ \<Rightarrow> True | _ \<Rightarrow> False)"

definition safeBackupAndReplace :: "string \<Rightarrow> string \<Rightarrow> string \<Rightarrow> file_mode \<Rightarrow> bool \<Rightarrow> unit fs_prog" where
  "safeBackupAndReplace path backupPath newContent perm removeExistingBackup =
     bnd (handle (bnd (sys_open path True False) (\<lambda>f. ret (Some f)))
       (\<lambda>e. if errors_is e ErrNotExist then ret None else throw (EWrap ''open current for backup'' e))) (\<lambda>opened.
     case opened of
       None \<Rightarrow> safeReplaceFile path newContent perm True
     | Some f \<Rightarrow> let close = ignoring (sys_close f) in
         bnd (on_error close ''stat current'' (sys_fstat f)) (\<lambda>info.
         bnd (if is_regular info then ret () else bnd close (\<lambda>_. throw (EText ''refusing to back up non-regular file''))) (\<lambda>_.
         bnd (on_error close ''read current for backup'' (sys_read_all f)) (\<lambda>current.
         bnd (map_err (EWrap ''close current'') (sys_close f)) (\<lambda>_.
         bnd (map_err (EWrap ''backup current'') (safeReplaceFile backupPath current perm removeExistingBackup)) (\<lambda>_.
         safeReplaceFile path newContent perm True))))))"

section \<open>Ownership and mode through a descriptor\<close>

record accounts =
  ac_users :: "string \<Rightarrow> string option"
  ac_groups :: "string \<Rightarrow> string option"

definition resolveID :: "string \<Rightarrow> (string \<Rightarrow> string option) \<Rightarrow> go_error + int" where
  "resolveID name lookup = (case lookup name of
     Some idStr \<Rightarrow> (case ParseInt idStr of (v, ok) \<Rightarrow> if ok then Inr v else Inl (EText ''parse id''))
   | None \<Rightarrow> (case ParseInt name of (v, ok) \<Rightarrow> if ok then Inr v else Inl (EText ''unknown name and not a numeric id'')))"

definition ResolveOwnership :: "accounts \<Rightarrow> string \<Rightarrow> string \<Rightarrow> go_error + int \<times> int" where
  "ResolveOwnership A owner grp = (case (if owner = '''' then Inr (-1) else resolveID owner (ac_users A)) of
     Inl e \<Rightarrow> Inl (EWrap ''resolve owner'' e)
   | Inr uid \<Rightarrow> (case (if grp = '''' then Inr (-1) else resolveID grp (ac_groups A)) of
       Inl e \<Rightarrow> Inl (EWrap ''resolve group'' e)
     | Inr gid \<Rightarrow> Inr (uid, gid)))"

definition FchownNoFollow :: "string \<Rightarrow> int \<Rightarrow> int \<Rightarrow> unit fs_prog" where
  "FchownNoFollow path uid gid =
     bnd (map_err (EWrap ''open without following symlinks'') (sys_open path True False)) (\<lambda>f.
     bnd (on_error (ignoring (sys_close f)) ''stat'' (sys_fstat f)) (\<lambda>info.
     bnd (if is_regular info then on_error (ignoring (sys_close f)) ''fchown'' (sys_fchown f uid gid)
       else bnd (ignoring (sys_close f)) (\<lambda>_. throw (EText ''refusing to chown non-regular file''))) (\<lambda>_.
     ignoring (sys_close f))))"

definition OpenRealDir :: "string \<Rightarrow> ino fs_prog" where
  "OpenRealDir path = map_err (EWrap ''open real dir'') (sys_open path True True)"

definition SetDirPermissionsNoFollow :: "string \<Rightarrow> file_mode \<Rightarrow> int \<Rightarrow> int \<Rightarrow> unit fs_prog" where
  "SetDirPermissionsNoFollow path mode uid gid = bnd (OpenRealDir path) (\<lambda>f.
     bnd (on_error (ignoring (sys_close f)) ''fchmod dir'' (sys_fchmod f (uint (mode_bits mode)))) (\<lambda>_.
     bnd (if uid \<noteq> -1 \<or> gid \<noteq> -1 then on_error (ignoring (sys_close f)) ''fchown dir'' (sys_fchown f uid gid) else ret ()) (\<lambda>_.
     ignoring (sys_close f))))"

definition set_owner :: "accounts \<Rightarrow> string \<Rightarrow> write_options \<Rightarrow> unit fs_prog" where
  "set_owner A path opts = (
     if wo_owner opts \<noteq> '''' \<or> wo_group opts \<noteq> '''' then
       bnd (lift_sum (ResolveOwnership A (wo_owner opts) (wo_group opts))) (\<lambda>(uid, gid).
         map_err (EWrap ''set ownership'') (FchownNoFollow path uid gid))
     else ret ())"

definition perm_of :: "write_options \<Rightarrow> file_mode" where
  "perm_of opts = (if wo_mode opts = 0 then 0x1A4 else wo_mode opts)"

definition writeDirect :: "accounts \<Rightarrow> string \<Rightarrow> string \<Rightarrow> write_options \<Rightarrow> unit fs_prog" where
  "writeDirect A path data opts =
     bnd (map_err (EWrap ''write file'') (
       if wo_backup opts \<noteq> '''' then safeBackupAndReplace path (wo_backup opts) data (perm_of opts) True
       else safeReplaceFile path data (perm_of opts) True)) (\<lambda>_.
     set_owner A path opts)"

definition writeExclusiveDirect :: "accounts \<Rightarrow> string \<Rightarrow> string \<Rightarrow> write_options \<Rightarrow> unit fs_prog" where
  "writeExclusiveDirect A path data opts =
     bnd (map_err (\<lambda>e. EWrap ''write file'' (if errors_is e ErrExists then ErrExists else e)) (safeReplaceFile path data (perm_of opts) False)) (\<lambda>_.
     set_owner A path opts)"

section \<open>Removing a directory\<close>

fun open_chain :: "ino \<Rightarrow> string list \<Rightarrow> ino fs_prog" where
  "open_chain fd [] = ret fd"
| "open_chain fd (c # comps) = (
     if c = '''' \<or> c = ''.'' then open_chain fd comps
     else bnd (handle (bnd (sys_openat_dir fd c) (\<lambda>next. bnd (ignoring (sys_close fd)) (\<lambda>_. ret next)))
         (\<lambda>e. bnd (ignoring (sys_close fd)) (\<lambda>_. throw (EWrap ''open component without following symlinks'' e)))) (\<lambda>next.
       open_chain next comps))"

definition openNoFollowChain :: "string \<Rightarrow> ino fs_prog" where
  "openNoFollowChain dir = (let clean = Clean dir in
     bnd (map_err (EWrap ''open /'') (sys_open ''/'' True True)) (\<lambda>fd.
     if clean = ''/'' then ret fd else open_chain fd (Split (TrimPrefix clean ''/'') slash)))"

text \<open>\<open>fuel\<close> bounds the depth of the recursion, which the code does not bound; running out of it is an error of its own.\<close>

definition out_of_fuel :: go_error where
  "out_of_fuel = EText ''out of fuel''"

text \<open>\<^verbatim>\<open>removeAtRecursive\<close> and its loop over the entries of the opened directory.\<close>

fun removeAtRecursive :: "nat \<Rightarrow> ino \<Rightarrow> string \<Rightarrow> unit fs_prog" where
  "removeAtRecursive 0 dirfd name = throw out_of_fuel"
| "removeAtRecursive (Suc fuel) dirfd name =
     bnd ctx_done (\<lambda>stop. if stop then throw (EText ''context canceled'') else
     bnd (map_err (EWrap ''stat'') (sys_fstatat dirfd name)) (\<lambda>st.
     case i_node st of
       Directory _ _ \<Rightarrow>
         bnd (map_err (EWrap ''open dir'') (sys_openat_dir dirfd name)) (\<lambda>cfd.
         bnd (on_error (ignoring (sys_close cfd)) ''read dir'' (sys_readdirnames cfd)) (\<lambda>children.
         bnd (handle (for_each (\<lambda>child. if child = ''.'' \<or> child = ''..'' then ret () else removeAtRecursive fuel cfd child) children)
           (\<lambda>e. bnd (ignoring (sys_close cfd)) (\<lambda>_. throw e))) (\<lambda>_.
         bnd (map_err (EWrap ''close dir'') (sys_close cfd)) (\<lambda>_.
         map_err (EWrap ''rmdir'') (sys_unlinkat dirfd name True)))))
     | _ \<Rightarrow> map_err (EWrap ''unlink'') (sys_unlinkat dirfd name False)))"

definition removeDirSecure :: "nat \<Rightarrow> string \<Rightarrow> unit fs_prog" where
  "removeDirSecure fuel path = (let base = path_Base path in
     bnd (openNoFollowChain (path_Dir path)) (\<lambda>pfd.
     handle (
       bnd (map_err (EWrap ''stat'') (sys_fstatat pfd base)) (\<lambda>st.
       bnd (case i_node st of
           Symlink _ \<Rightarrow> throw (EText ''refusing to remove symlink'')
         | Directory _ _ \<Rightarrow> removeAtRecursive fuel pfd base
         | _ \<Rightarrow> throw (EText ''refusing to remove non-directory'')) (\<lambda>_.
       ignoring (sys_close pfd))))
     (\<lambda>e. bnd (ignoring (sys_close pfd)) (\<lambda>_. throw e))))"

section \<open>The Manager\<close>

record system =
  sy_files :: filesystem
  sy_world :: world

definition in_files :: "'a fs_prog \<Rightarrow> (system, 'a) prog" where
  "in_files m = (\<lambda>E n s. case m E n (sy_files s) of (r, n', F) \<Rightarrow> (r, n', s\<lparr>sy_files := F\<rparr>))"

definition in_procs :: "(world, 'a) prog \<Rightarrow> (system, 'a) prog" where
  "in_procs m = (\<lambda>E n s. case m E n (sy_world s) of (r, n', w) \<Rightarrow> (r, n', s\<lparr>sy_world := w\<rparr>))"

record fs_manager =
  fm_run :: runner
  fm_backend :: privilege_backend
  fm_accounts :: accounts
  fm_cwd :: "string option"

definition fs_New :: "fs_manager option \<Rightarrow> go_error + fs_manager" where
  "fs_New m = (case m of None \<Rightarrow> Inl (EWrap ''fs'' ErrRunnerRequired) | Some m \<Rightarrow> Inr m)"

definition direct :: "fs_manager \<Rightarrow> bool" where
  "direct m \<longleftrightarrow> fm_backend m = Direct"

definition plain_command :: "bool \<Rightarrow> string option \<Rightarrow> string \<Rightarrow> string list \<Rightarrow> command" where
  "plain_command escalate stdin name args = \<lparr>cmd_name = name, cmd_args = args, cmd_dir = '''', cmd_env = [], cmd_stdin = stdin,
     cmd_child_path = '''', cmd_escalate = escalate\<rparr>"

definition run_command :: "fs_manager \<Rightarrow> command \<Rightarrow> (system, exec_result) prog" where
  "run_command m c = bnd (in_procs (fm_run m c)) (\<lambda>(res, err). case err of Some e \<Rightarrow> throw e | None \<Rightarrow> ret res)"

definition fs_runPriv :: "fs_manager \<Rightarrow> string \<Rightarrow> string list \<Rightarrow> (system, exec_result) prog" where
  "fs_runPriv m name args = run_command m (plain_command True None name args)"

definition fs_runPrivStdin :: "fs_manager \<Rightarrow> string \<Rightarrow> string \<Rightarrow> string list \<Rightarrow> (system, exec_result) prog" where
  "fs_runPrivStdin m stdin name args = run_command m (plain_command True (if stdin = '''' then None else Some stdin) name args)"

definition runQuery :: "fs_manager \<Rightarrow> string \<Rightarrow> string list \<Rightarrow> (system, exec_result) prog" where
  "runQuery m name args = run_command m (plain_command False None name args)"

definition cmdError :: "string \<Rightarrow> exec_result \<Rightarrow> go_error option" where
  "cmdError name res = (if xr_exit res = 0 then None else Some (ECommand name (xr_exit res) (xr_stderr res)))"

definition isENOENTStderr :: "string \<Rightarrow> bool" where
  "isENOENTStderr stderr = HasSuffix (TrimSpace stderr) ''No such file or directory''"

text \<open>\<^verbatim>\<open>if err := ...; err != nil { return err }\<close>\<close>

definition unless_error :: "go_error option \<Rightarrow> (system, unit) prog" where
  "unless_error v = (case v of None \<Rightarrow> ret () | Some e \<Rightarrow> throw e)"

definition runChecked :: "fs_manager \<Rightarrow> string \<Rightarrow> string list \<Rightarrow> (system, unit) prog" where
  "runChecked m name args = bnd (fs_runPriv m name args) (\<lambda>res. unless_error (cmdError name res))"

definition escalatedParentSafe :: "string \<Rightarrow> unit fs_prog" where
  "escalatedParentSafe dir = bnd (map_err (EWrap ''escalated write: stat parent'') (sys_stat dir)) (\<lambda>fi.
     let groupOrOtherWritable = (i_mode fi AND 0x12 \<noteq> 0); sticky = (i_mode fi AND 0x200 \<noteq> 0) in
     if i_uid fi \<noteq> 0 \<or> (groupOrOtherWritable \<and> \<not> sticky) then throw (EDetail ErrUnsafeParentDir dir) else ret ())"

text \<open>The two scripts that \<^verbatim>\<open>sh -c\<close> runs; the shell that interprets them is not modelled.\<close>

definition escalatedWriteScript :: string where
  \<open>escalatedWriteScript = unlines [
     ''set -eu'',
     ''target=$1; mode=$2; owner=$3; backup=$4'',
     ''dir=$(dirname -- "$target")'',
     ''if [ -n "$backup" ] && [ -e "$target" ]; then'',
     [tab] @ ''cp -f -- "$target" "$backup"'',
     ''fi'',
     ''tmp=$(mktemp "$dir/.cadestro-XXXXXXXXXX")'',
     ''trap '' @ [CHR 0x27] @ ''rm -f -- "$tmp"'' @ [CHR 0x27] @ '' EXIT'',
     ''cat > "$tmp"'',
     ''chmod "$mode" -- "$tmp"'',
     ''if [ -n "$owner" ]; then'',
     [tab] @ ''chown "$owner" -- "$tmp"'',
     ''fi'',
     ''mv -T -- "$tmp" "$target"'',
     ''trap - EXIT'']\<close>

definition escalatedWriteExclusiveScript :: string where
  \<open>escalatedWriteExclusiveScript = unlines [
     ''set -eu'',
     ''target=$1; mode=$2; owner=$3'',
     ''dir=$(dirname -- "$target")'',
     ''tmp=$(mktemp "$dir/.cadestro-XXXXXXXXXX")'',
     ''trap '' @ [CHR 0x27] @ ''rm -f -- "$tmp"'' @ [CHR 0x27] @ '' EXIT'',
     ''cat > "$tmp"'',
     ''chmod "$mode" -- "$tmp"'',
     ''if [ -n "$owner" ]; then'',
     [tab] @ ''chown "$owner" -- "$tmp"'',
     ''fi'',
     ''if ln -- "$tmp" "$target" 2>/dev/null; then'',
     [tab] @ ''exit 0'',
     ''fi'',
     ''exit 3'']\<close>

definition exclusiveExistsExit :: int where "exclusiveExistsExit = 3"

definition writeEscalated :: "fs_manager \<Rightarrow> string \<Rightarrow> string \<Rightarrow> write_options \<Rightarrow> (system, unit) prog" where
  "writeEscalated m path data opts = bnd (in_files (escalatedParentSafe (path_Dir path))) (\<lambda>_.
     bnd (map_err (EWrap ''write file'') (fs_runPrivStdin m data ''sh'' [''-c'', escalatedWriteScript, ''sh'', path, modeArg (perm_of opts),
       Ownership (wo_owner opts) (wo_group opts), wo_backup opts])) (\<lambda>res.
     map_err (EWrap ''write file'') (unless_error (cmdError ''write file'' res))))"

definition writeExclusiveEscalated :: "fs_manager \<Rightarrow> string \<Rightarrow> string \<Rightarrow> write_options \<Rightarrow> (system, unit) prog" where
  "writeExclusiveEscalated m path data opts = bnd (in_files (escalatedParentSafe (path_Dir path))) (\<lambda>_.
     bnd (map_err (EWrap ''write file'') (fs_runPrivStdin m data ''sh'' [''-c'', escalatedWriteExclusiveScript, ''sh'', path,
       modeArg (perm_of opts), Ownership (wo_owner opts) (wo_group opts)])) (\<lambda>res.
     if xr_exit res = exclusiveExistsExit then throw (EWrap ''write file'' ErrExists)
     else map_err (EWrap ''write file'') (unless_error (cmdError ''write file'' res))))"

definition ctx_check :: "('s, unit) prog" where
  "ctx_check = bnd ctx_done (\<lambda>stop. if stop then throw (EText ''context canceled'') else ret ())"

definition WriteFile :: "fs_manager \<Rightarrow> string \<Rightarrow> string \<Rightarrow> write_options \<Rightarrow> (system, unit) prog" where
  "WriteFile m path data opts = bnd ctx_check (\<lambda>_.
     bnd (unless_error (ValidatePath path)) (\<lambda>_.
     bnd (unless_error (validateMode (wo_mode opts))) (\<lambda>_.
     bnd (unless_error (
       if wo_backup opts = '''' then None
       else (case ValidatePath (wo_backup opts) of
         Some e \<Rightarrow> Some e
       | None \<Rightarrow> if Clean (wo_backup opts) = Clean path then Some (EDetail ErrInvalidPath ''backup path must differ from the target path'')
                 else None))) (\<lambda>_.
     if direct m then in_files (writeDirect (fm_accounts m) path data opts) else writeEscalated m path data opts))))"

definition WriteFileExclusive :: "fs_manager \<Rightarrow> string \<Rightarrow> string \<Rightarrow> write_options \<Rightarrow> (system, unit) prog" where
  "WriteFileExclusive m path data opts = bnd ctx_check (\<lambda>_.
     bnd (unless_error (ValidatePath path)) (\<lambda>_.
     bnd (unless_error (validateMode (wo_mode opts))) (\<lambda>_.
     bnd (unless_error (if wo_backup opts = '''' then None else Some (EDetail ErrInvalidPath ''a backup path is meaningless''))) (\<lambda>_.
     if direct m then in_files (writeExclusiveDirect (fm_accounts m) path data opts) else writeExclusiveEscalated m path data opts))))"

definition SetMode :: "fs_manager \<Rightarrow> string \<Rightarrow> file_mode \<Rightarrow> (system, unit) prog" where
  "SetMode m path mode = bnd (unless_error (ValidatePath path)) (\<lambda>_.
     bnd (unless_error (validateMode mode)) (\<lambda>_. runChecked m ''chmod'' [modeArg mode, ''--'', path]))"

definition SetOwnership :: "fs_manager \<Rightarrow> string \<Rightarrow> string \<Rightarrow> string \<Rightarrow> (system, unit) prog" where
  "SetOwnership m path owner grp = (let ownership = Ownership owner grp in
     if ownership = '''' then ret ()
     else bnd (unless_error (ValidatePath path)) (\<lambda>_. runChecked m ''chown'' [''--'', ownership, path]))"

definition SetOwnershipRecursive :: "fs_manager \<Rightarrow> string \<Rightarrow> string \<Rightarrow> string \<Rightarrow> (system, unit) prog" where
  "SetOwnershipRecursive m path owner grp = (let ownership = Ownership owner grp in
     if ownership = '''' then ret ()
     else bnd (unless_error (ValidatePath path)) (\<lambda>_.
       if IsProtectedPath (fm_cwd m) path then throw (EDetail ErrProtectedTarget (Clean path))
       else runChecked m ''chown'' [''-R'', ''--'', ownership, path]))"

text \<open>The end of \<^verbatim>\<open>Copy\<close>, \<^verbatim>\<open>CopyTree\<close> and \<^verbatim>\<open>Mkdir\<close>: \<open>chown\<close> is the ownership call that is used.\<close>

definition apply_options :: "fs_manager \<Rightarrow> string \<Rightarrow> file_mode \<Rightarrow> string \<Rightarrow> string \<Rightarrow> (system, unit) prog \<Rightarrow> (system, unit) prog" where
  "apply_options m path mode owner grp chown = bnd (if mode \<noteq> 0 then SetMode m path mode else ret ()) (\<lambda>_.
     if owner \<noteq> '''' \<or> grp \<noteq> '''' then chown else ret ())"

definition Copy :: "fs_manager \<Rightarrow> string \<Rightarrow> string \<Rightarrow> write_options \<Rightarrow> (system, unit) prog" where
  "Copy m src dst opts = bnd (unless_error (ValidatePath src)) (\<lambda>_. bnd (unless_error (ValidatePath dst)) (\<lambda>_.
     bnd (unless_error (validateMode (wo_mode opts))) (\<lambda>_.
     bnd (map_err (EWrap ''copy file'') (runChecked m ''cp'' [''--'', src, dst])) (\<lambda>_.
     apply_options m dst (wo_mode opts) (wo_owner opts) (wo_group opts) (SetOwnership m dst (wo_owner opts) (wo_group opts))))))"

definition CopyTree :: "fs_manager \<Rightarrow> string \<Rightarrow> string \<Rightarrow> write_options \<Rightarrow> (system, unit) prog" where
  "CopyTree m src dst opts = bnd (unless_error (ValidatePath src)) (\<lambda>_. bnd (unless_error (ValidatePath dst)) (\<lambda>_.
     bnd (unless_error (validateMode (wo_mode opts))) (\<lambda>_.
     bnd (map_err (EWrap ''copy tree'') (runChecked m ''cp'' [''-a'', ''-T'', ''--'', src, dst])) (\<lambda>_.
     apply_options m dst (wo_mode opts) (wo_owner opts) (wo_group opts) (SetOwnershipRecursive m dst (wo_owner opts) (wo_group opts))))))"

definition Mkdir :: "fs_manager \<Rightarrow> string \<Rightarrow> mkdir_options \<Rightarrow> (system, unit) prog" where
  "Mkdir m path opts = bnd (unless_error (ValidatePath path)) (\<lambda>_.
     bnd (runChecked m ''mkdir'' ((if mo_recursive opts then [''-p''] else []) @ [''--'', path])) (\<lambda>_.
     apply_options m path (mo_mode opts) (mo_owner opts) (mo_group opts) (SetOwnership m path (mo_owner opts) (mo_group opts))))"

definition fs_Remove :: "fs_manager \<Rightarrow> string \<Rightarrow> (system, unit) prog" where
  "fs_Remove m path = bnd (unless_error (ValidatePath path)) (\<lambda>_. runChecked m ''rm'' [''-f'', ''--'', path])"

definition RemoveDir :: "nat \<Rightarrow> fs_manager \<Rightarrow> string \<Rightarrow> (system, unit) prog" where
  "RemoveDir fuel m path = bnd (unless_error (ValidatePath path)) (\<lambda>_. let clean = Clean path in
     if \<not> IsAbs clean then throw (EText ''path must be absolute'')
     else if IsUnderProtectedPrefix (fm_cwd m) clean then throw (EText ''refusing to remove protected path'')
     else if direct m then in_files (removeDirSecure fuel clean)
     else runChecked m ''rm'' [''-rf'', ''--'', clean])"

text \<open>\<open>None\<close> is a nil slice.\<close>

definition ReadFile :: "fs_manager \<Rightarrow> string \<Rightarrow> (system, string option) prog" where
  "ReadFile m path = bnd (unless_error (ValidatePath path)) (\<lambda>_.
     if direct m then in_files (
       bnd (sys_open path False False) (\<lambda>f.
       bnd (handle (sys_read_all f) (\<lambda>e. bnd (ignoring (sys_close f)) (\<lambda>_. throw e))) (\<lambda>b.
       bnd (ignoring (sys_close f)) (\<lambda>_. ret (if b = '''' then None else Some b)))))
     else bnd (fs_runPriv m ''cat'' [''--'', path]) (\<lambda>res.
       if xr_exit res \<noteq> 0 then
         (if isENOENTStderr (xr_stderr res) then throw (EWrap ''read'' ErrNotExist) else throw (ECommand ''cat'' (xr_exit res) (xr_stderr res)))
       else ret (if xr_stdout res = '''' then None else Some (xr_stdout res))))"

definition Exists :: "fs_manager \<Rightarrow> string \<Rightarrow> (system, bool) prog" where
  "Exists m path = bnd (unless_error (ValidatePath path)) (\<lambda>_.
     if direct m then in_files (handle (bnd (sys_stat path) (\<lambda>_. ret True)) (\<lambda>e. if errors_is e ErrNotExist then ret False else throw e))
     else bnd (fs_runPriv m ''test'' [''-e'', path]) (\<lambda>res.
       if xr_exit res = 0 then ret True else if xr_exit res = 1 then ret False else throw (ECommand ''test'' (xr_exit res) (xr_stderr res))))"

record dir_entry =
  de_name :: string
  de_is_dir :: bool

definition readDirDirect :: "string \<Rightarrow> dir_entry list fs_prog" where
  "readDirDirect path = bnd (sys_open path False True) (\<lambda>d.
     bnd (peek (\<lambda>F. Inr (map (\<lambda>(name, i). \<lparr>de_name = name, de_is_dir = is_dir F i\<rparr>) (sort_key fst (entries_of F d))))) (\<lambda>es.
     bnd (ignoring (sys_close d)) (\<lambda>_. ret es)))"

definition dir_entry_line :: "string \<Rightarrow> dir_entry list" where
  "dir_entry_line line = (case Cut line ''/'' of
     Some (kind, name) \<Rightarrow> if kind = '''' \<or> name = '''' then [] else [\<lparr>de_name = name, de_is_dir = (kind = ''d'')\<rparr>]
   | None \<Rightarrow> [])"

definition readDirEscalated :: "fs_manager \<Rightarrow> string \<Rightarrow> (system, dir_entry list) prog" where
  "readDirEscalated m path = bnd (fs_runPriv m ''find'' [path @ ''/'', ''-maxdepth'', ''1'', ''-mindepth'', ''1'', ''-printf'', ''%y/%f'' @ [CHR 0x5C, CHR ''n'']]) (\<lambda>res.
     if xr_exit res \<noteq> 0 then
       (if isENOENTStderr (xr_stderr res) then throw (EWrap ''read dir'' ErrNotExist) else throw (ECommand ''find'' (xr_exit res) (xr_stderr res)))
     else ret (concat (map dir_entry_line (Split (TrimRight (\<lambda>c. c = newline) (xr_stdout res)) newline))))"

definition ReadDir :: "fs_manager \<Rightarrow> string \<Rightarrow> (system, dir_entry list) prog" where
  "ReadDir m path = bnd (unless_error (ValidatePath path)) (\<lambda>_.
     if direct m then in_files (readDirDirect path) else readDirEscalated m path)"

section \<open>Mounts\<close>

record mount_info =
  mi_source :: string
  mi_target :: string
  mi_fstype :: string
  mi_read_only :: bool

definition mountOptionsReadOnly :: "string \<Rightarrow> bool" where
  "mountOptionsReadOnly options = list_ex (\<lambda>opt. opt = ''ro'') (Split options (CHR '',''))"

definition IsReadOnly :: "fs_manager \<Rightarrow> string \<Rightarrow> (system, bool) prog" where
  "IsReadOnly m path = bnd (unless_error (ValidatePath path)) (\<lambda>_.
     bnd (runQuery m ''findmnt'' [''-n'', ''-o'', ''OPTIONS'', ''--target'', path]) (\<lambda>res.
     bnd (unless_error (cmdError ''findmnt'' res)) (\<lambda>_. ret (mountOptionsReadOnly (TrimSpace (xr_stdout res))))))"

definition mount_line :: "string \<Rightarrow> mount_info list" where
  "mount_line line = (if line = '''' then [] else (case Fields line of
     a # b # c # d # _ \<Rightarrow> [\<lparr>mi_source = a, mi_target = b, mi_fstype = c, mi_read_only = mountOptionsReadOnly d\<rparr>]
   | _ \<Rightarrow> []))"

definition ListMounts :: "fs_manager \<Rightarrow> (system, mount_info list) prog" where
  "ListMounts m = bnd (runQuery m ''findmnt'' [''-rn'', ''-o'', ''SOURCE,TARGET,FSTYPE,OPTIONS'']) (\<lambda>res.
     bnd (unless_error (cmdError ''findmnt'' res)) (\<lambda>_.
     ret (concat (map mount_line (Split (TrimRight (\<lambda>c. c = newline) (xr_stdout res)) newline)))))"

definition RemountRW :: "fs_manager \<Rightarrow> string \<Rightarrow> (system, unit) prog" where
  "RemountRW m path = bnd (unless_error (ValidatePath path)) (\<lambda>_.
     map_err (EWrap ''remount'') (runChecked m ''mount'' [''-o'', ''remount,rw'', ''--'', path]))"

text \<open>\<open>users\<close> and \<open>groups\<close> are the databases, from ids to names.\<close>

definition GetOwnership :: "(string \<Rightarrow> string option) \<Rightarrow> (string \<Rightarrow> string option) \<Rightarrow> string \<Rightarrow> (string \<times> string) fs_prog" where
  "GetOwnership users groups path = handle (bnd (sys_stat path) (\<lambda>st.
     ret (case users (itoa (i_uid st)) of None \<Rightarrow> '''' | Some u \<Rightarrow> u, case groups (itoa (i_gid st)) of None \<Rightarrow> '''' | Some g \<Rightarrow> g)))
     (\<lambda>_. ret ('''', ''''))"

end
