(* ===== verification/Sys_Fs_Props.thy ===== *)
theory Sys_Fs_Props
  imports Sys_Fs
begin

text \<open>
  What the file operations of the agent guarantee: which paths are refused, that a file is replaced as a whole or not at all and no
  other file is touched on the way, and that the removal of a directory never leaves the tree it was asked to remove.
\<close>

section \<open>States\<close>

definition fs_ok :: "filesystem \<Rightarrow> bool" where
  "fs_ok F \<longleftrightarrow> (\<forall>i. fs_next F \<le> i \<longrightarrow> fs_inode F i = None) \<and> (\<forall>d name i. entry F d name = Some i \<longrightarrow> fs_inode F i \<noteq> None)"

lemma upd_inode_at: "fs_inode (upd_inode i f F) j = (if j = i then map_option f (fs_inode F i) else fs_inode F j)"
  by (auto simp: upd_inode_def set_inode_def split: option.splits)

lemma upd_inode_simps [simp]:
  "fs_next (upd_inode i f F) = fs_next F" "fs_cwd (upd_inode i f F) = fs_cwd F" "fs_noreplace (upd_inode i f F) = fs_noreplace F"
  by (auto simp: upd_inode_def set_inode_def split: option.splits)

lemma link_entry_simps [simp]:
  "fs_next (link_entry d name i F) = fs_next F" "fs_cwd (link_entry d name i F) = fs_cwd F" "fs_noreplace (link_entry d name i F) = fs_noreplace F"
  "fs_next (unlink_entry d name F) = fs_next F" "fs_cwd (unlink_entry d name F) = fs_cwd F" "fs_noreplace (unlink_entry d name F) = fs_noreplace F"
  by (simp_all add: link_entry_def unlink_entry_def)

lemma node_map_entries:
  "i_node (map_entries f x) = (case i_node x of Directory p es \<Rightarrow> Directory p (f es) | y \<Rightarrow> y)"
  by (simp add: map_entries_def split: node.splits)

lemma node_at_link: "node_at (link_entry d name i F) j = (if j = d
    then map_option (\<lambda>x. case x of Directory p es \<Rightarrow> Directory p ((name, i) # filter (\<lambda>e. fst e \<noteq> name) es) | y \<Rightarrow> y) (node_at F j) else node_at F j)"
  by (auto simp: node_at_def link_entry_def upd_inode_at node_map_entries option.map_comp comp_def)

lemma node_at_unlink: "node_at (unlink_entry d name F) j = (if j = d
    then map_option (\<lambda>x. case x of Directory p es \<Rightarrow> Directory p (filter (\<lambda>e. fst e \<noteq> name) es) | y \<Rightarrow> y) (node_at F j) else node_at F j)"
  by (auto simp: node_at_def unlink_entry_def upd_inode_at node_map_entries option.map_comp comp_def)

lemma is_dir_link [simp]: "is_dir (link_entry d name i F) j = is_dir F j" "is_dir (unlink_entry d name F) j = is_dir F j"
  by (auto simp: is_dir_def node_at_link node_at_unlink split: option.splits node.splits)

text \<open>A directory but for its entries: the directory above it, its mode and owner.\<close>

definition dir_attrs :: "inode \<Rightarrow> (ino \<times> int \<times> int \<times> int) option" where
  "dir_attrs x = (case i_node x of Directory p _ \<Rightarrow> Some (p, i_mode x, i_uid x, i_gid x) | _ \<Rightarrow> None)"

definition dir_of :: "filesystem \<Rightarrow> ino \<Rightarrow> (ino \<times> int \<times> int \<times> int) option" where
  "dir_of F d = Option.bind (fs_inode F d) dir_attrs"

lemma dir_attrs_entries [simp]: "dir_attrs (map_entries f x) = dir_attrs x"
  by (auto simp: dir_attrs_def map_entries_def split: node.splits)

lemma dir_of_link [simp]: "dir_of (link_entry d name i F) j = dir_of F j" "dir_of (unlink_entry d name F) j = dir_of F j"
  by (cases "fs_inode F d"; simp add: dir_of_def link_entry_def unlink_entry_def upd_inode_at)+

lemma is_dir_dir_of: "is_dir F d \<longleftrightarrow> dir_of F d \<noteq> None"
  by (cases "fs_inode F d") (auto simp: dir_of_def dir_attrs_def is_dir_def node_at_def split: node.splits)

lemma dir_of_node: "dir_of G d = dir_of F d \<Longrightarrow> node_at F d = Some (Directory p es) \<Longrightarrow> \<exists>es'. node_at G d = Some (Directory p es')"
  by (cases "fs_inode G d") (auto simp: dir_of_def dir_attrs_def node_at_def split: node.splits)

lemma map_of_filter_name: "map_of (filter (\<lambda>e. fst e \<noteq> name) es) n = (if n = name then None else map_of es n)"
  by (induction es) auto

lemma entry_link: "entry (link_entry d name i F) e n = (if e = d \<and> n = name \<and> is_dir F d then Some i else entry F e n)"
  by (auto simp: entry_def entries_of_def node_at_link is_dir_def map_of_filter_name split: option.splits node.splits)

lemma entry_unlink: "entry (unlink_entry d name F) e n = (if e = d \<and> n = name then None else entry F e n)"
  by (auto simp: entry_def entries_of_def node_at_unlink map_of_filter_name split: option.splits node.splits)

lemma entry_is_dir: "entry F d name = Some i \<Longrightarrow> is_dir F d"
  by (auto simp: entry_def entries_of_def is_dir_def split: option.splits node.splits)

text \<open>Changes that keep the kind of a node.\<close>

lemma node_at_upd: "node_at (upd_inode i f F) j = (if j = i then map_option (\<lambda>x. i_node (f x)) (fs_inode F i) else node_at F j)"
  by (auto simp: node_at_def upd_inode_at option.map_comp comp_def)

section \<open>Resolution survives new entries\<close>

definition grows :: "filesystem \<Rightarrow> filesystem \<Rightarrow> bool" where
  "grows F G \<longleftrightarrow> fs_cwd G = fs_cwd F \<and> (\<forall>i. case node_at F i of
     None \<Rightarrow> True
   | Some (Directory p es) \<Rightarrow> (\<exists>es'. node_at G i = Some (Directory p es') \<and> (\<forall>n j. map_of es n = Some j \<longrightarrow> map_of es' n = Some j))
   | Some (Symlink t) \<Rightarrow> node_at G i = Some (Symlink t)
   | Some _ \<Rightarrow> (\<exists>y. node_at G i = Some y \<and> (\<forall>p es. y \<noteq> Directory p es) \<and> (\<forall>t. y \<noteq> Symlink t)))"

lemma growsD:
  assumes "grows F G"
  shows "node_at F i = Some (Directory p es) \<Longrightarrow>
      \<exists>es'. node_at G i = Some (Directory p es') \<and> (\<forall>n j. map_of es n = Some j \<longrightarrow> map_of es' n = Some j)"
    and "node_at F i = Some (Symlink t) \<Longrightarrow> node_at G i = Some (Symlink t)"
    and "node_at F i = Some x \<Longrightarrow> (\<And>t. x \<noteq> Symlink t) \<Longrightarrow> \<exists>y. node_at G i = Some y \<and> (\<forall>t. y \<noteq> Symlink t)"
  using assms unfolding grows_def by (auto dest!: spec [of _ i] split: node.splits)

lemma is_dirE:
  assumes "is_dir F d"
  obtains p es where "node_at F d = Some (Directory p es)"
  using assms by (auto simp: is_dir_def split: option.splits node.splits)

lemma is_dirI: "node_at F d = Some (Directory p es) \<Longrightarrow> is_dir F d"
  by (simp add: is_dir_def)

lemma grows_is_dir: "grows F G \<Longrightarrow> is_dir F d \<Longrightarrow> is_dir G d"
  by (elim is_dirE) (auto dest: growsD(1) intro: is_dirI)

lemma walk_grows:
  assumes "grows F G" and "fs_ok F" and "walk F k d cs fl = Inr i"
  shows "walk G k d cs fl = Inr i"
  using assms
proof (induction F k d cs fl rule: walk.induct)
  case (2 F k d c cs fl)
  obtain p es where d: "node_at F d = Some (Directory p es)"
    using "2.prems"(3) by (auto split: option.splits node.splits)
  then obtain es' where d': "node_at G d = Some (Directory p es')" and es: "\<And>n j. map_of es n = Some j \<Longrightarrow> map_of es' n = Some j"
    using growsD(1) [OF "2.prems"(1)] by blast
  show ?case
  proof (cases "c = '''' \<or> c = ''.'' \<or> c = ''..''")
    case True
    then show ?thesis using 2 d d' by auto
  next
    case False
    then obtain j where j: "map_of es c = Some j" using "2.prems"(3) d by (auto split: option.splits)
    then have "entry F d c = Some j" by (simp add: entry_def entries_of_def d)
    then have "fs_inode F j \<noteq> None" using "2.prems"(2) unfolding fs_ok_def by blast
    then obtain x where x: "node_at F j = Some x" by (auto simp: node_at_def)
    show ?thesis
    proof (cases "\<exists>t. x = Symlink t")
      case True
      then obtain t where t: "x = Symlink t" by blast
      then have "node_at G j = Some (Symlink t)" using growsD(2) [OF "2.prems"(1)] x by blast
      then show ?thesis using 2 d d' j es [OF j] x t False by (auto split: if_splits)
    next
      case nolink: False
      then obtain y where "node_at G j = Some y" "\<forall>t. y \<noteq> Symlink t"
        using growsD(3) [OF "2.prems"(1) x] by blast
      then show ?thesis using 2 d d' j es [OF j] x nolink False by (auto split: node.splits)
    qed
  qed
qed simp

lemma walk_snoc:
  assumes "walk F k d cs True = Inr e" and "entry F e c = Some i" and "c \<noteq> ''''" "c \<noteq> ''.''" "c \<noteq> ''..''"
    and "\<forall>t. node_at F i \<noteq> Some (Symlink t)"
  shows "walk F k d (cs @ [c]) fl = Inr i"
  using assms
proof (induction F k d cs True rule: walk.induct)
  case (1 F k d)
  then show ?case by (auto simp: entry_def entries_of_def split: option.splits node.splits)
next
  case (2 F k d x xs)
  then show ?case by (auto split: option.splits node.splits if_splits)
qed

lemma resolve_parent_grows:
  assumes "grows F G" and "fs_ok F" and "resolve_parent F p = Inr a"
  shows "resolve_parent G p = Inr a"
proof -
  obtain d name where a: "a = (d, name)" by (cases a)
  have w: "walk F 40 (start_dir F p) (butlast (Split p slash)) True = Inr d" and d: "is_dir F d"
    using assms(3) by (auto simp: resolve_parent_def Let_def a split: if_splits sum.splits)
  have "start_dir G p = start_dir F p" using assms(1) by (simp add: start_dir_def grows_def)
  moreover have "is_dir G d" using grows_is_dir [OF assms(1) d] .
  ultimately show ?thesis
    using assms(3) walk_grows [OF assms(1,2) w] by (auto simp: resolve_parent_def Let_def a split: if_splits sum.splits)
qed

text \<open>Opening the entry that its parent has.\<close>

lemma resolve_child:
  assumes "resolve_parent F p = Inr (d, name)" and "entry F d name = Some i" and "fs_inode F i \<noteq> None" and "\<forall>t. node_at F i \<noteq> Some (Symlink t)"
  shows "resolve F p fl = Inr i"
proof -
  have p: "p \<noteq> ''''" and name: "name = last (Split p slash)" "name \<noteq> ''''" "name \<noteq> ''.''" "name \<noteq> ''..''"
    and w: "walk F 40 (start_dir F p) (butlast (Split p slash)) True = Inr d"
    using assms(1) by (auto simp: resolve_parent_def Let_def split: if_splits sum.splits)
  have "walk F 40 (start_dir F p) (butlast (Split p slash) @ [name]) fl = Inr i"
    by (rule walk_snoc [OF w assms(2) name(2-4) assms(4)])
  then show ?thesis using p assms(3) by (simp add: resolve_def name(1))
qed

lemma walk_here:
  assumes "walk F k d cs True = Inr e" and "entry F e c = Some i" and "c \<noteq> ''''" "c \<noteq> ''.''" "c \<noteq> ''..''"
  shows "walk F k d (cs @ [c]) False = Inr i"
  using assms
proof (induction F k d cs True rule: walk.induct)
  case (1 F k d)
  then show ?case by (auto simp: entry_def entries_of_def split: option.splits node.splits)
next
  case (2 F k d x xs)
  then show ?case by (auto split: option.splits node.splits if_splits)
qed

lemma resolve_here:
  assumes "resolve_parent F p = Inr (d, name)" and "entry F d name = Some i" and "fs_inode F i \<noteq> None"
  shows "resolve F p False = Inr i"
proof -
  have p: "p \<noteq> ''''" and name: "name = last (Split p slash)" "name \<noteq> ''''" "name \<noteq> ''.''" "name \<noteq> ''..''"
    and w: "walk F 40 (start_dir F p) (butlast (Split p slash)) True = Inr d"
    using assms(1) by (auto simp: resolve_parent_def Let_def split: if_splits sum.splits)
  show ?thesis using p assms(3) walk_here [OF w assms(2) name(2-4)] by (simp add: resolve_def name(1))
qed

section \<open>Replacing a file\<close>

text \<open>The states on the way: the temporary file \<open>x\<close> under \<open>name\<close> in \<open>d\<close>, or without a name.\<close>

definition stage :: "filesystem \<Rightarrow> ino \<Rightarrow> string \<Rightarrow> inode \<Rightarrow> filesystem" where
  "stage F d name x = link_entry d name (fs_next F) ((set_inode (fs_next F) x F)\<lparr>fs_next := Suc (fs_next F)\<rparr>)"

definition temp_ok :: "filesystem \<Rightarrow> string \<Rightarrow> ino \<Rightarrow> string \<Rightarrow> bool" where
  "temp_ok F tmp d name \<longleftrightarrow> fs_ok F \<and> resolve_parent F tmp = Inr (d, name) \<and> entry F d name = None"

lemma resolve_parent_dir: "resolve_parent F p = Inr (d, name) \<Longrightarrow> is_dir F d"
  by (auto simp: resolve_parent_def Let_def split: if_splits sum.splits)

lemma fresh_inode: "fs_ok F \<Longrightarrow> fs_inode F (fs_next F) = None"
  by (simp add: fs_ok_def)

lemma fresh_node: "fs_ok F \<Longrightarrow> node_at F (fs_next F) = None"
  by (simp add: fresh_inode node_at_def)

lemma dir_not_fresh: "fs_ok F \<Longrightarrow> is_dir F d \<Longrightarrow> d \<noteq> fs_next F"
  using fresh_inode [of F] by (auto simp: is_dir_def node_at_def)

lemma stage_inode: "d \<noteq> fs_next F \<Longrightarrow> fs_inode (stage F d name x) i = (if i = fs_next F then Some x else if i = d
    then map_option (map_entries (\<lambda>es. (name, fs_next F) # filter (\<lambda>e. fst e \<noteq> name) es)) (fs_inode F d) else fs_inode F i)"
  by (auto simp: stage_def link_entry_def upd_inode_at set_inode_def)

lemma node_at_set_next: "node_at ((set_inode i x F)\<lparr>fs_next := k\<rparr>) j = (if j = i then Some (i_node x) else node_at F j)"
  by (simp add: node_at_def set_inode_def)

lemma stage_simps [simp]: "fs_next (stage F d name x) = Suc (fs_next F)" "fs_cwd (stage F d name x) = fs_cwd F"
  by (simp_all add: stage_def set_inode_def)

lemma stage_dir: "fs_ok F \<Longrightarrow> is_regular x \<Longrightarrow> is_dir (stage F d name x) e = is_dir F e"
  using fresh_node [of F] unfolding stage_def is_dir_link
  by (cases "e = fs_next F") (auto simp: is_dir_def node_at_set_next is_regular_def split: node.splits)

lemma stage_dir_of: "fs_ok F \<Longrightarrow> is_regular x \<Longrightarrow> dir_of (stage F d name x) e = dir_of F e"
  using fresh_inode [of F] unfolding stage_def dir_of_link
  by (cases "e = fs_next F") (auto simp: dir_of_def dir_attrs_def set_inode_def is_regular_def split: node.splits)

lemma stage_entry:
  assumes "fs_ok F" and "is_dir F d" and "is_regular x"
  shows "entry (stage F d name x) e n = (if e = d \<and> n = name then Some (fs_next F) else entry F e n)"
proof -
  have d: "d \<noteq> fs_next F" using dir_not_fresh [OF assms(1,2)] .
  let ?G = "(set_inode (fs_next F) x F)\<lparr>fs_next := Suc (fs_next F)\<rparr>"
  have "is_dir ?G d" using assms(2) d by (simp add: is_dir_def node_at_set_next)
  moreover have "entry ?G e n = entry F e n"
    using fresh_node [OF assms(1)] assms(3)
    by (auto simp: entry_def entries_of_def node_at_set_next is_regular_def split: node.splits)
  ultimately show ?thesis by (simp add: stage_def entry_link)
qed

lemma stage_grows:
  assumes "temp_ok F tmp d name" and "is_regular x"
  shows "grows F (stage F d name x)"
proof -
  have ok: "fs_ok F" "is_dir F d" "entry F d name = None" using assms(1) resolve_parent_dir by (auto simp: temp_ok_def)
  have d: "d \<noteq> fs_next F" using dir_not_fresh [OF ok(1,2)] .
  have n: "node_at F (fs_next F) = None" using fresh_inode [OF ok(1)] by (simp add: node_at_def)
  show ?thesis
    unfolding grows_def
  proof (intro conjI allI)
    fix i
    show "case node_at F i of None \<Rightarrow> True
      | Some (Directory p es) \<Rightarrow> \<exists>es'. node_at (stage F d name x) i = Some (Directory p es') \<and> (\<forall>n j. map_of es n = Some j \<longrightarrow> map_of es' n = Some j)
      | Some (Symlink t) \<Rightarrow> node_at (stage F d name x) i = Some (Symlink t)
      | Some _ \<Rightarrow> \<exists>y. node_at (stage F d name x) i = Some y \<and> (\<forall>p es. y \<noteq> Directory p es) \<and> (\<forall>t. y \<noteq> Symlink t)"
    proof (cases "i = fs_next F")
      case True
      then show ?thesis by (simp add: n)
    next
      case False
      then show ?thesis
        using ok(3) by (auto simp: stage_def node_at_link node_at_set_next map_of_filter_name entry_def entries_of_def split: option.splits node.splits)
    qed
  qed simp
qed

lemma stage_ok: "temp_ok F tmp d name \<Longrightarrow> is_regular x \<Longrightarrow> fs_ok (stage F d name x)"
  using resolve_parent_dir [of F tmp d name] dir_not_fresh [of F d]
  by (auto simp: temp_ok_def fs_ok_def stage_entry stage_inode split: if_splits)

lemma stage_update:
  "temp_ok F tmp d name \<Longrightarrow> upd_inode (fs_next F) f (stage F d name x) = stage F d name (f x)"
  using resolve_parent_dir [of F tmp d name] dir_not_fresh [of F d]
  by (auto simp: temp_ok_def stage_def link_entry_def upd_inode_def set_inode_def fun_upd_twist split: option.splits)

section \<open>The temporary file\<close>

definition temp0 :: inode where
  "temp0 = \<lparr>i_node = Regular '''', i_mode = 384, i_uid = 0, i_gid = 0\<rparr>"

lemma create_excl_run:
  assumes "sys_create_excl p E n F = (r, n', G)" and "fs_ok F"
  shows "(\<exists>e. r = Inl e \<and> G = F) \<or> (\<exists>d name. r = Inr (fs_next F) \<and> temp_ok F p d name \<and> G = stage F d name temp0)"
proof (cases "\<exists>e. r = Inl e")
  case True
  then show ?thesis using assms(1) by (auto simp: sys_create_excl_def sql_def new_inode_def split: if_splits sum.splits prod.splits)
next
  case False
  then show ?thesis
    using assms by (auto simp: sys_create_excl_def sql_def new_inode_def temp_ok_def stage_def temp0_def split: if_splits sum.splits prod.splits)
qed

lemma temp_loop_run:
  assumes "temp_loop k dir prefix E n F = (r, n', G)" and "fs_ok F"
  shows "(\<exists>e. r = Inl e \<and> G = F) \<or>
    (\<exists>m d name. r = Inr (join_name dir (prefix @ ulid E m)) \<and> temp_ok F (join_name dir (prefix @ ulid E m)) d name \<and> G = stage F d name temp0)"
  using assms
proof (induction k dir prefix arbitrary: n rule: temp_loop.induct)
  case (1 k dir prefix)
  let ?tmp = "join_name dir (prefix @ ulid E n)"
  obtain r1 n1 G1 where c: "sys_create_excl ?tmp E (Suc n) F = (r1, n1, G1)" by (metis prod_cases3)
  show ?case
  proof (cases r1)
    case (Inr i)
    then show ?thesis
      using create_excl_run [OF c "1.prems"(2)] "1.prems"(1) c
      by (auto simp: temp_loop.simps [of k] bnd_def handle_def ulid_make_def ret_def Let_def)
  next
    case (Inl e)
    have G1: "G1 = F" using create_excl_run [OF c "1.prems"(2)] Inl by auto
    show ?thesis
    proof (cases "errors_is e ErrExist \<and> k + 1 < 10000")
      case True
      then have "temp_loop (k + 1) dir prefix E n1 F = (r, n', G)"
        using "1.prems"(1) c Inl G1 by (simp add: temp_loop.simps [of k] bnd_def handle_def ulid_make_def ret_def Let_def)
      then show ?thesis using "1.IH" [OF refl True] "1.prems"(2) by blast
    next
      case False
      then show ?thesis
        using "1.prems"(1) c Inl G1 by (auto simp: temp_loop.simps [of k] bnd_def handle_def ulid_make_def ret_def throw_def Let_def)
    qed
  qed
qed

lemma CutLast_None: "CutLast s c = None \<longleftrightarrow> c \<notin> set s"
  by (induction s) (auto split: option.splits)

lemma Split_more: "c \<in> set s \<Longrightarrow> \<exists>w v ws. Split s c = w # v # ws"
proof (induction s)
  case (Cons x s)
  then show ?case by (cases "Split s c") auto
qed simp

lemma last_Split: "last (Split s c) = (case CutLast s c of None \<Rightarrow> s | Some (a, b) \<Rightarrow> b)"
proof (induction s)
  case (Cons x s)
  show ?case
  proof (cases "c \<in> set s")
    case True
    then obtain w v ws where "Split s c = w # v # ws" using Split_more by blast
    moreover obtain a b where "CutLast s c = Some (a, b)" using True CutLast_None [of s c] by (cases "CutLast s c") auto
    ultimately show ?thesis using Cons by auto
  next
    case False
    then have "Split s c = [s]" "CutLast s c = None" by (simp_all add: Split_none CutLast_None)
    then show ?thesis by simp
  qed
qed simp

lemma Base_of_parent:
  assumes "resolve_parent F path = Inr (d, base)"
  shows "path_Base path = base" and "base \<noteq> ''''" and "slash \<notin> set base"
proof -
  have b: "base = last (Split path slash)" "base \<noteq> ''''" "path \<noteq> ''''"
    using assms by (auto simp: resolve_parent_def Let_def split: if_splits sum.splits)
  then show "base \<noteq> ''''" "slash \<notin> set base" using Split_parts [of base path slash] by (auto simp: Split_not_Nil)
  have "path = Join (butlast (Split path slash) @ [base]) ''/''" using b(1) Split_concat [of path slash] by simp
  moreover have "\<exists>a. Join (xs @ [base]) ''/'' = a @ base" for xs
    using Join_append [of xs "[base]"] by (cases "xs = []") auto
  ultimately obtain a where "path = a @ base" by metis
  then have "last path = last base" using b(2) by simp
  then have "last path \<noteq> slash" using \<open>slash \<notin> set base\<close> b(2) by (metis last_in_set)
  then have "dropWhile (\<lambda>c. c = slash) (rev path) = rev path" using b(3) by (cases "rev path") (auto simp: last_rev [symmetric] hd_rev)
  then have "TrimRight (\<lambda>c. c = slash) path = path" by (simp add: TrimRight_def)
  then show "path_Base path = base" using b by (simp add: path_Base_def Let_def last_Split split: option.splits)
qed

lemma join_name_last:
  assumes "slash \<notin> set name"
  shows "last (Split (join_name dir name) slash) = name"
proof -
  have "\<exists>a. join_name dir name = a @ slash # name"
  proof (cases "HasSuffix dir ''/''")
    case True
    then have "take (length dir - 1) dir @ ''/'' = dir" by (metis HasSuffix_def One_nat_def append_take_drop_id length_Cons list.size(3))
    then show ?thesis using True by (metis append_Cons append_Nil append_assoc join_name_def)
  qed (simp add: join_name_def)
  then show ?thesis using assms by (auto simp: Split_app Split_none)
qed

text \<open>The random part of a temporary name is a number.\<close>

definition plain_names :: "env \<Rightarrow> bool" where
  "plain_names E \<longleftrightarrow> (\<forall>n. slash \<notin> set (ulid E n))"

lemma CreateTemp_run:
  assumes "CreateTemp dir prefix E n F = (r, n', G)" and "fs_ok F" and "plain_names E"
  shows "(\<exists>e. r = Inl e \<and> G = F) \<or>
    (\<exists>tmp d m. r = Inr tmp \<and> temp_ok F tmp d (prefix @ ulid E m) \<and> G = stage F d (prefix @ ulid E m) temp0)"
proof (cases "slash \<in> set prefix")
  case True
  then show ?thesis using assms(1) by (auto simp: CreateTemp_def throw_def)
next
  case False
  then have "name = prefix @ ulid E m" if "temp_ok F (join_name dir (prefix @ ulid E m)) d name" for m d name
    using that assms(3) join_name_last [of "prefix @ ulid E m" dir]
    by (auto simp: temp_ok_def resolve_parent_def Let_def plain_names_def split: if_splits sum.splits)
  moreover have "temp_loop 0 dir prefix E n F = (r, n', G)" using assms(1) False by (simp add: CreateTemp_def)
  ultimately show ?thesis using temp_loop_run [of 0 dir prefix E n F r n' G] assms(2) by blast
qed

lemma ignoring_run: "ignoring m E n F = (r, n', G) \<longleftrightarrow> r = Inr () \<and> (\<exists>x. m E n F = (x, n', G))"
  by (cases "m E n F") (auto simp: ignoring_def handle_def ret_def split: sum.splits)

lemma peek_run: "peek f E n F = (r, n', G) \<Longrightarrow> G = F \<and> (\<forall>x. r = Inr x \<longrightarrow> f F = Inr x)"
  by (auto simp: peek_def sql_def split: if_splits sum.splits)

lemma quiet_run:
  "sys_close fd E n F = (r, n', G) \<Longrightarrow> G = F" "sys_sync fd E n F = (r, n', G) \<Longrightarrow> G = F"
  "sys_open p nf dr E n F = (r3, n', G) \<Longrightarrow> G = F" "sys_lstat p E n F = (r1, n', G) \<Longrightarrow> G = F" "sys_stat p E n F = (r1, n', G) \<Longrightarrow> G = F"
  "sys_fstat fd E n F = (r1, n', G) \<Longrightarrow> G = F" "sys_read_all fd E n F = (r2, n', G) \<Longrightarrow> G = F"
  unfolding syscall_defs by (auto dest: peek_run)

text \<open>While the temporary file exists, its path leads to it, and other paths lead where they led.\<close>

lemma temp_okD:
  assumes "temp_ok F tmp d name"
  shows "fs_ok F" "resolve_parent F tmp = Inr (d, name)" "entry F d name = None" "is_dir F d" "d \<noteq> fs_next F"
proof -
  show "fs_ok F" "resolve_parent F tmp = Inr (d, name)" "entry F d name = None" using assms by (simp_all add: temp_ok_def)
  then show "is_dir F d" by (intro resolve_parent_dir)
  then show "d \<noteq> fs_next F" using \<open>fs_ok F\<close> by (intro dir_not_fresh)
qed

lemma staged_parent:
  assumes "temp_ok F tmp d name" and "is_regular x" and "resolve_parent F p = Inr a"
  shows "resolve_parent (stage F d name x) p = Inr a"
  by (rule resolve_parent_grows [OF stage_grows [OF assms(1,2)] temp_okD(1) [OF assms(1)] assms(3)])

lemma tmp_entry:
  assumes "temp_ok F tmp d name" and "is_regular x"
  shows "entry (stage F d name x) d name = Some (fs_next F)"
  using stage_entry [OF temp_okD(1,4) [OF assms(1)] assms(2)] assms(1) by (simp add: temp_okD)

lemma tmp_inode:
  assumes "temp_ok F tmp d name"
  shows "fs_inode (stage F d name x) (fs_next F) = Some x" "node_at (stage F d name x) (fs_next F) = Some (i_node x)"
  using stage_inode [OF temp_okD(5) [OF assms]] by (simp_all add: node_at_def)

lemma open_tmp:
  assumes temp: "temp_ok F tmp d name" and x: "is_regular x" and run: "sys_open tmp True False E n (stage F d name x) = (Inr i, n', G)"
  shows "i = fs_next F \<and> G = stage F d name x"
proof -
  have "resolve (stage F d name x) tmp False = Inr (fs_next F)"
    using x by (intro resolve_child [OF staged_parent [OF temp x temp_okD(2) [OF temp]] tmp_entry [OF temp x]])
      (auto simp: tmp_inode [OF temp] is_regular_def)
  then show ?thesis
    using peek_run [OF run [unfolded sys_open_def]] x tmp_inode(2) [OF temp, of x] by (auto simp: open_inode_def is_regular_def split: node.splits)
qed

lemma remove_tmp:
  assumes temp: "temp_ok F tmp d name" and x: "is_regular x" and run: "sys_remove tmp E n (stage F d name x) = (r, n', G)"
  shows "G = stage F d name x \<or> G = unlink_entry d name (stage F d name x)"
  using run staged_parent [OF temp x temp_okD(2) [OF temp]] tmp_entry [OF temp x]
  by (auto simp: sys_remove_def remove_entry_def sql_def split: if_splits sum.splits)

lemma write_tmp:
  assumes temp: "temp_ok F tmp d name" and x: "is_regular x" and run: "sys_write (fs_next F) data E n (stage F d name x) = (r, n', G)"
  shows "r = Inr () \<and> G = stage F d name (overwrite data x) \<or> (\<exists>e y. r = Inl e \<and> is_regular y \<and> G = stage F d name y)"
proof -
  have "is_regular (overwrite d x)" for d using x by (auto simp: is_regular_def overwrite_def split: node.splits)
  then show ?thesis using run x stage_update [OF temp] by (auto simp: sys_write_def split: if_splits)
qed

lemma fchmod_tmp:
  assumes temp: "temp_ok F tmp d name" and run: "sys_fchmod (fs_next F) mode E n (stage F d name x) = (r, n', G)"
  shows "r = Inr () \<and> G = stage F d name (x\<lparr>i_mode := mode\<rparr>) \<or> (\<exists>e. r = Inl e) \<and> G = stage F d name x"
  using run stage_update [OF temp] by (auto simp: sys_fchmod_def sql_def split: if_splits)

text \<open>What is left after a failure: the temporary file, complete or not, with its name or without.\<close>

definition leftover :: "filesystem \<Rightarrow> ino \<Rightarrow> string \<Rightarrow> filesystem \<Rightarrow> bool" where
  "leftover F d name G \<longleftrightarrow> (\<exists>x. is_regular x \<and> (G = stage F d name x \<or> G = unlink_entry d name (stage F d name x)))"

lemma leftoverI: "is_regular x \<Longrightarrow> G = stage F d name x \<or> G = unlink_entry d name (stage F d name x) \<Longrightarrow> leftover F d name G"
  by (auto simp: leftover_def)

lemma clean_tmp:
  assumes temp: "temp_ok F tmp d name" and x: "is_regular x"
    and run: "bnd (ignoring (sys_remove tmp)) (\<lambda>_. throw e) E n (stage F d name x) = (r, n', G)"
  shows "r = Inl e \<and> leftover F d name G"
proof -
  obtain r1 where "r = Inl e" "sys_remove tmp E n (stage F d name x) = (r1, n', G)"
    using run by (auto simp: bnd_run ignoring_run throw_run)
  then show ?thesis using remove_tmp [OF temp x] leftoverI [OF x] by blast
qed

lemma close_clean_tmp:
  assumes temp: "temp_ok F tmp d name" and x: "is_regular x"
    and run: "bnd (bnd (ignoring (sys_close fd)) (\<lambda>_. ignoring (sys_remove tmp))) (\<lambda>_. throw e) E n (stage F d name x) = (r, n', G)"
  shows "r = Inl e \<and> leftover F d name G"
proof -
  obtain n1 G1 r0 r1 where c: "sys_close fd E n (stage F d name x) = (r0, n1, G1)" and "r = Inl e" "sys_remove tmp E n1 G1 = (r1, n', G)"
    using run by (auto simp: bnd_run ignoring_run throw_run)
  then show ?thesis using remove_tmp [OF temp x] leftoverI [OF x] quiet_run(1) [OF c] by blast
qed

lemma on_error_run:
  "on_error c w m E n F = (r, n', G) \<longleftrightarrow> (\<exists>x. r = Inr x \<and> m E n F = (Inr x, n', G)) \<or>
    (\<exists>e k H. m E n F = (Inl e, k, H) \<and> bnd c (\<lambda>_. throw (EWrap w e)) E k H = (r, n', G))"
  by (cases "m E n F") (auto simp: on_error_def handle_def split: sum.splits)

text \<open>A step that cleans up when it fails: the program goes on with its result, or ends with an error after cleaning up.\<close>

lemma on_error_bnd:
  fixes m :: "'a fs_prog"
  assumes "bnd (on_error c w m) f E n F = (r, n', G)"
  obtains (goes_on) x k H where "m E n F = (Inr x, k, H)" "f x E k H = (r, n', G)"
  | (fails) e k H e' where "m E n F = (Inl e, k, H)" "(bnd c (\<lambda>_. throw (EWrap w e)) :: 'a fs_prog) E k H = (Inl e', n', G)" "r = Inl e'"
  using assms by (auto simp: bnd_run on_error_run throw_run)

lemma fill_temp_run:
  assumes temp: "temp_ok F tmp d name" and run: "fill_temp tmp data perm E n (stage F d name temp0) = (r, n', G)"
  shows "r = Inr () \<and> G = stage F d name (temp0\<lparr>i_node := Regular data, i_mode := uint (mode_bits perm)\<rparr>) \<or>
    (\<exists>e. r = Inl e) \<and> leftover F d name G" (is "?done \<or> ?failed")
proof -
  let ?x1 = "temp0\<lparr>i_node := Regular data\<rparr>" and ?x2 = "temp0\<lparr>i_node := Regular data, i_mode := uint (mode_bits perm)\<rparr>"
  have reg: "is_regular temp0" "is_regular ?x1" "is_regular ?x2" and x1: "overwrite data temp0 = ?x1"
    by (auto simp: is_regular_def temp0_def overwrite_def)
  note close = close_clean_tmp [OF temp]
  show ?thesis
  proof (rule on_error_bnd [OF run [unfolded fill_temp_def Let_def]], goal_cases opened not_opened)
    case (not_opened e k H e')
    then show ?case using clean_tmp [OF temp reg(1)] quiet_run(3) [OF not_opened(1)] by blast
  next
    case (opened f k1 H1)
    have f: "f = fs_next F" "H1 = stage F d name temp0" using open_tmp [OF temp reg(1) opened(1)] by auto
    show ?case
    proof (rule on_error_bnd [OF opened(2)], goal_cases written not_written)
      case (not_written e k H e')
      obtain y where "is_regular y" "H = stage F d name y" using write_tmp [OF temp reg(1)] not_written(1) f by blast
      then show ?case using close [of y] not_written(2,3) by blast
    next
      case (written u k2 H2)
      have H2: "H2 = stage F d name ?x1" using write_tmp [OF temp reg(1)] written(1) f x1 by fastforce
      show ?case
      proof (rule on_error_bnd [OF written(2)], goal_cases moded not_moded)
        case (not_moded e k H e')
        then show ?case using close [OF reg(2)] fchmod_tmp [OF temp] f H2 by blast
      next
        case (moded u k3 H3)
        have H3: "H3 = stage F d name ?x2" using fchmod_tmp [OF temp] moded(1) f H2 by fastforce
        show ?case
        proof (rule on_error_bnd [OF moded(2)], goal_cases synced not_synced)
          case (not_synced e k H e')
          then show ?case using close [OF reg(3)] quiet_run(2) [OF not_synced(1)] H3 by blast
        next
          case (synced u k4 H4)
          have H4: "H4 = stage F d name ?x2" using quiet_run(2) [OF synced(1)] H3 by simp
          from synced(2) consider x where "r = Inr x" "sys_close f E k4 H4 = (Inr x, n', G)"
            | e k H where "sys_close f E k4 H4 = (Inl e, k, H)" "bnd (ignoring (sys_remove tmp)) (\<lambda>_. throw (EWrap ''close temp'' e)) E k H = (r, n', G)"
            by (auto simp: on_error_run)
          then show ?case
          proof cases
            case 1
            then show ?thesis using quiet_run(1) [OF 1(2)] H4 by simp
          next
            case 2
            then show ?thesis using clean_tmp [OF temp reg(3)] quiet_run(1) [OF 2(1)] H4 by blast
          qed
        qed
      qed
    qed
  qed
qed

section \<open>The rename\<close>

lemma move_file:
  assumes temp: "temp_ok F tmp d name" and x: "is_regular x" and e: "is_dir F e" and ne: "(e, base) \<noteq> (d, name)"
    and G: "G = move_entry (d, name) (e, base) (fs_next F) (stage F d name x)"
  shows "fs_inode G (fs_next F) = Some x" and "\<not> is_dir F i \<Longrightarrow> i \<noteq> fs_next F \<Longrightarrow> fs_inode G i = fs_inode F i"
    and "entry G a n = (if (a, n) = (e, base) then Some (fs_next F) else if (a, n) = (d, name) then None else entry F a n)"
    and "dir_of G a = dir_of F a" and "fs_cwd G = fs_cwd F"
proof -
  let ?S = "link_entry e base (fs_next F) (unlink_entry d name (stage F d name x))"
  note D = temp_okD [OF temp]
  have en: "e \<noteq> fs_next F" using dir_not_fresh [OF D(1) e] .
  have new: "fs_inode ?S (fs_next F) = Some x"
    using tmp_inode(1) [OF temp, of x] en D(5) by (simp add: link_entry_def unlink_entry_def upd_inode_at)
  have same: "set_parent e x = x" using x by (auto simp: set_parent_def is_regular_def split: node.splits)
  have "upd_inode (fs_next F) (set_parent e) ?S = ?S"
    using new same by (simp add: upd_inode_def set_inode_def fun_upd_idem)
  then have GS: "G = ?S" by (simp add: G move_entry_def)
  show "fs_inode G (fs_next F) = Some x" using new by (simp add: GS)
  show "fs_inode G i = fs_inode F i" if "\<not> is_dir F i" "i \<noteq> fs_next F"
  proof -
    have "i \<noteq> d" "i \<noteq> e" using that(1) D(4) e by auto
    then show ?thesis using that(2) stage_inode [OF D(5)] by (simp add: GS link_entry_def unlink_entry_def upd_inode_at)
  qed
  have dirs: "is_dir (stage F d name x) a = is_dir F a" for a using stage_dir [OF D(1) x] .
  show "dir_of G a = dir_of F a" "fs_cwd G = fs_cwd F" using stage_dir_of [OF D(1) x] by (simp_all add: GS)
  show "entry G a n = (if (a, n) = (e, base) then Some (fs_next F) else if (a, n) = (d, name) then None else entry F a n)"
    using e ne stage_entry [OF D(1,4) x] by (auto simp: GS entry_link entry_unlink dirs)
qed

lemma rename_staged:
  assumes temp: "temp_ok F tmp d name" and x: "is_regular x" and p: "resolve_parent F path = Inr (e, base)" and ne: "(e, base) \<noteq> (d, name)"
    and run: "rename_to (stage F d name x) tmp path = Inr (u, G)"
  shows "G = move_entry (d, name) (e, base) (fs_next F) (stage F d name x)"
proof -
  note D = temp_okD [OF temp]
  have "entry (stage F d name x) e base = entry F e base" using stage_entry [OF D(1,4) x] ne by auto
  moreover have "entry F e base \<noteq> Some (fs_next F)" using D(1) fresh_inode [OF D(1)] unfolding fs_ok_def by metis
  ultimately show ?thesis
    using run staged_parent [OF temp x D(2)] staged_parent [OF temp x p] tmp_entry [OF temp x]
    by (auto simp: rename_to_def split: option.splits if_splits)
qed

lemma safeRename_run:
  assumes temp: "temp_ok F tmp d name" and x: "is_regular x" and p: "resolve_parent F path = Inr (e, base)" and ne: "(e, base) \<noteq> (d, name)"
    and run: "safeRename tmp path rm E n (stage F d name x) = (r, n', G)"
  shows "r = Inr () \<and> (rm \<or> entry F e base = None) \<and> G = move_entry (d, name) (e, base) (fs_next F) (stage F d name x) \<or>
    (\<exists>err. r = Inl err) \<and> G = stage F d name x"
proof -
  let ?S = "stage F d name x"
  note D = temp_okD [OF temp]
  have ent: "entry ?S e base = entry F e base" using stage_entry [OF D(1,4) x] ne by auto
  have ren: "r1 = Inr () \<and> G1 = move_entry (d, name) (e, base) (fs_next F) ?S \<or> (\<exists>err. r1 = Inl err) \<and> G1 = ?S"
    if "sys_rename tmp path E k ?S = (r1, k', G1)" for k r1 k' G1
    using that rename_staged [OF temp x p ne] by (auto simp: sys_rename_def sql_def split: if_splits sum.splits prod.splits)
  have noren: "r1 = Inr () \<and> entry F e base = None \<and> G1 = move_entry (d, name) (e, base) (fs_next F) ?S \<or> (\<exists>err. r1 = Inl err) \<and> G1 = ?S"
    if "sys_rename_noreplace tmp path E k ?S = (r1, k', G1)" for k r1 k' G1
    using that rename_staged [OF temp x p ne] staged_parent [OF temp x p] ent
    by (auto simp: sys_rename_noreplace_def sql_def split: if_splits sum.splits prod.splits)
  show ?thesis
  proof (cases rm)
    case True
    then show ?thesis using run ren by (auto simp: safeRename_def map_err_def handle_run throw_run)
  next
    case False
    obtain r1 k1 G1 where one: "sys_rename_noreplace tmp path E n ?S = (r1, k1, G1)" by (metis prod_cases3)
    show ?thesis
    proof (cases r1)
      case (Inr u)
      then show ?thesis using run noren [OF one] False one by (auto simp: safeRename_def handle_def)
    next
      case (Inl err)
      then have G1: "G1 = ?S" using noren [OF one] by auto
      consider "(\<exists>err. r = Inl err) \<and> G = ?S" | (two) k2 err' G2 where "sys_lstat path E k1 ?S = (Inl err', k2, G2)" "errors_is err' ErrNotExist"
          "map_err (EWrap ''rename'') (sys_rename tmp path) E k2 G2 = (r, n', G)" "err = ENOSYS"
        using run False one Inl G1 
        by (auto simp: safeRename_def handle_run bnd_run throw_run ret_run dest: quiet_run(4) split: if_splits)
      then show ?thesis
      proof cases
        case two
        have G2: "G2 = ?S" using quiet_run(4) two(1) by blast
        have "entry F e base = None"
        proof (rule ccontr)
          assume "entry F e base \<noteq> None"
          then obtain i where i: "entry ?S e base = Some i" using ent by auto
          have "fs_inode ?S i \<noteq> None" using stage_ok [OF temp x] i unfolding fs_ok_def by blast
          then have "resolve ?S path False = Inr i" using resolve_here [OF staged_parent [OF temp x p] i] by simp
          then show False using two(1,2) by (auto simp: sys_lstat_def peek_def sql_def on_inr_def errno_defs split: if_splits)
        qed
        then show ?thesis using two(3) ren [of k2] G2 by (auto simp: map_err_def handle_run throw_run)
      qed simp
    qed
  qed
qed

section \<open>The whole replacement\<close>

text \<open>
  What a finished replacement leaves: a new file under the name, every other entry and every other file as before. What a failed one
  leaves: every entry and every file as before, and at most a temporary file.
\<close>

definition replaced :: "filesystem \<Rightarrow> ino \<Rightarrow> string \<Rightarrow> inode \<Rightarrow> filesystem \<Rightarrow> bool" where
  "replaced F e base x G \<longleftrightarrow> fs_ok G \<and> fs_inode G (fs_next F) = Some x \<and> (\<forall>i. \<not> is_dir F i \<longrightarrow> i \<noteq> fs_next F \<longrightarrow> fs_inode G i = fs_inode F i) \<and>
     (\<forall>a n. entry G a n = (if (a, n) = (e, base) then Some (fs_next F) else entry F a n)) \<and> (\<forall>a. dir_of G a = dir_of F a) \<and> fs_cwd G = fs_cwd F"

definition untouched :: "filesystem \<Rightarrow> string \<Rightarrow> filesystem \<Rightarrow> bool" where
  "untouched F prefix G \<longleftrightarrow> fs_ok G \<and> (\<forall>i. fs_inode F i \<noteq> None \<longrightarrow> \<not> is_dir F i \<longrightarrow> fs_inode G i = fs_inode F i) \<and>
     (\<forall>a n. entry G a n = entry F a n \<or> entry F a n = None \<and> HasPrefix n prefix) \<and> (\<forall>a. dir_of G a = dir_of F a) \<and> fs_cwd G = fs_cwd F"

lemma untouched_refl: "fs_ok F \<Longrightarrow> untouched F prefix F"
  by (simp add: untouched_def)

lemma leftover_untouched:
  assumes temp: "temp_ok F tmp d name" and name: "HasPrefix name prefix" and left: "leftover F d name G"
  shows "untouched F prefix G"
proof -
  note D = temp_okD [OF temp]
  obtain x where x: "is_regular x" and G: "G = stage F d name x \<or> G = unlink_entry d name (stage F d name x)"
    using left by (auto simp: leftover_def)
  have S: "fs_ok (stage F d name x)" using stage_ok [OF temp x] .
  have ent: "entry (stage F d name x) a n = (if a = d \<and> n = name then Some (fs_next F) else entry F a n)" for a n
    using stage_entry [OF D(1,4) x] .
  have ino: "fs_inode (stage F d name x) i = fs_inode F i" if "fs_inode F i \<noteq> None" "\<not> is_dir F i" for i
    using that stage_inode [OF D(5)] D(4) fresh_inode [OF D(1)] by auto
  have dirs: "dir_of (stage F d name x) a = dir_of F a" for a using stage_dir_of [OF D(1) x] .
  from G show ?thesis
  proof
    assume "G = stage F d name x"
    then show ?thesis using S ent ino dirs D(3) name by (auto simp: untouched_def)
  next
    assume G: "G = unlink_entry d name (stage F d name x)"
    have "fs_ok G" unfolding fs_ok_def
    proof (intro conjI allI impI)
      fix i assume "fs_next G \<le> i"
      then show "fs_inode G i = None" using S by (auto simp: G fs_ok_def unlink_entry_def upd_inode_at)
    next
      fix a n i assume "entry G a n = Some i"
      then have "fs_inode (stage F d name x) i \<noteq> None" using S unfolding fs_ok_def by (auto simp: G entry_unlink split: if_splits)
      then show "fs_inode G i \<noteq> None" by (auto simp: G unlink_entry_def upd_inode_at)
    qed
    moreover have "fs_inode G i = fs_inode F i" if "fs_inode F i \<noteq> None" "\<not> is_dir F i" for i
      using ino [OF that] that D(4) by (auto simp: G unlink_entry_def upd_inode_at)
    ultimately show ?thesis using ent dirs D(3) by (auto simp: untouched_def G entry_unlink)
  qed
qed

lemma move_replaced:
  assumes temp: "temp_ok F tmp d name" and x: "is_regular x" and e: "is_dir F e" and ne: "(e, base) \<noteq> (d, name)"
    and G: "G = move_entry (d, name) (e, base) (fs_next F) (stage F d name x)"
  shows "replaced F e base x G"
proof -
  note M = move_file [OF temp x e ne G] and D = temp_okD [OF temp]
  have ent: "entry G a n = (if (a, n) = (e, base) then Some (fs_next F) else entry F a n)" for a n
    using M(3) [of a n] D(3) ne by (auto split: if_splits)
  have old: "fs_inode G i = None \<longleftrightarrow> fs_inode F i = None" if "i \<noteq> fs_next F" for i
    using that tmp_inode(1) [OF temp, of x] stage_inode [OF D(5)]
    by (auto simp: G move_entry_def link_entry_def unlink_entry_def upd_inode_at)
  have "fs_next G = Suc (fs_next F)" by (simp add: G move_entry_def)
  then have "fs_inode G i = None" if "fs_next G \<le> i" for i using that old [of i] D(1) by (auto simp: fs_ok_def)
  moreover have "fs_inode G i \<noteq> None" if "entry G a n = Some i" for a n i
  proof (cases "i = fs_next F")
    case False
    then have "entry F a n = Some i" using that ent [of a n] by (auto split: if_splits)
    then show ?thesis using old [OF False] D(1) unfolding fs_ok_def by blast
  qed (simp add: M(1))
  ultimately have "fs_ok G" by (simp add: fs_ok_def)
  then show ?thesis using M(1,2,4,5) ent by (simp add: replaced_def)
qed

definition new_file :: "string \<Rightarrow> file_mode \<Rightarrow> inode" where
  "new_file data perm = \<lparr>i_node = Regular data, i_mode = uint (mode_bits perm), i_uid = 0, i_gid = 0\<rparr>"

abbreviation temp_prefix :: "string \<Rightarrow> string" where
  "temp_prefix base \<equiv> ''.'' @ base @ ''.tmp-''"

lemma sync_dir_run: "sync_dir dir E n F = (r, n', G) \<Longrightarrow> r = Inr () \<and> G = F"
  unfolding sync_dir_def by (auto simp: ignoring_run bnd_run dest!: quiet_run)

lemma safeReplaceFile_run:
  assumes ok: "fs_ok F" and p: "resolve_parent F path = Inr (e, base)" and E: "plain_names E"
    and run: "safeReplaceFile path data perm rm E n F = (r, n', G)"
  shows "r = Inr () \<and> (rm \<or> entry F e base = None) \<and> replaced F e base (new_file data perm) G \<or>
    (\<exists>err. r = Inl err) \<and> untouched F (temp_prefix base) G" (is "?ok \<or> ?failed")
proof -
  let ?x = "new_file data perm"
  have base: "path_Base path = base" using Base_of_parent [OF p] by blast
  have x: "temp0\<lparr>i_node := Regular data, i_mode := uint (mode_bits perm)\<rparr> = ?x" and reg: "is_regular ?x"
    by (simp_all add: temp0_def new_file_def is_regular_def)
  obtain r1 n1 F1 where made: "CreateTemp (path_Dir path) (temp_prefix base) E n F = (r1, n1, F1)" by (metis prod_cases3)
  consider err where "r1 = Inl err" "F1 = F"
    | tmp d m where "r1 = Inr tmp" "temp_ok F tmp d (temp_prefix base @ ulid E m)" "F1 = stage F d (temp_prefix base @ ulid E m) temp0"
    using CreateTemp_run [OF made ok E] by blast
  then show ?thesis
  proof cases
    case 1
    then have "(\<exists>err. r = Inl err) \<and> G = F"
      using run made by (auto simp: safeReplaceFile_def Let_def base bnd_def map_err_def handle_def throw_def)
    then show ?thesis using untouched_refl [OF ok] by simp
  next
    case (2 tmp d m)
    let ?name = "temp_prefix base @ ulid E m"
    have ne: "(e, base) \<noteq> (d, ?name)" by (auto dest: arg_cong [of _ _ length])
    have failed: "untouched F (temp_prefix base) H" if "leftover F d ?name H" for H
      by (rule leftover_untouched [OF 2(2) _ that]) (simp add: HasPrefix_def)
    obtain r2 n2 F2 where filled: "fill_temp tmp data perm E n1 F1 = (r2, n2, F2)" by (metis prod_cases3)
    consider err where "r2 = Inl err" "leftover F d ?name F2" | "r2 = Inr ()" "F2 = stage F d ?name ?x"
      using fill_temp_run [OF 2(2) filled [unfolded 2(3)]] unfolding x by blast
    then show ?thesis
    proof cases
      case 1
      then have "(\<exists>err. r = Inl err) \<and> G = F2"
        using run made 2(1) filled by (auto simp: safeReplaceFile_def Let_def base bnd_def map_err_def handle_def throw_def)
      then show ?thesis using failed 1(2) by simp
    next
      case full: 2
      obtain r3 n3 F3 where moved: "safeRename tmp path rm E n2 F2 = (r3, n3, F3)" by (metis prod_cases3)
      have rest: "bnd (handle (safeRename tmp path rm) (\<lambda>e. bnd (ignoring (sys_remove tmp)) (\<lambda>_. throw e))) (\<lambda>_. sync_dir (path_Dir path)) E n2 F2 = (r, n', G)"
        using run made 2(1) filled full(1) by (simp add: safeReplaceFile_def Let_def base bnd_def map_err_def handle_def)
      consider err where "r3 = Inl err" "F3 = stage F d ?name ?x"
        | "r3 = Inr ()" "rm \<or> entry F e base = None" "F3 = move_entry (d, ?name) (e, base) (fs_next F) (stage F d ?name ?x)"
        using safeRename_run [OF 2(2) reg p ne moved [unfolded full(2)]] by (elim disjE conjE exE) metis+
      then show ?thesis
      proof cases
        case 1
        then have "bnd (ignoring (sys_remove tmp)) (\<lambda>_. throw err) E n3 F3 = (r, n', G)"
          using rest moved by (auto simp: bnd_run handle_run throw_run ignoring_run)
        then show ?thesis using clean_tmp [OF 2(2) reg] 1(2) failed by blast
      next
        case 2
        then have "sync_dir (path_Dir path) E n3 F3 = (r, n', G)" using rest moved by (simp add: bnd_def handle_def)
        then have "r = Inr () \<and> G = F3" by (rule sync_dir_run)
        then show ?thesis using 2(2) move_replaced [OF \<open>temp_ok F tmp d ?name\<close> reg resolve_parent_dir [OF p] ne 2(3)] by simp
      qed
    qed
  qed
qed

end
