(* ===== verification/Sys_Fs_Safety.thy ===== *)
theory Sys_Fs_Safety
  imports Sys_Fs_Props
begin

text \<open>
  What the operations of the \<open>Manager\<close> do to the file system of a root agent: a written file is complete or not there, and what
  \<open>ReadFile\<close> reads is what \<open>WriteFile\<close> wrote; a removed directory takes nothing outside itself with it; protected trees are refused.
\<close>

section \<open>Resolution survives a replacement\<close>

text \<open>Something a path cannot go through.\<close>

definition plain :: "filesystem \<Rightarrow> ino \<Rightarrow> bool" where
  "plain F i \<longleftrightarrow> (case node_at F i of Some (Directory _ _) \<Rightarrow> False | Some (Symlink _) \<Rightarrow> False | _ \<Rightarrow> True)"

definition same_ways :: "filesystem \<Rightarrow> filesystem \<Rightarrow> bool" where
  "same_ways F G \<longleftrightarrow> fs_cwd G = fs_cwd F \<and> (\<forall>d p es. node_at F d = Some (Directory p es) \<longrightarrow> (\<exists>es'. node_at G d = Some (Directory p es'))) \<and>
     (\<forall>d c j. entry F d c = Some j \<longrightarrow> plain F j \<or> entry G d c = Some j) \<and>
     (\<forall>j t. node_at F j = Some (Symlink t) \<longrightarrow> node_at G j = Some (Symlink t))"

lemma same_ways_dir: "same_ways F G \<Longrightarrow> is_dir F d \<Longrightarrow> is_dir G d"
  unfolding same_ways_def by (metis is_dirE is_dirI)

lemma walk_same:
  assumes "same_ways F G" and "walk F k d cs fl = Inr i" and "is_dir F i"
  shows "walk G k d cs fl = Inr i"
  using assms
proof (induction F k d cs fl rule: walk.induct)
  case (2 F k d c cs fl)
  obtain p es where d: "node_at F d = Some (Directory p es)"
    using "2.prems"(2) by (auto split: option.splits node.splits)
  obtain es' where d': "node_at G d = Some (Directory p es')" using "2.prems"(1) d unfolding same_ways_def by blast
  show ?case
  proof (cases "c = '''' \<or> c = ''.'' \<or> c = ''..''")
    case True
    then show ?thesis using 2 d d' by auto
  next
    case False
    then obtain j where j: "map_of es c = Some j" using "2.prems"(2) d by (auto split: option.splits)
    then have e: "entry F d c = Some j" by (simp add: entry_def entries_of_def d)
    have np: "\<not> plain F j"
      using "2.prems"(2,3) d j False by (cases cs) (auto simp: plain_def is_dir_def split: option.splits node.splits if_splits)
    then have "entry G d c = Some j" using "2.prems"(1) e unfolding same_ways_def by blast
    then have e': "map_of es' c = Some j" by (simp add: entry_def entries_of_def d')
    show ?thesis
    proof (cases "\<exists>t. node_at F j = Some (Symlink t)")
      case True
      then obtain t where t: "node_at F j = Some (Symlink t)" by blast
      then have "node_at G j = Some (Symlink t)" using "2.prems"(1) by (simp add: same_ways_def)
      then show ?thesis using 2 d d' j e' t False by (auto split: if_splits)
    next
      case nolink: False
      then obtain q fs where q: "node_at F j = Some (Directory q fs)" using np by (auto simp: plain_def split: option.splits node.splits)
      then obtain fs' where "node_at G j = Some (Directory q fs')" using "2.prems"(1) unfolding same_ways_def by blast
      then show ?thesis using 2 d d' j e' q False by auto
    qed
  qed
qed simp

lemma resolve_parent_same:
  assumes ways: "same_ways F G" and run: "resolve_parent F p = Inr a"
  shows "resolve_parent G p = Inr a"
proof -
  obtain d name where a: "a = (d, name)" by (cases a)
  have w: "walk F 40 (start_dir F p) (butlast (Split p slash)) True = Inr d" and d: "is_dir F d"
    using run by (auto simp: resolve_parent_def Let_def a split: if_splits sum.splits)
  have "start_dir G p = start_dir F p" using ways by (simp add: start_dir_def same_ways_def)
  moreover have "is_dir G d" using same_ways_dir [OF ways d] .
  ultimately show ?thesis
    using run walk_same [OF ways w d] by (auto simp: resolve_parent_def Let_def a split: if_splits sum.splits)
qed

lemma replaced_ways:
  assumes "fs_ok F" and "replaced F e base x G" and "\<forall>j. entry F e base = Some j \<longrightarrow> plain F j"
  shows "same_ways F G"
proof -
  have "node_at G j = Some (Symlink t)" if j: "node_at F j = Some (Symlink t)" for j t
  proof -
    have "\<not> is_dir F j" "j \<noteq> fs_next F" using j fresh_node [OF assms(1)] by (auto simp: is_dir_def)
    then have "fs_inode G j = fs_inode F j" using assms(2) by (simp add: replaced_def)
    then show ?thesis using j by (simp add: node_at_def)
  qed
  moreover have "\<exists>es'. node_at G d = Some (Directory p es')" if "node_at F d = Some (Directory p es)" for d p es
    using that assms(2) dir_of_node [of G d F] by (simp add: replaced_def)
  ultimately show ?thesis using assms(2,3) by (auto simp: same_ways_def replaced_def)
qed

lemma untouched_ways:
  assumes "fs_ok F" and "untouched F prefix G"
  shows "same_ways F G"
proof -
  have "node_at G j = Some (Symlink t)" if j: "node_at F j = Some (Symlink t)" for j t
  proof -
    have "\<not> is_dir F j" "fs_inode F j \<noteq> None" using j by (auto simp: is_dir_def node_at_def)
    then have "fs_inode G j = fs_inode F j" using assms(2) by (simp add: untouched_def)
    then show ?thesis using j by (simp add: node_at_def)
  qed
  moreover have "\<exists>es'. node_at G d = Some (Directory p es')" if "node_at F d = Some (Directory p es)" for d p es
    using that assms(2) dir_of_node [of G d F] by (simp add: untouched_def)
  moreover have "entry G d c = Some j" if "entry F d c = Some j" for d c j
    using that assms(2) unfolding untouched_def by (metis option.distinct(1))
  ultimately show ?thesis using assms(2) unfolding same_ways_def untouched_def by blast
qed

section \<open>Ownership\<close>

lemma replaced_update:
  assumes "replaced F e base x G" and "i_node (f x) = i_node x" and "is_regular x"
  shows "replaced F e base (f x) (upd_inode (fs_next F) f G)"
proof -
  let ?H = "upd_inode (fs_next F) f G"
  have new: "fs_inode G (fs_next F) = Some x" using assms(1) by (simp add: replaced_def)
  have nodes: "node_at ?H j = node_at G j" for j using new assms(2) by (simp add: node_at_upd) (simp add: node_at_def)
  then have "entry ?H a n = entry G a n" for a n by (simp add: entry_def entries_of_def)
  moreover have "dir_of ?H a = dir_of G a" for a
    using new assms(2,3) by (auto simp: dir_of_def upd_inode_at dir_attrs_def is_regular_def split: node.splits)
  moreover have "fs_ok G" using assms(1) by (simp add: replaced_def)
  then have "fs_ok ?H" using calculation(1) new unfolding fs_ok_def by (auto simp: upd_inode_at)
  ultimately show ?thesis using assms(1) new unfolding replaced_def by (simp add: upd_inode_at)
qed

definition owned :: "int \<Rightarrow> int \<Rightarrow> inode \<Rightarrow> inode" where
  "owned uid gid x = x\<lparr>i_uid := (if uid = -1 then i_uid x else uid), i_gid := (if gid = -1 then i_gid x else gid)\<rparr>"

lemma FchownNoFollow_run:
  assumes ok: "fs_ok G" and p: "resolve_parent G path = Inr (e, base)" and ent: "entry G e base = Some i" and x: "fs_inode G i = Some x" "is_regular x"
    and run: "FchownNoFollow path uid gid E n G = (r, n', H)"
  shows "r = Inr () \<and> H = upd_inode i (owned uid gid) G \<or> (\<exists>err. r = Inl err) \<and> H = G"
proof -
  have "resolve G path False = Inr i" using resolve_here [OF p ent] x by simp
  then have open_i: "open_inode G path True False = Inr i"
    using x by (auto simp: open_inode_def node_at_def is_regular_def split: node.splits)
  have opened: "r1 = Inr i \<and> G1 = G \<or> (\<exists>err. r1 = Inl err) \<and> G1 = G" if "sys_open path True False E k G = (r1, k', G1)" for k r1 k' G1
    using that open_i by (auto simp: sys_open_def peek_def sql_def split: if_splits)
  have stat: "r1 = Inr x \<and> G1 = G \<or> (\<exists>err. r1 = Inl err) \<and> G1 = G" if "sys_fstat i E k G = (r1, k', G1)" for k r1 k' G1
    using that x by (auto simp: sys_fstat_def peek_def sql_def inode_of_def split: if_splits)
  have chown: "r1 = Inr () \<and> G1 = upd_inode i (owned uid gid) G \<or> (\<exists>err. r1 = Inl err) \<and> G1 = G"
    if "sys_fchown i uid gid E k G = (r1, k', G1)" for k r1 k' G1
    using that by (auto simp: sys_fchown_def sql_def owned_def [abs_def] split: if_splits)
  have quiet: "r1 = Inr () \<and> G2 = G1" if "ignoring (sys_close i) E k G1 = (r1, k', G2)" for k r1 k' G1 G2
    using that quiet_run(1) by (auto simp: ignoring_run)
  from run show ?thesis
    unfolding FchownNoFollow_def
    by (auto simp: bnd_run map_err_def handle_run throw_run on_error_run x(2) dest!: opened stat chown quiet)
qed

section \<open>Writing a file\<close>

definition file_of :: "accounts \<Rightarrow> string \<Rightarrow> write_options \<Rightarrow> inode" where
  "file_of A data opts = (case ResolveOwnership A (wo_owner opts) (wo_group opts) of
     Inr (uid, gid) \<Rightarrow> owned uid gid (new_file data (perm_of opts)) | Inl _ \<Rightarrow> new_file data (perm_of opts))"

lemma set_owner_run:
  assumes ok: "fs_ok F" and p: "resolve_parent F path = Inr (e, base)" and rep: "replaced F e base (new_file data (perm_of opts)) G"
    and owner: "wo_owner opts \<noteq> '''' \<or> wo_group opts \<noteq> '''' \<Longrightarrow> \<forall>j. entry F e base = Some j \<longrightarrow> plain F j"
    and run: "set_owner A path opts E n G = (r, n', H)"
  shows "r = Inr () \<and> replaced F e base (file_of A data opts) H \<or> (\<exists>err. r = Inl err) \<and> replaced F e base (new_file data (perm_of opts)) H"
proof (cases "wo_owner opts \<noteq> '''' \<or> wo_group opts \<noteq> ''''")
  case False
  then have "file_of A data opts = new_file data (perm_of opts)"
    by (simp add: file_of_def ResolveOwnership_def owned_def new_file_def)
  then show ?thesis using run rep False by (auto simp: set_owner_def ret_run)
next
  case True
  let ?x = "new_file data (perm_of opts)"
  have reg: "is_regular ?x" by (simp add: is_regular_def new_file_def)
  have G: "fs_ok G" "entry G e base = Some (fs_next F)" "fs_inode G (fs_next F) = Some ?x" using rep by (simp_all add: replaced_def)
  have p': "resolve_parent G path = Inr (e, base)" by (rule resolve_parent_same [OF replaced_ways [OF ok rep owner [OF True]] p])
  show ?thesis
  proof (cases "ResolveOwnership A (wo_owner opts) (wo_group opts)")
    case (Inl err)
    then show ?thesis using run rep True by (auto simp: set_owner_def bnd_def lift_sum_def throw_def)
  next
    case (Inr ids)
    then obtain uid gid where ids: "ids = (uid, gid)" by (cases ids)
    have fo: "file_of A data opts = owned uid gid ?x" using Inr ids by (simp add: file_of_def)
    have "map_err (EWrap ''set ownership'') (FchownNoFollow path uid gid) E n G = (r, n', H)"
      using run True Inr ids by (simp add: set_owner_def bnd_def lift_sum_def ret_def)
    then have "r = Inr () \<and> H = upd_inode (fs_next F) (owned uid gid) G \<or> (\<exists>err. r = Inl err) \<and> H = G"
      by (auto simp: map_err_def handle_run throw_run dest!: FchownNoFollow_run [OF G(1) p' G(2,3) reg])
    then show ?thesis using rep replaced_update [OF rep, of "owned uid gid"] reg by (auto simp: fo owned_def)
  qed
qed

text \<open>The operations that write without a backup; \<open>rm\<close> is false for the exclusive one.\<close>

definition written :: "accounts \<Rightarrow> filesystem \<Rightarrow> ino \<Rightarrow> string \<Rightarrow> bool \<Rightarrow> string \<Rightarrow> write_options \<Rightarrow> go_error + unit \<Rightarrow> filesystem \<Rightarrow> bool" where
  "written A F e base rm data opts r G \<longleftrightarrow>
     (r = Inr () \<and> (rm \<or> entry F e base = None) \<and> replaced F e base (file_of A data opts) G) \<or>
     (r \<noteq> Inr () \<and> ((rm \<or> entry F e base = None) \<and> replaced F e base (new_file data (perm_of opts)) G \<or> untouched F (temp_prefix base) G))"

lemma replace_and_own:
  assumes ok: "fs_ok F" and p: "resolve_parent F path = Inr (e, base)" and E: "plain_names E"
    and owner: "wo_owner opts \<noteq> '''' \<or> wo_group opts \<noteq> '''' \<Longrightarrow> \<forall>j. entry F e base = Some j \<longrightarrow> plain F j"
    and run: "bnd (map_err w (safeReplaceFile path data (perm_of opts) rm)) (\<lambda>_. set_owner A path opts) E n F = (r, n', H)"
  shows "written A F e base rm data opts r H"
proof -
  obtain r1 n1 G where one: "safeReplaceFile path data (perm_of opts) rm E n F = (r1, n1, G)" by (metis prod_cases3)
  consider err where "r1 = Inl err" "untouched F (temp_prefix base) G"
    | "r1 = Inr ()" "rm \<or> entry F e base = None" "replaced F e base (new_file data (perm_of opts)) G"
    using safeReplaceFile_run [OF ok p E one] by metis
  then show ?thesis
  proof cases
    case 1
    then have "r = Inl (w err)" "H = G" using run one by (auto simp: bnd_def map_err_def handle_def throw_def)
    then show ?thesis using 1 by (simp add: written_def)
  next
    case 2
    then have "set_owner A path opts E n1 G = (r, n', H)" using run one by (simp add: bnd_def map_err_def handle_def)
    from set_owner_run [OF ok p 2(3) owner this] show ?thesis using 2(2) by (auto simp: written_def)
  qed
qed

lemma in_files_run: "in_files m E n s = (r, n', s') \<longleftrightarrow> (\<exists>F. m E n (sy_files s) = (r, n', F) \<and> s' = s\<lparr>sy_files := F\<rparr>)"
  by (cases "m E n (sy_files s)") (auto simp: in_files_def)

lemma written_refl: "fs_ok F \<Longrightarrow> written A F e base rm data opts (Inl err) F"
  by (simp add: written_def untouched_refl)

lemma WriteFile_written:
  assumes "direct m" and "wo_backup opts = ''''" and ok: "fs_ok (sy_files s)" and p: "resolve_parent (sy_files s) path = Inr (e, base)"
    and E: "plain_names E"
    and owner: "wo_owner opts \<noteq> '''' \<or> wo_group opts \<noteq> '''' \<Longrightarrow> \<forall>j. entry (sy_files s) e base = Some j \<longrightarrow> plain (sy_files s) j"
    and run: "WriteFile m path data opts E n s = (r, n', s')"
  shows "written (fm_accounts m) (sy_files s) e base True data opts r (sy_files s') \<and> sy_world s' = sy_world s"
proof -
  consider err where "r = Inl err" "s' = s" | "in_files (writeDirect (fm_accounts m) path data opts) E (Suc n) s = (r, n', s')"
    using run assms(1,2) by (auto simp: WriteFile_def ctx_check_def bnd_def ctx_done_def throw_def ret_def unless_error_def split: option.splits if_splits)
  then show ?thesis
  proof cases
    case 1
    then show ?thesis using written_refl [OF ok] by simp
  next
    case 2
    then obtain G where "writeDirect (fm_accounts m) path data opts E (Suc n) (sy_files s) = (r, n', G)" "s' = s\<lparr>sy_files := G\<rparr>"
      by (auto simp: in_files_run)
    then show ?thesis using replace_and_own [OF ok p E owner] assms(2) by (simp add: writeDirect_def)
  qed
qed


theorem WriteFileExclusive_atomic:
  assumes "direct m" and ok: "fs_ok (sy_files s)" and p: "resolve_parent (sy_files s) path = Inr (e, base)"
    and E: "plain_names E" and run: "WriteFileExclusive m path data opts E n s = (r, n', s')"
    and owner: "\<forall>j. entry (sy_files s) e base = Some j \<longrightarrow> plain (sy_files s) j"
  shows "written (fm_accounts m) (sy_files s) e base False data opts r (sy_files s') \<and> sy_world s' = sy_world s"
proof -
  consider err where "r = Inl err" "s' = s" | "in_files (writeExclusiveDirect (fm_accounts m) path data opts) E (Suc n) s = (r, n', s')"
    using run assms(1) by (auto simp: WriteFileExclusive_def ctx_check_def bnd_def ctx_done_def throw_def ret_def unless_error_def split: option.splits if_splits)
  then show ?thesis
  proof cases
    case 1
    then show ?thesis using written_refl [OF ok] by simp
  next
    case 2
    then obtain G where "writeExclusiveDirect (fm_accounts m) path data opts E (Suc n) (sy_files s) = (r, n', G)" "s' = s\<lparr>sy_files := G\<rparr>"
      by (auto simp: in_files_run)
    then show ?thesis using replace_and_own [OF ok p E] owner by (simp add: writeExclusiveDirect_def)
  qed
qed

section \<open>Without failures\<close>

lemma walk_trailing: "walk F k d (cs @ ['''']) True = Inr i \<Longrightarrow> walk F k d cs True = Inr i"
proof (induction F k d cs True rule: walk.induct)
  case (1 F k d)
  then show ?case by (simp split: option.splits node.splits)
next
  case (2 F k d c cs)
  obtain p es where d: "node_at F d = Some (Directory p es)" using "2.prems" by (auto split: option.splits node.splits)
  show ?case
  proof (cases "c = '''' \<or> c = ''.'' \<or> c = ''..''")
    case True
    then show ?thesis using 2 d by auto
  next
    case False
    then obtain j where j: "map_of es c = Some j" using "2.prems" d by (auto split: option.splits)
    show ?thesis
    proof (cases "\<exists>t. node_at F j = Some (Symlink t)")
      case True
      then show ?thesis using 2 d j False by (auto split: if_splits)
    next
      case nolink: False
      then have step: "walk F k d (c # xs) True = walk F k j xs True" for xs
        using d j False by (auto split: option.splits node.splits)
      have rest: "walk F k j (cs @ ['''']) True = Inr i" using "2.prems" step [of "cs @ ['''']"] by simp
      show ?thesis
      proof (cases "node_at F j")
        case None
        then show ?thesis using rest by (cases cs) auto
      next
        case (Some x)
        then show ?thesis using 2 d j False nolink rest step by (cases x) auto
      qed
    qed
  qed
qed

lemma resolve_parent_join:
  assumes dir: "resolve F dir True = Inr d" "is_dir F d" and name: "slash \<notin> set name" "name \<noteq> ''''" "name \<noteq> ''.''" "name \<noteq> ''..''"
  shows "resolve_parent F (join_name dir name) = Inr (d, name)"
proof -
  have ne: "dir \<noteq> ''''" and w: "walk F 40 (start_dir F dir) (Split dir slash) True = Inr d"
    using dir(1) by (auto simp: resolve_def split: if_splits sum.splits)
  have abs: "start_dir F (join_name dir name) = start_dir F dir"
    using ne by (cases dir) (auto simp: start_dir_def IsAbs_def join_name_def HasPrefix_def)
  have "\<exists>cs. Split (join_name dir name) slash = cs @ [name] \<and> walk F 40 (start_dir F dir) cs True = Inr d"
  proof (cases "HasSuffix dir ''/''")
    case False
    then have "Split (join_name dir name) slash = Split dir slash @ [name]"
      using name(1) by (simp add: join_name_def Split_app Split_none)
    then show ?thesis using w by blast
  next
    case True
    then obtain a where a: "dir = a @ ''/''" unfolding HasSuffix_def by (metis append_take_drop_id)
    then have "Split (join_name dir name) slash = Split a slash @ [name]"
      using True name(1) by (simp add: join_name_def Split_app Split_none)
    moreover have "Split dir slash = Split a slash @ ['''']" by (simp add: a Split_app)
    ultimately show ?thesis using w walk_trailing [of F 40 "start_dir F dir" "Split a slash" d] by metis
  qed
  then obtain cs where cs: "Split (join_name dir name) slash = cs @ [name]" "walk F 40 (start_dir F dir) cs True = Inr d" by blast
  have "join_name dir name \<noteq> ''''" using name(2) by (simp add: join_name_def)
  then show ?thesis using name(2-4) dir(2) cs by (simp add: resolve_parent_def Let_def abs)
qed

definition calm :: "env \<Rightarrow> bool" where
  "calm E \<longleftrightarrow> (\<forall>n. \<not> fault E n \<and> \<not> cancelled E n)"

lemma calm_peek: "calm E \<Longrightarrow> peek f E n F = (f F, Suc n, F)"
  by (simp add: peek_def sql_def calm_def split: sum.splits)

lemma calm_syscall: "calm E \<Longrightarrow> syscall f E n F = (case f F of Inl e \<Rightarrow> (Inl e, Suc n, F) | Inr (x, G) \<Rightarrow> (Inr x, Suc n, G))"
  by (simp add: sql_def calm_def)

lemma calm_quiet: "calm E \<Longrightarrow> sys_close fd E n F = (Inr (), Suc n, F)" "calm E \<Longrightarrow> sys_sync fd E n F = (Inr (), Suc n, F)"
  by (simp_all add: sys_close_def sys_sync_def calm_peek)

lemma staged_open:
  assumes temp: "temp_ok F tmp d name" and x: "is_regular x"
  shows "open_inode (stage F d name x) tmp True False = Inr (fs_next F)"
proof -
  have "resolve (stage F d name x) tmp False = Inr (fs_next F)"
    using x by (intro resolve_child [OF staged_parent [OF temp x temp_okD(2) [OF temp]] tmp_entry [OF temp x]])
      (auto simp: tmp_inode [OF temp] is_regular_def)
  then show ?thesis using x tmp_inode(2) [OF temp, of x] by (auto simp: open_inode_def is_regular_def split: node.splits)
qed

lemma calm_fill:
  assumes temp: "temp_ok F tmp d name" and E: "calm E"
  shows "\<exists>k. fill_temp tmp data perm E n (stage F d name temp0) = (Inr (), k, stage F d name (new_file data perm))"
proof -
  let ?x1 = "temp0\<lparr>i_node := Regular data\<rparr>" and ?m = "uint (mode_bits perm)"
  have reg: "is_regular temp0" and x1: "overwrite data temp0 = ?x1" and x2: "?x1\<lparr>i_mode := ?m\<rparr> = new_file data perm"
    by (simp_all add: is_regular_def temp0_def overwrite_def new_file_def)
  have "\<not> is_dir (stage F d name temp0) (fs_next F)"
    using tmp_inode(2) [OF temp, of temp0] by (simp add: is_dir_def temp0_def)
  then have "sys_open tmp True False E k (stage F d name temp0) = (Inr (fs_next F), Suc k, stage F d name temp0)"
    and "sys_write (fs_next F) data E k (stage F d name temp0) = (Inr (), Suc k, stage F d name ?x1)"
    and "sys_fchmod (fs_next F) ?m E k (stage F d name ?x1) = (Inr (), Suc k, stage F d name (new_file data perm))" for k
    using staged_open [OF temp reg] E stage_update [OF temp]
    by (simp_all add: sys_open_def calm_peek sys_write_def sys_fchmod_def calm_syscall x1 x2 E [unfolded calm_def])
  then show ?thesis by (simp add: fill_temp_def Let_def bnd_def on_error_def handle_def calm_quiet [OF E])
qed

lemma calm_rename:
  assumes temp: "temp_ok F tmp d name" and x: "is_regular x" and p: "resolve_parent F path = Inr (e, base)" and ne: "(e, base) \<noteq> (d, name)"
    and free: "\<forall>j. entry F e base = Some j \<longrightarrow> \<not> is_dir F j" and E: "calm E"
  shows "sys_rename tmp path E n (stage F d name x) = (Inr (), Suc n, move_entry (d, name) (e, base) (fs_next F) (stage F d name x))"
proof -
  note D = temp_okD [OF temp]
  have ent: "entry (stage F d name x) e base = entry F e base" using stage_entry [OF D(1,4) x] ne by auto
  have "entry F e base \<noteq> Some (fs_next F)" using D(1) fresh_inode [OF D(1)] unfolding fs_ok_def by metis
  then have "rename_to (stage F d name x) tmp path = Inr ((), move_entry (d, name) (e, base) (fs_next F) (stage F d name x))"
    using free staged_parent [OF temp x D(2)] staged_parent [OF temp x p] tmp_entry [OF temp x] ent stage_dir [OF D(1) x]
    by (auto simp: rename_to_def split: option.splits)
  then show ?thesis using E by (simp add: sys_rename_def calm_syscall)
qed

lemma calm_replace:
  assumes ok: "fs_ok F" and p: "resolve_parent F path = Inr (e, base)" and E: "plain_names E" "calm E"
    and dir: "resolve F (path_Dir path) True = Inr d" "is_dir F d" and free: "entry F d (temp_prefix base @ ulid E n) = None"
    and nodir: "\<forall>j. entry F e base = Some j \<longrightarrow> \<not> is_dir F j"
  shows "\<exists>k G. safeReplaceFile path data perm True E n F = (Inr (), k, G)"
proof -
  let ?name = "temp_prefix base @ ulid E n" and ?x = "new_file data perm"
  let ?tmp = "join_name (path_Dir path) ?name"
  have b: "path_Base path = base" "slash \<notin> set base" using Base_of_parent [OF p] by auto
  have "slash \<notin> set ?name" using b(2) E(1) by (simp add: plain_names_def)
  then have rp: "resolve_parent F ?tmp = Inr (d, ?name)" by (intro resolve_parent_join [OF dir]) auto
  then have temp: "temp_ok F ?tmp d ?name" using ok free by (simp add: temp_ok_def)
  have reg: "is_regular ?x" by (simp add: new_file_def is_regular_def)
  have "sys_create_excl ?tmp E (Suc n) F = (Inr (fs_next F), Suc (Suc n), stage F d ?name temp0)"
    using rp free E(2) by (simp add: sys_create_excl_def calm_syscall new_inode_def stage_def temp0_def)
  then have made: "CreateTemp (path_Dir path) (temp_prefix base) E n F = (Inr ?tmp, Suc (Suc n), stage F d ?name temp0)"
    using b(2) by (simp add: CreateTemp_def temp_loop.simps [of 0] bnd_def ulid_make_def Let_def handle_def ret_def)
  obtain k where filled: "fill_temp ?tmp data perm E (Suc (Suc n)) (stage F d ?name temp0) = (Inr (), k, stage F d ?name ?x)"
    using calm_fill [OF temp E(2)] by blast
  have ne: "(e, base) \<noteq> (d, ?name)" by (auto dest: arg_cong [of _ _ length])
  obtain k2 G where "sync_dir (path_Dir path) E (Suc k) (move_entry (d, ?name) (e, base) (fs_next F) (stage F d ?name ?x)) = (Inr (), k2, G)"
    using sync_dir_run by (metis prod_cases3)
  then show ?thesis
    using made filled calm_rename [OF temp reg p ne nodir E(2), of k] b(1)
    by (simp add: safeReplaceFile_def Let_def bnd_def map_err_def handle_def safeRename_def)
qed

lemma plain_not_dir: "plain F j \<Longrightarrow> \<not> is_dir F j"
  by (auto simp: plain_def is_dir_def split: option.splits node.splits)

text \<open>Nothing is wrong: the path and the options are valid, its directory is there, the drawn temporary name is free and the name is
  free or that of a file.\<close>

definition writable :: "env \<Rightarrow> nat \<Rightarrow> filesystem \<Rightarrow> string \<Rightarrow> write_options \<Rightarrow> ino \<Rightarrow> string \<Rightarrow> bool" where
  "writable E n F path opts e base \<longleftrightarrow> calm E \<and> plain_names E \<and> fs_ok F \<and> ValidatePath path = None \<and> validateMode (wo_mode opts) = None \<and>
     wo_owner opts = '''' \<and> wo_group opts = '''' \<and> wo_backup opts = '''' \<and> resolve_parent F path = Inr (e, base) \<and>
     resolve F (path_Dir path) True = Inr e \<and> entry F e (temp_prefix base @ ulid E (Suc n)) = None \<and>
     (\<forall>j. entry F e base = Some j \<longrightarrow> plain F j)"

lemma WriteFile_succeeds:
  assumes "direct m" and w: "writable E n (sy_files s) path opts e base"
  shows "\<exists>k G. WriteFile m path data opts E n s = (Inr (), k, s\<lparr>sy_files := G\<rparr>) \<and> replaced (sy_files s) e base (new_file data (perm_of opts)) G"
proof -
  let ?F = "sy_files s"
  note W = w [unfolded writable_def]
  have nodir: "\<forall>j. entry ?F e base = Some j \<longrightarrow> \<not> is_dir ?F j" using W plain_not_dir by blast
  have e: "is_dir ?F e" using W resolve_parent_dir [of ?F path e base] by simp
  have "\<exists>k G. safeReplaceFile path data (perm_of opts) True E (Suc n) ?F = (Inr (), k, G)"
    by (rule calm_replace [OF _ _ _ _ _ e _ nodir]) (insert W, elim conjE, assumption)+
  then obtain k G where one: "safeReplaceFile path data (perm_of opts) True E (Suc n) ?F = (Inr (), k, G)" by blast
  have "replaced ?F e base (new_file data (perm_of opts)) G"
    using safeReplaceFile_run [OF _ _ _ one, of e base] W by auto
  moreover have "WriteFile m path data opts E n s = (Inr (), k, s\<lparr>sy_files := G\<rparr>)"
    using assms(1) W one by (simp add: WriteFile_def ctx_check_def bnd_def ctx_done_def calm_def unless_error_def ret_def in_files_def
      writeDirect_def map_err_def handle_def set_owner_def)
  ultimately show ?thesis by blast
qed

lemma ReadFile_finds:
  assumes "direct m" and E: "calm E" and "ValidatePath path = None" and p: "resolve_parent (sy_files s) path = Inr (e, base)"
    and ent: "entry (sy_files s) e base = Some i" and x: "fs_inode (sy_files s) i = Some x" "i_node x = Regular data"
  shows "\<exists>k. ReadFile m path E n s = (Inr (if data = '''' then None else Some data), k, s)"
proof -
  let ?F = "sy_files s"
  have "resolve ?F path True = Inr i" using x by (intro resolve_child [OF p ent]) (auto simp: node_at_def)
  then have "open_inode ?F path False False = Inr i" using x by (simp add: open_inode_def node_at_def)
  then show ?thesis
    using assms(1,3) x by (simp add: ReadFile_def bnd_def unless_error_def ret_def in_files_def sys_open_def sys_read_all_def calm_peek [OF E]
      handle_def node_at_def ignoring_def calm_quiet [OF E])
qed


end
