(* ===== verification/Agent_Credentials.thy ===== *)
theory Agent_Credentials
  imports Sys_Fs_Safety
begin

unbundle bit_operations_syntax

text \<open>
  \<^verbatim>\<open>agent/internal/credentials\<close>: the identity of a device, one JSON file in a directory only root can read. \<open>Save\<close> replaces the file,
  \<open>Load\<close> reads it back. \<^verbatim>\<open>encoding/json\<close> is a parameter; what the store relies on is \<open>json_laws\<close>: credentials whose text is valid UTF-8
  are encoded, and decoding gives them back.
\<close>

section \<open>Credentials\<close>

record credentials =
  cr_device_id :: string
  cr_ca_cert :: string
  cr_certificate :: string
  cr_pending_certificate :: string
  cr_pending_private_key :: string
  cr_pending_csr :: string
  cr_private_key :: string
  cr_agent_addr :: string

definition credentialsFile :: string where "credentialsFile = ''credentials.json''"
definition DefaultDataDir :: string where "DefaultDataDir = ''/var/lib/cadestro''"

text \<open>\<open>None\<close> is a nil pointer.\<close>

definition Ready :: "credentials option \<Rightarrow> bool" where
  "Ready c = (case c of None \<Rightarrow> False | Some c \<Rightarrow> cr_device_id c \<noteq> '''' \<and> cr_ca_cert c \<noteq> '''' \<and> cr_certificate c \<noteq> '''' \<and>
     cr_private_key c \<noteq> '''' \<and> cr_agent_addr c \<noteq> '''' \<and> cr_pending_csr c = '''' \<and> cr_pending_private_key c = '''')"

record credential_json =
  json_marshal :: "credentials \<Rightarrow> string option"
  json_unmarshal :: "string \<Rightarrow> credentials option"
  json_text :: "string \<Rightarrow> bool" \<comment> \<open>valid UTF-8\<close>

definition json_laws :: "credential_json \<Rightarrow> bool" where
  "json_laws J \<longleftrightarrow> (\<forall>c. json_text J (cr_device_id c) \<and> json_text J (cr_agent_addr c) \<longrightarrow>
     (\<exists>b. json_marshal J c = Some b \<and> json_unmarshal J b = Some c)) \<and> json_text J ''''"

section \<open>The store\<close>

record cred_store =
  st_data_dir :: string
  st_fs :: "go_error + fs_manager"

text \<open>The process runner is a parameter: \<open>runner\<close> is what \<^verbatim>\<open>NewRunner(Direct)\<close> returns.\<close>

definition NewStore :: "go_error + fs_manager \<Rightarrow> string \<Rightarrow> cred_store" where
  "NewStore runner dataDir = \<lparr>st_data_dir = (if dataDir = '''' then DefaultDataDir else dataDir),
     st_fs = (case runner of
       Inl e \<Rightarrow> Inl (EWrap ''credentials: build direct runner'' e)
     | Inr m \<Rightarrow> (case fs_New (Some m) of Inl e \<Rightarrow> Inl (EWrap ''credentials: build fs manager'' e) | Inr m \<Rightarrow> Inr m))\<rparr>"

definition owner_options :: write_options where
  "owner_options = \<lparr>wo_mode = 0x180, wo_owner = '''', wo_group = '''', wo_backup = ''''\<rparr>"

definition store_writeFile :: "cred_store \<Rightarrow> string \<Rightarrow> string \<Rightarrow> (system, unit) prog" where
  "store_writeFile st path data = (case st_fs st of Inl e \<Rightarrow> throw e | Inr m \<Rightarrow> WriteFile m path data owner_options)"

definition requireOwnerOnlyDir :: "string \<Rightarrow> unit fs_prog" where
  "requireOwnerOnlyDir dir = bnd (map_err (EWrap ''stat store directory'') (sys_stat dir)) (\<lambda>info.
     case i_node info of
       Directory _ _ \<Rightarrow> if i_mode info AND 0x1FF \<noteq> 0x1C0 then throw (EText ''store directory must have owner-only permissions (0700)'') else ret ()
     | _ \<Rightarrow> throw (EText ''store path is not a directory''))"

definition credPath :: "cred_store \<Rightarrow> string" where
  "credPath st = path_Join [st_data_dir st, credentialsFile]"

definition Save :: "credential_json \<Rightarrow> cred_store \<Rightarrow> credentials \<Rightarrow> (system, unit) prog" where
  "Save J st creds =
     bnd (map_err (EWrap ''create data directory'') (in_files (MkdirAll (st_data_dir st) 0x1C0))) (\<lambda>_.
     bnd (map_err (EWrap ''secure data directory'') (in_files (sys_chmod (st_data_dir st) 0x1C0))) (\<lambda>_.
     bnd (in_files (requireOwnerOnlyDir (st_data_dir st))) (\<lambda>_.
     case json_marshal J creds of
       None \<Rightarrow> throw (EWrap ''marshal credentials'' (EText ''json''))
     | Some plaintext \<Rightarrow> map_err (EWrap ''write credentials'') (store_writeFile st (credPath st) plaintext))))"

definition Load :: "credential_json \<Rightarrow> cred_store \<Rightarrow> credentials fs_prog" where
  "Load J st = bnd (requireOwnerOnlyDir (st_data_dir st)) (\<lambda>_.
     bnd (map_err (EWrap ''stat credentials'') (sys_lstat (credPath st))) (\<lambda>info.
     if \<not> is_regular info \<or> i_mode info AND 0x1FF \<noteq> 0x180 then throw (EText ''credentials file must be a regular owner-only file (0600)'')
     else bnd (map_err (EWrap ''read credentials'') (os_ReadFile (credPath st))) (\<lambda>plaintext.
       case json_unmarshal J plaintext of
         None \<Rightarrow> throw (EWrap ''unmarshal credentials'' (EText ''json''))
       | Some creds \<Rightarrow> ret creds)))"

end
