(* ===== verification/Agent_Cred_Props.thy ===== *)
theory Agent_Cred_Props
  imports Agent_Credentials
begin

text \<open>
  What the credential store guarantees when its directory is in place: \<open>Load\<close> returns what is on the disk, and a \<open>Save\<close> leaves the old
  credentials or the new ones there, whatever fails, and the new ones when it succeeds.
\<close>

section \<open>Changes of attributes\<close>

lemma walk_nodes:
  assumes "\<And>i. node_at G i = node_at F i"
  shows "walk G k d cs fl = walk F k d cs fl"
proof -
  have "walk G k d cs fl = walk F k d cs fl" if "\<forall>i. node_at G i = node_at F i"
    using that
  proof (induction G k d cs fl rule: walk.induct)
    case (2 G k d c cs fl)
    show ?case
    proof (cases "node_at F d")
      case (Some x)
      show ?thesis
      proof (cases x)
        case (Directory p es)
        then show ?thesis using 2 Some by (cases "map_of es c") (auto split: option.splits node.splits)
      qed (use 2 Some in auto)
    qed (use 2 in auto)
  qed simp
  then show ?thesis using assms by blast
qed

lemma chmod_same:
  assumes "G = upd_inode d (\<lambda>x. x\<lparr>i_mode := mode\<rparr>) F"
  shows "node_at G i = node_at F i" "entry G a n = entry F a n" "is_dir G a = is_dir F a" "fs_inode G i = None \<longleftrightarrow> fs_inode F i = None"
    "fs_ok G = fs_ok F" "resolve G p fl = resolve F p fl" "resolve_parent G p = resolve_parent F p" "plain G i = plain F i"
    "i \<noteq> d \<Longrightarrow> fs_inode G i = fs_inode F i" "fs_next G = fs_next F"
proof -
  have node: "node_at G i = node_at F i" for i by (cases "fs_inode F d") (auto simp: assms upd_inode_at node_at_def)
  have none: "fs_inode G i = None \<longleftrightarrow> fs_inode F i = None" for i by (cases "fs_inode F d") (auto simp: assms upd_inode_at)
  have ent: "entry G a n = entry F a n" for a n by (simp add: entry_def entries_of_def node)
  have dir: "is_dir G a = is_dir F a" for a by (simp add: is_dir_def node)
  have start: "start_dir G p = start_dir F p" by (simp add: start_dir_def assms)
  show "node_at G i = node_at F i" "entry G a n = entry F a n" "is_dir G a = is_dir F a" "fs_inode G i = None \<longleftrightarrow> fs_inode F i = None"
    by (fact node ent dir none)+
  show "fs_ok G = fs_ok F" using none ent by (simp add: fs_ok_def assms)
  show "resolve G p fl = resolve F p fl" "resolve_parent G p = resolve_parent F p"
    by (simp_all add: resolve_def resolve_parent_def Let_def start walk_nodes [OF node] none dir split: sum.splits)
  show "plain G i = plain F i" by (simp add: plain_def node)
  show "i \<noteq> d \<Longrightarrow> fs_inode G i = fs_inode F i" "fs_next G = fs_next F" by (simp_all add: assms upd_inode_at)
qed

section \<open>Directories that exist already\<close>

lemma walk_prefix:
  assumes "walk F k d (cs @ ds) True = Inr i" and "ds \<noteq> []"
  shows "\<exists>e. walk F k d (cs @ ['''']) True = Inr e"
  using assms
proof (induction F k d cs True rule: walk.induct)
  case (1 F k d)
  then show ?case by (cases ds) (auto split: option.splits node.splits)
next
  case (2 F k d c cs)
  obtain p es where d: "node_at F d = Some (Directory p es)" using "2.prems"(1) by (auto split: option.splits node.splits)
  show ?case
  proof (cases "c = '''' \<or> c = ''.'' \<or> c = ''..''")
    case True
    then show ?thesis using 2 d by auto
  next
    case False
    then obtain j where j: "map_of es c = Some j" using "2.prems"(1) d by (auto split: option.splits)
    show ?thesis
    proof (cases "node_at F j")
      case None
      then have "walk F k j (cs @ ds) True = Inr i" using "2.prems"(1) d j False by auto
      then show ?thesis using None "2.prems"(2) by (cases "cs @ ds") auto
    next
      case (Some x)
      then show ?thesis using 2 d j False by (cases x) (auto split: if_splits)
    qed
  qed
qed

lemma walk_missing:
  assumes "walk F k d cs True = Inr e" and "is_dir F e" and "entry F e c = None" and "c \<noteq> ''''" "c \<noteq> ''.''" "c \<noteq> ''..''"
  shows "walk F k d (cs @ [c]) fl = Inl ErrNotExist"
  using assms
proof (induction F k d cs True rule: walk.induct)
  case (1 F k d)
  then show ?case by (auto simp: entry_def entries_of_def elim!: is_dirE)
next
  case (2 F k d x xs)
  then show ?case by (auto split: option.splits node.splits if_splits)
qed

definition resolvable :: "filesystem \<Rightarrow> string \<Rightarrow> bool" where
  "resolvable F p \<longleftrightarrow> (\<exists>i. walk F 40 (start_dir F p) (Split p slash) True = Inr i)"

lemma walk_trailing_all: "walk F k d (cs @ replicate m '''') True = Inr i \<Longrightarrow> walk F k d cs True = Inr i"
proof (induction m)
  case (Suc m)
  then have "walk F k d ((cs @ replicate m '''') @ ['''']) True = Inr i" by (simp add: replicate_append_same [symmetric])
  then show ?case using walk_trailing [of F k d "cs @ replicate m ''''"] Suc.IH by blast
qed simp

lemma TrimRight_slashes: "\<exists>m. p = TrimRight (\<lambda>c. c = slash) p @ replicate m slash"
proof -
  let ?t = "takeWhile (\<lambda>c. c = slash) (rev p)"
  have "?t = replicate (length ?t) slash" by (rule replicate_eqI) (auto dest: set_takeWhileD)
  then have "rev p = replicate (length ?t) slash @ dropWhile (\<lambda>c. c = slash) (rev p)" by (metis takeWhile_dropWhile_id)
  then have "p = rev (replicate (length ?t) slash @ dropWhile (\<lambda>c. c = slash) (rev p))" by (metis rev_rev_ident)
  then show ?thesis by (auto simp: TrimRight_def)
qed

lemma Split_slashes: "Split (q @ replicate m slash) slash = Split q slash @ replicate m ''''"
proof (induction m arbitrary: q)
  case (Suc m)
  have "q @ replicate (Suc m) slash = (q @ replicate m slash) @ slash # ''''" by (simp add: replicate_append_same)
  then show ?case using Suc [of q] Split_app [of "q @ replicate m slash" slash "''''"] by (simp add: replicate_append_same)
qed simp

lemma mkdir_exists:
  assumes p: "resolvable F p" and run: "sys_mkdir p perm E n F = (r, n', G)"
  shows "G = F"
proof -
  let ?q = "TrimRight (\<lambda>c. c = slash) p"
  obtain m where m: "p = ?q @ replicate m slash" using TrimRight_slashes by blast
  have "entry F d name \<noteq> None" if parent: "resolve_parent F ?q = Inr (d, name)" for d name
  proof
    assume none: "entry F d name = None"
    have q: "?q \<noteq> ''''" and name: "name = last (Split ?q slash)" "name \<noteq> ''''" "name \<noteq> ''.''" "name \<noteq> ''..''"
      and w: "walk F 40 (start_dir F ?q) (butlast (Split ?q slash)) True = Inr d" and dir: "is_dir F d"
      using parent by (auto simp: resolve_parent_def Let_def split: if_splits sum.splits)
    have "hd p = hd ?q" using q m by (metis hd_append2)
    then have start: "start_dir F ?q = start_dir F p" using q m by (cases p; cases ?q) (auto simp: start_dir_def IsAbs_def HasPrefix_def)
    have "walk F 40 (start_dir F ?q) (butlast (Split ?q slash) @ [name]) True = Inl ErrNotExist"
      by (rule walk_missing [OF w dir none name(2-4)])
    moreover obtain i where "walk F 40 (start_dir F p) (Split ?q slash @ replicate m '''') True = Inr i"
      using p Split_slashes [of ?q m] m unfolding resolvable_def by metis
    then have "walk F 40 (start_dir F p) (Split ?q slash) True = Inr i" by (rule walk_trailing_all)
    moreover have "butlast (Split ?q slash) @ [name] = Split ?q slash" using name(1) by (simp add: Split_not_Nil)
    ultimately show False using start by simp
  qed
  then show ?thesis using run by (auto simp: sys_mkdir_def sql_def split: if_splits sum.splits prod.splits)
qed

lemma before_last_prefix: "before_last p \<noteq> '''' \<Longrightarrow> \<exists>a rest. before_last p = a @ ''/'' \<and> p = a @ slash # rest"
proof -
  let ?q = "dropWhile (\<lambda>c. c = slash) (rev p)"
  let ?r = "dropWhile (\<lambda>c. c \<noteq> slash) ?q"
  assume "before_last p \<noteq> ''''"
  then obtain x xs where r: "?r = x # xs" by (cases ?r) (auto simp: before_last_def)
  have "x = slash" using hd_dropWhile [of "\<lambda>c. c \<noteq> slash" ?q] r by simp
  moreover have "rev p = takeWhile (\<lambda>c. c = slash) (rev p) @ takeWhile (\<lambda>c. c \<noteq> slash) ?q @ ?r" by (simp add: takeWhile_dropWhile_id)
  then have "p = rev (takeWhile (\<lambda>c. c = slash) (rev p) @ takeWhile (\<lambda>c. c \<noteq> slash) ?q @ x # xs)" unfolding r by (metis rev_rev_ident)
  ultimately show ?thesis using r by (auto simp: before_last_def)
qed

lemma resolvable_before: "resolvable F p \<Longrightarrow> before_last p \<noteq> '''' \<Longrightarrow> resolvable F (before_last p)"
proof -
  assume p: "resolvable F p" and "before_last p \<noteq> ''''"
  then obtain a rest where a: "before_last p = a @ ''/''" "p = a @ slash # rest" using before_last_prefix by blast
  obtain i where "walk F 40 (start_dir F p) (Split a slash @ Split rest slash) True = Inr i"
    using p by (auto simp: resolvable_def a(2) Split_app)
  then obtain e where "walk F 40 (start_dir F p) (Split a slash @ ['''']) True = Inr e" using walk_prefix Split_not_Nil by blast
  moreover have "start_dir F (a @ ''/'') = start_dir F p" by (cases a) (auto simp: a(2) start_dir_def IsAbs_def HasPrefix_def)
  ultimately show ?thesis by (auto simp: resolvable_def a(1) Split_app)
qed

lemma lookup_run:
  "handle (bnd (sys_stat p) (\<lambda>st. ret (Some st))) (\<lambda>_. ret None) E n F = (r, n', G) \<Longrightarrow> G = F \<and> (\<exists>x. r = Inr x)"
  "handle (bnd (sys_lstat p) (\<lambda>st. ret (Some st))) (\<lambda>_. ret None) E n F = (r, n', G) \<Longrightarrow> G = F \<and> (\<exists>x. r = Inr x)"
  by (auto simp: handle_run bnd_run ret_run dest: quiet_run)

lemma MkdirAll_exists: "resolvable F p \<Longrightarrow> MkdirAll p perm E n F = (r, n', G) \<Longrightarrow> G = F"
proof (induction p perm arbitrary: n r n' G rule: MkdirAll.induct)
  case (1 p perm)
  obtain r1 n1 F1 where one: "handle (bnd (sys_stat p) (\<lambda>st. ret (Some st))) (\<lambda>_. ret None) E n F = (r1, n1, F1)" by (rule prod_cases3)
  obtain x where x: "F1 = F" "r1 = Inr x" using lookup_run(1) [OF one] by blast
  let ?parent = "if before_last p = '''' then ret () else MkdirAll (before_last p) perm"
  show ?case
  proof (cases x)
    case (Some st)
    then show ?thesis using "1.prems"(2) one x
      by (auto simp: MkdirAll.simps [of p] bnd_def ret_run throw_run split: node.splits)
  next
    case None
    obtain r2 n2 F2 where two: "?parent E n1 F = (r2, n2, F2)" by (rule prod_cases3)
    have F2: "F2 = F"
      using two "1.IH" resolvable_before [OF "1.prems"(1)] by (auto simp: ret_run split: if_splits)
    obtain r3 n3 F3 where three: "sys_mkdir p perm E n2 F = (r3, n3, F3)" by (rule prod_cases3)
    have F3: "F3 = F" by (rule mkdir_exists [OF "1.prems"(1) three])
    have quiet: "H = F" if "bnd (handle (bnd (sys_lstat p) (\<lambda>st. ret (Some st))) (\<lambda>_. ret None)) (\<lambda>there. case there of
        Some st \<Rightarrow> (case i_node st of Directory _ _ \<Rightarrow> ret () | _ \<Rightarrow> throw e) | None \<Rightarrow> throw e) E k F = (r, k', H)" for e k k' H
    proof -
      obtain r4 n4 F4 where four: "handle (bnd (sys_lstat p) (\<lambda>st. ret (Some st))) (\<lambda>_. ret None) E k F = (r4, n4, F4)" by (rule prod_cases3)
      obtain y where y: "F4 = F" "r4 = Inr y" using lookup_run(2) [OF four] by blast
      show ?thesis using that four y
        by (cases y) (auto simp: bnd_def [of "handle m h" for m h] ret_run throw_run split: node.split_asm)
    qed
    have "bnd ?parent (\<lambda>_. handle (sys_mkdir p perm) (\<lambda>e. bnd (handle (bnd (sys_lstat p) (\<lambda>st. ret (Some st))) (\<lambda>_. ret None)) (\<lambda>there. case there of
        Some st \<Rightarrow> (case i_node st of Directory _ _ \<Rightarrow> ret () | _ \<Rightarrow> throw e) | None \<Rightarrow> throw e))) E n1 F = (r, n', G)"
      using "1.prems"(2) one x None unfolding MkdirAll.simps [of p] Let_def by (simp add: bnd_def [of "handle m h" for m h])
    then show ?thesis using two F2 three F3 quiet
      by (cases r2; cases r3) (auto simp: bnd_def [of ?parent] handle_def [of "sys_mkdir p perm"])
  qed
qed

section \<open>The store in place\<close>

text \<open>The directory \<open>d\<close> of the store exists, only its owner may use it, and the file in it is no directory and no link.\<close>

definition private_dir :: "filesystem \<Rightarrow> ino \<Rightarrow> bool" where
  "private_dir F d \<longleftrightarrow> (case dir_of F d of Some (p, mode, uid, gid) \<Rightarrow> mode AND 0x1FF = 0x1C0 | None \<Rightarrow> False)"

definition store_at :: "cred_store \<Rightarrow> fs_manager \<Rightarrow> filesystem \<Rightarrow> ino \<Rightarrow> bool" where
  "store_at st m F d \<longleftrightarrow> st_fs st = Inr m \<and> direct m \<and> fs_ok F \<and> resolve F (st_data_dir st) True = Inr d \<and> private_dir F d \<and>
     resolve_parent F (credPath st) = Inr (d, credentialsFile) \<and> ValidatePath (credPath st) = None \<and>
     (\<forall>j. entry F d credentialsFile = Some j \<longrightarrow> plain F j)"

definition on_disk :: "credential_json \<Rightarrow> filesystem \<Rightarrow> ino \<Rightarrow> credentials option" where
  "on_disk J F d = (case entry F d credentialsFile of None \<Rightarrow> None | Some i \<Rightarrow> (case fs_inode F i of None \<Rightarrow> None | Some x \<Rightarrow> (case i_node x of
     Regular b \<Rightarrow> if i_mode x AND 0x1FF = 0x180 then json_unmarshal J b else None | _ \<Rightarrow> None)))"

lemma private_dirD:
  assumes "private_dir F d"
  obtains x p es where "fs_inode F d = Some x" "i_node x = Directory p es" "i_mode x AND 0x1FF = 0x1C0"
  using assms by (cases "fs_inode F d") (auto simp: private_dir_def dir_of_def dir_attrs_def split: node.splits)

lemma private_is_dir: "private_dir F d \<Longrightarrow> is_dir F d"
  by (auto simp: private_dir_def is_dir_dir_of split: option.splits)

lemma requireOwnerOnlyDir_run:
  assumes "store_at st m F d" and "requireOwnerOnlyDir (st_data_dir st) E n F = (r, n', G)"
  shows "G = F \<and> (r = Inr () \<or> (\<exists>e. r = Inl e \<and> \<not> errors_is e ErrNotExist))" and "calm E \<Longrightarrow> r = Inr ()"
proof -
  obtain x p es where x: "fs_inode F d = Some x" "i_node x = Directory p es" "i_mode x AND 0x1FF = 0x1C0"
    using assms(1) private_dirD [of F d] by (auto simp: store_at_def)
  have "resolve F (st_data_dir st) True = Inr d" using assms(1) by (simp add: store_at_def)
  then have stat: "sys_stat (st_data_dir st) E n F = (if fault E n then Inl EDriver else Inr x, Suc n, F)"
    using x by (simp add: sys_stat_def peek_def sql_def on_inr_def inode_of_def)
  then show "G = F \<and> (r = Inr () \<or> (\<exists>e. r = Inl e \<and> \<not> errors_is e ErrNotExist))" "calm E \<Longrightarrow> r = Inr ()"
    using assms(2) x by (auto simp: requireOwnerOnlyDir_def bnd_def map_err_def handle_def throw_def ret_def calm_def ErrNotExist_def split: if_splits)
qed

lemma os_ReadFile_run:
  assumes "resolve F p True = Inr i" and "node_at F i = Some (Regular b)" and "os_ReadFile p E n F = (r, n', G)"
  shows "G = F \<and> (r = Inr b \<or> r = Inl EDriver)" and "calm E \<Longrightarrow> r = Inr b"
proof -
  have "open_inode F p False False = Inr i" using assms(1,2) by (simp add: open_inode_def)
  then have op: "sys_open p False False E k F = (if fault E k then Inl EDriver else Inr i, Suc k, F)" for k
    by (simp add: sys_open_def peek_def sql_def)
  have rd: "sys_read_all i E k F = (if fault E k then Inl EDriver else Inr b, Suc k, F)" for k
    using assms(2) by (simp add: sys_read_all_def peek_def sql_def)
  have cl: "sys_close i E k F = (if fault E k then Inl EDriver else Inr (), Suc k, F)" for k
    by (simp add: sys_close_def peek_def sql_def)
  show "G = F \<and> (r = Inr b \<or> r = Inl EDriver)" "calm E \<Longrightarrow> r = Inr b"
    using assms(3) by (auto simp: os_ReadFile_def bnd_def handle_def op rd cl ret_def throw_def calm_def split: if_splits)
qed

lemma Load_run:
  assumes st: "store_at st m F d" and run: "Load J st E n F = (r, n', G)"
  shows "G = F" and "r = Inr c \<Longrightarrow> on_disk J F d = Some c" and "r = Inl e \<Longrightarrow> errors_is e ErrNotExist \<Longrightarrow> entry F d credentialsFile = None"
    and "calm E \<Longrightarrow> on_disk J F d = Some c \<Longrightarrow> r = Inr c"
    and "calm E \<Longrightarrow> entry F d credentialsFile = None \<Longrightarrow> \<exists>e. r = Inl e \<and> errors_is e ErrNotExist"
proof -
  note S = st [unfolded store_at_def]
  obtain r1 n1 F1 where one: "requireOwnerOnlyDir (st_data_dir st) E n F = (r1, n1, F1)" by (rule prod_cases3)
  note R = requireOwnerOnlyDir_run [OF st one]
  obtain r2 n2 F2 where two: "sys_lstat (credPath st) E n1 F = (r2, n2, F2)" by (rule prod_cases3)
  have F2: "F2 = F" using quiet_run(4) [OF two] .
  consider (gone) "entry F d credentialsFile = None" | (there) i x where "entry F d credentialsFile = Some i" "fs_inode F i = Some x"
    using S unfolding fs_ok_def by blast
  then have "G = F \<and> (\<forall>c. r = Inr c \<longrightarrow> on_disk J F d = Some c) \<and> (\<forall>e. r = Inl e \<longrightarrow> errors_is e ErrNotExist \<longrightarrow> entry F d credentialsFile = None) \<and>
    (calm E \<longrightarrow> (\<forall>c. on_disk J F d = Some c \<longrightarrow> r = Inr c) \<and> (entry F d credentialsFile = None \<longrightarrow> (\<exists>e. r = Inl e \<and> errors_is e ErrNotExist)))"
  proof cases
    case gone
    have p: "credPath st \<noteq> ''''" "credentialsFile = last (Split (credPath st) slash)"
      and w: "walk F 40 (start_dir F (credPath st)) (butlast (Split (credPath st) slash)) True = Inr d"
      using S by (auto simp: resolve_parent_def Let_def split: if_splits sum.splits)
    have "walk F 40 (start_dir F (credPath st)) (butlast (Split (credPath st) slash) @ [credentialsFile]) False = Inl ErrNotExist"
      using S private_is_dir gone by (intro walk_missing [OF w]) (auto simp: credentialsFile_def)
    moreover have "butlast (Split (credPath st) slash) @ [credentialsFile] = Split (credPath st) slash" unfolding p(2) by (rule append_butlast_last_id [OF Split_not_Nil])
    ultimately have "resolve F (credPath st) False = Inl ErrNotExist" using p(1) by (simp add: resolve_def)
    then have "r2 = Inl (if fault E n1 then EDriver else ErrNotExist)" using two by (auto simp: sys_lstat_def peek_def sql_def on_inr_def split: if_splits)
    moreover have "on_disk J F d = None" using gone by (simp add: on_disk_def)
    ultimately show ?thesis using run one R two F2 gone
      by (cases r1) (auto simp: Load_def bnd_def map_err_def handle_def throw_def calm_def ErrNotExist_def split: if_splits)
  next
    case (there i x)
    have pl: "plain F i" using S there by blast
    have "resolve F (credPath st) False = Inr i" using S there by (intro resolve_here) auto
    then have r2: "r2 = (if fault E n1 then Inl EDriver else Inr x)" using two there
      by (auto simp: sys_lstat_def peek_def sql_def on_inr_def inode_of_def split: if_splits)
    have fl: "resolve F (credPath st) True = Inr i" using S there pl by (intro resolve_child) (auto simp: plain_def)
    obtain r3 n3 F3 where three: "os_ReadFile (credPath st) E n2 F = (r3, n3, F3)" by (rule prod_cases3)
    have body: "on_disk J F d = (case i_node x of Regular b \<Rightarrow> if i_mode x AND 0x1FF = 0x180 then json_unmarshal J b else None | _ \<Rightarrow> None)"
      using there by (simp add: on_disk_def)
    show ?thesis
    proof (cases "\<exists>b. i_node x = Regular b")
      case True
      then obtain b where b: "i_node x = Regular b" by blast
      have node: "node_at F i = Some (Regular b)" using there b by (simp add: node_at_def)
      note RD = os_ReadFile_run [OF fl node three]
      show ?thesis using run one R two F2 r2 three RD b body there
        by (cases r1; cases r3) (auto simp: Load_def bnd_def map_err_def handle_def throw_def ret_def calm_def is_regular_def ErrNotExist_def split: if_splits option.splits)
    next
      case False
      then have "\<not> is_regular x" "on_disk J F d = None" using body by (auto simp: is_regular_def split: node.splits)
      then show ?thesis using run one R two F2 r2 there
        by (cases r1) (auto simp: Load_def bnd_def map_err_def handle_def throw_def calm_def ErrNotExist_def split: if_splits)
    qed
  qed
  then show "G = F" "r = Inr c \<Longrightarrow> on_disk J F d = Some c" "r = Inl e \<Longrightarrow> errors_is e ErrNotExist \<Longrightarrow> entry F d credentialsFile = None"
    "calm E \<Longrightarrow> on_disk J F d = Some c \<Longrightarrow> r = Inr c" "calm E \<Longrightarrow> entry F d credentialsFile = None \<Longrightarrow> \<exists>e. r = Inl e \<and> errors_is e ErrNotExist"
    by blast+
qed

section \<open>Saving\<close>

lemma resolve_same:
  assumes "same_ways F G" and "resolve F p True = Inr d" and "is_dir F d"
  shows "resolve G p True = Inr d"
proof -
  have p: "p \<noteq> ''''" and w: "walk F 40 (start_dir F p) (Split p slash) True = Inr d"
    using assms(2) by (auto simp: resolve_def split: if_splits sum.splits)
  have "walk G 40 (start_dir F p) (Split p slash) True = Inr d" by (rule walk_same [OF assms(1) w assms(3)])
  moreover have "start_dir G p = start_dir F p" using assms(1) by (simp add: start_dir_def same_ways_def)
  moreover have "fs_inode G d \<noteq> None" using same_ways_dir [OF assms(1,3)] by (auto simp: is_dir_def node_at_def split: option.splits)
  ultimately show ?thesis using p by (simp add: resolve_def)
qed

lemma store_chmod:
  assumes st: "store_at st m F d" and G: "G = upd_inode d (\<lambda>x. x\<lparr>i_mode := 0x1C0\<rparr>) F"
  shows "store_at st m G d" and "on_disk J G d = on_disk J F d"
proof -
  note S = st [unfolded store_at_def] and C = chmod_same [OF G]
  obtain x p es where x: "fs_inode F d = Some x" "i_node x = Directory p es" using S private_dirD [of F d] by metis
  then have "private_dir G d" by (simp add: private_dir_def dir_of_def G upd_inode_at dir_attrs_def)
  then show "store_at st m G d" using S C by (simp add: store_at_def)
  have "i \<noteq> d" if "entry F d credentialsFile = Some i" for i
    using S that x by (auto simp: plain_def node_at_def)
  then show "on_disk J G d = on_disk J F d" unfolding on_disk_def C(2) by (auto simp: C(9) split: option.splits)
qed

lemma store_ways:
  assumes st: "store_at st m F d" and ways: "same_ways F G" and "fs_ok G" and dirs: "\<forall>a. dir_of G a = dir_of F a"
    and pl: "\<forall>j. entry G d credentialsFile = Some j \<longrightarrow> plain G j"
  shows "store_at st m G d"
proof -
  note S = st [unfolded store_at_def]
  have "resolve G (st_data_dir st) True = Inr d" using resolve_same [OF ways] S private_is_dir by blast
  moreover have "resolve_parent G (credPath st) = Inr (d, credentialsFile)" using resolve_parent_same [OF ways] S by blast
  moreover have "private_dir G d" using S dirs by (simp add: private_dir_def)
  ultimately show ?thesis using S assms(3) pl by (simp add: store_at_def)
qed

lemma store_untouched:
  assumes st: "store_at st m F d" and un: "untouched F (temp_prefix credentialsFile) G"
  shows "store_at st m G d" and "on_disk J G d = on_disk J F d"
proof -
  note S = st [unfolded store_at_def] and U = un [unfolded untouched_def]
  have "\<not> HasPrefix credentialsFile (temp_prefix credentialsFile)" by (simp add: credentialsFile_def HasPrefix_def)
  then have ent: "entry G d credentialsFile = entry F d credentialsFile" using U by blast
  have ino: "fs_inode G j = fs_inode F j" if "entry F d credentialsFile = Some j" for j
  proof -
    have "\<not> is_dir F j" using S that plain_not_dir by blast
    moreover have "fs_inode F j \<noteq> None" using S that unfolding fs_ok_def by blast
    ultimately show ?thesis using U by blast
  qed
  then have "\<forall>j. entry G d credentialsFile = Some j \<longrightarrow> plain G j" using S ent by (simp add: plain_def node_at_def)
  then show "store_at st m G d" using U S by (intro store_ways [OF st untouched_ways [OF _ un]]) auto
  show "on_disk J G d = on_disk J F d" unfolding on_disk_def ent by (auto simp: ino split: option.splits)
qed

lemma new_file_private: "uint (mode_bits 0x180) AND 0x1FF = (0x180::int)"
  by (simp add: mode_bits_def Perm_def ModeSetuid_def ModeSetgid_def ModeSticky_def)

lemma store_replaced:
  assumes st: "store_at st m F d" and rep: "replaced F d credentialsFile (new_file b 0x180) G"
  shows "store_at st m G d" and "on_disk J G d = json_unmarshal J b"
proof -
  note S = st [unfolded store_at_def] and R = rep [unfolded replaced_def]
  have "\<forall>j. entry G d credentialsFile = Some j \<longrightarrow> plain G j" using R by (simp add: plain_def node_at_def new_file_def)
  then show "store_at st m G d" using R S by (intro store_ways [OF st replaced_ways [OF _ rep]]) auto
  show "on_disk J G d = json_unmarshal J b" using R new_file_private by (simp add: on_disk_def new_file_def)
qed

lemma Save_run:
  assumes st: "store_at st m (sy_files s) d" and E: "plain_names E" and run: "Save J st c E n s = (r, n', s')"
  shows "store_at st m (sy_files s') d \<and> (r \<noteq> Inr () \<and> on_disk J (sy_files s') d = on_disk J (sy_files s) d \<or>
    (\<exists>b. json_marshal J c = Some b \<and> on_disk J (sy_files s') d = json_unmarshal J b))"
proof -
  let ?F = "sy_files s"
  note S = st [unfolded store_at_def]
  have res: "resolvable ?F (st_data_dir st)" using S by (auto simp: resolvable_def resolve_def split: if_splits sum.splits)
  obtain r1 n1 F1 where one: "MkdirAll (st_data_dir st) 0x1C0 E n ?F = (r1, n1, F1)" by (rule prod_cases3)
  have F1: "F1 = ?F" by (rule MkdirAll_exists [OF res one])
  obtain r2 n2 F2 where two: "sys_chmod (st_data_dir st) 0x1C0 E n1 ?F = (r2, n2, F2)" by (rule prod_cases3)
  have F2: "F2 = ?F \<or> F2 = upd_inode d (\<lambda>x. x\<lparr>i_mode := 0x1C0\<rparr>) ?F"
    using two S by (auto simp: sys_chmod_def sql_def split: if_splits)
  have st2: "store_at st m F2 d" "on_disk J F2 d = on_disk J ?F d" using F2 st store_chmod [OF st] by auto
  obtain r3 n3 F3 where three: "requireOwnerOnlyDir (st_data_dir st) E n2 F2 = (r3, n3, F3)" by (rule prod_cases3)
  have F3: "F3 = F2" using requireOwnerOnlyDir_run(1) [OF st2(1) three] by blast
  note unfold = Save_def bnd_def map_err_def handle_def throw_def in_files_def
  show ?thesis
  proof (cases "\<exists>u v w b. r1 = Inr u \<and> r2 = Inr v \<and> r3 = Inr w \<and> json_marshal J c = Some b")
    case False
    then have "(\<exists>e. r = Inl e) \<and> (sy_files s' = ?F \<or> sy_files s' = F2)"
      using run one F1 two three F3
      by (cases r1; cases r2; cases r3; cases "json_marshal J c") (auto simp: unfold)
    then show ?thesis using st st2 by auto
  next
    case True
    then obtain u v w b where ok: "r1 = Inr u" "r2 = Inr v" "r3 = Inr w" and b: "json_marshal J c = Some b" by blast
    obtain r4 n4 s4 where four: "WriteFile m (credPath st) b owner_options E n3 (s\<lparr>sy_files := F2\<rparr>) = (r4, n4, s4)" by (rule prod_cases3)
    have "written (fm_accounts m) F2 d credentialsFile True b owner_options r4 (sy_files s4)"
      using WriteFile_written [OF _ _ _ _ E _ four, of d credentialsFile] st2(1) S by (simp add: store_at_def owner_options_def)
    moreover have fo: "file_of (fm_accounts m) b owner_options = new_file b 0x180" "perm_of owner_options = 0x180"
      by (simp_all add: file_of_def ResolveOwnership_def owner_options_def owned_def new_file_def perm_of_def)
    ultimately have w: "replaced F2 d credentialsFile (new_file b 0x180) (sy_files s4) \<or> r4 \<noteq> Inr () \<and> untouched F2 (temp_prefix credentialsFile) (sy_files s4)"
      by (auto simp: written_def)
    have "s' = s4 \<and> (r = Inr () \<longleftrightarrow> r4 = Inr ())"
      using run one F1 two three F3 ok b four S by (cases r4) (auto simp: unfold store_writeFile_def)
    then show ?thesis using w store_replaced [OF st2(1)] store_untouched [OF st2(1)] st2(2) b by auto
  qed
qed

end
