(* ===== verification/Agent_Crypto.thy ===== *)
theory Agent_Crypto
  imports GoTime Contract
begin

text \<open>
  \<^verbatim>\<open>sdk/crypto\<close>: fingerprints, the continuity of a CA and certificate requests, and what the agent checks of a renewed certificate
  (\<^verbatim>\<open>agent/cmd/cadestrod/cert_rotation.go\<close>). PEM, X.509, Ed25519, TLS key pairs and SHA-256 are library code: the record
  \<open>device_crypto\<close>, a parameter. Random choices are functions of the number of the step.
\<close>

section \<open>The libraries\<close>

record parsed_cert =
  pc_common_name :: string
  pc_serial_number :: string \<comment> \<open>of the subject\<close>
  pc_not_before :: int \<comment> \<open>nanoseconds\<close>
  pc_not_after :: int

record device_crypto =
  dc_pem_decode :: "bytes \<Rightarrow> (string \<times> bytes \<times> bytes) option" \<comment> \<open>type, contents, rest\<close>
  dc_pem_encode :: "string \<Rightarrow> bytes \<Rightarrow> bytes"
  dc_parse_certificate :: "bytes \<Rightarrow> parsed_cert option"
  dc_verify :: "int \<Rightarrow> bytes \<Rightarrow> bytes \<Rightarrow> bool" \<comment> \<open>\<^verbatim>\<open>Verify\<close> of a certificate for client authentication, the CA its only root\<close>
  dc_signed_by :: "bytes \<Rightarrow> bytes \<Rightarrow> bool" \<comment> \<open>\<^verbatim>\<open>CheckSignatureFrom\<close>\<close>
  dc_key_pair :: "bytes \<Rightarrow> bytes \<Rightarrow> bool" \<comment> \<open>\<^verbatim>\<open>tls.X509KeyPair\<close> succeeds\<close>
  dc_cert_pool :: "bytes \<Rightarrow> bool" \<comment> \<open>\<^verbatim>\<open>AppendCertsFromPEM\<close>\<close>
  dc_generate_key :: "nat \<Rightarrow> bytes option"
  dc_marshal_key :: "bytes \<Rightarrow> bytes option"
  dc_parse_key :: "bytes \<Rightarrow> bytes option option" \<comment> \<open>\<open>Some None\<close>: a key of another type\<close>
  dc_create_request :: "nat \<Rightarrow> string \<Rightarrow> bytes \<Rightarrow> bytes option"
  dc_sha256 :: "bytes \<Rightarrow> bytes"

text \<open>A step that draws random numbers.\<close>

definition drawn :: "go_error \<Rightarrow> (nat \<Rightarrow> 'a option) \<Rightarrow> ('s, 'a) prog" where
  "drawn e f = (\<lambda>E n s. (case f n of None \<Rightarrow> Inl e | Some x \<Rightarrow> Inr x, Suc n, s))"

section \<open>Fingerprints and continuity\<close>

definition CAFingerprintFromPEM :: "device_crypto \<Rightarrow> bytes \<Rightarrow> go_error + string" where
  "CAFingerprintFromPEM K certPEM = (case dc_pem_decode K certPEM of
     None \<Rightarrow> Inl (EText ''failed to decode certificate PEM'')
   | Some (ty, b, rest) \<Rightarrow> Inr (hex_encode (dc_sha256 K b)))"

definition VerifyCAContinuity :: "device_crypto \<Rightarrow> bytes \<Rightarrow> bytes \<Rightarrow> go_error option" where
  "VerifyCAContinuity K oldCAPEM newCAPEM = (
     if newCAPEM = [] then Some (EText ''new CA is empty'')
     else (case dc_pem_decode K oldCAPEM of
       None \<Rightarrow> Some (EText ''enrolled CA: failed to decode PEM'')
     | Some (_, old, _) \<Rightarrow> (case dc_pem_decode K newCAPEM of
         None \<Rightarrow> Some (EText ''new CA: failed to decode PEM'')
       | Some (_, new, _) \<Rightarrow>
           if old = new then None
           else if dc_parse_certificate K old = None then Some (EWrap ''enrolled CA'' (EText ''x509''))
           else if dc_parse_certificate K new = None then Some (EWrap ''new CA'' (EText ''x509''))
           else if \<not> dc_signed_by K old new then Some (EWrap ''new CA does not chain to the enrolled CA'' (EText ''x509''))
           else None)))"

section \<open>Certificate requests\<close>

definition ErrUnsupportedKeyType :: go_error where
  "ErrUnsupportedKeyType = ESentinel ''crypto: device identity key must be Ed25519''"

definition generateCSR :: "device_crypto \<Rightarrow> string \<Rightarrow> bytes \<Rightarrow> ('s, bytes) prog" where
  "generateCSR K hostname privateKey =
     bnd (drawn (EWrap ''create CSR'' (EText ''x509'')) (\<lambda>n. dc_create_request K n hostname privateKey)) (\<lambda>csrDER.
     ret (dc_pem_encode K ''CERTIFICATE REQUEST'' csrDER))"

definition GenerateCSR :: "device_crypto \<Rightarrow> string \<Rightarrow> ('s, bytes \<times> bytes) prog" where
  "GenerateCSR K hostname =
     bnd (drawn (EWrap ''generate key pair'' (EText ''rand'')) (dc_generate_key K)) (\<lambda>privateKey.
     bnd (generateCSR K hostname privateKey) (\<lambda>csrPEM.
     case dc_marshal_key K privateKey of
       None \<Rightarrow> throw (EWrap ''marshal private key'' (EText ''x509''))
     | Some keyDER \<Rightarrow> ret (csrPEM, dc_pem_encode K ''PRIVATE KEY'' keyDER)))"

definition GenerateCSRFromKey :: "device_crypto \<Rightarrow> string \<Rightarrow> bytes \<Rightarrow> ('s, bytes) prog" where
  "GenerateCSRFromKey K hostname keyPEM = (case dc_pem_decode K keyPEM of
     None \<Rightarrow> throw (EText ''failed to decode key PEM'')
   | Some (_, b, _) \<Rightarrow> (case dc_parse_key K b of
       None \<Rightarrow> throw (EWrap ''parse private key'' (EText ''x509''))
     | Some None \<Rightarrow> throw (EDetail ErrUnsupportedKeyType ''got'')
     | Some (Some privateKey) \<Rightarrow> generateCSR K hostname privateKey))"

section \<open>Renewed certificates\<close>

definition validateRenewalCertificate :: "device_crypto \<Rightarrow> int \<Rightarrow> bytes \<Rightarrow> bytes \<Rightarrow> bytes \<Rightarrow> string \<Rightarrow> go_error option" where
  "validateRenewalCertificate K t certPEM keyPEM caPEM deviceID = (case dc_pem_decode K certPEM of
     None \<Rightarrow> Some (EText ''renewal returned malformed certificate PEM'')
   | Some (ty, b, rest) \<Rightarrow>
       if ty \<noteq> ''CERTIFICATE'' \<or> TrimSpace rest \<noteq> [] then Some (EText ''renewal returned malformed certificate PEM'')
       else (case dc_parse_certificate K b of
         None \<Rightarrow> Some (EWrap ''parse renewal certificate'' (EText ''x509''))
       | Some cert \<Rightarrow>
           if pc_common_name cert \<noteq> deviceID \<or> pc_serial_number cert \<noteq> deviceID then Some (EText ''renewal certificate identity does not match device'')
           else (case dc_pem_decode K caPEM of
             None \<Rightarrow> Some (EText ''decode pinned CA certificate'')
           | Some (caTy, caB, caRest) \<Rightarrow>
               if caTy \<noteq> ''CERTIFICATE'' \<or> TrimSpace caRest \<noteq> [] then Some (EText ''decode pinned CA certificate'')
               else if dc_parse_certificate K caB = None then Some (EWrap ''parse pinned CA certificate'' (EText ''x509''))
               else if \<not> dc_verify K t caB b then Some (EWrap ''verify renewal certificate against pinned CA'' (EText ''x509''))
               else if \<not> dc_key_pair K certPEM keyPEM then Some (EWrap ''renewal certificate does not match credential key'' (EText ''tls''))
               else None)))"

section \<open>When a renewal is due\<close>

text \<open>
  \<^verbatim>\<open>time.Duration(float64(d) * .8)\<close> in IEEE double precision. \<open>fl53\<close> rounds a natural number to 53 significant bits, ties to even;
  \<^verbatim>\<open>.8\<close> is the double 3602879701896397 / 2^52, and rounding the product of two mantissas scales with the power of two.
\<close>

function bit_len :: "int \<Rightarrow> nat" where
  "bit_len k = (if k \<le> 0 then 0 else Suc (bit_len (k div 2)))"
  by pat_completeness auto
termination
  by (relation "measure nat") auto

declare bit_len.simps [simp del]

definition round_even :: "int \<Rightarrow> int \<Rightarrow> int" where
  "round_even k u = (let q = k div u; r = k mod u in
     if 2 * r < u \<or> 2 * r = u \<and> even q then q * u else (q + 1) * u)"

definition fl53 :: "int \<Rightarrow> int" where
  "fl53 k = round_even k (2 ^ (bit_len k - 53))"

definition four_fifths :: "int \<Rightarrow> int" where
  "four_fifths d = (if d < 0 then - (fl53 (fl53 (- d) * 3602879701896397) div 2 ^ 52) else fl53 (fl53 d * 3602879701896397) div 2 ^ 52)"

text \<open>\<^verbatim>\<open>Time.Sub\<close> saturates.\<close>

definition time_Sub :: "int \<Rightarrow> int \<Rightarrow> int" where
  "time_Sub a b = max (- (2 ^ 63)) (min (2 ^ 63 - 1) (a - b))"

definition certificateRenewalDue :: "parsed_cert \<Rightarrow> int \<Rightarrow> bool" where
  "certificateRenewalDue cert t = (\<not> t < pc_not_before cert + four_fifths (time_Sub (pc_not_after cert) (pc_not_before cert)))"

subsection \<open>Rounding\<close>

lemma round_even_close:
  assumes "0 < u"
  shows "2 * round_even k u \<le> 2 * k + u" and "2 * k \<le> 2 * round_even k u + u"
proof -
  have k: "k = u * (k div u) + k mod u" and r: "0 \<le> k mod u" "k mod u < u" using assms by simp_all
  have "2 * k = 2 * (u * (k div u)) + 2 * (k mod u)" using k by linarith
  moreover have "(k div u + 1) * u = u * (k div u) + u" by (simp add: algebra_simps)
  moreover have "k div u * u = u * (k div u)" by (simp add: algebra_simps)
  ultimately show "2 * round_even k u \<le> 2 * k + u" "2 * k \<le> 2 * round_even k u + u"
    unfolding round_even_def Let_def using r by (smt (verit))+
qed

lemma bit_len_power: "0 < k \<Longrightarrow> 2 ^ (bit_len k - 1) \<le> k"
proof (induction k rule: bit_len.induct)
  case (1 k)
  show ?case
  proof (cases "k div 2 \<le> 0")
    case True
    then have "bit_len k = 1" using 1(2) by (simp add: bit_len.simps [of k] bit_len.simps [of "k div 2"] bit_len.simps [of 0])
    then show ?thesis using 1(2) by simp
  next
    case False
    then have len: "bit_len k = Suc (bit_len (k div 2))" "0 < bit_len (k div 2)"
      using 1(2) by (simp_all add: bit_len.simps [of k] bit_len.simps [of "k div 2"])
    then have "(2::int) ^ (bit_len k - 1) = 2 * 2 ^ (bit_len (k div 2) - 1)" by (simp flip: power_Suc)
    also have "\<dots> \<le> 2 * (k div 2)" using 1 False by simp
    also have "\<dots> \<le> k" by simp
    finally show ?thesis .
  qed
qed

text \<open>A rounded number is off by at most one part in two to the 53.\<close>

lemma fl53_close:
  assumes "0 \<le> k"
  shows "2 ^ 53 * fl53 k \<le> (2 ^ 53 + 1) * k" and "(2 ^ 53 - 1) * k \<le> 2 ^ 53 * fl53 k" and "0 \<le> fl53 k"
proof -
  have b: "2 ^ 53 * fl53 k \<le> (2 ^ 53 + 1) * k \<and> (2 ^ 53 - 1) * k \<le> 2 ^ 53 * fl53 k"
  proof (cases "bit_len k \<le> 53")
    case True
    then show ?thesis using assms by (simp add: fl53_def round_even_def)
  next
    case False
    let ?u = "(2::int) ^ (bit_len k - 53)"
    have pos: "0 < k" using False assms by (cases "k = 0") (auto simp: bit_len.simps [of 0])
    have "bit_len k - 1 = 52 + (bit_len k - 53)" using False by simp
    then have "(2::int) ^ 52 * ?u = 2 ^ (bit_len k - 1)" by (simp only: power_add)
    then have u: "2 ^ 52 * ?u \<le> k" using bit_len_power [OF pos] by simp
    have c: "2 * fl53 k \<le> 2 * k + ?u" "2 * k \<le> 2 * fl53 k + ?u" unfolding fl53_def by (rule round_even_close, simp)+
    then show ?thesis using u by (simp add: algebra_simps)
  qed
  then show "2 ^ 53 * fl53 k \<le> (2 ^ 53 + 1) * k" "(2 ^ 53 - 1) * k \<le> 2 ^ 53 * fl53 k" by auto
  then have "0 \<le> 2 ^ 53 * fl53 k" using assms by (metis (no_types, lifting) dual_order.trans mult_nonneg_nonneg zero_le_numeral diff_ge_0_iff_ge one_le_power one_le_numeral)
  then show "0 \<le> fl53 k" by simp
qed

lemma four_fifths_bounds:
  assumes "0 \<le> d"
  shows "0 \<le> four_fifths d" and "four_fifths d \<le> d" and "1000 \<le> d \<Longrightarrow> 79 * d \<le> 100 * four_fifths d \<and> 100 * four_fifths d \<le> 81 * d"
proof -
  let ?a = "fl53 d" and ?b = "fl53 (fl53 d * 3602879701896397)"
  note A = fl53_close [OF assms]
  note B = fl53_close [of "?a * 3602879701896397"]
  have f: "four_fifths d = ?b div 2 ^ 52" using assms by (simp add: four_fifths_def)
  have q: "2 ^ 52 * (?b div 2 ^ 52) \<le> ?b" "?b < 2 ^ 52 * (?b div 2 ^ 52) + 2 ^ 52" by simp_all
  show "0 \<le> four_fifths d" using A(3) B(3) by (simp add: f pos_imp_zdiv_nonneg_iff)
  show "four_fifths d \<le> d" "1000 \<le> d \<Longrightarrow> 79 * d \<le> 100 * four_fifths d \<and> 100 * four_fifths d \<le> 81 * d"
    using A B q unfolding f by simp_all
qed

end
