(* ===== verification/Agent_Enroll.thy ===== *)
theory Agent_Enroll
  imports Agent_Cred_Props Agent_Crypto Contract_Client
begin

text \<open>
  Enrolment: \<^verbatim>\<open>agent/internal/deviceauth/enroll.go\<close>, the URLs it accepts (\<^verbatim>\<open>contract/url.go\<close>, \<^verbatim>\<open>agent/cmd/cadestrod/stream_url.go\<close>) and the
  arguments of the command (\<^verbatim>\<open>cmd_enroll.go\<close>). The state joins the device and the peer that \<open>register\<close> reaches; \<^verbatim>\<open>url.Parse\<close> is a parameter.
\<close>

section \<open>URLs\<close>

record https_url =
  url_scheme :: string
  url_opaque :: string
  url_host :: string
  url_has_user :: bool
  url_fragment :: string
  url_raw_fragment :: string
  url_path :: string
  url_raw_query :: string
  url_query :: "string \<Rightarrow> string" \<comment> \<open>\<^verbatim>\<open>Query().Get\<close>\<close>

type_synonym url_parser = "string \<Rightarrow> https_url option"

definition ValidateHTTPSURL :: "url_parser \<Rightarrow> string \<Rightarrow> go_error option" where
  "ValidateHTTPSURL parse raw = (case parse (TrimSpace raw) of
     None \<Rightarrow> Some (EWrap ''invalid URL'' (EText ''url''))
   | Some u \<Rightarrow>
       if ToLower (url_scheme u) \<noteq> ''https'' then Some (EText ''URL must use https'')
       else if url_opaque u \<noteq> '''' then Some (EText ''URL must be https://host, not an opaque URL'')
       else if url_host u = '''' then Some (EText ''URL has no host'')
       else if url_has_user u then Some (EText ''URL must not contain user info'')
       else if url_fragment u \<noteq> '''' \<or> url_raw_fragment u \<noteq> '''' then Some (EText ''URL must not contain a fragment'')
       else None)"

definition requireHTTPSAgentAddr :: "url_parser \<Rightarrow> string \<Rightarrow> go_error option" where
  "requireHTTPSAgentAddr parse addr = (case parse (TrimSpace addr) of
     None \<Rightarrow> Some (EText ''refusing non-https or hostless control URL'')
   | Some u \<Rightarrow> if ToLower (url_scheme u) \<noteq> ''https'' \<or> url_opaque u \<noteq> '''' \<or> url_host u = ''''
       then Some (EText ''refusing non-https or hostless control URL'') else None)"

section \<open>The arguments of the command\<close>

record registration_uri =
  ru_server_url :: string
  ru_token :: string
  ru_pin :: string

text \<open>\<^verbatim>\<open>strings.Replace\<close> of the first occurrence.\<close>

definition replace_first :: "string \<Rightarrow> string \<Rightarrow> string \<Rightarrow> string" where
  "replace_first s old new = (case Cut s old of None \<Rightarrow> s | Some (a, b) \<Rightarrow> a @ new @ b)"

definition parseRegistrationURI :: "url_parser \<Rightarrow> string \<Rightarrow> go_error + registration_uri" where
  "parseRegistrationURI parse rawURI = (case parse (replace_first rawURI ''cadestro://'' ''https://'') of
     None \<Rightarrow> Inl (EWrap ''invalid URI'' (EText ''url''))
   | Some u \<Rightarrow> let token = url_query u ''token''; pin = TrimSpace (url_query u ''pin'') in
       if token = '''' then Inl (EText ''token parameter is required in URI'')
       else if pin = '''' then Inl (EText ''pin parameter is required in URI'')
       else Inr \<lparr>ru_server_url = ''https://'' @ url_host u, ru_token = token, ru_pin = pin\<rparr>)"

definition resolveEnrollToken :: "string \<Rightarrow> string \<Rightarrow> string \<Rightarrow> string fs_prog" where
  "resolveEnrollToken flagToken tokenFile envToken = (
     if tokenFile \<noteq> '''' then bnd (map_err (EWrap ''read token file'') (os_ReadFile tokenFile)) (\<lambda>b. ret (TrimSpace b))
     else if envToken \<noteq> '''' then ret (TrimSpace envToken)
     else if flagToken \<noteq> '''' then ret (TrimSpace flagToken)
     else ret '''')"

definition registrationURIRefusedByHandler :: "string \<Rightarrow> bool" where
  "registrationURIRefusedByHandler uri = HasPrefix uri ''cadestro://''"

section \<open>Enrolment\<close>

record enrollment_request =
  eq_server_url :: string
  eq_token :: string
  eq_ca_pin :: string
  eq_hostname :: string
  eq_version :: string

record enrollment_result =
  er_credentials :: credentials
  er_already :: bool

definition normalizePin :: "string \<Rightarrow> go_error + string" where
  "normalizePin pin = (let normalized = filter (\<lambda>c. c \<noteq> CHR '':'') (TrimSpace pin) in
     if length normalized \<noteq> 64 then Inl (EText ''CA fingerprint pin is required and must contain 64 hexadecimal characters'')
     else if \<not> hex_decodable normalized then Inl (EText ''CA fingerprint pin must contain 64 hexadecimal characters'')
     else Inr (ToLower normalized))"

text \<open>The device and the peer it talks to.\<close>

record 'w device_host =
  dv_system :: system
  dv_peer :: 'w

definition on_system :: "(system, 'a) prog \<Rightarrow> ('w device_host, 'a) prog" where
  "on_system m = (\<lambda>E n s. case m E n (dv_system s) of (r, n', t) \<Rightarrow> (r, n', s\<lparr>dv_system := t\<rparr>))"

definition on_peer :: "('w, 'a) prog \<Rightarrow> ('w device_host, 'a) prog" where
  "on_peer m = (\<lambda>E n s. case m E n (dv_peer s) of (r, n', t) \<Rightarrow> (r, n', s\<lparr>dv_peer := t\<rparr>))"

definition pending_credentials :: "bytes \<Rightarrow> bytes \<Rightarrow> credentials" where
  "pending_credentials csr key = \<lparr>cr_device_id = '''', cr_ca_cert = '''', cr_certificate = '''', cr_pending_certificate = '''',
     cr_pending_private_key = key, cr_pending_csr = csr, cr_private_key = '''', cr_agent_addr = ''''\<rparr>"

definition enrolled_credentials :: "register_agent_result \<Rightarrow> bytes \<Rightarrow> credentials" where
  "enrolled_credentials result key = \<lparr>cr_device_id = ra_device_id result, cr_ca_cert = ra_ca_cert result, cr_certificate = ra_certificate result,
     cr_pending_certificate = '''', cr_pending_private_key = '''', cr_pending_csr = '''', cr_private_key = key, cr_agent_addr = ra_control_url result\<rparr>"

text \<open>The key and request of an earlier attempt, or new ones that are saved before they are used.\<close>

definition enroll_key :: "device_crypto \<Rightarrow> credential_json \<Rightarrow> cred_store \<Rightarrow> string \<Rightarrow> credentials option \<Rightarrow> (system, bytes \<times> bytes) prog" where
  "enroll_key K J st hostname stored = (case stored of
     Some c \<Rightarrow>
       if cr_pending_csr c \<noteq> '''' \<and> cr_pending_private_key c \<noteq> '''' then ret (cr_pending_csr c, cr_pending_private_key c)
       else throw (EText ''stored credentials are incomplete'')
   | None \<Rightarrow>
       bnd (map_err (EWrap ''generate CSR'') (GenerateCSR K hostname)) (\<lambda>(csrPEM, keyPEM).
       bnd (map_err (EWrap ''save pending credentials'') (Save J st (pending_credentials csrPEM keyPEM))) (\<lambda>_.
       ret (csrPEM, keyPEM))))"

text \<open>What the server's answer has to pass.\<close>

definition accept_registration :: "device_crypto \<Rightarrow> string \<Rightarrow> bytes \<Rightarrow> register_agent_result \<Rightarrow> go_error + credentials" where
  "accept_registration K pin keyPEM result = (
     if ra_ca_cert result = [] \<or> ra_certificate result = [] then Inl (EText ''server did not provide mTLS certificates'')
     else (case CAFingerprintFromPEM K (ra_ca_cert result) of
       Inl e \<Rightarrow> Inl (EWrap ''fingerprint server CA'' e)
     | Inr got \<Rightarrow>
         if ToLower got \<noteq> ToLower pin then Inl (EText ''CA fingerprint mismatch: the server CA does not match the pinned fingerprint'')
         else let creds = enrolled_credentials result keyPEM in
           if \<not> Ready (Some creds) then Inl (EText ''server returned incomplete credentials'') else Inr creds))"

text \<open>What \<^verbatim>\<open>enroll\<close> does once it knows what is stored.\<close>

definition enroll_stored :: "device_crypto \<Rightarrow> url_parser \<Rightarrow> credential_json \<Rightarrow> enrollment_request \<Rightarrow> cred_store \<Rightarrow>
    (string \<Rightarrow> string \<Rightarrow> string \<Rightarrow> string \<Rightarrow> bytes \<Rightarrow> ('w, register_agent_result) prog) \<Rightarrow> credentials option \<Rightarrow> ('w device_host, enrollment_result) prog" where
  "enroll_stored K parse J request st register stored = (
     if Ready stored then ret \<lparr>er_credentials = the stored, er_already = True\<rparr>
     else if eq_server_url request = '''' \<or> eq_token request = '''' then throw (EText ''server URL and token are required'')
     else if eq_hostname request = '''' \<or> eq_version request = '''' then throw (EText ''hostname and version are required'')
     else (case normalizePin (eq_ca_pin request) of Inl e \<Rightarrow> throw e
     | Inr pin \<Rightarrow> (case ValidateHTTPSURL parse (eq_server_url request) of
         Some e \<Rightarrow> throw (EWrap ''server URL must be an https URL'' e)
       | None \<Rightarrow>
       bnd (on_system (enroll_key K J st (eq_hostname request) stored)) (\<lambda>(csrPEM, keyPEM).
       bnd (map_err (EWrap ''register agent'')
         (on_peer (register (eq_server_url request) (eq_token request) (eq_hostname request) (eq_version request) csrPEM))) (\<lambda>result.
       bnd (lift_sum (accept_registration K pin keyPEM result)) (\<lambda>creds.
       bnd (map_err (EWrap ''save credentials'') (on_system (Save J st creds))) (\<lambda>_.
       ret \<lparr>er_credentials = creds, er_already = False\<rparr>)))))))"

definition enroll :: "device_crypto \<Rightarrow> url_parser \<Rightarrow> credential_json \<Rightarrow> enrollment_request \<Rightarrow> cred_store option \<Rightarrow>
    (string \<Rightarrow> string \<Rightarrow> string \<Rightarrow> string \<Rightarrow> bytes \<Rightarrow> ('w, register_agent_result) prog) \<Rightarrow> ('w device_host, enrollment_result) prog" where
  "enroll K parse J request store register = (case store of
     None \<Rightarrow> throw (EText ''credential store is required'')
   | Some st \<Rightarrow>
       bnd (handle (bnd (on_system (in_files (Load J st))) (\<lambda>c. ret (Some c)))
         (\<lambda>e. if errors_is e ErrNotExist then ret None else throw (EWrap ''load credentials'' e)))
       (enroll_stored K parse J request st register))"

definition Enroll :: "device_crypto \<Rightarrow> url_parser \<Rightarrow> credential_json \<Rightarrow> enrollment_request \<Rightarrow> cred_store option \<Rightarrow>
    (string \<Rightarrow> register_request \<Rightarrow> ('w, register_response) prog) \<Rightarrow> ('w device_host, enrollment_result) prog" where
  "Enroll K parse J request store control = enroll K parse J request store (RegisterAgent control)"

text \<open>
  \<^verbatim>\<open>cadestrod enroll\<close>. \<open>flags\<close> is what the flag package makes of the arguments, \<open>None\<close> when it refuses them; \<open>store_of\<close> is \<^verbatim>\<open>NewStore\<close>; the result is
  the exit code. The one-minute timeout is a cancelled context of the environment.
\<close>

record enroll_flags =
  ef_token :: string
  ef_token_file :: string
  ef_server :: string
  ef_pin :: string
  ef_data_dir :: string
  ef_args :: "string list"

definition exit_status :: "('s, 'a) prog \<Rightarrow> ('s, int) prog" where
  "exit_status m = handle (bnd m (\<lambda>_. ret 0)) (\<lambda>_. ret 1)"

definition runEnroll :: "device_crypto \<Rightarrow> url_parser \<Rightarrow> credential_json \<Rightarrow> (string \<Rightarrow> cred_store) \<Rightarrow> (string \<Rightarrow> register_request \<Rightarrow> ('w, register_response) prog) \<Rightarrow>
    string \<Rightarrow> string \<Rightarrow> string \<Rightarrow> string option \<Rightarrow> enroll_flags option \<Rightarrow> int \<Rightarrow> ('w device_host, int) prog" where
  "runEnroll K parse J store_of control version envDataDir envToken hostname flags euid = (
     if euid \<noteq> 0 then ret 1
     else (case flags of None \<Rightarrow> ret 2
     | Some f \<Rightarrow> let dataDir = (if envDataDir \<noteq> '''' then envDataDir else ef_data_dir f) in
       exit_status (
         bnd (case ef_args f of
             arg # _ \<Rightarrow> if HasPrefix arg ''cadestro://''
               then bnd (lift_sum (parseRegistrationURI parse arg)) (\<lambda>u.
                 ret (ru_server_url u, ru_token u, if ru_pin u \<noteq> '''' then ru_pin u else ef_pin f, True))
               else ret (ef_server f, ef_token f, ef_pin f, False)
           | [] \<Rightarrow> ret (ef_server f, ef_token f, ef_pin f, False)) (\<lambda>(server, token, caPin, fromURI).
         bnd (if fromURI then ret token else on_system (in_files (resolveEnrollToken token (ef_token_file f) envToken))) (\<lambda>resolvedToken.
         case hostname of None \<Rightarrow> throw (EText ''read hostname'')
         | Some h \<Rightarrow> Enroll K parse J \<lparr>eq_server_url = server, eq_token = resolvedToken, eq_ca_pin = caPin, eq_hostname = h, eq_version = version\<rparr>
             (Some (store_of dataDir)) control)))))"

end
