(* ===== verification/Agent_Enroll_Props.thy ===== *)
theory Agent_Enroll_Props
  imports Agent_Enroll
begin

text \<open>
  What an attempt to enrol does, whatever fails on the way: the key and the request are on the disk before the server sees the request,
  an unfinished attempt is continued with the same key, and credentials become usable only for the CA whose fingerprint was given.
\<close>

section \<open>Shorthands\<close>

definition disk_of :: "credential_json \<Rightarrow> 'w device_host \<Rightarrow> ino \<Rightarrow> credentials option" where
  "disk_of J s d = on_disk J (sy_files (dv_system s)) d"

definition device_at :: "cred_store \<Rightarrow> fs_manager \<Rightarrow> 'w device_host \<Rightarrow> ino \<Rightarrow> bool" where
  "device_at st m s d \<longleftrightarrow> store_at st m (sy_files (dv_system s)) d"

definition not_enrolled :: "'w device_host \<Rightarrow> ino \<Rightarrow> bool" where
  "not_enrolled s d \<longleftrightarrow> entry (sy_files (dv_system s)) d credentialsFile = None"

definition crypto_laws :: "device_crypto \<Rightarrow> bool" where
  "crypto_laws K \<longleftrightarrow> (\<forall>ty b. dc_pem_encode K ty b \<noteq> [])"

text \<open>The text of an answer is valid UTF-8, as in every protobuf message.\<close>

definition utf8_register :: "credential_json \<Rightarrow> (string \<Rightarrow> string \<Rightarrow> string \<Rightarrow> string \<Rightarrow> bytes \<Rightarrow> ('w, register_agent_result) prog) \<Rightarrow> bool" where
  "utf8_register J reg \<longleftrightarrow> (\<forall>u t h v csr E n w result n' w'. reg u t h v csr E n w = (Inr result, n', w') \<longrightarrow>
     json_text J (ra_device_id result) \<and> json_text J (ra_control_url result))"

definition waiting_for :: "bytes \<Rightarrow> bytes \<Rightarrow> credentials \<Rightarrow> bool" where
  "waiting_for csr key p \<longleftrightarrow> csr \<noteq> '''' \<and> key \<noteq> '''' \<and> cr_pending_csr p = csr \<and> cr_pending_private_key p = key"

lemma waiting_not_ready: "waiting_for csr key p \<Longrightarrow> \<not> Ready (Some p)"
  by (simp add: waiting_for_def Ready_def)

lemma waiting_pending: "csr \<noteq> '''' \<Longrightarrow> key \<noteq> '''' \<Longrightarrow> waiting_for csr key (pending_credentials csr key)"
  by (simp add: waiting_for_def pending_credentials_def)

lemma no_entry_no_disk: "not_enrolled s d \<Longrightarrow> disk_of J s d = None"
  by (simp add: not_enrolled_def disk_of_def on_disk_def)

lemma on_system_run: "on_system m E n s = (r, n', s') \<longleftrightarrow> (\<exists>t. m E n (dv_system s) = (r, n', t) \<and> s' = s\<lparr>dv_system := t\<rparr>)"
  by (cases "m E n (dv_system s)") (auto simp: on_system_def)

lemma on_peer_run: "on_peer m E n s = (r, n', s') \<longleftrightarrow> (\<exists>w. m E n (dv_peer s) = (r, n', w) \<and> s' = s\<lparr>dv_peer := w\<rparr>)"
  by (cases "m E n (dv_peer s)") (auto simp: on_peer_def)

lemma peer_keeps [simp]: "disk_of J (s\<lparr>dv_peer := w\<rparr>) d = disk_of J s d" "device_at st m (s\<lparr>dv_peer := w\<rparr>) d = device_at st m s d"
  by (simp_all add: disk_of_def device_at_def)

section \<open>The parts of an attempt\<close>

lemma save_run:
  assumes "device_at st m s d" and "plain_names E" and laws: "json_laws J" and "json_text J (cr_device_id c)" "json_text J (cr_agent_addr c)"
    and "map_err w (on_system (Save J st c)) E n s = (r, n', s')"
  shows "device_at st m s' d" and "dv_peer s' = dv_peer s" and "(\<exists>e. r = Inl e) \<and> disk_of J s' d = disk_of J s d \<or> disk_of J s' d = Some c"
proof -
  obtain r1 t where one: "Save J st c E n (dv_system s) = (r1, n', t)" "s' = s\<lparr>dv_system := t\<rparr>" "(\<exists>e. r1 = Inl e) \<longleftrightarrow> (\<exists>e. r = Inl e)"
    using assms(6) by (auto simp: map_err_def handle_run throw_run on_system_run)
  obtain b where "json_marshal J c = Some b" "json_unmarshal J b = Some c" using laws assms(4,5) by (auto simp: json_laws_def)
  then show "device_at st m s' d" "dv_peer s' = dv_peer s" "(\<exists>e. r = Inl e) \<and> disk_of J s' d = disk_of J s d \<or> disk_of J s' d = Some c"
    using Save_run [OF _ assms(2) one(1)] assms(1) one(2,3) by (cases r1; auto simp: device_at_def disk_of_def)+
qed

lemma load_run:
  assumes "device_at st m s d"
    and "handle (bnd (on_system (in_files (Load J st))) (\<lambda>c. ret (Some c)))
      (\<lambda>e. if errors_is e ErrNotExist then ret None else throw (EWrap ''load credentials'' e)) E n s = (r, n', s')"
  shows "s' = s" and "r = Inr (Some c) \<Longrightarrow> disk_of J s d = Some c" and "r = Inr None \<Longrightarrow> not_enrolled s d"
proof -
  obtain r1 n1 F where one: "Load J st E n (sy_files (dv_system s)) = (r1, n1, F)" by (rule prod_cases3)
  have st: "store_at st m (sy_files (dv_system s)) d" using assms(1) by (simp add: device_at_def)
  note L = Load_run [OF st one]
  have F: "F = sy_files (dv_system s)" by (rule L(1))
  have run: "on_system (in_files (Load J st)) E n s = (r1, n1, s)" using one F by (simp add: on_system_def in_files_def)
  show "s' = s" using assms(2) run by (cases r1) (auto simp: handle_def bnd_def ret_def throw_def split: if_splits)
  show "r = Inr (Some c) \<Longrightarrow> disk_of J s d = Some c" using assms(2) run L(2) by (cases r1) (auto simp: handle_def bnd_def ret_def throw_def disk_of_def split: if_splits)
  show "r = Inr None \<Longrightarrow> not_enrolled s d"
    using assms(2) run L(3) by (cases r1) (auto simp: handle_def bnd_def ret_def throw_def not_enrolled_def split: if_splits)
qed

lemma GenerateCSR_run: "crypto_laws K \<Longrightarrow> GenerateCSR K h E n s = (r, n', s') \<Longrightarrow> s' = s \<and> (\<forall>csr key. r = Inr (csr, key) \<longrightarrow> csr \<noteq> '''' \<and> key \<noteq> '''')"
  by (auto simp: GenerateCSR_def generateCSR_def bnd_run drawn_def ret_run throw_run crypto_laws_def split: option.splits)

lemma enroll_key_run:
  assumes "device_at st m s d" and E: "plain_names E" and laws: "json_laws J" "crypto_laws K" and stored: "\<not> Ready stored"
    "case stored of Some c \<Rightarrow> disk_of J s d = Some c | None \<Rightarrow> not_enrolled s d"
    and run: "on_system (enroll_key K J st h stored) E n s = (r, n', s')"
  shows "device_at st m s' d" and "dv_peer s' = dv_peer s"
    and "(\<exists>e. r = Inl e) \<and> (disk_of J s' d = disk_of J s d \<or> not_enrolled s d \<and> (\<exists>csr key p. waiting_for csr key p \<and> disk_of J s' d = Some p)) \<or>
      (\<exists>csr key p. r = Inr (csr, key) \<and> waiting_for csr key p \<and> disk_of J s' d = Some p \<and> (disk_of J s d = Some p \<or> not_enrolled s d))"
proof -
  have "device_at st m s' d \<and> dv_peer s' = dv_peer s \<and>
      ((\<exists>e. r = Inl e) \<and> (disk_of J s' d = disk_of J s d \<or> not_enrolled s d \<and> (\<exists>csr key p. waiting_for csr key p \<and> disk_of J s' d = Some p)) \<or>
      (\<exists>csr key p. r = Inr (csr, key) \<and> waiting_for csr key p \<and> disk_of J s' d = Some p \<and> (disk_of J s d = Some p \<or> not_enrolled s d)))"
  proof (cases stored)
    case (Some c)
    then show ?thesis using run stored assms(1)
      by (auto simp: enroll_key_def on_system_run ret_run throw_run waiting_for_def split: if_splits)
  next
    case None
    obtain r1 n1 t1 where one: "(GenerateCSR K h :: (system, bytes \<times> bytes) prog) E n (dv_system s) = (r1, n1, t1)" by (rule prod_cases3)
    note G = GenerateCSR_run [OF laws(2) one]
    show ?thesis
    proof (cases r1)
      case (Inl e)
      then show ?thesis using run None one G assms(1) by (auto simp: enroll_key_def on_system_run bnd_def map_err_def handle_def throw_def)
    next
      case (Inr ck)
      obtain csr key where ck: "ck = (csr, key)" by (cases ck)
      then have ne: "csr \<noteq> ''''" "key \<noteq> ''''" and t1: "t1 = dv_system s" using G Inr by auto
      let ?p = "pending_credentials csr key"
      obtain r2 n2 s2 where two: "map_err (EWrap ''save pending credentials'') (on_system (Save J st ?p)) E n1 s = (r2, n2, s2)" by (rule prod_cases3)
      have "json_text J (cr_device_id ?p)" "json_text J (cr_agent_addr ?p)" using laws(1) by (simp_all add: json_laws_def pending_credentials_def)
      note S = save_run [OF assms(1) E laws(1) this two]
      have res: "s' = s2" "r = (case r2 of Inl e \<Rightarrow> Inl e | Inr _ \<Rightarrow> Inr (csr, key))"
        using run two None one Inr ck t1 by (auto simp: enroll_key_def on_system_def bnd_def map_err_def handle_def ret_def throw_def split: sum.splits prod.splits)
      have "not_enrolled s d" using stored None by simp
      then show ?thesis using S res waiting_pending [OF ne] by (cases r2) auto
    qed
  qed
  then show "device_at st m s' d" "dv_peer s' = dv_peer s"
    "(\<exists>e. r = Inl e) \<and> (disk_of J s' d = disk_of J s d \<or> not_enrolled s d \<and> (\<exists>csr key p. waiting_for csr key p \<and> disk_of J s' d = Some p)) \<or>
      (\<exists>csr key p. r = Inr (csr, key) \<and> waiting_for csr key p \<and> disk_of J s' d = Some p \<and> (disk_of J s d = Some p \<or> not_enrolled s d))" by auto
qed

section \<open>An attempt\<close>

text \<open>
  The ways an attempt to enrol can go. \<open>attempt\<close> relates the states before and after it and its result: the device was enrolled already,
  the attempt stopped before it reached the server, or the server was asked with the request that is on the disk.
\<close>

inductive attempt :: "device_crypto \<Rightarrow> credential_json \<Rightarrow> enrollment_request \<Rightarrow> (string \<Rightarrow> string \<Rightarrow> string \<Rightarrow> string \<Rightarrow> bytes \<Rightarrow> ('w, register_agent_result) prog) \<Rightarrow>
    env \<Rightarrow> ino \<Rightarrow> 'w device_host \<Rightarrow> go_error + enrollment_result \<Rightarrow> 'w device_host \<Rightarrow> bool"
  for K J rq reg E d s where
  already: "attempt K J rq reg E d s (Inr \<lparr>er_credentials = c, er_already = True\<rparr>) s" if "disk_of J s d = Some c" "Ready (Some c)"
| stopped: "attempt K J rq reg E d s (Inl e) s'"
    if "dv_peer s' = dv_peer s" "disk_of J s' d = disk_of J s d \<or> not_enrolled s d \<and> waiting_for csr key p \<and> disk_of J s' d = Some p"
| refused: "attempt K J rq reg E d s (Inl e) s'"
    if "waiting_for csr key p" "disk_of J s d = Some p \<or> not_enrolled s d" "disk_of J s' d = Some p"
      "reg (eq_server_url rq) (eq_token rq) (eq_hostname rq) (eq_version rq) csr E n1 (dv_peer s) = (x, n2, dv_peer s')"
| accepted: "attempt K J rq reg E d s r s'"
    if "waiting_for csr key p" "disk_of J s d = Some p \<or> not_enrolled s d" "disk_of J s' d = Some c"
      "reg (eq_server_url rq) (eq_token rq) (eq_hostname rq) (eq_version rq) csr E n1 (dv_peer s) = (Inr result, n2, dv_peer s')"
      "normalizePin (eq_ca_pin rq) = Inr pin" "accept_registration K pin key result = Inr c"
      "r = Inr \<lparr>er_credentials = c, er_already = False\<rparr> \<or> (\<exists>e. r = Inl e)"

lemma accepted_credentials:
  assumes "accept_registration K pin key result = Inr c"
  shows "c = enrolled_credentials result key" and "Ready (Some c)" and "\<exists>got. CAFingerprintFromPEM K (cr_ca_cert c) = Inr got \<and> ToLower got = ToLower pin"
  using assms by (auto simp: accept_registration_def enrolled_credentials_def Let_def split: if_splits sum.splits)

lemma map_err_run: "map_err w m E n s = (r, n', s') \<longleftrightarrow> (\<exists>r1. m E n s = (r1, n', s') \<and> r = (case r1 of Inl e \<Rightarrow> Inl (w e) | Inr x \<Rightarrow> Inr x))"
  by (cases "m E n s") (auto simp: map_err_def handle_def throw_def split: sum.splits)

text \<open>The last two steps: the answer is judged and the credentials are saved.\<close>

lemma enroll_answer_run:
  assumes at: "device_at st m s d" and E: "plain_names E" and laws: "json_laws J" and utf: "json_text J (ra_device_id result)" "json_text J (ra_control_url result)"
    and run: "bnd (lift_sum (accept_registration K pin key result)) (\<lambda>creds.
       bnd (map_err (EWrap ''save credentials'') (on_system (Save J st creds))) (\<lambda>_.
       ret \<lparr>er_credentials = creds, er_already = False\<rparr>)) E n s = (r, n', s')"
  shows "device_at st m s' d \<and> dv_peer s' = dv_peer s \<and>
    ((\<exists>e. r = Inl e) \<and> disk_of J s' d = disk_of J s d \<or>
     (\<exists>c. accept_registration K pin key result = Inr c \<and> disk_of J s' d = Some c \<and> (r = Inr \<lparr>er_credentials = c, er_already = False\<rparr> \<or> (\<exists>e. r = Inl e))))"
proof (cases "accept_registration K pin key result")
  case (Inl e)
  then show ?thesis using run at by (auto simp: bnd_def lift_sum_def ret_def throw_def)
next
  case (Inr c)
  obtain r1 n1 s1 where one: "map_err (EWrap ''save credentials'') (on_system (Save J st c)) E n s = (r1, n1, s1)" by (rule prod_cases3)
  have "json_text J (cr_device_id c)" "json_text J (cr_agent_addr c)" using utf accepted_credentials(1) [OF Inr] by (simp_all add: enrolled_credentials_def)
  note S = save_run [OF at E laws this one]
  have "s' = s1" "r = (case r1 of Inl e \<Rightarrow> Inl e | Inr _ \<Rightarrow> Inr \<lparr>er_credentials = c, er_already = False\<rparr>)"
    using run Inr one by (auto simp: bnd_def lift_sum_def ret_def throw_def split: sum.splits)
  then show ?thesis using S Inr by (cases r1) auto
qed

lemma enroll_run:
  assumes at: "device_at st m s d" and E: "plain_names E" and laws: "json_laws J" "crypto_laws K" and utf: "utf8_register J reg"
    and run: "enroll K parse J rq (Some st) reg E n s = (r, n', s')"
  shows "device_at st m s' d \<and> attempt K J rq reg E d s r s'"
proof -
  obtain r0 n0 s0 where zero: "handle (bnd (on_system (in_files (Load J st))) (\<lambda>c. ret (Some c)))
      (\<lambda>e. if errors_is e ErrNotExist then ret None else throw (EWrap ''load credentials'' e)) E n s = (r0, n0, s0)" by (rule prod_cases3)
  note L = load_run [OF at zero]
  have body: "(case r0 of Inl e \<Rightarrow> (Inl e, n0, s) | Inr stored \<Rightarrow> enroll_stored K parse J rq st reg stored E n0 s) = (r, n', s')"
    using run zero L(1) by (cases r0) (auto simp: enroll_def bnd_def)
  have keep: "device_at st m s d \<and> attempt K J rq reg E d s (Inl e) s" for e using at by (auto intro: stopped)
  show ?thesis
  proof (cases "\<exists>stored pin. r0 = Inr stored \<and> \<not> Ready stored \<and> eq_server_url rq \<noteq> '''' \<and> eq_token rq \<noteq> '''' \<and> eq_hostname rq \<noteq> '''' \<and> eq_version rq \<noteq> '''' \<and>
      normalizePin (eq_ca_pin rq) = Inr pin \<and> ValidateHTTPSURL parse (eq_server_url rq) = None")
    case False
    have "(\<exists>e. r = Inl e) \<and> s' = s \<or> (\<exists>c. r0 = Inr (Some c) \<and> Ready (Some c) \<and> r = Inr \<lparr>er_credentials = c, er_already = True\<rparr> \<and> s' = s)"
    proof (cases r0)
      case (Inr stored)
      then have b: "enroll_stored K parse J rq st reg stored E n0 s = (r, n', s')" using body by simp
      show ?thesis
      proof (cases "Ready stored")
        case True
        then obtain c where "stored = Some c" by (cases stored) (simp_all add: Ready_def)
        then show ?thesis using b True Inr by (simp add: enroll_stored_def ret_def)
      next
        case nr: False
        show ?thesis
        proof (rule ccontr)
          assume "\<not> ?thesis"
          then show False using b False Inr nr
            by (cases "normalizePin (eq_ca_pin rq)"; cases "ValidateHTTPSURL parse (eq_server_url rq)") (auto simp: enroll_stored_def throw_def split: if_splits)
        qed
      qed
    qed (use body in auto)
    then show ?thesis using keep L(2) at by (auto intro: already)
  next
    case True
    then obtain stored pin where ok: "r0 = Inr stored" "\<not> Ready stored" "eq_server_url rq \<noteq> ''''" "eq_token rq \<noteq> ''''" "eq_hostname rq \<noteq> ''''" "eq_version rq \<noteq> ''''"
      "normalizePin (eq_ca_pin rq) = Inr pin" "ValidateHTTPSURL parse (eq_server_url rq) = None" by blast
    obtain r1 n1 s1 where one: "on_system (enroll_key K J st (eq_hostname rq) stored) E n0 s = (r1, n1, s1)" by (rule prod_cases3)
    have "case stored of Some c \<Rightarrow> disk_of J s d = Some c | None \<Rightarrow> not_enrolled s d" using L(2,3) ok(1) by (cases stored) auto
    note KR = enroll_key_run [OF at E laws ok(2) this one]
    let ?ask = "\<lambda>csr. reg (eq_server_url rq) (eq_token rq) (eq_hostname rq) (eq_version rq) csr"
    show ?thesis
    proof (cases r1)
      case (Inl e)
      then have "r = Inl e" "s' = s1" using body ok one by (auto simp: enroll_stored_def bnd_def)
      then show ?thesis using KR Inl by (auto intro: stopped)
    next
      case (Inr ck)
      then obtain csr key p where ck: "ck = (csr, key)" "waiting_for csr key p" "disk_of J s1 d = Some p" "disk_of J s d = Some p \<or> not_enrolled s d" using KR(3) by auto
      obtain x n2 w where two: "?ask csr E n1 (dv_peer s) = (x, n2, w)" by (rule prod_cases3)
      let ?s2 = "s1\<lparr>dv_peer := w\<rparr>"
      have asked: "map_err (EWrap ''register agent'') (on_peer (?ask csr)) E n1 s1 = (case x of Inl e \<Rightarrow> Inl (EWrap ''register agent'' e) | Inr y \<Rightarrow> Inr y, n2, ?s2)"
        using two KR(2) by (simp add: map_err_run on_peer_run)
      have rest: "(case x of Inl e \<Rightarrow> (Inl (EWrap ''register agent'' e), n2, ?s2)
        | Inr result \<Rightarrow> bnd (lift_sum (accept_registration K pin key result)) (\<lambda>creds.
            bnd (map_err (EWrap ''save credentials'') (on_system (Save J st creds))) (\<lambda>_.
            ret \<lparr>er_credentials = creds, er_already = False\<rparr>)) E n2 ?s2) = (r, n', s')"
        using body ok one Inr ck(1) asked
        by (cases x) (simp_all add: enroll_stored_def bnd_def [of "on_system (enroll_key _ _ _ _ _)"] bnd_def [of "map_err _ (on_peer _)"])
      have at2: "device_at st m ?s2 d" "disk_of J ?s2 d = Some p" using KR(1) ck(3) by simp_all
      show ?thesis
      proof (cases x)
        case (Inl e)
        then show ?thesis using rest at2 two ck by (auto intro: refused)
      next
        case x: (Inr result)
        then have "json_text J (ra_device_id result)" "json_text J (ra_control_url result)" using utf two unfolding utf8_register_def by metis+
        from enroll_answer_run [OF at2(1) E laws(1) this] rest x
        have A: "device_at st m s' d" "dv_peer s' = w"
          "(\<exists>e. r = Inl e) \<and> disk_of J s' d = Some p \<or>
           (\<exists>c. accept_registration K pin key result = Inr c \<and> disk_of J s' d = Some c \<and> (r = Inr \<lparr>er_credentials = c, er_already = False\<rparr> \<or> (\<exists>e. r = Inl e)))"
          using at2(2) by auto
        show ?thesis using A(3)
        proof
          assume "(\<exists>e. r = Inl e) \<and> disk_of J s' d = Some p"
          then show ?thesis using A two ck by (auto intro: refused)
        next
          assume "\<exists>c. accept_registration K pin key result = Inr c \<and> disk_of J s' d = Some c \<and> (r = Inr \<lparr>er_credentials = c, er_already = False\<rparr> \<or> (\<exists>e. r = Inl e))"
          then show ?thesis using A(1) accepted [OF ck(2,4) _ _ ok(7)] two x A(2) by metis
        qed
      qed
    qed
  qed
qed

section \<open>Pinning\<close>

lemma attempt_pinned:
  assumes "attempt K J rq reg E d s r s'"
  shows "disk_of J s' d = Some c \<Longrightarrow> Ready (Some c) \<Longrightarrow> disk_of J s d = Some c \<or>
      (\<exists>pin got. normalizePin (eq_ca_pin rq) = Inr pin \<and> CAFingerprintFromPEM K (cr_ca_cert c) = Inr got \<and> ToLower got = ToLower pin)"
    and "r = Inr res \<Longrightarrow> disk_of J s' d = Some (er_credentials res) \<and> Ready (Some (er_credentials res))"
    and "disk_of J s d = Some c0 \<Longrightarrow> Ready (Some c0) \<Longrightarrow> s' = s \<or> disk_of J s' d = Some c0 \<and> dv_peer s' = dv_peer s"
  using assms
  by (cases rule: attempt.cases; use waiting_not_ready accepted_credentials in \<open>fastforce simp: not_enrolled_def disk_of_def on_disk_def\<close>)+

text \<open>
  C11. Whatever fails during \<^verbatim>\<open>enroll\<close>, and whatever the server answers: usable credentials found on the disk afterwards are the ones that
  were there, or belong to a CA with the fingerprint the operator gave; the result of a successful attempt is usable and on the disk;
  and an enrolled device keeps its credentials and asks no server.
\<close>

theorem enrolment_is_pinned:
  assumes "device_at st m s d" and "plain_names E" and "json_laws J" and "crypto_laws K" and "utf8_register J (RegisterAgent control)"
    and run: "Enroll K parse J rq (Some st) control E n s = (r, n', s')"
  shows "(\<forall>c. disk_of J s' d = Some c \<and> Ready (Some c) \<longrightarrow> disk_of J s d = Some c \<or>
      (\<exists>pin got. normalizePin (eq_ca_pin rq) = Inr pin \<and> CAFingerprintFromPEM K (cr_ca_cert c) = Inr got \<and> ToLower got = ToLower pin)) \<and>
    (\<forall>res. r = Inr res \<longrightarrow> disk_of J s' d = Some (er_credentials res) \<and> Ready (Some (er_credentials res))) \<and>
    (\<forall>c. disk_of J s d = Some c \<and> Ready (Some c) \<longrightarrow> disk_of J s' d = Some c \<and> dv_peer s' = dv_peer s) \<and>
    device_at st m s' d"
proof -
  have A: "device_at st m s' d \<and> attempt K J rq (RegisterAgent control) E d s r s'"
    using enroll_run assms(1-5) run unfolding Enroll_def by blast
  note P = attempt_pinned [OF A [THEN conjunct2]]
  have "\<forall>c. disk_of J s' d = Some c \<and> Ready (Some c) \<longrightarrow> disk_of J s d = Some c \<or>
      (\<exists>pin got. normalizePin (eq_ca_pin rq) = Inr pin \<and> CAFingerprintFromPEM K (cr_ca_cert c) = Inr got \<and> ToLower got = ToLower pin)"
    using P(1) by blast
  moreover have "\<forall>res. r = Inr res \<longrightarrow> disk_of J s' d = Some (er_credentials res) \<and> Ready (Some (er_credentials res))" using P(2) by blast
  moreover have "\<forall>c. disk_of J s d = Some c \<and> Ready (Some c) \<longrightarrow> disk_of J s' d = Some c \<and> dv_peer s' = dv_peer s" using P(3) by fastforce
  ultimately show ?thesis using A by blast
qed

section \<open>The stored identity survives\<close>

text \<open>
  C20. Whatever fails during \<^verbatim>\<open>Save\<close>, a later \<^verbatim>\<open>Load\<close> finds complete credentials, the ones stored before or the new ones, and the
  new ones when \<^verbatim>\<open>Save\<close> reported success.
\<close>

theorem credentials_survive:
  assumes at: "store_at st m (sy_files s) d" and "plain_names E" and "json_laws J" "json_text J (cr_device_id c)" "json_text J (cr_agent_addr c)"
    and stored: "on_disk J (sy_files s) d = Some c0" and run: "Save J st c E n s = (r, n', s')" and calm: "calm E'"
  shows "\<exists>x k'. Load J st E' k (sy_files s') = (Inr x, k', sy_files s') \<and> (x = c \<or> x = c0 \<and> r \<noteq> Inr ())"
proof -
  obtain b where "json_marshal J c = Some b" "json_unmarshal J b = Some c" using assms(3-5) by (auto simp: json_laws_def)
  then have S: "store_at st m (sy_files s') d" "on_disk J (sy_files s') d = Some c \<or> on_disk J (sy_files s') d = Some c0 \<and> r \<noteq> Inr ()"
    using Save_run [OF at assms(2) run] stored by auto
  obtain x k' F where load: "Load J st E' k (sy_files s') = (x, k', F)" by (rule prod_cases3)
  show ?thesis using Load_run(1,4) [OF S(1) load] S(2) calm load by auto
qed

end
