(* ===== verification/System_Enrolment.thy ===== *)
theory System_Enrolment
  imports Agent_Enroll_Props Server_Device_Props
begin

text \<open>
  A device and a server that enrol over a network that loses requests and answers. The peer of the device is the database of the
  server, and what \<^verbatim>\<open>RegisterAgent\<close> reaches is the server's \<open>Register\<close>. The operator, or the service manager, repeats the attempt.
\<close>

section \<open>The network\<close>

text \<open>The request is lost, or the answer, or neither; a lost answer leaves the server with the effect of the request.\<close>

definition unreliable :: "('s, 'a) prog \<Rightarrow> ('s, 'a) prog" where
  "unreliable m = (\<lambda>E n s. if fault E n then (Inl EDriver, Suc n, s)
     else (case m E (Suc n) s of (r, n', s') \<Rightarrow> (if fault E n' then Inl EDriver else r, Suc n', s')))"

definition server_at :: "service \<Rightarrow> string \<Rightarrow> register_request \<Rightarrow> (srv_db, register_response) prog" where
  "server_at svc url req = unreliable (Register svc req)"

section \<open>What a registration leaves in the database\<close>

definition device_of :: "service \<Rightarrow> bytes \<Rightarrow> device \<Rightarrow> srv_db \<Rightarrow> bool" where
  "device_of svc csr dev w \<longleftrightarrow> dev \<in> set (devices w) \<and> EnrollmentIdentityFromCSR (ca_x509 (svc_ca svc)) csr = Inr (dev_identity_key dev)"

lemma consume_devices: "consumeRegistrationToken token t E n s = (Inr c, n', s') \<Longrightarrow> devices s' = devices s"
  by (auto simp: consumeRegistrationToken_def q_ConsumeFinalRegistrationToken_def q_ConsumeRegistrationToken_def q_DeleteRegistrationToken_def
    update_one_def Let_def run_simps split: option.splits if_splits)

lemma Register_failed: "Register svc req E n w = (Inl e, n', w') \<Longrightarrow> w' = w"
  using atomic_sessions(8) [of svc req] by (auto simp: atomic_def)

lemma Register_known:
  assumes "Register svc req E n w = (x, n', w')" and "device_of svc (rr_csr req) dev w"
  shows "w' = w"
proof (cases x)
  case (Inr rsp)
  have some: "List.find (\<lambda>d. dev_identity_key d = dev_identity_key dev) (devices w) \<noteq> None" using assms(2) by (auto simp: device_of_def find_None_iff)
  show ?thesis using assms Inr some
    by (auto simp: device_of_def Register_def Let_def q_FindDeviceByIdentityKey_def run_simps split: option.splits)
qed (use Register_failed assms in blast)

lemma register_device_stores:
  assumes "register_device token t d req identity pem serial na E n w = (Inr (), n', w')"
  shows "\<exists>dev. dev \<in> set (devices w') \<and> dev_id dev = d \<and> dev_identity_key dev = identity \<and> dev_active_pem dev = pem"
proof -
  from assms obtain c n1 n2 w1 where con: "consumeRegistrationToken token t E n1 w = (Inr c, n2, w1)"
    and rest: "\<exists>dev. devices w' = devices w1 @ [dev] \<and> dev_id dev = d \<and> dev_identity_key dev = identity \<and> dev_active_pem dev = pem"
    by (fastforce simp: register_device_def q_CreateDevice_def q_CreateAuditEvent_def insert_row_Inr Let_def run_simps)
  then show ?thesis by auto
qed

lemma Register_answer:
  assumes "Register svc req E n w = (Inr rsp, n', w')"
  shows "\<exists>dev. device_of svc (rr_csr req) dev w' \<and> dev_id dev = rs_device_id rsp \<and> dev_active_pem dev = rs_certificate rsp"
proof -
  obtain identity where i: "EnrollmentIdentityFromCSR (ca_x509 (svc_ca svc)) (rr_csr req) = Inr identity"
    using assms by (auto simp: Register_def Let_def run_simps)
  show ?thesis
  proof (cases "List.find (\<lambda>d. dev_identity_key d = identity) (devices w)")
    case None
    then show ?thesis using assms i
      by (auto simp: device_of_def Register_def Let_def q_FindDeviceByIdentityKey_def run_simps split: prod.splits dest!: register_device_stores)
  next
    case (Some dev)
    then have "dev \<in> set (devices w)" "dev_identity_key dev = identity" by (auto dest!: find_SomeD)
    moreover have "w' = w" "rs_device_id rsp = dev_id dev" "rs_certificate rsp = dev_active_pem dev"
      using assms i Some by (auto simp: Register_def Let_def q_FindDeviceByIdentityKey_def run_simps)
    ultimately show ?thesis using i by (auto simp: device_of_def)
  qed
qed

section \<open>An attempt against the server\<close>

lemma server_at_run:
  assumes "RegisterAgent (server_at svc) url token host ver csr E n w = (x, n', w')"
  obtains (lost) e where "x = Inl e" "w' = w"
  | (reached) req k y k' where "rr_csr req = csr" "Register svc req E k w = (y, k', w')"
      "\<forall>res. x = Inr res \<longrightarrow> (\<exists>rsp. y = Inr rsp \<and> ra_device_id res = rs_device_id rsp \<and> ra_certificate res = rs_certificate rsp)"
proof (cases "fault E n")
  case True
  then have "(\<exists>e. x = Inl e) \<and> w' = w" using assms by (auto simp: RegisterAgent_def server_at_def unreliable_def bnd_def map_err_def handle_def throw_def)
  then show ?thesis using lost by blast
next
  case False
  let ?req = "\<lparr>rr_token = token, rr_csr = csr, rr_hostname = host, rr_agent_version = ver\<rparr>"
  obtain y k' w1 where run: "Register svc ?req E (Suc n) w = (y, k', w1)" by (rule prod_cases3)
  have "w' = w1 \<and> (\<forall>res. x = Inr res \<longrightarrow> (\<exists>rsp. y = Inr rsp \<and> ra_device_id res = rs_device_id rsp \<and> ra_certificate res = rs_certificate rsp))"
    using assms False run
    by (cases y; cases "fault E k'") (auto simp: RegisterAgent_def server_at_def unreliable_def bnd_def map_err_def handle_def throw_def ret_def)
  then show ?thesis using reached [of ?req "Suc n" y k'] run by simp
qed

text \<open>Attempts one after the other, each with its own arguments and environment, whether they succeed or fail.\<close>

primrec attempts :: "device_crypto \<Rightarrow> url_parser \<Rightarrow> credential_json \<Rightarrow> cred_store \<Rightarrow> service \<Rightarrow> (enrollment_request \<times> env \<times> nat) list \<Rightarrow> srv_db device_host \<Rightarrow> srv_db device_host" where
  "attempts K parse J st svc [] s = s"
| "attempts K parse J st svc (a # as) s = (case a of (rq, E, n) \<Rightarrow>
     attempts K parse J st svc as (snd (snd (Enroll K parse J rq (Some st) (server_at svc) E n s))))"

text \<open>How far the device has come since the server was at \<open>w\<close>: it has not reached the server, its request has been registered and it does not know,
  or it has the identity the server has given it.\<close>

definition registered_once :: "service \<Rightarrow> bytes \<Rightarrow> srv_db \<Rightarrow> srv_db \<Rightarrow> bool" where
  "registered_once svc csr w w' \<longleftrightarrow> w' = w \<or> (\<exists>req E n rsp n'. rr_csr req = csr \<and> Register svc req E n w = (Inr rsp, n', w'))"

definition identity_of :: "credentials \<Rightarrow> device \<Rightarrow> bool" where
  "identity_of c dev \<longleftrightarrow> cr_device_id c = dev_id dev \<and> cr_certificate c = dev_active_pem dev"

definition progress :: "credential_json \<Rightarrow> service \<Rightarrow> srv_db \<Rightarrow> ino \<Rightarrow> srv_db device_host \<Rightarrow> bool" where
  "progress J svc w d s \<longleftrightarrow>
     dv_peer s = w \<and> (\<forall>c. disk_of J s d = Some c \<longrightarrow> \<not> Ready (Some c)) \<or>
     (\<exists>csr key p. disk_of J s d = Some p \<and> waiting_for csr key p \<and> registered_once svc csr w (dv_peer s)) \<or>
     (\<exists>csr c dev. disk_of J s d = Some c \<and> Ready (Some c) \<and> registered_once svc csr w (dv_peer s) \<and> device_of svc csr dev (dv_peer s) \<and> identity_of c dev)"

lemma registered_again:
  assumes "registered_once svc csr w w1" and "Register svc req E n w1 = (x, n', w2)" and "rr_csr req = csr"
  shows "registered_once svc csr w w2"
proof (cases "w1 = w")
  case True
  then show ?thesis using assms(2,3) Register_failed by (cases x) (fastforce simp: registered_once_def)+
next
  case False
  then have "w2 = w1" using assms Register_answer Register_known unfolding registered_once_def by metis
  then show ?thesis using assms(1) by simp
qed

lemma ask_progress:
  assumes "registered_once svc csr w w1" and "RegisterAgent (server_at svc) url token host ver csr E n w1 = (x, n', w2)"
  shows "registered_once svc csr w w2"
    and "x = Inr res \<Longrightarrow> \<exists>dev. device_of svc csr dev w2 \<and> ra_device_id res = dev_id dev \<and> ra_certificate res = dev_active_pem dev"
proof -
  have "registered_once svc csr w w2 \<and> (\<forall>res. x = Inr res \<longrightarrow> (\<exists>dev. device_of svc csr dev w2 \<and> ra_device_id res = dev_id dev \<and> ra_certificate res = dev_active_pem dev))"
    using assms(2)
  proof (cases rule: server_at_run)
    case (reached req k y k')
    then show ?thesis using registered_again [OF assms(1) reached(2,1)] Register_answer by metis
  qed (use assms(1) in simp)
  then show "registered_once svc csr w w2"
    "x = Inr res \<Longrightarrow> \<exists>dev. device_of svc csr dev w2 \<and> ra_device_id res = dev_id dev \<and> ra_certificate res = dev_active_pem dev" by auto
qed

lemma attempt_progress:
  assumes "progress J svc w d s" and att: "attempt K J rq (RegisterAgent (server_at svc)) E d s r s'"
  shows "progress J svc w d s'"
  using assms(1) unfolding progress_def [of J svc w d s]
proof (elim disjE exE conjE)
  fix csr c dev assume "disk_of J s d = Some c" "Ready (Some c)" "registered_once svc csr w (dv_peer s)" "device_of svc csr dev (dv_peer s)" "identity_of c dev"
  moreover from this have "disk_of J s' d = Some c" "dv_peer s' = dv_peer s" using attempt_pinned(3) [OF att] by metis+
  ultimately show ?thesis unfolding progress_def by metis
next
  assume fresh: "dv_peer s = w" "\<forall>c. disk_of J s d = Some c \<longrightarrow> \<not> Ready (Some c)"
  have once: "registered_once svc csr w (dv_peer s)" for csr using fresh by (simp add: registered_once_def)
  show ?thesis using att
  proof (cases rule: attempt.cases)
    case (stopped csr key p e)
    then show ?thesis using fresh waiting_not_ready unfolding progress_def by (metis option.inject)
  next
    case (refused csr key p e n1 x n2)
    then show ?thesis using ask_progress(1) [OF once] unfolding progress_def by metis
  next
    case (accepted csr key p c n1 result n2 pin)
    note ask = ask_progress [OF once accepted(4)]
    from ask(2) accepted_credentials(1,2) [OF accepted(6)] obtain dev where "device_of svc csr dev (dv_peer s')" "identity_of c dev"
      by (auto simp: identity_of_def enrolled_credentials_def)
    then show ?thesis using ask(1) accepted(3) accepted_credentials(2) [OF accepted(6)] unfolding progress_def by metis
  qed (use fresh in blast)
next
  fix csr key p assume wait: "disk_of J s d = Some p" "waiting_for csr key p" and once: "registered_once svc csr w (dv_peer s)"
  have same: "csr' = csr" if "waiting_for csr' key' q" "disk_of J s d = Some q \<or> not_enrolled s d" for csr' key' q
    using that wait no_entry_no_disk [of s d J] by (auto simp: waiting_for_def)
  show ?thesis using att
  proof (cases rule: attempt.cases)
    case (already c)
    then show ?thesis using wait waiting_not_ready by auto
  next
    case (stopped csr' key' q e)
    then have "disk_of J s' d = Some p" using wait no_entry_no_disk [of s d J] by auto
    then show ?thesis using stopped wait once unfolding progress_def by metis
  next
    case (refused csr' key' q e n1 x n2)
    note refused(5) [unfolded same [OF refused(2,3)]]
    from ask_progress(1) [OF once this] show ?thesis using refused(4) refused(2) same [OF refused(2,3)] unfolding progress_def by metis
  next
    case (accepted csr' key' q c n1 result n2 pin)
    note ask = ask_progress [OF once accepted(4) [unfolded same [OF accepted(1,2)]]]
    from ask(2) accepted_credentials(1,2) [OF accepted(6)] obtain dev where "device_of svc csr dev (dv_peer s')" "identity_of c dev"
      by (auto simp: identity_of_def enrolled_credentials_def)
    then show ?thesis using ask(1) accepted(3) accepted_credentials(2) [OF accepted(6)] unfolding progress_def by metis
  qed
qed

lemma attempts_progress:
  assumes "device_at st m s d" and "json_laws J" "crypto_laws K" "utf8_register J (RegisterAgent (server_at svc))"
    and "\<forall>a\<in>set as. plain_names (fst (snd a))" and "progress J svc w d s"
  shows "progress J svc w d (attempts K parse J st svc as s)"
  using assms(1,5,6)
proof (induction as arbitrary: s)
  case (Cons a as)
  obtain rq E n where a: "a = (rq, E, n)" by (rule prod_cases3)
  obtain r n' s' where run: "Enroll K parse J rq (Some st) (server_at svc) E n s = (r, n', s')" by (rule prod_cases3)
  have "device_at st m s' d" "attempt K J rq (RegisterAgent (server_at svc)) E d s r s'"
    using enroll_run [OF Cons.prems(1) _ assms(2-4) run [unfolded Enroll_def]] Cons.prems(2) a by auto
  then show ?case using Cons.IH [of s'] Cons.prems attempt_progress a run by simp
qed simp

text \<open>
  C32. Any number of attempts to enrol, with any failures of the disk, the network, the server and its database, have the effect on the server
  of at most one successful registration, so they use a registration token at most once and create at most one device; and when the
  device has its credentials, they name a device of the server and carry the certificate the server has on record for it.
\<close>

theorem enrolment_registers_once:
  assumes "device_at st m s d" and "disk_of J s d = None" and "json_laws J" and "crypto_laws K" and "utf8_register J (RegisterAgent (server_at svc))"
    and "\<forall>a\<in>set as. plain_names (fst (snd a))"
  shows "let s' = attempts K parse J st svc as s in
    (dv_peer s' = dv_peer s \<or> (\<exists>req E n rsp n'. Register svc req E n (dv_peer s) = (Inr rsp, n', dv_peer s'))) \<and>
    (\<forall>c. disk_of J s' d = Some c \<and> Ready (Some c) \<longrightarrow>
      (\<exists>dev\<in>set (devices (dv_peer s')). dev_id dev = cr_device_id c \<and> dev_active_pem dev = cr_certificate c))"
proof -
  have "progress J svc (dv_peer s) d s" using assms(2) by (simp add: progress_def)
  then have P: "progress J svc (dv_peer s) d (attempts K parse J st svc as s)" by (rule attempts_progress [OF assms(1,3-6)])
  show ?thesis unfolding Let_def
  proof (intro conjI allI impI)
    show "dv_peer (attempts K parse J st svc as s) = dv_peer s \<or>
      (\<exists>req E n rsp n'. Register svc req E n (dv_peer s) = (Inr rsp, n', dv_peer (attempts K parse J st svc as s)))"
      using P unfolding progress_def registered_once_def by blast
  next
    fix c assume "disk_of J (attempts K parse J st svc as s) d = Some c \<and> Ready (Some c)"
    then show "\<exists>dev\<in>set (devices (dv_peer (attempts K parse J st svc as s))). dev_id dev = cr_device_id c \<and> dev_active_pem dev = cr_certificate c"
      using P waiting_not_ready unfolding progress_def device_of_def identity_of_def by (metis option.inject)
  qed
qed

end
