(* ===== verification/Agent_Rotation.thy ===== *)
theory Agent_Rotation
  imports Agent_Enroll_Props
begin

text \<open>
  The connection loop of the agent and the rotation of its certificate: \<^verbatim>\<open>agent/cmd/cadestrod/cert_rotation.go\<close>, \<^verbatim>\<open>runtime.go\<close>, \<^verbatim>\<open>main.go\<close> and
  \<^verbatim>\<open>backend.go\<close>. The state is the process: its copy of the credentials, the fallback flag and the backoff, over the host. A session is
  a parameter that tells whether the stream became ready; the goroutines that pull policies and send results are in \<open>Agent_Scheduler\<close>
  and do not touch the credentials.
\<close>

section \<open>Which certificate to present\<close>

text \<open>Certificate, key and the only trusted CA of a mutual TLS connection.\<close>

type_synonym mtls = "bytes \<times> bytes \<times> bytes"

definition WithMTLSFromPEM :: "device_crypto \<Rightarrow> bytes \<Rightarrow> bytes \<Rightarrow> bytes \<Rightarrow> go_error + mtls" where
  "WithMTLSFromPEM K certPEM keyPEM caPEM = (
     if \<not> dc_key_pair K certPEM keyPEM then Inl (EWrap ''parse client certificate'' (EText ''tls''))
     else if \<not> dc_cert_pool K caPEM then Inl (EText ''parse CA certificate'')
     else Inr (certPEM, keyPEM, caPEM))"

definition presentPendingCertificate :: "bool \<Rightarrow> bool \<Rightarrow> bool" where
  "presentPendingCertificate pending fallbackActive = (pending \<and> \<not> fallbackActive)"

text \<open>The option or the error, \<^verbatim>\<open>usingPending\<close> and \<^verbatim>\<open>pendingInvalid\<close>.\<close>

definition configureAgentMTLS :: "device_crypto \<Rightarrow> credentials \<Rightarrow> bool \<Rightarrow> (go_error + mtls) \<times> bool \<times> bool" where
  "configureAgentMTLS K creds fallbackActive = (
     let usingPending = presentPendingCertificate (cr_pending_certificate creds \<noteq> '''') fallbackActive;
       presentedCertificate = (if usingPending then cr_pending_certificate creds else cr_certificate creds);
       mtlsOpt = WithMTLSFromPEM K presentedCertificate (cr_private_key creds) (cr_ca_cert creds) in
     case mtlsOpt of
       Inl e \<Rightarrow> if usingPending then (Inl e, True, True) else (Inl e, usingPending, False)
     | Inr opt \<Rightarrow> (Inr opt, usingPending, False))"

definition fallbackAfterConnection :: "bool \<Rightarrow> bool \<Rightarrow> bool \<Rightarrow> bool" where
  "fallbackAfterConnection pending presentedPending connected = (if \<not> pending \<or> connected then False else presentedPending)"

section \<open>The process\<close>

record 'w agent_process =
  ap_host :: "'w device_host"
  ap_creds :: credentials
  ap_fallback :: bool
  ap_backoff :: int
  ap_first :: bool

definition in_host :: "('w device_host, 'a) prog \<Rightarrow> ('w agent_process, 'a) prog" where
  "in_host m = (\<lambda>E n s. case m E n (ap_host s) of (r, n', h) \<Rightarrow> (r, n', s\<lparr>ap_host := h\<rparr>))"

definition get_process :: "('w agent_process, 'w agent_process) prog" where
  "get_process = (\<lambda>E n s. (Inr s, n, s))"

definition update_process :: "('w agent_process \<Rightarrow> 'w agent_process) \<Rightarrow> ('w agent_process, unit) prog" where
  "update_process f = (\<lambda>E n s. (Inr (), n, f s))"

section \<open>Renewal\<close>

definition applyRenewal :: "device_crypto \<Rightarrow> int \<Rightarrow> credentials \<Rightarrow> bytes \<Rightarrow> go_error + credentials" where
  "applyRenewal K t creds certificate = (
     if certificate = [] then Inl (EText ''renewal returned an empty certificate'')
     else (case validateRenewalCertificate K t certificate (cr_private_key creds) (cr_ca_cert creds) (cr_device_id creds) of
       Some e \<Rightarrow> Inl e
     | None \<Rightarrow> Inr (creds\<lparr>cr_pending_certificate := certificate\<rparr>)))"

definition renewCertificateIfDue :: "device_crypto \<Rightarrow> credential_json \<Rightarrow> cred_store \<Rightarrow> (mtls \<Rightarrow> string \<Rightarrow> bytes \<Rightarrow> ('w, bytes) prog) \<Rightarrow> string \<Rightarrow>
    credentials \<Rightarrow> bool \<Rightarrow> ('w agent_process, bool) prog" where
  "renewCertificateIfDue K J st control hostname creds force = (case dc_pem_decode K (cr_certificate creds) of
     None \<Rightarrow> throw (EText ''decode active certificate'')
   | Some (_, b, _) \<Rightarrow> (case dc_parse_certificate K b of
       None \<Rightarrow> throw (EText ''x509'')
     | Some cert \<Rightarrow>
         bnd (if force then ret True else bnd now (\<lambda>t. ret (certificateRenewalDue cert t))) (\<lambda>due.
         if \<not> due then ret False
         else bnd (GenerateCSRFromKey K hostname (cr_private_key creds)) (\<lambda>csr.
           bnd (lift_sum (WithMTLSFromPEM K (cr_certificate creds) (cr_private_key creds) (cr_ca_cert creds))) (\<lambda>opt.
           bnd (in_host (on_peer (client_RenewCertificate control (cr_agent_addr creds) csr opt))) (\<lambda>result.
           bnd now (\<lambda>t.
           bnd (lift_sum (applyRenewal K t creds result)) (\<lambda>renewed.
           bnd (update_process (\<lambda>s. s\<lparr>ap_creds := renewed\<rparr>)) (\<lambda>_.
           bnd (in_host (on_system (Save J st renewed))) (\<lambda>_.
           ret True)))))))))) "

section \<open>The loop\<close>

definition minInitialBackoff :: int where "minInitialBackoff = 5000000000"
definition maxInitialBackoff :: int where "maxInitialBackoff = 10000000000"
definition maxBackoff :: int where "maxBackoff = 300000000000"

text \<open>\<^verbatim>\<open>rand.Int64N\<close> is uniform below its argument; \<open>rnd\<close> is where the numbers come from.\<close>

definition randomBackoff :: "(nat \<Rightarrow> int) \<Rightarrow> ('s, int) prog" where
  "randomBackoff rnd = (\<lambda>E n s. let span = maxInitialBackoff - minInitialBackoff in
     (Inr (if span \<le> 0 then minInitialBackoff else minInitialBackoff + rnd n mod span), Suc n, s))"

definition reloadCredsForReconnect :: "credential_json \<Rightarrow> cred_store \<Rightarrow> credentials \<Rightarrow> ('w agent_process, credentials) prog" where
  "reloadCredsForReconnect J st current = handle (in_host (on_system (in_files (Load J st)))) (\<lambda>_. ret current)"

definition loadCredentials :: "credential_json \<Rightarrow> cred_store \<Rightarrow> ('w device_host, credentials) prog" where
  "loadCredentials J st =
     bnd (handle (on_system (in_files (Load J st))) (\<lambda>e.
       if errors_is e ErrNotExist then throw (EText ''agent is not enrolled; run cadestrod enroll'') else throw (EWrap ''load credentials'' e))) (\<lambda>creds.
     if \<not> Ready (Some creds) then throw (EText ''agent is not enrolled; run cadestrod enroll'') else ret creds)"

definition promote_pending :: "credential_json \<Rightarrow> cred_store \<Rightarrow> credentials \<Rightarrow> ('w agent_process, unit) prog" where
  "promote_pending J st creds = (let promoted = creds\<lparr>cr_certificate := cr_pending_certificate creds, cr_pending_certificate := ''''\<rparr> in
     bnd (update_process (\<lambda>s. s\<lparr>ap_creds := promoted\<rparr>)) (\<lambda>_.
     bnd (handle (in_host (on_system (Save J st promoted))) (\<lambda>_. ret ())) (\<lambda>_.
     update_process (\<lambda>s. s\<lparr>ap_fallback := False\<rparr>))))"

text \<open>After the session: the wait before the next one. The result tells whether the loop goes on.\<close>

definition wait_backoff :: "(nat \<Rightarrow> int) \<Rightarrow> ('w agent_process, bool) prog" where
  "wait_backoff rnd =
     bnd now (\<lambda>started. bnd ctx_done (\<lambda>stop. if stop then ret False else
     bnd now (\<lambda>ended. bnd get_process (\<lambda>s.
     bnd (if time_Sub ended started > ap_backoff s then randomBackoff rnd else ret (ap_backoff s)) (\<lambda>backoff.
     bnd (update_process (\<lambda>s. s\<lparr>ap_backoff := backoff\<rparr>)) (\<lambda>_.
     bnd ctx_done (\<lambda>stop. if stop then ret False else
     bnd (update_process (\<lambda>s. s\<lparr>ap_backoff := min (wrap64 (backoff * 2)) maxBackoff\<rparr>)) (\<lambda>_.
     ret True))))))))"

text \<open>One turn of \<^verbatim>\<open>runAgent\<close>: the loop ended, it starts over with the active certificate, or there was a session, connected or not.\<close>

datatype turn = Returned | Retried | Session bool

definition session :: "device_crypto \<Rightarrow> credential_json \<Rightarrow> cred_store \<Rightarrow> (mtls \<Rightarrow> string \<Rightarrow> bytes \<Rightarrow> ('w, bytes) prog) \<Rightarrow>
    (mtls \<Rightarrow> string \<Rightarrow> string \<Rightarrow> ('w, bool) prog) \<Rightarrow> string \<Rightarrow> credentials \<Rightarrow> mtls \<Rightarrow> bool \<Rightarrow> ('w agent_process, bool) prog" where
  "session K J st control connect hostname creds opt usingPending =
     bnd (in_host (on_peer (connect opt (TrimSpace (cr_agent_addr creds)) (cr_device_id creds)))) (\<lambda>connected.
     bnd (if connected \<and> usingPending then promote_pending J st creds else ret ()) (\<lambda>_.
     bnd (if connected \<and> \<not> usingPending
       then handle (renewCertificateIfDue K J st control hostname creds (cr_pending_certificate creds \<noteq> '''')) (\<lambda>_. ret False) else ret False) (\<lambda>staged.
     bnd (update_process (\<lambda>s. s\<lparr>ap_fallback := fallbackAfterConnection (cr_pending_certificate (ap_creds s) \<noteq> '''') usingPending connected\<rparr>)) (\<lambda>_.
     ret connected))))"

definition runAgent_turn :: "device_crypto \<Rightarrow> url_parser \<Rightarrow> credential_json \<Rightarrow> cred_store \<Rightarrow> (nat \<Rightarrow> int) \<Rightarrow> (mtls \<Rightarrow> string \<Rightarrow> bytes \<Rightarrow> ('w, bytes) prog) \<Rightarrow>
    (mtls \<Rightarrow> string \<Rightarrow> string \<Rightarrow> ('w, bool) prog) \<Rightarrow> string \<Rightarrow> ('w agent_process, turn) prog" where
  "runAgent_turn K parse J st rnd control connect hostname =
     bnd ctx_done (\<lambda>stop. if stop then ret Returned else
     bnd get_process (\<lambda>s.
     bnd (if ap_first s then ret (ap_creds s) else reloadCredsForReconnect J st (ap_creds s)) (\<lambda>creds.
     bnd (update_process (\<lambda>s. s\<lparr>ap_creds := creds, ap_first := False\<rparr>)) (\<lambda>_.
     case requireHTTPSAgentAddr parse (cr_agent_addr creds) of Some _ \<Rightarrow> ret Returned
     | None \<Rightarrow> (case configureAgentMTLS K creds (ap_fallback s) of
         (Inl e, _, pendingInvalid) \<Rightarrow>
           if pendingInvalid then bnd (update_process (\<lambda>s. s\<lparr>ap_fallback := True\<rparr>)) (\<lambda>_. ret Retried) else ret Returned
       | (Inr opt, usingPending, _) \<Rightarrow>
           bnd (session K J st control connect hostname creds opt usingPending) (\<lambda>connected.
           bnd (wait_backoff rnd) (\<lambda>goes_on. ret (if goes_on then Session connected else Returned))))))))"

text \<open>The start of the process: \<^verbatim>\<open>main\<close> loads the credentials and \<^verbatim>\<open>runAgent\<close> begins.\<close>

definition start_agent :: "credential_json \<Rightarrow> cred_store \<Rightarrow> (nat \<Rightarrow> int) \<Rightarrow> ('w device_host, 'w agent_process) prog" where
  "start_agent J st rnd = bnd (loadCredentials J st) (\<lambda>creds. bnd (randomBackoff rnd) (\<lambda>backoff.
     (\<lambda>E n h. (Inr \<lparr>ap_host = h, ap_creds = creds, ap_fallback = False, ap_backoff = backoff, ap_first = True\<rparr>, n, h))))"

end
