(* ===== verification/Agent_Rotation_Props.thy ===== *)
theory Agent_Rotation_Props
  imports Agent_Rotation
begin

text \<open>
  The connection loop keeps the identity of the device, whatever fails: \<open>hoare\<close> states what a program does with a state in an environment,
  for its result and for its error, and \<open>control_plane\<close> is what the loop relies on from the server.
\<close>

section \<open>Triples\<close>

definition hoare :: "env \<Rightarrow> ('s \<Rightarrow> bool) \<Rightarrow> ('s, 'a) prog \<Rightarrow> ('a \<Rightarrow> 's \<Rightarrow> bool) \<Rightarrow> ('s \<Rightarrow> bool) \<Rightarrow> bool" where
  "hoare E P m Q R \<longleftrightarrow> (\<forall>n s r n' s'. P s \<longrightarrow> m E n s = (r, n', s') \<longrightarrow> (case r of Inl e \<Rightarrow> R s' | Inr x \<Rightarrow> Q x s'))"

named_theorems hoare_rules "rules for triples"

lemma hoareI: "(\<And>n s r n' s'. P s \<Longrightarrow> m E n s = (r, n', s') \<Longrightarrow> (case r of Inl e \<Rightarrow> R s' | Inr x \<Rightarrow> Q x s')) \<Longrightarrow> hoare E P m Q R"
  by (simp add: hoare_def)

lemma hoareD: "hoare E P m Q R \<Longrightarrow> P s \<Longrightarrow> m E n s = (r, n', s') \<Longrightarrow> (case r of Inl e \<Rightarrow> R s' | Inr x \<Rightarrow> Q x s')"
  by (simp add: hoare_def)

lemma hoare_bnd [hoare_rules]: "hoare E P m Q R \<Longrightarrow> (\<And>x. hoare E (Q x) (f x) Q' R) \<Longrightarrow> hoare E P (bnd m f) Q' R"
  unfolding hoare_def bnd_def by (fastforce split: sum.splits prod.splits)

lemma hoare_handle [hoare_rules]: "hoare E P m Q R' \<Longrightarrow> (\<And>e. hoare E R' (h e) Q R) \<Longrightarrow> hoare E P (handle m h) Q R"
  unfolding hoare_def handle_def by (fastforce split: sum.splits prod.splits)

lemma hoare_pre: "hoare E P' m Q R \<Longrightarrow> (\<And>s. P s \<Longrightarrow> P' s) \<Longrightarrow> hoare E P m Q R"
  unfolding hoare_def by blast

lemma hoare_post: "hoare E P m Q' R' \<Longrightarrow> (\<And>x s. Q' x s \<Longrightarrow> Q x s) \<Longrightarrow> (\<And>s. R' s \<Longrightarrow> R s) \<Longrightarrow> hoare E P m Q R"
  unfolding hoare_def by (fastforce split: sum.splits)

lemma hoare_ret: "(\<And>s. P s \<Longrightarrow> Q x s) \<Longrightarrow> hoare E P (ret x) Q R"
  by (simp add: hoare_def ret_def)

lemma hoare_throw: "(\<And>s. P s \<Longrightarrow> R s) \<Longrightarrow> hoare E P (throw e) Q R"
  by (simp add: hoare_def throw_def)

lemma hoare_lift_sum: "(\<And>s e. r = Inl e \<Longrightarrow> P s \<Longrightarrow> R s) \<Longrightarrow> (\<And>s x. r = Inr x \<Longrightarrow> P s \<Longrightarrow> Q x s) \<Longrightarrow> hoare E P (lift_sum r) Q R"
  by (cases r) (auto simp: lift_sum_def hoare_def ret_def throw_def)

lemma hoare_update: "(\<And>s. P s \<Longrightarrow> Q () (f s)) \<Longrightarrow> hoare E P (update_process f) Q R"
  by (simp add: hoare_def update_process_def)

lemma hoare_get: "(\<And>s. P s \<Longrightarrow> Q s s) \<Longrightarrow> hoare E P get_process Q R"
  by (simp add: hoare_def get_process_def)

lemma hoare_readonly: "readonly m \<Longrightarrow> hoare E P m (\<lambda>_. P) P"
  by (rule hoareI) (auto dest: readonlyD split: sum.splits)

lemma hoare_if: "(b \<Longrightarrow> hoare E P m Q R) \<Longrightarrow> (\<not> b \<Longrightarrow> hoare E P m' Q R) \<Longrightarrow> hoare E P (if b then m else m') Q R"
  by simp

section \<open>The identity of a device\<close>

text \<open>A certificate that came with the credentials \<open>c0\<close>, or that was checked against their CA, key and device.\<close>

definition vouched :: "device_crypto \<Rightarrow> credentials \<Rightarrow> bytes \<Rightarrow> bool" where
  "vouched K c0 x \<longleftrightarrow> x \<noteq> '''' \<and> (x = cr_certificate c0 \<or> x = cr_pending_certificate c0 \<or>
     (\<exists>t. validateRenewalCertificate K t x (cr_private_key c0) (cr_ca_cert c0) (cr_device_id c0) = None))"

definition kept :: "device_crypto \<Rightarrow> credentials \<Rightarrow> credentials \<Rightarrow> bool" where
  "kept K c0 c \<longleftrightarrow> cr_device_id c = cr_device_id c0 \<and> cr_ca_cert c = cr_ca_cert c0 \<and> cr_private_key c = cr_private_key c0 \<and>
     cr_agent_addr c = cr_agent_addr c0 \<and> cr_pending_csr c = '''' \<and> cr_pending_private_key c = '''' \<and>
     vouched K c0 (cr_certificate c) \<and> (cr_pending_certificate c = '''' \<or> vouched K c0 (cr_pending_certificate c))"

lemma kept_ready: "Ready (Some c0) \<Longrightarrow> kept K c0 c \<Longrightarrow> Ready (Some c)"
  by (auto simp: kept_def Ready_def vouched_def)

lemma kept_refl: "Ready (Some c0) \<Longrightarrow> kept K c0 c0"
  by (auto simp: kept_def Ready_def vouched_def)

lemma kept_promoted: "kept K c0 c \<Longrightarrow> cr_pending_certificate c \<noteq> '''' \<Longrightarrow> kept K c0 (c\<lparr>cr_certificate := cr_pending_certificate c, cr_pending_certificate := ''''\<rparr>)"
  by (simp add: kept_def)

lemma kept_renewed:
  assumes "kept K c0 c" and "applyRenewal K t c x = Inr c'"
  shows "kept K c0 c'" and "cr_device_id c' = cr_device_id c" "cr_certificate c' = cr_certificate c"
  using assms by (auto simp: kept_def applyRenewal_def vouched_def split: if_splits option.splits)

text \<open>The server still recognises one of the two certificates.\<close>

definition current :: "(string \<Rightarrow> bytes \<Rightarrow> 'w \<Rightarrow> bool) \<Rightarrow> credentials \<Rightarrow> 'w \<Rightarrow> bool" where
  "current active c w \<longleftrightarrow> active (cr_device_id c) (cr_certificate c) w \<or>
     cr_pending_certificate c \<noteq> '''' \<and> active (cr_device_id c) (cr_pending_certificate c) w"

text \<open>What holds between two turns of the loop; \<open>ok\<close> tells whether the process and the disk have agreed so far.\<close>

definition in_order :: "(string \<Rightarrow> bytes \<Rightarrow> 'w \<Rightarrow> bool) \<Rightarrow> bool \<Rightarrow> device_crypto \<Rightarrow> credential_json \<Rightarrow> cred_store \<Rightarrow> fs_manager \<Rightarrow> ino \<Rightarrow> credentials \<Rightarrow>
    'w agent_process \<Rightarrow> bool" where
  "in_order active ok K J st m d c0 s \<longleftrightarrow> device_at st m (ap_host s) d \<and> kept K c0 (ap_creds s) \<and>
     (\<exists>c. disk_of J (ap_host s) d = Some c \<and> kept K c0 c \<and> (ok \<longrightarrow> current active c (dv_peer (ap_host s))))"

definition in_session :: "(string \<Rightarrow> bytes \<Rightarrow> 'w \<Rightarrow> bool) \<Rightarrow> bool \<Rightarrow> device_crypto \<Rightarrow> credential_json \<Rightarrow> cred_store \<Rightarrow> fs_manager \<Rightarrow> ino \<Rightarrow> credentials \<Rightarrow>
    credentials \<Rightarrow> bytes \<Rightarrow> 'w agent_process \<Rightarrow> bool" where
  "in_session active ok K J st m d c0 c x s \<longleftrightarrow> device_at st m (ap_host s) d \<and> kept K c0 c \<and> kept K c0 (ap_creds s) \<and>
     (\<exists>c1. disk_of J (ap_host s) d = Some c1 \<and> kept K c0 c1 \<and>
       (ok \<longrightarrow> c1 = c \<and> active (cr_device_id c) x (dv_peer (ap_host s)) \<and> (x = cr_certificate c \<or> x \<noteq> '''' \<and> x = cr_pending_certificate c)))"

lemma in_session_settled: "in_session active ok K J st m d c0 c x s \<Longrightarrow> in_order active ok K J st m d c0 s"
  unfolding in_session_def in_order_def current_def by metis

lemma settled_ready: "in_order active ok K J st m d c0 s \<Longrightarrow> Ready (Some c0) \<Longrightarrow>
  Ready (Some (ap_creds s)) \<and> (\<exists>c. disk_of J (ap_host s) d = Some c \<and> Ready (Some c))"
  unfolding in_order_def using kept_ready by blast

lemma save_settled:
  assumes E: "plain_names E" and laws: "json_laws J" "json_text J (cr_device_id c0)" "json_text J (cr_agent_addr c0)" and c1: "kept K c0 c1"
  shows "hoare E (\<lambda>s. in_order active ok K J st m d c0 s \<and> (ok \<longrightarrow> current active c1 (dv_peer (ap_host s)))) (in_host (on_system (Save J st c1)))
    (\<lambda>_. in_order active ok K J st m d c0) (in_order active ok K J st m d c0)"
proof (rule hoareI)
  fix n s r n' s' assume pre: "in_order active ok K J st m d c0 s \<and> (ok \<longrightarrow> current active c1 (dv_peer (ap_host s)))"
    and run: "in_host (on_system (Save J st c1)) E n s = (r, n', s')"
  obtain h where h: "map_err (\<lambda>e. e) (on_system (Save J st c1)) E n (ap_host s) = (r, n', h)" "s' = s\<lparr>ap_host := h\<rparr>"
    using run by (cases "on_system (Save J st c1) E n (ap_host s)") (auto simp: in_host_def map_err_run split: sum.splits)
  have "json_text J (cr_device_id c1)" "json_text J (cr_agent_addr c1)" using laws c1 by (simp_all add: kept_def)
  moreover have "device_at st m (ap_host s) d" using pre by (simp add: in_order_def)
  ultimately have "device_at st m h d" "dv_peer h = dv_peer (ap_host s)" "disk_of J h d = disk_of J (ap_host s) d \<or> disk_of J h d = Some c1"
    using save_run [OF _ E laws(1) _ _ h(1)] by blast+
  then have "in_order active ok K J st m d c0 s'" using pre c1 h(2) by (auto simp: in_order_def)
  then show "case r of Inl e \<Rightarrow> in_order active ok K J st m d c0 s' | Inr x \<Rightarrow> in_order active ok K J st m d c0 s'" by (cases r) simp_all
qed

section \<open>The life of a process\<close>

text \<open>A turn of the loop, or a restart of the service: the process is gone, and \<^verbatim>\<open>main\<close> starts a new one when it can load the credentials.\<close>

datatype agent_event = Turn env nat | Restart env nat

fun process_step :: "device_crypto \<Rightarrow> url_parser \<Rightarrow> credential_json \<Rightarrow> cred_store \<Rightarrow> (nat \<Rightarrow> int) \<Rightarrow> (mtls \<Rightarrow> string \<Rightarrow> bytes \<Rightarrow> ('w, bytes) prog) \<Rightarrow>
    (mtls \<Rightarrow> string \<Rightarrow> string \<Rightarrow> ('w, bool) prog) \<Rightarrow> string \<Rightarrow> agent_event \<Rightarrow> 'w agent_process \<Rightarrow> 'w agent_process" where
  "process_step K parse J st rnd control connect host (Turn E n) s = snd (snd (runAgent_turn K parse J st rnd control connect host E n s))"
| "process_step K parse J st rnd control connect host (Restart E n) s = (case start_agent J st rnd E n (ap_host s) of (Inr s', _, _) \<Rightarrow> s' | (Inl _, _, _) \<Rightarrow> s)"

fun event_env :: "agent_event \<Rightarrow> env" where
  "event_env (Turn E n) = E" | "event_env (Restart E n) = E"

text \<open>The credentials could be read back before the reconnect.\<close>

fun reloads :: "credential_json \<Rightarrow> cred_store \<Rightarrow> agent_event \<Rightarrow> 'w agent_process \<Rightarrow> bool" where
  "reloads J st (Turn E n) s \<longleftrightarrow> ap_first s \<or> (\<exists>c. fst (Load J st E (Suc n) (sy_files (dv_system (ap_host s)))) = Inr c)"
| "reloads J st (Restart E n) s \<longleftrightarrow> True"

primrec agent_life :: "device_crypto \<Rightarrow> url_parser \<Rightarrow> credential_json \<Rightarrow> cred_store \<Rightarrow> (nat \<Rightarrow> int) \<Rightarrow> (mtls \<Rightarrow> string \<Rightarrow> bytes \<Rightarrow> ('w, bytes) prog) \<Rightarrow>
    (mtls \<Rightarrow> string \<Rightarrow> string \<Rightarrow> ('w, bool) prog) \<Rightarrow> string \<Rightarrow> agent_event list \<Rightarrow> 'w agent_process \<Rightarrow> 'w agent_process" where
  "agent_life K parse J st rnd control connect host [] s = s"
| "agent_life K parse J st rnd control connect host (e # es) s =
     agent_life K parse J st rnd control connect host es (process_step K parse J st rnd control connect host e s)"

primrec all_reload :: "device_crypto \<Rightarrow> url_parser \<Rightarrow> credential_json \<Rightarrow> cred_store \<Rightarrow> (nat \<Rightarrow> int) \<Rightarrow> (mtls \<Rightarrow> string \<Rightarrow> bytes \<Rightarrow> ('w, bytes) prog) \<Rightarrow>
    (mtls \<Rightarrow> string \<Rightarrow> string \<Rightarrow> ('w, bool) prog) \<Rightarrow> string \<Rightarrow> agent_event list \<Rightarrow> 'w agent_process \<Rightarrow> bool" where
  "all_reload K parse J st rnd control connect host [] s \<longleftrightarrow> True"
| "all_reload K parse J st rnd control connect host (e # es) s \<longleftrightarrow> reloads J st e s \<and>
     all_reload K parse J st rnd control connect host es (process_step K parse J st rnd control connect host e s)"

lemma load_in_host:
  assumes "device_at st m h d" and "on_system (in_files (Load J st)) E n h = (r, n', h')"
  shows "h' = h" and "r = Inr c \<Longrightarrow> disk_of J h d = Some c" and "fst (Load J st E n (sy_files (dv_system h))) = r"
proof -
  obtain r1 n1 F where one: "Load J st E n (sy_files (dv_system h)) = (r1, n1, F)" by (rule prod_cases3)
  have at: "store_at st m (sy_files (dv_system h)) d" using assms(1) by (simp add: device_at_def)
  note L = Load_run [OF at one]
  have res: "r = r1" "h' = h" using assms(2) one L(1) by (auto simp: on_system_def in_files_def)
  then show "h' = h" "fst (Load J st E n (sy_files (dv_system h))) = r" using one by simp_all
  show "r = Inr c \<Longrightarrow> disk_of J h d = Some c" using L(2) res by (simp add: disk_of_def)
qed

lemma reload_run:
  assumes "in_order active ok K J st m d c0 s" and "reloadCredsForReconnect J st (ap_creds s) E n s = (r, n', s')"
  shows "\<exists>c. r = Inr c \<and> s' = s \<and> kept K c0 c \<and> ((\<exists>x. fst (Load J st E n (sy_files (dv_system (ap_host s)))) = Inr x) \<longrightarrow> disk_of J (ap_host s) d = Some c)"
proof -
  obtain r1 n1 h where one: "on_system (in_files (Load J st)) E n (ap_host s) = (r1, n1, h)" by (rule prod_cases3)
  have at: "device_at st m (ap_host s) d" using assms(1) by (simp add: in_order_def)
  note L = load_in_host [OF at one]
  have res: "s' = s" "r = Inr (case r1 of Inl _ \<Rightarrow> ap_creds s | Inr c \<Rightarrow> c)"
    using assms(2) one L(1) by (auto simp: reloadCredsForReconnect_def in_host_def handle_def ret_def split: sum.splits)
  show ?thesis
  proof (cases r1)
    case (Inr c)
    then have "disk_of J (ap_host s) d = Some c" using L(2) by blast
    then show ?thesis using res Inr assms(1) by (auto simp: in_order_def)
  qed (use res L(3) assms(1) in \<open>auto simp: in_order_def\<close>)
qed

lemma start_run:
  assumes "device_at st m h d" and "start_agent J st rnd E n h = (Inr s, n', h')"
  shows "ap_host s = h" and "disk_of J h d = Some (ap_creds s)" and "ap_first s" and "Ready (Some (ap_creds s))" and "\<exists>k. ap_backoff s = minInitialBackoff + rnd k mod 5000000000"
proof -
  obtain r1 n1 h1 where one: "on_system (in_files (Load J st)) E n h = (r1, n1, h1)" by (rule prod_cases3)
  note L = load_in_host [OF assms(1) one]
  obtain c where c: "r1 = Inr c" using assms(2) one
    by (cases r1) (auto simp: start_agent_def loadCredentials_def bnd_def handle_def throw_def split: if_splits)
  show "ap_host s = h" "disk_of J h d = Some (ap_creds s)" "ap_first s" "Ready (Some (ap_creds s))" "\<exists>k. ap_backoff s = minInitialBackoff + rnd k mod 5000000000"
    using assms(2) one L(1,2) c
    by (auto simp: start_agent_def loadCredentials_def bnd_def handle_def throw_def ret_def randomBackoff_def Let_def maxInitialBackoff_def minInitialBackoff_def split: if_splits)
qed

text \<open>Only the first turn uses the credentials that \<^verbatim>\<open>main\<close> loaded.\<close>

lemma keeps_first:
  "keeps (\<lambda>s. \<not> ap_first s) (in_host mh)" "keeps (\<lambda>s. \<not> ap_first s) (update_process (\<lambda>s. s\<lparr>ap_creds := c\<rparr>))"
  "keeps (\<lambda>s. \<not> ap_first s) (update_process (\<lambda>s. s\<lparr>ap_fallback := f s\<rparr>))" "keeps (\<lambda>s. \<not> ap_first s) (update_process (\<lambda>s. s\<lparr>ap_backoff := b s\<rparr>))"
  "keeps (\<lambda>s. \<not> ap_first s) get_process"
  by (auto simp: keeps_def in_host_def update_process_def get_process_def split: prod.splits)

lemma readonly_process: "readonly (GenerateCSRFromKey K host key)" "readonly (randomBackoff rnd)"
  by (auto simp: GenerateCSRFromKey_def generateCSR_def drawn_def randomBackoff_def Let_def readonly_def bnd_def ret_def throw_def split: option.splits prod.splits)

lemma keeps_first_session: "keeps (\<lambda>s. \<not> ap_first s) (session K J st control connect host c opt up)"
  unfolding session_def promote_pending_def renewCertificateIfDue_def Let_def
  by (intro prog_rules keeps_first keeps_readonly readonly_process readonly_basic; (simp split: option.splits prod.splits)?;
    (intro prog_rules keeps_first keeps_readonly readonly_process readonly_basic allI impI)?)

lemma keeps_first_wait: "keeps (\<lambda>s. \<not> ap_first s) (wait_backoff rnd)"
  unfolding wait_backoff_def by (intro prog_rules keeps_first keeps_readonly readonly_process readonly_basic)

lemma hoare_keeps: "keeps I m \<Longrightarrow> hoare E I m (\<lambda>_. I) I"
  by (rule hoareI) (auto dest: keepsD split: sum.splits)

lemma reload_answers: "hoare E P (reloadCredsForReconnect J st c) (\<lambda>_ _. True) (\<lambda>_. False)"
  unfolding reloadCredsForReconnect_def by (rule hoare_handle [where R' = "\<lambda>_. True"]) (auto simp: hoare_def ret_def split: sum.splits)

lemma bnd_ctx: "bnd ctx_done f E n s = f (cancelled E n) E (Suc n) s"
  by (simp add: bnd_def ctx_done_def)

lemma bnd_get: "bnd get_process f E n s = f s E n s"
  by (simp add: bnd_def get_process_def)

lemma bnd_update: "bnd (update_process f) g E n s = g () E n (f s)"
  by (simp add: bnd_def update_process_def)

lemma turn_first:
  fixes s :: "'w agent_process"
  assumes "runAgent_turn K parse J st rnd control connect host E n s = (r, n', s')"
  shows "s' = s \<or> \<not> ap_first s'"
proof (cases "cancelled E n")
  case True
  then show ?thesis using assms by (simp add: runAgent_turn_def bnd_def ctx_done_def ret_def)
next
  case False
  let ?N = "\<lambda>s. \<not> ap_first s"
  define body where "body = (\<lambda>creds. case requireHTTPSAgentAddr parse (cr_agent_addr creds) of Some _ \<Rightarrow> ret Returned
     | None \<Rightarrow> (case configureAgentMTLS K creds (ap_fallback s) of
         (Inl e, _, pendingInvalid) \<Rightarrow>
           if pendingInvalid then bnd (update_process (\<lambda>s. s\<lparr>ap_fallback := True\<rparr>)) (\<lambda>_. ret Retried) else ret Returned
       | (Inr opt, usingPending, _) \<Rightarrow>
           bnd (session K J st control connect host creds opt usingPending) (\<lambda>connected.
           bnd (wait_backoff rnd) (\<lambda>goes_on. ret (if goes_on then Session connected else Returned)))))"
  define whole where "whole = bnd (if ap_first s then ret (ap_creds s) else reloadCredsForReconnect J st (ap_creds s)) (\<lambda>creds.
     bnd (update_process (\<lambda>s. s\<lparr>ap_creds := creds, ap_first := False\<rparr>)) (\<lambda>_. body creds))"
  have run: "whole E (Suc n) s = (r, n', s')"
    using assms False unfolding whole_def body_def runAgent_turn_def by (simp only: bnd_ctx bnd_get if_False)
  have rt: "keeps ?N (ret x :: ('w agent_process, 'z) prog)" for x by (simp add: keeps_def ret_def)
  have "keeps ?N (body creds)" for creds unfolding body_def
    by (cases "requireHTTPSAgentAddr parse (cr_agent_addr creds)"; cases "configureAgentMTLS K creds (ap_fallback s)"; cases "fst (configureAgentMTLS K creds (ap_fallback s))")
      (auto intro!: keeps_bnd keeps_first keeps_first_session keeps_first_wait rt)
  then have "hoare E (\<lambda>_. True) whole (\<lambda>_. ?N) ?N" unfolding whole_def
    by (intro hoare_bnd [where Q = "\<lambda>_ _. True"] hoare_if hoare_ret hoare_post [OF reload_answers] hoare_bnd [OF hoare_update hoare_keeps]) auto
  from hoareD [OF this TrueI run] show ?thesis by (cases r) simp_all
qed

section \<open>What the loop relies on from the server\<close>

text \<open>
  \<open>active i x w\<close>: in the state \<open>w\<close> of the server, \<open>x\<close> is the certificate of the device \<open>i\<close>. A connection makes at most the presented
  certificate the active one, and does so when it becomes ready; a renewal leaves the active one alone.
\<close>

locale control_plane =
  fixes active :: "string \<Rightarrow> bytes \<Rightarrow> 'w \<Rightarrow> bool"
    and connect :: "mtls \<Rightarrow> string \<Rightarrow> string \<Rightarrow> ('w, bool) prog"
    and control :: "mtls \<Rightarrow> string \<Rightarrow> bytes \<Rightarrow> ('w, bytes) prog"
  assumes connect_active: "active i x w \<Longrightarrow> connect (y, key, ca) url i E n w = (r, n', w') \<Longrightarrow> active i x w' \<or> active i y w'"
    and connect_ready: "active i x w \<Longrightarrow> connect (y, key, ca) url i E n w = (Inr True, n', w') \<Longrightarrow> active i y w'"
    and control_active: "active i x w \<Longrightarrow> control opt url csr E n w = (z, n', w') \<Longrightarrow> active i x w'"
begin

lemma connect_session:
  assumes "x = cr_certificate c \<or> x \<noteq> '''' \<and> x = cr_pending_certificate c"
  shows "hoare E (\<lambda>s. in_order active ok K J st m d c0 s \<and> kept K c0 c \<and> (ok \<longrightarrow> disk_of J (ap_host s) d = Some c))
    (in_host (on_peer (connect (x, key, ca) url (cr_device_id c))))
    (\<lambda>connected s. if connected then in_session active ok K J st m d c0 c x s else in_order active ok K J st m d c0 s) (in_order active ok K J st m d c0)"
proof (rule hoareI)
  fix n s r n' s' assume pre: "in_order active ok K J st m d c0 s \<and> kept K c0 c \<and> (ok \<longrightarrow> disk_of J (ap_host s) d = Some c)"
    and run: "in_host (on_peer (connect (x, key, ca) url (cr_device_id c))) E n s = (r, n', s')"
  obtain w where w: "connect (x, key, ca) url (cr_device_id c) E n (dv_peer (ap_host s)) = (r, n', w)" "s' = s\<lparr>ap_host := (ap_host s)\<lparr>dv_peer := w\<rparr>\<rparr>"
    using run by (cases "on_peer (connect (x, key, ca) url (cr_device_id c)) E n (ap_host s)") (auto simp: in_host_def on_peer_run)
  have cur: "current active c w" "r = Inr True \<Longrightarrow> active (cr_device_id c) x w" if ok
  proof -
    have "current active c (dv_peer (ap_host s))" using pre that by (auto simp: in_order_def)
    then obtain y where y: "active (cr_device_id c) y (dv_peer (ap_host s))" "y = cr_certificate c \<or> y \<noteq> '''' \<and> y = cr_pending_certificate c"
      by (auto simp: current_def)
    show "current active c w" using connect_active [OF y(1) w(1)] y(2) assms by (auto simp: current_def)
    show "r = Inr True \<Longrightarrow> active (cr_device_id c) x w" using connect_ready [OF y(1)] w(1) by blast
  qed
  have "in_order active ok K J st m d c0 s'" using pre w(2) cur(1) by (auto simp: in_order_def)
  moreover have "in_session active ok K J st m d c0 c x s'" if "r = Inr True"
    using pre w(2) cur(2) [OF _ that] assms by (auto simp: in_order_def in_session_def)
  ultimately show "case r of Inl e \<Rightarrow> in_order active ok K J st m d c0 s'
    | Inr connected \<Rightarrow> if connected then in_session active ok K J st m d c0 c x s' else in_order active ok K J st m d c0 s'"
    by (auto split: sum.splits)
qed

lemma renew_session: "hoare E (in_session active ok K J st m d c0 c x) (in_host (on_peer (client_RenewCertificate control url csr opt)))
    (\<lambda>_. in_session active ok K J st m d c0 c x) (in_session active ok K J st m d c0 c x)"
proof (rule hoareI)
  fix n s r n' s' assume pre: "in_session active ok K J st m d c0 c x s"
    and run: "in_host (on_peer (client_RenewCertificate control url csr opt)) E n s = (r, n', s')"
  obtain w r1 where w: "control opt url csr E n (dv_peer (ap_host s)) = (r1, n', w)" "s' = s\<lparr>ap_host := (ap_host s)\<lparr>dv_peer := w\<rparr>\<rparr>"
    using run by (cases "control opt url csr E n (dv_peer (ap_host s))")
      (auto simp: in_host_def on_peer_def client_RenewCertificate_def map_err_def handle_def throw_def split: sum.splits)
  have "in_session active ok K J st m d c0 c x s'" using pre w(2) control_active [OF _ w(1)] by (auto simp: in_session_def)
  then show "case r of Inl e \<Rightarrow> in_session active ok K J st m d c0 c x s' | Inr z \<Rightarrow> in_session active ok K J st m d c0 c x s'" by (cases r) simp_all
qed

lemma promote_session:
  assumes E: "plain_names E" and laws: "json_laws J" "json_text J (cr_device_id c0)" "json_text J (cr_agent_addr c0)" and p: "cr_pending_certificate c \<noteq> ''''"
  shows "hoare E (in_session active ok K J st m d c0 c (cr_pending_certificate c)) (promote_pending J st c)
    (\<lambda>_. in_order active ok K J st m d c0) (in_order active ok K J st m d c0)"
proof (cases "kept K c0 c")
  case True
  let ?c = "c\<lparr>cr_certificate := cr_pending_certificate c, cr_pending_certificate := ''''\<rparr>"
  note save = save_settled [OF E laws kept_promoted [OF True p], of active ok st m d]
  have "hoare E (in_session active ok K J st m d c0 c (cr_pending_certificate c)) (update_process (\<lambda>s. s\<lparr>ap_creds := ?c\<rparr>))
    (\<lambda>_ s. in_order active ok K J st m d c0 s \<and> (ok \<longrightarrow> current active ?c (dv_peer (ap_host s)))) (in_order active ok K J st m d c0)"
    using kept_promoted [OF True p] p
    by (intro hoare_update) (auto simp: in_session_def in_order_def current_def)
  moreover have "hoare E (\<lambda>s. in_order active ok K J st m d c0 s \<and> (ok \<longrightarrow> current active ?c (dv_peer (ap_host s))))
    (handle (in_host (on_system (Save J st ?c))) (\<lambda>_. ret ())) (\<lambda>_. in_order active ok K J st m d c0) (in_order active ok K J st m d c0)"
    by (rule hoare_handle [OF save hoare_ret])
  moreover have "hoare E (in_order active ok K J st m d c0) (update_process (\<lambda>s. s\<lparr>ap_fallback := False\<rparr>))
    (\<lambda>_. in_order active ok K J st m d c0) (in_order active ok K J st m d c0)" by (rule hoare_update) (simp add: in_order_def)
  ultimately show ?thesis unfolding promote_pending_def Let_def by (intro hoare_bnd)
qed (simp add: hoare_def in_session_def)

lemma renewal_session:
  assumes E: "plain_names E" and laws: "json_laws J" "json_text J (cr_device_id c0)" "json_text J (cr_agent_addr c0)"
  shows "hoare E (in_session active ok K J st m d c0 c (cr_certificate c)) (renewCertificateIfDue K J st control host c force)
    (\<lambda>_. in_order active ok K J st m d c0) (in_order active ok K J st m d c0)"
proof -
  let ?I = "in_session active ok K J st m d c0 c (cr_certificate c)" and ?S = "in_order active ok K J st m d c0"
  have IS: "?I s \<Longrightarrow> ?S s" for s by (rule in_session_settled)
  have ro: "hoare E ?I prog (\<lambda>_. ?I) ?S" if "readonly prog" for prog :: "('w agent_process, 'z) prog"
    by (rule hoare_post [OF hoare_readonly [OF that]]) (auto intro: IS)
  have csr: "readonly (GenerateCSRFromKey K host key)" for key
    by (auto simp: GenerateCSRFromKey_def generateCSR_def drawn_def readonly_def bnd_def ret_def throw_def split: option.splits prod.splits)
  have update: "hoare E ?I (update_process (\<lambda>s. s\<lparr>ap_creds := c'\<rparr>)) (\<lambda>_ s. ?S s \<and> (ok \<longrightarrow> current active c' (dv_peer (ap_host s)))) ?S"
    if "applyRenewal K t c result = Inr c'" for t result c'
    by (rule hoare_update) (use kept_renewed [OF _ that] in \<open>auto simp: in_session_def in_order_def current_def\<close>)
  have save: "hoare E ?I (bnd (update_process (\<lambda>s. s\<lparr>ap_creds := c'\<rparr>)) (\<lambda>_. bnd (in_host (on_system (Save J st c'))) (\<lambda>_. ret True))) (\<lambda>_. ?S) ?S"
    if c': "applyRenewal K t c result = Inr c'" for t result c'
  proof (cases "kept K c0 c")
    case True
    note kept' = kept_renewed(1) [OF True c']
    show ?thesis by (rule hoare_bnd [OF update [OF c'] hoare_bnd [OF save_settled [OF E laws kept'] hoare_ret]])
  qed (simp add: hoare_def in_session_def)
  have apply_it: "hoare E ?I (bnd (lift_sum (applyRenewal K t c result)) (\<lambda>renewed. bnd (update_process (\<lambda>s. s\<lparr>ap_creds := renewed\<rparr>)) (\<lambda>_.
      bnd (in_host (on_system (Save J st renewed))) (\<lambda>_. ret True)))) (\<lambda>_. ?S) ?S" for t result
  proof (cases "applyRenewal K t c result")
    case (Inl e)
    then show ?thesis by (auto simp: lift_sum_def bnd_def throw_def hoare_def intro: IS)
  next
    case (Inr c')
    then show ?thesis using save [OF Inr] by (simp add: lift_sum_def bnd_def ret_def)
  qed
  have renewed: "hoare E ?I (in_host (on_peer (client_RenewCertificate control url csr opt))) (\<lambda>_. ?I) ?S" for url csr opt
    by (rule hoare_post [OF renew_session]) (auto intro: IS)
  show ?thesis unfolding renewCertificateIfDue_def
    by (auto split: option.splits intro!: hoare_throw hoare_if hoare_ret hoare_bnd [OF ro] hoare_bnd [OF renewed] apply_it csr IS readonly_basic prog_rules)
qed

lemma session_settled:
  assumes E: "plain_names E" and laws: "json_laws J" "json_text J (cr_device_id c0)" "json_text J (cr_agent_addr c0)"
    and x: "x = (if up then cr_pending_certificate c else cr_certificate c)" "up \<Longrightarrow> cr_pending_certificate c \<noteq> ''''"
  shows "hoare E (\<lambda>s. in_order active ok K J st m d c0 s \<and> kept K c0 c \<and> (ok \<longrightarrow> disk_of J (ap_host s) d = Some c))
    (session K J st control connect host c (x, key, ca) up) (\<lambda>_. in_order active ok K J st m d c0) (in_order active ok K J st m d c0)"
proof -
  let ?S = "in_order active ok K J st m d c0" and ?I = "in_session active ok K J st m d c0 c x"
  let ?Q = "\<lambda>connected s. if connected then ?I s else ?S s"
  have up: "hoare E (?Q connected) (if connected \<and> up then promote_pending J st c else ret ()) (\<lambda>_ s. if connected \<and> \<not> up then ?I s else ?S s) ?S" for connected
    using promote_session [OF E laws x(2)] x(1)
    by (cases connected; cases up) (auto intro!: hoare_ret)
  have down: "hoare E (\<lambda>s. if connected \<and> \<not> up then ?I s else ?S s)
      (if connected \<and> \<not> up then handle (renewCertificateIfDue K J st control host c (cr_pending_certificate c \<noteq> '''')) (\<lambda>_. ret False) else ret False)
      (\<lambda>_. ?S) ?S" for connected
    using hoare_handle [OF renewal_session [OF E laws], where h = "\<lambda>_. ret False", OF hoare_ret] x(1)
    by (cases "connected \<and> \<not> up") (auto intro!: hoare_ret)
  have flag: "hoare E ?S (update_process (\<lambda>s. s\<lparr>ap_fallback := f s\<rparr>)) (\<lambda>_. ?S) ?S" for f by (rule hoare_update) (simp add: in_order_def)
  show ?thesis unfolding session_def
    by (rule hoare_bnd [OF connect_session hoare_bnd [OF up hoare_bnd [OF down hoare_bnd [OF flag hoare_ret]]]]) (use x in auto)
qed

lemma wait_settled: "hoare E (in_order active ok K J st m d c0) (wait_backoff rnd) (\<lambda>_. in_order active ok K J st m d c0) (in_order active ok K J st m d c0)"
proof (rule hoareI)
  fix n s r n' s' assume "in_order active ok K J st m d c0 s" "wait_backoff rnd E n s = (r, n', s')"
  then show "case r of Inl e \<Rightarrow> in_order active ok K J st m d c0 s' | Inr x \<Rightarrow> in_order active ok K J st m d c0 s'"
    by (auto simp: wait_backoff_def bnd_def now_def ctx_done_def get_process_def update_process_def randomBackoff_def Let_def ret_def in_order_def split: if_splits)
qed

lemma turn_settled:
  assumes E: "plain_names E" and laws: "json_laws J" "json_text J (cr_device_id c0)" "json_text J (cr_agent_addr c0)"
    and s: "in_order active ok K J st m d c0 s" and ok: "ok \<Longrightarrow> reloads J st (Turn E n) s" "ok \<Longrightarrow> ap_first s \<Longrightarrow> disk_of J (ap_host s) d = Some (ap_creds s)"
    and run: "runAgent_turn K parse J st rnd control connect host E n s = (r, n', s')"
  shows "in_order active ok K J st m d c0 s'"
proof (cases "cancelled E n")
  case True
  then show ?thesis using run s by (simp add: runAgent_turn_def bnd_def ctx_done_def ret_def)
next
  case False
  obtain r1 n1 s1 where one: "(if ap_first s then ret (ap_creds s) else reloadCredsForReconnect J st (ap_creds s)) E (Suc n) s = (r1, n1, s1)" by (rule prod_cases3)
  obtain c where c: "r1 = Inr c" "s1 = s" "kept K c0 c" "ok \<longrightarrow> disk_of J (ap_host s) d = Some c"
  proof (cases "ap_first s")
    case True
    then have "ret (ap_creds s) E (Suc n) s = (r1, n1, s1)" using one by simp
    then have "r1 = Inr (ap_creds s) \<and> n1 = Suc n \<and> s1 = s" by (simp only: ret_run)
    moreover have "kept K c0 (ap_creds s)" using s by (simp add: in_order_def)
    ultimately show ?thesis using that ok(2) True by blast
  next
    case False
    then have "reloadCredsForReconnect J st (ap_creds s) E (Suc n) s = (r1, n1, s1)" using one by simp
    from reload_run [OF s this] show ?thesis using that ok(1) False by auto
  qed
  let ?S = "in_order active ok K J st m d c0" and ?P = "\<lambda>s. in_order active ok K J st m d c0 s \<and> kept K c0 c \<and> (ok \<longrightarrow> disk_of J (ap_host s) d = Some c)"
  let ?rest = "case requireHTTPSAgentAddr parse (cr_agent_addr c) of Some _ \<Rightarrow> ret Returned
     | None \<Rightarrow> (case configureAgentMTLS K c (ap_fallback s) of
         (Inl e, _, pendingInvalid) \<Rightarrow>
           if pendingInvalid then bnd (update_process (\<lambda>s. s\<lparr>ap_fallback := True\<rparr>)) (\<lambda>_. ret Retried) else ret Returned
       | (Inr opt, usingPending, _) \<Rightarrow>
           bnd (session K J st control connect host c opt usingPending) (\<lambda>connected.
           bnd (wait_backoff rnd) (\<lambda>goes_on. ret (if goes_on then Session connected else Returned))))"
  define body where "body = ?rest"
  have rest: "body E n1 (s\<lparr>ap_creds := c, ap_first := False\<rparr>) = (r, n', s')"
    using run False one c(1,2) unfolding body_def by (simp add: runAgent_turn_def bnd_def ctx_done_def get_process_def update_process_def)
  have conf: "up = (cr_pending_certificate c \<noteq> '''' \<and> \<not> ap_fallback s)" "fst opt = (if up then cr_pending_certificate c else cr_certificate c)"
    if "configureAgentMTLS K c (ap_fallback s) = (Inr opt, up, inv)" for opt up inv
    using that by (auto simp: configureAgentMTLS_def WithMTLSFromPEM_def presentPendingCertificate_def Let_def split: if_splits sum.splits)
  have H: "hoare E ?P body (\<lambda>_. ?S) ?S"
  proof (cases "requireHTTPSAgentAddr parse (cr_agent_addr c)")
    case None
    obtain a up inv where cfg: "configureAgentMTLS K c (ap_fallback s) = (a, up, inv)" by (rule prod_cases3)
    show ?thesis
    proof (cases a)
      case (Inl e)
      have "hoare E ?P (bnd (update_process (\<lambda>s. s\<lparr>ap_fallback := True\<rparr>)) (\<lambda>_. ret Retried)) (\<lambda>_. ?S) ?S"
        by (rule hoare_bnd [OF hoare_update hoare_ret]) (auto simp: in_order_def)
      then show ?thesis unfolding body_def using None cfg Inl by (auto intro: hoare_ret)
    next
      case (Inr opt)
      obtain x key ca where opt: "opt = (x, key, ca)" by (rule prod_cases3)
      have up: "x = (if up then cr_pending_certificate c else cr_certificate c)" "up \<Longrightarrow> cr_pending_certificate c \<noteq> ''''"
        using conf [OF cfg [unfolded Inr]] opt by auto
      show ?thesis unfolding body_def using None cfg Inr opt
        by (simp, intro hoare_bnd [OF session_settled [OF E laws up] hoare_bnd [OF wait_settled hoare_ret]])
    qed
  qed (auto simp: body_def intro: hoare_ret)
  have "?P (s\<lparr>ap_creds := c, ap_first := False\<rparr>)" using s c(3,4) by (simp add: in_order_def)
  from hoareD [OF H this rest] show ?thesis by (cases r) simp_all
qed

lemma life_settled:
  assumes laws: "json_laws J" "json_text J (cr_device_id c0)" "json_text J (cr_agent_addr c0)" and "\<forall>e\<in>set es. plain_names (event_env e)"
    and "in_order active ok K J st m d c0 s" "ok \<longrightarrow> ap_first s \<longrightarrow> disk_of J (ap_host s) d = Some (ap_creds s)"
    and "ok \<longrightarrow> all_reload K parse J st rnd control connect host es s"
  shows "in_order active ok K J st m d c0 (agent_life K parse J st rnd control connect host es s)"
  using assms(4-)
proof (induction es arbitrary: s)
  case (Cons e es)
  let ?s = "process_step K parse J st rnd control connect host e s"
  have "in_order active ok K J st m d c0 ?s \<and> (ok \<longrightarrow> ap_first ?s \<longrightarrow> disk_of J (ap_host ?s) d = Some (ap_creds ?s))"
  proof (cases e)
    case (Turn E n)
    obtain r n' s' where run: "runAgent_turn K parse J st rnd control connect host E n s = (r, n', s')" by (rule prod_cases3)
    have "in_order active ok K J st m d c0 s'"
      by (rule turn_settled [OF _ laws Cons.prems(2) _ _ run]) (use Cons.prems Turn in auto)
    then show ?thesis using turn_first [OF run] Cons.prems(3) Turn run by auto
  next
    case (Restart E n)
    obtain r n' h where run: "start_agent J st rnd E n (ap_host s) = (r, n', h)" by (rule prod_cases3)
    show ?thesis
    proof (cases r)
      case (Inr s')
      have "device_at st m (ap_host s) d" using Cons.prems(2) by (simp add: in_order_def)
      from start_run [OF this run [unfolded Inr]] show ?thesis using Cons.prems(2) Restart run Inr by (auto simp: in_order_def)
    qed (use Restart run Cons.prems in simp)
  qed
  then show ?case using Cons.IH [of ?s] Cons.prems by simp
qed simp

end

section \<open>Reconnecting\<close>

definition presentable :: "device_crypto \<Rightarrow> credentials \<Rightarrow> bool" where
  "presentable K c \<longleftrightarrow> dc_key_pair K (cr_certificate c) (cr_private_key c) \<and> dc_cert_pool K (cr_ca_cert c) \<and>
     (cr_pending_certificate c \<noteq> '''' \<longrightarrow> dc_key_pair K (cr_pending_certificate c) (cr_private_key c))"

text \<open>A server that answers: when nothing fails it accepts the active certificate, and a refusal changes nothing.\<close>

locale responsive_plane = control_plane active connect control
  for active :: "string \<Rightarrow> bytes \<Rightarrow> 'w \<Rightarrow> bool" and connect :: "mtls \<Rightarrow> string \<Rightarrow> string \<Rightarrow> ('w, bool) prog" and control :: "mtls \<Rightarrow> string \<Rightarrow> bytes \<Rightarrow> ('w, bytes) prog" +
  assumes answers: "connect (y, key, ca) url i E n w = (r, n', w') \<Longrightarrow> \<exists>b. r = Inr b"
    and accepts: "calm E \<Longrightarrow> active i y w \<Longrightarrow> connect (y, key, ca) url i E n w = (r, n', w') \<Longrightarrow> r = Inr True"
    and refuses: "calm E \<Longrightarrow> active i x w \<Longrightarrow> connect (y, key, ca) url i E n w = (Inr False, n', w') \<Longrightarrow> w' = w"
begin

lemma session_run:
  assumes "session K J st control connect host c (y, key, ca) up E n s = (r, n', s')"
  shows "\<exists>b n1 w. connect (y, key, ca) (TrimSpace (cr_agent_addr c)) (cr_device_id c) E n (dv_peer (ap_host s)) = (Inr b, n1, w) \<and> r = Inr b \<and>
    (\<not> b \<longrightarrow> s' = s\<lparr>ap_host := (ap_host s)\<lparr>dv_peer := w\<rparr>, ap_fallback := fallbackAfterConnection (cr_pending_certificate (ap_creds s) \<noteq> '''') up False\<rparr>)"
proof -
  obtain a n1 w where one: "connect (y, key, ca) (TrimSpace (cr_agent_addr c)) (cr_device_id c) E n (dv_peer (ap_host s)) = (a, n1, w)" by (rule prod_cases3)
  obtain b where b: "a = Inr b" using answers [OF one] by blast
  have host: "in_host (on_peer (connect (y, key, ca) (TrimSpace (cr_agent_addr c)) (cr_device_id c))) E n s = (Inr b, n1, s\<lparr>ap_host := (ap_host s)\<lparr>dv_peer := w\<rparr>\<rparr>)"
    using one b by (simp add: in_host_def on_peer_def)
  show ?thesis
  proof (cases b)
    case False
    then show ?thesis using assms one b host by (auto simp: session_def bnd_def ret_def update_process_def)
  next
    case True
    let ?T = "\<lambda>_. True"
    define rest where "rest = bnd (if up then promote_pending J st c else ret ()) (\<lambda>_.
      bnd (if \<not> up then handle (renewCertificateIfDue K J st control host c (cr_pending_certificate c \<noteq> '''')) (\<lambda>_. ret False) else ret False) (\<lambda>staged.
      bnd (update_process (\<lambda>s. s\<lparr>ap_fallback := fallbackAfterConnection (cr_pending_certificate (ap_creds s) \<noteq> '''') up True\<rparr>)) (\<lambda>_. ret True)))"
    have any: "hoare E ?T m (\<lambda>_. ?T) ?T" for m :: "('w agent_process, 'z) prog" by (simp add: hoare_def split: sum.splits)
    have upd: "hoare E ?T (update_process f) (\<lambda>_. ?T) (\<lambda>_. False)" for f :: "'w agent_process \<Rightarrow> 'w agent_process" by (rule hoare_update) simp
    have rt: "hoare E ?T (ret x :: ('w agent_process, 'z) prog) (\<lambda>_. ?T) (\<lambda>_. False)" for x by (rule hoare_ret) simp
    have pr: "hoare E ?T (promote_pending J st c :: ('w agent_process, unit) prog) (\<lambda>_. ?T) (\<lambda>_. False)"
      unfolding promote_pending_def Let_def
      by (rule hoare_bnd [where Q = "\<lambda>_ _. True"], rule upd, rule hoare_bnd [where Q = "\<lambda>_ _. True"], rule hoare_handle [where R' = ?T], rule any, rule rt, rule upd)
    have rn: "hoare E ?T (handle m (\<lambda>_. ret False)) (\<lambda>_. ?T) (\<lambda>_. False)" for m :: "('w agent_process, bool) prog"
      by (rule hoare_handle [where R' = ?T], rule any, rule rt)
    have "hoare E ?T rest (\<lambda>x _. x = True) (\<lambda>_. False)" unfolding rest_def
      by (intro hoare_bnd [where Q = "\<lambda>_ _. True"] hoare_if pr rn rt upd hoare_ret) simp_all
    moreover have "rest E n1 (s\<lparr>ap_host := (ap_host s)\<lparr>dv_peer := w\<rparr>\<rparr>) = (r, n', s')"
      using assms host True unfolding session_def rest_def by (subst (asm) bnd_def) simp
    ultimately have "r = Inr True" using hoareD [of E ?T rest "\<lambda>x _. x = True" "\<lambda>_. False"] by (cases r) fastforce+
    then show ?thesis using one b True by (intro exI [of _ True]) auto
  qed
qed

lemma turn_calm:
  assumes calm: "calm E" "\<forall>k. \<not> cancelled E k" and at: "device_at st m (ap_host s) d" and disk: "disk_of J (ap_host s) d = Some c"
    and first: "ap_first s \<longrightarrow> ap_creds s = c" and url: "requireHTTPSAgentAddr parse (cr_agent_addr c) = None"
    and cfg: "configureAgentMTLS K c (ap_fallback s) = (Inr (y, key, ca), up, bad)"
    and run: "runAgent_turn K parse J st rnd control connect host E n s = (r, n', s')"
  shows "\<exists>b n1 n2 w. connect (y, key, ca) (TrimSpace (cr_agent_addr c)) (cr_device_id c) E n1 (dv_peer (ap_host s)) = (Inr b, n2, w) \<and> r = Inr (Session b) \<and>
    (\<not> b \<longrightarrow> ap_host s' = (ap_host s)\<lparr>dv_peer := w\<rparr> \<and> ap_fallback s' = (cr_pending_certificate c \<noteq> '''' \<and> up) \<and> \<not> ap_first s')"
proof -
  obtain n1 where one: "(if ap_first s then ret (ap_creds s) else reloadCredsForReconnect J st (ap_creds s)) E (Suc n) s = (Inr c, n1, s)"
  proof (cases "ap_first s")
    case False
    obtain a k h where ld: "on_system (in_files (Load J st)) E (Suc n) (ap_host s) = (a, k, h)" by (rule prod_cases3)
    obtain a' k' F where ld': "Load J st E (Suc n) (sy_files (dv_system (ap_host s))) = (a', k', F)" by (rule prod_cases3)
    have "a' = Inr c" using Load_run(4) [OF _ ld' calm(1)] at disk by (simp add: device_at_def disk_of_def)
    then have "a = Inr c" "h = ap_host s" using load_in_host [OF at ld] ld' by simp_all
    then show ?thesis using that [of k] ld False by (simp add: reloadCredsForReconnect_def handle_def in_host_def)
  qed (use first that in \<open>simp add: ret_def\<close>)
  let ?s = "s\<lparr>ap_creds := c, ap_first := False\<rparr>"
  obtain a n2 s2 where two: "session K J st control connect host c (y, key, ca) up E n1 ?s = (a, n2, s2)" by (rule prod_cases3)
  from session_run [OF two] obtain b n3 w where S: "connect (y, key, ca) (TrimSpace (cr_agent_addr c)) (cr_device_id c) E n1 (dv_peer (ap_host s)) = (Inr b, n3, w)"
    "a = Inr b" "\<not> b \<longrightarrow> s2 = ?s\<lparr>ap_host := (ap_host s)\<lparr>dv_peer := w\<rparr>, ap_fallback := fallbackAfterConnection (cr_pending_certificate c \<noteq> '''') up False\<rparr>" by auto
  have wait: "\<exists>k bo. wait_backoff rnd E n2 s2 = (Inr True, k, s2\<lparr>ap_backoff := bo\<rparr>)"
    using calm(2) by (simp add: wait_backoff_def bnd_def now_def ctx_done_def get_process_def update_process_def randomBackoff_def Let_def ret_def; auto)
  then obtain k bo where wait: "wait_backoff rnd E n2 s2 = (Inr True, k, s2\<lparr>ap_backoff := bo\<rparr>)" by blast
  have "r = Inr (Session b) \<and> s' = s2\<lparr>ap_backoff := bo\<rparr>"
    using run calm(2) one url cfg two S(2) wait
    by (simp add: runAgent_turn_def bnd_ctx bnd_get bnd_update bnd_def [of "if _ then _ else _"] bnd_def [of "session _ _ _ _ _ _ _ _ _"] bnd_def [of "wait_backoff _"] ret_def)
  then show ?thesis using S by (auto simp: fallbackAfterConnection_def)
qed

lemma reconnects:
  assumes calm: "calm E1" "\<forall>k. \<not> cancelled E1 k" "calm E2" "\<forall>k. \<not> cancelled E2 k" and at: "device_at st m (ap_host s) d"
    and disk: "disk_of J (ap_host s) d = Some c" and first: "ap_first s \<longrightarrow> ap_creds s = c" and url: "requireHTTPSAgentAddr parse (cr_agent_addr c) = None"
    and usable: "presentable K c" and cur: "current active c (dv_peer (ap_host s))"
    and one: "runAgent_turn K parse J st rnd control connect host E1 n1 s = (r1, k1, s1)"
    and two: "runAgent_turn K parse J st rnd control connect host E2 n2 s1 = (r2, k2, s2)"
  shows "r1 = Inr (Session True) \<or> r1 = Inr (Session False) \<and> r2 = Inr (Session True)"
proof -
  let ?key = "cr_private_key c" and ?ca = "cr_ca_cert c" and ?up = "cr_pending_certificate c \<noteq> '''' \<and> \<not> ap_fallback s"
  let ?y = "\<lambda>up. if up then cr_pending_certificate c else cr_certificate c"
  have cfg: "configureAgentMTLS K c f = (Inr (?y (cr_pending_certificate c \<noteq> '''' \<and> \<not> f), ?key, ?ca), cr_pending_certificate c \<noteq> '''' \<and> \<not> f, False)" for f
    using usable by (auto simp: configureAgentMTLS_def presentPendingCertificate_def WithMTLSFromPEM_def presentable_def Let_def)
  from turn_calm [OF calm(1,2) at disk first url cfg one] obtain b na nb w where
    A: "connect (?y ?up, ?key, ?ca) (TrimSpace (cr_agent_addr c)) (cr_device_id c) E1 na (dv_peer (ap_host s)) = (Inr b, nb, w)" "r1 = Inr (Session b)"
      "\<not> b \<longrightarrow> ap_host s1 = (ap_host s)\<lparr>dv_peer := w\<rparr> \<and> ap_fallback s1 = (cr_pending_certificate c \<noteq> '''' \<and> ?up) \<and> \<not> ap_first s1" by blast
  show ?thesis
  proof (cases b)
    case False
    then have bF: "b = False" by simp
    have w: "w = dv_peer (ap_host s)" using cur refuses [OF calm(1) _ A(1) [unfolded bF]] by (auto simp: current_def)
    then have s1: "ap_host s1 = ap_host s" "ap_fallback s1 = (cr_pending_certificate c \<noteq> '''' \<and> ?up)" "\<not> ap_first s1" using A(3) False by simp_all
    have no: "\<not> active (cr_device_id c) (?y ?up) (dv_peer (ap_host s))" using accepts [OF calm(1) _ A(1)] False by blast
    then have other: "cr_pending_certificate c \<noteq> ''''" "active (cr_device_id c) (?y (cr_pending_certificate c \<noteq> '''' \<and> \<not> ap_fallback s1)) (dv_peer (ap_host s))"
      using cur s1(2) by (auto simp: current_def split: if_splits)
    have at1: "device_at st m (ap_host s1) d" "disk_of J (ap_host s1) d = Some c" "ap_first s1 \<longrightarrow> ap_creds s1 = c" using at disk s1 by simp_all
    from turn_calm [OF calm(3,4) at1 url cfg two] obtain b' nc nd w' where
      B: "connect (?y (cr_pending_certificate c \<noteq> '''' \<and> \<not> ap_fallback s1), ?key, ?ca) (TrimSpace (cr_agent_addr c)) (cr_device_id c) E2 nc (dv_peer (ap_host s1)) = (Inr b', nd, w')"
        "r2 = Inr (Session b')" by blast
    have "Inr b' = (Inr True :: go_error + bool)" by (rule accepts [OF calm(3) _ B(1)]) (use other(2) s1(1) in simp)
    then show ?thesis using A(2) B(2) bF by simp
  qed (use A(2) in simp)
qed

end

text \<open>Without a claim about the server, any server will do.\<close>

interpretation any: control_plane "\<lambda>_ _ _. True" connect control for connect control
  by unfold_locales auto

section \<open>The identity is kept\<close>

text \<open>
  C29. Turns of the connection loop and restarts in any order, with any failures of the disk and any answers of any server: the
  process and the disk always hold usable credentials for the same device, key, CA and control URL, and every certificate in them
  came with the enrolment or was checked against that CA, key and device when it was received.
\<close>

theorem rotation_keeps_identity:
  assumes "Ready (Some c0)" and "json_laws J" "json_text J (cr_device_id c0)" "json_text J (cr_agent_addr c0)"
    and "device_at st m (ap_host s) d" and "disk_of J (ap_host s) d = Some c0" and "ap_creds s = c0" and "\<forall>e\<in>set es. plain_names (event_env e)"
  shows "let s' = agent_life K parse J st rnd control connect host es s in
    (\<exists>c. disk_of J (ap_host s') d = Some c \<and> Ready (Some c) \<and> kept K c0 c) \<and> Ready (Some (ap_creds s')) \<and> kept K c0 (ap_creds s')"
proof -
  have "in_order (\<lambda>_ _ _. True) False K J st m d c0 s" using assms kept_refl by (auto simp: in_order_def)
  then have "in_order (\<lambda>_ _ _. True) False K J st m d c0 (agent_life K parse J st rnd control connect host es s)"
    by (rule any.life_settled [OF assms(2-4,8)]) simp_all
  then show ?thesis using kept_ready [OF assms(1)] unfolding in_order_def Let_def by blast
qed

section \<open>Times\<close>

definition backoff_ok :: "'w agent_process \<Rightarrow> bool" where
  "backoff_ok s \<longleftrightarrow> minInitialBackoff \<le> ap_backoff s \<and> ap_backoff s \<le> maxBackoff"

lemma keeps_backoff:
  "keeps backoff_ok (in_host mh)" "keeps backoff_ok (update_process (\<lambda>s. s\<lparr>ap_creds := c\<rparr>))" "keeps backoff_ok (update_process (\<lambda>s. s\<lparr>ap_creds := c, ap_first := b\<rparr>))"
  "keeps backoff_ok (update_process (\<lambda>s. s\<lparr>ap_fallback := f s\<rparr>))" "keeps backoff_ok get_process"
  by (auto simp: keeps_def backoff_ok_def in_host_def update_process_def get_process_def split: prod.splits)

lemma keeps_backoff_session: "keeps backoff_ok (session K J st control connect host c opt up)"
  unfolding session_def promote_pending_def renewCertificateIfDue_def Let_def
  by (intro prog_rules keeps_backoff keeps_readonly readonly_process readonly_basic; (simp split: option.splits prod.splits)?;
    (intro prog_rules keeps_backoff keeps_readonly readonly_process readonly_basic allI impI)?)

lemma random_backoff: "randomBackoff rnd E n s = (Inr b, n', s') \<Longrightarrow> minInitialBackoff \<le> b \<and> b \<le> maxInitialBackoff"
  by (auto simp: randomBackoff_def Let_def minInitialBackoff_def maxInitialBackoff_def less_imp_le)

lemma keeps_backoff_wait: "keeps backoff_ok (wait_backoff rnd)"
proof -
  have doubled: "5000000000 \<le> wrap64 (b * 2)" if "5000000000 \<le> b" "b \<le> maxBackoff" for b
    using that by (simp add: maxBackoff_def)
  have "0 \<le> rnd k mod 5000000000" "rnd k mod 5000000000 < 5000000000" for k by simp_all
  then have fresh: "minInitialBackoff \<le> 5000000000 + rnd k mod 5000000000" "5000000000 + rnd k mod 5000000000 \<le> maxBackoff" for k
    by (simp_all add: minInitialBackoff_def maxBackoff_def add_increasing2 less_imp_le order.trans [OF less_imp_le])
  show ?thesis unfolding keeps_def
    by (auto simp: wait_backoff_def bnd_def now_def ctx_done_def get_process_def update_process_def randomBackoff_def Let_def ret_def backoff_ok_def
        maxInitialBackoff_def minInitialBackoff_def split: if_splits intro: fresh doubled)
qed

lemma keeps_backoff_turn: "keeps backoff_ok (runAgent_turn K parse J st rnd control connect host :: ('w agent_process, turn) prog)"
proof -
  have rt: "keeps backoff_ok (ret x :: ('w agent_process, 'z) prog)" for x by (simp add: keeps_def ret_def)
  have rl: "keeps backoff_ok (reloadCredsForReconnect J st c :: ('w agent_process, credentials) prog)" for c
    unfolding reloadCredsForReconnect_def by (intro keeps_handle keeps_backoff rt)
  have cd: "keeps backoff_ok (ctx_done :: ('w agent_process, bool) prog)" by (simp add: keeps_def ctx_done_def)
  show ?thesis unfolding runAgent_turn_def
    by (intro keeps_bnd cd keeps_branch keeps_backoff rl rt)
      (auto split: option.splits prod.splits sum.splits intro!: keeps_bnd keeps_backoff keeps_backoff_session keeps_backoff_wait rt)
qed

text \<open>
  Every wait between two connections is between five seconds and five minutes: the backoff starts there, doubling it never
  leaves the range or overflows, and a restart begins anew.
\<close>

theorem backoff_bounded:
  assumes "backoff_ok s"
  shows "backoff_ok (agent_life K parse J st rnd control connect host es s)"
  using assms
proof (induction es arbitrary: s)
  case (Cons e es)
  have "backoff_ok (process_step K parse J st rnd control connect host e s)"
  proof (cases e)
    case (Turn E n)
    obtain r n' s' where run: "runAgent_turn K parse J st rnd control connect host E n s = (r, n', s')" by (rule prod_cases3)
    show ?thesis using keepsD [OF keeps_backoff_turn Cons.prems run] Turn run by simp
  next
    case (Restart E n)
    have "start_agent J st rnd E n (ap_host s) = (Inr s', k, h) \<Longrightarrow> backoff_ok s'" for s' k h
      by (auto simp: start_agent_def bnd_run backoff_ok_def maxBackoff_def maxInitialBackoff_def dest!: random_backoff)
    then show ?thesis using Restart Cons.prems by (auto split: prod.splits sum.splits)
  qed
  then show ?case using Cons.IH by simp
qed simp

text \<open>
  A renewal is due once about four fifths of the lifetime of the certificate have passed, whatever the rounding of the floating point
  product does: never before 79 hundredths, always after 81 hundredths, so almost a fifth of the lifetime is left to renew.
\<close>

theorem renewal_due_in_time:
  assumes "1000 \<le> pc_not_after cert - pc_not_before cert" and "pc_not_after cert - pc_not_before cert < 2 ^ 63"
  shows "100 * (t - pc_not_before cert) < 79 * (pc_not_after cert - pc_not_before cert) \<Longrightarrow> \<not> certificateRenewalDue cert t"
    and "81 * (pc_not_after cert - pc_not_before cert) \<le> 100 * (t - pc_not_before cert) \<Longrightarrow> certificateRenewalDue cert t"
proof -
  have "time_Sub (pc_not_after cert) (pc_not_before cert) = pc_not_after cert - pc_not_before cert" using assms by (simp add: time_Sub_def)
  moreover note four_fifths_bounds(3) [of "pc_not_after cert - pc_not_before cert"]
  ultimately show "100 * (t - pc_not_before cert) < 79 * (pc_not_after cert - pc_not_before cert) \<Longrightarrow> \<not> certificateRenewalDue cert t"
    "81 * (pc_not_after cert - pc_not_before cert) \<le> 100 * (t - pc_not_before cert) \<Longrightarrow> certificateRenewalDue cert t"
    using assms by (simp_all add: certificateRenewalDue_def)
qed

end
