(* ===== verification/System_Rotation.thy ===== *)
theory System_Rotation
  imports System_Enrolment Agent_Rotation_Props
begin

text \<open>
  The rotation of a certificate across the agent and the server: the peer of the connection loop is the database of the server, a
  session opens the server's \<open>Stream\<close> and a renewal is the server's \<open>RenewCertificate\<close>, both behind \<open>AgentMiddleware\<close> and over a network that
  loses requests and answers.
\<close>

section \<open>The server as a control plane\<close>

definition peer_of :: "service \<Rightarrow> bytes \<Rightarrow> string \<Rightarrow> go_ctx option" where
  "peer_of svc pem path = (case parseCertificatePEM (ca_x509 (svc_ca svc)) pem of Inl _ \<Rightarrow> None
   | Inr c \<Rightarrow> (case AgentMiddleware path (Some [c]) background of Served ctx \<Rightarrow> Some ctx | HttpError _ _ \<Rightarrow> None))"

definition hello_frame :: "string \<Rightarrow> string \<Rightarrow> string \<Rightarrow> string \<Rightarrow> agent_message" where
  "hello_frame i hostname version deviceID = hello_message i hostname version (NewClient deviceID)"

definition stream_path :: string where
  "stream_path = agent_path (StreamRequest [] EndOfStream)"

text \<open>The stream is ready when the welcome arrives.\<close>

definition stream_to :: "service \<Rightarrow> string \<Rightarrow> string \<Rightarrow> string \<Rightarrow> mtls \<Rightarrow> string \<Rightarrow> string \<Rightarrow> (srv_db, bool) prog" where
  "stream_to svc i hostname version opt url deviceID = (case peer_of svc (fst opt) stream_path of
     None \<Rightarrow> ret False
   | Some ctx \<Rightarrow> handle (bnd (unreliable (Stream svc ctx [hello_frame i hostname version deviceID] EndOfStream)) (\<lambda>(sent, _). ret (sent \<noteq> []))) (\<lambda>_. ret False))"

definition renewal_at :: "service \<Rightarrow> mtls \<Rightarrow> string \<Rightarrow> bytes \<Rightarrow> (srv_db, bytes) prog" where
  "renewal_at svc opt url csr = (case peer_of svc (fst opt) (agent_path (RenewRequest csr)) of
     None \<Rightarrow> throw (ERpc CodeUnauthenticated ''client certificate required'')
   | Some ctx \<Rightarrow> unreliable (RenewCertificate svc ctx csr))"

definition active_serial :: "string \<Rightarrow> string \<Rightarrow> srv_db \<Rightarrow> bool" where
  "active_serial i x w \<longleftrightarrow> db_keys w \<and> (\<exists>dev\<in>set (devices w). dev_id dev = i \<and> dev_active_serial dev = x)"

text \<open>The certificate identifies the device, and its serial number is the one on record.\<close>

definition active_certificate :: "service \<Rightarrow> string \<Rightarrow> bytes \<Rightarrow> srv_db \<Rightarrow> bool" where
  "active_certificate svc i pem w \<longleftrightarrow> (\<exists>c x. peer_of svc pem stream_path = Some (peer_ctx c) \<and> cert_cn c = i \<and> i \<noteq> '''' \<and>
     SerialFromCert (Some c) = Inr x \<and> active_serial i x w)"

lemma peer_of_serial:
  assumes "peer_of svc pem path = Some ctx" and "path \<noteq> ''/health''" "path \<noteq> ''/ready''"
  shows "\<exists>c. ctx = peer_ctx c \<and> cert_cn c \<noteq> '''' \<and> parseCertificatePEM (ca_x509 (svc_ca svc)) pem = Inr c"
  using assms
  by (auto simp: peer_of_def AgentMiddleware_def peer_ctx_def DeviceIDFromRequest_def split: sum.splits http_outcome.splits if_splits)

lemma keeps_unreliable: "keeps I m \<Longrightarrow> keeps I (unreliable m)"
  unfolding keeps_def unreliable_def by (auto split: prod.splits if_splits)

definition has_active :: "string \<Rightarrow> string \<Rightarrow> srv_db \<Rightarrow> bool" where
  "has_active i x w \<longleftrightarrow> (\<exists>dev\<in>set (devices w). dev_id dev = i \<and> dev_active_serial dev = x)"

lemma has_active_upd:
  assumes "\<And>dev. dev_id (f dev) = dev_id dev \<and> dev_active_serial (f dev) = dev_active_serial dev"
  shows "has_active i x w \<Longrightarrow> has_active i x (w\<lparr>devices := upd_rows p f (devices w)\<rparr>)"
proof -
  assume "has_active i x w"
  then obtain dev where dev: "dev \<in> set (devices w)" "dev_id dev = i" "dev_active_serial dev = x" by (auto simp: has_active_def)
  then have "(if p dev then f dev else dev) \<in> set (upd_rows p f (devices w))" by (auto simp: upd_rows_def)
  moreover have "dev_id (if p dev then f dev else dev) = i" "dev_active_serial (if p dev then f dev else dev) = x" using assms dev(2,3) by simp_all
  ultimately show ?thesis unfolding has_active_def by auto
qed

lemma keeps_active_statements:
  "keeps (has_active i x) (q_TouchDevice a1 a2 k1 a3)" "keeps (has_active i x) (q_SetPendingDeviceCertificate b1 b2 k1 a3 a4)"
  "keeps (has_active i x) (q_CreateAuditEvent ev)"
  unfolding q_TouchDevice_def q_SetPendingDeviceCertificate_def q_CreateAuditEvent_def
  by ((rule keeps_sql_nowI | rule keeps_sqlI); auto simp: insert_row_Inr Let_def set_pending_def intro!: has_active_upd; simp add: has_active_def)+

lemma keeps_active_renewal: "keeps (has_active i x) (RenewCertificate svc ctx csr)" "keeps (has_active i x) (touchAgent d h)"
  unfolding RenewCertificate_def renew_body_def issue_pending_def touchAgent_def
  by (intro keeps_compose keeps_leaves keeps_ok_leaves keeps_active_statements keeps_active_statements [THEN keeps_ok_keeps] audit_keeps audit_keeps [THEN keeps_ok_keeps])+

lemma active_serial_def2: "active_serial i x w \<longleftrightarrow> db_keys w \<and> has_active i x w"
  by (simp add: active_serial_def has_active_def)

lemma keeps_and: "keeps I m \<Longrightarrow> keeps I' m \<Longrightarrow> keeps (\<lambda>s. I s \<and> I' s) m"
  unfolding keeps_def by blast

lemma renewal_keeps_active: "keeps (active_serial i x) (RenewCertificate svc ctx csr)" "keeps (active_serial i x) (touchAgent d h)"
  unfolding active_serial_def2 [abs_def] by (intro keeps_and keeps_active_renewal keys.renewal_ordinary keys.agent_ordinary)+

text \<open>Authentication promotes at most the presented certificate, and succeeds only when it is the active one afterwards.\<close>

lemma authenticate_active:
  assumes w: "active_serial i x w" and y: "SerialFromCert (Some c) = Inr y" and "cert_cn c \<noteq> ''''"
    and h: "id_value (hl_device_id h) = i" and run: "authenticateAgent (peer_ctx c) h E n w = (r, n', w')"
  shows "active_serial i x w' \<or> active_serial i y w' \<and> cert_cn c = i" and "r = Inr z \<Longrightarrow> active_serial i y w' \<and> cert_cn c = i"
proof -
  have keys: "db_keys w" "db_keys w'" using w keepsD [OF keys.agent_ordinary(1) _ run] by (auto simp: active_serial_def)
  obtain dev where dev: "dev \<in> set (devices w)" "dev_id dev = i" "dev_active_serial dev = x" using w by (auto simp: active_serial_def)
  have f: "List.find (\<lambda>d. dev_id d = i) (devices w) = Some dev" using find_device [OF keys(1) dev(1)] dev(2) by simp
  have ctx: "DeviceIDFromContext (peer_ctx c) = Some (cert_cn c)" "PeerSerialFromContext (peer_ctx c) = Some y"
    using assms(3) y by (simp_all add: DeviceIDFromContext_def peer_ctx_def PeerSerial_SerialFromCert)
  have "w' = w \<and> ((\<exists>z. r = Inr z) \<longrightarrow> x = y \<and> cert_cn c = i) \<or>
    dev_pending_serial dev = Some y \<and> cert_cn c = i \<and> (\<exists>t. devices w' = upd_rows (\<lambda>d. dev_id d = i \<and> dev_pending_serial d = Some y) (promote t) (devices w))"
    using run ctx h f dev(3)
    by (cases r) (auto simp: authenticateAgent_def q_GetDevice_def q_PromotePendingDeviceCertificate_def run_simps bnd_run map_err_def handle_run Let_def split: if_splits)
  then have "w' = w \<and> ((\<exists>z. r = Inr z) \<longrightarrow> x = y \<and> cert_cn c = i) \<or> active_serial i y w' \<and> cert_cn c = i"
  proof
    assume cn: "dev_pending_serial dev = Some y \<and> cert_cn c = i \<and> (\<exists>t. devices w' = upd_rows (\<lambda>d. dev_id d = i \<and> dev_pending_serial d = Some y) (promote t) (devices w))"
    then obtain t where t: "dev_pending_serial dev = Some y" "devices w' = upd_rows (\<lambda>d. dev_id d = i \<and> dev_pending_serial d = Some y) (promote t) (devices w)" by blast
    have "promote t dev \<in> set (devices w')" unfolding t(2) upd_rows_def using dev(1,2) t(1) by force
    moreover have "dev_id (promote t dev) = i" "dev_active_serial (promote t dev) = y" using t(1) dev(2) by (simp_all add: promote_def)
    ultimately have "active_serial i y w'" using keys(2) unfolding active_serial_def by blast
    then show ?thesis using cn by simp
  qed blast
  then show "active_serial i x w' \<or> active_serial i y w' \<and> cert_cn c = i" "r = Inr z \<Longrightarrow> active_serial i y w' \<and> cert_cn c = i" using w by auto
qed

lemma authenticate_hoare:
  assumes "SerialFromCert (Some c) = Inr y" and "cert_cn c \<noteq> ''''" and "id_value (hl_device_id h) = i"
  shows "hoare E (active_serial i x) (authenticateAgent (peer_ctx c) h) (\<lambda>_ w. active_serial i y w \<and> cert_cn c = i)
    (\<lambda>w. active_serial i x w \<or> active_serial i y w \<and> cert_cn c = i)"
  using authenticate_active [OF _ assms] by (intro hoareI) (auto split: sum.splits)

lemma stream_hoare:
  assumes "SerialFromCert (Some c) = Inr y" and "cert_cn c \<noteq> ''''"
  shows "hoare E (active_serial i x) (Stream svc (peer_ctx c) [hello_frame j host ver i] fin)
    (\<lambda>(sent, _) w. if sent \<noteq> [] then active_serial i y w \<and> cert_cn c = i else active_serial i x w \<or> active_serial i y w \<and> cert_cn c = i) (\<lambda>_. False)"
proof -
  let ?h = "\<lparr>hl_device_id = Some i, hl_hostname = host, hl_agent_version = ver\<rparr>" and ?Y = "\<lambda>w. active_serial i y w \<and> cert_cn c = i"
    and ?X = "\<lambda>w. active_serial i x w \<or> active_serial i y w \<and> cert_cn c = i"
  let ?Q = "\<lambda>(sent :: server_message list, _ :: stream_end) w. if sent \<noteq> [] then ?Y w else ?X w"
  let ?rest = "\<lambda>d. bnd (touchAgent d ?h) (\<lambda>_. bnd ulid_make (\<lambda>k. bnd (map_err (EWrap ''send welcome'') (send (Some k, WelcomeFrame (svc_heartbeat svc)))) (\<lambda>welcome.
     bnd (stream_loop svc d ?h [] fin) (\<lambda>(sent, e). ret (welcome # sent, e)))))"
  have "keeps (active_serial i y) (?rest d)" for d
    by (intro keeps_bnd renewal_keeps_active keeps_map_err keeps_leaves)
      (auto simp: keeps_def ulid_make_def send_def sql_def ret_def split: if_splits)
  then have "keeps ?Y (?rest d)" for d by (rule keeps_and) (simp add: keeps_def)
  then have "hoare E ?Y (?rest d) (\<lambda>_. ?Y) ?Y" for d by (rule hoare_keeps)
  then have rest: "hoare E ?Y (?rest d) ?Q ?X" for d by (rule hoare_post) auto
  have id: "id_value (hl_device_id ?h) = i" by simp
  have "hoare E (active_serial i x) (bnd (authenticateAgent (peer_ctx c) ?h) ?rest) ?Q ?X"
    by (rule hoare_bnd [OF authenticate_hoare [OF assms id] rest])
  moreover have "hoare E ?X (ret ([], StreamError e)) ?Q (\<lambda>_. False)" for e by (rule hoare_ret) simp
  ultimately have "hoare E (active_serial i x) (handle (bnd (authenticateAgent (peer_ctx c) ?h) ?rest) (\<lambda>e. ret ([], StreamError e))) ?Q (\<lambda>_. False)"
    by (rule hoare_handle)
  then show ?thesis by (simp add: Stream_def hello_frame_def hello_message_def NewClient_def)
qed

lemma no_serial:
  assumes "SerialFromCert (Some c) = Inl e"
  shows "Stream svc (peer_ctx c) [hello_frame j host ver i] fin = ret ([], StreamError (ERpc CodeUnauthenticated ''authenticated device identity required''))"
proof -
  have "PeerSerialFromContext (peer_ctx c) = None" using assms by (auto simp: PeerSerialFromContext_def SerialFromCert_def peer_ctx_def split: option.splits if_splits)
  then have "authenticateAgent (peer_ctx c) h = throw (ERpc CodeUnauthenticated ''authenticated device identity required'')" for h
    by (cases "DeviceIDFromContext (peer_ctx c)") (simp_all add: authenticateAgent_def)
  then show ?thesis by (simp add: Stream_def hello_frame_def hello_message_def NewClient_def handle_def bnd_def throw_def ret_def)
qed

lemma stream_active:
  assumes w: "active_certificate svc i x w" and run: "stream_to svc j host ver (y, key, ca) url i E n w = (r, n', w')"
  shows "active_certificate svc i x w' \<or> active_certificate svc i y w'" and "r = Inr True \<Longrightarrow> active_certificate svc i y w'"
proof -
  obtain a c0 where a: "peer_of svc x stream_path = Some (peer_ctx c0)" "cert_cn c0 = i" "i \<noteq> ''''" "SerialFromCert (Some c0) = Inr a" "active_serial i a w"
    using w by (auto simp: active_certificate_def)
  have "(active_certificate svc i x w' \<or> active_certificate svc i y w') \<and> (r = Inr True \<longrightarrow> active_certificate svc i y w')"
  proof (cases "peer_of svc y stream_path")
    case None
    then have "r = Inr False" "w' = w" using run by (auto simp: stream_to_def ret_def)
    then show ?thesis using w by simp
  next
    case (Some ctx)
    then obtain c where c: "ctx = peer_ctx c" "cert_cn c \<noteq> ''''" using peer_of_serial by (fastforce simp: stream_path_def)
    obtain q k w1 where st: "Stream svc (peer_ctx c) [hello_frame j host ver i] EndOfStream E (Suc n) w = (q, k, w1)" by (rule prod_cases3)
    show ?thesis
    proof (cases "SerialFromCert (Some c)")
      case (Inl e)
      from no_serial [OF this, of svc j host ver i EndOfStream]
      have "w' = w \<and> r \<noteq> Inr True" using run Some c(1) by (auto simp: stream_to_def unreliable_def handle_def bnd_def ret_def split: if_splits)
      then show ?thesis using w by simp
    next
      case (Inr b)
      from hoareD [OF stream_hoare [OF Inr c(2)] a(5) st] obtain sent z where q: "q = Inr (sent, z)"
        and act: "active_serial i a w1 \<or> active_serial i b w1 \<and> cert_cn c = i" "sent \<noteq> [] \<Longrightarrow> active_serial i b w1 \<and> cert_cn c = i"
        by (cases q) (auto split: if_splits)
      have res: "w' = w \<and> r \<noteq> Inr True \<or> w' = w1 \<and> (r = Inr True \<longrightarrow> sent \<noteq> [])"
        using run Some c(1) st q by (auto simp: stream_to_def unreliable_def handle_def bnd_def ret_def split: if_splits)
      have y: "active_certificate svc i y w1" if "active_serial i b w1 \<and> cert_cn c = i" using that Some c(1) Inr a(3) by (auto simp: active_certificate_def)
      have x: "active_certificate svc i x w1" if "active_serial i a w1" using that a by (auto simp: active_certificate_def)
      show ?thesis using res act x y w by blast
    qed
  qed
  then show "active_certificate svc i x w' \<or> active_certificate svc i y w'" "r = Inr True \<Longrightarrow> active_certificate svc i y w'" by auto
qed

interpretation plane: control_plane "active_certificate svc" "stream_to svc j host ver" "renewal_at svc" for svc j host ver
proof unfold_locales
  fix i x w y key ca url E n r n' w'
  show "active_certificate svc i x w \<Longrightarrow> stream_to svc j host ver (y, key, ca) url i E n w = (r, n', w') \<Longrightarrow>
    active_certificate svc i x w' \<or> active_certificate svc i y w'" by (rule stream_active(1))
  show "active_certificate svc i x w \<Longrightarrow> stream_to svc j host ver (y, key, ca) url i E n w = (Inr True, n', w') \<Longrightarrow> active_certificate svc i y w'"
    using stream_active(2) by blast
next
  fix i x w opt url csr E n z n' w'
  assume "active_certificate svc i x w" "renewal_at svc opt url csr E n w = (z, n', w')"
  then show "active_certificate svc i x w'"
    using keepsD [OF keeps_unreliable [OF renewal_keeps_active(1)]]
    by (auto simp: active_certificate_def renewal_at_def throw_def split: option.splits; blast)
qed

section \<open>Never locked out\<close>

text \<open>
  C3. Turns of the connection loop and restarts in any order, with requests and answers lost, failing writes and failing statements:
  as long as the agent can read its credentials back before it reconnects, the certificate the server has on record
  for the device is always one of the two on the device's disk.
\<close>

theorem rotation_never_locks_out:
  assumes "Ready (Some c0)" and "json_laws J" "json_text J (cr_device_id c0)" "json_text J (cr_agent_addr c0)"
    and "device_at st m (ap_host s) d" and "disk_of J (ap_host s) d = Some c0" and "ap_creds s = c0"
    and "active_certificate svc (cr_device_id c0) (cr_certificate c0) (dv_peer (ap_host s))"
    and "\<forall>e\<in>set es. plain_names (event_env e)" and "all_reload K parse J st rnd (renewal_at svc) (stream_to svc j host ver) host es s"
  shows "let s' = agent_life K parse J st rnd (renewal_at svc) (stream_to svc j host ver) host es s in
    \<exists>c. disk_of J (ap_host s') d = Some c \<and> Ready (Some c) \<and> cr_device_id c = cr_device_id c0 \<and>
      (active_certificate svc (cr_device_id c) (cr_certificate c) (dv_peer (ap_host s')) \<or>
       cr_pending_certificate c \<noteq> '''' \<and> active_certificate svc (cr_device_id c) (cr_pending_certificate c) (dv_peer (ap_host s')))"
proof -
  have "in_order (active_certificate svc) True K J st m d c0 s" using assms kept_refl by (auto simp: in_order_def current_def)
  then have "in_order (active_certificate svc) True K J st m d c0 (agent_life K parse J st rnd (renewal_at svc) (stream_to svc j host ver) host es s)"
    by (rule plane.life_settled [OF assms(2-4,9)]) (use assms in simp_all)
  then show ?thesis using kept_ready [OF assms(1)] unfolding in_order_def Let_def current_def by (auto simp: kept_def)
qed

section \<open>Reconnecting\<close>

lemma authenticate_calm:
  assumes w: "active_serial i x w" and y: "SerialFromCert (Some c) = Inr y" and cn: "cert_cn c \<noteq> ''''"
    and h: "id_value (hl_device_id h) = i" and calm: "calm E" and run: "authenticateAgent (peer_ctx c) h E n w = (r, n', w')"
  shows "x = y \<Longrightarrow> cert_cn c = i \<Longrightarrow> \<exists>z. r = Inr z" and "r = Inl e \<Longrightarrow> w' = w"
proof -
  have keys: "db_keys w" using w by (simp add: active_serial_def)
  obtain dev where dev: "dev \<in> set (devices w)" "dev_id dev = i" "dev_active_serial dev = x" using w by (auto simp: active_serial_def)
  obtain pre rem where sp: "devices w = pre @ dev # rem" using split_list [OF dev(1)] by blast
  have nf: "\<not> fault E k" for k using calm by (simp add: calm_def)
  have ctx: "DeviceIDFromContext (peer_ctx c) = Some (cert_cn c)" "PeerSerialFromContext (peer_ctx c) = Some y"
    using cn y by (simp_all add: DeviceIDFromContext_def peer_ctx_def PeerSerial_SerialFromCert)
  have "(x = y \<longrightarrow> cert_cn c = i \<longrightarrow> (\<exists>z. r = Inr z)) \<and> ((\<exists>e. r = Inl e) \<longrightarrow> w' = w)"
  proof (cases "cert_cn c = i")
    case False
    then show ?thesis using run h ctx by (auto simp: authenticateAgent_def throw_def)
  next
    case True
    note run' = run [unfolded authenticate_peer [OF keys dev(1) _ _ y _ nf, unfolded dev(2), OF True cn [unfolded True] h]]
    show ?thesis
    proof (cases "x \<noteq> y \<and> dev_pending_serial dev = Some y")
      case False
      then show ?thesis using run' dev(3) by (auto simp: ret_def throw_def split: if_splits)
    next
      case pend: True
      show ?thesis
      proof (cases "pending_complete dev")
        case True
        show ?thesis using run' pend dev(2,3) promotes [OF keys sp _ True nf, of y "Suc n"] by auto
      next
        case False
        have "q_PromotePendingDeviceCertificate i y E (Suc n) w = (Inl EConstraint, Suc (Suc n), w)"
          using pend False dev nf by (auto simp: q_PromotePendingDeviceCertificate_def sql_now_def sql_def Let_def)
        then show ?thesis using run' pend dev(3) by (auto simp: bnd_def map_err_def handle_def throw_def)
      qed
    qed
  qed
  then show "x = y \<Longrightarrow> cert_cn c = i \<Longrightarrow> \<exists>z. r = Inr z" "r = Inl e \<Longrightarrow> w' = w" by auto
qed

lemma stream_calm:
  assumes w: "active_serial i x w" and y: "SerialFromCert (Some c) = Inr y" and cn: "cert_cn c \<noteq> ''''" and calm: "calm E"
    and run: "Stream svc (peer_ctx c) [hello_frame j host ver i] EndOfStream E n w = (q, k, w1)"
  shows "\<exists>sent z. q = Inr (sent, z) \<and> (x = y \<and> cert_cn c = i \<longrightarrow> sent \<noteq> []) \<and> (sent = [] \<longrightarrow> w1 = w)"
proof -
  let ?h = "\<lparr>hl_device_id = Some i, hl_hostname = host, hl_agent_version = ver\<rparr>"
  obtain a k1 w2 where one: "authenticateAgent (peer_ctx c) ?h E n w = (a, k1, w2)" by (rule prod_cases3)
  have id: "id_value (hl_device_id ?h) = i" by simp
  note A = authenticate_calm [OF w y cn id calm one]
  show ?thesis
  proof (cases a)
    case (Inl e)
    then show ?thesis using run one A
      by (auto simp: Stream_def hello_frame_def hello_message_def NewClient_def handle_def bnd_def ret_def)
  next
    case (Inr d)
    then show ?thesis using run one calm
      by (auto simp: Stream_def hello_frame_def hello_message_def NewClient_def handle_def bnd_def ret_def touchAgent_def q_TouchDevice_def now_def
          map_err_def sql_now_def sql_def ulid_make_def send_def calm_def)
  qed
qed

interpretation live: responsive_plane "active_certificate svc" "stream_to svc j host ver" "renewal_at svc" for svc j host ver
proof unfold_locales
  fix y key ca url i E n r n' w w'
  assume "stream_to svc j host ver (y, key, ca) url i E n w = (r, n', w')"
  then show "\<exists>b. r = Inr b"
    by (cases "peer_of svc y stream_path") (auto simp: stream_to_def handle_def bnd_def ret_def split: prod.splits sum.splits)
next
  fix E i y w key ca url n r n' w'
  assume calm: "calm E" and act: "active_certificate svc i y w" and run: "stream_to svc j host ver (y, key, ca) url i E n w = (r, n', w')"
  from act obtain c x where c: "peer_of svc y stream_path = Some (peer_ctx c)" "cert_cn c = i" "i \<noteq> ''''" "SerialFromCert (Some c) = Inr x" "active_serial i x w"
    by (auto simp: active_certificate_def)
  obtain q k w1 where st: "Stream svc (peer_ctx c) [hello_frame j host ver i] EndOfStream E (Suc n) w = (q, k, w1)" by (rule prod_cases3)
  from stream_calm [OF c(5,4) _ calm st] c(2,3) obtain sent z where "q = Inr (sent, z)" "sent \<noteq> []" by auto
  then show "r = Inr True" using run c(1) st calm by (simp add: stream_to_def unreliable_def calm_def handle_def bnd_def ret_def)
next
  fix E i x w y key ca url n n' w'
  assume calm: "calm E" and act: "active_certificate svc i x w" and run: "stream_to svc j host ver (y, key, ca) url i E n w = (Inr False, n', w')"
  obtain a where a: "active_serial i a w" using act by (auto simp: active_certificate_def)
  show "w' = w"
  proof (cases "peer_of svc y stream_path")
    case None
    then show ?thesis using run by (simp add: stream_to_def ret_def)
  next
    case (Some ctx)
    then obtain c where c: "ctx = peer_ctx c" "cert_cn c \<noteq> ''''" using peer_of_serial by (fastforce simp: stream_path_def)
    obtain q k w1 where st: "Stream svc (peer_ctx c) [hello_frame j host ver i] EndOfStream E (Suc n) w = (q, k, w1)" by (rule prod_cases3)
    have "\<exists>sent z. q = Inr (sent, z) \<and> (sent = [] \<longrightarrow> w1 = w)"
    proof (cases "SerialFromCert (Some c)")
      case (Inl e)
      from no_serial [OF this] show ?thesis using st by (auto simp: ret_def)
    next
      case (Inr b)
      from stream_calm [OF a Inr c(2) calm st] show ?thesis by blast
    qed
    then show ?thesis using run Some c(1) st calm by (auto simp: stream_to_def unreliable_def calm_def handle_def bnd_def ret_def)
  qed
qed

text \<open>
  C34. When nothing fails, an agent whose disk holds the certificate the server has on record, as the active or as the pending one, is connected
  after at most two turns of its loop, whichever certificate it tries first.
\<close>

theorem agent_reconnects:
  assumes "device_at st m (ap_host s) d" and "disk_of J (ap_host s) d = Some c" and "ap_first s \<longrightarrow> ap_creds s = c"
    and "requireHTTPSAgentAddr parse (cr_agent_addr c) = None" and "presentable K c"
    and "current (active_certificate svc) c (dv_peer (ap_host s))"
    and "calm E1" "\<forall>k. \<not> cancelled E1 k" and "calm E2" "\<forall>k. \<not> cancelled E2 k"
    and "runAgent_turn K parse J st rnd (renewal_at svc) (stream_to svc j host ver) host E1 n1 s = (r1, k1, s1)"
    and "runAgent_turn K parse J st rnd (renewal_at svc) (stream_to svc j host ver) host E2 n2 s1 = (r2, k2, s2)"
  shows "r1 = Inr (Session True) \<or> r1 = Inr (Session False) \<and> r2 = Inr (Session True)"
  by (rule live.reconnects [OF assms(7-10,1-6,11,12)])

end
