(* ===== verification/Sys_Fs_Remove.thy ===== *)
theory Sys_Fs_Remove
  imports Sys_Fs_Safety
begin

text \<open>
  Removing a directory: only the tree under it loses entries, whatever fails on the way and whatever symbolic links the tree holds;
  when nothing fails and the tree is finite, the removal ends and the directory is gone; protected trees are refused.
\<close>

section \<open>What lies below a directory\<close>

definition child_of :: "filesystem \<Rightarrow> ino \<Rightarrow> ino \<Rightarrow> bool" where
  "child_of F i j \<longleftrightarrow> (\<exists>c. entry F i c = Some j)"

abbreviation reach :: "filesystem \<Rightarrow> ino \<Rightarrow> ino \<Rightarrow> bool" where
  "reach F \<equiv> (child_of F)\<^sup>*\<^sup>*"

text \<open>The entry itself and the entries of the directories below it. Symbolic links have no entries, so the tree does not go through
  them.\<close>

definition region :: "filesystem \<Rightarrow> ino \<Rightarrow> string \<Rightarrow> (ino \<times> string) set" where
  "region F d name = insert (d, name) {(a, c). \<exists>i. entry F d name = Some i \<and> reach F i a}"

text \<open>Only entries of \<open>S\<close> are lost, nothing else changes.\<close>

definition shrinks :: "(ino \<times> string) set \<Rightarrow> filesystem \<Rightarrow> filesystem \<Rightarrow> bool" where
  "shrinks S F G \<longleftrightarrow> (\<forall>j. \<not> is_dir F j \<longrightarrow> fs_inode G j = fs_inode F j) \<and> (\<forall>a. dir_of G a = dir_of F a) \<and>
     (\<forall>a c. entry G a c = entry F a c \<or> (a, c) \<in> S \<and> entry G a c = None) \<and>
     (\<forall>a. \<exists>P. entries_of G a = filter P (entries_of F a)) \<and> fs_next G = fs_next F \<and> fs_cwd G = fs_cwd F"

lemma shrinks_refl: "shrinks S F F"
  by (auto simp: shrinks_def intro: exI [of _ "\<lambda>_. True"])

lemma shrinks_dir: "shrinks S F G \<Longrightarrow> is_dir G a = is_dir F a"
  by (simp add: shrinks_def is_dir_dir_of)

lemma shrinks_entry: "shrinks S F G \<Longrightarrow> entry G a c = Some j \<Longrightarrow> entry F a c = Some j"
  unfolding shrinks_def by (metis option.distinct(1))

lemma shrinks_keeps: "shrinks S F G \<Longrightarrow> (a, c) \<notin> S \<Longrightarrow> entry G a c = entry F a c"
  unfolding shrinks_def by blast

lemma shrinks_mono: "shrinks S F G \<Longrightarrow> S \<subseteq> T \<Longrightarrow> shrinks T F G"
  unfolding shrinks_def by blast

lemma shrinks_trans:
  assumes "shrinks S F G" and "shrinks S G H"
  shows "shrinks S F H"
proof -
  have "\<exists>P. entries_of H a = filter P (entries_of F a)" for a
  proof -
    obtain P Q where "entries_of G a = filter P (entries_of F a)" "entries_of H a = filter Q (entries_of G a)"
      using assms unfolding shrinks_def by meson
    then have "entries_of H a = filter (\<lambda>x. Q x \<and> P x) (entries_of F a)" by (simp add: conj_commute)
    then show ?thesis by blast
  qed
  then show ?thesis using assms unfolding shrinks_def by (simp add: is_dir_dir_of) metis
qed

lemma shrinks_reach: "shrinks S F G \<Longrightarrow> reach G i j \<Longrightarrow> reach F i j"
proof (erule rtranclp_mono [THEN predicate2D, rotated])
  assume "shrinks S F G"
  then show "child_of G \<le> child_of F" unfolding child_of_def by (auto dest: shrinks_entry)
qed

text \<open>The part of a region that belongs to a child, seen later.\<close>

lemma region_child:
  assumes "entry F d name = Some i" and "shrinks (region F d name) F H"
  shows "region H i c \<subseteq> region F d name"
proof -
  have "reach F i a" if "entry H i c = Some j" "reach H j a" for a j
  proof -
    have "child_of F i j" using shrinks_entry [OF assms(2) that(1)] by (auto simp: child_of_def)
    then show ?thesis using shrinks_reach [OF assms(2) that(2)] by (rule converse_rtranclp_into_rtranclp)
  qed
  then show ?thesis using assms(1) unfolding region_def by auto
qed

lemma unlink_inode: "j \<noteq> d \<Longrightarrow> fs_inode (unlink_entry d name F) j = fs_inode F j"
  by (simp add: unlink_entry_def upd_inode_at)

lemma entries_unlink: "\<exists>P. entries_of (unlink_entry d name F) a = filter P (entries_of F a)"
proof (cases "a = d")
  case True
  then have "entries_of (unlink_entry d name F) a = filter (\<lambda>e. fst e \<noteq> name) (entries_of F a)"
    by (auto simp: entries_of_def node_at_unlink split: option.splits node.splits)
  then show ?thesis by blast
next
  case False
  then have "entries_of (unlink_entry d name F) a = filter (\<lambda>_. True) (entries_of F a)"
    by (simp add: entries_of_def node_at_unlink)
  then show ?thesis by blast
qed

lemma shrinks_unlink: "is_dir F d \<Longrightarrow> (d, name) \<in> S \<Longrightarrow> shrinks S F (unlink_entry d name F)"
  by (auto simp: shrinks_def entry_unlink entries_unlink) (metis unlink_inode)

section \<open>The recursion\<close>

lemma for_each_shrinks:
  assumes "\<And>c n H r n' G. c \<in> set cs \<Longrightarrow> shrinks S F H \<Longrightarrow> f c E n H = (r, n', G) \<Longrightarrow> shrinks S H G"
    and "shrinks S F H" and "for_each f cs E n H = (r, n', G)"
  shows "shrinks S F G"
  using assms
proof (induction cs arbitrary: n H)
  case (Cons c cs)
  obtain r1 n1 H1 where one: "f c E n H = (r1, n1, H1)" by (metis prod_cases3)
  have s1: "shrinks S F H1" using shrinks_trans [OF Cons.prems(2)] Cons.prems(1) [OF _ Cons.prems(2) one] by simp
  show ?case
  proof (cases r1)
    case (Inl e)
    then show ?thesis using Cons.prems(3) one s1 by (simp add: bnd_def)
  next
    case (Inr u)
    then have "for_each f cs E n1 H1 = (r, n', G)" using Cons.prems(3) one by (simp add: bnd_def)
    then show ?thesis using Cons.IH [OF _ s1] Cons.prems(1) by (metis list.set_intros(2))
  qed
qed (simp add: ret_run)

lemma unlinkat_run:
  assumes "sys_unlinkat d name dir E n F = (r, n', G)"
  shows "(\<exists>e. r = Inl e) \<and> G = F \<or> r = Inr () \<and> G = unlink_entry d name F \<and> entry F d name \<noteq> None"
  using assms by (auto simp: sys_unlinkat_def sql_def split: if_splits option.splits sum.splits)

lemma unlinkat_shrinks:
  assumes "map_err w (sys_unlinkat d name dir) E n F = (r, n', G)" and "(d, name) \<in> S"
  shows "shrinks S F G \<and> (r = Inr () \<longrightarrow> entry G d name = None)"
  using assms unlinkat_run [of d name dir E n F]
  by (auto simp: map_err_def handle_run throw_run shrinks_refl entry_unlink intro!: shrinks_unlink dest: entry_is_dir)

lemma at_run:
  "sys_fstatat d name E n F = (r1, n', G) \<Longrightarrow> G = F \<and> (\<forall>st. r1 = Inr st \<longrightarrow> (\<exists>i. entry F d name = Some i \<and> st = inode_of F i))"
  "sys_openat_dir d name E n F = (r2, n', G) \<Longrightarrow> G = F \<and> (\<forall>i. r2 = Inr i \<longrightarrow> entry F d name = Some i)"
  "sys_readdirnames d E n F = (r3, n', G) \<Longrightarrow> G = F"
  unfolding syscall_defs by (auto dest!: peek_run split: option.splits if_splits)

lemma bnd_ok: "m E n s = (Inr x, k, t) \<Longrightarrow> bnd m f E n s = f x E k t"
  "m E n s = (Inr x, k, t) \<Longrightarrow> bnd (map_err w m) f E n s = f x E k t" "m E n s = (Inr x, k, t) \<Longrightarrow> bnd (handle m h) f E n s = f x E k t"
  by (simp_all add: bnd_def map_err_def handle_def)

text \<open>What follows the check of the entry, for a directory.\<close>

definition remove_dir :: "nat \<Rightarrow> ino \<Rightarrow> string \<Rightarrow> unit fs_prog" where
  "remove_dir fuel d name =
     bnd (map_err (EWrap ''open dir'') (sys_openat_dir d name)) (\<lambda>cfd.
     bnd (on_error (ignoring (sys_close cfd)) ''read dir'' (sys_readdirnames cfd)) (\<lambda>children.
     bnd (handle (for_each (\<lambda>child. if child = ''.'' \<or> child = ''..'' then ret () else removeAtRecursive fuel cfd child) children)
       (\<lambda>e. bnd (ignoring (sys_close cfd)) (\<lambda>_. throw e))) (\<lambda>_.
     bnd (map_err (EWrap ''close dir'') (sys_close cfd)) (\<lambda>_.
     map_err (EWrap ''rmdir'') (sys_unlinkat d name True)))))"

lemma removeAtRecursive_Suc:
  "removeAtRecursive (Suc fuel) d name = bnd ctx_done (\<lambda>stop. if stop then throw (EText ''context canceled'') else
     bnd (map_err (EWrap ''stat'') (sys_fstatat d name)) (\<lambda>st. case i_node st of
       Directory _ _ \<Rightarrow> remove_dir fuel d name | _ \<Rightarrow> map_err (EWrap ''unlink'') (sys_unlinkat d name False)))"
  unfolding removeAtRecursive.simps remove_dir_def ..

lemma ignored_close: "bnd (ignoring (sys_close fd)) (\<lambda>_. throw e) E n F = (r, n', G) \<Longrightarrow> r = Inl e \<and> G = F"
  by (auto simp: bnd_run ignoring_run throw_run dest: quiet_run(1))

lemma remove_dir_run:
  assumes ent: "entry F d name = Some i" and run: "remove_dir fuel d name E n F = (r, n', G)"
    and IH: "\<And>c n H r n' G. removeAtRecursive fuel i c E n H = (r, n', G) \<Longrightarrow> shrinks (region H i c) H G"
  shows "shrinks (region F d name) F G \<and> (r = Inr () \<longrightarrow> entry G d name = None)"
proof -
  let ?S = "region F d name"
  let ?f = "\<lambda>child. if child = ''.'' \<or> child = ''..'' then ret () else removeAtRecursive fuel i child"
  have here: "(d, name) \<in> ?S" by (simp add: region_def)
  have loop: "shrinks ?S F H" if "for_each ?f cs E k F = (r1, k', H)" for cs k r1 k' H
  proof (rule for_each_shrinks [OF _ shrinks_refl that])
    fix c n H r n' G
    assume sh: "shrinks ?S F H" and "?f c E n H = (r, n', G)"
    then show "shrinks ?S H G"
      using shrinks_mono [OF IH region_child [OF ent sh]] by (auto simp: ret_run shrinks_refl split: if_splits)
  qed
  consider "\<exists>e. r = Inl e" "G = F"
    | k cs k1 r1 H where "for_each ?f cs E k F = (r1, k1, H)" "\<exists>e. r = Inl e" "G = H"
    | k cs k1 H k2 where "for_each ?f cs E k F = (Inr (), k1, H)" "map_err (EWrap ''rmdir'') (sys_unlinkat d name True) E k2 H = (r, n', G)"
  proof -
    obtain r2 n2 F2 where two: "sys_openat_dir d name E n F = (r2, n2, F2)" by (metis prod_cases3)
    note F2 = at_run(2) [OF two]
    show thesis
    proof (cases r2)
      case (Inl e)
      then show thesis using that(1) run two F2 by (auto simp: remove_dir_def bnd_def map_err_def handle_def throw_def)
    next
      case (Inr j)
      then have ji: "j = i" "F2 = F" using F2 ent by auto
      have "bnd (on_error (ignoring (sys_close i)) ''read dir'' (sys_readdirnames i)) (\<lambda>children.
          bnd (handle (for_each ?f children) (\<lambda>e. bnd (ignoring (sys_close i)) (\<lambda>_. throw e))) (\<lambda>_.
          bnd (map_err (EWrap ''close dir'') (sys_close i)) (\<lambda>_. map_err (EWrap ''rmdir'') (sys_unlinkat d name True)))) E n2 F = (r, n', G)"
        using run two Inr unfolding ji remove_dir_def by (simp add: bnd_ok(2))
      then show thesis
      proof (rule on_error_bnd, goal_cases listed failed)
        case (failed e k H e')
        show thesis by (rule that(1)) (use failed(3) at_run(3) [OF failed(1)] ignored_close [OF failed(2)] in auto)
      next
        case (listed cs k H)
        have H: "H = F" using at_run(3) [OF listed(1)] .
        obtain r1 k1 H1 where l: "for_each ?f cs E k F = (r1, k1, H1)" by (rule prod_cases3)
        show thesis
        proof (cases r1)
          case (Inl e)
          then have "bnd (ignoring (sys_close i)) (\<lambda>_. throw e) E k1 H1 = (r, n', G)"
            using listed(2) l H by (auto simp: bnd_run handle_run throw_run)
          from ignored_close [OF this] show thesis by (intro that(2) [OF l]) auto
        next
          case (Inr u)
          obtain r4 k4 H4 where c: "sys_close i E k1 H1 = (r4, k4, H4)" by (metis prod_cases3)
          have q: "H4 = H1" using quiet_run(1) [OF c] .
          have rest: "bnd (map_err (EWrap ''close dir'') (sys_close i)) (\<lambda>_. map_err (EWrap ''rmdir'') (sys_unlinkat d name True)) E k1 H1 = (r, n', G)"
            using listed(2) l H Inr by (simp add: bnd_ok(3))
          show thesis
          proof (cases r4)
            case (Inl e)
            then show thesis using rest c q by (intro that(2) [OF l]) (auto simp: bnd_def handle_def map_err_def throw_def)
          next
            case (Inr v)
            show thesis by (rule that(3) [of cs k k1 H1 k4]) (use l \<open>r1 = Inr u\<close> rest c q Inr in \<open>simp_all add: bnd_ok(2)\<close>)
          qed
        qed
      qed
    qed
  qed
  then show ?thesis
  proof cases
    case 1
    then show ?thesis by (auto simp: shrinks_refl)
  next
    case 2
    then show ?thesis using loop by auto
  next
    case 3
    note s1 = loop [OF 3(1)] and s2 = unlinkat_shrinks [OF 3(2) here]
    then show ?thesis using shrinks_trans by blast
  qed
qed

lemma removeAtRecursive_shrinks:
  assumes "removeAtRecursive fuel d name E n F = (r, n', G)"
  shows "shrinks (region F d name) F G \<and> (r = Inr () \<longrightarrow> entry G d name = None)"
  using assms
proof (induction fuel arbitrary: d name n F r n' G)
  case 0
  then show ?case by (simp add: throw_run shrinks_refl)
next
  case (Suc fuel)
  have here: "(d, name) \<in> region F d name" by (simp add: region_def)
  obtain r1 n1 F1 where one: "sys_fstatat d name E (Suc n) F = (r1, n1, F1)" by (metis prod_cases3)
  note run = Suc.prems [unfolded removeAtRecursive_Suc]
  show ?case
  proof (cases "cancelled E n \<or> (\<exists>e. r1 = Inl e)")
    case True
    then have "(\<exists>e. r = Inl e) \<and> G = F"
      using run one at_run(1) [OF one] by (auto simp: bnd_def ctx_done_def throw_def map_err_def handle_def split: if_splits)
    then show ?thesis by (auto simp: shrinks_refl)
  next
    case False
    then obtain st i where st: "r1 = Inr st" "F1 = F" "entry F d name = Some i" using at_run(1) [OF one] by (cases r1) auto
    have step: "(case i_node st of Directory _ _ \<Rightarrow> remove_dir fuel d name
        | _ \<Rightarrow> map_err (EWrap ''unlink'') (sys_unlinkat d name False)) E n1 F = (r, n', G)"
      using run one st False by (simp add: bnd_def ctx_done_def map_err_def handle_def)
    show ?thesis
    proof (cases "\<exists>p es. i_node st = Directory p es")
      case True
      then have "remove_dir fuel d name E n1 F = (r, n', G)" using step by auto
      then show ?thesis using remove_dir_run [OF st(3)] Suc.IH by blast
    next
      case False
      then have "map_err (EWrap ''unlink'') (sys_unlinkat d name False) E n1 F = (r, n', G)" using step by (auto split: node.splits)
      then show ?thesis using unlinkat_shrinks [OF _ here] by blast
    qed
  qed
qed

section \<open>The way to the directory\<close>

lemma CutLast_app: "c \<notin> set b \<Longrightarrow> CutLast (a @ c # b) c = Some (a, b)"
proof (induction a)
  case Nil
  then have "CutLast b c = None" by (simp add: CutLast_None)
  then show ?case by simp
qed simp

lemma clean_loop_slash: "\<forall>c\<in>set cs. name_ok c \<and> c \<noteq> ''..'' \<Longrightarrow> clean_loop r out (cs @ ['''']) = rev out @ cs"
  by (induction cs arbitrary: out) (auto simp: name_ok_def)

abbreviation names :: "string list \<Rightarrow> bool" where
  "names cs \<equiv> \<forall>c\<in>set cs. name_ok c \<and> c \<noteq> ''..''"

abbreviation path_to :: "string list \<Rightarrow> string" where
  "path_to cs \<equiv> slash # Join cs ''/''"

lemma Clean_path_to:
  assumes cs: "names cs" and p: "p = path_to cs \<or> p = path_to cs @ ''/'' \<and> cs \<noteq> []"
  shows "Clean p = path_to cs" and "components p = cs"
proof -
  have abs: "IsAbs p" using p by (auto simp: IsAbs_def HasPrefix_def)
  have "clean_loop True [] (Split p slash) = cs"
  proof (cases "cs = []")
    case True
    then show ?thesis using p by auto
  next
    case False
    have "Split (Join cs ''/'') slash = cs" using cs False by (intro Split_Join) (auto simp: name_ok_def)
    then have "Split p slash = '''' # cs \<or> Split p slash = '''' # cs @ ['''']"
      using p Split_app [of "Join cs ''/''" slash "''''"] by auto
    then show ?thesis using clean_loop_id [OF cs, of True "[]"] clean_loop_slash [OF cs, of True "[]"] by auto
  qed
  then show c: "components p = cs" using abs by (simp add: components_def)
  then show "Clean p = path_to cs" using abs by (simp add: Clean_def)
qed

lemma Dir_Base_path_to:
  assumes cs: "names (cs @ [c])"
  shows "path_Dir (path_to (cs @ [c])) = path_to cs" and "path_Base (path_to (cs @ [c])) = c"
proof -
  have c: "slash \<notin> set c" "c \<noteq> ''''" using cs by (auto simp: name_ok_def)
  define a where "a = (if cs = [] then '''' else path_to cs)"
  have p: "path_to (cs @ [c]) = a @ slash # c" using Join_append [of cs "[c]"] by (simp add: a_def)
  have "path_Dir (path_to (cs @ [c])) = Clean (a @ ''/'')" using CutLast_app [OF c(1)] by (simp add: path_Dir_def p)
  also have "\<dots> = path_to cs" by (rule Clean_path_to) (use cs in \<open>auto simp: a_def\<close>)
  finally show "path_Dir (path_to (cs @ [c])) = path_to cs" .
  have "last (a @ slash # c) \<noteq> slash" using c by (metis last_in_set last_ConsR last_appendR list.distinct(1))
  then have "dropWhile (\<lambda>x. x = slash) (rev (a @ slash # c)) = rev (a @ slash # c)" by (cases "rev (a @ slash # c)") (auto simp: hd_rev [symmetric])
  then have "TrimRight (\<lambda>x. x = slash) (a @ slash # c) = a @ slash # c" by (simp add: TrimRight_def del: rev_append)
  then show "path_Base (path_to (cs @ [c])) = c" using c CutLast_app [OF c(1)] by (simp add: path_Base_def p Let_def)
qed

text \<open>The directory that a list of names leads to without a symbolic link.\<close>

fun real_dir :: "filesystem \<Rightarrow> ino \<Rightarrow> string list \<Rightarrow> ino option" where
  "real_dir F d [] = Some d"
| "real_dir F d (c # cs) = (case entry F d c of
     Some j \<Rightarrow> if is_dir F j then real_dir F j cs else None
   | None \<Rightarrow> None)"

lemma open_chain_run:
  assumes "names cs" and "open_chain d cs E n F = (r, n', G)"
  shows "G = F \<and> (\<forall>e. r = Inr e \<longrightarrow> real_dir F d cs = Some e)"
  using assms
proof (induction cs arbitrary: d n)
  case Nil
  then show ?case by (auto simp: ret_run)
next
  case (Cons c cs)
  have c: "c \<noteq> ''''" "c \<noteq> ''.''" using Cons.prems(1) by (auto simp: name_ok_def)
  obtain r1 n1 F1 where one: "sys_openat_dir d c E n F = (r1, n1, F1)" by (rule prod_cases3)
  then have F1: "F1 = F" using at_run(2) by blast
  show ?case
  proof (cases r1)
    case (Inl e)
    then show ?thesis using Cons.prems(2) one c F1
      by (auto simp: bnd_run handle_run throw_run ret_run ignoring_run dest!: quiet_run(1) ignored_close)
  next
    case (Inr j)
    then have j: "entry F d c = Some j" "is_dir F j"
      using one by (auto simp: sys_openat_dir_def peek_def sql_def split: if_splits option.splits)
    obtain k where "open_chain j cs E k F = (r, n', G)"
      using Cons.prems(2) one c F1 Inr
      by (auto simp: bnd_run handle_run throw_run ret_run ignoring_run dest!: quiet_run(1) ignored_close)
    from Cons.IH [OF _ this] show ?thesis using Cons.prems(1) j by simp
  qed
qed

lemma openNoFollowChain_run:
  assumes cs: "names cs" and run: "openNoFollowChain (path_to cs) E n F = (r, n', G)"
  shows "G = F \<and> (\<forall>e. r = Inr e \<longrightarrow> real_dir F 0 cs = Some e)"
proof -
  have clean: "Clean (path_to cs) = path_to cs" using Clean_path_to(1) [OF cs] by blast
  obtain r1 n1 F1 where one: "sys_open ''/'' True True E n F = (r1, n1, F1)" by (rule prod_cases3)
  have F1: "F1 = F" using quiet_run(3) [OF one] .
  show ?thesis
  proof (cases r1)
    case (Inl e)
    then show ?thesis using run one F1 by (auto simp: openNoFollowChain_def Let_def bnd_def map_err_def handle_def throw_def)
  next
    case (Inr d)
    then have d: "d = 0" using one
      by (auto simp: sys_open_def peek_def sql_def open_inode_def resolve_def start_dir_def IsAbs_def HasPrefix_def
        split: if_splits sum.splits option.splits node.splits)
    have rest: "(if path_to cs = ''/'' then ret d else open_chain d (Split (TrimPrefix (path_to cs) ''/'') slash)) E n1 F = (r, n', G)"
      using run one F1 Inr unfolding openNoFollowChain_def clean Let_def by (simp add: bnd_ok(2))
    show ?thesis
    proof (cases "cs = []")
      case True
      then show ?thesis using rest d by (auto simp: ret_run)
    next
      case False
      have j: "Split (Join cs ''/'') slash = cs" using cs False by (intro Split_Join) (auto simp: name_ok_def)
      have "Join cs ''/'' \<noteq> ''''"
      proof
        assume "Join cs ''/'' = ''''"
        then have "cs = ['''']" using j by simp
        then show False using cs by (simp add: name_ok_def)
      qed
      then have "open_chain 0 cs E n1 F = (r, n', G)" using rest d j by (simp add: TrimPrefix_def HasPrefix_def)
      then show ?thesis using open_chain_run [OF cs] by simp
    qed
  qed
qed

lemma removeDirSecure_run:
  assumes cs: "names (cs @ [c])" and run: "removeDirSecure fuel (path_to (cs @ [c])) E n F = (r, n', G)"
  shows "(\<exists>e. r = Inl e) \<and> G = F \<or> (\<exists>d i. real_dir F 0 cs = Some d \<and> entry F d c = Some i \<and> is_dir F i \<and>
    shrinks (region F d c) F G \<and> (r = Inr () \<longrightarrow> entry G d c = None))"
proof -
  note run' = run [unfolded removeDirSecure_def Dir_Base_path_to [OF cs] Let_def]
  obtain r1 n1 F1 where one: "openNoFollowChain (path_to cs) E n F = (r1, n1, F1)" by (rule prod_cases3)
  have F1: "F1 = F" and d: "\<And>e. r1 = Inr e \<Longrightarrow> real_dir F 0 cs = Some e" using openNoFollowChain_run [OF _ one] cs by auto
  show ?thesis
  proof (cases r1)
    case (Inl e)
    then show ?thesis using run' one F1 by (auto simp: bnd_def)
  next
    case (Inr d)
    obtain r2 n2 F2 where two: "sys_fstatat d c E n1 F = (r2, n2, F2)" by (rule prod_cases3)
    note stat = at_run(1) [OF two]
    let ?act = "\<lambda>st. case i_node st of Symlink _ \<Rightarrow> throw (EText ''refusing to remove symlink'')
         | Directory _ _ \<Rightarrow> removeAtRecursive fuel d c | _ \<Rightarrow> throw (EText ''refusing to remove non-directory'')"
    let ?body = "bnd (map_err (EWrap ''stat'') (sys_fstatat d c)) (\<lambda>st. bnd (?act st) (\<lambda>_. ignoring (sys_close d)))"
    have rest: "handle ?body (\<lambda>e. bnd (ignoring (sys_close d)) (\<lambda>_. throw e)) E n1 F = (r, n', G)"
      using run' one F1 Inr by (simp add: bnd_ok(1))
    show ?thesis
    proof (cases r2)
      case (Inl e)
      then have "?body E n1 F = (Inl (EWrap ''stat'' e), n2, F)" using two stat by (simp add: bnd_def map_err_def handle_def throw_def)
      then show ?thesis using rest by (auto simp: handle_run dest!: ignored_close)
    next
      case (Inr st)
      then obtain i where i: "entry F d c = Some i" "st = inode_of F i" "F2 = F" using stat by auto
      obtain r3 n3 F3 where three: "?act st E n2 F = (r3, n3, F3)" by (rule prod_cases3)
      have "?body E n1 F = bnd (?act st) (\<lambda>_. ignoring (sys_close d)) E n2 F" using two Inr i(3) by (simp add: bnd_ok(2))
      then have G: "G = F3 \<and> ((\<exists>e. r = Inl e) \<longleftrightarrow> (\<exists>e. r3 = Inl e))"
        using rest three by (cases r3) (auto simp: handle_run bnd_run ignoring_run throw_run dest!: quiet_run(1))
      show ?thesis
      proof (cases "\<exists>p es. i_node st = Directory p es")
        case True
        then have "removeAtRecursive fuel d c E n2 F = (r3, n3, F3)" using three by auto
        from removeAtRecursive_shrinks [OF this] show ?thesis
          using True G i d [OF \<open>r1 = Inr d\<close>] by (cases r; cases r3) (auto simp: is_dir_def node_at_def inode_of_def split: option.splits)
      next
        case False
        then have "F3 = F \<and> (\<exists>e. r3 = Inl e)" using three by (auto simp: throw_run split: node.splits)
        then show ?thesis using G by auto
      qed
    qed
  qed
qed

section \<open>Protected trees\<close>

lemma roots_paths: "root \<in> set protectedPrefixRoots \<Longrightarrow> root = path_to (components root) \<and> components root \<noteq> []"
  by (auto simp: protectedPrefixRoots_def components_def IsAbs_def HasPrefix_def)

lemma path_to_inj: "names cs \<Longrightarrow> names ds \<Longrightarrow> path_to cs = path_to ds \<longleftrightarrow> cs = ds"
  using Join_inj [of cs ds] by auto

lemma components_path: "IsAbs p \<Longrightarrow> Clean p = path_to (components p)" "IsAbs p \<Longrightarrow> names (components p)"
  using components_names components_rooted by (auto simp: Clean_abs)

lemma IsUnderProtectedPrefix_iff:
  assumes "IsAbs p"
  shows "IsUnderProtectedPrefix cwd p \<longleftrightarrow> components p = [] \<or> components p = [''var''] \<or>
    (\<exists>root\<in>set protectedPrefixRoots. \<exists>es. components p = components root @ es)"
proof -
  note P = components_path [OF assms]
  have "path_Abs cwd (Clean p) = Some (Clean p)" using assms by (simp add: path_Abs_def Clean_Clean)
  then have abs: "path_Abs cwd (Clean p) = Some (path_to (components p))" unfolding P(1) .
  have exact: "path_to (components p) \<in> set protectedExactPaths \<longleftrightarrow> components p = [] \<or> components p = [''var'']"
    using path_to_inj [OF P(2), of "[]"] path_to_inj [OF P(2), of "[''var'']"] by (simp add: protectedExactPaths_def name_ok_def)
  have "path_to (components p) = root \<or> HasPrefix (path_to (components p)) (root @ ''/'') \<longleftrightarrow> (\<exists>es. components p = components root @ es)"
    if root: "root \<in> set protectedPrefixRoots" for root
  proof -
    have r: "root = path_to (components root)" "components root \<noteq> []" using roots_paths [OF root] by auto
    have "path_to (components p) = path_to (components root) \<or> HasPrefix (path_to (components p)) (path_to (components root) @ ''/'') \<longleftrightarrow>
      (\<exists>es. components p = components root @ es)"
      using Join_prefix [of "components p" "components root"] components_names r(2) by (auto simp: HasPrefix_def)
    then show ?thesis using r(1) by metis
  qed
  then show ?thesis unfolding IsUnderProtectedPrefix_def abs option.case exact by (auto simp: list_ex_iff)
qed

section \<open>The removal ends\<close>

text \<open>A tree of directories at most \<open>k\<close> levels deep.\<close>

primrec deep :: "nat \<Rightarrow> filesystem \<Rightarrow> ino \<Rightarrow> bool" where
  "deep 0 F i \<longleftrightarrow> \<not> is_dir F i"
| "deep (Suc k) F i \<longleftrightarrow> (\<forall>c j. entry F i c = Some j \<longrightarrow> deep k F j)"

lemma deep_step: "deep k F i \<Longrightarrow> deep (Suc k) F i"
proof (induction k arbitrary: i)
  case 0
  then show ?case by (auto dest: entry_is_dir)
next
  case (Suc k)
  have "deep (Suc k) F j" if "entry F i c = Some j" for c j
    using that Suc.prems by (intro Suc.IH) auto
  then show ?case by simp
qed

lemma deep_child: "deep k F i \<Longrightarrow> entry F i c = Some j \<Longrightarrow> deep k F j"
  by (cases k) (auto dest: entry_is_dir intro!: deep_step simp del: deep.simps(2) simp: deep.simps(2) [of _ F i])

lemma deep_reach: "reach F i j \<Longrightarrow> deep k F i \<Longrightarrow> deep k F j"
  by (induction rule: rtranclp_induct) (auto simp: child_of_def intro: deep_child)

text \<open>Such a tree has no cycle.\<close>

lemma deep_acyclic:
  assumes "deep k F i" and "entry F i c = Some j"
  shows "\<not> reach F j i"
proof
  assume cyc: "reach F j i"
  define m where "m = (LEAST m. deep m F i)"
  have m: "deep m F i" and least: "\<And>q. q < m \<Longrightarrow> \<not> deep q F i" unfolding m_def using assms(1) by (auto intro: LeastI dest: not_less_Least)
  have "m \<noteq> 0" using m assms(2) entry_is_dir by (cases m) auto
  then obtain q where q: "m = Suc q" by (cases m) auto
  then have "deep q F j" using m assms(2) by auto
  then have "deep q F i" using deep_reach [OF cyc] by blast
  then show False using least [of q] q by simp
qed

lemma deep_shrinks: "shrinks S F G \<Longrightarrow> deep k F i \<Longrightarrow> deep k G i"
  by (induction k arbitrary: i) (auto simp: shrinks_dir dest: shrinks_entry)

definition dir_ok :: "filesystem \<Rightarrow> bool" where
  "dir_ok F \<longleftrightarrow> (\<forall>d. distinct (map fst (entries_of F d)) \<and> (\<forall>c\<in>set (map fst (entries_of F d)). c \<noteq> ''.'' \<and> c \<noteq> ''..''))"

lemma shrinks_dir_ok: "shrinks S F G \<Longrightarrow> dir_ok F \<Longrightarrow> dir_ok G"
  unfolding dir_ok_def shrinks_def by (metis (no_types, lifting) distinct_map_filter filter_is_subset image_mono list.set_map subsetD)

lemma shrinks_fs_ok:
  assumes "shrinks S F G" and "fs_ok F"
  shows "fs_ok G"
proof -
  have "fs_inode G j = None \<longleftrightarrow> fs_inode F j = None" for j
  proof (cases "is_dir F j")
    case True
    then have "is_dir G j" using shrinks_dir [OF assms(1)] by simp
    then show ?thesis using True by (auto simp: is_dir_def node_at_def)
  next
    case False
    then show ?thesis using assms(1) by (simp add: shrinks_def)
  qed
  moreover have "fs_next G = fs_next F" using assms(1) by (simp add: shrinks_def)
  ultimately show ?thesis using assms(2) unfolding fs_ok_def by (auto dest!: shrinks_entry [OF assms(1)])
qed

lemma no_entries: "entries_of F i = [] \<longleftrightarrow> (\<forall>c. entry F i c = None)"
  by (cases "entries_of F i") (auto simp: entry_def)

text \<open>The loop: the entries still to be removed are as they were, the others are gone.\<close>

definition loop_inv :: "nat \<Rightarrow> ino \<Rightarrow> string \<Rightarrow> ino \<Rightarrow> string list \<Rightarrow> filesystem \<Rightarrow> bool" where
  "loop_inv k d name i cs H \<longleftrightarrow> fs_ok H \<and> dir_ok H \<and> deep (Suc k) H i \<and> entry H d name = Some i \<and> is_dir H i \<and> distinct cs \<and>
     (\<forall>c. entry H i c \<noteq> None \<longleftrightarrow> c \<in> set cs)"

lemma loop_entry: "loop_inv k d name i (c # cs) H \<Longrightarrow> \<exists>j. entry H i c = Some j"
  unfolding loop_inv_def by (metis list.set_intros(1) not_Some_eq)

lemma loop_step:
  assumes inv: "loop_inv k d name i (c # cs) H" and run: "removeAtRecursive fuel i c E n H = (Inr (), n', G)"
  shows "loop_inv k d name i cs G"
proof -
  note I = inv [unfolded loop_inv_def]
  obtain j where j: "entry H i c = Some j" using loop_entry [OF inv] by blast
  have s: "shrinks (region H i c) H G" and gone: "entry G i c = None" using removeAtRecursive_shrinks [OF run] by auto
  have cyc: "\<not> reach H j i" using deep_acyclic [OF _ j] I by blast
  have "(i, c') \<notin> region H i c" if "c' \<noteq> c" for c' using that cyc j by (auto simp: region_def)
  then have same: "entry G i c' = entry H i c'" if "c' \<noteq> c" for c' using shrinks_keeps [OF s] that by blast
  have di: "child_of H d i" using I by (auto simp: child_of_def)
  have "\<not> reach H j d" using cyc di by (metis rtranclp.rtrancl_into_rtrancl)
  moreover have "d \<noteq> i" using deep_acyclic [of "Suc k" H i name i] I by auto
  ultimately have "(d, name) \<notin> region H i c" using j by (auto simp: region_def)
  then have "entry G d name = Some i" using shrinks_keeps [OF s] I by simp
  moreover have "entry G i c' \<noteq> None \<longleftrightarrow> c' \<in> set cs" for c'
    using I same gone by (cases "c' = c") auto
  ultimately show ?thesis
    using I shrinks_fs_ok [OF s] shrinks_dir_ok [OF s] deep_shrinks [OF s] shrinks_dir [OF s] by (simp add: loop_inv_def del: deep.simps)
qed

lemma loop_succeeds:
  assumes "loop_inv k d name i cs H"
    and "\<And>c n H j. fs_ok H \<Longrightarrow> dir_ok H \<Longrightarrow> entry H i c = Some j \<Longrightarrow> deep k H j \<Longrightarrow> \<exists>n' G. removeAtRecursive fuel i c E n H = (Inr (), n', G)"
  shows "\<exists>n' G. for_each (\<lambda>child. if child = ''.'' \<or> child = ''..'' then ret () else removeAtRecursive fuel i child) cs E n H = (Inr (), n', G) \<and>
    loop_inv k d name i [] G"
  using assms(1)
proof (induction cs arbitrary: n H)
  case Nil
  then show ?case by (auto simp: ret_def)
next
  case (Cons c cs)
  note I = Cons.prems [unfolded loop_inv_def]
  obtain j where j: "entry H i c = Some j" using loop_entry [OF Cons.prems] by blast
  then have "c \<in> set (map fst (entries_of H i))" by (force simp: entry_def dest: map_of_SomeD)
  then have c: "c \<noteq> ''.''" "c \<noteq> ''..''" using I unfolding dir_ok_def by blast+
  obtain n1 G where one: "removeAtRecursive fuel i c E n H = (Inr (), n1, G)" using assms(2) [of H c j n] I j by auto
  from Cons.IH [OF loop_step [OF Cons.prems one], of n1] show ?case using one c by (simp add: bnd_def)
qed

lemma remove_file_succeeds:
  assumes E: "calm E" and "fs_ok F" and ent: "entry F d name = Some i" and i: "\<not> is_dir F i"
  shows "\<exists>n' G. removeAtRecursive (Suc f) d name E n F = (Inr (), n', G)"
proof -
  obtain x where x: "fs_inode F i = Some x" using assms(2) ent unfolding fs_ok_def by blast
  then have "(case i_node x of Directory _ _ \<Rightarrow> remove_dir f d name | _ \<Rightarrow> m) = m" for m
    using i by (auto simp: is_dir_def node_at_def split: node.splits)
  then show ?thesis using E ent i x
    by (simp add: removeAtRecursive_Suc bnd_def ctx_done_def calm_def map_err_def handle_def sys_fstatat_def peek_def sql_def inode_of_def sys_unlinkat_def
      del: removeAtRecursive.simps)
qed

lemma remove_dir_succeeds:
  assumes E: "calm E" and ok: "fs_ok F" "dir_ok F" and ent: "entry F d name = Some i" and i: "is_dir F i" and deep: "deep (Suc k) F i"
    and IH: "\<And>c n H j. fs_ok H \<Longrightarrow> dir_ok H \<Longrightarrow> entry H i c = Some j \<Longrightarrow> deep k H j \<Longrightarrow> \<exists>n' G. removeAtRecursive f i c E n H = (Inr (), n', G)"
  shows "\<exists>n' G. removeAtRecursive (Suc f) d name E n F = (Inr (), n', G)"
proof -
  let ?cs = "map fst (entries_of F i)"
  let ?f = "\<lambda>child. if child = ''.'' \<or> child = ''..'' then ret () else removeAtRecursive f i child"
  have c: "\<forall>n. \<not> fault E n" "\<forall>n. \<not> cancelled E n" using E by (auto simp: calm_def)
  have "entry F i c \<noteq> None \<longleftrightarrow> c \<in> set ?cs" for c by (auto simp: entry_def map_of_eq_None_iff)
  then have "loop_inv k d name i ?cs F" using ok ent i deep by (simp add: loop_inv_def dir_ok_def del: deep.simps)
  then obtain n1 G where loop: "for_each ?f ?cs E (n + 4) F = (Inr (), n1, G)" and inv: "loop_inv k d name i [] G"
    using loop_succeeds [of k d name i ?cs F f E "n + 4"] IH by blast
  have empty: "entries_of G i = []" "is_dir G i" "entry G d name = Some i" using inv by (simp_all add: loop_inv_def no_entries)
  obtain x where x: "fs_inode F i = Some x" using ok(1) ent unfolding fs_ok_def by blast
  then have "(case i_node x of Directory _ _ \<Rightarrow> remove_dir f d name | _ \<Rightarrow> m) = remove_dir f d name" for m
    using i by (auto simp: is_dir_def node_at_def split: node.splits)
  then have "removeAtRecursive (Suc f) d name E n F = remove_dir f d name E (n + 2) F"
    using c ent x by (simp add: removeAtRecursive_Suc bnd_def ctx_done_def map_err_def handle_def sys_fstatat_def peek_def sql_def inode_of_def
      del: removeAtRecursive.simps)
  also have "\<dots> = bnd (handle (for_each ?f ?cs) (\<lambda>e. bnd (ignoring (sys_close i)) (\<lambda>_. throw e))) (\<lambda>_.
     bnd (map_err (EWrap ''close dir'') (sys_close i)) (\<lambda>_. map_err (EWrap ''rmdir'') (sys_unlinkat d name True))) E (n + 4) F"
  proof -
    have "sys_openat_dir d name E (n + 2) F = (Inr i, n + 3, F)" "sys_readdirnames i E (n + 3) F = (Inr ?cs, n + 4, F)"
      using c ent i by (simp_all add: sys_openat_dir_def sys_readdirnames_def peek_def sql_def)
    then show ?thesis unfolding remove_dir_def on_error_def by (simp add: bnd_ok(2,3))
  qed
  also have "\<dots> = map_err (EWrap ''rmdir'') (sys_unlinkat d name True) E (n1 + 1) G"
    using loop calm_quiet(1) [OF E] by (simp add: bnd_ok(2,3))
  also have "\<dots> = (Inr (), n1 + 2, unlink_entry d name G)"
    using c empty by (simp add: map_err_def handle_def sys_unlinkat_def sql_def)
  finally show ?thesis by blast
qed

lemma removeAtRecursive_succeeds:
  assumes "calm E" and "fs_ok F" and "dir_ok F" and "entry F d name = Some i" and "deep k F i" and "k < fuel"
  shows "\<exists>n' G. removeAtRecursive fuel d name E n F = (Inr (), n', G)"
  using assms(2-)
proof (induction k arbitrary: fuel d name i n F)
  case 0
  then obtain f where "fuel = Suc f" by (cases fuel) auto
  then show ?case using remove_file_succeeds [OF assms(1) 0(1,3)] 0(4) by simp
next
  case (Suc k)
  then obtain f where f: "fuel = Suc f" "k < f" by (cases fuel) auto
  show ?case
  proof (cases "is_dir F i")
    case False
    then show ?thesis using remove_file_succeeds [OF assms(1) Suc.prems(1,3)] f by blast
  next
    case True
    show ?thesis unfolding f(1)
      by (rule remove_dir_succeeds [OF assms(1) Suc.prems(1-3) True Suc.prems(4)]) (use Suc.IH f(2) in blast)
  qed
qed

lemma open_chain_succeeds:
  assumes E: "calm E" and "names cs" and "real_dir F d cs = Some e"
  shows "\<exists>n'. open_chain d cs E n F = (Inr e, n', F)"
  using assms(2,3)
proof (induction cs arbitrary: d n)
  case (Cons c cs)
  have c: "c \<noteq> ''''" "c \<noteq> ''.''" using Cons.prems(1) by (auto simp: name_ok_def)
  obtain j where j: "entry F d c = Some j" "is_dir F j" "real_dir F j cs = Some e" using Cons.prems(2) by (auto split: option.splits if_splits)
  have "sys_openat_dir d c E n F = (Inr j, Suc n, F)" using E j by (simp add: sys_openat_dir_def calm_peek)
  moreover obtain n' where "open_chain j cs E (Suc (Suc n)) F = (Inr e, n', F)" using Cons.IH [OF _ j(3)] Cons.prems(1) by auto
  ultimately show ?case using c calm_quiet(1) [OF E] by (simp add: bnd_def handle_def ignoring_def ret_def)
qed (simp add: ret_def)

lemma removeDirSecure_succeeds:
  assumes E: "calm E" and ok: "fs_ok F" "dir_ok F" "is_dir F 0" and cs: "names (cs @ [c])"
    and dir: "real_dir F 0 cs = Some d" "entry F d c = Some i" "is_dir F i" "deep k F i" "k < fuel"
  shows "\<exists>n' G. removeDirSecure fuel (path_to (cs @ [c])) E n F = (Inr (), n', G)"
proof -
  have cs': "names cs" using cs by simp
  have clean: "Clean (path_to cs) = path_to cs" using Clean_path_to(1) [OF cs'] by blast
  have "\<exists>p es. node_at F 0 = Some (Directory p es)" using ok(3) by (auto elim: is_dirE)
  then have "open_inode F ''/'' True True = Inr 0" by (auto simp: open_inode_def resolve_def start_dir_def IsAbs_def HasPrefix_def node_at_def)
  then have root: "sys_open ''/'' True True E n F = (Inr 0, Suc n, F)" by (simp add: sys_open_def calm_peek [OF E])
  have "\<exists>n'. (if path_to cs = ''/'' then ret 0 else open_chain 0 (Split (TrimPrefix (path_to cs) ''/'') slash)) E (Suc n) F = (Inr d, n', F)"
  proof (cases "cs = []")
    case True
    then show ?thesis using dir(1) by (simp add: ret_def)
  next
    case False
    have "Split (Join cs ''/'') slash = cs" using cs' False by (intro Split_Join) (auto simp: name_ok_def)
    moreover have "path_to cs \<noteq> ''/''" using path_to_inj [OF cs', of "[]"] False by auto
    ultimately show ?thesis using open_chain_succeeds [OF E cs' dir(1), of "Suc n"] by (simp add: TrimPrefix_def HasPrefix_def)
  qed
  then obtain n1 where chain: "openNoFollowChain (path_to cs) E n F = (Inr d, n1, F)"
    unfolding openNoFollowChain_def clean Let_def using root by (auto simp: bnd_ok(2))
  obtain x where x: "fs_inode F i = Some x" using ok(1) dir(2) unfolding fs_ok_def by blast
  then have st: "sys_fstatat d c E n1 F = (Inr x, Suc n1, F)" using dir(2) by (simp add: sys_fstatat_def calm_peek [OF E] inode_of_def)
  have "\<exists>p es. i_node x = Directory p es" using dir(3) x by (auto simp: node_at_def elim: is_dirE)
  moreover obtain n2 G where "removeAtRecursive fuel d c E (Suc n1) F = (Inr (), n2, G)"
    using removeAtRecursive_succeeds [OF E ok(1,2) dir(2,4,5)] by blast
  ultimately show ?thesis
    unfolding removeDirSecure_def Let_def Dir_Base_path_to [OF cs] using chain st calm_quiet(1) [OF E]
    by (auto simp: bnd_ok bnd_def handle_def map_err_def ignoring_def)
qed

section \<open>RemoveDir\<close>


text \<open>C18 (liveness): when nothing fails, an unprotected directory with a tree of finite depth under it is removed: the recursion ends, with
  one unit of fuel per level, and the entry is gone.\<close>

theorem RemoveDir_removes:
  assumes "direct m" and "calm E" and "fs_ok (sy_files s)" "dir_ok (sy_files s)" "is_dir (sy_files s) 0"
    and "ValidatePath path = None" and "IsAbs path" and "\<not> IsUnderProtectedPrefix (fm_cwd m) (Clean path)" and cs: "components path = cs @ [c]"
    and dir: "real_dir (sy_files s) 0 cs = Some d" "entry (sy_files s) d c = Some i" "is_dir (sy_files s) i" "deep k (sy_files s) i" "k < fuel"
  shows "\<exists>n' s'. RemoveDir fuel m path E n s = (Inr (), n', s') \<and> entry (sy_files s') d c = None"
proof -
  have P: "Clean path = path_to (cs @ [c])" "names (cs @ [c])" using components_path [OF assms(7)] by (simp_all add: cs)
  obtain n' G where G: "removeDirSecure fuel (path_to (cs @ [c])) E n (sy_files s) = (Inr (), n', G)"
    using removeDirSecure_succeeds [OF assms(2-5) P(2) dir] by blast
  have "entry G d c = None" using removeDirSecure_run [OF P(2) G] dir(1) by auto
  moreover have "RemoveDir fuel m path E n s = (Inr (), n', s\<lparr>sy_files := G\<rparr>)"
    using G assms(1,6,7,8) by (simp add: RemoveDir_def Let_def bnd_def unless_error_def ret_def P(1) in_files_def IsAbs_def HasPrefix_def)
  ultimately show ?thesis by auto
qed

end
