(* ===== verification/Sys_Fs_Examples.thy ===== *)
theory Sys_Fs_Examples
  imports Sys_Fs_Remove
begin

text \<open>The properties of the file operations at work on a small file system: \<^verbatim>\<open>/srv/app\<close> with a file and a symbolic link to the root.\<close>

definition node_inode :: "node \<Rightarrow> inode" where
  "node_inode x = \<lparr>i_node = x, i_mode = 448, i_uid = 0, i_gid = 0\<rparr>"

definition ex_files :: filesystem where
  "ex_files = \<lparr>fs_inode = [0 \<mapsto> node_inode (Directory 0 [(''srv'', 1)]), 1 \<mapsto> node_inode (Directory 0 [(''app'', 2)]),
       2 \<mapsto> node_inode (Directory 1 [(''a'', 3), (''up'', 4)]), 3 \<mapsto> node_inode (Regular ''old''), 4 \<mapsto> node_inode (Symlink ''/'')],
     fs_next = 5, fs_cwd = 0, fs_noreplace = True\<rparr>"

definition ex_system :: system where
  "ex_system = \<lparr>sy_files = ex_files, sy_world = []\<rparr>"

definition quiet_env :: env where
  "quiet_env = \<lparr>fault = (\<lambda>_. False), clock = (\<lambda>_. 0), ulid = (\<lambda>_. ''17''), cancelled = (\<lambda>_. False)\<rparr>"

definition ex_manager :: fs_manager where
  "ex_manager = \<lparr>fm_run = (\<lambda>c. throw EDriver), fm_backend = Direct, fm_accounts = \<lparr>ac_users = (\<lambda>_. None), ac_groups = (\<lambda>_. None)\<rparr>, fm_cwd = Some ''/''\<rparr>"

definition owner_only :: write_options where
  "owner_only = \<lparr>wo_mode = 0x180, wo_owner = '''', wo_group = '''', wo_backup = ''''\<rparr>"

lemma ex_inode: "fs_inode ex_files i = (
  if i = 0 then Some (node_inode (Directory 0 [(''srv'', 1)])) else if i = 1 then Some (node_inode (Directory 0 [(''app'', 2)]))
  else if i = 2 then Some (node_inode (Directory 1 [(''a'', 3), (''up'', 4)])) else if i = 3 then Some (node_inode (Regular ''old''))
  else if i = 4 then Some (node_inode (Symlink ''/'')) else None)"
  by (simp add: ex_files_def)

lemma ex_node: "node_at ex_files i = (
  if i = 0 then Some (Directory 0 [(''srv'', 1)]) else if i = 1 then Some (Directory 0 [(''app'', 2)])
  else if i = 2 then Some (Directory 1 [(''a'', 3), (''up'', 4)]) else if i = 3 then Some (Regular ''old'')
  else if i = 4 then Some (Symlink ''/'') else None)"
  by (simp add: node_at_def ex_inode node_inode_def)

lemma ex_entry: "entry ex_files d c = (
  if d = 0 \<and> c = ''srv'' then Some 1 else if d = 1 \<and> c = ''app'' then Some 2 else if d = 2 \<and> c = ''a'' then Some 3
  else if d = 2 \<and> c = ''up'' then Some 4 else None)"
  by (simp add: entry_def entries_of_def ex_node)

lemma ex_system_files [simp]: "sy_files ex_system = ex_files"
  by (simp add: ex_system_def)

lemma ex_next: "fs_next ex_files = 5"
  by (simp add: ex_files_def)

lemma ex_ok: "fs_ok ex_files" "dir_ok ex_files"
  by (auto simp: fs_ok_def dir_ok_def ex_entry ex_inode entries_of_def ex_node ex_next split: if_splits)

lemma quiet_calm: "calm quiet_env" "plain_names quiet_env"
  by (simp_all add: calm_def plain_names_def quiet_env_def)

lemma ex_parent: "resolve_parent ex_files ''/srv/app/a'' = Inr (2, ''a'')" "resolve ex_files ''/srv/app'' True = Inr 2"
  by (simp_all add: resolve_parent_def resolve_def start_dir_def IsAbs_def HasPrefix_def ex_node is_dir_def ex_inode)

lemma owner_only_ok: "validateMode (wo_mode owner_only) = None"
  by (simp add: owner_only_def validateMode_def ModeSetuid_def ModeSetgid_def)

lemma ex_writable: "writable quiet_env 0 ex_files ''/srv/app/a'' owner_only 2 ''a''"
proof -
  have "path_Dir ''/srv/app/a'' = ''/srv/app''" by (simp add: path_Dir_def Clean_def components_def IsAbs_def HasPrefix_def)
  then show ?thesis
    using quiet_calm ex_ok(1) ex_parent owner_only_ok
    by (simp add: writable_def ex_entry plain_def ex_node ValidatePath_def HasPrefix_def owner_only_def quiet_env_def)
qed




theorem RemoveDir_removes_witness:
  "\<exists>n' s'. RemoveDir 3 ex_manager ''/srv/app'' quiet_env 0 ex_system = (Inr (), n', s') \<and> entry (sy_files s') 1 ''app'' = None"
  by (rule RemoveDir_removes [where cs = "[''srv'']" and i = 2 and k = 2])
    (simp_all add: direct_def ex_manager_def quiet_calm ex_ok ex_entry ex_node is_dir_def ValidatePath_def HasPrefix_def
      IsAbs_def IsUnderProtectedPrefix_def path_Abs_def Clean_def components_def protectedExactPaths_def protectedPrefixRoots_def numeral_2_eq_2)

end
