(* ===== verification/System_Agent_Examples.thy ===== *)
theory System_Agent_Examples
  imports System_Rotation Sys_Fs_Examples
begin

text \<open>The properties of enrolment and rotation at work: a device with its data in \<^verbatim>\<open>/srv/app\<close> and the example deployment of the server.\<close>

section \<open>The device\<close>

definition enc_field :: "string \<Rightarrow> string" where
  "enc_field s = replicate (length s) (CHR ''1'') @ CHR ''0'' # s"

definition dec_field :: "string \<Rightarrow> string \<times> string" where
  "dec_field b = (let k = length (takeWhile (\<lambda>c. c = CHR ''1'') b); rest = drop (Suc k) b in (take k rest, drop k rest))"

lemma dec_enc: "dec_field (enc_field s @ t) = (s, t)"
  by (simp add: dec_field_def enc_field_def takeWhile_replicate_stop Let_def)

lemma dec_enc_last: "dec_field (enc_field s) = (s, '''')"
  using dec_enc [of s "''''"] by simp

definition ex_json :: credential_json where
  "ex_json = \<lparr>json_marshal = (\<lambda>c. Some (enc_field (cr_device_id c) @ enc_field (cr_ca_cert c) @ enc_field (cr_certificate c) @ enc_field (cr_pending_certificate c) @
       enc_field (cr_pending_private_key c) @ enc_field (cr_pending_csr c) @ enc_field (cr_private_key c) @ enc_field (cr_agent_addr c) @ '''')),
     json_unmarshal = (\<lambda>b. let (f1, b) = dec_field b; (f2, b) = dec_field b; (f3, b) = dec_field b; (f4, b) = dec_field b;
         (f5, b) = dec_field b; (f6, b) = dec_field b; (f7, b) = dec_field b; (f8, b) = dec_field b in
       Some \<lparr>cr_device_id = f1, cr_ca_cert = f2, cr_certificate = f3, cr_pending_certificate = f4, cr_pending_private_key = f5,
         cr_pending_csr = f6, cr_private_key = f7, cr_agent_addr = f8\<rparr>),
     json_text = (\<lambda>_. True)\<rparr>"

lemma ex_json_laws: "json_laws ex_json" "json_text ex_json t"
  by (simp_all add: json_laws_def ex_json_def dec_enc dec_enc_last)

definition ex_crypto :: device_crypto where
  "ex_crypto = \<lparr>dc_pem_decode = (\<lambda>p. Some (''CERTIFICATE'', p, [])), dc_pem_encode = (\<lambda>ty b. CHR ''-'' # b),
     dc_parse_certificate = (\<lambda>b. Some \<lparr>pc_common_name = ''D'', pc_serial_number = ''D'', pc_not_before = 0, pc_not_after = 7776000000000000\<rparr>),
     dc_verify = (\<lambda>_ _ _. True), dc_signed_by = (\<lambda>_ _. True), dc_key_pair = (\<lambda>_ _. True), dc_cert_pool = (\<lambda>_. True),
     dc_generate_key = (\<lambda>_. Some ''key''), dc_marshal_key = Some, dc_parse_key = (\<lambda>b. Some (Some b)),
     dc_create_request = (\<lambda>_ h k. Some (h @ k)), dc_sha256 = (\<lambda>_. replicate 32 (CHR ''Z''))\<rparr>"

lemma ex_crypto_laws: "crypto_laws ex_crypto"
  by (simp add: crypto_laws_def ex_crypto_def)

definition ex_store :: cred_store where
  "ex_store = NewStore (Inr ex_manager) ''/srv/app''"

definition ex_parse :: url_parser where
  "ex_parse u = Some \<lparr>url_scheme = ''https'', url_opaque = '''', url_host = ''h'', url_has_user = False, url_fragment = '''', url_raw_fragment = '''', url_path = '''', url_raw_query = '''',
    url_query = (\<lambda>_. '''')\<rparr>"

definition ex_cert :: bytes where
  "ex_cert = pem_encode ex_x509 ''CERTIFICATE'' ''D''"

definition ex_creds :: credentials where
  "ex_creds = \<lparr>cr_device_id = ''D'', cr_ca_cert = ''root'', cr_certificate = ex_cert, cr_pending_certificate = '''', cr_pending_private_key = '''',
     cr_pending_csr = '''', cr_private_key = ''key'', cr_agent_addr = ''https://h''\<rparr>"

definition cred_files :: filesystem where
  "cred_files = \<lparr>fs_inode = [0 \<mapsto> node_inode (Directory 0 [(''srv'', 1)]), 1 \<mapsto> node_inode (Directory 0 [(''app'', 2)]),
       2 \<mapsto> node_inode (Directory 1 [(credentialsFile, 3)]), 3 \<mapsto> (node_inode (Regular (the (json_marshal ex_json ex_creds))))\<lparr>i_mode := 0x180\<rparr>],
     fs_next = 4, fs_cwd = 0, fs_noreplace = True\<rparr>"

lemma cred_inode: "fs_inode cred_files i = (
  if i = 0 then Some (node_inode (Directory 0 [(''srv'', 1)])) else if i = 1 then Some (node_inode (Directory 0 [(''app'', 2)]))
  else if i = 2 then Some (node_inode (Directory 1 [(credentialsFile, 3)]))
  else if i = 3 then Some ((node_inode (Regular (the (json_marshal ex_json ex_creds))))\<lparr>i_mode := 0x180\<rparr>) else None)"
  by (simp add: cred_files_def)

lemma cred_node: "node_at cred_files i = (
  if i = 0 then Some (Directory 0 [(''srv'', 1)]) else if i = 1 then Some (Directory 0 [(''app'', 2)])
  else if i = 2 then Some (Directory 1 [(credentialsFile, 3)]) else if i = 3 then Some (Regular (the (json_marshal ex_json ex_creds))) else None)"
  by (simp add: node_at_def cred_inode node_inode_def)

lemma cred_entry: "entry cred_files d c = (
  if d = 0 \<and> c = ''srv'' then Some 1 else if d = 1 \<and> c = ''app'' then Some 2 else if d = 2 \<and> c = credentialsFile then Some 3 else None)"
  by (simp add: entry_def entries_of_def cred_node)

lemma ex_direct: "direct ex_manager"
  by (simp add: direct_def ex_manager_def)

lemma ex_store_eq: "ex_store = \<lparr>st_data_dir = ''/srv/app'', st_fs = Inr ex_manager\<rparr>"
  by (simp add: ex_store_def NewStore_def fs_New_def ex_manager_def)

lemma ex_credPath: "credPath ex_store = ''/srv/app/credentials.json''"
  by (simp add: credPath_def ex_store_eq path_Join_def credentialsFile_def Clean_def components_def IsAbs_def HasPrefix_def)

lemma fresh_store: "store_at ex_store ex_manager ex_files 2"
proof -
  have "resolve_parent ex_files ''/srv/app/credentials.json'' = Inr (2, credentialsFile)"
    by (simp add: resolve_parent_def start_dir_def IsAbs_def HasPrefix_def ex_node is_dir_def ex_inode credentialsFile_def)
  then show ?thesis using ex_ok(1) ex_direct ex_parent(2) ex_credPath
    by (simp add: store_at_def ex_store_eq private_dir_def dir_of_def dir_attrs_def ex_inode node_inode_def ValidatePath_def HasPrefix_def ex_entry credentialsFile_def)
qed

lemma cred_next: "fs_next cred_files = 4"
  by (simp add: cred_files_def)

lemma cred_ok: "fs_ok cred_files"
  by (auto simp: fs_ok_def cred_entry cred_inode entries_of_def cred_node cred_next split: if_splits)

lemma enrolled_store: "store_at ex_store ex_manager cred_files 2" "on_disk ex_json cred_files 2 = Some ex_creds"
proof -
  have "resolve_parent cred_files ''/srv/app/credentials.json'' = Inr (2, credentialsFile)" "resolve cred_files ''/srv/app'' True = Inr 2"
    by (simp_all add: resolve_parent_def resolve_def start_dir_def IsAbs_def HasPrefix_def cred_node is_dir_def cred_inode credentialsFile_def)
  then show "store_at ex_store ex_manager cred_files 2" using cred_ok ex_direct ex_credPath
    by (simp add: store_at_def ex_store_eq private_dir_def dir_of_def dir_attrs_def cred_inode node_inode_def ValidatePath_def HasPrefix_def cred_entry plain_def cred_node)
  have "json_unmarshal ex_json (the (json_marshal ex_json ex_creds)) = Some ex_creds" by (simp add: ex_json_def dec_enc dec_enc_last)
  then show "on_disk ex_json cred_files 2 = Some ex_creds" by (simp add: on_disk_def cred_entry cred_inode node_inode_def)
qed

lemma faulty_plain: "plain_names (quiet_env\<lparr>fault := f\<rparr>)"
  by (simp add: plain_names_def quiet_env_def)

section \<open>Enrolment\<close>

text \<open>A write that fails on the way.\<close>

theorem credentials_survive_witness:
  "case Save ex_json ex_store (ex_creds\<lparr>cr_pending_certificate := ''new''\<rparr>) (quiet_env\<lparr>fault := (\<lambda>n. n = 5)\<rparr>) 0 \<lparr>sy_files = cred_files, sy_world = []\<rparr> of (r, n', s') \<Rightarrow>
     \<exists>x k'. Load ex_json ex_store quiet_env 0 (sy_files s') = (Inr x, k', sy_files s') \<and> (x = ex_creds\<lparr>cr_pending_certificate := ''new''\<rparr> \<or> x = ex_creds \<and> r \<noteq> Inr ())"
proof -
  let ?E = "quiet_env\<lparr>fault := (\<lambda>n. n = 5)\<rparr>" and ?s = "\<lparr>sy_files = cred_files, sy_world = []\<rparr>" and ?c = "ex_creds\<lparr>cr_pending_certificate := ''new''\<rparr>"
  obtain r n' s' where run: "Save ex_json ex_store ?c ?E 0 ?s = (r, n', s')" by (rule prod_cases3)
  have "\<exists>x k'. Load ex_json ex_store quiet_env 0 (sy_files s') = (Inr x, k', sy_files s') \<and> (x = ?c \<or> x = ex_creds \<and> r \<noteq> Inr ())"
    by (rule credentials_survive [where m = ex_manager and d = 2, OF _ faulty_plain ex_json_laws(1) ex_json_laws(2) ex_json_laws(2) _ run quiet_calm(1)]) (simp_all add: enrolled_store)
  then show ?thesis by (simp add: run)
qed

definition ex_request_enrol :: enrollment_request where
  "ex_request_enrol = \<lparr>eq_server_url = ''https://h'', eq_token = ''tok'', eq_ca_pin = hex_encode (replicate 32 (CHR ''Z'')), eq_hostname = ''h'', eq_version = ''1''\<rparr>"

definition ex_host :: "srv_db device_host" where
  "ex_host = \<lparr>dv_system = ex_system, dv_peer = ex_db\<lparr>devices := []\<rparr>\<rparr>"

lemma ex_host_at: "device_at ex_store ex_manager ex_host 2"
  by (simp add: device_at_def ex_host_def fresh_store)

lemma ex_host_disk: "disk_of ex_json ex_host 2 = None"
  by (simp add: disk_of_def ex_host_def on_disk_def ex_entry credentialsFile_def)

lemma ex_utf8: "utf8_register ex_json reg"
  by (simp add: utf8_register_def ex_json_laws(2))

theorem enrolment_is_pinned_witness:
  "\<exists>r n' s'. Enroll ex_crypto ex_parse ex_json ex_request_enrol (Some ex_store) (server_at ex_service) quiet_env 0 ex_host = (r, n', s') \<and>
     device_at ex_store ex_manager s' 2 \<and>
     (case r of Inl _ \<Rightarrow> True | Inr res \<Rightarrow> disk_of ex_json s' 2 = Some (er_credentials res) \<and> Ready (Some (er_credentials res)))"
proof -
  obtain r n' s' where run: "Enroll ex_crypto ex_parse ex_json ex_request_enrol (Some ex_store) (server_at ex_service) quiet_env 0 ex_host = (r, n', s')"
    by (rule prod_cases3)
  show ?thesis using enrolment_is_pinned [OF ex_host_at quiet_calm(2) ex_json_laws(1) ex_crypto_laws ex_utf8 run] run by (auto split: sum.splits)
qed

theorem enrolment_registers_once_witness:
  "let s' = attempts ex_crypto ex_parse ex_json ex_store ex_service
      [(ex_request_enrol, quiet_env\<lparr>fault := (\<lambda>n. n = 60)\<rparr>, 0), (ex_request_enrol, quiet_env, 0)] ex_host in
    (dv_peer s' = dv_peer ex_host \<or> (\<exists>req E n rsp n'. Register ex_service req E n (dv_peer ex_host) = (Inr rsp, n', dv_peer s')))"
  using enrolment_registers_once [OF ex_host_at ex_host_disk ex_json_laws(1) ex_crypto_laws ex_utf8, where parse = ex_parse and
      as = "[(ex_request_enrol, quiet_env\<lparr>fault := (\<lambda>n. n = 60)\<rparr>, 0), (ex_request_enrol, quiet_env, 0)]" and svc = ex_service] quiet_calm(2) faulty_plain
  by (simp add: Let_def del: attempts.simps)

section \<open>Rotation\<close>

definition ex_server :: srv_db where
  "ex_server = ex_db\<lparr>devices := [ex_device\<lparr>dev_active_serial := hex_text 7\<rparr>]\<rparr>"

definition ex_process :: "srv_db agent_process" where
  "ex_process = \<lparr>ap_host = \<lparr>dv_system = \<lparr>sy_files = cred_files, sy_world = []\<rparr>, dv_peer = ex_server\<rparr>, ap_creds = ex_creds, ap_fallback = False,
     ap_backoff = minInitialBackoff, ap_first = True\<rparr>"

lemma ex_process_at: "device_at ex_store ex_manager (ap_host ex_process) 2" "disk_of ex_json (ap_host ex_process) 2 = Some ex_creds" "ap_creds ex_process = ex_creds"
  by (simp_all add: device_at_def disk_of_def ex_process_def enrolled_store)

lemma ex_ready: "Ready (Some ex_creds)"
  by (simp add: Ready_def ex_creds_def ex_cert_def ex_x509_def)

lemma ex_active: "active_certificate ex_service ''D'' ex_cert ex_server"
proof -
  let ?c = "ex_certificate ''D'' 7"
  have pem: "parseCertificatePEM (ca_x509 (svc_ca ex_service)) ex_cert = Inr ?c" by code_simp
  have "PeerClassFromCert (Some ?c) = Inr PeerClassAgent" by code_simp
  then have "AgentMiddleware stream_path (Some [?c]) background = Served (peer_ctx ?c)"
    unfolding stream_path_def by (intro connected) (simp_all add: ex_certificate_def)
  then have "peer_of ex_service ex_cert stream_path = Some (peer_ctx ?c)" using pem by (simp add: peer_of_def)
  moreover have "db_keys ex_server" using ex_keys by (simp add: ex_server_def db_keys_def)
  ultimately show ?thesis
    by (auto simp: active_certificate_def active_serial_def ex_server_def ex_certificate_def SerialFromCert_def ex_device_def)
qed

definition ex_life :: "agent_event list" where
  "ex_life = [Turn (quiet_env\<lparr>fault := (\<lambda>n. n = 7)\<rparr>) 0, Restart quiet_env 0, Turn quiet_env 0]"

lemma ex_life_plain: "\<forall>e\<in>set ex_life. plain_names (event_env e)"
  by (simp add: ex_life_def faulty_plain quiet_calm)

theorem rotation_keeps_identity_witness:
  "let s' = agent_life ex_crypto ex_parse ex_json ex_store (\<lambda>_. 0) (renewal_at ex_service) (stream_to ex_service ''i'' ''h'' ''1'') ''h'' ex_life ex_process in
    (\<exists>c. disk_of ex_json (ap_host s') 2 = Some c \<and> Ready (Some c) \<and> kept ex_crypto ex_creds c) \<and> Ready (Some (ap_creds s')) \<and> kept ex_crypto ex_creds (ap_creds s')"
  by (rule rotation_keeps_identity [OF ex_ready ex_json_laws(1) ex_json_laws(2) ex_json_laws(2) ex_process_at ex_life_plain])

theorem backoff_bounded_witness:
  "backoff_ok (agent_life ex_crypto ex_parse ex_json ex_store (\<lambda>_. 0) (renewal_at ex_service) (stream_to ex_service ''i'' ''h'' ''1'') ''h'' ex_life ex_process)"
  by (rule backoff_bounded) (simp add: backoff_ok_def ex_process_def minInitialBackoff_def maxBackoff_def)

theorem rotation_never_locks_out_witness:
  "let s' = agent_life ex_crypto ex_parse ex_json ex_store (\<lambda>_. 0) (renewal_at ex_service) (stream_to ex_service ''i'' ''h'' ''1'') ''h'' [Turn (quiet_env\<lparr>fault := (\<lambda>n. n = 7)\<rparr>) 0, Restart quiet_env 0] ex_process in
    \<exists>c. disk_of ex_json (ap_host s') 2 = Some c \<and> Ready (Some c) \<and> cr_device_id c = ''D'' \<and>
      (active_certificate ex_service (cr_device_id c) (cr_certificate c) (dv_peer (ap_host s')) \<or>
       cr_pending_certificate c \<noteq> '''' \<and> active_certificate ex_service (cr_device_id c) (cr_pending_certificate c) (dv_peer (ap_host s')))"
proof -
  have "\<forall>e\<in>set [Turn (quiet_env\<lparr>fault := (\<lambda>n. n = 7)\<rparr>) 0, Restart quiet_env 0]. plain_names (event_env e)" by (simp add: faulty_plain quiet_calm)
  moreover have "all_reload ex_crypto ex_parse ex_json ex_store (\<lambda>_. 0) (renewal_at ex_service) (stream_to ex_service ''i'' ''h'' ''1'') ''h''
    [Turn (quiet_env\<lparr>fault := (\<lambda>n. n = 7)\<rparr>) 0, Restart quiet_env 0] ex_process" by (simp add: ex_process_def)
  moreover have "active_certificate ex_service (cr_device_id ex_creds) (cr_certificate ex_creds) (dv_peer (ap_host ex_process))"
    using ex_active by (simp add: ex_creds_def ex_process_def)
  ultimately show ?thesis
    using rotation_never_locks_out [OF ex_ready ex_json_laws(1) ex_json_laws(2) ex_json_laws(2) ex_process_at] by (simp add: ex_creds_def Let_def del: agent_life.simps)
qed

theorem agent_reconnects_witness:
  "case runAgent_turn ex_crypto ex_parse ex_json ex_store (\<lambda>_. 0) (renewal_at ex_service) (stream_to ex_service ''i'' ''h'' ''1'') ''h'' quiet_env 0 ex_process of (r1, k1, s1) \<Rightarrow>
     (case runAgent_turn ex_crypto ex_parse ex_json ex_store (\<lambda>_. 0) (renewal_at ex_service) (stream_to ex_service ''i'' ''h'' ''1'') ''h'' quiet_env 9 s1 of (r2, k2, s2) \<Rightarrow>
       r1 = Inr (Session True) \<or> r1 = Inr (Session False) \<and> r2 = Inr (Session True))"
proof -
  let ?turn = "runAgent_turn ex_crypto ex_parse ex_json ex_store (\<lambda>_. 0) (renewal_at ex_service) (stream_to ex_service ''i'' ''h'' ''1'') ''h''"
  obtain r1 k1 s1 where one: "?turn quiet_env 0 ex_process = (r1, k1, s1)" by (rule prod_cases3)
  obtain r2 k2 s2 where two: "?turn quiet_env 9 s1 = (r2, k2, s2)" by (rule prod_cases3)
  have "ToLower ''https'' = ''https''" by code_simp
  then have "requireHTTPSAgentAddr ex_parse (cr_agent_addr ex_creds) = None" by (simp add: requireHTTPSAgentAddr_def ex_parse_def)
  moreover have "presentable ex_crypto ex_creds" by (simp add: presentable_def ex_crypto_def)
  moreover have "current (active_certificate ex_service) ex_creds (dv_peer (ap_host ex_process))" using ex_active by (simp add: current_def ex_creds_def ex_process_def)
  moreover have "\<forall>k. \<not> cancelled quiet_env k" by (simp add: quiet_env_def)
  ultimately have "r1 = Inr (Session True) \<or> r1 = Inr (Session False) \<and> r2 = Inr (Session True)"
    by (intro agent_reconnects [OF ex_process_at(1,2) _ _ _ _ quiet_calm(1) _ quiet_calm(1) _ one two]) (simp_all add: ex_process_at(3))
  then show ?thesis by (simp add: one two)
qed

definition ninety_days :: parsed_cert where
  "ninety_days = \<lparr>pc_common_name = ''D'', pc_serial_number = ''D'', pc_not_before = 0, pc_not_after = 7776000000000000\<rparr>"

theorem renewal_due_in_time_witness: "\<not> certificateRenewalDue ninety_days 6048000000000000 \<and> certificateRenewalDue ninety_days 6307200000000000"
  using renewal_due_in_time [of ninety_days 6048000000000000] renewal_due_in_time [of ninety_days 6307200000000000] by (simp add: ninety_days_def)

end
