(* ===== verification/Sys_Service.thy ===== *)
theory Sys_Service
  imports Sys_Fs_Safety
begin

text \<open>
  \<^verbatim>\<open>sdk/sys/service\<close>: systemd units through \<^verbatim>\<open>systemctl\<close> and the unit files under \<^verbatim>\<open>/etc/systemd/system\<close>. A manager has the runner and the file
  operations of \<open>Sys_Fs\<close>; the query timeout is a cancelled context of the runner.
\<close>

section \<open>Unit names\<close>

definition unit_char :: "char \<Rightarrow> bool" where
  "unit_char c \<longleftrightarrow> is_alnum c \<or> c \<in> set ''@._:-''"

text \<open>Characters of a name and escapes \<^verbatim>\<open>\xHH\<close>; a backslash begins nothing else.\<close>

fun unit_rest :: "string \<Rightarrow> bool" where
  "unit_rest [] = True"
| "unit_rest (c # s) = (
     if c = CHR 0x5C then (case s of x # a # b # r \<Rightarrow> x = CHR ''x'' \<and> hex_char a \<and> hex_char b \<and> unit_rest r | _ \<Rightarrow> False)
     else unit_char c \<and> unit_rest s)"

definition unit_types :: "string list" where
  "unit_types = [''service'', ''socket'', ''device'', ''timer'', ''mount'', ''automount'', ''swap'', ''target'', ''path'', ''slice'', ''scope'']"

definition validSystemdUnitName :: "string \<Rightarrow> bool" where
  "validSystemdUnitName s = list_ex (\<lambda>t. HasSuffix s (CHR ''.'' # t) \<and>
     (let body = take (length s - Suc (length t)) s in body \<noteq> [] \<and> hd body \<noteq> CHR ''.'' \<and> unit_rest body)) unit_types"

definition ValidateUnitName :: "string \<Rightarrow> go_error option" where
  "ValidateUnitName u = (if validSystemdUnitName u then None else Some (EText ''invalid systemd unit name''))"

section \<open>Queries and mutations\<close>

record unit_status =
  us_enabled :: bool
  us_active :: bool
  us_masked :: bool
  us_static :: bool

definition service_New :: "fs_manager option \<Rightarrow> go_error + fs_manager" where
  "service_New runner = (case runner of None \<Rightarrow> Inl (EWrap ''service'' ErrRunnerRequired) | Some m \<Rightarrow> fs_New (Some m))"

text \<open>\<open>systemctl\<close> tells whether the program is found.\<close>

definition Available :: "bool \<Rightarrow> (system, bool) prog" where
  "Available systemctl = (if \<not> systemctl then ret False
     else handle (bnd (in_files (sys_stat ''/run/systemd/system'')) (\<lambda>_. ret True)) (\<lambda>_. ret False))"

definition validSystemctlOutputs :: "(string \<times> string list) list" where
  "validSystemctlOutputs = [
     (''is-enabled'', [''enabled'', ''enabled-runtime'', ''linked'', ''linked-runtime'', ''alias'', ''masked'', ''masked-runtime'', ''static'',
       ''indirect'', ''disabled'', ''generated'', ''transient'']),
     (''is-active'', [''active'', ''reloading'', ''inactive'', ''failed'', ''activating'', ''deactivating''])]"

definition service_query :: "fs_manager \<Rightarrow> string \<Rightarrow> string \<Rightarrow> (system, string) prog" where
  "service_query m u verb =
     bnd (map_err (EWrap (''systemctl '' @ verb)) (runQuery m ''systemctl'' [verb, ''--'', u])) (\<lambda>res.
     let trimmed = TrimSpace (xr_stdout res) in
     case map_of validSystemctlOutputs verb of
       None \<Rightarrow> throw (EText ''systemctl: unsupported query verb'')
     | Some allowed \<Rightarrow> if trimmed \<notin> set allowed then throw (EText ''systemctl: unrecognised output'') else ret trimmed)"

definition service_mutate :: "fs_manager \<Rightarrow> string list \<Rightarrow> (system, unit) prog" where
  "service_mutate m args = bnd (fs_runPriv m ''systemctl'' args) (\<lambda>res.
     if xr_exit res \<noteq> 0 then throw (ECommand ''systemctl'' (xr_exit res) (xr_stderr res)) else ret ())"

definition Status :: "fs_manager \<Rightarrow> string \<Rightarrow> (system, unit_status) prog" where
  "Status m u = bnd (unless_error (ValidateUnitName u)) (\<lambda>_.
     bnd (service_query m u ''is-enabled'') (\<lambda>enabled.
     bnd (service_query m u ''is-active'') (\<lambda>active.
     ret \<lparr>us_enabled = (enabled \<in> {''enabled'', ''enabled-runtime''}), us_active = (active = ''active''),
       us_masked = (enabled \<in> {''masked'', ''masked-runtime''}), us_static = (enabled \<in> {''static'', ''indirect'', ''generated''})\<rparr>)))"

definition IsEnabled :: "fs_manager \<Rightarrow> string \<Rightarrow> (system, bool) prog" where
  "IsEnabled m u = bnd (unless_error (ValidateUnitName u)) (\<lambda>_.
     bnd (service_query m u ''is-enabled'') (\<lambda>out. ret (out = ''enabled'' \<or> out = ''enabled-runtime'')))"

definition IsMasked :: "fs_manager \<Rightarrow> string \<Rightarrow> (system, bool) prog" where
  "IsMasked m u = bnd (unless_error (ValidateUnitName u)) (\<lambda>_.
     bnd (service_query m u ''is-enabled'') (\<lambda>out. ret (out = ''masked'' \<or> out = ''masked-runtime'')))"

definition IsActive :: "fs_manager \<Rightarrow> string \<Rightarrow> (system, bool) prog" where
  "IsActive m u = bnd (unless_error (ValidateUnitName u)) (\<lambda>_.
     bnd (service_query m u ''is-active'') (\<lambda>out. ret (out = ''active'')))"

definition Enable :: "fs_manager \<Rightarrow> string \<Rightarrow> (system, unit) prog" where
  "Enable m u = bnd (unless_error (ValidateUnitName u)) (\<lambda>_. service_mutate m [''enable'', ''--'', u])"

definition Disable :: "fs_manager \<Rightarrow> string \<Rightarrow> (system, unit) prog" where
  "Disable m u = bnd (unless_error (ValidateUnitName u)) (\<lambda>_. service_mutate m [''disable'', ''--'', u])"

definition EnableNow :: "fs_manager \<Rightarrow> string \<Rightarrow> (system, unit) prog" where
  "EnableNow m u = bnd (unless_error (ValidateUnitName u)) (\<lambda>_. service_mutate m [''enable'', ''--now'', ''--'', u])"

definition DisableNow :: "fs_manager \<Rightarrow> string \<Rightarrow> (system, unit) prog" where
  "DisableNow m u = bnd (unless_error (ValidateUnitName u)) (\<lambda>_. service_mutate m [''disable'', ''--now'', ''--'', u])"

definition service_Start :: "fs_manager \<Rightarrow> string \<Rightarrow> (system, unit) prog" where
  "service_Start m u = bnd (unless_error (ValidateUnitName u)) (\<lambda>_. service_mutate m [''start'', ''--'', u])"

definition service_Stop :: "fs_manager \<Rightarrow> string \<Rightarrow> (system, unit) prog" where
  "service_Stop m u = bnd (unless_error (ValidateUnitName u)) (\<lambda>_. service_mutate m [''stop'', ''--'', u])"

definition service_Restart :: "fs_manager \<Rightarrow> string \<Rightarrow> (system, unit) prog" where
  "service_Restart m u = bnd (unless_error (ValidateUnitName u)) (\<lambda>_. service_mutate m [''restart'', ''--'', u])"

definition service_Reload :: "fs_manager \<Rightarrow> string \<Rightarrow> (system, unit) prog" where
  "service_Reload m u = bnd (unless_error (ValidateUnitName u)) (\<lambda>_. service_mutate m [''reload'', ''--'', u])"

definition Mask :: "fs_manager \<Rightarrow> string \<Rightarrow> (system, unit) prog" where
  "Mask m u = bnd (unless_error (ValidateUnitName u)) (\<lambda>_. service_mutate m [''mask'', ''--'', u])"

definition Unmask :: "fs_manager \<Rightarrow> string \<Rightarrow> (system, unit) prog" where
  "Unmask m u = bnd (unless_error (ValidateUnitName u)) (\<lambda>_. service_mutate m [''unmask'', ''--'', u])"

definition DaemonReload :: "fs_manager \<Rightarrow> (system, unit) prog" where
  "DaemonReload m = service_mutate m [''daemon-reload'']"

definition NeedsReload :: "fs_manager \<Rightarrow> string \<Rightarrow> (system, bool) prog" where
  "NeedsReload m u = bnd (unless_error (ValidateUnitName u)) (\<lambda>_.
     bnd (map_err (EWrap ''systemctl show'') (runQuery m ''systemctl'' [''show'', ''--property=NeedDaemonReload'', ''--'', u])) (\<lambda>res.
     let out = TrimSpace (xr_stdout res) in
     if out = ''NeedDaemonReload=yes'' then ret True
     else if out = ''NeedDaemonReload=no'' then ret False
     else throw (EText ''systemctl show: unexpected NeedDaemonReload output'')))"

definition service_Version :: "fs_manager \<Rightarrow> (system, int) prog" where
  "service_Version m = bnd (map_err (EWrap ''systemctl --version'') (runQuery m ''systemctl'' [''--version''])) (\<lambda>res.
     let firstLine = (case Cut (xr_stdout res) [newline] of None \<Rightarrow> xr_stdout res | Some (a, _) \<Rightarrow> a) in
     case List.find (\<lambda>tok. snd (ParseInt tok)) (Fields firstLine) of
       None \<Rightarrow> throw (EText ''systemctl --version: no version token'')
     | Some tok \<Rightarrow> ret (fst (ParseInt tok)))"

section \<open>The content of a unit\<close>

definition ErrUnsafeUnitContent :: go_error where
  "ErrUnsafeUnitContent = ESentinel ''unsafe systemd unit content''"

definition execDirectives :: "string list" where
  "execDirectives = [''execstart'', ''execstartpre'', ''execstartpost'', ''execstop'', ''execstoppost'', ''execreload'', ''execcondition'']"

definition shellInterpreters :: "string list" where
  "shellInterpreters = [''sh'', ''bash'', ''dash'', ''zsh'', ''ksh'', ''ash'', ''busybox'']"

definition untrustedExecPrefixes :: "string list" where
  "untrustedExecPrefixes = [''/tmp/'', ''/var/tmp/'', ''/dev/shm/'']"

definition dangerousEnvVars :: "string list" where
  "dangerousEnvVars = [''LD_PRELOAD'', ''LD_LIBRARY_PATH'', ''LD_AUDIT'']"

definition isExecDirective :: "string \<Rightarrow> bool" where
  "isExecDirective key = (key \<in> set execDirectives)"

definition trailingBackslashes :: "string \<Rightarrow> nat" where
  "trailingBackslashes s = length (takeWhile (\<lambda>c. c = CHR 0x5C) (rev s))"

text \<open>The loop of \<^verbatim>\<open>joinContinuationLines\<close>: \<open>Some p\<close> while a line is being continued.\<close>

fun join_lines :: "string option \<Rightarrow> string list \<Rightarrow> string list" where
  "join_lines None [] = []"
| "join_lines (Some p) [] = [p]"
| "join_lines c (l # ls) = (let trimmed = TrimRight (\<lambda>x. x = CHR '' '' \<or> x = CHR 0x09) l; p = (case c of None \<Rightarrow> '''' | Some p \<Rightarrow> p) in
     if odd (trailingBackslashes trimmed) then join_lines (Some (p @ TrimSuffix trimmed [CHR 0x5C] @ '' '')) ls
     else (p @ l) # join_lines None ls)"

definition joinContinuationLines :: "string \<Rightarrow> string list" where
  "joinContinuationLines s = join_lines None (Split s newline)"

definition isShellCFlag :: "string \<Rightarrow> bool" where
  "isShellCFlag arg = (HasPrefix arg ''-'' \<and> \<not> HasPrefix arg ''--'' \<and> CHR ''c'' \<in> set (tl arg))"

definition validateExecLine :: "string \<Rightarrow> string \<Rightarrow> go_error option" where
  "validateExecLine key val = (let cmd = TrimSpace (TrimLeft (\<lambda>c. c \<in> set ''-@+!:'') val) in
     case Fields cmd of [] \<Rightarrow> None
     | exe # args \<Rightarrow>
         if path_Base exe \<in> set shellInterpreters \<and> list_ex isShellCFlag args
         then Some (EDetail ErrUnsafeUnitContent ''inline command execution'')
         else if list_ex (HasPrefix (Clean exe)) untrustedExecPrefixes
         then Some (EDetail ErrUnsafeUnitContent ''runs from a world-writable directory'')
         else None)"

definition env_name :: "string \<Rightarrow> string" where
  "env_name pair = (let name = (case Cut pair ''='' of None \<Rightarrow> pair | Some (a, _) \<Rightarrow> a); q = (\<lambda>c. c = CHR 0x22 \<or> c = CHR 0x27) in
     TrimRight q (TrimLeft q (TrimSpace name)))"

definition validateEnvLine :: "string \<Rightarrow> go_error option" where
  "validateEnvLine val = (if list_ex (\<lambda>pair. ToUpper (env_name pair) \<in> set dangerousEnvVars) (Fields val)
     then Some (EDetail ErrUnsafeUnitContent ''sets a dynamic-linker override'') else None)"

definition validateUnitLine :: "string \<Rightarrow> go_error option" where
  "validateUnitLine raw = (let line = TrimSpace raw in
     if line = '''' \<or> HasPrefix line ''#'' \<or> HasPrefix line '';'' then None
     else (case Cut line ''='' of None \<Rightarrow> None
     | Some (k, v) \<Rightarrow> if k = '''' then None
       else let key = ToLower (TrimSpace k); val = TrimSpace v in
         if isExecDirective key then validateExecLine key val
         else if key = ''environmentfile'' then
           (let p = Clean (TrimSpace (TrimPrefix val ''-'')) in
            if list_ex (HasPrefix p) untrustedExecPrefixes then Some (EDetail ErrUnsafeUnitContent ''EnvironmentFile references a world-writable path'') else None)
         else if key = ''environment'' then validateEnvLine val
         else None))"

primrec first_error :: "go_error option list \<Rightarrow> go_error option" where
  "first_error [] = None"
| "first_error (e # es) = (case e of None \<Rightarrow> first_error es | Some x \<Rightarrow> Some x)"

definition validateUnitContent :: "string \<Rightarrow> go_error option" where
  "validateUnitContent s = first_error (map validateUnitLine (joinContinuationLines s))"

definition ValidateUnitContent :: "string \<Rightarrow> go_error option" where
  "ValidateUnitContent s = validateUnitContent s"

section \<open>Unit files\<close>

definition unit_options :: write_options where
  "unit_options = \<lparr>wo_mode = 0x1A4, wo_owner = ''root'', wo_group = ''root'', wo_backup = ''''\<rparr>"

definition unit_dir :: string where "unit_dir = ''/etc/systemd/system''"

definition unit_path :: "string \<Rightarrow> string" where
  "unit_path u = unit_dir @ ''/'' @ u"

definition WriteUnit :: "fs_manager \<Rightarrow> string \<Rightarrow> string \<Rightarrow> (system, unit) prog" where
  "WriteUnit m u body = bnd (unless_error (ValidateUnitName u)) (\<lambda>_.
     bnd (unless_error (validateUnitContent body)) (\<lambda>_.
     WriteFile m (unit_path u) body unit_options))"

definition ReadUnit :: "fs_manager \<Rightarrow> string \<Rightarrow> (system, string) prog" where
  "ReadUnit m u = bnd (unless_error (ValidateUnitName u)) (\<lambda>_.
     bnd (ReadFile m (unit_path u)) (\<lambda>b. ret (case b of None \<Rightarrow> '''' | Some s \<Rightarrow> s)))"

definition RemoveUnit :: "fs_manager \<Rightarrow> string \<Rightarrow> (system, unit) prog" where
  "RemoveUnit m u = bnd (unless_error (ValidateUnitName u)) (\<lambda>_.
     map_err (EWrap ''remove systemd unit'') (fs_Remove m (unit_path u)))"

section \<open>Confinement\<close>

lemma unit_rest_no_slash: "unit_rest s \<Longrightarrow> CHR ''/'' \<notin> set s"
proof (induction s rule: unit_rest.induct)
  case (2 c s)
  show ?case
  proof (cases "c = CHR 0x5C")
    case True
    then obtain x a b r where s: "s = x # a # b # r" "x = CHR ''x''" "hex_char a" "hex_char b" "unit_rest r"
      using "2.prems" by (auto split: list.splits)
    then have "CHR ''/'' \<notin> set r" using "2.IH"(1) True by simp
    then show ?thesis using s True by (auto simp: hex_char_def)
  next
    case False
    then have "unit_char c" "CHR ''/'' \<notin> set s" using 2 by simp_all
    then show ?thesis by (auto simp: unit_char_def is_alnum_def is_lower_def is_upper_def is_digit_def)
  qed
qed simp

text \<open>A valid name is one component of a path: no slash, and neither empty nor a dot directory.\<close>

lemma unit_name_plain:
  assumes "ValidateUnitName u = None"
  shows "CHR ''/'' \<notin> set u" and "u \<noteq> ''''" and "hd u \<noteq> CHR ''.''" and "name_ok u"
proof -
  from assms obtain t where t: "t \<in> set unit_types" "HasSuffix u (CHR ''.'' # t)" and
    b: "take (length u - Suc (length t)) u \<noteq> []" "hd (take (length u - Suc (length t)) u) \<noteq> CHR ''.''" "unit_rest (take (length u - Suc (length t)) u)"
    by (auto simp: ValidateUnitName_def validSystemdUnitName_def list_ex_iff Let_def split: if_splits)
  let ?b = "take (length u - Suc (length t)) u"
  have u: "u = ?b @ CHR ''.'' # t" using t(2) by (metis HasSuffix_def append_take_drop_id length_Cons)
  have "CHR ''/'' \<notin> set t" using t(1) by (auto simp: unit_types_def)
  then show slash: "CHR ''/'' \<notin> set u" using unit_rest_no_slash [OF b(3)] by (subst u) auto
  show "u \<noteq> ''''" using b(1) by auto
  show dot: "hd u \<noteq> CHR ''.''" using b(1,2) by (subst u) (simp add: hd_append)
  show "name_ok u" using slash dot b(1) by (auto simp: name_ok_def)
qed

text \<open>
  A comment between the lines of a continued command ends it for the check, while systemd skips such a line: the unit runs an inline
  command that \<^verbatim>\<open>validateUnitContent\<close> was to refuse.
\<close>

theorem comment_hides_inline_shell:
  "validateUnitContent (Join [''ExecStart=/bin/sh '' @ [CHR 0x5C], ''# note'', ''-c id''] [newline]) = None \<and>
   validateUnitContent (Join [''ExecStart=/bin/sh '' @ [CHR 0x5C], ''-c id''] [newline]) \<noteq> None"
  by code_simp

end
