(* ===== verification/Agent_Unit.thy ===== *)
theory Agent_Unit
  imports Sys_Service
begin

text \<open>
  The agent's own systemd unit: \<^verbatim>\<open>agent/internal/unit\<close> and \<^verbatim>\<open>agent/cmd/cadestrod/cmd_installunit.go\<close>. The template is the file
  \<^verbatim>\<open>cadestrod.service.tmpl\<close>; executing it replaces the two fields by their text. The
  flag that \<^verbatim>\<open>sync\<close> returns beside an error is left out: no caller reads it.
\<close>

section \<open>Rendering\<close>

definition UnitName :: string where "UnitName = ''cadestrod.service''"

record unit_params =
  up_binary_path :: string
  up_data_dir :: string

definition validateUnitPath :: "string \<Rightarrow> string \<Rightarrow> go_error option" where
  "validateUnitPath field val = (
     if \<not> HasPrefix val ''/'' then Some (EText (field @ '' must be an absolute path''))
     else if list_ex (\<lambda>c. c \<in> set ([CHR '' '', CHR 0x09, CHR 0x0D, CHR 0x0A, CHR 0x22, CHR 0x27, CHR 0x5C, CHR 0x25, CHR 0x24])) val
     then Some (EText (field @ '' contains a character interpreted by systemd''))
     else None)"

definition unit_head :: "string list" where
  "unit_head = [''[Unit]'', ''Description=Cadestro Agent'', ''After=network-online.target'', ''Wants=network-online.target'', '''',
     ''[Service]'', ''Type=simple'', ''User=root'', ''Group=root'']"

definition unit_tail :: "string list" where
  "unit_tail = [''Restart=always'', ''RestartSec=10'', ''RuntimeDirectory=cadestro'', ''RuntimeDirectoryMode=0700'', ''ProtectControlGroups=true'',
     ''StandardOutput=journal'', ''StandardError=journal'', ''SyslogIdentifier=cadestrod'', '''', ''[Install]'', ''WantedBy=multi-user.target'']"

definition exec_command :: "unit_params \<Rightarrow> string" where
  "exec_command p = up_binary_path p @ '' -data-dir='' @ up_data_dir p @ '' -log-level=info''"

definition unit_lines :: "unit_params \<Rightarrow> string list" where
  "unit_lines p = unit_head @ [''ExecStart='' @ exec_command p] @ unit_tail"

definition Render :: "unit_params \<Rightarrow> go_error + string" where
  "Render p = (case validateUnitPath ''BinaryPath'' (up_binary_path p) of Some e \<Rightarrow> Inl e
   | None \<Rightarrow> (case validateUnitPath ''DataDir'' (up_data_dir p) of Some e \<Rightarrow> Inl e
     | None \<Rightarrow> Inr (unlines (unit_lines p))))"

section \<open>Installing\<close>

definition unit_sync :: "fs_manager \<Rightarrow> unit_params \<Rightarrow> bool \<Rightarrow> (system, bool) prog" where
  "unit_sync m p create =
     bnd (handle (bnd (ReadUnit m UnitName) (\<lambda>c. ret (Some c))) (\<lambda>e. if errors_is e ErrNotExist then ret None else throw (EWrap ''read unit'' e))) (\<lambda>current.
     if current = None \<and> \<not> create then ret False
     else (case Render p of Inl e \<Rightarrow> throw e
     | Inr rendered \<Rightarrow>
         if (case current of None \<Rightarrow> '''' | Some c \<Rightarrow> c) = rendered then
           bnd (handle (NeedsReload m UnitName) (\<lambda>_. ret False)) (\<lambda>pending.
           if pending then bnd (map_err (EWrap ''reload systemd'') (DaemonReload m)) (\<lambda>_. ret False) else ret False)
         else bnd (map_err (EWrap ''write unit'') (WriteUnit m UnitName rendered)) (\<lambda>_.
           bnd (map_err (EWrap ''reload systemd'') (DaemonReload m)) (\<lambda>_.
           ret True))))"

definition unit_Reconcile :: "fs_manager \<Rightarrow> unit_params \<Rightarrow> (system, bool) prog" where
  "unit_Reconcile m p = unit_sync m p False"

definition EnsureInstalled :: "fs_manager \<Rightarrow> unit_params \<Rightarrow> (system, unit) prog" where
  "EnsureInstalled m p = bnd (unit_sync m p True) (\<lambda>_. ret ())"

text \<open>
  The two callers. \<open>runner\<close> is what \<^verbatim>\<open>NewRunner\<close> gives, \<open>exe\<close> what \<^verbatim>\<open>os.Executable\<close> gives, \<open>systemctl\<close> tells whether the program is found
  and \<open>dataDir\<close> is the flag, \<open>None\<close> when the flag package refuses the arguments; the result is the exit code.
\<close>

definition runInstallUnit :: "string option \<Rightarrow> int \<Rightarrow> bool \<Rightarrow> go_error + fs_manager \<Rightarrow> string option \<Rightarrow> (system, int) prog" where
  "runInstallUnit dataDir euid systemctl runner exe = (case dataDir of None \<Rightarrow> ret 2
   | Some dir \<Rightarrow>
     if euid \<noteq> 0 then ret 1
     else bnd (Available systemctl) (\<lambda>ok.
       if \<not> ok then ret 1
       else (case runner of Inl _ \<Rightarrow> ret 1
       | Inr r \<Rightarrow> (case service_New (Some r) of Inl _ \<Rightarrow> ret 1
         | Inr m \<Rightarrow> (case exe of None \<Rightarrow> ret 1
           | Some b \<Rightarrow> handle (bnd (EnsureInstalled m \<lparr>up_binary_path = b, up_data_dir = dir\<rparr>) (\<lambda>_. ret 0)) (\<lambda>_. ret 1))))))"

definition reconcileUnitAtStartup :: "int \<Rightarrow> bool \<Rightarrow> fs_manager \<Rightarrow> string option \<Rightarrow> string \<Rightarrow> (system, unit) prog" where
  "reconcileUnitAtStartup euid systemctl runner exe dataDir = (
     if euid \<noteq> 0 then ret ()
     else bnd (Available systemctl) (\<lambda>ok.
       if \<not> ok then ret ()
       else (case service_New (Some runner) of Inl _ \<Rightarrow> ret ()
       | Inr m \<Rightarrow> (case exe of None \<Rightarrow> ret ()
         | Some b \<Rightarrow> handle (bnd (unit_Reconcile m \<lparr>up_binary_path = b, up_data_dir = dataDir\<rparr>) (\<lambda>_. ret ())) (\<lambda>_. ret ())))))"

section \<open>The policy and the template\<close>

lemma join_lines_plain: "\<forall>l\<in>set ls. trailingBackslashes (TrimRight (\<lambda>x. x = CHR '' '' \<or> x = CHR 0x09) l) = 0 \<Longrightarrow> join_lines None ls = ls"
  by (induction ls) simp_all

lemma first_error_append: "first_error (xs @ ys) = (case first_error xs of None \<Rightarrow> first_error ys | Some e \<Rightarrow> Some e)"
  by (induction xs) (auto split: option.splits)

lemma no_trailing: "CHR 0x5C \<notin> set s \<Longrightarrow> trailingBackslashes (TrimRight q s) = 0"
proof -
  assume "CHR 0x5C \<notin> set s"
  moreover have "set (TrimRight q s) \<subseteq> set s" by (auto simp: TrimRight_def dest: set_dropWhileD)
  ultimately show ?thesis by (cases "rev (TrimRight q s)") (auto simp: trailingBackslashes_def simp flip: set_rev [of "TrimRight q s"])
qed

lemma validPath_chars:
  assumes "validateUnitPath f v = None"
  shows "CHR 0x5C \<notin> set v" "newline \<notin> set v" "CHR '' '' \<notin> set v" and "\<exists>r. v = CHR ''/'' # r"
  using assms by (auto simp: validateUnitPath_def list_ex_iff newline_def HasPrefix_iff split: if_splits)

text \<open>
  What \<^verbatim>\<open>Render\<close> makes of any parameters it accepts can only be refused for its command: every other line of the template passes the content
  policy of \<^verbatim>\<open>WriteUnit\<close>.
\<close>

theorem rendered_unit_policy:
  assumes "Render p = Inr doc"
  shows "validateUnitContent doc = validateUnitLine (''ExecStart='' @ exec_command p)"
proof -
  have v: "validateUnitPath ''BinaryPath'' (up_binary_path p) = None" "validateUnitPath ''DataDir'' (up_data_dir p) = None" and t: "doc = unlines (unit_lines p)"
    using assms by (auto simp: Render_def split: option.splits)
  note B = validPath_chars [OF v(1)] and D = validPath_chars [OF v(2)]
  have nl: "\<forall>l\<in>set (unit_lines p). newline \<notin> set l" using B D
    by (auto simp: unit_lines_def unit_head_def unit_tail_def exec_command_def newline_def)
  have bs: "\<forall>l\<in>set (unit_lines p @ ['''']). CHR 0x5C \<notin> set l" using B D
    by (auto simp: unit_lines_def unit_head_def unit_tail_def exec_command_def)
  have "joinContinuationLines doc = unit_lines p @ ['''']"
    unfolding joinContinuationLines_def t Split_unlines [OF nl] using bs no_trailing by (intro join_lines_plain) blast
  moreover have "first_error (map validateUnitLine unit_head) = None" "first_error (map validateUnitLine (unit_tail @ [''''])) = None" by code_simp+
  ultimately show ?thesis
    by (simp add: validateUnitContent_def unit_lines_def first_error_append split: option.splits)
qed

section \<open>What is on the disk\<close>

definition units_at :: "filesystem \<Rightarrow> ino \<Rightarrow> bool" where
  "units_at F d \<longleftrightarrow> fs_ok F \<and> resolve F unit_dir True = Inr d \<and> is_dir F d"

lemma unit_parent:
  assumes "units_at F d" and "ValidateUnitName u = None"
  shows "resolve_parent F (unit_path u) = Inr (d, u)"
proof -
  note u = unit_name_plain [OF assms(2)]
  have sp: "Split (unit_path u) slash = Split unit_dir slash @ [u]"
    using u(1) Split_app [of unit_dir slash u] by (simp add: unit_path_def Split_none)
  have abs: "unit_dir \<noteq> ''''" "IsAbs unit_dir" "IsAbs (unit_path u)" by (simp_all add: unit_dir_def unit_path_def IsAbs_def HasPrefix_def)
  have st: "start_dir F (unit_path u) = start_dir F unit_dir" using abs(2,3) by (simp add: start_dir_def)
  have w: "walk F 40 (start_dir F unit_dir) (Split unit_dir slash) True = Inr d" using assms(1) by (auto simp: units_at_def resolve_def split: sum.splits if_splits)
  have "u \<noteq> ''.''" "u \<noteq> ''..''" using u(3) by auto
  moreover have "unit_path u \<noteq> ''''" by (simp add: unit_path_def)
  ultimately show ?thesis unfolding resolve_parent_def Let_def sp st using u(2) w assms(1) by (simp add: units_at_def)
qed

text \<open>
  A unit is written as a whole or not at all, in the directory of the units under its own name and through no symbolic link, and only
  when its content passes the policy.
\<close>

theorem WriteUnit_confined:
  assumes "direct m" and at: "units_at (sy_files s) d" and "plain_names E" and "\<forall>j. entry (sy_files s) d u = Some j \<longrightarrow> plain (sy_files s) j"
    and run: "WriteUnit m u body E n s = (r, n', s')"
  shows "(\<exists>e. r = Inl e) \<and> s' = s \<or>
    validateUnitContent body = None \<and> name_ok u \<and> written (fm_accounts m) (sy_files s) d u True body unit_options r (sy_files s') \<and> sy_world s' = sy_world s"
proof (cases "ValidateUnitName u = None \<and> validateUnitContent body = None")
  case True
  then have "WriteFile m (unit_path u) body unit_options E n s = (r, n', s')" using run by (simp add: WriteUnit_def bnd_def unless_error_def ret_def)
  then have "written (fm_accounts m) (sy_files s) d u True body unit_options r (sy_files s') \<and> sy_world s' = sy_world s"
    using at by (intro WriteFile_written [OF assms(1) _ _ unit_parent assms(3,4)]) (auto simp: unit_options_def units_at_def True)
  then show ?thesis using True unit_name_plain(4) by blast
next
  case False
  then show ?thesis using run by (auto simp: WriteUnit_def bnd_def unless_error_def ret_def throw_def split: option.splits)
qed

section \<open>What an installation leaves\<close>

definition same_files :: "(system, 'a) prog \<Rightarrow> bool" where
  "same_files m \<longleftrightarrow> (\<forall>F. keeps (\<lambda>s. sy_files s = F) m)"

lemma same_filesD: "same_files m \<Longrightarrow> m E n s = (r, n', s') \<Longrightarrow> sy_files s' = sy_files s"
  unfolding same_files_def keeps_def by blast

lemma same_files_bnd: "same_files m \<Longrightarrow> (\<And>x. same_files (f x)) \<Longrightarrow> same_files (bnd m f)"
  by (simp add: same_files_def keeps_bnd)

lemma same_files_handle: "same_files m \<Longrightarrow> (\<And>e. same_files (h e)) \<Longrightarrow> same_files (handle m h)"
  unfolding same_files_def keeps_def handle_run by metis

lemma same_files_basic: "same_files (in_procs m)" "same_files (ret y)" "same_files (throw e)" "same_files (unless_error x)"
    "same_files m' \<Longrightarrow> same_files (map_err g m')"
  by (auto simp: same_files_def keeps_def in_procs_def ret_def throw_def unless_error_def map_err_def handle_def split: prod.splits sum.splits option.splits)

lemma same_files_run: "same_files (run_command m c)"
  unfolding run_command_def by (intro same_files_bnd) (auto intro: same_files_basic split: option.splits)

lemma same_files_reload: "same_files (DaemonReload m)" "same_files (NeedsReload m u)"
  by (auto simp: DaemonReload_def service_mutate_def NeedsReload_def runQuery_def fs_runPriv_def Let_def
      intro!: same_files_bnd same_files_basic same_files_run)

lemma in_files_Inr: "in_files m E n s = (Inr x, n', s') \<longleftrightarrow> (\<exists>F. m E n (sy_files s) = (Inr x, n', F) \<and> s' = s\<lparr>sy_files := F\<rparr>)"
  by (auto simp: in_files_def split: prod.splits)

lemma peek_Inr: "peek f E n F = (Inr x, n', F') \<longleftrightarrow> \<not> fault E n \<and> f F = Inr x \<and> n' = Suc n \<and> F' = F"
  by (auto simp: peek_def sql_def split: sum.splits)

lemma ReadFile_found:
  assumes "direct m" and "ReadFile m path E n s = (Inr (Some b), n', s')"
  shows "\<exists>i. resolve (sy_files s) path True = Inr i \<and> node_at (sy_files s) i = Some (Regular b)"
proof -
  obtain i where i: "open_inode (sy_files s) path False False = Inr i"
    and r: "(case node_at (sy_files s) i of Some (Regular c) \<Rightarrow> Inr c | Some (Directory _ _) \<Rightarrow> Inl EISDIR | _ \<Rightarrow> Inr '''') = Inr b" and ne: "b \<noteq> ''''"
    using assms by (auto simp: ReadFile_def unless_error_def in_files_Inr run_simps sys_open_def sys_read_all_def peek_Inr split: option.splits if_splits)
  then have "node_at (sy_files s) i = Some (Regular b)" by (auto split: option.splits node.splits)
  then show ?thesis using i by (auto simp: open_inode_def split: sum.splits option.splits node.splits if_splits)
qed

lemma ReadUnit_same:
  assumes "direct m" and "ReadUnit m u E n s = (r, n', s')"
  shows "s' = s"
proof -
  have r: "readonly (in_files x)" if "readonly x" for x :: "'a fs_prog"
    using that by (auto simp: readonly_def in_files_def split: prod.splits)
  have p: "readonly (peek f)" for f :: "filesystem \<Rightarrow> go_error + 'b" by (auto simp: readonly_def peek_def sql_def split: sum.splits if_splits)
  have "readonly (ReadUnit m u)" using assms(1)
    by (simp add: ReadUnit_def ReadFile_def unless_error_def ignoring_def sys_open_def sys_read_all_def sys_close_def prog_rules r p split: option.splits)
  then show ?thesis using assms(2) by (rule readonlyD)
qed

lemma Render_nonempty: "Render p = Inr doc \<Longrightarrow> doc \<noteq> ''''"
  by (auto simp: Render_def unit_lines_def unit_head_def unlines_def split: option.splits)

lemma UnitName_valid: "ValidateUnitName UnitName = None"
  by code_simp

lemma file_of_regular: "i_node (file_of A b opts) = Regular b"
  by (simp add: file_of_def owned_def new_file_def split: sum.splits)

text \<open>The two ends of \<^verbatim>\<open>sync\<close> when it was asked to create the unit: the content was right already, or it was written.\<close>

lemma sync_ends:
  assumes m: "direct m" and run: "unit_sync m p True E n s = (Inr changed, n', s')" and doc: "Render p = Inr doc"
  shows "(\<exists>k t. ReadUnit m UnitName E n s = (Inr doc, k, t)) \<and> sy_files s' = sy_files s \<or>
    (\<exists>k l t. WriteUnit m UnitName doc E k s = (Inr (), l, t) \<and> sy_files s' = sy_files t)"
proof -
  obtain current n1 s1 where c: "handle (bnd (ReadUnit m UnitName) (\<lambda>c. ret (Some c))) (\<lambda>e. if errors_is e ErrNotExist then ret None else throw (EWrap ''read unit'' e)) E n s = (Inr current, n1, s1)"
    and rest: "(if (case current of None \<Rightarrow> '''' | Some c \<Rightarrow> c) = doc then
           bnd (handle (NeedsReload m UnitName) (\<lambda>_. ret False)) (\<lambda>pending.
           if pending then bnd (map_err (EWrap ''reload systemd'') (DaemonReload m)) (\<lambda>_. ret False) else ret False)
         else bnd (map_err (EWrap ''write unit'') (WriteUnit m UnitName doc)) (\<lambda>_.
           bnd (map_err (EWrap ''reload systemd'') (DaemonReload m)) (\<lambda>_.
           ret True))) E n1 s1 = (Inr changed, n', s')"
    using run doc unfolding unit_sync_def by (auto simp: bnd_Inr)
  have s1: "s1 = s" "current = Some x \<Longrightarrow> \<exists>k t. ReadUnit m UnitName E n s = (Inr x, k, t)" for x
    using c ReadUnit_same [OF m] by (auto simp: run_simps split: if_splits)
  show ?thesis
  proof (cases "(case current of None \<Rightarrow> '''' | Some c \<Rightarrow> c) = doc")
    case True
    have same: "same_files (bnd (handle (NeedsReload m UnitName) (\<lambda>_. ret False)) (\<lambda>pending.
        if pending then bnd (map_err (EWrap ''reload systemd'') (DaemonReload m)) (\<lambda>_. ret False) else ret False))"
      by (auto intro!: same_files_bnd same_files_handle same_files_basic same_files_reload)
    have "sy_files s' = sy_files s" using rest True s1(1) same_filesD [OF same] by simp
    moreover have "current = Some doc" using True Render_nonempty [OF doc] by (cases current) auto
    ultimately show ?thesis using s1(2) by blast
  next
    case False
    then obtain l t where "WriteUnit m UnitName doc E n1 s = (Inr (), l, t)" "DaemonReload m E l t = (Inr (), n', s')"
      using rest s1(1) by (auto simp: run_simps)
    then show ?thesis using same_filesD [OF same_files_reload(1)] by blast
  qed
qed

text \<open>
  After a successful \<^verbatim>\<open>install-unit\<close> whoever opens the unit file reads the rendered template, whether the file was there before, was stale or
  was missing.
\<close>

theorem installed_unit_is_rendered:
  assumes m: "direct m" and at: "units_at (sy_files s) d" and E: "plain_names E"
    and pl: "\<forall>j. entry (sy_files s) d UnitName = Some j \<longrightarrow> plain (sy_files s) j"
    and run: "EnsureInstalled m p E n s = (Inr (), n', s')"
  shows "\<exists>doc i. Render p = Inr doc \<and> resolve (sy_files s') (unit_path UnitName) True = Inr i \<and> node_at (sy_files s') i = Some (Regular doc)"
proof -
  obtain changed where sync: "unit_sync m p True E n s = (Inr changed, n', s')" using run by (auto simp: EnsureInstalled_def run_simps)
  then obtain doc where doc: "Render p = Inr doc" by (cases "Render p") (auto simp: unit_sync_def run_simps)
  note par = unit_parent [OF at UnitName_valid]
  consider k t where "ReadUnit m UnitName E n s = (Inr doc, k, t)" "sy_files s' = sy_files s" |
      k l t where "WriteUnit m UnitName doc E k s = (Inr (), l, t)" "sy_files s' = sy_files t" using sync_ends [OF m sync doc] by blast
  then show ?thesis
  proof cases
    case 1
    then obtain b k where "ReadFile m (unit_path UnitName) E n s = (Inr b, k, t)" "doc = (case b of None \<Rightarrow> '''' | Some c \<Rightarrow> c)"
      by (auto simp: ReadUnit_def UnitName_valid unless_error_def run_simps)
    then show ?thesis using ReadFile_found [OF m, of _ E n s doc] Render_nonempty [OF doc] doc 1(2) by (cases b) auto
  next
    case 2
    then obtain rep: "replaced (sy_files s) d UnitName (file_of (fm_accounts m) doc unit_options) (sy_files s')"
      using WriteUnit_confined [OF m at E pl 2(1)] by (auto simp: written_def)
    let ?i = "fs_next (sy_files s)"
    have "fs_ok (sy_files s)" using at by (simp add: units_at_def)
    then have "resolve_parent (sy_files s') (unit_path UnitName) = Inr (d, UnitName)" using resolve_parent_same [OF replaced_ways [OF _ rep pl] par] by blast
    moreover have "entry (sy_files s') d UnitName = Some ?i" "fs_inode (sy_files s') ?i = Some (file_of (fm_accounts m) doc unit_options)"
      using rep by (simp_all add: replaced_def)
    moreover have n: "node_at (sy_files s') ?i = Some (Regular doc)" using calculation(3) by (simp add: node_at_def file_of_regular)
    ultimately show ?thesis using resolve_child [of "sy_files s'" "unit_path UnitName" d UnitName ?i True] doc by auto
  qed
qed

end
