(* ===== verification/Server_Config.thy ===== *)
theory Server_Config
  imports Agent_Enroll Server_Requests
begin

text \<open>
  How the server starts and what is in front of its handlers: \<^verbatim>\<open>server/cmd/cadestro/config.go\<close>, \<^verbatim>\<open>ca.New\<close> of
  \<^verbatim>\<open>server/internal/ca\<close>, the routing of \<^verbatim>\<open>main.go\<close> and \<^verbatim>\<open>server/internal/middleware\<close>. The environment variables, \<^verbatim>\<open>url.Parse\<close>,
  \<^verbatim>\<open>time.ParseDuration\<close> and the decoders of keys are parameters; the files are those of \<open>Unix_Fs\<close>.
\<close>

section \<open>Configuration\<close>

record server_config =
  PublicListen :: string
  AgentListen :: string
  PublicBaseURL :: string
  AgentURL :: string
  CORSOrigins :: "string list"
  LogLevel :: string
  LogFormat :: string
  CertificateValidity :: int \<comment> \<open>nanoseconds\<close>
  HeartbeatInterval :: int
  CACertFile :: string
  CAKeyFile :: string
  AgentTLSCertFile :: string
  AgentTLSKeyFile :: string
  PublicTLSCertFile :: string
  PublicTLSKeyFile :: string
  DatabasePath :: string
  SessionSigningKey :: bytes
  BootstrapOIDCName :: string
  BootstrapOIDCSlug :: string
  BootstrapOIDCClientID :: string
  BootstrapOIDCIssuer :: string
  BootstrapOIDCScopes :: "string list"

type_synonym environ = "string \<Rightarrow> string" \<comment> \<open>\<^verbatim>\<open>os.Getenv\<close>\<close>

definition environment :: "environ \<Rightarrow> string \<Rightarrow> string \<Rightarrow> string" where
  "environment V name fallback = (let v = TrimSpace (V name) in if v \<noteq> '''' then v else fallback)"

definition durationEnvironment :: "environ \<Rightarrow> (string \<Rightarrow> int option) \<Rightarrow> string \<Rightarrow> int \<Rightarrow> go_error + int" where
  "durationEnvironment V parse name fallback = (let v = TrimSpace (V name) in
     if v = '''' then Inr fallback
     else (case parse v of
       None \<Rightarrow> Inl (EText (name @ '' must be a positive duration''))
     | Some d \<Rightarrow> if d \<le> 0 then Inl (EText (name @ '' must be a positive duration'')) else Inr d))"

definition listEnvironment :: "environ \<Rightarrow> string \<Rightarrow> string list \<Rightarrow> string list" where
  "listEnvironment V name fallback = (let v = TrimSpace (V name) in
     if v = '''' then fallback else filter (\<lambda>x. x \<noteq> '''') (map TrimSpace (Split v (CHR '',''))))"

definition readPrivateFile :: "string \<Rightarrow> bytes fs_prog" where
  "readPrivateFile path = (
     if path = '''' then throw (EText ''private file path is required'')
     else bnd (sys_stat path) (\<lambda>info.
       if \<not> is_regular info \<or> i_mode info AND 0x3F \<noteq> 0 then throw (EText ''private file must be regular and not group/world accessible'')
       else bnd (os_ReadFile path) (\<lambda>v.
         if length v > 65536 then throw (EText ''private file is too large'') else ret v)))"

definition loadSessionKey :: "device_crypto \<Rightarrow> string \<Rightarrow> bytes fs_prog" where
  "loadSessionKey K path = bnd (readPrivateFile path) (\<lambda>v.
     case dc_pem_decode K v of
       None \<Rightarrow> throw (EText ''session signing key must contain one PEM block'')
     | Some (_, b, rest) \<Rightarrow>
         if TrimSpace rest \<noteq> '''' then throw (EText ''session signing key must contain one PEM block'')
         else (case dc_parse_key K b of
           None \<Rightarrow> throw (EWrap ''parse session signing key'' (EText ''x509''))
         | Some None \<Rightarrow> throw (EText ''session signing key must be Ed25519'')
         | Some (Some key) \<Rightarrow> ret key))"

definition validateHTTPS :: "url_parser \<Rightarrow> string \<Rightarrow> string \<Rightarrow> go_error option" where
  "validateHTTPS parse name v = map_option (EWrap name) (ValidateHTTPSURL parse v)"

definition cors_origin :: "url_parser \<Rightarrow> string \<Rightarrow> bool" where
  "cors_origin parse origin = (case parse origin of None \<Rightarrow> False
   | Some u \<Rightarrow> url_scheme u = ''https'' \<and> url_host u \<noteq> '''' \<and> \<not> url_has_user u \<and> url_path u = '''' \<and> url_raw_query u = '''' \<and> url_fragment u = '''')"

text \<open>Go ranges over the map of the six files in any order; here the first missing one in the order of the source is reported.\<close>

definition required_files :: "server_config \<Rightarrow> (string \<times> string) list" where
  "required_files c = [(''CADESTRO_CA_CERT_FILE'', CACertFile c), (''CADESTRO_CA_KEY_FILE'', CAKeyFile c),
     (''CADESTRO_AGENT_TLS_CERT_FILE'', AgentTLSCertFile c), (''CADESTRO_AGENT_TLS_KEY_FILE'', AgentTLSKeyFile c),
     (''CADESTRO_PUBLIC_TLS_CERT_FILE'', PublicTLSCertFile c), (''CADESTRO_PUBLIC_TLS_KEY_FILE'', PublicTLSKeyFile c)]"

definition check_config :: "url_parser \<Rightarrow> server_config \<Rightarrow> go_error option" where
  "check_config parse c = (
     if PublicListen c = AgentListen c then Some (EText ''public and agent listeners must be distinct'')
     else case validateHTTPS parse ''CADESTRO_PUBLIC_BASE_URL'' (PublicBaseURL c) of Some e \<Rightarrow> Some e
     | None \<Rightarrow> (case validateHTTPS parse ''CADESTRO_AGENT_URL'' (AgentURL c) of Some e \<Rightarrow> Some e
       | None \<Rightarrow>
         if \<not> list_all (cors_origin parse) (CORSOrigins c) then Some (EText ''invalid CORS origin'')
         else if \<not> IsAbs (DatabasePath c) then Some (EText ''database path must be absolute'')
         else map_option (\<lambda>(name, _). EText (name @ '' is required'')) (find (\<lambda>(_, path). path = '''') (required_files c))))"

definition config_of :: "environ \<Rightarrow> int \<Rightarrow> int \<Rightarrow> bytes \<Rightarrow> server_config" where
  "config_of V validity heartbeat key = (let e = environment V in
     \<lparr>PublicListen = e ''CADESTRO_PUBLIC_LISTEN'' '':8081'', AgentListen = e ''CADESTRO_AGENT_LISTEN'' '':8082'',
      PublicBaseURL = e ''CADESTRO_PUBLIC_BASE_URL'' '''', AgentURL = e ''CADESTRO_AGENT_URL'' '''',
      CORSOrigins = listEnvironment V ''CADESTRO_CORS_ORIGINS'' [], LogLevel = e ''CADESTRO_LOG_LEVEL'' ''info'',
      LogFormat = e ''CADESTRO_LOG_FORMAT'' ''json'', CertificateValidity = validity, HeartbeatInterval = heartbeat,
      CACertFile = e ''CADESTRO_CA_CERT_FILE'' '''', CAKeyFile = e ''CADESTRO_CA_KEY_FILE'' '''',
      AgentTLSCertFile = e ''CADESTRO_AGENT_TLS_CERT_FILE'' '''', AgentTLSKeyFile = e ''CADESTRO_AGENT_TLS_KEY_FILE'' '''',
      PublicTLSCertFile = e ''CADESTRO_PUBLIC_TLS_CERT_FILE'' '''', PublicTLSKeyFile = e ''CADESTRO_PUBLIC_TLS_KEY_FILE'' '''',
      DatabasePath = e ''CADESTRO_DATABASE_PATH'' ''/var/lib/cadestro/control.db'', SessionSigningKey = key,
      BootstrapOIDCName = e ''CADESTRO_OIDC_NAME'' ''Company SSO'', BootstrapOIDCSlug = e ''CADESTRO_OIDC_SLUG'' ''sso'',
      BootstrapOIDCClientID = e ''CADESTRO_OIDC_CLIENT_ID'' '''', BootstrapOIDCIssuer = e ''CADESTRO_OIDC_ISSUER_URL'' '''',
      BootstrapOIDCScopes = listEnvironment V ''CADESTRO_OIDC_SCOPES'' [''openid'', ''profile'', ''email'']\<rparr>)"

definition loadConfig :: "environ \<Rightarrow> (string \<Rightarrow> int option) \<Rightarrow> url_parser \<Rightarrow> device_crypto \<Rightarrow> server_config fs_prog" where
  "loadConfig V duration parse K =
     bnd (lift_sum (durationEnvironment V duration ''CADESTRO_CERTIFICATE_VALIDITY'' 31536000000000000)) (\<lambda>validity.
     bnd (lift_sum (durationEnvironment V duration ''CADESTRO_HEARTBEAT_INTERVAL'' 30000000000)) (\<lambda>heartbeat.
     bnd (map_err (EWrap ''CADESTRO_SESSION_SIGNING_KEY_FILE'') (loadSessionKey K (environment V ''CADESTRO_SESSION_SIGNING_KEY_FILE'' ''''))) (\<lambda>key.
     case check_config parse (config_of V validity heartbeat key) of
       Some e \<Rightarrow> throw e | None \<Rightarrow> ret (config_of V validity heartbeat key))))"

section \<open>The certificate authority\<close>

text \<open>
  The keys of \<^verbatim>\<open>crypto/x509\<close>: \<open>km_certificate_key\<close> and \<open>km_public\<close> are \<^verbatim>\<open>MarshalPKIXPublicKey\<close> of the key in a certificate and of the public half
  of a private key, \<open>km_signer\<close> the operations with a given CA certificate and key.
\<close>

record key_material =
  km_crypto :: device_crypto
  km_certificate_key :: "bytes \<Rightarrow> bytes option"
  km_public :: "bytes \<Rightarrow> bytes option"
  km_signer :: "bytes \<Rightarrow> bytes \<Rightarrow> x509"

definition NewFromPEM :: "key_material \<Rightarrow> bytes \<Rightarrow> bytes \<Rightarrow> int \<Rightarrow> go_error + ca" where
  "NewFromPEM M certPEM keyPEM validity = (let K = km_crypto M in
     case dc_pem_decode K certPEM of None \<Rightarrow> Inl (EText ''failed to decode CA certificate PEM'')
   | Some (_, cert, _) \<Rightarrow>
     if dc_parse_certificate K cert = None then Inl (EWrap ''parse CA certificate'' (EText ''x509''))
     else (case dc_pem_decode K keyPEM of None \<Rightarrow> Inl (EText ''failed to decode CA key PEM'')
     | Some (_, der, _) \<Rightarrow> (case dc_parse_key K der of
         None \<Rightarrow> Inl (EWrap ''parse CA key'' (EText ''x509''))
       | Some None \<Rightarrow> Inl (EText ''unsupported CA signing key type: Ed25519 is required'')
       | Some (Some key) \<Rightarrow> (case km_certificate_key M cert of
           None \<Rightarrow> Inl (EWrap ''marshal CA certificate public key'' (EText ''x509''))
         | Some certPublic \<Rightarrow> (case km_public M key of
             None \<Rightarrow> Inl (EWrap ''marshal CA private-key public key'' (EText ''x509''))
           | Some keyPublic \<Rightarrow>
               if certPublic \<noteq> keyPublic then Inl (EText ''CA certificate and private key do not match'')
               else Inr \<lparr>ca_x509 = km_signer M cert key, ca_raw = cert, ca_validity = validity\<rparr>)))))"

definition ca_New :: "key_material \<Rightarrow> string \<Rightarrow> string \<Rightarrow> int \<Rightarrow> ca fs_prog" where
  "ca_New M certPath keyPath validity =
     bnd (map_err (EWrap ''read CA certificate'') (os_ReadFile certPath)) (\<lambda>certPEM.
     bnd (map_err (EWrap ''stat CA key'') (sys_stat keyPath)) (\<lambda>info.
     if i_mode info AND 0x3F \<noteq> 0 then throw (EText ''CA private key file must not be group/world accessible'')
     else bnd (map_err (EWrap ''read CA key'') (os_ReadFile keyPath)) (\<lambda>keyPEM.
       lift_sum (NewFromPEM M certPEM keyPEM validity))))"

end
