(* ===== verification/Server_Http.thy ===== *)
theory Server_Http
  imports Server_Config
begin

text \<open>
  The HTTP side of the server: the middleware (\<^verbatim>\<open>server/internal/middleware\<close>), the two roots that \<^verbatim>\<open>buildServers\<close> makes and the start of
  the process (\<^verbatim>\<open>run\<close> up to the point where the listeners accept). A handler changes the response it writes and the state behind it; the
  handlers of the procedures come from \<^verbatim>\<open>connect\<close> and are parameters here.
\<close>

section \<open>Requests, responses, handlers\<close>

text \<open>\<open>hr_header\<close> is \<^verbatim>\<open>r.Header.Get\<close>, empty for a header that is not there; \<open>hr_tls\<close> the peer certificates of a TLS connection.\<close>

record http_request =
  hr_method :: string
  hr_path :: string
  hr_header :: "string \<Rightarrow> string"
  hr_tls :: "certificate list option"

type_synonym headers = "string \<Rightarrow> string list"

text \<open>What is sent is fixed by the first \<^verbatim>\<open>WriteHeader\<close>: later changes of the headers have no effect.\<close>

record http_writer =
  hw_header :: headers
  hw_sent :: "(int \<times> headers) option"
  hw_body :: string

type_synonym 's http_handler = "http_request \<Rightarrow> http_writer \<times> 's \<Rightarrow> http_writer \<times> 's"

definition header_Set :: "string \<Rightarrow> string \<Rightarrow> http_writer \<Rightarrow> http_writer" where
  "header_Set name v w = w\<lparr>hw_header := (hw_header w)(name := [v])\<rparr>"

definition header_Add :: "string \<Rightarrow> string \<Rightarrow> http_writer \<Rightarrow> http_writer" where
  "header_Add name v w = w\<lparr>hw_header := (hw_header w)(name := hw_header w name @ [v])\<rparr>"

definition WriteHeader :: "int \<Rightarrow> http_writer \<Rightarrow> http_writer" where
  "WriteHeader code w = (case hw_sent w of None \<Rightarrow> w\<lparr>hw_sent := Some (code, hw_header w)\<rparr> | Some _ \<Rightarrow> w)"

definition write_body :: "string \<Rightarrow> http_writer \<Rightarrow> http_writer" where
  "write_body b w = (let v = WriteHeader 200 w in v\<lparr>hw_body := hw_body v @ b\<rparr>)"

definition http_Error :: "string \<Rightarrow> int \<Rightarrow> http_writer \<Rightarrow> http_writer" where
  "http_Error t code w = write_body (t @ [newline]) (WriteHeader code
     (header_Set ''X-Content-Type-Options'' ''nosniff'' (header_Set ''Content-Type'' ''text/plain; charset=utf-8'' w)))"

definition fresh_writer :: http_writer where
  "fresh_writer = \<lparr>hw_header = (\<lambda>_. []), hw_sent = None, hw_body = ''''\<rparr>"

section \<open>Middleware\<close>

definition corsAllowMethods :: string where "corsAllowMethods = ''GET, POST, PUT, DELETE, OPTIONS''"
definition corsAllowHeaders :: string where
  "corsAllowHeaders = ''Accept, Authorization, Content-Type, Connect-Protocol-Version, Connect-Timeout-Ms''"
definition corsExposeHeaders :: string where "corsExposeHeaders = ''Connect-Content-Encoding, Connect-Protocol-Version''"
definition corsMaxAge :: string where "corsMaxAge = ''86400''"

definition preflight :: "http_writer \<Rightarrow> http_writer" where
  "preflight w = WriteHeader 204
     (header_Add ''Vary'' ''Access-Control-Request-Headers''
     (header_Add ''Vary'' ''Access-Control-Request-Method''
     (header_Set ''Access-Control-Max-Age'' corsMaxAge
     (header_Set ''Access-Control-Expose-Headers'' corsExposeHeaders
     (header_Set ''Access-Control-Allow-Headers'' corsAllowHeaders
     (header_Set ''Access-Control-Allow-Methods'' corsAllowMethods
     (header_Add ''Vary'' ''Origin'' w)))))))"

definition CORS :: "string list \<Rightarrow> 's http_handler \<Rightarrow> 's http_handler" where
  "CORS allowedOrigins nxt r ws = (let (w, s) = ws; origin = hr_header r ''Origin'' in
     if origin \<noteq> '''' \<and> origin \<notin> set allowedOrigins then
       if hr_method r = ''OPTIONS'' then (WriteHeader 403 w, s) else nxt r (w, s)
     else
       let w = (if origin \<noteq> '''' then header_Set ''Access-Control-Allow-Credentials'' ''true'' (header_Set ''Access-Control-Allow-Origin'' origin w) else w) in
       if hr_method r = ''OPTIONS'' then (preflight w, s)
       else nxt r (header_Set ''Access-Control-Expose-Headers'' corsExposeHeaders (header_Add ''Vary'' ''Origin'' w), s))"

definition contentSecurityPolicy :: string where
  "contentSecurityPolicy = ''default-src 'self'; '' @ ''script-src 'self'; '' @ ''style-src 'self' 'unsafe-inline'; '' @ ''img-src 'self' data:; '' @
     ''connect-src 'self'; '' @ ''frame-ancestors 'none'; '' @ ''base-uri 'self'; '' @ ''form-action 'self'' @ [CHR 0x27]"

definition secured :: "http_request \<Rightarrow> http_writer \<Rightarrow> http_writer" where
  "secured r w = (let w =
     header_Set ''Content-Security-Policy'' contentSecurityPolicy
     (header_Set ''Permissions-Policy'' ''camera=(), microphone=(), geolocation=()''
     (header_Set ''X-XSS-Protection'' ''0''
     (header_Set ''Referrer-Policy'' ''strict-origin-when-cross-origin''
     (header_Set ''X-Content-Type-Options'' ''nosniff''
     (header_Set ''X-Frame-Options'' ''DENY'' w))))) in
     if hr_tls r \<noteq> None \<or> hr_header r ''X-Forwarded-Proto'' = ''https''
     then header_Set ''Strict-Transport-Security'' ''max-age=31536000; includeSubDomains'' w else w)"

definition SecurityHeaders :: "'s http_handler \<Rightarrow> 's http_handler" where
  "SecurityHeaders nxt r ws = nxt r (secured r (fst ws), snd ws)"

section \<open>The two roots\<close>

definition health :: "'s http_handler" where
  "health r ws = (write_body (''ok'' @ [newline]) (WriteHeader 200 (header_Set ''Content-Type'' ''text/plain; charset=utf-8'' (fst ws))), snd ws)"

definition NotFound :: "'s http_handler" where
  "NotFound r ws = (http_Error ''404 page not found'' 404 (fst ws), snd ws)"

text \<open>\<^verbatim>\<open>ServeMux\<close> on a path in its canonical form.\<close>

definition public_mux :: "'s http_handler \<Rightarrow> 's http_handler" where
  "public_mux service r ws = (
     if hr_path r = ''/health'' \<or> hr_path r = ''/ready'' then health r ws
     else if HasPrefix (hr_path r) ''/cadestro.v1.ControlService/'' then service r ws
     else NotFound r ws)"

definition public_root :: "server_config \<Rightarrow> 's http_handler \<Rightarrow> 's http_handler" where
  "public_root c service = SecurityHeaders (CORS (CORSOrigins c) (public_mux service))"

text \<open>The handlers of the agent's listener see the identity that the middleware put into the context.\<close>

definition agent_mux :: "(go_ctx \<Rightarrow> 's http_handler) \<Rightarrow> (go_ctx \<Rightarrow> 's http_handler) \<Rightarrow> go_ctx \<Rightarrow> 's http_handler" where
  "agent_mux agent renew ctx r ws = (
     if hr_path r = ''/health'' \<or> hr_path r = ''/ready'' then health r ws
     else if hr_path r = control ''RenewCertificate'' then renew ctx r ws
     else if HasPrefix (hr_path r) ''/cadestro.v1.AgentService/'' then agent ctx r ws
     else NotFound r ws)"

definition agent_root :: "(go_ctx \<Rightarrow> 's http_handler) \<Rightarrow> (go_ctx \<Rightarrow> 's http_handler) \<Rightarrow> 's http_handler" where
  "agent_root agent renew r ws = (case AgentMiddleware (hr_path r) (hr_tls r) background of
     HttpError code t \<Rightarrow> (http_Error t (int code) (fst ws), snd ws)
   | Served ctx \<Rightarrow> agent_mux agent renew ctx r ws)"

section \<open>Starting\<close>

record server_host =
  sh_files :: filesystem
  sh_db :: srv_db

definition on_files :: "'a fs_prog \<Rightarrow> (server_host, 'a) prog" where
  "on_files m = (\<lambda>E n s. case m E n (sh_files s) of (r, n', F) \<Rightarrow> (r, n', s\<lparr>sh_files := F\<rparr>))"

definition on_database :: "'a srv \<Rightarrow> (server_host, 'a) prog" where
  "on_database m = (\<lambda>E n s. case m E n (sh_db s) of (r, n', d) \<Rightarrow> (r, n', s\<lparr>sh_db := d\<rparr>))"

text \<open>\<open>open_db\<close> is the driver's opening of the file, \<open>migrate\<close> what \<^verbatim>\<open>goose.UpContext\<close> does.\<close>

definition store_New :: "(server_host, unit) prog \<Rightarrow> (server_host, unit) prog \<Rightarrow> string \<Rightarrow> (server_host, unit) prog" where
  "store_New open_db migrate path = (
     if path = '''' \<or> \<not> IsAbs path \<or> list_ex (\<lambda>c. c = CHR ''?'' \<or> c = CHR ''#'') path
     then throw (EText ''database path must be an absolute SQLite file path'')
     else bnd (map_err (EWrap ''create database directory'') (on_files (MkdirAll (path_Dir path) 0x1C0))) (\<lambda>_.
       bnd (map_err (EWrap ''open database'') open_db) (\<lambda>_.
       bnd (map_err (EWrap ''apply migrations'') migrate) (\<lambda>_.
       map_err (EWrap ''restrict database permissions'') (on_files (sys_chmod path 0x180))))))"

definition core_New :: "codec \<Rightarrow> ca option \<Rightarrow> bool \<Rightarrow> string \<Rightarrow> string \<Rightarrow> string \<Rightarrow> int \<Rightarrow> go_error + service" where
  "core_New C A present publicBaseURL agentURL fingerprint heartbeat = (case A of
     Some a \<Rightarrow>
       if \<not> present then Inl (EText ''core: store, CA, and JWT manager are required'')
       else Inr \<lparr>svc_codec = C, svc_ca = a, svc_public_base_url = publicBaseURL, svc_agent_url = agentURL, svc_ca_fingerprint = fingerprint,
         svc_heartbeat = (if heartbeat \<le> 0 then 30000000000 else heartbeat)\<rparr>
   | None \<Rightarrow> Inl (EText ''core: store, CA, and JWT manager are required''))"

record listener =
  ln_addr :: string
  ln_certificate :: bytes
  ln_client_ca :: "bytes option" \<comment> \<open>\<^verbatim>\<open>RequireAndVerifyClientCert\<close> with this CA the only root\<close>

definition key_pair :: "device_crypto \<Rightarrow> string \<Rightarrow> string \<Rightarrow> bytes fs_prog" where
  "key_pair K certFile keyFile = bnd (os_ReadFile certFile) (\<lambda>cert. bnd (os_ReadFile keyFile) (\<lambda>key.
     if dc_key_pair K cert key then ret cert else throw (EText ''tls'')))"

definition buildServers :: "device_crypto \<Rightarrow> server_config \<Rightarrow> ca \<Rightarrow> (listener \<times> listener) fs_prog" where
  "buildServers K c A =
     bnd (map_err (EWrap ''public TLS key'') (readPrivateFile (PublicTLSKeyFile c))) (\<lambda>_.
     bnd (map_err (EWrap ''load public TLS certificate'') (key_pair K (PublicTLSCertFile c) (PublicTLSKeyFile c))) (\<lambda>publicCertificate.
     bnd (map_err (EWrap ''agent TLS key'') (readPrivateFile (AgentTLSKeyFile c))) (\<lambda>_.
     bnd (map_err (EWrap ''load agent TLS certificate'') (key_pair K (AgentTLSCertFile c) (AgentTLSKeyFile c))) (\<lambda>agentCertificate.
     ret (\<lparr>ln_addr = PublicListen c, ln_certificate = publicCertificate, ln_client_ca = None\<rparr>,
          \<lparr>ln_addr = AgentListen c, ln_certificate = agentCertificate, ln_client_ca = Some (ca_raw A)\<rparr>)))))"

text \<open>
  \<^verbatim>\<open>run\<close> until both listeners accept. \<open>D\<close> has what comes from outside: the codec, the identity providers' library, the random numbers
  and the schema; \<open>signer key\<close> are the operations of the JWT library with a signing key.
\<close>

definition run_server :: "deployment \<Rightarrow> (bytes \<Rightarrow> jwt) \<Rightarrow> (server_host, unit) prog \<Rightarrow> (server_host, unit) prog \<Rightarrow> key_material \<Rightarrow> server_config \<Rightarrow>
    (server_host, deployment \<times> listener \<times> listener) prog" where
  "run_server D signer open_db migrate M c =
     bnd (map_err (EWrap ''open database'') (store_New open_db migrate (DatabasePath c))) (\<lambda>_.
     bnd (map_err (EWrap ''load certificate authority'') (on_files (ca_New M (CACertFile c) (CAKeyFile c) (CertificateValidity c)))) (\<lambda>A.
     bnd (map_err (EWrap ''load session signer'') (lift_sum (NewJWTManager (length (SessionSigningKey c) = 64)
         ((signer (SessionSigningKey c))\<lparr>jwt_access_expiry := 0, jwt_refresh_expiry := 0, jwt_issuer := ''''\<rparr>)))) (\<lambda>J.
     bnd (map_err (EWrap ''fingerprint certificate authority'') (lift_sum (CAFingerprintFromPEM (km_crypto M) (CACertPEM A)))) (\<lambda>fingerprint.
     bnd (map_err (EWrap ''initialize core service'') (lift_sum (core_New (svc_codec (dpl_service D)) (Some A) True (PublicBaseURL c) (AgentURL c) fingerprint
         (HeartbeatInterval c)))) (\<lambda>svc.
     bnd (map_err (EWrap ''bootstrap identity provider'') (on_database (EnsureBootstrapProvider (dpl_oidc D) svc
         \<lparr>bp_name = BootstrapOIDCName c, bp_slug = BootstrapOIDCSlug c, bp_client_id = BootstrapOIDCClientID c,
          bp_issuer_url = BootstrapOIDCIssuer c, bp_scopes = BootstrapOIDCScopes c\<rparr>))) (\<lambda>_.
     bnd (on_files (buildServers (km_crypto M) c A)) (\<lambda>(public, agent).
     ret (D\<lparr>dpl_service := svc, dpl_jwt := J\<rparr>, public, agent))))))))"

section \<open>What a configuration guarantees\<close>

definition sound_config :: "url_parser \<Rightarrow> server_config \<Rightarrow> bool" where
  "sound_config parse c \<longleftrightarrow> PublicListen c \<noteq> AgentListen c \<and>
     ValidateHTTPSURL parse (PublicBaseURL c) = None \<and> ValidateHTTPSURL parse (AgentURL c) = None \<and>
     (\<forall>x\<in>set (CORSOrigins c). cors_origin parse x) \<and> IsAbs (DatabasePath c) \<and>
     (\<forall>(name, path)\<in>set (required_files c). path \<noteq> '''') \<and> 0 < CertificateValidity c \<and> 0 < HeartbeatInterval c"

lemma check_config_iff: "check_config parse c = None \<longleftrightarrow> PublicListen c \<noteq> AgentListen c \<and>
    ValidateHTTPSURL parse (PublicBaseURL c) = None \<and> ValidateHTTPSURL parse (AgentURL c) = None \<and>
    (\<forall>x\<in>set (CORSOrigins c). cors_origin parse x) \<and> IsAbs (DatabasePath c) \<and> (\<forall>(name, path)\<in>set (required_files c). path \<noteq> '''')"
  by (auto simp: check_config_def validateHTTPS_def list_all_iff find_None_iff split: option.splits)

lemma durationEnvironment_positive: "0 < fallback \<Longrightarrow> durationEnvironment V p name fallback = Inr d \<Longrightarrow> 0 < d"
  by (auto simp: durationEnvironment_def Let_def split: if_splits option.splits)

lemma loadConfig_sound:
  assumes "loadConfig V duration parse K E n F = (Inr c, n', F')"
  shows "sound_config parse c"
proof -
  obtain validity heartbeat key where d: "durationEnvironment V duration ''CADESTRO_CERTIFICATE_VALIDITY'' 31536000000000000 = Inr validity"
      "durationEnvironment V duration ''CADESTRO_HEARTBEAT_INTERVAL'' 30000000000 = Inr heartbeat"
    and c: "check_config parse (config_of V validity heartbeat key) = None" "c = config_of V validity heartbeat key"
    using assms by (auto simp: loadConfig_def run_simps split: option.splits)
  then show ?thesis using durationEnvironment_positive [OF _ d(1)] durationEnvironment_positive [OF _ d(2)]
    by (simp add: sound_config_def check_config_iff config_of_def Let_def)
qed

section \<open>What a client sees\<close>

text \<open>A handler that leaves the headers of the middleware alone.\<close>

definition guard_headers :: "string list" where
  "guard_headers = [''X-Frame-Options'', ''X-Content-Type-Options'', ''Referrer-Policy'', ''Permissions-Policy'', ''Content-Security-Policy'',
     ''Strict-Transport-Security'', ''Access-Control-Allow-Origin'', ''Access-Control-Allow-Credentials'']"

definition leaves_guards :: "'s http_handler \<Rightarrow> bool" where
  "leaves_guards h \<longleftrightarrow> (\<forall>r w s w' s' code H. hw_sent w = None \<longrightarrow> h r (w, s) = (w', s') \<longrightarrow> hw_sent w' = Some (code, H) \<longrightarrow>
     (\<forall>k\<in>set guard_headers. H k = hw_header w k))"

lemmas writer_defs = header_Set_def header_Add_def WriteHeader_def write_body_def http_Error_def Let_def

definition carries_guards :: "http_request \<Rightarrow> headers \<Rightarrow> bool" where
  "carries_guards r H \<longleftrightarrow> H ''X-Frame-Options'' = [''DENY''] \<and> H ''X-Content-Type-Options'' = [''nosniff''] \<and>
     H ''Referrer-Policy'' = [''strict-origin-when-cross-origin''] \<and> H ''Content-Security-Policy'' = [contentSecurityPolicy] \<and>
     (hr_tls r \<noteq> None \<longrightarrow> H ''Strict-Transport-Security'' = [''max-age=31536000; includeSubDomains''])"

lemma secured_guarded: "carries_guards r (hw_header (secured r w))" "hw_sent (secured r w) = hw_sent w"
    "hw_header (secured r w) ''Access-Control-Allow-Origin'' = hw_header w ''Access-Control-Allow-Origin''"
    "hw_header (secured r w) ''Access-Control-Allow-Credentials'' = hw_header w ''Access-Control-Allow-Credentials''"
  by (simp_all add: carries_guards_def secured_def writer_defs)

lemma mux_guards:
  assumes "leaves_guards service" "hw_sent w = None" "carries_guards r (hw_header w)" "public_mux service r (w, s) = (w', s')" "hw_sent w' = Some (code, H)"
  shows "carries_guards r H" "H ''Access-Control-Allow-Origin'' = hw_header w ''Access-Control-Allow-Origin''"
    "H ''Access-Control-Allow-Credentials'' = hw_header w ''Access-Control-Allow-Credentials''"
proof -
  have "\<forall>k\<in>set guard_headers. H k = hw_header w k"
  proof -
    consider "health r (w, s) = (w', s')" | "service r (w, s) = (w', s')" | "NotFound r (w, s) = (w', s')"
      using assms(4) by (auto simp: public_mux_def split: if_splits)
    then show ?thesis
    proof cases
      case 1
      then show ?thesis using assms(2,5) by (auto simp: health_def writer_defs guard_headers_def)
    next
      case 2
      then show ?thesis using assms(1,2,5) unfolding leaves_guards_def by blast
    next
      case 3
      then show ?thesis using assms(2,3,5) by (auto simp: NotFound_def writer_defs guard_headers_def carries_guards_def)
    qed
  qed
  then show "carries_guards r H" "H ''Access-Control-Allow-Origin'' = hw_header w ''Access-Control-Allow-Origin''"
    "H ''Access-Control-Allow-Credentials'' = hw_header w ''Access-Control-Allow-Credentials''"
    using assms(3) by (simp_all add: guard_headers_def carries_guards_def)
qed

lemma mux_options:
  assumes "carries_guards r (hw_header w)" "hw_sent w = None"
    and "CORS origins (public_mux service) r (w, s) = (w', s')" "hr_method r = ''OPTIONS''"
  shows "s' = s" and "\<exists>code H. hw_sent w' = Some (code, H) \<and> carries_guards r H \<and>
      H ''Access-Control-Allow-Origin'' = (if hr_header r ''Origin'' \<noteq> '''' \<and> hr_header r ''Origin'' \<in> set origins then [hr_header r ''Origin''] else hw_header w ''Access-Control-Allow-Origin'') \<and>
      H ''Access-Control-Allow-Credentials'' = (if hr_header r ''Origin'' \<noteq> '''' \<and> hr_header r ''Origin'' \<in> set origins then [''true''] else hw_header w ''Access-Control-Allow-Credentials'') \<and>
      (hr_header r ''Origin'' \<noteq> '''' \<and> hr_header r ''Origin'' \<notin> set origins \<longrightarrow> code = 403)"
  using assms by (auto simp: CORS_def preflight_def writer_defs carries_guards_def split: if_splits)

lemma mux_other:
  assumes g: "carries_guards r (hw_header w)" and none: "hw_sent w = None" and s: "leaves_guards service"
    and run: "CORS origins (public_mux service) r (w, s) = (w', s')" "hr_method r \<noteq> ''OPTIONS''" "hw_sent w' = Some (code, H)"
  shows "carries_guards r H \<and>
      H ''Access-Control-Allow-Origin'' = (if hr_header r ''Origin'' \<noteq> '''' \<and> hr_header r ''Origin'' \<in> set origins then [hr_header r ''Origin''] else hw_header w ''Access-Control-Allow-Origin'') \<and>
      H ''Access-Control-Allow-Credentials'' = (if hr_header r ''Origin'' \<noteq> '''' \<and> hr_header r ''Origin'' \<in> set origins then [''true''] else hw_header w ''Access-Control-Allow-Credentials'')"
proof -
  let ?o = "hr_header r ''Origin''"
  define v where "v = (if ?o \<noteq> '''' \<and> ?o \<notin> set origins then w else
    header_Set ''Access-Control-Expose-Headers'' corsExposeHeaders (header_Add ''Vary'' ''Origin''
      (if ?o \<noteq> '''' then header_Set ''Access-Control-Allow-Credentials'' ''true'' (header_Set ''Access-Control-Allow-Origin'' ?o w) else w)))"
  have m: "public_mux service r (v, s) = (w', s')" using run(1,2) by (auto simp: CORS_def v_def Let_def split: if_splits)
  have v: "hw_sent v = None" "carries_guards r (hw_header v)" using none g by (simp_all add: v_def writer_defs carries_guards_def)
  have "hw_header v ''Access-Control-Allow-Origin'' = (if ?o \<noteq> '''' \<and> ?o \<in> set origins then [?o] else hw_header w ''Access-Control-Allow-Origin'')"
    "hw_header v ''Access-Control-Allow-Credentials'' = (if ?o \<noteq> '''' \<and> ?o \<in> set origins then [''true''] else hw_header w ''Access-Control-Allow-Credentials'')"
    by (simp_all add: v_def writer_defs)
  then show ?thesis using mux_guards [OF s v m run(3)] by metis
qed


section \<open>What a running server has checked\<close>

definition private_key :: "filesystem \<Rightarrow> string \<Rightarrow> bool" where
  "private_key F p \<longleftrightarrow> (\<exists>i. resolve F p True = Inr i \<and> i_mode (inode_of F i) AND 0x3F = 0)"

lemma readonly_peek [prog_rules]: "readonly (peek f)"
  by (auto simp: readonly_def peek_def sql_def split: sum.splits if_splits)

lemma readonly_os_ReadFile [prog_rules]: "readonly (os_ReadFile p)"
  by (simp add: os_ReadFile_def sys_open_def sys_read_all_def sys_close_def prog_rules)

lemma sys_stat_Inr: "sys_stat p E n F = (Inr x, n', F') \<Longrightarrow> F' = F \<and> (\<exists>i. resolve F p True = Inr i \<and> x = inode_of F i)"
  by (auto simp: sys_stat_def peek_def sql_def on_inr_def split: sum.splits if_splits)

lemma readPrivateFile_private: "readPrivateFile p E n F = (Inr v, n', F') \<Longrightarrow> F' = F \<and> private_key F p"
  by (auto simp: readPrivateFile_def private_key_def run_simps split: if_splits dest!: sys_stat_Inr readonlyD [OF readonly_os_ReadFile])

lemma ca_New_private: "ca_New M cert key validity E n F = (Inr A, n', F') \<Longrightarrow> F' = F \<and> private_key F key"
  by (auto simp: ca_New_def private_key_def run_simps split: if_splits dest!: sys_stat_Inr readonlyD [OF readonly_os_ReadFile])

lemma key_pair_Inr: "key_pair K c k E n F = (Inr v, n', F') \<Longrightarrow> F' = F"
  by (auto simp: key_pair_def run_simps split: if_splits dest!: readonlyD [OF readonly_os_ReadFile])

lemma buildServers_private:
  assumes "buildServers K c A E n F = (Inr (public, agent), n', F')"
  shows "F' = F \<and> private_key F (PublicTLSKeyFile c) \<and> private_key F (AgentTLSKeyFile c) \<and> ln_addr public = PublicListen c \<and> ln_addr agent = AgentListen c \<and>
    ln_client_ca agent = Some (ca_raw A)"
  using assms unfolding buildServers_def run_simps by (auto dest!: readPrivateFile_private key_pair_Inr)

lemma on_files_Inr: "on_files m E n s = (Inr x, n', s') \<longleftrightarrow> (\<exists>F. m E n (sh_files s) = (Inr x, n', F) \<and> s' = s\<lparr>sh_files := F\<rparr>)"
  by (auto simp: on_files_def split: prod.splits)

lemma on_database_files: "on_database m E n s = (r, n', s') \<Longrightarrow> sh_files s' = sh_files s"
  by (auto simp: on_database_def split: prod.splits)

text \<open>
  A server that accepts connections has two different listeners; the one for agents takes only client certificates of the authority that the
  service signs with, and no private key it has read is accessible to others.
\<close>

theorem running_server_checked:
  assumes config: "loadConfig V duration parse (km_crypto M) E0 n0 F0 = (Inr c, m0, F1)"
    and run: "run_server D signer open_db migrate M c E n s = (Inr (D', public, agent), n', s')"
  shows "ln_addr public \<noteq> ln_addr agent \<and> ln_client_ca agent = Some (ca_raw (svc_ca (dpl_service D'))) \<and>
    list_all (private_key (sh_files s')) [CAKeyFile c, PublicTLSKeyFile c, AgentTLSKeyFile c] \<and> jwt_access_expiry (dpl_jwt D') = 300000000000 \<and>
    svc_heartbeat (dpl_service D') = HeartbeatInterval c"
proof -
  have c: "PublicListen c \<noteq> AgentListen c" "0 < HeartbeatInterval c" using loadConfig_sound [OF config] by (simp_all add: sound_config_def)
  show ?thesis using run c
    by (auto simp: run_server_def run_simps on_files_Inr core_New_def NewJWTManager_def dest!: ca_New_private buildServers_private on_database_files split: if_splits)
qed

text \<open>A deployment in which these hypotheses hold: one listed origin, a key in \<^verbatim>\<open>/k\<close> and procedures that answer with 200.\<close>

definition demo_disk :: filesystem where
  "demo_disk = \<lparr>fs_inode = (\<lambda>i. if i = 0 then Some \<lparr>i_node = Directory 0 [(''k'', 1)], i_mode = 0x1ED, i_uid = 0, i_gid = 0\<rparr>
      else if i = 1 then Some \<lparr>i_node = Regular ''seed'', i_mode = 0x180, i_uid = 0, i_gid = 0\<rparr> else None),
     fs_next = 2, fs_cwd = 0, fs_noreplace = True\<rparr>"

definition demo_environ :: environ where
  "demo_environ name = (if name = ''CADESTRO_CORS_ORIGINS'' then ''https://app.example, https://b.example''
     else if name \<in> {''CADESTRO_PUBLIC_BASE_URL'', ''CADESTRO_AGENT_URL''} then ''https://c''
     else if name = ''CADESTRO_PUBLIC_LISTEN'' \<or> name = ''CADESTRO_AGENT_LISTEN'' \<or> name = ''CADESTRO_DATABASE_PATH'' \<or> name = ''CADESTRO_CERTIFICATE_VALIDITY'' \<or>
       name = ''CADESTRO_HEARTBEAT_INTERVAL'' then '''' else ''/k'')"

definition demo_url :: url_parser where
  "demo_url u = (if HasPrefix u ''https://'' then Some \<lparr>url_scheme = ''https'', url_opaque = '''', url_host = drop 8 u, url_has_user = False,
     url_fragment = '''', url_raw_fragment = '''', url_path = '''', url_raw_query = '''', url_query = (\<lambda>_. '''')\<rparr> else None)"

definition demo_keys :: device_crypto where
  "demo_keys = \<lparr>dc_pem_decode = (\<lambda>p. Some (''PRIVATE KEY'', p, [])), dc_pem_encode = (\<lambda>ty b. b), dc_parse_certificate = (\<lambda>b. None),
     dc_verify = (\<lambda>_ _ _. True), dc_signed_by = (\<lambda>_ _. True), dc_key_pair = (\<lambda>_ _. True), dc_cert_pool = (\<lambda>_. True),
     dc_generate_key = (\<lambda>_. None), dc_marshal_key = Some, dc_parse_key = (\<lambda>b. Some (Some b)),
     dc_create_request = (\<lambda>_ h k. None), dc_sha256 = (\<lambda>b. b)\<rparr>"

definition demo_calm :: env where
  "demo_calm = \<lparr>fault = (\<lambda>_. False), clock = (\<lambda>_. 0), ulid = (\<lambda>_. ''''), cancelled = (\<lambda>_. False)\<rparr>"

definition demo_config :: server_config where
  "demo_config = config_of demo_environ 31536000000000000 30000000000 ''seed''"

definition demo_request :: http_request where
  "demo_request = \<lparr>hr_method = ''POST'', hr_path = ''/cadestro.v1.ControlService/ListDevices'',
     hr_header = (\<lambda>k. if k = ''Origin'' then ''https://app.example'' else ''''), hr_tls = Some []\<rparr>"

definition demo_service :: "nat http_handler" where
  "demo_service r ws = (WriteHeader 200 (fst ws), Suc (snd ws))"

lemma demo_service_leaves: "leaves_guards demo_service"
  by (auto simp: leaves_guards_def demo_service_def WriteHeader_def)

lemma demo_walk: "resolve demo_disk ''/k'' True = Inr 1" "node_at demo_disk 1 = Some (Regular ''seed'')"
  by (simp_all add: resolve_def start_dir_def IsAbs_def HasPrefix_def entry_def entries_of_def is_dir_def node_at_def demo_disk_def)

lemma demo_read:
  "\<exists>n'. loadSessionKey demo_keys ''/k'' demo_calm n demo_disk = (Inr ''seed'', n', demo_disk)"
proof -
  have stat: "sys_stat ''/k'' demo_calm n demo_disk = (Inr (inode_of demo_disk 1), Suc n, demo_disk)"
    using demo_walk by (simp add: sys_stat_def peek_def sql_def on_inr_def demo_calm_def)
  have mode: "is_regular (inode_of demo_disk 1)" "i_mode (inode_of demo_disk 1) AND 0x3F = 0"
    by (simp_all add: inode_of_def demo_disk_def is_regular_def)
  obtain r m G where run: "os_ReadFile ''/k'' demo_calm (Suc n) demo_disk = (r, m, G)" by (rule prod_cases3)
  have "r = Inr ''seed''" "G = demo_disk" using os_ReadFile_run [OF demo_walk run] by (simp_all add: calm_def demo_calm_def)
  then show ?thesis using stat mode run
    by (simp add: loadSessionKey_def readPrivateFile_def bnd_def ret_def demo_keys_def TrimSpace_def TrimLeft_def TrimRight_def)
qed

lemma demo_checks: "check_config demo_url demo_config = None"
  by code_simp

lemma demo_loads: "\<exists>n'. loadConfig demo_environ (\<lambda>_. None) demo_url demo_keys demo_calm 0 demo_disk = (Inr demo_config, n', demo_disk)"
proof -
  have e: "environment demo_environ ''CADESTRO_SESSION_SIGNING_KEY_FILE'' '''' = ''/k''"
    "durationEnvironment demo_environ (\<lambda>_. None) ''CADESTRO_CERTIFICATE_VALIDITY'' 31536000000000000 = Inr 31536000000000000"
    "durationEnvironment demo_environ (\<lambda>_. None) ''CADESTRO_HEARTBEAT_INTERVAL'' 30000000000 = Inr 30000000000" by code_simp+
  obtain n' where r: "loadSessionKey demo_keys ''/k'' demo_calm 0 demo_disk = (Inr ''seed'', n', demo_disk)" using demo_read by blast
  show ?thesis using r demo_checks unfolding loadConfig_def e
    by (simp add: bnd_def lift_sum_def ret_def map_err_def handle_def demo_config_def [symmetric])
qed

lemma demo_sends: "\<exists>w H. public_root demo_config demo_service demo_request (fresh_writer, 0) = (w, 1) \<and> hw_sent w = Some (200, H) \<and>
    H ''Access-Control-Allow-Origin'' = [''https://app.example'']"
proof -
  have "hr_header demo_request ''Origin'' \<in> set (CORSOrigins demo_config)" by code_simp
  then show ?thesis by (simp add: public_root_def SecurityHeaders_def CORS_def public_mux_def demo_service_def demo_request_def HasPrefix_def
      writer_defs secured_def fresh_writer_def)
qed


end
