(* ===== verification/Spec2Isabelle.thy ===== *)
theory Spec2Isabelle
  imports Sdk_Props Server_Props Server_Session_Props Server_Device_Props Server_Listing_Props System_Props System_Agent_Examples
    Agent_Unit Server_Http
begin

text \<open>
  \<^bold>\<open>Cadestro\<close> manages a fleet of Linux devices. A server (\<^verbatim>\<open>server/\<close>) keeps devices, actions, groups, assignments, users and roles in SQLite
  and offers them to operators over a public listener; an agent (\<^verbatim>\<open>agent/\<close>) on every device enrols once, keeps a mutually
  authenticated stream to a second listener, pulls the actions assigned to its device, runs them on a schedule and reports the results.
  The agent changes the device through \<^verbatim>\<open>sdk/\<close> (processes, package managers, files, systemd units); both sides share
  \<^verbatim>\<open>contract/\<close> (messages, the stream client, the digest of an action).

  \<^bold>\<open>How programs are modelled.\<close> \<open>Prelude\<close> has Go errors as a datatype with wrapping and \<^verbatim>\<open>errors.Is\<close>, and programs: functions of an environment,
  an event counter and a state that return an error or a value with the new state. Every statement of the database driver, system call,
  clock reading and random draw takes one number, and the environment says which of them fail, what time it is and what is
  drawn, so "whatever fails" in a property ranges over every combination of failures. 64-bit arithmetic is written out
  with its wrap-around (\<open>wrap64\<close>), file modes are 32-bit words. \<open>GoStrings\<close>, \<open>GoPath\<close> and \<open>GoTime\<close> define what the code uses of
  \<^verbatim>\<open>strings\<close>, \<^verbatim>\<open>regexp\<close>, \<^verbatim>\<open>path/filepath\<close>, base64 and RFC 3339.

  \<^bold>\<open>Protocol\<close> (\<^verbatim>\<open>contract/\<close>).
  \<^item> \<open>Contract\<close>: messages as records and datatypes, \<^verbatim>\<open>ActionDigest\<close>; encoding and hashing are the parameter \<open>codec\<close> with \<open>codec_laws\<close>.
  \<^item> \<open>Contract_Client\<close>: \<^verbatim>\<open>client.go\<close>, the pending calls, their channels and \<^verbatim>\<open>SendActionResult\<close>.

  \<^bold>\<open>Agent.\<close>
  \<^item> \<open>Agent_Store\<close>, \<open>Agent_Reconcile\<close>, \<open>Agent_Runs\<close>, \<open>Agent_Store_Props\<close>: \<^verbatim>\<open>agent/internal/store\<close> with every statement; \<open>ReconcilePolicy\<close> refines
    a pure function, and every run begun is in progress, queued or acknowledged, in exactly one of them.
  \<^item> \<open>Agent_Executor\<close>, \<open>Agent_Scheduler\<close>, \<open>Agent_Exec_Props\<close>: \<^verbatim>\<open>agent/internal/executor\<close>, \<^verbatim>\<open>agent/internal/scheduler\<close> and the result sender; which processes
    an action may spawn, that due work leaves a result and that results leave in order.
  \<^item> \<open>Agent_Credentials\<close>, \<open>Agent_Cred_Props\<close>: \<^verbatim>\<open>agent/internal/credentials\<close> on the file system; a save that fails leaves complete credentials.
  \<^item> \<open>Agent_Crypto\<close>, \<open>Agent_Enroll\<close>, \<open>Agent_Enroll_Props\<close>: \<^verbatim>\<open>sdk/crypto\<close>, \<^verbatim>\<open>agent/internal/deviceauth\<close>, \<^verbatim>\<open>contract/url.go\<close> and the \<^verbatim>\<open>enroll\<close> command; the CA is
    the pinned one and an interrupted enrolment is continued with the same key.
  \<^item> \<open>Agent_Rotation\<close>, \<open>Agent_Rotation_Props\<close>: the connection loop of \<^verbatim>\<open>runtime.go\<close> and \<^verbatim>\<open>cert_rotation.go\<close>, one definition per phase of a turn. The
    invariant \<open>in_order\<close> (what the process holds and what the disk holds) is proved by \<open>hoare\<close> triples; \<open>control_plane\<close> and \<open>responsive_plane\<close>
    are the contracts of the server the loop relies on. \<open>backoff_bounded\<close> and \<open>renewal_due_in_time\<close> bound the waiting time and the renewal,
    with Go's floating-point product rounded as IEEE 754 does.
  \<^item> \<open>Agent_Unit\<close>: \<^verbatim>\<open>agent/internal/unit\<close> and \<^verbatim>\<open>install-unit\<close>; the rendered unit against the content policy, the confinement of the write, and
    what a successful installation leaves on the disk.

  \<^bold>\<open>Sdk.\<close>
  \<^item> \<open>Sys_Exec\<close>: \<^verbatim>\<open>sdk/sys/exec\<close>, the environment gate, escalation and the runner (locale \<open>runner_iface\<close>).
  \<^item> \<open>Pkg_Base\<close>, \<open>Pkg_Apt\<close>, \<open>Pkg_Dnf\<close>, \<open>Pkg_Pacman\<close>, \<open>Pkg_Zypper\<close>, \<open>Pkg_Manager\<close>, \<open>Sdk_Props\<close>: \<^verbatim>\<open>sdk/pkg\<close>; the locale \<open>pkg_manager\<close> is the
    contract of a backend, interpreted on all four.
  \<^item> \<open>Unix_Fs\<close>: inodes, directories, symbolic links and the system calls; \<open>Sys_Fs\<close>, \<open>Sys_Fs_Props\<close>, \<open>Sys_Fs_Safety\<close>, \<open>Sys_Fs_Remove\<close>,
    \<open>Sys_Fs_Examples\<close>: \<^verbatim>\<open>sdk/sys/fs\<close>, atomic replacement, the round trip, and removal that never leaves its tree.
  \<^item> \<open>Sys_Service\<close>: \<^verbatim>\<open>sdk/sys/service\<close>, unit names, \<^verbatim>\<open>systemctl\<close> calls, unit files and the policy on their content.

  \<^bold>\<open>Server.\<close>
  \<^item> \<open>Server_Store\<close>, \<open>Server_Invariant\<close>: the tables with keys, foreign keys and cascades, and every statement of \<^verbatim>\<open>store/generated\<close>.
  \<^item> \<open>Server_CA\<close>, \<open>Server_Service\<close>, \<open>Server_Auth\<close>: \<^verbatim>\<open>internal/ca\<close>, \<^verbatim>\<open>internal/mtls\<close>, \<^verbatim>\<open>core/service.go\<close> with paging (locale \<open>paged\<close>), and
    \<^verbatim>\<open>internal/auth\<close>.
  \<^item> \<open>Server_Actions\<close>, \<open>Server_Assignments\<close>, \<open>Server_Devices\<close>, \<open>Server_Roles\<close>, \<open>Server_Enrollment\<close>, \<open>Server_Agent\<close>, \<open>Server_Login\<close>: the files of
    \<^verbatim>\<open>internal/core\<close>, one definition per handler, and \<^verbatim>\<open>internal/idp\<close>.
  \<^item> \<open>Server_Wf\<close>, \<open>Server_Requests\<close>, \<open>Server_History\<close>: every request of both listeners as a step \<open>srv_step\<close>; the locales \<open>ordinary\<close>, \<open>served\<close> and
    \<open>regular\<close> lift an invariant of the statements to every handler, every request and every history.
  \<^item> \<open>Server_Props\<close>, \<open>Server_Session_Props\<close>, \<open>Server_Device_Props\<close>, \<open>Server_Result_Props\<close>, \<open>Server_Listing_Props\<close>, with \<open>Server_Examples\<close>: well-formed
    databases, authorisation, error behaviour, the audit log, sessions and sign-in, registration tokens, certificates, results, compliance
    and listings.
  \<^item> \<open>Server_Config\<close>, \<open>Server_Http\<close>: \<^verbatim>\<open>cmd/cadestro\<close> and \<^verbatim>\<open>internal/middleware\<close>, the configuration and its checks, the start of the process, the
    headers and the cross-origin rules of the public listener.

  \<^bold>\<open>Both together.\<close>
  \<^item> \<open>System_Connection\<close>: the goroutines of the client, the network and the server's stream handler as a step relation; an acknowledged result
    is stored, and no goroutine hangs.
  \<^item> \<open>System_Props\<close>: what is assigned reaches the agent, and a result leaves the agent only when the server has it or refused it.
  \<^item> \<open>System_Enrolment\<close>, \<open>System_Rotation\<close>, \<open>System_Agent_Examples\<close>: enrolment and rotation against the server's own handlers over a network
    that loses requests and answers (\<open>unreliable\<close>); at most one registration, no rotation locks a device out, and an agent
    reconnects in two turns.

  \<^bold>\<open>Parameters.\<close> What is not in the repository is an argument with named laws where a proof needs one: the protobuf codec and SHA-256
  (\<open>codec_laws\<close>), PEM and X.509 (\<open>x509_laws\<close> on the server, \<open>crypto_laws\<close> on the agent), JSON of the credentials (\<open>json_laws\<close>), JWT
  (\<open>jwt_laws\<close>), the OIDC library, \<^verbatim>\<open>url.Parse\<close>, \<^verbatim>\<open>time.ParseDuration\<close>, the schema rules of \<^verbatim>\<open>connectvalidate\<close>, the user database and the outcome of
  spawned processes. Each law that a property assumes is shown to hold of a concrete instance in the examples.

  \<^bold>\<open>Bounds.\<close> Fuel occurs twice: for the client that follows page tokens, where one more than the number of rows is shown to be enough,
  and for the depth of \<open>removeAtRecursive\<close>, where the height of the tree is. A path is resolved through at most 40 links, as in Linux.
  The session version is an unbounded integer, 32 bits in the code.

  \<^bold>\<open>Not modelled.\<close> The generated message accessors and the web interface; TLS handshakes, HTTP/2, timeouts of the listeners and the shutdown;
  the migrations as SQL text (their result is \<open>migrated_db\<close>); concurrent requests to one database beyond their serial order, which SQLite's single
  writer gives for transactions; changes of the file system by other processes in the middle of an operation; log output; the test doubles
  \<^verbatim>\<open>exectest\<close> and \<^verbatim>\<open>cryptotest\<close>.
\<close>

end
